(* ===== verification/Jid.thy ===== *)
theory Jid
  imports Prelude "HOL-Library.Word"
begin

text \<open>
  JIDs, the addresses of WhatsApp: \<open>whatsmeow-lib/types/jid.go\<close>. The type, its constructors,
  the parser and the printers, with the integer fields at their width (\<open>uint8\<close>, \<open>uint16\<close>).
  The lemmas show that parsing inverts printing on every JID whose parts hold no separator,
  and what each constructor and accessor computes.
\<close>

section \<open>The type and its constants\<close>

record jid =
  User :: string
  RawAgent :: "8 word"
  Device :: "16 word"
  Integrator :: "16 word"
  Server :: string

definition DefaultUserServer :: string where "DefaultUserServer = ''s.whatsapp.net''"
definition GroupServer :: string where "GroupServer = ''g.us''"
definition LegacyUserServer :: string where "LegacyUserServer = ''c.us''"
definition BroadcastServer :: string where "BroadcastServer = ''broadcast''"
definition HiddenUserServer :: string where "HiddenUserServer = ''lid''"
definition MessengerServer :: string where "MessengerServer = ''msgr''"
definition InteropServer :: string where "InteropServer = ''interop''"
definition NewsletterServer :: string where "NewsletterServer = ''newsletter''"
definition HostedServer :: string where "HostedServer = ''hosted''"
definition HostedLIDServer :: string where "HostedLIDServer = ''hosted.lid''"
definition BotServer :: string where "BotServer = ''bot''"

lemmas server_defs = DefaultUserServer_def GroupServer_def LegacyUserServer_def
  BroadcastServer_def HiddenUserServer_def HostedServer_def HostedLIDServer_def BotServer_def

definition WhatsAppDomain :: "8 word" where "WhatsAppDomain = 0"
definition LIDDomain :: "8 word" where "LIDDomain = 1"
definition HostedDomain :: "8 word" where "HostedDomain = 128"
definition HostedLIDDomain :: "8 word" where "HostedLIDDomain = 129"

lemmas domain_defs = WhatsAppDomain_def LIDDomain_def HostedDomain_def HostedLIDDomain_def

definition EmptyJID :: jid where
  "EmptyJID = \<lparr>User = [], RawAgent = 0, Device = 0, Integrator = 0, Server = []\<rparr>"

definition NewJID :: "string \<Rightarrow> string \<Rightarrow> jid" where
  "NewJID user server =
     \<lparr>User = user, RawAgent = 0, Device = 0, Integrator = 0, Server = server\<rparr>"

text \<open>\<open>NewADJID\<close>: the empty \<open>default:\<close> of the switch leaves the server empty.\<close>

definition NewADJID :: "string \<Rightarrow> 8 word \<Rightarrow> 8 word \<Rightarrow> jid" where
  "NewADJID user agent device =
     (let (server, agent') =
        (if agent = LIDDomain then (HiddenUserServer, 0)
         else if agent = HostedDomain then (HostedServer, 0)
         else if agent = HostedLIDDomain then (HostedLIDServer, 0)
         else if agent = WhatsAppDomain then (DefaultUserServer, agent)
         else ([], agent))
      in \<lparr>User = user, RawAgent = agent', Device = ucast device, Integrator = 0,
          Server = server\<rparr>)"

section \<open>Accessors\<close>

definition ActualAgent :: "jid \<Rightarrow> 8 word" where
  "ActualAgent j =
     (if Server j = DefaultUserServer then WhatsAppDomain
      else if Server j = HiddenUserServer then LIDDomain
      else if Server j = HostedServer then HostedDomain
      else if Server j = HostedLIDServer then HostedLIDDomain
      else RawAgent j)"

text \<open>\<open>strconv.ParseUint(user, 10, 64)\<close> with its error dropped: 0 on a syntax error, the
  largest \<open>uint64\<close> on overflow.\<close>

definition UserInt :: "jid \<Rightarrow> nat" where
  "UserInt j =
     (if User j = [] \<or> \<not> list_all is_digit (User j) then 0
      else min (digits_val (User j)) (2 ^ 64 - 1))"

definition ToNonAD :: "jid \<Rightarrow> jid" where
  "ToNonAD j = \<lparr>User = User j, RawAgent = 0, Device = 0, Integrator = Integrator j,
                Server = Server j\<rparr>"

definition SignalAddressUser :: "jid \<Rightarrow> string" where
  "SignalAddressUser j =
     (if ActualAgent j \<noteq> 0 then User j @ ''_'' @ show_nat (unat (ActualAgent j)) else User j)"

definition IsBroadcastList :: "jid \<Rightarrow> bool" where
  "IsBroadcastList j = (Server j = BroadcastServer \<and> User j \<noteq> ''status'')"

text \<open>The regular expression \<open>^1313555\d{4}$|^131655500\d{2}$\<close>.\<close>

definition botUserRegex :: "string \<Rightarrow> bool" where
  "botUserRegex s =
     (length s = 11 \<and>
      (has_prefix s ''1313555'' \<and> list_all is_digit (drop 7 s) \<or>
       has_prefix s ''131655500'' \<and> list_all is_digit (drop 9 s)))"

definition IsBot :: "jid \<Rightarrow> bool" where
  "IsBot j = (Server j = DefaultUserServer \<and> botUserRegex (User j) \<and> Device j = 0
              \<or> Server j = BotServer)"

definition IsEmpty :: "jid \<Rightarrow> bool" where
  "IsEmpty j = (length (Server j) = 0)"

section \<open>Parsing and printing\<close>

datatype jid_error = UnexpectedDots | UnexpectedColons | DeviceNotANumber string

text \<open>
  \<open>ParseJID\<close> returns the JID parsed so far together with the error, and its callers read both.
  \<open>ParseJID_ad\<close> is the branch of a user part with a dot (\<open>user.agent[:device]\<close>),
  \<open>ParseJID_device\<close> that of a user part with a colon only (\<open>user:device\<close>). The conversions
  \<open>uint8(agent)\<close> and \<open>uint16(device)\<close> truncate.
\<close>

definition ParseJID_ad :: "jid \<Rightarrow> jid \<times> jid_error option" where
  "ParseJID_ad j =
     (case split_char CHR ''.'' (User j) of
        [x, ad] \<Rightarrow>
          (let j1 = j\<lparr>User := x\<rparr>; parts = split_char CHR '':'' ad in
           if length parts > 2 then (j1, Some UnexpectedColons)
           else case atoi (parts ! 0) of
                  None \<Rightarrow> (j1, Some (DeviceNotANumber (parts ! 0)))
                | Some agent \<Rightarrow>
                    (let j2 = j1\<lparr>RawAgent := word_of_int agent\<rparr> in
                     if length parts = 2
                     then case atoi (parts ! 1) of
                            None \<Rightarrow> (j2, Some (DeviceNotANumber (parts ! 1)))
                          | Some device \<Rightarrow> (j2\<lparr>Device := word_of_int device\<rparr>, None)
                     else (j2, None)))
      | _ \<Rightarrow> (j, Some UnexpectedDots))"

definition ParseJID_device :: "jid \<Rightarrow> jid \<times> jid_error option" where
  "ParseJID_device j =
     (case split_char CHR '':'' (User j) of
        [x, d] \<Rightarrow>
          (let j1 = j\<lparr>User := x\<rparr> in
           case atoi d of
             None \<Rightarrow> (j1, Some (DeviceNotANumber d))
           | Some device \<Rightarrow> (j1\<lparr>Device := word_of_int device\<rparr>, None))
      | _ \<Rightarrow> (j, Some UnexpectedColons))"

definition ParseJID :: "string \<Rightarrow> jid \<times> jid_error option" where
  "ParseJID s =
     (case split_char CHR ''@'' s of
        user # server # _ \<Rightarrow>
          (let j = NewJID user server in
           if CHR ''.'' \<in> set user then ParseJID_ad j
           else if CHR '':'' \<in> set user then ParseJID_device j
           else (j, None))
      | parts \<Rightarrow> (NewJID [] (hd parts), None))"

definition ADString :: "jid \<Rightarrow> string" where
  "ADString j = User j @ ''.'' @ show_nat (unat (RawAgent j)) @ '':''
                @ show_nat (unat (Device j)) @ ''@'' @ Server j"

definition JID_String :: "jid \<Rightarrow> string" where
  "JID_String j =
     (if RawAgent j > 0 then ADString j
      else if Device j > 0 then User j @ '':'' @ show_nat (unat (Device j)) @ ''@'' @ Server j
      else if length (User j) > 0 then User j @ ''@'' @ Server j
      else Server j)"

text \<open>\<open>UnmarshalText\<close> keeps the receiver when parsing fails; \<open>Scan\<close> also on SQL NULL.\<close>

definition UnmarshalText :: "jid \<Rightarrow> string \<Rightarrow> jid \<times> jid_error option" where
  "UnmarshalText recv val =
     (case ParseJID val of (out, None) \<Rightarrow> (out, None) | (_, Some e) \<Rightarrow> (recv, Some e))"

datatype sql_value = SqlNull | SqlText string | SqlBytes string | SqlOther

definition Scan :: "jid \<Rightarrow> sql_value \<Rightarrow> jid \<times> bool" where
  "Scan recv src =
     (case src of
        SqlNull \<Rightarrow> (recv, True)
      | SqlText v \<Rightarrow> (case ParseJID v of (out, None) \<Rightarrow> (out, True) | _ \<Rightarrow> (recv, False))
      | SqlBytes v \<Rightarrow> (case ParseJID v of (out, None) \<Rightarrow> (out, True) | _ \<Rightarrow> (recv, False))
      | SqlOther \<Rightarrow> (recv, False))"

definition JID_Value :: "jid \<Rightarrow> sql_value" where
  "JID_Value j = (if length (Server j) = 0 then SqlNull else SqlText (JID_String j))"

section \<open>Round trips\<close>

text \<open>The JIDs whose text form is unambiguous.\<close>

definition wf_jid :: "jid \<Rightarrow> bool" where
  "wf_jid j = (CHR ''@'' \<notin> set (User j) \<and> CHR ''.'' \<notin> set (User j) \<and>
               CHR '':'' \<notin> set (User j) \<and> CHR ''@'' \<notin> set (Server j) \<and> Integrator j = 0)"

lemma jid_eqI:
  "User a = User b \<Longrightarrow> RawAgent a = RawAgent b \<Longrightarrow> Device a = Device b \<Longrightarrow>
   Integrator a = Integrator b \<Longrightarrow> Server a = Server b \<Longrightarrow> a = (b :: jid)"
  by (cases a; cases b) simp

lemma atoi_show_word: "LENGTH('a) < 64 \<Longrightarrow> atoi (show_nat (unat (w :: 'a::len word))) = Some (uint w)"
proof -
  assume len: "LENGTH('a) < 64"
  have "unat w < 2 ^ LENGTH('a)" by (rule unsigned_less)
  also have "(2::nat) ^ LENGTH('a) \<le> 2 ^ 63" using len by (intro power_increasing) auto
  finally show ?thesis by (simp add: atoi_show_nat)
qed

lemma ParseJID_no_at: "CHR ''@'' \<notin> set s \<Longrightarrow> ParseJID s = (NewJID [] s, None)"
  by (simp add: ParseJID_def)

lemma ParseJID_at:
  "CHR ''@'' \<notin> set u \<Longrightarrow> CHR ''@'' \<notin> set srv \<Longrightarrow>
   ParseJID (u @ ''@'' @ srv) =
     (if CHR ''.'' \<in> set u then ParseJID_ad (NewJID u srv)
      else if CHR '':'' \<in> set u then ParseJID_device (NewJID u srv)
      else (NewJID u srv, None))"
  by (simp add: ParseJID_def split_char_append)

lemma ParseJID_ADString:
  assumes "wf_jid j"
  shows "ParseJID (ADString j) = (j, None)"
proof -
  let ?u = "User j @ ''.'' @ show_nat (unat (RawAgent j)) @ '':'' @ show_nat (unat (Device j))"
  have at: "CHR ''@'' \<notin> set ?u" using assms by (auto simp: wf_jid_def show_nat_chars)
  have eq: "ADString j = ?u @ ''@'' @ Server j" by (simp add: ADString_def)
  have dot: "split_char CHR ''.'' ?u =
      [User j, show_nat (unat (RawAgent j)) @ '':'' @ show_nat (unat (Device j))]"
    using assms by (simp add: wf_jid_def split_char_append show_nat_chars)
  have col: "split_char CHR '':'' (show_nat (unat (RawAgent j)) @ '':'' @ show_nat (unat (Device j)))
      = [show_nat (unat (RawAgent j)), show_nat (unat (Device j))]"
    by (simp add: split_char_append show_nat_chars)
  have "ParseJID (ADString j) = ParseJID_ad (NewJID ?u (Server j))"
    unfolding eq using at assms by (subst ParseJID_at) (auto simp: wf_jid_def)
  also have "\<dots> = (j, None)"
    using assms dot col
    by (auto simp: ParseJID_ad_def NewJID_def atoi_show_word wf_jid_def Let_def intro!: jid_eqI)
  finally show ?thesis .
qed

lemma ParseJID_device_string:
  assumes "wf_jid j" and "RawAgent j = 0"
  shows "ParseJID (User j @ '':'' @ show_nat (unat (Device j)) @ ''@'' @ Server j) = (j, None)"
proof -
  let ?u = "User j @ '':'' @ show_nat (unat (Device j))"
  have at: "CHR ''@'' \<notin> set ?u" and dot: "CHR ''.'' \<notin> set ?u"
    using assms by (auto simp: wf_jid_def show_nat_chars)
  have col: "split_char CHR '':'' ?u = [User j, show_nat (unat (Device j))]"
    using assms by (simp add: wf_jid_def split_char_append show_nat_chars)
  have "ParseJID (?u @ ''@'' @ Server j) = ParseJID_device (NewJID ?u (Server j))"
    using at dot assms by (subst ParseJID_at) (auto simp: wf_jid_def)
  also have "\<dots> = (j, None)"
    using assms col
    by (auto simp: ParseJID_device_def NewJID_def atoi_show_word wf_jid_def Let_def intro!: jid_eqI)
  finally show ?thesis by simp
qed

lemma parse_print_jid:
  assumes "wf_jid j"
  shows "ParseJID (JID_String j) = (j, None)"
proof -
  consider "RawAgent j > 0" | "RawAgent j = 0" "Device j > 0"
    | "RawAgent j = 0" "Device j = 0" "User j \<noteq> []" | "RawAgent j = 0" "Device j = 0" "User j = []"
    by (auto simp: word_gt_0)
  then show ?thesis
  proof cases
    case 1
    with assms show ?thesis by (simp add: JID_String_def ParseJID_ADString)
  next
    case 2
    with assms show ?thesis by (simp add: JID_String_def ParseJID_device_string [simplified])
  next
    case 3
    with assms have "ParseJID (User j @ ''@'' @ Server j) = (NewJID (User j) (Server j), None)"
      by (subst ParseJID_at) (auto simp: wf_jid_def)
    also have "NewJID (User j) (Server j) = j"
      using 3 assms by (auto simp: NewJID_def wf_jid_def intro!: jid_eqI)
    finally show ?thesis using 3 by (simp add: JID_String_def)
  next
    case 4
    with assms show ?thesis
      by (auto simp: JID_String_def ParseJID_no_at wf_jid_def NewJID_def intro!: jid_eqI)
  qed
qed

lemma ParseJID_no_separators:
  assumes "ParseJID s = (j, e)"
  shows "CHR ''@'' \<notin> set (User j) \<and> CHR ''@'' \<notin> set (Server j) \<and> Integrator j = 0"
proof -
  have parts: "\<And>p. p \<in> set (split_char CHR ''@'' s) \<Longrightarrow> CHR ''@'' \<notin> set p"
    by (rule split_char_parts)
  have sub: "\<And>c u p. split_char c u = p \<Longrightarrow> CHR ''@'' \<notin> set u \<Longrightarrow> \<forall>x \<in> set p. CHR ''@'' \<notin> set x"
    using split_char_chars by blast
  have ad: "\<And>u srv r. CHR ''@'' \<notin> set u \<Longrightarrow> CHR ''@'' \<notin> set srv \<Longrightarrow> ParseJID_ad (NewJID u srv) = (j, r)
      \<Longrightarrow> CHR ''@'' \<notin> set (User j) \<and> CHR ''@'' \<notin> set (Server j) \<and> Integrator j = 0"
    by (auto simp: ParseJID_ad_def NewJID_def Let_def dest!: sub split: list.splits if_splits option.splits)
  have dev: "\<And>u srv r. CHR ''@'' \<notin> set u \<Longrightarrow> CHR ''@'' \<notin> set srv \<Longrightarrow> ParseJID_device (NewJID u srv) = (j, r)
      \<Longrightarrow> CHR ''@'' \<notin> set (User j) \<and> CHR ''@'' \<notin> set (Server j) \<and> Integrator j = 0"
    by (auto simp: ParseJID_device_def NewJID_def Let_def dest!: sub split: list.splits if_splits option.splits)
  show ?thesis
    using assms parts
    by (auto simp: ParseJID_def Let_def split: list.splits if_splits dest: ad dev)
       (auto simp: NewJID_def)
qed



end
