(* ===== verification/Numbers.thy ===== *)
theory Numbers
  imports Jid
begin

text \<open>
  Phone numbers and JID texts: the normalisation functions of \<open>pkg/utils/utils.go\<close>
  (\<open>CreateJID\<close>, \<open>formatMXOrARNumber\<close>, \<open>formatBRNumber\<close>, \<open>ParseJID\<close>,
  \<open>PrepareNumbersForWhatsAppCheck\<close>, the vCard writer and the user agent table) and
  \<open>cleanSenderID\<close> of \<open>pkg/whatsmeow/service/whatsmeow.go\<close>. \<open>strings.Map\<close> runs over runes:
  it drops every rune that is not a kept ASCII character, which on bytes is \<^const>\<open>filter\<close>,
  since no byte of a longer encoding is an ASCII character.
\<close>

section \<open>Normalising a number\<close>

definition jid_marker :: "string \<Rightarrow> bool" where
  "jid_marker number =
     (str_contains number ''@g.us'' \<or> str_contains number ''@s.whatsapp.net'' \<or>
      str_contains number ''@lid'' \<or> str_contains number ''@broadcast'')"

definition clean_number :: "string \<Rightarrow> string" where
  "clean_number number =
     hd (split_char CHR '':'' (remove_char CHR '')'' (remove_char CHR ''(''
           (remove_char CHR ''+'' (remove_char CHR '' '' number)))))"

definition group_chars :: "string \<Rightarrow> string" where
  "group_chars s = filter (\<lambda>r. is_digit r \<or> r = CHR ''-'') s"

definition digit_chars :: "string \<Rightarrow> string" where
  "digit_chars s = filter is_digit s"

definition formatMXOrARNumber :: "string \<Rightarrow> string" where
  "formatMXOrARNumber jid =
     (if length jid < 2 then jid
      else let countryCode = take 2 jid in
        if countryCode = ''52'' \<and> length jid = 13 then countryCode @ drop 4 jid
        else if countryCode = ''54'' \<and> length jid = 13 then countryCode @ drop 3 jid
        else jid)"

definition formatBRNumber :: "string \<Rightarrow> string" where
  "formatBRNumber jid =
     (if length jid \<noteq> 13 \<or> \<not> has_prefix jid ''55'' then jid
      else case atoi (take 2 (drop 2 jid)) of
             None \<Rightarrow> jid
           | Some dddNum \<Rightarrow>
               if dddNum < 11 \<or> dddNum > 99 then jid
               else if length jid < 6 then jid
               else case atoi (take 1 (drop 4 jid)) of
                      None \<Rightarrow> jid
                    | Some firstDigitNum \<Rightarrow>
                        if firstDigitNum \<ge> 7 \<and> dddNum \<ge> 31 then take 4 jid @ drop 5 jid
                        else jid)"

definition CreateJID :: "string \<Rightarrow> string result" where
  "CreateJID number =
     (if number = [] then Err ''number cannot be empty''
      else if jid_marker number then Ok number
      else let number1 = clean_number number in
        if CHR ''-'' \<in> set number1 \<and> length number1 \<ge> 24 then Ok (group_chars number1 @ ''@g.us'')
        else if length number1 \<ge> 18 then Ok (group_chars number1 @ ''@g.us'')
        else let number2 = digit_chars number1 in
          if number2 = [] then Err ''invalid number format''
          else let number3 = formatBRNumber (formatMXOrARNumber number2);
                   number4 = (if has_prefix number3 ''+'' then number3 else ''+'' @ number3)
               in Ok (number4 @ ''@s.whatsapp.net''))"

text \<open>\<open>utils.ParseJID\<close>: the JID and whether it is valid.\<close>

definition utils_ParseJID :: "string \<Rightarrow> jid \<times> bool" where
  "utils_ParseJID arg =
     (if arg = [] then (NewJID [] DefaultUserServer, False)
      else case CreateJID arg of
             Inl _ \<Rightarrow> (NewJID [] DefaultUserServer, False)
           | Inr jidString \<Rightarrow>
               (case ParseJID jidString of
                  (recipient, Some _) \<Rightarrow> (recipient, False)
                | (recipient, None) \<Rightarrow>
                    if User recipient = [] \<and> \<not> str_contains jidString ''@broadcast''
                    then (recipient, False) else (recipient, True)))"

section \<open>Preparing numbers for the registration check\<close>

definition prepare_one :: "string \<Rightarrow> string" where
  "prepare_one number =
     (let rawNumber = (if str_contains number ''@s.whatsapp.net''
                       then hd (split_char CHR ''@'' number) else number)
      in case CreateJID rawNumber of
           Inl _ \<Rightarrow> number
         | Inr normalizedJID \<Rightarrow>
             if str_contains normalizedJID ''@s.whatsapp.net''
             then hd (split_char CHR ''@'' normalizedJID)
             else normalizedJID)"

definition PrepareNumbersForWhatsAppCheck :: "string list \<Rightarrow> bool option \<Rightarrow> string list" where
  "PrepareNumbersForWhatsAppCheck numbers formatJid =
     (let shouldFormat = (case formatJid of None \<Rightarrow> True | Some b \<Rightarrow> b)
      in if shouldFormat then map prepare_one numbers else numbers)"

definition PrepareNumberForWhatsAppCheck :: "string \<Rightarrow> bool \<Rightarrow> string result" where
  "PrepareNumberForWhatsAppCheck phone formatJid =
     (case PrepareNumbersForWhatsAppCheck [phone] (Some formatJid) of
        [] \<Rightarrow> Err ''no valid number processed''
      | n # _ \<Rightarrow> Ok n)"

section \<open>Small helpers\<close>

definition Find :: "string list \<Rightarrow> string \<Rightarrow> bool" where
  "Find items val = list_ex (\<lambda>item. item = val) items"

definition cleanSenderID :: "string \<Rightarrow> string" where
  "cleanSenderID senderID =
     (case index_char CHR '':'' senderID of
        None \<Rightarrow> senderID
      | Some colonIndex \<Rightarrow>
          (case index_char CHR ''@'' senderID of
             None \<Rightarrow> senderID
           | Some atIndex \<Rightarrow>
               if colonIndex < atIndex then take colonIndex senderID @ drop atIndex senderID
               else senderID))"

record VCardStruct =
  FullName :: string
  Organization :: string
  Phone :: string

definition nl :: string where "nl = [CHR 0x0A]"

definition GenerateVC :: "VCardStruct \<Rightarrow> string" where
  "GenerateVC data =
     nl @ ''BEGIN:VCARD'' @ nl @ ''VERSION:3.0'' @ nl @ ''FN:'' @ FullName data @ nl
     @ ''ORG:'' @ Organization data @ '';'' @ nl
     @ ''TEL;type=CELL;type=VOICE;waid='' @ Phone data @ '':'' @ Phone data @ nl
     @ ''END:VCARD''"

datatype PlatformType = UNKNOWN | CHROME | FIREFOX | IE | OPERA | SAFARI | EDGE | DESKTOP | IPAD
  | ANDROID_TABLET | ALOHA | CATALINA | TCL_TV | IOS_PHONE | IOS_CATALYST | ANDROID_PHONE
  | ANDROID_AMBIGUOUS | WEAR_OS | UWP

definition WhatsAppGetUserAgent :: "string \<Rightarrow> PlatformType" where
  "WhatsAppGetUserAgent agentType =
     (let a = to_lower agentType in
      if a = ''desktop'' then DESKTOP
      else if a = ''mac'' then CATALINA
      else if a = ''android'' then ANDROID_AMBIGUOUS
      else if a = ''android-phone'' then ANDROID_PHONE
      else if a = ''andorid-tablet'' then ANDROID_TABLET
      else if a = ''ios-phone'' then IOS_PHONE
      else if a = ''ios-catalyst'' then IOS_CATALYST
      else if a = ''ipad'' then IPAD
      else if a = ''wearos'' then WEAR_OS
      else if a = ''ie'' then IE
      else if a = ''edge'' then EDGE
      else if a = ''chrome'' then CHROME
      else if a = ''safari'' then SAFARI
      else if a = ''firefox'' then FIREFOX
      else if a = ''opera'' then OPERA
      else if a = ''uwp'' then UWP
      else if a = ''aloha'' then ALOHA
      else if a = ''tv-tcl'' then TCL_TV
      else UNKNOWN)"

section \<open>Shape of the formatted numbers\<close>

lemma formatMX_cases:
  "formatMXOrARNumber s = s \<or>
   (length s = 13 \<and> (formatMXOrARNumber s = take 2 s @ drop 4 s \<or>
                     formatMXOrARNumber s = take 2 s @ drop 3 s))"
  by (auto simp: formatMXOrARNumber_def Let_def)

lemma formatMX_fixed: "length s \<noteq> 13 \<Longrightarrow> formatMXOrARNumber s = s"
  by (simp add: formatMXOrARNumber_def Let_def)

lemma formatMX_length: "length (formatMXOrARNumber s) \<le> length s"
  by (simp add: formatMXOrARNumber_def Let_def)

lemma formatMX_not_13:
  "length (formatMXOrARNumber s) = 13 \<Longrightarrow> formatMXOrARNumber s = s \<and> length s = 13"
  by (auto simp: formatMXOrARNumber_def Let_def split: if_splits)

lemma formatMX_nonempty: "s \<noteq> [] \<Longrightarrow> formatMXOrARNumber s \<noteq> []"
  by (auto simp: formatMXOrARNumber_def Let_def split: if_splits)

lemma formatMX_set: "set (formatMXOrARNumber s) \<subseteq> set s"
  using formatMX_cases [of s] by (auto dest: in_set_takeD in_set_dropD)

lemma formatBR_cases:
  "formatBRNumber s = s \<or> (length s = 13 \<and> formatBRNumber s = take 4 s @ drop 5 s)"
  by (auto simp: formatBRNumber_def split: option.splits)

lemma formatBR_length: "length (formatBRNumber s) \<le> length s"
  using formatBR_cases [of s] by auto

lemma formatBR_nonempty: "s \<noteq> [] \<Longrightarrow> formatBRNumber s \<noteq> []"
  using formatBR_cases [of s] by auto

lemma formatBR_set: "set (formatBRNumber s) \<subseteq> set s"
  using formatBR_cases [of s] by (auto dest: in_set_takeD in_set_dropD)

lemma formatMX_idem: "formatMXOrARNumber (formatMXOrARNumber s) = formatMXOrARNumber s"
proof -
  consider "formatMXOrARNumber s = s" | "length (formatMXOrARNumber s) \<noteq> 13"
    using formatMX_cases [of s] by auto
  then show ?thesis by cases (simp_all add: formatMX_fixed)
qed

lemma formatBR_idem: "formatBRNumber (formatBRNumber s) = formatBRNumber s"
  using formatBR_cases [of s] by (auto simp: formatBRNumber_def [of "take 4 s @ drop 5 s"])

text \<open>The national rules do not interact: a second pass of both changes nothing.\<close>

definition national_format :: "string \<Rightarrow> string" where
  "national_format s = formatBRNumber (formatMXOrARNumber s)"

lemma national_format_idem: "national_format (national_format s) = national_format s"
proof -
  let ?m = "formatMXOrARNumber s"
  consider "formatBRNumber ?m = ?m" | "length ?m = 13" "formatBRNumber ?m = take 4 ?m @ drop 5 ?m"
    using formatBR_cases by blast
  then show ?thesis
  proof cases
    case 1
    then show ?thesis by (simp add: national_format_def formatMX_idem)
  next
    case 2
    then have "formatMXOrARNumber (formatBRNumber ?m) = formatBRNumber ?m"
      by (intro formatMX_fixed) simp
    then show ?thesis by (simp add: national_format_def formatBR_idem)
  qed
qed

lemma national_format_digits:
  "list_all is_digit s \<Longrightarrow> list_all is_digit (national_format s)"
  using formatMX_set [of s] formatBR_set [of "formatMXOrARNumber s"]
  by (auto simp: national_format_def list_all_iff)

lemma national_format_nonempty: "s \<noteq> [] \<Longrightarrow> national_format s \<noteq> []"
  by (simp add: national_format_def formatMX_nonempty formatBR_nonempty)

lemma national_format_length: "length (national_format s) \<le> length s"
  unfolding national_format_def
  using formatMX_length [of s] formatBR_length [of "formatMXOrARNumber s"] by linarith

section \<open>Shape of the created JID texts\<close>

lemma digit_chars_digits [simp]: "list_all is_digit (digit_chars s)"
  by (simp add: digit_chars_def list_all_iff)

lemma digit_chars_id: "list_all is_digit s \<Longrightarrow> digit_chars s = s"
  by (simp add: digit_chars_def list_all_iff)

lemma digits_no_plus: "list_all is_digit s \<Longrightarrow> \<not> has_prefix s ''+''"
  by (cases s) (auto simp: has_prefix_def)

lemma digits_chars_free:
  "list_all is_digit s \<Longrightarrow> \<not> is_digit c \<Longrightarrow> c \<notin> set s"
  by (auto simp: list_all_iff)

text \<open>The phone branch in one equation.\<close>

lemma CreateJID_phone:
  assumes "number \<noteq> []" and "\<not> jid_marker number" and "length (clean_number number) < 18"
    and "digit_chars (clean_number number) \<noteq> []"
  shows "CreateJID number =
         Ok (''+'' @ national_format (digit_chars (clean_number number)) @ ''@s.whatsapp.net'')"
proof -
  let ?n = "formatBRNumber (formatMXOrARNumber (digit_chars (clean_number number)))"
  have "list_all is_digit ?n"
    using national_format_digits [OF digit_chars_digits] by (simp add: national_format_def)
  then have "\<not> has_prefix ?n ''+''" by (rule digits_no_plus)
  with assms show ?thesis by (simp add: CreateJID_def Let_def national_format_def)
qed

lemma CreateJID_cases:
  assumes "CreateJID number = Ok j"
  obtains (already) "j = number" "number \<noteq> []" "jid_marker number"
  | (group_id) "\<not> jid_marker number" "length (clean_number number) \<ge> 18"
      "j = group_chars (clean_number number) @ ''@g.us''"
  | (phone) "\<not> jid_marker number" "length (clean_number number) < 18"
      "digit_chars (clean_number number) \<noteq> []"
      "j = ''+'' @ national_format (digit_chars (clean_number number)) @ ''@s.whatsapp.net''"
proof -
  have ne: "number \<noteq> []" using assms by (auto simp: CreateJID_def)
  show thesis
  proof (cases "jid_marker number")
    case True
    with assms ne already show thesis by (auto simp: CreateJID_def)
  next
    case False
    show thesis
    proof (cases "length (clean_number number) \<ge> 18")
      case True
      with False assms ne group_id show thesis
        by (auto simp: CreateJID_def Let_def split: if_splits)
    next
      case short: False
      with False assms ne have "digit_chars (clean_number number) \<noteq> []"
        by (auto simp: CreateJID_def Let_def split: if_splits)
      with short False assms ne phone show thesis by (auto simp: CreateJID_phone)
    qed
  qed
qed

lemma CreateJID_marker:
  assumes "CreateJID number = Ok j"
  shows "jid_marker j"
  using assms
proof (cases rule: CreateJID_cases)
  case already
  then show ?thesis by simp
next
  case group_id
  then show ?thesis by (auto simp: jid_marker_def)
next
  case phone
  have "str_contains (''+'' @ national_format (digit_chars (clean_number number)) @ ''@s.whatsapp.net'')
        ''@s.whatsapp.net''"
    by (metis append_assoc str_contains_append(3))
  with phone show ?thesis by (simp add: jid_marker_def)
qed

lemma CreateJID_fixed: "jid_marker j \<Longrightarrow> CreateJID j = Ok j"
  by (auto simp: CreateJID_def jid_marker_def)

lemma not_jid_marker: "CHR ''@'' \<notin> set s \<Longrightarrow> \<not> jid_marker s"
  by (auto simp: jid_marker_def dest!: str_contains_set)

section \<open>Numbers that are already digits\<close>

lemma remove_char_id: "c \<notin> set s \<Longrightarrow> remove_char c s = s"
  by (auto simp: remove_char_def filter_id_conv)

lemma clean_number_digits:
  assumes "list_all is_digit s"
  shows "clean_number s = s" and "clean_number (CHR ''+'' # s) = s"
proof -
  have free: "CHR '':'' \<notin> set s" "CHR '' '' \<notin> set s" "CHR ''+'' \<notin> set s" "CHR ''('' \<notin> set s"
    "CHR '')'' \<notin> set s"
    using assms by (auto simp: list_all_iff)
  then show eq: "clean_number s = s" by (simp add: clean_number_def remove_char_id)
  have "remove_char CHR ''+'' (remove_char CHR '' '' (CHR ''+'' # s)) = s"
    using free by (auto simp: remove_char_def filter_id_conv)
  then show "clean_number (CHR ''+'' # s) = s"
    using free by (simp add: clean_number_def remove_char_id)
qed

lemma CreateJID_plus_digits:
  assumes "ds \<noteq> []" and "list_all is_digit ds" and "length ds < 18"
  shows "CreateJID (''+'' @ ds) = Ok (''+'' @ national_format ds @ ''@s.whatsapp.net'')"
proof -
  have "CHR ''@'' \<notin> set (''+'' @ ds)" using assms(2) by (auto simp: list_all_iff)
  then have "\<not> jid_marker (''+'' @ ds)" by (rule not_jid_marker)
  with assms show ?thesis
    by (subst CreateJID_phone) (simp_all add: clean_number_digits digit_chars_id)
qed

lemma split_at_phone:
  assumes "list_all is_digit ds"
  shows "split_char CHR ''@'' (''+'' @ ds @ ''@s.whatsapp.net'') = [''+'' @ ds, ''s.whatsapp.net'']"
proof -
  have "CHR ''@'' \<notin> set (''+'' @ ds)" using assms by (auto simp: list_all_iff)
  from split_char_append [OF this, of "''s.whatsapp.net''"] show ?thesis by simp
qed


section \<open>Preparing a number\<close>

lemma prepare_one_phone:
  assumes "ds \<noteq> []" and "list_all is_digit ds" and "length ds < 18"
  shows "prepare_one (''+'' @ ds) = ''+'' @ national_format ds"
proof -
  have "CHR ''@'' \<notin> set (''+'' @ ds)" using assms(2) by (auto simp: list_all_iff)
  then have no: "\<not> str_contains (''+'' @ ds) ''@s.whatsapp.net''"
    by (intro str_contains_missing [of "CHR ''@''"]) auto
  have yes: "str_contains (''+'' @ national_format ds @ ''@s.whatsapp.net'') ''@s.whatsapp.net''"
    by (metis append_assoc str_contains_append(3))
  show ?thesis
    unfolding prepare_one_def
    using no yes CreateJID_plus_digits [OF assms] split_at_phone [OF national_format_digits [OF assms(2)]]
    by simp
qed

lemma group_text_plain: "\<not> str_contains (group_chars s @ ''@g.us'') ''@s.whatsapp.net''"
  by (intro str_contains_missing [of "CHR ''w''"]) (auto simp: group_chars_def is_digit_def)

lemma prepare_one_fixed:
  assumes "jid_marker j" and "\<not> str_contains j ''@s.whatsapp.net''"
  shows "prepare_one j = j"
  using assms by (simp add: prepare_one_def CreateJID_fixed)

lemma prepare_one_cases:
  obtains (same) "prepare_one n = n"
  | (phone) ds where "ds \<noteq> []" "list_all is_digit ds" "length ds < 18"
      "prepare_one n = ''+'' @ national_format ds"
  | (group_id) s where "prepare_one n = group_chars s @ ''@g.us''"
proof -
  let ?raw = "if str_contains n ''@s.whatsapp.net'' then hd (split_char CHR ''@'' n) else n"
  have raw: "str_contains n ''@s.whatsapp.net'' \<Longrightarrow> \<not> jid_marker ?raw"
    using split_char_parts [of "hd (split_char CHR ''@'' n)" "CHR ''@''" n]
    by (simp add: not_jid_marker)
  show thesis
  proof (cases "CreateJID ?raw")
    case (Inl e)
    then have "prepare_one n = n" by (simp add: prepare_one_def Let_def)
    then show thesis by (rule same)
  next
    case (Inr j)
    then show thesis
    proof (cases rule: CreateJID_cases)
      case already
      with raw have "\<not> str_contains n ''@s.whatsapp.net''" by auto
      with already Inr have "prepare_one n = n" by (simp add: prepare_one_def)
      then show thesis by (rule same)
    next
      case group_id': group_id
      with Inr group_text_plain have "prepare_one n = group_chars (clean_number ?raw) @ ''@g.us''"
        by (simp add: prepare_one_def Let_def)
      then show thesis by (rule group_id)
    next
      case phone': phone
      let ?ds = "digit_chars (clean_number ?raw)"
      have "length ?ds \<le> length (clean_number ?raw)" by (simp add: digit_chars_def)
      with phone' have len: "length ?ds < 18" by linarith
      have "str_contains j ''@s.whatsapp.net''"
        using phone'(4) by (metis append_assoc str_contains_append(3))
      with Inr phone'(4) split_at_phone [OF national_format_digits [OF digit_chars_digits]]
      have "prepare_one n = ''+'' @ national_format ?ds" by (simp add: prepare_one_def Let_def)
      with phone'(3) len show thesis by (intro phone) auto
    qed
  qed
qed

lemma prepare_one_idem: "prepare_one (prepare_one n) = prepare_one n"
proof (cases n rule: prepare_one_cases)
  case same
  then show ?thesis by simp
next
  case (phone ds)
  have "length (national_format ds) < 18" using national_format_length [of ds] phone(3) by linarith
  with phone have "prepare_one (''+'' @ national_format ds) = ''+'' @ national_format (national_format ds)"
    by (intro prepare_one_phone national_format_nonempty national_format_digits)
  then show ?thesis by (simp only: phone(4) national_format_idem)
next
  case (group_id s)
  have "jid_marker (group_chars s @ ''@g.us'')" by (auto simp: jid_marker_def)
  with group_id group_text_plain show ?thesis by (simp add: prepare_one_fixed)
qed

section \<open>Properties\<close>

text \<open>C17: Normalisation is idempotent: a created JID text is accepted as it is, so a number may
  pass through any number of middlewares and services that each normalise it.\<close>

theorem create_jid_idempotent:
  assumes "CreateJID number = Ok j"
  shows "CreateJID j = Ok j"
  using assms by (intro CreateJID_fixed CreateJID_marker)

theorem create_jid_idempotent_witness:
  "CreateJID ''+55 (31) 98765-4321'' = Ok ''+553187654321@s.whatsapp.net'' \<and>
   CreateJID ''+553187654321@s.whatsapp.net'' = Ok ''+553187654321@s.whatsapp.net''"
proof -
  have h: "CreateJID ''+55 (31) 98765-4321'' = Ok ''+553187654321@s.whatsapp.net''" by code_simp
  with create_jid_idempotent [OF h] show ?thesis by simp
qed

text \<open>What normalisation produces: a text that is not a JID yet becomes a group id of digits
  and hyphens only, or a plus sign, 1 to 17 digits and the user server.\<close>

theorem create_jid_shape:
  assumes "CreateJID number = Ok j" and "\<not> jid_marker number"
  shows "(\<exists>g. list_all (\<lambda>r. is_digit r \<or> r = CHR ''-'') g \<and> j = g @ ''@g.us'') \<or>
         (\<exists>ds. ds \<noteq> [] \<and> list_all is_digit ds \<and> length ds \<le> 17 \<and>
               j = ''+'' @ ds @ ''@s.whatsapp.net'')"
  using assms(1)
proof (cases rule: CreateJID_cases)
  case already
  with assms(2) show ?thesis by simp
next
  case group_id
  then have "list_all (\<lambda>r. is_digit r \<or> r = CHR ''-'') (group_chars (clean_number number))"
    by (simp add: group_chars_def list_all_iff)
  with group_id show ?thesis by blast
next
  case phone
  let ?ds = "digit_chars (clean_number number)"
  have "length ?ds \<le> length (clean_number number)" by (simp add: digit_chars_def)
  with phone have "length (national_format ?ds) \<le> 17"
    using national_format_length [of ?ds] by linarith
  with phone show ?thesis
    by (intro disjI2 exI [of _ "national_format ?ds"])
       (simp add: national_format_nonempty national_format_digits)
qed

theorem create_jid_shape_witness:
  "(\<exists>g. list_all (\<lambda>r. is_digit r \<or> r = CHR ''-'') g \<and>
        ''+5551234567890@s.whatsapp.net'' = g @ ''@g.us'') \<or>
   (\<exists>ds. ds \<noteq> [] \<and> list_all is_digit ds \<and> length ds \<le> 17 \<and>
        ''+5551234567890@s.whatsapp.net'' = ''+'' @ ds @ ''@s.whatsapp.net'')"
proof -
  have "CreateJID ''+55 (51) 234-567890:7'' = Ok ''+5551234567890@s.whatsapp.net''"
    and "\<not> jid_marker ''+55 (51) 234-567890:7''" by code_simp+
  then show ?thesis by (rule create_jid_shape)
qed

text \<open>Exactly which inputs are refused: the empty text, and a text of fewer than 18 bytes
  (after cleaning) that names no JID server and holds no digit.\<close>

theorem create_jid_error_iff:
  "is_ok (CreateJID number) \<longleftrightarrow>
   number \<noteq> [] \<and> (jid_marker number \<or> length (clean_number number) \<ge> 18 \<or>
                  (\<exists>c \<in> set (clean_number number). is_digit c))"
  by (auto simp: CreateJID_def Let_def digit_chars_def filter_empty_conv)

text \<open>Brazilian mobile numbers from area code 31 on have one JID: the spelling with the ninth
  digit and the one without it are normalised to the same text.\<close>

theorem brazil_ninth_digit:
  assumes "is_digit d1" and "is_digit d2" and "10 * digit_val d1 + digit_val d2 \<ge> 31"
    and "is_digit d9" and "digit_val d9 \<ge> 7" and "length rest = 8" and "list_all is_digit rest"
  shows "CreateJID (''55'' @ [d1, d2, d9] @ rest) = CreateJID (''55'' @ [d1, d2] @ rest)"
proof -
  let ?long = "''55'' @ [d1, d2, d9] @ rest" and ?short = "''55'' @ [d1, d2] @ rest"
  have digits: "list_all is_digit ?long" "list_all is_digit ?short"
    using assms by (auto simp: is_digit_def)
  then have at: "CHR ''@'' \<notin> set ?long" "CHR ''@'' \<notin> set ?short"
    by (auto simp: list_all_iff)
  have v: "digits_val [d1, d2] = 10 * digit_val d1 + digit_val d2" "digits_val [d9] = digit_val d9"
    by (simp_all add: digits_val_def)
  have "10 * digit_val d1 + digit_val d2 < 100" "digit_val d9 < 10"
    using assms digit_val_less [of d1] digit_val_less [of d2] digit_val_less [of d9] by linarith+
  then have ddd: "atoi [d1, d2] = Some (int (10 * digit_val d1 + digit_val d2))"
    and first: "atoi [d9] = Some (int (digit_val d9))"
    using assms v by (simp_all add: atoi_digits)
  have long: "national_format ?long = ?short"
    using assms ddd first v digit_val_less [of d1] digit_val_less [of d2]
    by (simp add: national_format_def formatMXOrARNumber_def formatBRNumber_def has_prefix_def
        numeral_eq_Suc)
  have short: "national_format ?short = ?short"
    using assms by (simp add: national_format_def formatMXOrARNumber_def formatBRNumber_def)
  have "CreateJID s = Ok (''+'' @ national_format s @ ''@s.whatsapp.net'')"
    if "s \<in> {?long, ?short}" for s
    using that digits at assms
    by (subst CreateJID_phone) (auto simp: not_jid_marker clean_number_digits digit_chars_id)
  then have "CreateJID ?long = Ok (''+'' @ national_format ?long @ ''@s.whatsapp.net'')"
    and "CreateJID ?short = Ok (''+'' @ national_format ?short @ ''@s.whatsapp.net'')" by blast+
  then show ?thesis unfolding long short by simp
qed

theorem brazil_ninth_digit_witness:
  "CreateJID ''5531987654321'' = CreateJID ''553187654321''"
  using brazil_ninth_digit [of "CHR ''3''" "CHR ''1''" "CHR ''9''" "''87654321''"]
  by (simp add: is_digit_def digit_val_def)

lemma utils_ParseJID_phone:
  assumes "number \<noteq> []" and "\<not> jid_marker number" and "length (clean_number number) < 18"
    and "digit_chars (clean_number number) \<noteq> []"
  shows "utils_ParseJID number =
         (NewJID (''+'' @ national_format (digit_chars (clean_number number))) DefaultUserServer, True)"
proof -
  let ?ds = "national_format (digit_chars (clean_number number))"
  have digits: "list_all is_digit ?ds" by (rule national_format_digits) simp
  have free: "CHR ''@'' \<notin> set (''+'' @ ?ds)" "CHR ''.'' \<notin> set (''+'' @ ?ds)"
    "CHR '':'' \<notin> set (''+'' @ ?ds)"
    using digits by (auto simp: list_all_iff)
  have "ParseJID ((''+'' @ ?ds) @ ''@'' @ ''s.whatsapp.net'')
        = (NewJID (''+'' @ ?ds) ''s.whatsapp.net'', None)"
    using free by (subst ParseJID_at) auto
  with assms show ?thesis
    by (simp add: utils_ParseJID_def CreateJID_phone NewJID_def DefaultUserServer_def)
qed

text \<open>\<open>utils.ParseJID\<close> on a phone number in any of the accepted spellings: the user part is the
  plus sign and the nationally formatted digits, the server is the user server, and the number
  counts as valid.\<close>

theorem utils_parse_phone:
  assumes "number \<noteq> []" and "\<not> jid_marker number" and "length (clean_number number) < 18"
    and "digit_chars (clean_number number) \<noteq> []"
  shows "utils_ParseJID number =
         (NewJID (''+'' @ national_format (digit_chars (clean_number number))) DefaultUserServer, True)"
  using assms by (rule utils_ParseJID_phone)

theorem utils_parse_phone_witness:
  "utils_ParseJID ''(11) 5555-0000'' = (NewJID ''+1155550000'' DefaultUserServer, True)"
proof -
  have "''(11) 5555-0000'' \<noteq> ([] :: string)" "\<not> jid_marker ''(11) 5555-0000''"
    "length (clean_number ''(11) 5555-0000'') < 18"
    "digit_chars (clean_number ''(11) 5555-0000'') \<noteq> []" by code_simp+
  note utils_parse_phone [OF this]
  moreover have "national_format (digit_chars (clean_number ''(11) 5555-0000'')) = ''1155550000''"
    by code_simp
  ultimately show ?thesis by simp
qed

text \<open>Preparing a batch of numbers for the registration check keeps their count and order,
  normalises each one on its own, never fails, and a second pass changes nothing.\<close>

theorem prepare_numbers_pointwise_idempotent:
  "length (PrepareNumbersForWhatsAppCheck ns f) = length ns \<and>
   PrepareNumbersForWhatsAppCheck (ms @ ns) f =
     PrepareNumbersForWhatsAppCheck ms f @ PrepareNumbersForWhatsAppCheck ns f \<and>
   PrepareNumbersForWhatsAppCheck (PrepareNumbersForWhatsAppCheck ns f) f =
     PrepareNumbersForWhatsAppCheck ns f \<and>
   PrepareNumberForWhatsAppCheck n b = Ok (if b then prepare_one n else n)"
  by (simp add: PrepareNumbersForWhatsAppCheck_def PrepareNumberForWhatsAppCheck_def prepare_one_idem
      split: option.splits)

text \<open>\<open>cleanSenderID\<close> on the text of a device JID gives the text of the same JID without its
  device: the textual cleaning implements \<open>ToNonAD\<close>.\<close>

lemma cleaned_text:
  assumes "wf_jid j" and "RawAgent j = 0" and "User j \<noteq> []" and "CHR '':'' \<notin> set (Server j)"
  shows "cleanSenderID (JID_String j) = JID_String (ToNonAD j)"
proof (cases "Device j = 0")
  case True
  with assms have "CHR '':'' \<notin> set (JID_String j)" by (auto simp: JID_String_def wf_jid_def)
  then have "cleanSenderID (JID_String j) = JID_String j"
    by (simp add: cleanSenderID_def index_char_None [THEN iffD2])
  with True assms show ?thesis by (simp add: JID_String_def ToNonAD_def)
next
  case False
  let ?d = "show_nat (unat (Device j))"
  have s: "JID_String j = User j @ CHR '':'' # ?d @ CHR ''@'' # Server j"
    using False assms by (simp add: JID_String_def word_gt_0)
  have at: "CHR ''@'' \<notin> set (User j @ CHR '':'' # ?d)"
    using assms show_nat_chars by (auto simp: wf_jid_def)
  have "index_char CHR '':'' (JID_String j) = Some (length (User j))"
    unfolding s using assms by (simp add: index_char_append wf_jid_def)
  moreover have "index_char CHR ''@'' (JID_String j) = Some (length (User j @ CHR '':'' # ?d))"
    unfolding s using index_char_append [OF at, of "Server j"] by simp
  ultimately have "cleanSenderID (JID_String j) =
      take (length (User j)) (JID_String j) @ drop (length (User j @ CHR '':'' # ?d)) (JID_String j)"
    by (simp add: cleanSenderID_def)
  also have "\<dots> = User j @ CHR ''@'' # Server j" unfolding s by simp
  finally show ?thesis using assms by (simp add: JID_String_def ToNonAD_def)
qed

lemma cleaned_text_sample:
  "cleanSenderID ''557499879409:3@s.whatsapp.net'' = ''557499879409@s.whatsapp.net''"
proof -
  let ?j = "\<lparr>User = ''557499879409'', RawAgent = 0, Device = 3, Integrator = 0,
              Server = ''s.whatsapp.net''\<rparr>"
  have "cleanSenderID (JID_String ?j) = JID_String (ToNonAD ?j)"
    by (rule cleaned_text) (simp_all add: wf_jid_def)
  moreover have "JID_String ?j = ''557499879409:3@s.whatsapp.net''"
    by code_simp
  ultimately show ?thesis by (simp add: JID_String_def ToNonAD_def)
qed

end
