(* ===== verification/InstanceModel.thy ===== *)
theory InstanceModel
  imports Prelude
begin

text \<open>
  The data the components share: JSON values as \<open>encoding/json\<close> decodes them into
  \<open>map[string]interface{}\<close>, and the instance row of \<open>pkg/instance/model/instance_model.go\<close>
  with its advanced settings. Times are \<^typ>\<open>int\<close> (nanoseconds since the epoch).
\<close>

section \<open>JSON values\<close>

datatype json = JNull | JBool bool | JNum int | JStr string | JArr "json list"
  | JObj "string \<Rightarrow> json option"

type_synonym json_object = "string \<Rightarrow> json option"

text \<open>The type assertion \<open>value.(string)\<close>: the text and whether it is one.\<close>

definition as_string :: "json \<Rightarrow> string \<times> bool" where
  "as_string v = (case v of JStr s \<Rightarrow> (s, True) | _ \<Rightarrow> ([], False))"

lemma as_string_simps [simp]:
  "as_string (JStr s) = (s, True)" "as_string JNull = ([], False)" "as_string (JBool b) = ([], False)"
  "as_string (JNum n) = ([], False)" "as_string (JArr xs) = ([], False)" "as_string (JObj m) = ([], False)"
  by (simp_all add: as_string_def)

lemma as_string_nonempty: "as_string v = (s, ok) \<Longrightarrow> s \<noteq> [] \<Longrightarrow> v = JStr s \<and> ok"
  by (cases v) auto

section \<open>Instances\<close>

record AdvancedSettings =
  asAlwaysOnline :: bool
  asRejectCall :: bool
  asMsgRejectCall :: string
  asReadMessages :: bool
  asIgnoreGroups :: bool
  asIgnoreStatus :: bool

record Instance =
  iId :: string
  iName :: string
  iToken :: string
  iWebhook :: string
  iRabbitmqEnable :: string
  iWebSocketEnable :: string
  iNatsEnable :: string
  iJid :: string
  iQrcode :: string
  iConnected :: bool
  iExpiration :: int
  iDisconnectReason :: string
  iEvents :: string
  iOsName :: string
  iProxy :: string
  iClientName :: string
  iCreatedAt :: int
  iSettings :: AdvancedSettings

definition zeroSettings :: AdvancedSettings where
  "zeroSettings = \<lparr>asAlwaysOnline = False, asRejectCall = False, asMsgRejectCall = [],
     asReadMessages = False, asIgnoreGroups = False, asIgnoreStatus = False\<rparr>"

definition zeroInstance :: Instance where
  "zeroInstance = \<lparr>iId = [], iName = [], iToken = [], iWebhook = [], iRabbitmqEnable = [],
     iWebSocketEnable = [], iNatsEnable = [], iJid = [], iQrcode = [], iConnected = False,
     iExpiration = 0, iDisconnectReason = [], iEvents = [], iOsName = [], iProxy = [],
     iClientName = [], iCreatedAt = 0, iSettings = zeroSettings\<rparr>"

text \<open>\<open>Instance.BeforeCreate\<close>: an empty id is replaced by a fresh UUID.\<close>

definition BeforeCreate :: "string \<Rightarrow> Instance \<Rightarrow> Instance" where
  "BeforeCreate newUUID m = (if iId m = [] then m\<lparr>iId := newUUID\<rparr> else m)"

end
