(* ===== verification/Middleware.thy ===== *)
theory Middleware
  imports Numbers InstanceModel
begin

text \<open>
  The request middleware of \<open>pkg/middleware/jid_validation_middleware.go\<close>: the seven
  validators that sit between the router and the handlers and normalise the phone numbers of a
  JSON body. A request body is modelled by what \<open>io.ReadAll\<close> and \<open>json.Unmarshal\<close> make of it
  (unreadable, not a JSON object, or the decoded object), and a middleware by the response it
  aborts with or the request it passes on; \<open>json.Marshal\<close> of a decoded object does not fail,
  so the code's 500 branch has no counterpart. The lemmas show what a request looks like after
  it passed, that the validators are idempotent, and how they relate to each other.
\<close>

section \<open>Requests\<close>

datatype body = BodyUnreadable | BodyInvalid | BodyObject json_object

record request =
  contentType :: string
  reqBody :: body
  postForm :: "string \<Rightarrow> string"

type_synonym abort = "nat \<times> string"

text \<open>\<open>c.JSON(status, error); c.Abort()\<close>, or \<open>c.Next()\<close> with the request seen downstream.\<close>

type_synonym mw_result = "abort + request"

abbreviation AbortWith :: "nat \<Rightarrow> string \<Rightarrow> abort + 'a" where
  "AbortWith status msg \<equiv> Inl (status, msg)"

abbreviation Next :: "request \<Rightarrow> mw_result" where
  "Next \<equiv> Inr"

text \<open>\<open>utils.CreateJID\<close> with the 400 response of its failure.\<close>

definition normalize_field :: "string \<Rightarrow> string \<Rightarrow> abort + string" where
  "normalize_field what s =
     (case CreateJID s of
        Inl e \<Rightarrow> AbortWith 400 (''Invalid '' @ what @ '' format: '' @ e)
      | Inr j \<Rightarrow> Inr j)"

text \<open>The common frame: only JSON bodies are read, and the body is replaced when a field changed.
  \<open>on_other\<close> is what happens with a content type that is not JSON.\<close>

definition is_json :: "request \<Rightarrow> bool" where
  "is_json c = str_contains (contentType c) ''application/json''"

definition is_multipart :: "request \<Rightarrow> bool" where
  "is_multipart c = str_contains (contentType c) ''multipart/form-data''"

definition with_json_body ::
  "mw_result \<Rightarrow> (json_object \<Rightarrow> abort + (json_object \<times> bool)) \<Rightarrow> request \<Rightarrow> mw_result" where
  "with_json_body on_other validate c =
     (if \<not> is_json c then on_other
      else case reqBody c of
             BodyUnreadable \<Rightarrow> AbortWith 400 ''Failed to read request body''
           | BodyInvalid \<Rightarrow> AbortWith 400 ''Invalid JSON format''
           | BodyObject requestData \<Rightarrow>
               (case validate requestData of
                  Inl a \<Rightarrow> Inl a
                | Inr (requestData', modified) \<Rightarrow>
                    Next (if modified then c\<lparr>reqBody := BodyObject requestData'\<rparr> else c)))"

section \<open>The validators\<close>

subsection \<open>\<open>validateFormFields\<close>\<close>

fun form_fields_loop :: "request \<Rightarrow> string list \<Rightarrow> mw_result" where
  "form_fields_loop c [] = Next c"
| "form_fields_loop c (f # fs) =
     (let value = postForm c f in
      if value \<noteq> [] then
        (case normalize_field f value of
           Inl a \<Rightarrow> Inl a
         | Inr _ \<Rightarrow> form_fields_loop c fs)
      else if f = ''number'' then AbortWith 400 (f @ '' is required and cannot be empty'')
      else form_fields_loop c fs)"

definition validateFormFields :: "request \<Rightarrow> string list \<Rightarrow> mw_result" where
  "validateFormFields c fieldNames = form_fields_loop c fieldNames"

subsection \<open>\<open>ValidateJIDFields\<close>\<close>

fun jid_fields_loop :: "string list \<Rightarrow> json_object \<Rightarrow> bool \<Rightarrow> abort + (json_object \<times> bool)" where
  "jid_fields_loop [] requestData modified = Inr (requestData, modified)"
| "jid_fields_loop (f # fs) requestData modified =
     (case requestData f of
        None \<Rightarrow> jid_fields_loop fs requestData modified
      | Some value \<Rightarrow>
          (let (strValue, ok) = as_string value in
           if ok \<and> strValue \<noteq> [] then
             (case normalize_field f strValue of
                Inl a \<Rightarrow> Inl a
              | Inr normalizedJID \<Rightarrow>
                  if normalizedJID \<noteq> strValue
                  then jid_fields_loop fs (requestData(f \<mapsto> JStr normalizedJID)) True
                  else jid_fields_loop fs requestData modified)
           else if strValue = [] then AbortWith 400 (f @ '' is required and cannot be empty'')
           else jid_fields_loop fs requestData modified))"

definition other_or_form :: "string list \<Rightarrow> request \<Rightarrow> mw_result" where
  "other_or_form fieldNames c =
     (if is_multipart c then validateFormFields c fieldNames else Next c)"

definition ValidateJIDFields :: "string list \<Rightarrow> request \<Rightarrow> mw_result" where
  "ValidateJIDFields fieldNames c =
     with_json_body (other_or_form fieldNames c)
       (\<lambda>requestData. jid_fields_loop fieldNames requestData False) c"

subsection \<open>\<open>ValidateNumberField\<close> and \<open>ValidateNumberFieldWithFormatJid\<close>\<close>

text \<open>The loop over the array: \<open>i\<close> is the index, \<open>done\<close> the items already visited, in
  order. The slice is updated in place, so the items before \<open>i\<close> are the normalised ones.\<close>

fun number_items_loop ::
  "bool \<Rightarrow> nat \<Rightarrow> json list \<Rightarrow> json list \<Rightarrow> bool \<Rightarrow> abort + (json list \<times> bool)" where
  "number_items_loop formatJid i visited [] modified = Inr (visited, modified)"
| "number_items_loop formatJid i visited (item # rest) modified =
     (let (strValue, ok) = as_string item in
      if ok \<and> strValue \<noteq> [] then
        (if formatJid then
           (case normalize_field (''number['' @ show_nat i @ '']'') strValue of
              Inl a \<Rightarrow> Inl a
            | Inr normalizedJID \<Rightarrow>
                if normalizedJID \<noteq> strValue
                then number_items_loop formatJid (Suc i) (visited @ [JStr normalizedJID]) rest True
                else number_items_loop formatJid (Suc i) (visited @ [item]) rest modified)
         else number_items_loop formatJid (Suc i) (visited @ [item]) rest modified)
      else if strValue = [] then AbortWith 400 (''number['' @ show_nat i @ ''] cannot be empty'')
      else number_items_loop formatJid (Suc i) (visited @ [item]) rest modified)"

definition validate_number :: "bool \<Rightarrow> json_object \<Rightarrow> abort + (json_object \<times> bool)" where
  "validate_number formatJid requestData =
     (case requestData ''number'' of
        None \<Rightarrow> Inr (requestData, False)
      | Some (JArr arrayValue) \<Rightarrow>
          (if length arrayValue = 0 then AbortWith 400 ''number array cannot be empty''
           else case number_items_loop formatJid 0 [] arrayValue False of
                  Inl a \<Rightarrow> Inl a
                | Inr (arrayValue', modified) \<Rightarrow>
                    Inr (requestData(''number'' \<mapsto> JArr arrayValue'), modified))
      | Some (JStr strValue) \<Rightarrow>
          (if strValue = [] then AbortWith 400 ''number is required and cannot be empty''
           else if formatJid then
             (case normalize_field ''number'' strValue of
                Inl a \<Rightarrow> Inl a
              | Inr normalizedJID \<Rightarrow>
                  if normalizedJID \<noteq> strValue
                  then Inr (requestData(''number'' \<mapsto> JStr normalizedJID), True)
                  else Inr (requestData, False))
           else Inr (requestData, False))
      | Some _ \<Rightarrow> AbortWith 400 ''number must be a string or array of strings'')"

definition ValidateNumberField :: "request \<Rightarrow> mw_result" where
  "ValidateNumberField c =
     with_json_body (other_or_form [''number''] c) (validate_number True) c"

definition read_formatJid :: "json_object \<Rightarrow> bool" where
  "read_formatJid requestData =
     (case requestData ''formatJid'' of Some (JBool b) \<Rightarrow> b | _ \<Rightarrow> True)"

definition ValidateNumberFieldWithFormatJid :: "request \<Rightarrow> mw_result" where
  "ValidateNumberFieldWithFormatJid c =
     with_json_body (Next c)
       (\<lambda>requestData. validate_number (read_formatJid requestData) requestData) c"

subsection \<open>\<open>ValidateMultipleNumbers\<close>\<close>

fun multiple_items_loop ::
  "string \<Rightarrow> nat \<Rightarrow> json list \<Rightarrow> json list \<Rightarrow> bool \<Rightarrow> abort + (json list \<times> bool)" where
  "multiple_items_loop f i visited [] modified = Inr (visited, modified)"
| "multiple_items_loop f i visited (item # rest) modified =
     (let (strValue, ok) = as_string item in
      if ok \<and> strValue \<noteq> [] then
        (case normalize_field (f @ ''['' @ show_nat i @ '']'') strValue of
           Inl a \<Rightarrow> Inl a
         | Inr normalizedJID \<Rightarrow>
             if normalizedJID \<noteq> strValue
             then multiple_items_loop f (Suc i) (visited @ [JStr normalizedJID]) rest True
             else multiple_items_loop f (Suc i) (visited @ [item]) rest modified)
      else multiple_items_loop f (Suc i) (visited @ [item]) rest modified)"

definition ValidateMultipleNumbers :: "string \<Rightarrow> request \<Rightarrow> mw_result" where
  "ValidateMultipleNumbers fieldName c =
     with_json_body (Next c)
       (\<lambda>requestData.
          case requestData fieldName of
            Some (JArr arrayValue) \<Rightarrow>
              (case multiple_items_loop fieldName 0 [] arrayValue False of
                 Inl a \<Rightarrow> Inl a
               | Inr (arrayValue', modified) \<Rightarrow>
                   Inr (requestData(fieldName \<mapsto> JArr arrayValue'), modified))
          | _ \<Rightarrow> Inr (requestData, False)) c"

subsection \<open>\<open>ValidateContactFields\<close>\<close>

definition contact_number :: "json_object \<Rightarrow> abort + (json_object \<times> bool)" where
  "contact_number requestData =
     (case requestData ''number'' of
        Some (JStr strValue) \<Rightarrow>
          (if strValue \<noteq> [] then
             (case normalize_field ''number'' strValue of
                Inl a \<Rightarrow> Inl a
              | Inr normalizedJID \<Rightarrow>
                  if normalizedJID \<noteq> strValue
                  then Inr (requestData(''number'' \<mapsto> JStr normalizedJID), True)
                  else Inr (requestData, False))
           else Inr (requestData, False))
      | _ \<Rightarrow> Inr (requestData, False))"

definition contact_vcard :: "json_object \<Rightarrow> abort option" where
  "contact_vcard requestData =
     (case requestData ''vcard'' of
        Some (JObj vcardMap) \<Rightarrow>
          (case vcardMap ''phone'' of
             Some (JStr phoneStr) \<Rightarrow>
               (if phoneStr \<noteq> [] then
                  (case normalize_field ''vcard phone'' phoneStr of
                     Inl a \<Rightarrow> Some a
                   | Inr _ \<Rightarrow> None)
                else None)
           | _ \<Rightarrow> None)
      | _ \<Rightarrow> None)"

definition ValidateContactFields :: "request \<Rightarrow> mw_result" where
  "ValidateContactFields c =
     with_json_body (Next c)
       (\<lambda>requestData.
          case contact_number requestData of
            Inl a \<Rightarrow> Inl a
          | Inr (requestData', modified) \<Rightarrow>
              (case contact_vcard requestData' of
                 Some a \<Rightarrow> Inl a
               | None \<Rightarrow> Inr (requestData', modified))) c"


section \<open>What passes\<close>

lemma normalize_field_Inr: "normalize_field what s = Inr j \<longleftrightarrow> CreateJID s = Ok j"
  by (simp add: normalize_field_def split: sum.splits)

text \<open>A text that normalisation leaves alone, and one that it maps to such a text.\<close>

definition normal_text :: "json \<Rightarrow> bool" where
  "normal_text v = (\<exists>s. v = JStr s \<and> s \<noteq> [] \<and> CreateJID s = Ok s)"

definition normalises_to :: "json \<Rightarrow> json \<Rightarrow> bool" where
  "normalises_to v v' = (\<exists>s j. v = JStr s \<and> s \<noteq> [] \<and> CreateJID s = Ok j \<and> v' = JStr j)"

lemma CreateJID_result_nonempty: "CreateJID s = Ok j \<Longrightarrow> j \<noteq> []"
  using CreateJID_marker [of s j] by (auto simp: jid_marker_def)

lemma CreateJID_result_normal: "CreateJID s = Ok j \<Longrightarrow> normal_text (JStr j)"
  by (simp add: normal_text_def CreateJID_result_nonempty CreateJID_marker CreateJID_fixed)

lemma normalises_to_normal: "normalises_to v v' \<Longrightarrow> normal_text v'"
  by (auto simp: normalises_to_def CreateJID_result_normal)

lemma normalises_to_fixed: "normal_text v \<Longrightarrow> normalises_to v w \<longleftrightarrow> w = v"
  by (auto simp: normalises_to_def normal_text_def)

lemma number_items_loop_True:
  "number_items_loop True i visited items modified = Inr (out, m) \<Longrightarrow>
   \<exists>items'. out = visited @ items' \<and> list_all2 normalises_to items items' \<and>
            (m \<longleftrightarrow> modified \<or> items' \<noteq> items)"
proof (induction items arbitrary: i visited modified)
  case Nil
  then show ?case by simp
next
  case (Cons item rest)
  obtain s ok where so: "as_string item = (s, ok)" by (cases "as_string item")
  with Cons.prems have ne: "s \<noteq> []" by (intro notI) simp
  with as_string_nonempty [OF so] have s: "item = JStr s" "ok" "s \<noteq> []" by simp_all
  from so s Cons.prems obtain j where j: "CreateJID s = Ok j"
    by (auto simp: normalize_field_def split: sum.splits)
  have step: "number_items_loop True (Suc i) (visited @ [JStr j]) rest (modified \<or> j \<noteq> s) = Inr (out, m)"
    using Cons.prems s j by (auto simp: normalize_field_def split: if_splits)
  from Cons.IH [OF this] obtain items' where
    "out = (visited @ [JStr j]) @ items'" "list_all2 normalises_to rest items'"
    "m \<longleftrightarrow> (modified \<or> j \<noteq> s) \<or> items' \<noteq> rest" by blast
  moreover have "normalises_to item (JStr j)" using s j by (auto simp: normalises_to_def)
  ultimately show ?case using s by (intro exI [of _ "JStr j # items'"]) auto
qed

lemma number_items_loop_normal:
  "list_all normal_text items \<Longrightarrow>
   number_items_loop True i visited items modified = Inr (visited @ items, modified)"
  by (induction items arbitrary: i visited) (auto simp: normal_text_def normalize_field_def)

lemma number_items_loop_False:
  "number_items_loop False i visited items modified = Inr (out, m) \<Longrightarrow>
   out = visited @ items \<and> m = modified"
proof (induction items arbitrary: i visited)
  case (Cons item rest)
  obtain s ok where so: "as_string item = (s, ok)" by (cases "as_string item")
  with Cons.prems have "number_items_loop False (Suc i) (visited @ [item]) rest modified = Inr (out, m)"
    by (auto split: if_splits)
  from Cons.IH [OF this] show ?case by simp
qed simp

lemma list_all2_normal: "list_all2 normalises_to xs ys \<Longrightarrow> list_all normal_text ys"
  by (induction rule: list_all2_induct) (auto intro: normalises_to_normal)

text \<open>The \<open>number\<close> field of a request that passed: one normal text or a non-empty array of them.\<close>

definition normal_number :: "json \<Rightarrow> bool" where
  "normal_number v =
     (case v of JArr xs \<Rightarrow> xs \<noteq> [] \<and> list_all normal_text xs | _ \<Rightarrow> normal_text v)"

lemma normal_number_simps [simp]:
  "normal_number (JArr xs) \<longleftrightarrow> xs \<noteq> [] \<and> list_all normal_text xs"
  "normal_number (JStr s) \<longleftrightarrow> s \<noteq> [] \<and> CreateJID s = Ok s"
  by (auto simp: normal_number_def normal_text_def)

lemma validate_number_True:
  assumes "validate_number True d = Inr (d', m)"
  shows "(d ''number'' = None \<and> d' = d \<or> (\<exists>v. d' ''number'' = Some v \<and> normal_number v)) \<and>
         (\<forall>f. f \<noteq> ''number'' \<longrightarrow> d' f = d f) \<and> (m \<longleftrightarrow> d' \<noteq> d)"
proof (cases "d ''number''")
  case None
  with assms show ?thesis by (simp add: validate_number_def)
next
  case (Some v)
  show ?thesis
  proof (cases v)
    case (JStr s)
    with Some assms obtain j where j: "s \<noteq> []" "CreateJID s = Ok j"
      by (auto simp: validate_number_def normalize_field_def split: if_splits sum.splits)
    with JStr Some assms have d': "d' = d(''number'' \<mapsto> JStr j)" "m \<longleftrightarrow> j \<noteq> s"
      by (auto simp: validate_number_def normalize_field_def split: if_splits)
    then have "m \<longleftrightarrow> d' \<noteq> d" using JStr Some by (auto simp: fun_eq_iff)
    with d' CreateJID_result_normal [OF j(2)] show ?thesis by (auto simp: normal_text_def)
  next
    case (JArr xs)
    with Some assms obtain ys where l: "number_items_loop True 0 [] xs False = Inr (ys, m)"
      "d' = d(''number'' \<mapsto> JArr ys)" "xs \<noteq> []"
      by (auto simp: validate_number_def split: if_splits sum.splits)
    from number_items_loop_True [OF l(1)]
    have ys: "list_all2 normalises_to xs ys" "m \<longleftrightarrow> ys \<noteq> xs" by auto
    then have "m \<longleftrightarrow> d' \<noteq> d" using JArr Some l by (auto simp: fun_eq_iff)
    with l ys list_all2_normal [OF ys(1)] show ?thesis by auto
  qed (use Some assms in \<open>simp_all add: validate_number_def\<close>)
qed

lemma validate_number_normal:
  "d ''number'' = None \<or> (\<exists>v. d ''number'' = Some v \<and> normal_number v) \<Longrightarrow>
   \<exists>d'. validate_number True d = Inr (d', False)"
proof (elim disjE exE conjE)
  fix v assume v: "d ''number'' = Some v" "normal_number v"
  then show ?thesis
    by (cases v) (simp_all add: validate_number_def normal_number_def normal_text_def
        normalize_field_def number_items_loop_normal)
qed (simp add: validate_number_def)

text \<open>A passing JSON request, field by field.\<close>

lemma with_json_body_Next:
  assumes "with_json_body on_other validate c = Next c'" and "is_json c"
  obtains d d' m where "reqBody c = BodyObject d" "validate d = Inr (d', m)"
    "c' = (if m then c\<lparr>reqBody := BodyObject d'\<rparr> else c)"
  using assms by (auto simp: with_json_body_def split: body.splits sum.splits)

lemma with_json_body_frame:
  assumes "with_json_body on_other validate c = Next c'" and "is_json c"
  shows "contentType c' = contentType c \<and> postForm c' = postForm c"
  by (rule with_json_body_Next [OF assms]) simp

lemma form_fields_loop_Next: "form_fields_loop c fs = Next c' \<Longrightarrow> c' = c"
  by (induction fs) (auto simp: Let_def split: if_splits sum.splits)

lemma other_or_form_Next: "other_or_form fs c = Next c' \<Longrightarrow> c' = c"
  using form_fields_loop_Next [of c fs c']
  by (cases "is_multipart c") (simp_all add: other_or_form_def validateFormFields_def)

lemma with_json_body_other: "\<not> is_json c \<Longrightarrow> with_json_body on_other validate c = on_other"
  by (simp add: with_json_body_def)

lemma jid_fields_loop_Inr:
  "jid_fields_loop fs d m = Inr (d', m') \<Longrightarrow>
   (\<forall>f \<in> set fs. d f = None \<and> d' f = None \<or>
                (\<exists>v v'. d f = Some v \<and> d' f = Some v' \<and> normalises_to v v')) \<and>
   (\<forall>f. f \<notin> set fs \<longrightarrow> d' f = d f) \<and> (\<not> m' \<longrightarrow> \<not> m \<and> d' = d)"
proof (induction fs arbitrary: d m)
  case Nil
  then show ?case by simp
next
  case (Cons f fs)
  show ?case
  proof (cases "d f")
    case None
    with Cons.prems have "jid_fields_loop fs d m = Inr (d', m')" by simp
    from Cons.IH [OF this] None show ?thesis by (cases "f \<in> set fs") auto
  next
    case (Some v)
    obtain s ok where so: "as_string v = (s, ok)" by (cases "as_string v")
    with Some Cons.prems have ne: "s \<noteq> []" by (intro notI) simp
    with as_string_nonempty [OF so] have s: "v = JStr s" "ok" "s \<noteq> []" by simp_all
    from so s Some Cons.prems obtain j where j: "CreateJID s = Ok j"
      by (auto simp: normalize_field_def split: sum.splits)
    let ?d = "d(f \<mapsto> JStr j)"
    have step: "jid_fields_loop fs ?d (m \<or> j \<noteq> s) = Inr (d', m')"
    proof (cases "j = s")
      case True
      with Some s have "?d = d" by auto
      with True Cons.prems so s Some j show ?thesis by (simp add: normalize_field_def)
    next
      case False
      with Cons.prems so s Some j show ?thesis by (simp add: normalize_field_def)
    qed
    note IH = Cons.IH [OF this]
    have vj: "normalises_to v (JStr j)" using s j by (auto simp: normalises_to_def)
    have fin: "d' f = Some (JStr j)"
    proof (cases "f \<in> set fs")
      case True
      with IH obtain v' where "d' f = Some v'" "normalises_to (JStr j) v'" by fastforce
      with normalises_to_fixed [OF CreateJID_result_normal [OF j]] show ?thesis by simp
    next
      case False
      with IH show ?thesis by simp
    qed
    have others: "\<forall>g. g \<noteq> f \<longrightarrow> ?d g = d g" by simp
    have unchanged: "\<not> m' \<longrightarrow> \<not> m \<and> d' = d"
    proof
      assume "\<not> m'"
      with IH have "\<not> m" "j = s" "d' = ?d" by auto
      with Some s show "\<not> m \<and> d' = d" by auto
    qed
    have inset: "\<forall>g \<in> set (f # fs). d g = None \<and> d' g = None \<or>
        (\<exists>v v'. d g = Some v \<and> d' g = Some v' \<and> normalises_to v v')"
    proof
      fix g assume g: "g \<in> set (f # fs)"
      show "d g = None \<and> d' g = None \<or> (\<exists>v v'. d g = Some v \<and> d' g = Some v' \<and> normalises_to v v')"
      proof (cases "g = f")
        case True
        with Some fin vj show ?thesis by auto
      next
        case False
        with g IH others show ?thesis by auto
      qed
    qed
    with IH others unchanged show ?thesis by auto
  qed
qed

lemma jid_fields_loop_out:
  assumes "jid_fields_loop fs d m = Inr (d', m')"
  shows "\<forall>f \<in> set fs. d' f = None \<or> (\<exists>v. d' f = Some v \<and> normal_text v)"
proof
  fix f assume f: "f \<in> set fs"
  from jid_fields_loop_Inr [OF assms, THEN conjunct1, THEN bspec, OF f]
  have "d' f = None \<or> (\<exists>v v'. d' f = Some v' \<and> normalises_to v v')" by auto
  then show "d' f = None \<or> (\<exists>v. d' f = Some v \<and> normal_text v)"
    using normalises_to_normal by blast
qed

lemma jid_fields_loop_normal:
  "\<forall>f \<in> set fs. d f = None \<or> (\<exists>v. d f = Some v \<and> normal_text v) \<Longrightarrow>
   jid_fields_loop fs d m = Inr (d, m)"
  by (induction fs) (auto simp: normal_text_def normalize_field_def)


section \<open>Properties\<close>

text \<open>C16: After \<open>ValidateNumberField\<close> let a JSON request pass, the handler sees either no
  \<open>number\<close> field, one non-empty text that normalisation leaves alone, or a non-empty array of such
  texts; no other field and no other part of the request changed, and the body is only replaced when
  the number changed.\<close>

theorem number_field_normalised:
  assumes "ValidateNumberField c = Next c'" and "is_json c"
  shows "\<exists>d d'. reqBody c = BodyObject d \<and> reqBody c' = BodyObject d' \<and>
           contentType c' = contentType c \<and> postForm c' = postForm c \<and>
           (\<forall>f. f \<noteq> ''number'' \<longrightarrow> d' f = d f) \<and>
           (d ''number'' = None \<and> d' ''number'' = None \<or>
            (\<exists>v. d' ''number'' = Some v \<and> normal_number v))"
proof -
  from with_json_body_Next [OF assms(1) [unfolded ValidateNumberField_def] assms(2)]
  obtain d d' m where d: "reqBody c = BodyObject d" "validate_number True d = Inr (d', m)"
    "c' = (if m then c\<lparr>reqBody := BodyObject d'\<rparr> else c)" by blast
  note v = validate_number_True [OF d(2)]
  then have "reqBody c' = BodyObject d'" using d by auto
  with d v show ?thesis by (intro exI [of _ d] exI [of _ d']) auto
qed

definition sample_request :: request where
  "sample_request = \<lparr>contentType = ''application/json'',
     reqBody = BodyObject [''number'' \<mapsto> JArr [JStr ''5511999999999'', JStr ''x@g.us'']],
     postForm = (\<lambda>_. [])\<rparr>"

lemma sample_request_passes:
  "ValidateNumberField sample_request = Next (sample_request\<lparr>reqBody :=
     BodyObject [''number'' \<mapsto> JArr [JStr ''+5511999999999@s.whatsapp.net'', JStr ''x@g.us'']]\<rparr>)"
proof -
  have j: "is_json sample_request" by code_simp
  have a: "CreateJID ''5511999999999'' = Ok ''+5511999999999@s.whatsapp.net''"
    and b: "CreateJID ''x@g.us'' = Ok ''x@g.us''" by code_simp+
  show ?thesis using j
    by (simp add: ValidateNumberField_def with_json_body_def sample_request_def validate_number_def
        normalize_field_def a b)
qed

theorem number_field_normalised_witness:
  "\<exists>d d'. reqBody sample_request = BodyObject d \<and>
     (\<forall>f. f \<noteq> ''number'' \<longrightarrow> d' f = d f) \<and>
     (d ''number'' = None \<and> d' ''number'' = None \<or>
      (\<exists>v. d' ''number'' = Some v \<and> normal_number v))"
proof -
  have "is_json sample_request" by code_simp
  from number_field_normalised [OF sample_request_passes this] show ?thesis by blast
qed

text \<open>The number validators are idempotent: what they pass on passes again, unchanged.\<close>

theorem validators_idempotent:
  assumes "ValidateNumberField c = Next c'" and "ValidateJIDFields fs e = Next e'"
  shows "ValidateNumberField c' = Next c' \<and> ValidateJIDFields fs e' = Next e'"
proof
  show "ValidateNumberField c' = Next c'"
  proof (cases "is_json c")
    case False
    with assms(1) have "c' = c"
      by (simp add: ValidateNumberField_def with_json_body_other other_or_form_Next)
    with assms(1) show ?thesis by simp
  next
    case True
    from number_field_normalised [OF assms(1) True] obtain d'
      where d': "reqBody c' = BodyObject d'" "contentType c' = contentType c"
        "d' ''number'' = None \<or> (\<exists>v. d' ''number'' = Some v \<and> normal_number v)" by auto
    from validate_number_normal [of d'] d' True show ?thesis
      by (auto simp: ValidateNumberField_def with_json_body_def is_json_def)
  qed
  show "ValidateJIDFields fs e' = Next e'"
  proof (cases "is_json e")
    case False
    with assms(2) have "e' = e"
      by (simp add: ValidateJIDFields_def with_json_body_other other_or_form_Next)
    with assms(2) show ?thesis by simp
  next
    case True
    from with_json_body_Next [OF assms(2) [unfolded ValidateJIDFields_def] True]
    obtain d d' m where d: "reqBody e = BodyObject d" "jid_fields_loop fs d False = Inr (d', m)"
      "e' = (if m then e\<lparr>reqBody := BodyObject d'\<rparr> else e)" by blast
    from jid_fields_loop_Inr [OF d(2)] d have r: "reqBody e' = BodyObject d'" "contentType e' = contentType e"
      by auto
    from jid_fields_loop_normal [OF jid_fields_loop_out [OF d(2)]] r True show ?thesis
      by (simp add: ValidateJIDFields_def with_json_body_def is_json_def)
  qed
qed

theorem validators_idempotent_witness:
  "ValidateNumberField (sample_request\<lparr>reqBody := BodyObject [''number'' \<mapsto>
       JArr [JStr ''+5511999999999@s.whatsapp.net'', JStr ''x@g.us'']]\<rparr>)
   = Next (sample_request\<lparr>reqBody := BodyObject [''number'' \<mapsto>
       JArr [JStr ''+5511999999999@s.whatsapp.net'', JStr ''x@g.us'']]\<rparr>)"
proof -
  have "ValidateJIDFields [] sample_request = Next sample_request"
    by (simp add: ValidateJIDFields_def with_json_body_def sample_request_def other_or_form_def
        validateFormFields_def)
  from validators_idempotent [OF sample_request_passes this] show ?thesis by simp
qed

text \<open>The two number validators agree on JSON bodies that do not switch formatting off, and with
  \<open>formatJid\<close> false the second one never changes the request it passes on.\<close>

theorem format_jid_switch:
  assumes "is_json c" and "reqBody c = BodyObject d"
  shows "if read_formatJid d then ValidateNumberFieldWithFormatJid c = ValidateNumberField c
         else \<forall>c'. ValidateNumberFieldWithFormatJid c = Next c' \<longrightarrow> c' = c"
proof (cases "read_formatJid d")
  case True
  with assms show ?thesis
    by (simp add: ValidateNumberFieldWithFormatJid_def ValidateNumberField_def with_json_body_def)
next
  case False
  have "\<not> m" if "validate_number False d = Inr (d', m)" for d' m
    using that number_items_loop_False
    by (fastforce simp: validate_number_def split: option.splits json.splits if_splits sum.splits)
  with False assms show ?thesis
    by (auto simp: ValidateNumberFieldWithFormatJid_def with_json_body_def split: sum.splits)
qed

theorem format_jid_switch_witness:
  "ValidateNumberFieldWithFormatJid sample_request = ValidateNumberField sample_request"
proof -
  have h: "is_json sample_request"
    "reqBody sample_request = BodyObject [''number'' \<mapsto> JArr [JStr ''5511999999999'', JStr ''x@g.us'']]"
    by (code_simp, simp add: sample_request_def)
  from format_jid_switch [OF h] show ?thesis by (simp add: read_formatJid_def)
qed

text \<open>\<open>ValidateJIDFields\<close> refuses a JSON request as soon as one listed field is present and is not
  a text that normalisation accepts (a number, a list or an empty text included); when it passes, each
  listed field that was present holds the normal form of the text it held, and the other fields are
  untouched.\<close>

theorem jid_fields_checked:
  assumes "is_json c" and "reqBody c = BodyObject d" and "ValidateJIDFields fs c = Next c'"
  shows "\<exists>d'. reqBody c' = BodyObject d' \<and> (\<forall>f. f \<notin> set fs \<longrightarrow> d' f = d f) \<and>
           (\<forall>f \<in> set fs. d f = None \<and> d' f = None \<or>
              (\<exists>s j. d f = Some (JStr s) \<and> s \<noteq> [] \<and> CreateJID s = Ok j \<and> d' f = Some (JStr j)))"
proof -
  from with_json_body_Next [OF assms(3) [unfolded ValidateJIDFields_def] assms(1)]
  obtain d0 d' m where "reqBody c = BodyObject d0" "jid_fields_loop fs d0 False = Inr (d', m)"
    "c' = (if m then c\<lparr>reqBody := BodyObject d'\<rparr> else c)" by blast
  with assms(2) have d: "jid_fields_loop fs d False = Inr (d', m)"
    "c' = (if m then c\<lparr>reqBody := BodyObject d'\<rparr> else c)" by simp_all
  from jid_fields_loop_Inr [OF d(1)] d assms(2) have "reqBody c' = BodyObject d'" by auto
  with jid_fields_loop_Inr [OF d(1)] show ?thesis
    by (intro exI [of _ d']) (auto simp: normalises_to_def)
qed

theorem jid_fields_checked_witness:
  "\<exists>d'. reqBody (sample_request\<lparr>reqBody := BodyObject [''chat'' \<mapsto> JStr ''x@g.us'']\<rparr>) = BodyObject d' \<and>
        d' ''chat'' = Some (JStr ''x@g.us'')"
proof -
  let ?c = "sample_request\<lparr>reqBody := BodyObject [''chat'' \<mapsto> JStr ''x@g.us'']\<rparr>"
  have j: "is_json ?c" by code_simp
  have b: "CreateJID ''x@g.us'' = Ok ''x@g.us''" by code_simp
  have "ValidateJIDFields [''chat''] ?c = Next ?c"
    using j by (simp add: ValidateJIDFields_def with_json_body_def normalize_field_def b)
  from jid_fields_checked [OF j _ this] show ?thesis by auto
qed

end
