(* ===== verification/EventTypes.thy ===== *)
theory EventTypes
  imports InstanceModel
begin

text \<open>
  Event groups and subscriptions: \<open>pkg/internal/event_types/event_types.go\<close>, the parsing of an
  instance's comma-separated \<open>Events\<close> (the same loop in \<open>CallWebhook\<close>, \<open>StartInstance\<close> and
  \<open>UpdateInstanceSettings\<close> of \<open>pkg/whatsmeow/service/whatsmeow.go\<close>), the choice of the events in
  \<open>Connect\<close> of \<open>pkg/instance/service/instance_service.go\<close>, and the two tables from WhatsApp
  events to groups. The lemmas show that stored subscriptions round-trip and that the two tables
  agree.
\<close>

definition AllEventTypes :: "string list" where
  "AllEventTypes = [''MESSAGE'', ''SEND_MESSAGE'', ''READ_RECEIPT'', ''PRESENCE'', ''HISTORY_SYNC'',
     ''CHAT_PRESENCE'', ''CALL'', ''CONNECTION'', ''LABEL'', ''CONTACT'', ''GROUP'', ''NEWSLETTER'',
     ''QRCODE'']"

definition validEventTypes :: "string list" where
  "validEventTypes = [''ALL'', ''MESSAGE'', ''SEND_MESSAGE'', ''READ_RECEIPT'', ''PRESENCE'',
     ''HISTORY_SYNC'', ''CHAT_PRESENCE'', ''CALL'', ''CONNECTION'', ''LABEL'', ''CONTACT'', ''GROUP'',
     ''NEWSLETTER'', ''QRCODE'']"

definition IsEventType :: "string \<Rightarrow> bool" where
  "IsEventType eventType = (eventType \<in> set validEventTypes)"

section \<open>Subscriptions\<close>

text \<open>The loop over the stored event names: unknown names are discarded, repeated ones kept once.\<close>

fun subscription_loop :: "string list \<Rightarrow> string list \<Rightarrow> string list" where
  "subscription_loop subscriptions [] = subscriptions"
| "subscription_loop subscriptions (arg # args) =
     (if \<not> IsEventType arg then subscription_loop subscriptions args
      else subscription_loop (add_new subscriptions arg) args)"

text \<open>The guard \<open>len(eventArray) < 1\<close> never holds: \<open>strings.Split\<close> returns at least one part.\<close>

definition parse_events :: "string \<Rightarrow> string list" where
  "parse_events events =
     (let eventArray = split_char CHR '','' events in
      if length eventArray < 1 then [''MESSAGE''] else subscription_loop [] eventArray)"

text \<open>\<open>contains\<close>: membership up to letter case.\<close>

definition contains_event :: "string list \<Rightarrow> string \<Rightarrow> bool" where
  "contains_event subscriptions event = list_ex (\<lambda>sub. equal_fold sub event) subscriptions"

text \<open>\<open>Connect\<close>: the events to subscribe to, and their stored form.\<close>

definition connect_events :: "string list \<Rightarrow> string list" where
  "connect_events subscribe =
     (if length subscribe = 0 then [''MESSAGE'']
      else if subscribe ! 0 = ''ALL'' then AllEventTypes
      else filter IsEventType subscribe)"

definition connect_event_string :: "string list \<Rightarrow> string" where
  "connect_event_string subscribe = join '','' (connect_events subscribe)"

section \<open>From WhatsApp events to groups\<close>

text \<open>The switch of \<open>CallWebhook\<close>: the group an instance must subscribe to for an event.\<close>

definition webhook_group :: "string \<Rightarrow> string option" where
  "webhook_group eventType =
     (if eventType = ''Message'' then Some ''MESSAGE''
      else if eventType = ''SendMessage'' then Some ''SEND_MESSAGE''
      else if eventType = ''Receipt'' then Some ''READ_RECEIPT''
      else if eventType = ''Presence'' then Some ''PRESENCE''
      else if eventType = ''HistorySync'' then Some ''HISTORY_SYNC''
      else if eventType \<in> {''ChatPresence'', ''Archive''} then Some ''CHAT_PRESENCE''
      else if eventType \<in> {''CallOffer'', ''CallAccept'', ''CallTerminate'', ''CallOfferNotice'',
             ''CallRelayLatency''} then Some ''CALL''
      else if eventType \<in> {''Connected'', ''PairSuccess'', ''TemporaryBan'', ''LoggedOut'',
             ''ConnectFailure'', ''Disconnected''} then Some ''CONNECTION''
      else if eventType \<in> {''LabelEdit'', ''LabelAssociationChat'', ''LabelAssociationMessage''}
        then Some ''LABEL''
      else if eventType \<in> {''Contact'', ''PushName''} then Some ''CONTACT''
      else if eventType \<in> {''GroupInfo'', ''JoinedGroup''} then Some ''GROUP''
      else if eventType \<in> {''NewsletterJoin'', ''NewsletterLeave''} then Some ''NEWSLETTER''
      else if eventType \<in> {''QRCode'', ''QRTimeout'', ''QRSuccess''} then Some ''QRCODE''
      else None)"

text \<open>The two switches of \<open>SendToGlobalQueues\<close> (AMQP in fallback mode, NATS).\<close>

definition global_event_type :: "string \<Rightarrow> string option" where
  "global_event_type eventType =
     (if eventType = ''Message'' then Some ''MESSAGE''
      else if eventType = ''SendMessage'' then Some ''SEND_MESSAGE''
      else if eventType = ''Receipt'' then Some ''READ_RECEIPT''
      else if eventType = ''Presence'' then Some ''PRESENCE''
      else if eventType = ''HistorySync'' then Some ''HISTORY_SYNC''
      else if eventType \<in> {''ChatPresence'', ''Archive''} then Some ''CHAT_PRESENCE''
      else if eventType \<in> {''CallOffer'', ''CallAccept'', ''CallTerminate'', ''CallOfferNotice'',
             ''CallRelayLatency''} then Some ''CALL''
      else if eventType \<in> {''Connected'', ''PairSuccess'', ''TemporaryBan'', ''LoggedOut'',
             ''ConnectFailure'', ''Disconnected''} then Some ''CONNECTION''
      else if eventType \<in> {''LabelEdit'', ''LabelAssociationChat'', ''LabelAssociationMessage''}
        then Some ''LABEL''
      else if eventType \<in> {''Contact'', ''PushName''} then Some ''CONTACT''
      else if eventType \<in> {''GroupInfo'', ''JoinedGroup''} then Some ''GROUP''
      else if eventType \<in> {''NewsletterJoin'', ''NewsletterLeave''} then Some ''NEWSLETTER''
      else if eventType \<in> {''QRCode'', ''QRTimeout'', ''QRSuccess''} then Some ''QRCODE''
      else None)"

text \<open>The table of \<open>CreateGlobalQueues\<close> in \<open>pkg/events/rabbitmq/rabbitmq_producer.go\<close>: the queues
  declared at startup for each configured group.\<close>

definition queue_table :: "string \<Rightarrow> string list option" where
  "queue_table = map_of
     [(''MESSAGE'', [''message'']), (''SEND_MESSAGE'', [''sendmessage'']),
      (''READ_RECEIPT'', [''receipt'']), (''PRESENCE'', [''presence'']),
      (''HISTORY_SYNC'', [''historysync'']), (''CHAT_PRESENCE'', [''chatpresence'', ''archive'']),
      (''CALL'', [''calloffer'', ''callaccept'', ''callterminate'', ''calloffernotice'',
                ''callrelaylatency'']),
      (''CONNECTION'', [''connected'', ''pairsuccess'', ''temporaryban'', ''loggedout'',
                ''connectfailure'', ''disconnected'']),
      (''LABEL'', [''labeledit'', ''labelassociationchat'', ''labelassociationmessage'']),
      (''CONTACT'', [''contact'', ''pushname'']), (''GROUP'', [''groupinfo'', ''joinedgroup'']),
      (''NEWSLETTER'', [''newsletterjoin'', ''newsletterleave'']),
      (''QRCODE'', [''qrcode'', ''qrtimeout'', ''qrsuccess''])]"

section \<open>Lemmas\<close>

lemma subscription_loop_set:
  "set (subscription_loop subs args) = set subs \<union> {a \<in> set args. IsEventType a}"
  by (induction subs args rule: subscription_loop.induct) auto

lemma subscription_loop_distinct: "distinct subs \<Longrightarrow> distinct (subscription_loop subs args)"
  by (induction subs args rule: subscription_loop.induct) auto

lemma subscription_loop_append:
  "distinct (subs @ args) \<Longrightarrow> list_all IsEventType args \<Longrightarrow> subscription_loop subs args = subs @ args"
  by (induction subs args rule: subscription_loop.induct) (auto simp: add_new_def)

lemma parse_events_set: "set (parse_events s) = {a \<in> set (split_char CHR '','' s). IsEventType a}"
  by (auto simp: parse_events_def Let_def subscription_loop_set length_split_char)

lemma parse_events_distinct: "distinct (parse_events s)"
  by (simp add: parse_events_def Let_def subscription_loop_distinct)

lemma event_type_no_comma: "IsEventType e \<Longrightarrow> CHR '','' \<notin> set e"
  by (auto simp: IsEventType_def validEventTypes_def)

lemma AllEventTypes_valid: "list_all IsEventType AllEventTypes"
  by (simp add: AllEventTypes_def IsEventType_def validEventTypes_def)

lemma event_type_upper: "IsEventType a \<Longrightarrow> list_all (\<lambda>c. \<not> is_lower c) a"
  by (auto simp: IsEventType_def validEventTypes_def is_lower_def)

lemma event_type_equal_fold: "IsEventType a \<Longrightarrow> IsEventType b \<Longrightarrow> equal_fold a b \<longleftrightarrow> a = b"
  by (simp add: equal_fold_def to_lower_inj event_type_upper)

lemma contains_event_mem:
  "list_all IsEventType subs \<Longrightarrow> IsEventType e \<Longrightarrow> contains_event subs e \<longleftrightarrow> e \<in> set subs"
  by (induction subs) (auto simp: contains_event_def event_type_equal_fold)

lemma parse_events_valid: "list_all IsEventType (parse_events s)"
  by (auto simp: list_all_iff parse_events_set)

lemma webhook_group_valid: "webhook_group e = Some g \<Longrightarrow> IsEventType g \<and> g \<noteq> ''ALL''"
  by (auto simp: webhook_group_def IsEventType_def validEventTypes_def split: if_splits)

lemma tables_agree: "webhook_group e = global_event_type e"
  by (simp only: webhook_group_def global_event_type_def)

text \<open>Every event name the two switches know.\<close>

definition known_events :: "string list" where
  "known_events = [''Message'', ''SendMessage'', ''Receipt'', ''Presence'', ''HistorySync'',
     ''ChatPresence'', ''Archive'', ''CallOffer'', ''CallAccept'', ''CallTerminate'',
     ''CallOfferNotice'', ''CallRelayLatency'', ''Connected'', ''PairSuccess'', ''TemporaryBan'',
     ''LoggedOut'', ''ConnectFailure'', ''Disconnected'', ''LabelEdit'', ''LabelAssociationChat'',
     ''LabelAssociationMessage'', ''Contact'', ''PushName'', ''GroupInfo'', ''JoinedGroup'',
     ''NewsletterJoin'', ''NewsletterLeave'', ''QRCode'', ''QRTimeout'', ''QRSuccess'']"

definition event_queue_declared :: "string \<Rightarrow> bool" where
  "event_queue_declared e =
     (case global_event_type e of
        None \<Rightarrow> False
      | Some g \<Rightarrow> (case queue_table g of None \<Rightarrow> False | Some qs \<Rightarrow> to_lower e \<in> set qs))"

lemma known_events_iff: "global_event_type e \<noteq> None \<longleftrightarrow> e \<in> set known_events"
  by (simp add: global_event_type_def known_events_def)

lemma known_events_declared: "list_all event_queue_declared known_events"
  by code_simp

lemma global_event_type_queue:
  assumes "global_event_type e = Some g"
  obtains qs where "queue_table g = Some qs" "to_lower e \<in> set qs"
proof -
  from assms have "e \<in> set known_events" using known_events_iff [of e] by simp
  with known_events_declared have "event_queue_declared e" by (simp add: list_all_iff)
  with assms that show thesis by (auto simp: event_queue_declared_def split: option.splits)
qed

end
