(* ===== verification/Producers.thy ===== *)
theory Producers
  imports EventTypes "HOL-Library.Multiset"
begin

text \<open>
  The four event producers behind the interface of \<open>pkg/events/interfaces/producer.go\<close>:
  RabbitMQ (\<open>pkg/events/rabbitmq/rabbitmq_producer.go\<close>), NATS (\<open>pkg/events/nats/nats_producer.go\<close>),
  webhook (\<open>pkg/events/webhook/webhook_producer.go\<close>) and WebSocket
  (\<open>pkg/events/websocket/websocket_producer.go\<close>). The brokers and the network are parameters:
  the AMQP library is a function that gives the error of the n-th call made through it, an HTTP
  endpoint one that gives the outcome of the n-th request, a WebSocket one that says whether a
  write to a connection fails. The interface is the locale \<open>producer\<close>; each of the four is an
  interpretation of it.
\<close>

section \<open>The interface\<close>

text \<open>The marshalled event: the object it decodes to, or bytes that are no JSON object.\<close>

datatype payload = Marshalled json_object | NotJson string

type_synonym 's produce = "string \<Rightarrow> payload \<Rightarrow> string \<Rightarrow> string \<Rightarrow> 's \<Rightarrow> go_error exec \<times> 's"

text \<open>What a client of the interface relies on: producing an event adds copies of that event to the
  deliveries and touches no other.\<close>

locale producer =
  fixes produce :: "'s produce"
    and delivered :: "'s \<Rightarrow> payload multiset"
  assumes delivers: "produce q p a b s = (r, s') \<Longrightarrow> \<exists>n. delivered s' = delivered s + replicate_mset n p"
begin

lemma delivered_mono: "produce q p a b s = (r, s') \<Longrightarrow> delivered s \<subseteq># delivered s'"
  using delivers by fastforce

lemma delivered_only:
  assumes "produce q p a b s = (r, s')"
  shows "set_mset (delivered s' - delivered s) \<subseteq> {p}"
proof -
  from delivers [OF assms] obtain n where "delivered s' = delivered s + replicate_mset n p" ..
  then show ?thesis by (auto split: if_splits)
qed

end

section \<open>RabbitMQ\<close>

text \<open>The AMQP library: the error of its n-th call and whether the connection is closed then.\<close>

record amqp_env =
  amqpErr :: "nat \<Rightarrow> go_error"
  amqpClosed :: "nat \<Rightarrow> bool"

record rabbit =
  rbConnStr :: string
  rbConn :: bool
  rbTick :: nat
  rbSlept :: nat
  rbDeclared :: "string list"
  rbPublished :: "(string \<times> payload) list"

definition amqp_call :: "amqp_env \<Rightarrow> rabbit \<Rightarrow> go_error \<times> rabbit" where
  "amqp_call env r = (amqpErr env (rbTick r), r\<lparr>rbTick := Suc (rbTick r)\<rparr>)"

definition rb_sleep :: "nat \<Rightarrow> rabbit \<Rightarrow> rabbit" where
  "rb_sleep secs r = r\<lparr>rbSlept := rbSlept r + secs\<rparr>"

text \<open>\<open>reconnect\<close>: three dials, two seconds apart; a failed one leaves the connection nil.\<close>

fun reconnect_loop :: "amqp_env \<Rightarrow> nat \<Rightarrow> string \<Rightarrow> rabbit \<Rightarrow> go_error \<times> rabbit" where
  "reconnect_loop env 0 err r =
     (Some (''falha ao reconectar ap'' @ [CHR 0xC3, CHR 0xB3] @ ''s 3 tentativas: '' @ err), r)"
| "reconnect_loop env (Suc k) err r =
     (case amqp_call env r of
        (None, r1) \<Rightarrow> (None, r1\<lparr>rbConn := True\<rparr>)
      | (Some e, r1) \<Rightarrow>
          (let r2 = r1\<lparr>rbConn := False\<rparr>
           in reconnect_loop env k e (if k > 0 then rb_sleep 2 r2 else r2)))"

definition reconnect :: "amqp_env \<Rightarrow> rabbit \<Rightarrow> go_error \<times> rabbit" where
  "reconnect env r =
     (if rbConnStr r = [] then (Some ''connection string is empty - RabbitMQ URL not configured'', r)
      else reconnect_loop env 3 [] r)"

definition ensureConnection :: "amqp_env \<Rightarrow> rabbit \<Rightarrow> go_error \<times> rabbit" where
  "ensureConnection env r =
     (if \<not> rbConn r \<or> amqpClosed env (rbTick r) then reconnect env r else (None, r))"

definition channel_closed_text :: string where
  "channel_closed_text = ''Exception (504) Reason: \"channel/connection is not open\"''"

text \<open>\<open>publishWithRetry\<close>: \<open>k\<close> attempts left, \<open>i\<close> already made, \<open>channel\<close> whether the channel is
  non-nil, \<open>err\<close> the outer error variable. The inner \<open>err\<close> of \<open>ensureConnection\<close> shadows it; the
  assignment of \<open>p.conn.Channel()\<close> does not, and a failed \<open>Channel()\<close> makes the channel nil.\<close>

fun publish_loop ::
  "amqp_env \<Rightarrow> nat \<Rightarrow> nat \<Rightarrow> bool \<Rightarrow> go_error \<Rightarrow> string \<Rightarrow> payload \<Rightarrow> rabbit \<Rightarrow> go_error exec \<times> rabbit"
where
  "publish_loop env i 0 channel err q p r = (Ret err, r)"
| "publish_loop env i (Suc k) channel err q p r =
     (if \<not> channel then (Panic, r)
      else case amqp_call env r of
        (None, r1) \<Rightarrow> (Ret None, r1\<lparr>rbPublished := rbPublished r1 @ [(q, p)]\<rparr>)
      | (Some e, r1) \<Rightarrow>
          (if e = channel_closed_text then
             (case ensureConnection env r1 of
                (Some _, r2) \<Rightarrow> publish_loop env (Suc i) k channel (Some e) q p r2
              | (None, r2) \<Rightarrow>
                  (case amqp_call env r2 of
                     (Some e', r3) \<Rightarrow> publish_loop env (Suc i) k False (Some e') q p r3
                   | (None, r3) \<Rightarrow> publish_loop env (Suc i) k True None q p (rb_sleep (Suc i) r3)))
           else publish_loop env (Suc i) k channel (Some e) q p (rb_sleep (Suc i) r1)))"

definition publishWithRetry ::
  "amqp_env \<Rightarrow> string \<Rightarrow> payload \<Rightarrow> rabbit \<Rightarrow> go_error exec \<times> rabbit" where
  "publishWithRetry env q p r = publish_loop env 0 3 True None q p r"

definition rabbit_Produce :: "amqp_env \<Rightarrow> rabbit produce" where
  "rabbit_Produce env queueName payload rabbitmqEnable userID r =
     (if rbConnStr r = []
      then (Ret (Some ''RabbitMQ connection string is empty - check AMQP_URL configuration''), r)
      else case ensureConnection env r of
        (Some e, r1) \<Rightarrow> (Ret (Some (''falha ao garantir conex'' @ [CHR 0xC3, CHR 0xA3] @ ''o: '' @ e)), r1)
      | (None, r1) \<Rightarrow>
          (case amqp_call env r1 of
             (Some e, r2) \<Rightarrow> (Ret (Some (''falha ao abrir canal: '' @ e)), r2)
           | (None, r2) \<Rightarrow>
               (case amqp_call env r2 of
                  (Some e, r3) \<Rightarrow> (Ret (Some (''falha ao configurar confirms do canal: '' @ e)), r3)
                | (None, r3) \<Rightarrow>
                    (if rabbitmqEnable = ''global'' \<or> rabbitmqEnable = ''enabled'' then
                       (case amqp_call env r3 of
                          (Some e, r4) \<Rightarrow> (Ret (Some (''falha ao declarar fila '' @ queueName @ '': '' @ e)), r4)
                        | (None, r4) \<Rightarrow>
                            (case publishWithRetry env queueName payload
                                    (r4\<lparr>rbDeclared := rbDeclared r4 @ [queueName]\<rparr>) of
                               (Ret (Some e), r5) \<Rightarrow>
                                 (Ret (Some (''falha ao publicar mensagem ap'' @ [CHR 0xC3, CHR 0xB3]
                                             @ ''s todas as tentativas: '' @ e)), r5)
                             | res \<Rightarrow> res))
                     else (Ret None, r3)))))"

text \<open>\<open>CreateGlobalQueues\<close>: declare each queue, stop at the first failure.\<close>

fun declare_loop :: "amqp_env \<Rightarrow> string \<Rightarrow> string list \<Rightarrow> rabbit \<Rightarrow> go_error \<times> rabbit" where
  "declare_loop env kind [] r = (None, r)"
| "declare_loop env kind (q # qs) r =
     (case amqp_call env r of
        (Some e, r1) \<Rightarrow> (Some (''failed to create '' @ kind @ '' queue '' @ q @ '': '' @ e), r1)
      | (None, r1) \<Rightarrow> declare_loop env kind qs (r1\<lparr>rbDeclared := rbDeclared r1 @ [q]\<rparr>))"

definition global_queue_names :: "string list \<Rightarrow> string list \<Rightarrow> string list" where
  "global_queue_names globalEvents specificEvents =
     (if length specificEvents > 0 then map to_lower specificEvents
      else concat (map (\<lambda>g. case queue_table g of None \<Rightarrow> [] | Some qs \<Rightarrow> qs) globalEvents))"

definition CreateGlobalQueues ::
  "amqp_env \<Rightarrow> bool \<Rightarrow> string list \<Rightarrow> string list \<Rightarrow> rabbit \<Rightarrow> go_error \<times> rabbit" where
  "CreateGlobalQueues env globalEnabled globalEvents specificEvents r =
     (if \<not> globalEnabled then (None, r)
      else case ensureConnection env r of
        (Some e, r1) \<Rightarrow> (Some (''failed to ensure connection: '' @ e), r1)
      | (None, r1) \<Rightarrow>
          (case amqp_call env r1 of
             (Some e, r2) \<Rightarrow> (Some (''failed to open channel: '' @ e), r2)
           | (None, r2) \<Rightarrow>
               declare_loop env (if length specificEvents > 0 then ''specific'' else ''global'')
                 (global_queue_names globalEvents specificEvents) r2))"

section \<open>NATS\<close>

record nats =
  ntConn :: bool
  ntTick :: nat
  ntPublished :: "(string \<times> payload) list"

definition nats_publish :: "(nat \<Rightarrow> go_error) \<Rightarrow> string \<Rightarrow> payload \<Rightarrow> nats \<Rightarrow> go_error \<times> nats" where
  "nats_publish env q p s =
     (case env (ntTick s) of
        Some e \<Rightarrow> (Some e, s\<lparr>ntTick := Suc (ntTick s)\<rparr>)
      | None \<Rightarrow> (None, s\<lparr>ntTick := Suc (ntTick s), ntPublished := ntPublished s @ [(q, p)]\<rparr>))"

definition nats_Produce :: "(nat \<Rightarrow> go_error) \<Rightarrow> nats produce" where
  "nats_Produce env queueName payload natsEnable userID s =
     (if \<not> ntConn s then (Ret None, s)
      else case (if natsEnable = ''global'' then nats_publish env queueName payload s else (None, s)) of
        (Some e, s1) \<Rightarrow> (Ret (Some e), s1)
      | (None, s1) \<Rightarrow>
          (case (if natsEnable = ''enabled'' then nats_publish env queueName payload s1 else (None, s1)) of
             (e, s2) \<Rightarrow> (Ret e, s2)))"

section \<open>Webhook\<close>

text \<open>The outcome of one HTTP exchange: no response, or its status code.\<close>

datatype http_outcome = HttpFailed string | HttpStatus nat

definition sendWebhook :: "http_outcome \<Rightarrow> go_error" where
  "sendWebhook outcome =
     (case outcome of
        HttpFailed e \<Rightarrow> Some e
      | HttpStatus code \<Rightarrow>
          if code < 200 \<or> code \<ge> 300 then Some ''received non-2xx response: '' else None)"

text \<open>\<open>sendWebhookWithRetry\<close>: the outcomes of the attempts it makes, oldest first; attempt \<open>i\<close> has
  the outcome \<open>env i\<close>. It waits \<open>retryInterval\<close> after every failed attempt.\<close>

fun webhook_attempts :: "(nat \<Rightarrow> http_outcome) \<Rightarrow> nat \<Rightarrow> nat \<Rightarrow> http_outcome list" where
  "webhook_attempts env i 0 = []"
| "webhook_attempts env i (Suc k) =
     (if sendWebhook (env i) = None then [env i] else env i # webhook_attempts env (Suc i) k)"

definition sendWebhookWithRetry :: "(nat \<Rightarrow> http_outcome) \<Rightarrow> http_outcome list" where
  "sendWebhookWithRetry env = webhook_attempts env 0 5"

text \<open>\<open>Produce\<close> starts one goroutine per configured address: the producer's own and the instance's.\<close>

record webhook =
  whUrl :: string
  whSpawned :: "(string \<times> payload) list"

definition webhook_Produce :: "webhook produce" where
  "webhook_Produce queueName payload webhookUrl userID s =
     (if length (split_char CHR ''.'' queueName) < 2 then (Ret None, s)
      else (Ret None, s\<lparr>whSpawned := whSpawned s
              @ (if whUrl s \<noteq> [] then [(whUrl s, payload)] else [])
              @ (if webhookUrl \<noteq> [] then [(webhookUrl, payload)] else [])\<rparr>))"

section \<open>WebSocket\<close>

type_synonym conn = nat

record websocket =
  wsClients :: "string \<Rightarrow> conn option"
  wsBroadcast :: "conn list"
  wsSent :: "(conn \<times> string \<times> payload) list"

definition AddBroadcastClient :: "conn \<Rightarrow> websocket \<Rightarrow> websocket" where
  "AddBroadcastClient c s = s\<lparr>wsBroadcast := wsBroadcast s @ [c]\<rparr>"

definition RemoveBroadcastClient :: "conn \<Rightarrow> websocket \<Rightarrow> websocket" where
  "RemoveBroadcastClient c s = s\<lparr>wsBroadcast := remove1 c (wsBroadcast s)\<rparr>"

definition AddClient :: "string \<Rightarrow> conn \<Rightarrow> websocket \<Rightarrow> websocket" where
  "AddClient instanceID c s = s\<lparr>wsClients := (wsClients s)(instanceID \<mapsto> c)\<rparr>"

definition RemoveClient :: "string \<Rightarrow> websocket \<Rightarrow> websocket" where
  "RemoveClient instanceID s = s\<lparr>wsClients := (wsClients s)(instanceID := None)\<rparr>"

text \<open>\<open>WriteJSON\<close> to one connection; a failed write leaves nothing behind.\<close>

definition ws_write :: "(conn \<Rightarrow> bool) \<Rightarrow> conn \<Rightarrow> string \<Rightarrow> payload \<Rightarrow> websocket \<Rightarrow> bool \<times> websocket" where
  "ws_write fails c q p s =
     (if fails c then (False, s) else (True, s\<lparr>wsSent := wsSent s @ [(c, q, p)]\<rparr>))"

fun ws_broadcast :: "(conn \<Rightarrow> bool) \<Rightarrow> conn list \<Rightarrow> string \<Rightarrow> payload \<Rightarrow> websocket \<Rightarrow> websocket" where
  "ws_broadcast fails [] q p s = s"
| "ws_broadcast fails (c # cs) q p s = ws_broadcast fails cs q p (snd (ws_write fails c q p s))"

definition websocket_Produce :: "(conn \<Rightarrow> bool) \<Rightarrow> websocket produce" where
  "websocket_Produce fails queueName payload instanceID tok s =
     (let q = to_lower queueName in
      case wsClients s instanceID of
        Some client \<Rightarrow>
          (case ws_write fails client q payload s of
             (False, s1) \<Rightarrow> (Ret (Some ''websocket write failed''), s1)
           | (True, s1) \<Rightarrow> (Ret None, ws_broadcast fails (wsBroadcast s1) q payload s1))
      | None \<Rightarrow> (Ret None, ws_broadcast fails (wsBroadcast s) q payload s))"

text \<open>\<open>ServeWs\<close> registers an upgraded connection; its reading goroutine unregisters it when a read
  fails: by connection for a broadcast one, by instance for the others. \<open>wwOpen\<close> are the open
  connections with the instance they were opened for.\<close>

record ws_world =
  wwProducer :: websocket
  wwOpen :: "(conn \<times> string) list"

definition ServeWs :: "string \<Rightarrow> conn \<Rightarrow> ws_world \<Rightarrow> ws_world" where
  "ServeWs instanceId c w =
     w\<lparr>wwProducer := (if instanceId = [] then AddBroadcastClient c (wwProducer w)
                      else AddClient instanceId c (wwProducer w)),
       wwOpen := (c, instanceId) # wwOpen w\<rparr>"

definition ServeWs_closed :: "string \<Rightarrow> conn \<Rightarrow> ws_world \<Rightarrow> ws_world" where
  "ServeWs_closed instanceId c w =
     w\<lparr>wwProducer := (if instanceId = [] then RemoveBroadcastClient c (wwProducer w)
                      else RemoveClient instanceId (wwProducer w)),
       wwOpen := filter (\<lambda>e. fst e \<noteq> c) (wwOpen w)\<rparr>"

inductive ws_step :: "(conn \<Rightarrow> bool) \<Rightarrow> ws_world \<Rightarrow> ws_world \<Rightarrow> bool" for fails where
  ws_open: "c \<notin> fst ` set (wwOpen w) \<Longrightarrow> ws_step fails w (ServeWs i c w)"
| ws_close: "(c, i) \<in> set (wwOpen w) \<Longrightarrow> ws_step fails w (ServeWs_closed i c w)"
| ws_emit: "websocket_Produce fails q p i tok (wwProducer w) = (res, s') \<Longrightarrow>
     ws_step fails w (w\<lparr>wwProducer := s'\<rparr>)"

definition ws_initial :: ws_world where
  "ws_initial = \<lparr>wwProducer = \<lparr>wsClients = (\<lambda>_. None), wsBroadcast = [], wsSent = []\<rparr>, wwOpen = []\<rparr>"

inductive ws_reachable :: "(conn \<Rightarrow> bool) \<Rightarrow> ws_world \<Rightarrow> bool" for fails where
  ws_start: "ws_reachable fails ws_initial"
| ws_next: "ws_reachable fails w \<Longrightarrow> ws_step fails w w' \<Longrightarrow> ws_reachable fails w'"

section \<open>Lemmas\<close>

subsection \<open>RabbitMQ\<close>

text \<open>The broker of two states agrees: same messages, declared queues and address.\<close>

definition same_broker :: "rabbit \<Rightarrow> rabbit \<Rightarrow> bool" where
  "same_broker r r' =
     (rbPublished r' = rbPublished r \<and> rbDeclared r' = rbDeclared r \<and> rbConnStr r' = rbConnStr r)"

lemma same_broker_refl [simp]: "same_broker r r"
  by (simp add: same_broker_def)

lemma same_broker_trans [trans]: "same_broker r r1 \<Longrightarrow> same_broker r1 r2 \<Longrightarrow> same_broker r r2"
  by (simp add: same_broker_def)

lemma same_broker_updates [simp]:
  "same_broker r (r1\<lparr>rbConn := c\<rparr>) = same_broker r r1"
  "same_broker r (r1\<lparr>rbTick := n\<rparr>) = same_broker r r1"
  "same_broker r (rb_sleep n r1) = same_broker r r1"
  "same_broker (r\<lparr>rbConn := c\<rparr>) r1 = same_broker r r1"
  "same_broker (r\<lparr>rbTick := n\<rparr>) r1 = same_broker r r1"
  "same_broker (rb_sleep n r) r1 = same_broker r r1"
  by (simp_all add: same_broker_def rb_sleep_def)

lemma amqp_call_keeps: "amqp_call env r = (res, r') \<Longrightarrow> same_broker r r'"
  by (auto simp: amqp_call_def)

lemma reconnect_loop_keeps: "reconnect_loop env k err r = (res, r') \<Longrightarrow> same_broker r r'"
  by (induction env k err r rule: reconnect_loop.induct)
    (auto simp: amqp_call_def Let_def split: option.splits if_splits)

lemma reconnect_loop_connects: "reconnect_loop env k err r = (None, r') \<Longrightarrow> rbConn r'"
  by (induction env k err r rule: reconnect_loop.induct)
    (auto simp: amqp_call_def Let_def split: option.splits if_splits)

lemma ensureConnection_keeps: "ensureConnection env r = (res, r') \<Longrightarrow> same_broker r r'"
  by (auto simp: ensureConnection_def reconnect_def dest: reconnect_loop_keeps split: if_splits)

lemma ensureConnection_connects: "ensureConnection env r = (None, r') \<Longrightarrow> rbConn r'"
  by (auto simp: ensureConnection_def reconnect_def dest: reconnect_loop_connects split: if_splits)

lemmas rabbit_keeps = amqp_call_keeps ensureConnection_keeps

text \<open>What publishing leaves in the broker: nothing, or the message once, and then nil.\<close>

definition published_once ::
  "string \<Rightarrow> payload \<Rightarrow> rabbit \<Rightarrow> go_error exec \<Rightarrow> rabbit \<Rightarrow> bool" where
  "published_once q p r res r' =
     (same_broker r r' \<or>
      res = Ret None \<and> rbPublished r' = rbPublished r @ [(q, p)]
        \<and> rbDeclared r' = rbDeclared r \<and> rbConnStr r' = rbConnStr r)"

lemma published_once_trans:
  "same_broker r r1 \<Longrightarrow> published_once q p r1 res r' \<Longrightarrow> published_once q p r res r'"
  by (auto simp: published_once_def same_broker_def)

lemma publish_loop_effect:
  "publish_loop env i k ch err q p r = (res, r') \<Longrightarrow> published_once q p r res r'"
proof (induction k arbitrary: i ch err r)
  case 0
  then show ?case by (simp add: published_once_def)
next
  case (Suc k)
  have IH: "published_once q p r res r'"
    if "publish_loop env j k c e q p s = (res, r')" "same_broker r s" for j c e s
    using Suc.IH [OF that(1)] published_once_trans [OF that(2)] by blast
  obtain o1 r1 where c1: "amqp_call env r = (o1, r1)" by fastforce
  obtain o2 r2 where c2: "ensureConnection env r1 = (o2, r2)" by fastforce
  obtain o3 r3 where c3: "amqp_call env r2 = (o3, r3)" by fastforce
  have k1: "same_broker r r1" using c1 by (rule amqp_call_keeps)
  then have k2: "same_broker r r2" using same_broker_trans ensureConnection_keeps [OF c2] by blast
  then have k3: "same_broker r r3" using same_broker_trans amqp_call_keeps [OF c3] by blast
  consider "\<not> ch" | "ch" "o1 = None" | e where "ch" "o1 = Some e" "e \<noteq> channel_closed_text"
    | e2 where "ch" "o1 = Some channel_closed_text" "o2 = Some e2"
    | "ch" "o1 = Some channel_closed_text" "o2 = None" by blast
  then show ?case
  proof cases
    case 1
    with Suc.prems show ?thesis by (simp add: published_once_def)
  next
    case 2
    with Suc.prems c1 k1 show ?thesis by (auto simp: published_once_def same_broker_def)
  next
    case 3
    with Suc.prems c1 k1 show ?thesis by (auto intro: IH)
  next
    case 4
    with Suc.prems c1 c2 k2 show ?thesis by (auto intro: IH)
  next
    case 5
    with Suc.prems c1 c2 c3 k3 show ?thesis by (cases o3) (auto intro: IH)
  qed
qed

text \<open>As long as no call fails with the 504 text, nil means that the message was published.\<close>

lemma publish_loop_plain:
  assumes "\<forall>n. amqpErr env n \<noteq> Some channel_closed_text"
  shows "err \<noteq> None \<or> k > 0 \<Longrightarrow> publish_loop env i k True err q p r = (res, r') \<Longrightarrow>
     (res = Ret None \<and> rbPublished r' = rbPublished r @ [(q, p)]) \<or> (\<exists>e. res = Ret (Some e))"
proof (induction k arbitrary: i err r)
  case (Suc k)
  show ?case
  proof (cases "amqpErr env (rbTick r)")
    case None
    with Suc.prems show ?thesis by (auto simp: amqp_call_def)
  next
    case (Some e)
    with assms have "e \<noteq> channel_closed_text" by auto
    with Some Suc.prems(2)
    have "publish_loop env (Suc i) k True (Some e) q p
            (rb_sleep (Suc i) (r\<lparr>rbTick := Suc (rbTick r)\<rparr>)) = (res, r')"
      by (simp add: amqp_call_def)
    from Suc.IH [OF _ this] show ?thesis by (simp add: rb_sleep_def)
  qed
qed auto

text \<open>\<open>Produce\<close>: the messages are those of before, or one more; a message only goes out for the two
  values of the switch the code compares with, and only to a queue declared in the same call.\<close>

lemma rabbit_Produce_effect:
  assumes "rabbit_Produce env q p en u r = (res, r')"
  shows "same_broker r r' \<or>
     (en = ''global'' \<or> en = ''enabled'') \<and> rbDeclared r' = rbDeclared r @ [q] \<and> rbConnStr r' = rbConnStr r
       \<and> (rbPublished r' = rbPublished r \<or> res = Ret None \<and> rbPublished r' = rbPublished r @ [(q, p)])"
proof -
  obtain o1 r1 where c1: "ensureConnection env r = (o1, r1)" by fastforce
  obtain o2 r2 where c2: "amqp_call env r1 = (o2, r2)" by fastforce
  obtain o3 r3 where c3: "amqp_call env r2 = (o3, r3)" by fastforce
  obtain o4 r4 where c4: "amqp_call env r3 = (o4, r4)" by fastforce
  obtain o5 r5 where c5: "publishWithRetry env q p (r4\<lparr>rbDeclared := rbDeclared r4 @ [q]\<rparr>) = (o5, r5)"
    by fastforce
  have k1: "same_broker r r1" using c1 by (rule ensureConnection_keeps)
  then have k2: "same_broker r r2" using same_broker_trans amqp_call_keeps [OF c2] by blast
  then have k3: "same_broker r r3" using same_broker_trans amqp_call_keeps [OF c3] by blast
  then have k4: "same_broker r r4" using same_broker_trans amqp_call_keeps [OF c4] by blast
  have pub: "published_once q p (r4\<lparr>rbDeclared := rbDeclared r4 @ [q]\<rparr>) o5 r5"
    using publish_loop_effect c5 unfolding publishWithRetry_def .
  consider "rbConnStr r = []" | e where "rbConnStr r \<noteq> []" "o1 = Some e"
    | e where "rbConnStr r \<noteq> []" "o1 = None" "o2 = Some e"
    | e where "rbConnStr r \<noteq> []" "o1 = None" "o2 = None" "o3 = Some e"
    | "rbConnStr r \<noteq> []" "o1 = None" "o2 = None" "o3 = None"
    by (metis option.exhaust)
  then show ?thesis
  proof cases
    case 5
    show ?thesis
    proof (cases "en = ''global'' \<or> en = ''enabled''")
      case True
      note en = this
      show ?thesis
      proof (cases o4)
        case (Some e)
        with 5 assms c1 c2 c3 c4 en k4 show ?thesis by (auto simp: rabbit_Produce_def)
      next
        case None
        have r': "r' = r5" and res: "o5 = Ret None \<longrightarrow> res = Ret None"
          using 5 None assms c1 c2 c3 c4 c5 en
          by (auto simp: rabbit_Produce_def split: exec.splits option.splits)
        then show ?thesis using en pub k4 by (auto simp: published_once_def same_broker_def)
      qed
    next
      case False
      with 5 assms c1 c2 c3 k3 show ?thesis by (auto simp: rabbit_Produce_def)
    qed
  qed (use assms c1 c2 c3 k1 k2 k3 in \<open>auto simp: rabbit_Produce_def\<close>)
qed

definition rabbit_delivered :: "rabbit \<Rightarrow> payload multiset" where
  "rabbit_delivered r = image_mset snd (mset (rbPublished r))"

interpretation rabbitmq: producer "rabbit_Produce env" rabbit_delivered for env
proof unfold_locales
  fix q p en u s r s'
  assume "rabbit_Produce env q p en u s = (r, s')"
  from rabbit_Produce_effect [OF this]
  consider "rbPublished s' = rbPublished s" | "rbPublished s' = rbPublished s @ [(q, p)]"
    by (auto simp: same_broker_def)
  then show "\<exists>n. rabbit_delivered s' = rabbit_delivered s + replicate_mset n p"
  proof cases
    case 1
    then show ?thesis by (intro exI [of _ 0]) (simp add: rabbit_delivered_def)
  next
    case 2
    then show ?thesis by (intro exI [of _ 1]) (simp add: rabbit_delivered_def)
  qed
qed

lemma declare_loop_declares:
  "declare_loop env kind qs r = (None, r') \<Longrightarrow> rbDeclared r' = rbDeclared r @ qs"
  by (induction env kind qs r arbitrary: rule: declare_loop.induct)
    (auto simp: amqp_call_def split: option.splits)

lemma declare_loop_prefix:
  "declare_loop env kind qs r = (res, r') \<Longrightarrow> \<exists>ds. prefix ds qs \<and> rbDeclared r' = rbDeclared r @ ds
     \<and> rbPublished r' = rbPublished r"
proof (induction env kind qs r rule: declare_loop.induct)
  case (2 env kind q qs r)
  show ?case
  proof (cases "amqpErr env (rbTick r)")
    case None
    then have "declare_loop env kind qs
        (r\<lparr>rbTick := Suc (rbTick r), rbDeclared := rbDeclared r @ [q]\<rparr>) = (res, r')"
      using 2 by (simp add: amqp_call_def)
    with 2(1) None obtain ds where "prefix ds qs" "rbDeclared r' = rbDeclared r @ q # ds"
      "rbPublished r' = rbPublished r"
      by (fastforce simp: amqp_call_def)
    then show ?thesis by (intro exI [of _ "q # ds"]) simp
  next
    case (Some e)
    with 2 show ?thesis by (auto simp: amqp_call_def)
  qed
qed simp

subsection \<open>NATS, webhook, WebSocket\<close>

definition nats_delivered :: "nats \<Rightarrow> payload multiset" where
  "nats_delivered s = image_mset snd (mset (ntPublished s))"

lemma nats_Produce_effect:
  "nats_Produce env q p en u s = (res, s') \<Longrightarrow>
     ntPublished s' = ntPublished s \<or>
     res = Ret None \<and> (en = ''global'' \<or> en = ''enabled'') \<and> ntPublished s' = ntPublished s @ [(q, p)]"
  by (auto simp: nats_Produce_def nats_publish_def split: if_splits option.splits)

interpretation nats: producer "nats_Produce env" nats_delivered for env
proof unfold_locales
  fix q p en u s r s'
  assume "nats_Produce env q p en u s = (r, s')"
  from nats_Produce_effect [OF this]
  consider "ntPublished s' = ntPublished s" | "ntPublished s' = ntPublished s @ [(q, p)]" by blast
  then show "\<exists>n. nats_delivered s' = nats_delivered s + replicate_mset n p"
  proof cases
    case 1
    then show ?thesis by (intro exI [of _ 0]) (simp add: nats_delivered_def)
  next
    case 2
    then show ?thesis by (intro exI [of _ 1]) (simp add: nats_delivered_def)
  qed
qed

definition webhook_delivered :: "webhook \<Rightarrow> payload multiset" where
  "webhook_delivered s = image_mset snd (mset (whSpawned s))"

interpretation webhook_out: producer webhook_Produce webhook_delivered
proof unfold_locales
  fix q p en u s r s'
  assume prod: "webhook_Produce q p en u s = (r, s')"
  let ?n = "if length (split_char CHR ''.'' q) < 2 then 0
            else (if whUrl s \<noteq> [] then 1 else 0) + (if en \<noteq> [] then 1 else 0 :: nat)"
  have "webhook_delivered s' = webhook_delivered s + replicate_mset ?n p"
    using prod by (auto simp: webhook_Produce_def webhook_delivered_def split: if_splits)
  then show "\<exists>n. webhook_delivered s' = webhook_delivered s + replicate_mset n p" ..
qed

definition websocket_delivered :: "websocket \<Rightarrow> payload multiset" where
  "websocket_delivered s = image_mset (\<lambda>m. snd (snd m)) (mset (wsSent s))"

lemma ws_broadcast_sent:
  "wsSent (ws_broadcast fails cs q p s) =
     wsSent s @ map (\<lambda>c. (c, q, p)) (filter (\<lambda>c. \<not> fails c) cs)"
  by (induction cs arbitrary: s) (auto simp: ws_write_def)

lemma ws_broadcast_clients [simp]:
  "wsClients (ws_broadcast fails cs q p s) = wsClients s"
  "wsBroadcast (ws_broadcast fails cs q p s) = wsBroadcast s"
  by (induction cs arbitrary: s) (auto simp: ws_write_def)

lemma websocket_Produce_sent:
  assumes "websocket_Produce fails q p i tok s = (res, s')"
  shows "wsSent s' = wsSent s @ map (\<lambda>c. (c, to_lower q, p))
     (case wsClients s i of
        Some c \<Rightarrow> (if fails c then [] else c # filter (\<lambda>c. \<not> fails c) (wsBroadcast s))
      | None \<Rightarrow> filter (\<lambda>c. \<not> fails c) (wsBroadcast s))"
  using assms
  by (auto simp: websocket_Produce_def Let_def ws_write_def ws_broadcast_sent split: option.splits if_splits)

interpretation websocket_out: producer "websocket_Produce fails" websocket_delivered for fails
proof unfold_locales
  fix q p en u s r s'
  assume "websocket_Produce fails q p en u s = (r, s')"
  from websocket_Produce_sent [OF this] obtain cs
    where cs: "wsSent s' = wsSent s @ map (\<lambda>c. (c, to_lower q, p)) cs" by blast
  have "image_mset (\<lambda>m. snd (snd m)) (mset (map (\<lambda>c. (c, to_lower q, p)) cs)) = replicate_mset (length cs) p"
    by (induction cs) auto
  then show "\<exists>n. websocket_delivered s' = websocket_delivered s + replicate_mset n p"
    using cs by (intro exI [of _ "length cs"]) (simp add: websocket_delivered_def)
qed

text \<open>Registered connections are open ones, and every open broadcast connection is registered.\<close>

definition ws_inv :: "ws_world \<Rightarrow> bool" where
  "ws_inv w =
     ((\<forall>i c. wsClients (wwProducer w) i = Some c \<longrightarrow> (c, i) \<in> set (wwOpen w) \<and> i \<noteq> [])
      \<and> (\<forall>c. c \<in> set (wsBroadcast (wwProducer w)) \<longleftrightarrow> (c, []) \<in> set (wwOpen w))
      \<and> distinct (map fst (wwOpen w)) \<and> distinct (wsBroadcast (wwProducer w)))"

lemma websocket_Produce_keeps:
  "websocket_Produce fails q p i tok s = (res, s') \<Longrightarrow> wsClients s' = wsClients s \<and> wsBroadcast s' = wsBroadcast s"
  by (auto simp: websocket_Produce_def Let_def ws_write_def split: option.splits if_splits)

lemmas ws_ops = AddBroadcastClient_def AddClient_def RemoveBroadcastClient_def RemoveClient_def

lemma ws_inv_open:
  assumes "ws_inv w" and "c \<notin> fst ` set (wwOpen w)"
  shows "ws_inv (ServeWs i c w)"
  using assms by (force simp: ws_inv_def ServeWs_def ws_ops)

lemma distinct_fst_eq: "distinct (map fst xs) \<Longrightarrow> (c, i) \<in> set xs \<Longrightarrow> (c, j) \<in> set xs \<Longrightarrow> i = j"
  by (metis eq_key_imp_eq_value)

lemma ws_inv_close:
  assumes inv: "ws_inv w" and mem: "(c, i) \<in> set (wwOpen w)"
  shows "ws_inv (ServeWs_closed i c w)"
proof -
  have dist: "distinct (map fst (wwOpen w))" using inv by (simp add: ws_inv_def)
  have own: "j = i" if "(c, j) \<in> set (wwOpen w)" for j
    using distinct_fst_eq [OF dist that mem] .
  have cl: "\<forall>j d. wsClients (wwProducer w) j = Some d \<longrightarrow> (d, j) \<in> set (wwOpen w) \<and> j \<noteq> []"
    and br: "\<forall>d. d \<in> set (wsBroadcast (wwProducer w)) \<longleftrightarrow> (d, []) \<in> set (wwOpen w)"
    and db: "distinct (wsBroadcast (wwProducer w))"
    using inv by (simp_all add: ws_inv_def)
  have d': "distinct (map fst (filter (\<lambda>e. fst e \<noteq> c) (wwOpen w)))"
    using dist by (simp add: distinct_map_filter)
  show ?thesis
  proof (cases "i = []")
    case True
    have "d \<noteq> c" if "wsClients (wwProducer w) j = Some d" for j d
      using cl that own True by blast
    then show ?thesis
      using True cl br db d' by (simp add: ws_inv_def ServeWs_closed_def ws_ops)
  next
    case False
    have "d \<noteq> c" if "wsClients (wwProducer w) j = Some d" "j \<noteq> i" for j d
      using cl that own by blast
    moreover have "d \<noteq> c" if "(d, []) \<in> set (wwOpen w)" for d
      using that own False by blast
    ultimately show ?thesis
      using False cl br db d' by (simp add: ws_inv_def ServeWs_closed_def ws_ops) blast
  qed
qed

lemma ws_inv_reachable: "ws_reachable fails w \<Longrightarrow> ws_inv w"
proof (induction rule: ws_reachable.induct)
  case ws_start
  show ?case by (simp add: ws_inv_def ws_initial_def)
next
  case (ws_next w w')
  from ws_next(2) show ?case
  proof (cases rule: ws_step.cases)
    case (ws_open c i)
    with ws_next ws_inv_open show ?thesis by simp
  next
    case (ws_close c i)
    with ws_next ws_inv_close show ?thesis by simp
  next
    case (ws_emit q p i tok res s')
    with ws_next websocket_Produce_keeps [OF ws_emit(2)] show ?thesis by (simp add: ws_inv_def)
  qed
qed

section \<open>Properties\<close>


definition sample_rabbit :: rabbit where
  "sample_rabbit = \<lparr>rbConnStr = ''amqp://mq'', rbConn = True, rbTick = 0, rbSlept = 0, rbDeclared = [],
     rbPublished = []\<rparr>"


text \<open>When no call of the AMQP library fails with the 504 text, \<open>publishWithRetry\<close> does not panic,
  and it returns nil exactly when the message has been published; otherwise it returns the error of
  the last attempt and nothing is published.\<close>

theorem publish_success_means_published:
  assumes "\<forall>n. amqpErr env n \<noteq> Some channel_closed_text"
    and "publishWithRetry env q p r = (res, r')"
  shows "(res = Ret None \<and> rbPublished r' = rbPublished r @ [(q, p)]) \<or>
     (\<exists>e. res = Ret (Some e) \<and> rbPublished r' = rbPublished r)"
proof -
  have "published_once q p r res r'"
    using assms(2) unfolding publishWithRetry_def by (rule publish_loop_effect)
  moreover from assms(2) have "(res = Ret None \<and> rbPublished r' = rbPublished r @ [(q, p)]) \<or> (\<exists>e. res = Ret (Some e))"
    unfolding publishWithRetry_def by (intro publish_loop_plain [OF assms(1)]) auto
  ultimately show ?thesis by (auto simp: published_once_def same_broker_def)
qed

lemma publish_success_means_published_witness:
  "fst (publishWithRetry \<lparr>amqpErr = (\<lambda>n. Some ''full''), amqpClosed = (\<lambda>n. False)\<rparr>
      ''q'' (NotJson ''x'') sample_rabbit) = Ret (Some ''full'')"
  using publish_success_means_published [of "\<lparr>amqpErr = (\<lambda>n. Some ''full''), amqpClosed = (\<lambda>n. False)\<rparr>"
      "''q''" "NotJson ''x''" sample_rabbit]
  by (simp add: sample_rabbit_def amqp_call_def publishWithRetry_def eval_nat_numeral
      channel_closed_text_def rb_sleep_def)

text \<open>A message is lost and reported as sent: when the three publications fail with the 504 text on
  an open connection and the channel can be reopened each time, \<open>publishWithRetry\<close> returns nil,
  because reopening the channel overwrites the error of the last attempt, though nothing has been
  published.\<close>

theorem publish_loses_message:
  assumes "rbConn r" and "\<And>n. \<not> amqpClosed env n"
    and "list_all (\<lambda>k. amqpErr env (rbTick r + 2 * k) = Some channel_closed_text) [0, 1, 2]"
    and "list_all (\<lambda>k. amqpErr env (rbTick r + 2 * k + 1) = None) [0, 1, 2]"
  shows "\<exists>r'. publishWithRetry env q p r = (Ret None, r') \<and> rbPublished r' = rbPublished r"
  using assms
  by (simp add: publishWithRetry_def amqp_call_def ensureConnection_def eval_nat_numeral rb_sleep_def)

lemma publish_loses_message_witness:
  "\<exists>r'. publishWithRetry
      \<lparr>amqpErr = (\<lambda>n. if n mod 2 = 0 then Some channel_closed_text else None), amqpClosed = (\<lambda>n. False)\<rparr>
      ''q'' (NotJson ''x'') sample_rabbit = (Ret None, r') \<and> rbPublished r' = []"
  using publish_loses_message [of sample_rabbit
      "\<lparr>amqpErr = (\<lambda>n. if n mod 2 = 0 then Some channel_closed_text else None), amqpClosed = (\<lambda>n. False)\<rparr>"
      "''q''" "NotJson ''x''"]
  by (simp add: sample_rabbit_def)

text \<open>\<open>sendWebhookWithRetry\<close> makes between one and five attempts, all but the last of them failed,
  and it gives up before the fifth only after a success: the last attempt succeeded, or there were
  five.\<close>

theorem webhook_retry_bounded:
  "let as = sendWebhookWithRetry env in
     1 \<le> length as \<and> length as \<le> 5 \<and> as = map env [0..<length as]
     \<and> list_all (\<lambda>o1. sendWebhook o1 \<noteq> None) (butlast as)
     \<and> (if sendWebhook (last as) = None then True else length as = 5)"
  by (simp add: sendWebhookWithRetry_def eval_nat_numeral upt_rec)

text \<open>C39: In every reachable state of the WebSocket producer the connections it would write to are open
  ones, opened for the instance they are registered under, and every open broadcast connection is
  registered, once.\<close>

theorem ws_registered_open:
  assumes "ws_reachable fails w"
  shows "(case wsClients (wwProducer w) i of None \<Rightarrow> True | Some c \<Rightarrow> (c, i) \<in> set (wwOpen w))
     \<and> set (wsBroadcast (wwProducer w)) = {c. (c, []) \<in> set (wwOpen w)}
     \<and> distinct (wsBroadcast (wwProducer w))"
  using ws_inv_reachable [OF assms] by (auto simp: ws_inv_def split: option.splits)

lemma ws_two_clients: "ws_reachable fails (ServeWs ''i'' 2 (ServeWs ''i'' 1 ws_initial))"
  by (rule ws_next [OF ws_next [OF ws_start ws_open] ws_open]) (simp_all add: ws_initial_def ServeWs_def)

lemma ws_registered_open_witness:
  "wsClients (wwProducer (ServeWs ''i'' 2 (ServeWs ''i'' 1 ws_initial))) ''i'' = Some 2
   \<and> (2, ''i'') \<in> set (wwOpen (ServeWs ''i'' 2 (ServeWs ''i'' 1 ws_initial)))"
  using ws_registered_open [OF ws_two_clients, where i = "''i''"]
  by (simp add: ServeWs_def ws_ops)

text \<open>When an instance has reconnected before its old connection is seen to be closed, the closing
  of the old one unregisters the new one, which stays open: the instance then receives nothing.\<close>

theorem ws_reconnect_lost:
  assumes "i \<noteq> []" and "c1 \<noteq> c2"
  shows "let w = ServeWs_closed i c1 (ServeWs i c2 (ServeWs i c1 w0))
     in (c2, i) \<in> set (wwOpen w) \<and> wsClients (wwProducer w) i = None"
  using assms by (simp add: ServeWs_def ServeWs_closed_def ws_ops Let_def)

lemma ws_reconnect_lost_witness:
  "let w = ServeWs_closed ''i'' 1 (ServeWs ''i'' 2 (ServeWs ''i'' 1 ws_initial))
   in ws_reachable (\<lambda>_. False) w \<and> (2, ''i'') \<in> set (wwOpen w) \<and> wsClients (wwProducer w) ''i'' = None"
  using ws_reconnect_lost [of "''i''" 1 2 ws_initial]
    ws_next [OF ws_two_clients ws_close [of 1 "''i''"], of "\<lambda>_. False"]
  by (simp add: Let_def ServeWs_def ws_initial_def)

end
