(* ===== verification/Routing.thy ===== *)
theory Routing
  imports Producers
begin

text \<open>
  Dispatch of an event to the producers: \<open>CallWebhook\<close>, \<open>sendToQueueOrWebhook\<close> and
  \<open>SendToGlobalQueues\<close> of \<open>pkg/whatsmeow/service/whatsmeow.go\<close>. The state is the four producers'
  (\<open>bus\<close>); what the brokers answer is the parameter \<open>net\<close>. The lemmas show which events reach which
  producer for the stored subscriptions, and that every queue an event is routed to is one that
  \<open>CreateGlobalQueues\<close> declares.
\<close>

record net =
  netAmqp :: amqp_env
  netNats :: "nat \<Rightarrow> go_error"
  netWsFails :: "conn \<Rightarrow> bool"

record bus =
  busRabbit :: rabbit
  busNats :: nats
  busWebsocket :: websocket
  busWebhook :: webhook

section \<open>The producers of an instance\<close>

definition switched_on :: "string \<Rightarrow> bool" where
  "switched_on v = (v = ''enabled'' \<or> v = ''true'')"

definition send_rabbitmq :: "net \<Rightarrow> Instance \<Rightarrow> string \<Rightarrow> payload \<Rightarrow> bus \<Rightarrow> go_error exec \<times> bus" where
  "send_rabbitmq net instnc queueName jsonData b =
     (if switched_on (iRabbitmqEnable instnc) then
        (case rabbit_Produce (netAmqp net) queueName jsonData (iRabbitmqEnable instnc) (iId instnc) (busRabbit b) of
           (res, s) \<Rightarrow> (res, b\<lparr>busRabbit := s\<rparr>))
      else (Ret None, b))"

definition send_nats :: "net \<Rightarrow> Instance \<Rightarrow> string \<Rightarrow> payload \<Rightarrow> bus \<Rightarrow> go_error exec \<times> bus" where
  "send_nats net instnc queueName jsonData b =
     (if switched_on (iNatsEnable instnc) then
        (case nats_Produce (netNats net) queueName jsonData (iNatsEnable instnc) (iId instnc) (busNats b) of
           (res, s) \<Rightarrow> (res, b\<lparr>busNats := s\<rparr>))
      else (Ret None, b))"

definition send_websocket :: "net \<Rightarrow> Instance \<Rightarrow> string \<Rightarrow> payload \<Rightarrow> bus \<Rightarrow> go_error exec \<times> bus" where
  "send_websocket net instnc queueName jsonData b =
     (if switched_on (iWebSocketEnable instnc) then
        (case websocket_Produce (netWsFails net) queueName jsonData (iId instnc) (iToken instnc) (busWebsocket b) of
           (res, s) \<Rightarrow> (res, b\<lparr>busWebsocket := s\<rparr>))
      else (Ret None, b))"

definition send_webhook :: "Instance \<Rightarrow> string \<Rightarrow> payload \<Rightarrow> bus \<Rightarrow> go_error exec \<times> bus" where
  "send_webhook instnc queueName jsonData b =
     (if iWebhook instnc \<noteq> [] \<and> iWebhook instnc \<noteq> ''disabled'' then
        (case webhook_Produce queueName jsonData (iWebhook instnc) (iId instnc) (busWebhook b) of
           (res, s) \<Rightarrow> (res, b\<lparr>busWebhook := s\<rparr>))
      else (Ret None, b))"

text \<open>Go on only after a call that returned nil.\<close>

definition unless_failed :: "go_error exec \<times> 's \<Rightarrow> ('s \<Rightarrow> go_error exec \<times> 's) \<Rightarrow> go_error exec \<times> 's" where
  "unless_failed r k = (case r of (Ret None, s) \<Rightarrow> k s | _ \<Rightarrow> r)"

text \<open>The value of the result is the error that is logged; the code returns nothing.\<close>

definition sendToQueueOrWebhook ::
  "net \<Rightarrow> Instance \<Rightarrow> string \<Rightarrow> payload \<Rightarrow> bus \<Rightarrow> go_error exec \<times> bus" where
  "sendToQueueOrWebhook net instnc queueName jsonData b =
     unless_failed (send_rabbitmq net instnc queueName jsonData b) (\<lambda>b1.
     unless_failed (send_nats net instnc queueName jsonData b1) (\<lambda>b2.
     unless_failed (send_websocket net instnc queueName jsonData b2) (\<lambda>b3.
     send_webhook instnc queueName jsonData b3)))"

section \<open>Subscriptions\<close>

definition CallWebhook ::
  "net \<Rightarrow> Instance \<Rightarrow> string \<Rightarrow> payload \<Rightarrow> bus \<Rightarrow> go_error exec \<times> bus" where
  "CallWebhook net instnc queueName jsonData b =
     (case jsonData of
        NotJson _ \<Rightarrow> (Ret None, b)
      | Marshalled data \<Rightarrow>
          (case data ''event'' of
             Some (JStr eventType) \<Rightarrow>
               (let subscriptions = parse_events (iEvents instnc) in
                if contains_event subscriptions ''ALL'' then
                  sendToQueueOrWebhook net instnc queueName jsonData b
                else case webhook_group eventType of
                  None \<Rightarrow> (Ret None, b)
                | Some g \<Rightarrow>
                    if contains_event subscriptions g then
                      sendToQueueOrWebhook net instnc queueName jsonData b
                    else (Ret None, b))
           | _ \<Rightarrow> (Ret None, b)))"

section \<open>Global queues\<close>

record global_config =
  AmqpGlobalEnabled :: bool
  AmqpGlobalEvents :: "string list"
  AmqpSpecificEvents :: "string list"
  NatsGlobalEnabled :: bool
  NatsGlobalEvents :: "string list"

text \<open>The AMQP part: the queue, or nothing to send, or the early return on an unmapped event.\<close>

datatype amqp_route = ToQueue string | NotConfigured | Unmapped

definition amqp_target :: "global_config \<Rightarrow> string \<Rightarrow> amqp_route" where
  "amqp_target cfg eventType =
     (if length (AmqpSpecificEvents cfg) > 0 then
        (if eventType \<in> set (AmqpSpecificEvents cfg) then ToQueue (to_lower eventType) else NotConfigured)
      else case global_event_type eventType of
        None \<Rightarrow> Unmapped
      | Some g \<Rightarrow>
          if g \<in> set (AmqpGlobalEvents cfg) then ToQueue (to_lower eventType) else NotConfigured)"

definition nats_target :: "global_config \<Rightarrow> string \<Rightarrow> string option" where
  "nats_target cfg eventType =
     (case global_event_type eventType of
        None \<Rightarrow> None
      | Some g \<Rightarrow> if g \<in> set (NatsGlobalEvents cfg) then Some (to_lower eventType) else None)"

text \<open>An error of the first producer is logged and does not keep the second from being used.\<close>

definition global_nats :: "net \<Rightarrow> global_config \<Rightarrow> string \<Rightarrow> payload \<Rightarrow> string \<Rightarrow> bus \<Rightarrow> go_error exec \<times> bus" where
  "global_nats net cfg eventType payload userId b =
     (if NatsGlobalEnabled cfg then
        (case nats_target cfg eventType of
           None \<Rightarrow> (Ret None, b)
         | Some queueName \<Rightarrow>
             (case nats_Produce (netNats net) queueName payload ''global'' userId (busNats b) of
                (res, s) \<Rightarrow> (res, b\<lparr>busNats := s\<rparr>)))
      else (Ret None, b))"

definition SendToGlobalQueues ::
  "net \<Rightarrow> global_config \<Rightarrow> string \<Rightarrow> payload \<Rightarrow> string \<Rightarrow> bus \<Rightarrow> go_error exec \<times> bus" where
  "SendToGlobalQueues net cfg eventType payload userId b =
     (if AmqpGlobalEnabled cfg then
        (case amqp_target cfg eventType of
           Unmapped \<Rightarrow> (Ret None, b)
         | NotConfigured \<Rightarrow> global_nats net cfg eventType payload userId b
         | ToQueue queueName \<Rightarrow>
             (case rabbit_Produce (netAmqp net) queueName payload ''global'' userId (busRabbit b) of
                (Panic, s) \<Rightarrow> (Panic, b\<lparr>busRabbit := s\<rparr>)
              | (Ret _, s) \<Rightarrow> global_nats net cfg eventType payload userId (b\<lparr>busRabbit := s\<rparr>)))
      else global_nats net cfg eventType payload userId b)"

section \<open>Lemmas\<close>

definition bus_delivered :: "bus \<Rightarrow> payload multiset" where
  "bus_delivered b = rabbit_delivered (busRabbit b) + nats_delivered (busNats b)
     + websocket_delivered (busWebsocket b) + webhook_delivered (busWebhook b)"

lemma replicate_mset_sum: "replicate_mset (m + n) x = replicate_mset m x + replicate_mset n x"
  by (induction m) auto

definition adds_copies :: "payload \<Rightarrow> bus \<Rightarrow> bus \<Rightarrow> bool" where
  "adds_copies p b b' = (\<exists>n. bus_delivered b' = bus_delivered b + replicate_mset n p)"

lemma adds_copies_refl [intro!, simp]: "adds_copies p b b"
  unfolding adds_copies_def by (intro exI [of _ 0]) simp

lemma adds_copies_trans: "adds_copies p b b1 \<Longrightarrow> adds_copies p b1 b2 \<Longrightarrow> adds_copies p b b2"
proof -
  assume "adds_copies p b b1" "adds_copies p b1 b2"
  then obtain m n where "bus_delivered b1 = bus_delivered b + replicate_mset m p"
    "bus_delivered b2 = bus_delivered b1 + replicate_mset n p" by (auto simp: adds_copies_def)
  then have "bus_delivered b2 = bus_delivered b + replicate_mset (m + n) p"
    by (simp add: replicate_mset_sum)
  then show ?thesis by (auto simp: adds_copies_def)
qed

lemma send_rabbitmq_adds: "send_rabbitmq net i q p b = (res, b') \<Longrightarrow> adds_copies p b b'"
  using rabbitmq.delivers by (fastforce simp: send_rabbitmq_def adds_copies_def bus_delivered_def
      split: if_splits prod.splits)

lemma send_nats_adds: "send_nats net i q p b = (res, b') \<Longrightarrow> adds_copies p b b'"
  using nats.delivers by (fastforce simp: send_nats_def adds_copies_def bus_delivered_def
      split: if_splits prod.splits)

lemma send_websocket_adds: "send_websocket net i q p b = (res, b') \<Longrightarrow> adds_copies p b b'"
  using websocket_out.delivers by (fastforce simp: send_websocket_def adds_copies_def bus_delivered_def
      split: if_splits prod.splits)

lemma send_webhook_adds: "send_webhook i q p b = (res, b') \<Longrightarrow> adds_copies p b b'"
  using webhook_out.delivers by (fastforce simp: send_webhook_def adds_copies_def bus_delivered_def
      split: if_splits prod.splits)

lemma unless_failed_adds:
  assumes "unless_failed r k = (res, b')" and "adds_copies p b (snd r)"
    and "\<And>b1 res. k b1 = (res, b') \<Longrightarrow> adds_copies p b1 b'"
  shows "adds_copies p b b'"
proof (cases "fst r = Ret None")
  case True
  with assms(1) have "k (snd r) = (res, b')" by (cases r) (auto simp: unless_failed_def)
  with assms(2,3) show ?thesis using adds_copies_trans by blast
next
  case False
  with assms(1) have "r = (res, b')" 
    by (cases r) (auto simp: unless_failed_def split: exec.splits option.splits)
  with assms(2) show ?thesis by simp
qed

lemma sendToQueueOrWebhook_adds:
  assumes "sendToQueueOrWebhook net i q p b = (res, b')"
  shows "adds_copies p b b'"
  using assms unfolding sendToQueueOrWebhook_def
proof (rule unless_failed_adds)
  show "adds_copies p b (snd (send_rabbitmq net i q p b))"
    by (rule send_rabbitmq_adds [of net i q p b "fst (send_rabbitmq net i q p b)"]) simp
next
  fix b1 res1
  assume "unless_failed (send_nats net i q p b1) (\<lambda>b2. unless_failed (send_websocket net i q p b2)
      (send_webhook i q p)) = (res1, b')"
  then show "adds_copies p b1 b'"
  proof (rule unless_failed_adds)
    show "adds_copies p b1 (snd (send_nats net i q p b1))"
      by (rule send_nats_adds [of net i q p b1 "fst (send_nats net i q p b1)"]) simp
  next
    fix b2 res2
    assume "unless_failed (send_websocket net i q p b2) (send_webhook i q p) = (res2, b')"
    then show "adds_copies p b2 b'"
    proof (rule unless_failed_adds)
      show "adds_copies p b2 (snd (send_websocket net i q p b2))"
        by (rule send_websocket_adds [of net i q p b2 "fst (send_websocket net i q p b2)"]) simp
    qed (rule send_webhook_adds)
  qed
qed

text \<open>An instance's set of producers is itself a producer.\<close>

definition instance_Produce :: "net \<Rightarrow> Instance \<Rightarrow> bus produce" where
  "instance_Produce net i queueName payload enable userID b = CallWebhook net i queueName payload b"

lemma CallWebhook_or:
  "CallWebhook net i q p b = (Ret None, b) \<or> CallWebhook net i q p b = sendToQueueOrWebhook net i q p b"
  by (auto simp: CallWebhook_def Let_def split: payload.splits option.splits json.splits)

lemma CallWebhook_adds: "CallWebhook net i q p b = (res, b') \<Longrightarrow> adds_copies p b b'"
  by (auto simp: CallWebhook_def Let_def dest: sendToQueueOrWebhook_adds
      split: payload.splits option.splits json.splits if_splits)

interpretation instance_bus: producer "instance_Produce net i" bus_delivered for net i
  by unfold_locales (auto simp: instance_Produce_def adds_copies_def dest: CallWebhook_adds)

text \<open>Which events the stored subscriptions of an instance let through.\<close>

definition subscribed :: "string \<Rightarrow> string \<Rightarrow> bool" where
  "subscribed events eventType =
     (let names = split_char CHR '','' events in
      ''ALL'' \<in> set names \<or> (case webhook_group eventType of None \<Rightarrow> False | Some g \<Rightarrow> g \<in> set names))"

lemma IsEventType_ALL: "IsEventType ''ALL''"
  by (simp add: IsEventType_def validEventTypes_def)

lemma contains_parsed:
  "IsEventType g \<Longrightarrow> contains_event (parse_events events) g \<longleftrightarrow> g \<in> set (split_char CHR '','' events)"
  by (auto simp: contains_event_mem parse_events_valid parse_events_set)

lemma CallWebhook_subscribed:
  "data ''event'' = Some (JStr e) \<Longrightarrow>
     CallWebhook net i q (Marshalled data) b =
       (if subscribed (iEvents i) e then sendToQueueOrWebhook net i q (Marshalled data) b else (Ret None, b))"
  using webhook_group_valid [of e]
  by (auto simp: CallWebhook_def Let_def subscribed_def contains_parsed IsEventType_ALL split: option.splits)

lemma connect_names:
  "set (connect_events sub) \<noteq> {} \<Longrightarrow> set (split_char CHR '','' (connect_event_string sub)) = set (connect_events sub)"
  unfolding connect_event_string_def
  by (subst split_join_char)
    (auto simp: connect_events_def event_type_no_comma AllEventTypes_def split: if_splits)

lemma subscribed_none [simp]: "subscribed [] e = False"
  using webhook_group_valid [of e]
  by (auto simp: subscribed_def IsEventType_def validEventTypes_def split: option.splits)

lemma webhook_group_All: "webhook_group e = Some g \<Longrightarrow> g \<in> set AllEventTypes"
  by (auto simp: webhook_group_def AllEventTypes_def split: if_splits)

lemma webhook_group_known: "webhook_group e = Some g \<Longrightarrow> e \<in> set known_events"
  using known_events_iff [of e] by (simp add: tables_agree)

lemma global_nats_keeps: "global_nats net cfg e p u b = (res, b') \<Longrightarrow> busRabbit b' = busRabbit b"
  by (auto simp: global_nats_def split: if_splits option.splits prod.splits)

lemma global_nats_cong:
  "busNats (snd (global_nats net cfg e p u (b\<lparr>busRabbit := r\<rparr>))) = busNats (snd (global_nats net cfg e p u b))"
  by (auto simp: global_nats_def split: option.splits prod.splits)

lemma nats_target_amqp [simp]: "nats_target (cfg\<lparr>AmqpGlobalEnabled := x\<rparr>) e = nats_target cfg e"
  by (simp add: nats_target_def split: option.splits)

lemma global_nats_amqp [simp]:
  "global_nats net (cfg\<lparr>AmqpGlobalEnabled := x\<rparr>) e p u b = global_nats net cfg e p u b"
  by (simp add: global_nats_def)

lemma global_nats_unmapped: "global_event_type e = None \<Longrightarrow> global_nats net cfg e p u b = (Ret None, b)"
  by (simp add: global_nats_def nats_target_def)

lemma amqp_target_queue:
  assumes "amqp_target cfg e = ToQueue q"
  shows "q \<in> set (global_queue_names (AmqpGlobalEvents cfg) (AmqpSpecificEvents cfg))"
proof (cases "length (AmqpSpecificEvents cfg) > 0")
  case True
  with assms show ?thesis by (auto simp: amqp_target_def global_queue_names_def split: if_splits)
next
  case False
  with assms obtain g where g: "global_event_type e = Some g" "g \<in> set (AmqpGlobalEvents cfg)" "q = to_lower e"
    by (auto simp: amqp_target_def split: option.splits if_splits)
  obtain qs where "queue_table g = Some qs" "to_lower e \<in> set qs"
    using global_event_type_queue [OF g(1)] .
  with g False show ?thesis by (force simp: global_queue_names_def)
qed

text \<open>The queues declared for a group are those of the events of the group.\<close>

definition queues_of_group :: "string \<Rightarrow> string list" where
  "queues_of_group g = map to_lower (filter (\<lambda>e. global_event_type e = Some g) known_events)"

lemma queue_table_groups:
  "list_all (\<lambda>g. queue_table g = Some (queues_of_group g)) AllEventTypes"
  by code_simp

lemma queue_table_other: "g \<notin> set AllEventTypes \<Longrightarrow> queue_table g = None"
  by (simp add: queue_table_def AllEventTypes_def)

lemma global_event_type_All: "global_event_type e = Some g \<Longrightarrow> g \<in> set AllEventTypes"
  using webhook_group_All by (simp add: tables_agree)

lemma queues_of_group_other: "g \<notin> set AllEventTypes \<Longrightarrow> queues_of_group g = []"
  using global_event_type_All by (fastforce simp: queues_of_group_def filter_empty_conv)

lemma queue_table_queues:
  "(case queue_table g of None \<Rightarrow> [] | Some qs \<Rightarrow> qs) = queues_of_group g"
  using queue_table_groups queue_table_other queues_of_group_other
  by (cases "g \<in> set AllEventTypes") (auto simp: list_all_iff)

section \<open>Properties\<close>




definition sample_bus :: bus where
  "sample_bus = \<lparr>busRabbit = sample_rabbit, busNats = \<lparr>ntConn = True, ntTick = 0, ntPublished = []\<rparr>,
     busWebsocket = \<lparr>wsClients = (\<lambda>_. None), wsBroadcast = [], wsSent = []\<rparr>,
     busWebhook = \<lparr>whUrl = [], whSpawned = []\<rparr>\<rparr>"

definition sample_net :: net where
  "sample_net = \<lparr>netAmqp = \<lparr>amqpErr = (\<lambda>n. None), amqpClosed = (\<lambda>n. False)\<rparr>, netNats = (\<lambda>n. None),
     netWsFails = (\<lambda>c. False)\<rparr>"

definition sample_event :: payload where
  "sample_event = Marshalled [''event'' \<mapsto> JStr ''Message'']"

definition sample_instance :: Instance where
  "sample_instance = zeroInstance\<lparr>iEvents := ''MESSAGE'', iNatsEnable := ''enabled''\<rparr>"

lemma sample_subscribed: "subscribed ''MESSAGE'' ''Message''"
  by code_simp

lemmas sample_route = sample_bus_def sample_net_def sample_event_def sample_instance_def
  zeroInstance_def send_rabbitmq_def send_nats_def send_websocket_def send_webhook_def
  switched_on_def unless_failed_def sendToQueueOrWebhook_def nats_Produce_def nats_publish_def
  CallWebhook_subscribed


text \<open>The producers are used in the order RabbitMQ, NATS, WebSocket, webhook, and the first one that
  reports an error stops the others: the webhook is only called when every producer that is
  switched on has returned nil.\<close>

theorem webhook_after_all_others:
  assumes "busWebhook (snd (sendToQueueOrWebhook net i q p b)) \<noteq> busWebhook b"
  shows "\<exists>b1 b2 b3. send_rabbitmq net i q p b = (Ret None, b1) \<and>
    send_nats net i q p b1 = (Ret None, b2) \<and> send_websocket net i q p b2 = (Ret None, b3) \<and>
    sendToQueueOrWebhook net i q p b = send_webhook i q p b3"
proof -
  have keeps: "busWebhook (snd (send_rabbitmq net i q p b)) = busWebhook b"
    "busWebhook (snd (send_nats net i q p b)) = busWebhook b"
    "busWebhook (snd (send_websocket net i q p b)) = busWebhook b" for b
    by (auto simp: send_rabbitmq_def send_nats_def send_websocket_def split: prod.splits)
  obtain r1 b1 where s1: "send_rabbitmq net i q p b = (r1, b1)" by fastforce
  obtain r2 b2 where s2: "send_nats net i q p b1 = (r2, b2)" by fastforce
  obtain r3 b3 where s3: "send_websocket net i q p b2 = (r3, b3)" by fastforce
  have same: "busWebhook b1 = busWebhook b" "busWebhook b2 = busWebhook b" "busWebhook b3 = busWebhook b"
    using keeps(1) [of b] keeps(2) [of b1] keeps(3) [of b2] s1 s2 s3 by simp_all
  have "r1 = Ret None"
    using assms s1 same
    by (cases r1) (auto simp: sendToQueueOrWebhook_def unless_failed_def split: option.splits)
  moreover have "r2 = Ret None"
    using assms s1 s2 same calculation
    by (cases r2) (auto simp: sendToQueueOrWebhook_def unless_failed_def split: option.splits)
  moreover have "r3 = Ret None"
    using assms s1 s2 s3 same calculation
    by (cases r3) (auto simp: sendToQueueOrWebhook_def unless_failed_def split: option.splits)
  ultimately show ?thesis
    using s1 s2 s3 by (simp add: sendToQueueOrWebhook_def unless_failed_def)
qed

lemma webhook_after_all_others_witness:
  "\<exists>b3. sendToQueueOrWebhook sample_net (sample_instance\<lparr>iWebhook := ''http://hook''\<rparr>) ''u.message''
       sample_event sample_bus
     = send_webhook (sample_instance\<lparr>iWebhook := ''http://hook''\<rparr>) ''u.message'' sample_event b3
     \<and> ntPublished (busNats b3) = [(''u.message'', sample_event)]"
proof -
  let ?i = "sample_instance\<lparr>iWebhook := ''http://hook''\<rparr>"
  have "busWebhook (snd (sendToQueueOrWebhook sample_net ?i ''u.message'' sample_event sample_bus))
      \<noteq> busWebhook sample_bus"
    by (simp add: sample_route webhook_Produce_def)
  from webhook_after_all_others [OF this] obtain b1 b2 b3
    where b: "send_rabbitmq sample_net ?i ''u.message'' sample_event sample_bus = (Ret None, b1)"
      "send_nats sample_net ?i ''u.message'' sample_event b1 = (Ret None, b2)"
      "send_websocket sample_net ?i ''u.message'' sample_event b2 = (Ret None, b3)"
      "sendToQueueOrWebhook sample_net ?i ''u.message'' sample_event sample_bus
         = send_webhook ?i ''u.message'' sample_event b3" by blast
  from b(1-3) have "ntPublished (busNats b3) = [(''u.message'', sample_event)]"
    by (auto simp: sample_route)
  with b(4) show ?thesis by blast
qed

text \<open>For an instance whose RabbitMQ and NATS switches are \<open>true\<close>, a value the dispatcher accepts,
  both producers are called, but neither publishes anything, whatever the brokers answer: they only
  know \<open>enabled\<close> and \<open>global\<close>.\<close>

theorem true_switch_publishes_nothing:
  assumes "iRabbitmqEnable i = ''true''" and "iNatsEnable i = ''true''"
  shows "rbPublished (busRabbit (snd (CallWebhook net i q p b))) = rbPublished (busRabbit b)
     \<and> ntPublished (busNats (snd (CallWebhook net i q p b))) = ntPublished (busNats b)"
proof -
  have rabbit: "rbPublished (busRabbit (snd (send_rabbitmq net i q p b))) = rbPublished (busRabbit b)
      \<and> busNats (snd (send_rabbitmq net i q p b)) = busNats b" for b
  proof (cases "rabbit_Produce (netAmqp net) q p ''true'' (iId i) (busRabbit b)")
    case (Pair res s)
    from rabbit_Produce_effect [OF Pair] have "same_broker (busRabbit b) s" by simp
    with Pair assms(1) show ?thesis by (simp add: send_rabbitmq_def same_broker_def)
  qed
  have nats: "send_nats net i q p b = (Ret None, b)" for b
    using assms(2) by (simp add: send_nats_def nats_Produce_def switched_on_def)
  have others: "busRabbit (snd (send_websocket net i q p b)) = busRabbit b"
    "busNats (snd (send_websocket net i q p b)) = busNats b"
    "busRabbit (snd (send_webhook i q p b)) = busRabbit b"
    "busNats (snd (send_webhook i q p b)) = busNats b" for b
    by (auto simp: send_websocket_def send_webhook_def split: prod.splits)
  have tail: "busRabbit (snd (unless_failed (send_websocket net i q p b) (send_webhook i q p))) = busRabbit b
     \<and> busNats (snd (unless_failed (send_websocket net i q p b) (send_webhook i q p))) = busNats b" for b
  proof (cases "send_websocket net i q p b")
    case (Pair res b1)
    then have "busRabbit b1 = busRabbit b" "busNats b1 = busNats b"
      using others(1,2) [of b] by simp_all
    with Pair others(3,4) [of b1] show ?thesis
      by (simp add: unless_failed_def split: exec.splits option.splits)
  qed
  have "rbPublished (busRabbit (snd (sendToQueueOrWebhook net i q p b))) = rbPublished (busRabbit b)
     \<and> busNats (snd (sendToQueueOrWebhook net i q p b)) = busNats b"
    using rabbit [of b] tail nats
    by (cases "send_rabbitmq net i q p b")
      (auto simp: sendToQueueOrWebhook_def unless_failed_def split: exec.splits option.splits)
  then show ?thesis
    using CallWebhook_or [of net i q p b] by auto
qed

lemma true_switch_publishes_nothing_witness:
  "let i = sample_instance\<lparr>iRabbitmqEnable := ''true'', iNatsEnable := ''true''\<rparr>
   in subscribed (iEvents i) ''Message'' \<and> rbConn (busRabbit sample_bus) \<and>
      rbPublished (busRabbit (snd (CallWebhook sample_net i ''u.message'' sample_event sample_bus))) = []"
  using true_switch_publishes_nothing [of "sample_instance\<lparr>iRabbitmqEnable := ''true'', iNatsEnable := ''true''\<rparr>"
      sample_net "''u.message''" sample_event sample_bus] sample_subscribed
  by (simp add: sample_instance_def sample_bus_def sample_rabbit_def)

text \<open>The queues that \<open>CreateGlobalQueues\<close> declares for a list of groups are exactly the lower-case
  names of the events that \<open>SendToGlobalQueues\<close> maps to those groups: the table of the producer and
  the switch of the dispatcher agree.\<close>

theorem global_queues_exact:
  "global_queue_names groups [] =
     concat (map (\<lambda>g. map to_lower (filter (\<lambda>e. global_event_type e = Some g) known_events)) groups)"
  by (simp add: global_queue_names_def queue_table_queues queues_of_group_def)

text \<open>In both modes the queue an event is routed to is one that a successful \<open>CreateGlobalQueues\<close>
  with the same configuration has declared.\<close>

theorem global_queue_declared:
  assumes "CreateGlobalQueues env True (AmqpGlobalEvents cfg) (AmqpSpecificEvents cfg) r = (None, r')"
    and "amqp_target cfg e = ToQueue q"
  shows "q \<in> set (rbDeclared r')"
  using assms(1) amqp_target_queue [OF assms(2)]
  by (auto simp: CreateGlobalQueues_def dest: declare_loop_declares split: prod.splits option.splits)

definition sample_config :: global_config where
  "sample_config = \<lparr>AmqpGlobalEnabled = True, AmqpGlobalEvents = [''MESSAGE'', ''CHAT_PRESENCE''],
     AmqpSpecificEvents = [], NatsGlobalEnabled = True, NatsGlobalEvents = [''MESSAGE'']\<rparr>"

lemma sample_target: "amqp_target sample_config ''Archive'' = ToQueue ''archive''"
  by code_simp

lemma global_queue_declared_witness:
  "\<exists>r'. CreateGlobalQueues (netAmqp sample_net) True [''MESSAGE'', ''CHAT_PRESENCE''] [] sample_rabbit = (None, r')
     \<and> ''archive'' \<in> set (rbDeclared r')"
proof -
  have "CreateGlobalQueues (netAmqp sample_net) True [''MESSAGE'', ''CHAT_PRESENCE''] [] sample_rabbit =
      (None, snd (CreateGlobalQueues (netAmqp sample_net) True [''MESSAGE'', ''CHAT_PRESENCE''] [] sample_rabbit))"
    by (simp add: CreateGlobalQueues_def ensureConnection_def sample_rabbit_def sample_net_def amqp_call_def
        global_queue_names_def queue_table_def)
  moreover have "AmqpGlobalEvents sample_config = [''MESSAGE'', ''CHAT_PRESENCE'']"
    "AmqpSpecificEvents sample_config = []" by (simp_all add: sample_config_def)
  ultimately show ?thesis
    using global_queue_declared [OF _ sample_target, of "netAmqp sample_net" sample_rabbit] by metis
qed

text \<open>The two global brokers are independent: unless the AMQP producer panics, what is sent to NATS
  is what would be sent if AMQP were off, also when AMQP fails and on the early return for an event
  of no group.\<close>

theorem global_brokers_independent:
  assumes "fst (SendToGlobalQueues net cfg e p u b) \<noteq> Panic"
  shows "busNats (snd (SendToGlobalQueues net cfg e p u b))
     = busNats (snd (SendToGlobalQueues net (cfg\<lparr>AmqpGlobalEnabled := False\<rparr>) e p u b))"
proof -
  have off: "SendToGlobalQueues net (cfg\<lparr>AmqpGlobalEnabled := False\<rparr>) e p u b = global_nats net cfg e p u b"
    by (simp add: SendToGlobalQueues_def)
  have unmapped: "global_nats net cfg e p u b = (Ret None, b)" if "amqp_target cfg e = Unmapped"
    using that by (intro global_nats_unmapped) (simp add: amqp_target_def split: if_splits option.splits)
  show ?thesis
    using assms unmapped
    by (auto simp: off SendToGlobalQueues_def global_nats_cong split: amqp_route.splits prod.splits exec.splits)
qed

lemma global_brokers_independent_witness:
  "let net = sample_net\<lparr>netAmqp := \<lparr>amqpErr = (\<lambda>n. Some ''down''), amqpClosed = (\<lambda>n. True)\<rparr>\<rparr>
   in ntPublished (busNats (snd (SendToGlobalQueues net sample_config ''Message'' sample_event ''u'' sample_bus)))
      = [(''message'', sample_event)]"
proof -
  let ?net = "sample_net\<lparr>netAmqp := \<lparr>amqpErr = (\<lambda>n. Some ''down''), amqpClosed = (\<lambda>n. True)\<rparr>\<rparr>"
  have targets: "amqp_target sample_config ''Message'' = ToQueue ''message''"
    "nats_target sample_config ''Message'' = Some ''message''" by code_simp+
  have "fst (SendToGlobalQueues ?net sample_config ''Message'' sample_event ''u'' sample_bus) \<noteq> Panic"
    using targets
    by (simp add: SendToGlobalQueues_def rabbit_Produce_def ensureConnection_def reconnect_def sample_bus_def
        sample_rabbit_def eval_nat_numeral amqp_call_def Let_def rb_sleep_def global_nats_def nats_Produce_def
        nats_publish_def sample_net_def)
  note same = global_brokers_independent [OF this]
  have "NatsGlobalEnabled sample_config" by (simp add: sample_config_def)
  with targets(2) show ?thesis
    unfolding Let_def same
    by (simp add: SendToGlobalQueues_def global_nats_def nats_Produce_def nats_publish_def sample_bus_def
        sample_net_def)
qed

end
