(* ===== verification/GoMonad.thy ===== *)
theory GoMonad
  imports Prelude
begin

text \<open>
  Go code that reads and changes a state and may fail: a function returning \<open>(T, error)\<close> is a map
  from states to an outcome and a state. \<open>Return x\<close> is the value with a nil error, \<open>Raise e\<close> the
  error with text \<open>e\<close>, \<open>Crash\<close> a panic (nil dereference, failed type assertion). What was done
  before an error or a panic stays done.
\<close>

datatype 'a outcome = Return 'a | Raise string | Crash

type_synonym ('s, 'a) go = "'s \<Rightarrow> 'a outcome \<times> 's"

definition ret :: "'a \<Rightarrow> ('s, 'a) go" where
  "ret x s = (Return x, s)"

definition raise :: "string \<Rightarrow> ('s, 'a) go" where
  "raise e s = (Raise e, s)"

definition crash :: "('s, 'a) go" where
  "crash s = (Crash, s)"

text \<open>\<open>x, err := m(); if err != nil { return nil, err }; k(x)\<close>.\<close>

definition bindg :: "('s, 'a) go \<Rightarrow> ('a \<Rightarrow> ('s, 'b) go) \<Rightarrow> ('s, 'b) go" where
  "bindg m k s = (case m s of (Return x, s') \<Rightarrow> k x s' | (Raise e, s') \<Rightarrow> (Raise e, s') | (Crash, s') \<Rightarrow> (Crash, s'))"

text \<open>\<open>x, err := m()\<close> with the error handled by what follows.\<close>

definition attempt :: "('s, 'a) go \<Rightarrow> ('a result \<Rightarrow> ('s, 'b) go) \<Rightarrow> ('s, 'b) go" where
  "attempt m k s = (case m s of (Return x, s') \<Rightarrow> k (Ok x) s' | (Raise e, s') \<Rightarrow> k (Err e) s' | (Crash, s') \<Rightarrow> (Crash, s'))"

definition modify :: "('s \<Rightarrow> 's) \<Rightarrow> ('s, unit) go" where
  "modify f s = (Return (), f s)"

definition gets :: "('s \<Rightarrow> 'a) \<Rightarrow> ('s, 'a) go" where
  "gets f s = (Return (f s), s)"

definition of_result :: "'a result \<Rightarrow> ('s, 'a) go" where
  "of_result r = (case r of Inl e \<Rightarrow> raise e | Inr x \<Rightarrow> ret x)"

definition of_outcome :: "'a outcome \<Rightarrow> ('s, 'a) go" where
  "of_outcome x s = (x, s)"

definition of_error :: "go_error \<Rightarrow> ('s, unit) go" where
  "of_error e = (case e of None \<Rightarrow> ret () | Some t \<Rightarrow> raise t)"

named_theorems go_run \<open>evaluation of the operations above on a state\<close>

lemma run_basic [go_run]:
  "ret x s = (Return x, s)" "raise e s = (Raise e, s)" "crash s = (Crash, s)"
  "modify f s = (Return (), f s)" "gets g s = (Return (g s), s)" "of_outcome r s = (r, s)"
  by (simp_all add: ret_def raise_def crash_def modify_def gets_def of_outcome_def)

lemma run_bind [go_run]:
  "m s = (Return x, s') \<Longrightarrow> bindg m k s = k x s'"
  "m s = (Raise e, s') \<Longrightarrow> bindg m k s = (Raise e, s')"
  "m s = (Crash, s') \<Longrightarrow> bindg m k s = (Crash, s')"
  by (simp_all add: bindg_def)

lemma run_attempt [go_run]:
  "m s = (Return x, s') \<Longrightarrow> attempt m k s = k (Ok x) s'"
  "m s = (Raise e, s') \<Longrightarrow> attempt m k s = k (Err e) s'"
  "m s = (Crash, s') \<Longrightarrow> attempt m k s = (Crash, s')"
  by (simp_all add: attempt_def)

lemma bind_basic [simp, go_run]:
  "bindg (ret x) k = k x" "bindg (raise e) k = raise e" "bindg crash k = crash"
  "attempt (ret x) h = h (Ok x)" "attempt (raise e) h = h (Err e)" "attempt crash h = crash"
  by (auto simp: fun_eq_iff bindg_def attempt_def run_basic)

lemma of_result_simps [simp, go_run]:
  "of_result (Ok x) = ret x" "of_result (Err e) = raise e"
  "of_error None = ret ()" "of_error (Some e) = raise e"
  by (simp_all add: of_result_def of_error_def)

lemma bind_assoc: "bindg (bindg m k) h = bindg m (\<lambda>x. bindg (k x) h)"
  by (auto simp: fun_eq_iff bindg_def split: prod.splits outcome.splits)

section \<open>Reasoning about runs\<close>

text \<open>How a sequence came to its outcome.\<close>

lemma bindE:
  assumes "bindg m k s = (r, s')"
  obtains (go_on) x s1 where "m s = (Return x, s1)" "k x s1 = (r, s')"
    | (error) e where "m s = (Raise e, s')" "r = Raise e"
    | (panic) "m s = (Crash, s')" "r = Crash"
  using assms by (auto simp: bindg_def split: prod.splits outcome.splits)

lemma attemptE:
  assumes "attempt m k s = (r, s')"
  obtains (ok) x s1 where "m s = (Return x, s1)" "k (Ok x) s1 = (r, s')"
    | (failed) e s1 where "m s = (Raise e, s1)" "k (Err e) s1 = (r, s')"
    | (panic) "m s = (Crash, s')" "r = Crash"
  using assms by (auto simp: attempt_def split: prod.splits outcome.splits)

text \<open>A relation between the state before and the one after that every run of a program keeps,
  whatever its outcome. \<open>R\<close> is reflexive and transitive in all uses.\<close>

definition keeps :: "('s \<Rightarrow> 's \<Rightarrow> bool) \<Rightarrow> ('s, 'a) go \<Rightarrow> bool" where
  "keeps R m = (\<forall>s r s'. m s = (r, s') \<longrightarrow> R s s')"

lemma keepsI [intro?]: "(\<And>s r s'. m s = (r, s') \<Longrightarrow> R s s') \<Longrightarrow> keeps R m"
  by (simp add: keeps_def)

lemma keepsD: "keeps R m \<Longrightarrow> m s = (r, s') \<Longrightarrow> R s s'"
  by (simp add: keeps_def)

text \<open>The laws under which the operations keep a relation.\<close>

locale frame =
  fixes R :: "'s \<Rightarrow> 's \<Rightarrow> bool"
  assumes frame_refl: "R s s"
    and frame_trans: "R s t \<Longrightarrow> R t u \<Longrightarrow> R s u"
begin

lemma keeps_pure: "keeps R (ret x)" "keeps R (raise e)" "keeps R crash" "keeps R (gets g)"
  "keeps R (of_result q)" "keeps R (of_error e')" "keeps R (of_outcome z)"
  by (auto simp: keeps_def run_basic frame_refl of_result_def of_error_def split: sum.splits option.splits)

lemma keeps_bind: "keeps R m \<Longrightarrow> (\<And>x. keeps R (k x)) \<Longrightarrow> keeps R (bindg m k)"
  by (rule keepsI, erule bindE) (blast intro: frame_trans dest: keepsD)+

lemma keeps_attempt: "keeps R m \<Longrightarrow> (\<And>x. keeps R (k x)) \<Longrightarrow> keeps R (attempt m k)"
  by (rule keepsI, erule attemptE) (blast intro: frame_trans dest: keepsD)+

lemma keeps_modify: "(\<And>s. R s (f s)) \<Longrightarrow> keeps R (modify f)"
  by (simp add: keeps_def run_basic)

lemma keeps_if: "(b \<Longrightarrow> keeps R m) \<Longrightarrow> (\<not> b \<Longrightarrow> keeps R n) \<Longrightarrow> keeps R (if b then m else n)"
  by simp

lemma keeps_option: "keeps R m \<Longrightarrow> (\<And>x. keeps R (k x)) \<Longrightarrow> keeps R (case q of None \<Rightarrow> m | Some x \<Rightarrow> k x)"
  by (cases q) auto

lemma keeps_sum: "(\<And>x. keeps R (h x)) \<Longrightarrow> (\<And>x. keeps R (k x)) \<Longrightarrow> keeps R (case q of Inl x \<Rightarrow> h x | Inr x \<Rightarrow> k x)"
  by (cases q) auto

lemma keeps_prod: "(\<And>x y. keeps R (h x y)) \<Longrightarrow> keeps R (case q of (x, y) \<Rightarrow> h x y)"
  by (cases q) auto

lemmas keeps_intros = keeps_pure keeps_bind keeps_attempt keeps_if keeps_option keeps_sum keeps_prod

end

text \<open>Equality of one part of the state is such a relation.\<close>

definition same :: "('s \<Rightarrow> 'a) \<Rightarrow> 's \<Rightarrow> 's \<Rightarrow> bool" where
  "same f s t = (f t = f s)"

lemma same_simps [simp]: "same f s s"
  by (simp add: same_def)

interpretation part: frame "same f" for f
  by unfold_locales (simp_all add: same_def)

text \<open>So is growth of a log.\<close>

definition grows :: "('s \<Rightarrow> 'a list) \<Rightarrow> 's \<Rightarrow> 's \<Rightarrow> bool" where
  "grows f s t = prefix (f s) (f t)"

interpretation log: frame "grows f" for f
  by unfold_locales (auto simp: grows_def intro: prefix_order.order_trans)

text \<open>What a program returns when it returns.\<close>

definition yields :: "('a \<Rightarrow> bool) \<Rightarrow> ('s, 'a) go \<Rightarrow> bool" where
  "yields P p = (\<forall>s x s'. p s = (Return x, s') \<longrightarrow> P x)"

lemma yields_basic: "P x \<Longrightarrow> yields P (ret x)" "yields P (raise e)" "yields P crash"
  by (simp_all add: yields_def run_basic)

lemma yields_bind: "(\<And>x. yields P (k x)) \<Longrightarrow> yields P (bindg p k)" "(\<And>y. yields P (q y)) \<Longrightarrow> yields P (attempt p q)"
  by (auto simp: yields_def elim!: bindE attemptE)

lemma yields_cases: "yields P p \<Longrightarrow> yields P q \<Longrightarrow> yields P (if b then p else q)"
  "yields P p \<Longrightarrow> (\<And>x. yields P (k x)) \<Longrightarrow> yields P (case z of None \<Rightarrow> p | Some x \<Rightarrow> k x)"
  "(\<And>x. yields P (f x)) \<Longrightarrow> (\<And>x. yields P (g x)) \<Longrightarrow> yields P (case v of Inl x \<Rightarrow> f x | Inr x \<Rightarrow> g x)"
  by (auto split: option.split sum.split)

lemma yields_then: "yields Q p \<Longrightarrow> (\<And>x. Q x \<Longrightarrow> yields P (k x)) \<Longrightarrow> yields P (bindg p k)"
  unfolding yields_def by (metis bindE outcome.distinct(1) outcome.distinct(3))

lemma yields_true: "yields (\<lambda>x. True) p"
  by (simp add: yields_def)

lemmas yields_intros = yields_basic yields_bind yields_cases

end
