(* ===== verification/Messages.thy ===== *)
theory Messages
  imports InstanceModel Jid
begin

text \<open>
  WhatsApp messages as the service builds them: the fields of the generated protobuf
  types of \<open>whatsmeow-lib/proto/waE2E\<close> that its code sets.
\<close>

section \<open>Messages that are sent\<close>

record context_info =
  ctxStanzaID :: "string option"
  ctxParticipant :: "string option"
  ctxQuotedConversation :: "string option"
  ctxMentionedJID :: "string list"

definition emptyContext :: context_info where
  "emptyContext = \<lparr>ctxStanzaID = None, ctxParticipant = None, ctxQuotedConversation = None,
     ctxMentionedJID = []\<rparr>"

record text_content =
  txText :: string
  txTitle :: "string option"
  txMatchedText :: "string option"
  txThumbnail :: string
  txDescription :: "string option"

text \<open>Image, video, audio, document and sticker messages share the fields of an uploaded file.\<close>

record media_content =
  mdCaption :: "string option"
  mdFileName :: "string option"
  mdURL :: string
  mdDirectPath :: string
  mdMediaKey :: string
  mdMimetype :: string
  mdFileEncSHA256 :: string
  mdFileSHA256 :: string
  mdFileLength :: nat
  mdPTT :: bool
  mdSeconds :: "nat option"
  mdStreamingSidecar :: string
  mdWaveform :: string

record poll_content =
  plName :: string
  plOptions :: "string list"
  plSelectable :: int

text \<open>Coordinates are only passed on: a \<open>float64\<close> is its 64 bits.\<close>

record location_content =
  lcLatitude :: "64 word"
  lcLongitude :: "64 word"
  lcName :: string
  lcAddress :: string

record contact_content =
  ctDisplayName :: string
  ctVcard :: string

record flow_button =
  fbName :: "string option"
  fbParams :: "string option"

record interactive_content =
  inBody :: "string option"
  inFooter :: "string option"
  inButtons :: "flow_button list"
  inParams :: string

text \<open>A field of a message holding a pointer to a content with its own \<open>ContextInfo\<close> pointer.\<close>

type_synonym 'c field = "('c \<times> context_info option) option"

record wa_message =
  ExtendedTextMessage :: "text_content field"
  ImageMessage :: "media_content field"
  VideoMessage :: "media_content field"
  PtvMessage :: "media_content field"
  AudioMessage :: "media_content field"
  DocumentMessage :: "media_content field"
  DocumentWithCaptionMessage :: "media_content field"
  PollCreationMessage :: "poll_content field"
  StickerMessage :: "media_content field"
  LocationMessage :: "location_content field"
  ContactMessage :: "contact_content field"
  InteractiveMessage :: "interactive_content option"
  ViewOnceMessage :: "interactive_content option"

definition emptyMessage :: wa_message where
  "emptyMessage = \<lparr>ExtendedTextMessage = None, ImageMessage = None, VideoMessage = None,
     PtvMessage = None, AudioMessage = None, DocumentMessage = None,
     DocumentWithCaptionMessage = None, PollCreationMessage = None, StickerMessage = None,
     LocationMessage = None, ContactMessage = None, InteractiveMessage = None, ViewOnceMessage = None\<rparr>"

text \<open>\<open>types.MessageInfo\<close> and \<open>MessageSendStruct\<close>; the time stamps are left out.\<close>

record message_info =
  miChat :: jid
  miSender :: jid
  miIsFromMe :: bool
  miIsGroup :: bool
  miID :: string
  miServerID :: nat
  miType :: string

record MessageSendStruct =
  msInfo :: message_info
  msMessage :: wa_message
  msContextInfo :: context_info

end
