(* ===== verification/MessageType.thy ===== *)
theory MessageType
  imports InstanceModel
begin

text \<open>
  The classification of received messages, \<open>GetMessageType\<close> of \<open>pkg/utils/utils.go\<close>: which field
  of the protobuf message is set decides, in a fixed order.
\<close>

text \<open>A field is named as in the protobuf message; \<open>imHas\<close> says which pointers are not nil.\<close>

record in_message =
  imHas :: "string \<Rightarrow> bool"
  imMimetype :: "string \<Rightarrow> string"
  imReactionText :: string
  imProtocolType :: nat
  imProtocolKey :: bool

text \<open>The protocol messages: the numbers are those of \<open>ProtocolMessage_Type\<close>.\<close>

definition protocol_type :: "in_message \<Rightarrow> string" where
  "protocol_type m =
     (if imProtocolType m = 0 then (if \<not> imProtocolKey m then ''ignore'' else ''revoke'')
      else if imProtocolType m = 14 then ''edit''
      else if imProtocolType m = 3 then ''disappearing timer change''
      else if imProtocolType m = 6 \<or> imProtocolType m = 5 \<or> imProtocolType m = 9 then ''ignore''
      else ''unknown_protocol_'' @ show_nat (imProtocolType m))"

definition message_type_rest :: "(string \<Rightarrow> bool) \<Rightarrow> string" where
  "message_type_rest has =
     (if has ''ButtonsMessage'' then ''buttons''
      else if has ''ButtonsResponseMessage'' then ''buttons response''
      else if has ''TemplateMessage'' then ''template''
      else if has ''HighlyStructuredMessage'' then ''highly structured template''
      else if has ''TemplateButtonReplyMessage'' then ''template button reply''
      else if has ''InteractiveMessage'' then ''interactive''
      else if has ''ListMessage'' then ''list''
      else if has ''ProductMessage'' then ''product''
      else if has ''ListResponseMessage'' then ''list response''
      else if has ''OrderMessage'' then ''order''
      else if has ''InvoiceMessage'' then ''invoice''
      else if has ''BotInvokeMessage'' then ''bot invoke''
      else if has ''EventMessage'' then ''event''
      else if has ''EventCoverImage'' then ''event cover image''
      else if has ''EncEventResponseMessage'' then ''ignore''
      else if has ''CommentMessage'' then ''comment''
      else if has ''EncCommentMessage'' then ''encrypted comment''
      else if has ''NewsletterAdminInviteMessage'' then ''newsletter admin invite''
      else if has ''SecretEncryptedMessage'' then ''secret encrypted''
      else if has ''PollResultSnapshotMessage'' then ''poll result snapshot''
      else if has ''MessageHistoryBundle'' then ''message history bundle''
      else if has ''RequestPhoneNumberMessage'' then ''request phone number''
      else if has ''KeepInChatMessage'' then ''keep in chat''
      else if has ''StatusMentionMessage'' then ''status mention''
      else if has ''StickerPackMessage'' then ''sticker pack''
      else if has ''AlbumMessage'' then ''album''
      else if has ''SendPaymentMessage'' \<or> has ''RequestPaymentMessage'' \<or> has ''DeclinePaymentRequestMessage'' \<or> has ''CancelPaymentRequestMessage'' \<or> has ''PaymentInviteMessage'' then ''payment''
      else if has ''Call'' then ''call''
      else if has ''Chat'' then ''chat''
      else if has ''PlaceholderMessage'' then ''placeholder''
      else if has ''SenderKeyDistributionMessage'' \<or> has ''StickerSyncRmrMessage'' then ''ignore''
      else ''unknown'')"

definition message_type_of :: "in_message \<Rightarrow> string" where
  "message_type_of m =
    (let has = imHas m in
     (if has ''Conversation'' \<or> has ''ExtendedTextMessage'' then ''text''
      else if has ''ImageMessage'' then ''image '' @ imMimetype m ''ImageMessage''
      else if has ''StickerMessage'' then ''sticker '' @ imMimetype m ''StickerMessage''
      else if has ''VideoMessage'' then ''video '' @ imMimetype m ''VideoMessage''
      else if has ''PtvMessage'' then ''round video '' @ imMimetype m ''PtvMessage''
      else if has ''AudioMessage'' then ''audio '' @ imMimetype m ''AudioMessage''
      else if has ''DocumentMessage'' then ''document '' @ imMimetype m ''DocumentMessage''
      else if has ''ContactMessage'' then ''contact''
      else if has ''ContactsArrayMessage'' then ''contact array''
      else if has ''LocationMessage'' then ''location''
      else if has ''LiveLocationMessage'' then ''live location start''
      else if has ''GroupInviteMessage'' then ''group invite''
      else if has ''GroupMentionedMessage'' then ''group mention''
      else if has ''ScheduledCallCreationMessage'' then ''scheduled call create''
      else if has ''ScheduledCallEditMessage'' then ''scheduled call edit''
      else if has ''ReactionMessage'' then (if imReactionText m = [] then ''reaction remove'' else ''reaction'')
      else if has ''EncReactionMessage'' then ''encrypted reaction''
      else if has ''PollCreationMessage'' \<or> has ''PollCreationMessageV2'' \<or> has ''PollCreationMessageV3'' then ''poll create''
      else if has ''PollUpdateMessage'' then ''poll update''
      else if has ''ProtocolMessage'' then protocol_type m
      else message_type_rest has))"

definition GetMessageType :: "in_message option \<Rightarrow> string" where
  "GetMessageType waMsg = (case waMsg of None \<Rightarrow> ''ignore'' | Some m \<Rightarrow> message_type_of m)"

end
