(* ===== verification/Client.thy ===== *)
theory Client
  imports GoMonad Messages Numbers
begin

text \<open>
  What the services share around a WhatsApp client: the map \<open>clientPointer\<close>, the outside world and
  \<open>ensureClientConnected\<close> (the same function in \<open>send_service.go\<close>, \<open>message_service.go\<close>,
  \<open>chat_service.go\<close>, \<open>label_service.go\<close> and \<open>instance_service.go\<close>).

  The network, the client library, the sessions running in other goroutines and the file converters
  are the parameter \<open>env\<close>: the answer to the n-th question asked in a run. The map \<open>clientPointer\<close>
  is changed by those goroutines, so each look at it is a question too. What the code does to the
  outside is recorded in \<open>world\<close>, in the order it does it.
\<close>

type_synonym client = nat

datatype media_type = MediaImage | MediaVideo | MediaAudio | MediaDocument

record upload_response =
  upURL :: string
  upDirectPath :: string
  upMediaKey :: string
  upFileEncSHA256 :: string
  upFileSHA256 :: string
  upFileLength :: nat

text \<open>One entry of the answer of \<open>IsOnWhatsApp\<close>.\<close>

record on_whatsapp =
  owJID :: jid
  owIsIn :: bool

text \<open>A parsed page: elements with their tag, attributes and children, and the other nodes with their
  data (texts, comments, the document). \<open>envHttpGet\<close> is the error of the request, or the bytes of the
  body with the error that ended the reading.\<close>

datatype html = Element string "(string \<times> string) list" "html list" | OtherNode string "html list"

record env =
  envClient :: "nat \<Rightarrow> string \<Rightarrow> client option"
  envConnected :: "nat \<Rightarrow> client \<Rightarrow> bool"
  envStart :: "nat \<Rightarrow> string \<Rightarrow> go_error"
  envReconnect :: "nat \<Rightarrow> string \<Rightarrow> go_error"
  envOnWhatsApp :: "nat \<Rightarrow> string list \<Rightarrow> (on_whatsapp list) result"
  envPresence :: "nat \<Rightarrow> jid \<Rightarrow> go_error"
  envGenerateID :: "nat \<Rightarrow> string"
  envParticipants :: "nat \<Rightarrow> jid \<Rightarrow> (jid list) result"
  envSend :: "nat \<Rightarrow> jid \<Rightarrow> nat result"
  envStoreID :: "nat \<Rightarrow> jid option"
  envUpload :: "nat \<Rightarrow> string \<Rightarrow> media_type \<Rightarrow> upload_response result"
  envDownload :: "nat \<Rightarrow> string result"
  envHttpGet :: "nat \<Rightarrow> string \<Rightarrow> (string \<times> go_error) result"
  envHtml :: "string \<Rightarrow> html result"
  envMime :: "string \<Rightarrow> string"
  envDetect :: "string \<Rightarrow> string"
  envConvertLocal :: "nat \<Rightarrow> string \<Rightarrow> (string \<times> nat) result"
  envConvertApi :: "nat \<Rightarrow> string \<Rightarrow> (string \<times> nat) result"
  envToWebP :: "nat \<Rightarrow> string \<Rightarrow> string result"
  envWebPToPng :: "string \<Rightarrow> string option"
  envPoll :: "string \<Rightarrow> string list \<Rightarrow> int \<Rightarrow> wa_message"
  envMessageJson :: "wa_message \<Rightarrow> json_object result"
  envInfoJson :: "message_info \<Rightarrow> json"
  envContextJson :: "context_info \<Rightarrow> json"
  envMarshal :: "nat \<Rightarrow> go_error"
  envBase64 :: "string \<Rightarrow> string"
  envMillis :: "nat \<Rightarrow> nat"
  envRandom :: "nat \<Rightarrow> string"

text \<open>The configuration the services read.\<close>

record send_config =
  cfgCheckUserExists :: bool
  cfgWebhookFiles :: bool
  cfgGlobalQueues :: bool
  cfgAudioConverter :: string

record sent_message =
  smTo :: jid
  smMessage :: wa_message
  smID :: string

record world =
  wTick :: nat
  wSlept :: nat
  wStarted :: "string list"
  wReconnected :: "string list"
  wPresence :: "(jid \<times> string \<times> string) list"
  wUploads :: "(media_type \<times> string) list"
  wSent :: "sent_message list"
  wWebhooks :: "(string \<times> json_object) list"
  wGlobals :: "(string \<times> json_object) list"

definition newWorld :: world where
  "newWorld = \<lparr>wTick = 0, wSlept = 0, wStarted = [], wReconnected = [], wPresence = [],
     wUploads = [], wSent = [], wWebhooks = [], wGlobals = []\<rparr>"

text \<open>A question to the outside.\<close>

definition ask :: "(nat \<Rightarrow> 'a) \<Rightarrow> (world, 'a) go" where
  "ask f w = (Return (f (wTick w)), w\<lparr>wTick := Suc (wTick w)\<rparr>)"

definition ask_result :: "(nat \<Rightarrow> 'a result) \<Rightarrow> (world, 'a) go" where
  "ask_result f = bindg (ask f) of_result"

definition ask_error :: "(nat \<Rightarrow> go_error) \<Rightarrow> (world, unit) go" where
  "ask_error f = bindg (ask f) of_error"

text \<open>\<open>time.Sleep\<close>, in milliseconds.\<close>

definition sleep :: "nat \<Rightarrow> (world, unit) go" where
  "sleep ms = modify (\<lambda>w. w\<lparr>wSlept := wSlept w + ms\<rparr>)"

section \<open>The connection\<close>

text \<open>A look at the map; nil is \<^const>\<open>None\<close>. \<open>IsConnected\<close> of a nil client is false.\<close>

definition clientPointer :: "env \<Rightarrow> string \<Rightarrow> (world, client option) go" where
  "clientPointer env instanceId = ask (\<lambda>n. envClient env n instanceId)"

definition isConnected :: "env \<Rightarrow> client option \<Rightarrow> (world, bool) go" where
  "isConnected env c = (case c of None \<Rightarrow> ret False | Some h \<Rightarrow> ask (\<lambda>n. envConnected env n h))"

definition StartInstance_call :: "env \<Rightarrow> string \<Rightarrow> (world, unit) go" where
  "StartInstance_call env instanceId =
     bindg (modify (\<lambda>w. w\<lparr>wStarted := wStarted w @ [instanceId]\<rparr>))
       (\<lambda>_. ask_error (\<lambda>n. envStart env n instanceId))"

definition ReconnectClient_call :: "env \<Rightarrow> string \<Rightarrow> (world, unit) go" where
  "ReconnectClient_call env instanceId =
     bindg (modify (\<lambda>w. w\<lparr>wReconnected := wReconnected w @ [instanceId]\<rparr>))
       (\<lambda>_. ask_error (\<lambda>n. envReconnect env n instanceId))"

definition no_session :: string where "no_session = ''no active session found''"
definition disconnected :: string where "disconnected = ''client disconnected''"

definition ensureClientConnected :: "env \<Rightarrow> string \<Rightarrow> (world, client) go" where
  "ensureClientConnected env instanceId =
     bindg (clientPointer env instanceId) (\<lambda>client.
       case client of
         None \<Rightarrow>
           attempt (StartInstance_call env instanceId) (\<lambda>err.
             case err of
               Inl _ \<Rightarrow> raise no_session
             | Inr _ \<Rightarrow>
                 bindg (sleep 2000) (\<lambda>_.
                 bindg (clientPointer env instanceId) (\<lambda>client2.
                 bindg (isConnected env client2) (\<lambda>connected.
                   case client2 of
                     None \<Rightarrow> raise no_session
                   | Some h \<Rightarrow> if \<not> connected then raise no_session else ret h))))
       | Some h \<Rightarrow>
           bindg (isConnected env client) (\<lambda>connected.
             if \<not> connected then raise disconnected else ret h))"

text \<open>\<open>ensureClientConnectedWithRetry\<close>: \<open>k\<close> attempts left of \<open>maxRetries\<close>.\<close>

definition retryable :: "string \<Rightarrow> bool" where
  "retryable e = (e = ''client disconnected'' \<or> e = ''no active session found'')"

fun connect_loop :: "env \<Rightarrow> string \<Rightarrow> nat \<Rightarrow> nat \<Rightarrow> (world, client) go" where
  "connect_loop env instanceId maxRetries 0 =
     raise (''failed to connect client after '' @ show_nat maxRetries @ '' attempts'')"
| "connect_loop env instanceId maxRetries (Suc k) =
     attempt (ensureClientConnected env instanceId) (\<lambda>res.
       case res of
         Inr client \<Rightarrow> ret client
       | Inl err \<Rightarrow>
           if retryable err then
             attempt (ReconnectClient_call env instanceId) (\<lambda>reconnectErr.
               bindg (case reconnectErr of Inl _ \<Rightarrow> ret () | Inr _ \<Rightarrow> sleep 3000) (\<lambda>_.
                 if maxRetries - k < maxRetries then
                   bindg (sleep ((maxRetries - k) * 2 * 1000)) (\<lambda>_. connect_loop env instanceId maxRetries k)
                 else raise err))
           else raise err)"

definition ensureClientConnectedWithRetry :: "env \<Rightarrow> string \<Rightarrow> nat \<Rightarrow> (world, client) go" where
  "ensureClientConnectedWithRetry env instanceId maxRetries =
     connect_loop env instanceId maxRetries maxRetries"

section \<open>Lemmas\<close>

lemma run_ask [go_run]:
  "ask f w = (Return (f (wTick w)), w\<lparr>wTick := Suc (wTick w)\<rparr>)"
  by (simp add: ask_def)

lemma run_ask_result [go_run]:
  "ask_result f w = (case f (wTick w) of Inl e \<Rightarrow> Raise e | Inr x \<Rightarrow> Return x, w\<lparr>wTick := Suc (wTick w)\<rparr>)"
  by (simp add: ask_result_def bindg_def ask_def of_result_def run_basic split: sum.splits)

lemma run_ask_error [go_run]:
  "ask_error f w = (case f (wTick w) of Some e \<Rightarrow> Raise e | None \<Rightarrow> Return (), w\<lparr>wTick := Suc (wTick w)\<rparr>)"
  by (simp add: ask_error_def bindg_def ask_def of_error_def run_basic split: option.splits)

lemma run_sleep [go_run]: "sleep ms w = (Return (), w\<lparr>wSlept := wSlept w + ms\<rparr>)"
  by (simp add: sleep_def run_basic)

text \<open>Questions and waiting only move the clock.\<close>

definition clock_only :: "(world \<Rightarrow> 'a) \<Rightarrow> bool" where
  "clock_only f = ((\<forall>w n. f (w\<lparr>wTick := n\<rparr>) = f w) \<and> (\<forall>w n. f (w\<lparr>wSlept := n\<rparr>) = f w))"

lemma clock_only_fields [simp]:
  "clock_only wStarted" "clock_only wReconnected" "clock_only wPresence" "clock_only wUploads"
  "clock_only wSent" "clock_only wWebhooks" "clock_only wGlobals"
  by (simp_all add: clock_only_def)

lemma keeps_ask: "clock_only f \<Longrightarrow> keeps (same f) (ask g)"
  "clock_only f \<Longrightarrow> keeps (same f) (ask_result h)" "clock_only f \<Longrightarrow> keeps (same f) (ask_error q)"
  "clock_only f \<Longrightarrow> keeps (same f) (sleep ms)"
  by (auto simp: keeps_def clock_only_def same_def run_ask run_ask_result run_ask_error run_sleep)

text \<open>What the outside has seen of the messages.\<close>

definition outbox :: "world \<Rightarrow> (jid \<times> string \<times> string) list \<times> (media_type \<times> string) list \<times> sent_message list
    \<times> (string \<times> json_object) list \<times> (string \<times> json_object) list" where
  "outbox w = (wPresence w, wUploads w, wSent w, wWebhooks w, wGlobals w)"

lemma outbox_clock [simp]: "clock_only outbox"
  by (simp add: clock_only_def outbox_def)

lemma ensure_quiet: "keeps (same outbox) (ensureClientConnected env i)"
  unfolding ensureClientConnected_def clientPointer_def isConnected_def StartInstance_call_def
  by (intro part.keeps_intros part.keeps_modify keeps_ask outbox_clock) (simp add: same_def outbox_def)

lemma reconnect_quiet: "keeps (same outbox) (ReconnectClient_call env i)"
  unfolding ReconnectClient_call_def
  by (intro part.keeps_intros part.keeps_modify keeps_ask outbox_clock) (simp add: same_def outbox_def)

lemma connect_loop_quiet: "keeps (same outbox) (connect_loop env i m k)"
  by (induction k) (auto intro!: part.keeps_intros keeps_ask ensure_quiet reconnect_quiet)

lemma ensure_retry_quiet: "keeps (same outbox) (ensureClientConnectedWithRetry env i m)"
  unfolding ensureClientConnectedWithRetry_def by (rule connect_loop_quiet)

text \<open>A client is handed out only when it has just been seen connected.\<close>

definition seen_connected :: "env \<Rightarrow> client \<Rightarrow> nat \<Rightarrow> nat \<Rightarrow> bool" where
  "seen_connected env h start stop = (\<exists>n. start \<le> n \<and> n < stop \<and> envConnected env n h)"

lemma seen_connected_Suc [simp]:
  "seen_connected env h a (Suc b) \<longleftrightarrow> (a \<le> b \<and> envConnected env b h) \<or> seen_connected env h a b"
  by (auto simp: seen_connected_def less_Suc_eq)

lemma seen_connected_mono:
  "seen_connected env h a b \<Longrightarrow> a' \<le> a \<Longrightarrow> b \<le> b' \<Longrightarrow> seen_connected env h a' b'"
  unfolding seen_connected_def by (meson le_trans less_le_trans)

lemma ensure_cases:
  assumes "ensureClientConnected env i w = (r, w')"
  shows "wTick w \<le> wTick w' \<and> wReconnected w' = wReconnected w \<and> wSlept w' \<le> wSlept w + 2000 \<and>
    (case r of Return h \<Rightarrow> seen_connected env h (wTick w) (wTick w')
     | Raise e \<Rightarrow> retryable e | Crash \<Rightarrow> False)"
  using assms
  by (auto simp: ensureClientConnected_def clientPointer_def isConnected_def StartInstance_call_def
      run_ask run_ask_error run_sleep run_basic bindg_def attempt_def retryable_def
      no_session_def disconnected_def of_error_def ask_error_def
      split: option.splits sum.splits if_splits)

lemma reconnect_cases:
  assumes "ReconnectClient_call env i w = (r, w')"
  shows "wTick w \<le> wTick w' \<and> wReconnected w' = wReconnected w @ [i] \<and> wSlept w' = wSlept w \<and> r \<noteq> Crash"
  using assms
  by (auto simp: ReconnectClient_call_def run_ask_error run_basic bindg_def split: option.splits)

text \<open>What a run of the connection loop with \<open>k\<close> of \<open>m\<close> attempts left does: \<open>j\<close> of them fail.\<close>

lemma connect_loop_cases:
  assumes "connect_loop env i m k w = (r, w')" and "k \<le> m"
  shows "wTick w \<le> wTick w' \<and>
    (\<exists>j\<le>k. wReconnected w' = wReconnected w @ replicate j i \<and>
       wSlept w' \<le> wSlept w + 2000 * k + 3000 * k + 2000 * m * k \<and>
       (case r of Return h \<Rightarrow> seen_connected env h (wTick w) (wTick w') \<and> j < k
        | Raise e \<Rightarrow> j = k \<and> (0 < k \<longrightarrow> retryable e) | Crash \<Rightarrow> False))"
  using assms
proof (induction k arbitrary: w)
  case 0
  then show ?case by (auto simp: run_basic)
next
  case (Suc k)
  from Suc.prems(1) show ?case unfolding connect_loop.simps
  proof (cases rule: attemptE)
    case (ok h w1)
    then show ?thesis using ensure_cases [OF ok(1)]
      by (intro conjI exI [of _ 0]) (auto simp: run_basic)
  next
    case (failed e w1)
    note ens = ensure_cases [OF failed(1)]
    then have re: "retryable e" by simp
    from failed(2) re have "attempt (ReconnectClient_call env i) (\<lambda>reconnectErr.
        bindg (case reconnectErr of Inl _ \<Rightarrow> ret () | Inr _ \<Rightarrow> sleep 3000) (\<lambda>_.
          if m - k < m then bindg (sleep ((m - k) * 2 * 1000)) (\<lambda>_. connect_loop env i m k)
          else raise e)) w1 = (r, w')" by simp
    then obtain r2 w2 w3 where rec: "ReconnectClient_call env i w1 = (r2, w2)"
      and w3: "w3 = w2 \<or> w3 = w2\<lparr>wSlept := wSlept w2 + 3000\<rparr>"
      and rest: "(if m - k < m then bindg (sleep ((m - k) * 2 * 1000)) (\<lambda>_. connect_loop env i m k)
          else raise e) w3 = (r, w')"
    proof (cases rule: attemptE)
      case (ok x s1)
      then show thesis using that [OF ok(1), of "s1\<lparr>wSlept := wSlept s1 + 3000\<rparr>"]
        by (simp add: bindg_def run_sleep)
    next
      case (failed e' s1)
      then show thesis using that [OF failed(1), of s1] by simp
    next
      case panic
      then show thesis using reconnect_cases [OF panic(1)] by simp
    qed
    note rc = reconnect_cases [OF rec]
    have w3': "wTick w3 = wTick w2" "wReconnected w3 = wReconnected w @ [i]"
      "wSlept w3 \<le> wSlept w + 5000" "wTick w \<le> wTick w3"
      using w3 rc ens by auto
    show ?thesis
    proof (cases "k = 0")
      case True
      with rest Suc.prems(2) have "r = Raise e" "w' = w3" by (simp_all add: run_basic)
      with True w3' re show ?thesis by (intro conjI exI [of _ 1]) auto
    next
      case False
      with Suc.prems(2) have "m - k < m" by linarith
      let ?w4 = "w3\<lparr>wSlept := wSlept w3 + (m - k) * 2 * 1000\<rparr>"
      from rest \<open>m - k < m\<close> have loop: "connect_loop env i m k ?w4 = (r, w')"
        by (simp add: bindg_def run_sleep)
      have "k \<le> m" and tick: "wTick ?w4 = wTick w3" using Suc.prems(2) by simp_all
      from Suc.IH [OF loop \<open>k \<le> m\<close>, unfolded tick] obtain j where j: "wTick w3 \<le> wTick w'" "j \<le> k"
        "wReconnected w' = wReconnected w3 @ replicate j i"
        "wSlept w' \<le> wSlept w3 + (m - k) * 2 * 1000 + 2000 * k + 3000 * k + 2000 * m * k"
        "case r of Return h \<Rightarrow> seen_connected env h (wTick w3) (wTick w') \<and> j < k
         | Raise e \<Rightarrow> j = k \<and> (0 < k \<longrightarrow> retryable e) | Crash \<Rightarrow> False"
        by auto
      have "(m - k) * 2 * 1000 \<le> 2000 * m" by simp
      then have "wSlept w' \<le> wSlept w + 2000 * Suc k + 3000 * Suc k + 2000 * m * Suc k"
        using j(4) w3'(3) by simp
      moreover have "wReconnected w' = wReconnected w @ replicate (Suc j) i"
        using j(3) w3'(2) by simp
      moreover have "case r of Return h \<Rightarrow> seen_connected env h (wTick w) (wTick w') \<and> Suc j < Suc k
         | Raise e \<Rightarrow> Suc j = Suc k \<and> (0 < Suc k \<longrightarrow> retryable e) | Crash \<Rightarrow> False"
        using j(5) w3'(4) False by (auto split: outcome.splits intro: seen_connected_mono)
      ultimately show ?thesis using j(1,2) w3'(4) by (intro conjI exI [of _ "Suc j"]) auto
    qed
  next
    case panic
    with ensure_cases [OF panic(1)] show ?thesis by simp
  qed
qed

end
