(* ===== verification/SendService.thy ===== *)
theory SendService
  imports Client
begin

text \<open>
  The operations of \<open>pkg/sendMessage/service/send_service.go\<close>: validation of the recipient, building
  of each kind of message, and \<open>SendMessage\<close>, which sets the quoted context and the mentions, hands
  the message to the client and publishes the \<open>SendMessage\<close> event. Every operation is a program of
  the state \<^typ>\<open>world\<close>; the request structures extend the fields that \<open>SendMessage\<close> needs.
\<close>

section \<open>Requests\<close>

record SendDataStruct =
  sdId :: string
  sdNumber :: string
  sdDelay :: int
  sdMentionAll :: bool
  sdMentionedJID :: string
  sdFormatJid :: "bool option"
  sdQuotedMessageID :: string
  sdQuotedParticipant :: string

record TextStruct = SendDataStruct +
  tsText :: string

record LinkStruct = SendDataStruct +
  lsText :: string
  lsTitle :: string
  lsUrl :: string
  lsDescription :: string
  lsImgUrl :: string

record MediaStruct = SendDataStruct +
  msUrl :: string
  msType :: string
  msCaption :: string
  msFilename :: string

record PollStruct = SendDataStruct +
  psQuestion :: string
  psMaxAnswer :: int
  psOptions :: "string list"

record StickerStruct = SendDataStruct +
  ssSticker :: string

record LocationStruct = SendDataStruct +
  lcsName :: string
  lcsLatitude :: "64 word"
  lcsLongitude :: "64 word"
  lcsAddress :: string

record ContactStruct = SendDataStruct +
  csVcard :: VCardStruct

record Button =
  btType :: string
  btDisplayText :: string
  btId :: string
  btCopyCode :: string
  btURL :: string
  btPhoneNumber :: string
  btCurrency :: string
  btName :: string
  btKeyType :: string
  btKey :: string

text \<open>The requests for buttons and lists have no \<open>Id\<close>; the field is not used for them.\<close>

record ButtonStruct = SendDataStruct +
  bsTitle :: string
  bsDescription :: string
  bsFooter :: string
  bsButtons :: "Button list"

record Row =
  rwTitle :: string
  rwDescription :: string
  rwRowId :: string

record Section =
  scTitle :: string
  scRows :: "Row list"

record ListStruct = SendDataStruct +
  liTitle :: string
  liDescription :: string
  liButtonText :: string
  liFooterText :: string
  liSections :: "Section list"

section \<open>The recipient\<close>

definition final_phone :: "string \<Rightarrow> bool \<Rightarrow> string result" where
  "final_phone phone shouldFormat =
     (if shouldFormat then
        (let rawNumber = (if str_contains phone ''@s.whatsapp.net'' then hd (split_char CHR ''@'' phone)
                          else phone)
         in case CreateJID rawNumber of
              Inr normalizedJID \<Rightarrow> Ok normalizedJID
            | Inl _ \<Rightarrow>
                (case utils_ParseJID phone of
                   (recipient, True) \<Rightarrow> Ok (JID_String recipient)
                 | (_, False) \<Rightarrow> Err (''could not parse phone: '' @ phone)))
      else Ok phone)"

definition validateMessageFields ::
  "string \<Rightarrow> bool option \<Rightarrow> string option \<Rightarrow> string option \<Rightarrow> jid result" where
  "validateMessageFields phone formatJid messageID participant =
     (case final_phone phone (case formatJid of None \<Rightarrow> True | Some b \<Rightarrow> b) of
        Inl e \<Rightarrow> Err e
      | Inr finalPhone \<Rightarrow>
          (case utils_ParseJID finalPhone of
             (_, False) \<Rightarrow> Err ''could not parse formatted phone''
           | (recipient, True) \<Rightarrow>
               if messageID \<noteq> None \<and> participant = None then Err ''missing Participant in ContextInfo''
               else if participant \<noteq> None \<and> messageID = None then Err ''missing StanzaId in ContextInfo''
               else Ok recipient))"

text \<open>\<open>checkSingleUserExists\<close>: the JID WhatsApp answers with and whether the number is registered.\<close>

definition checkSingleUserExists :: "env \<Rightarrow> string \<Rightarrow> bool \<Rightarrow> (world, string \<times> bool) go" where
  "checkSingleUserExists env phone formatJid =
     (let phoneNumbers = PrepareNumbersForWhatsAppCheck [phone] (Some formatJid) in
      attempt (ask_result (\<lambda>n. envOnWhatsApp env n phoneNumbers)) (\<lambda>res.
        case res of
          Inl e \<Rightarrow> raise (''failed to check if number '' @ hd phoneNumbers @ '' exists on WhatsApp: '' @ e)
        | Inr [] \<Rightarrow> raise (''number '' @ hd phoneNumbers @ '' not found in WhatsApp response'')
        | Inr (r # _) \<Rightarrow>
            if \<not> owIsIn r then ret ([], False) else ret (JID_String (owJID r), True)))"

definition validateAndCheckUserExists ::
  "env \<Rightarrow> send_config \<Rightarrow> string \<Rightarrow> bool option \<Rightarrow> string option \<Rightarrow> string option \<Rightarrow> string \<Rightarrow> (world, jid) go" where
  "validateAndCheckUserExists env cfg phone formatJid messageID participant instanceId =
     (if \<not> cfgCheckUserExists cfg then of_result (validateMessageFields phone formatJid messageID participant)
      else if str_contains phone ''@g.us'' \<or> str_contains phone ''@broadcast'' \<or> str_contains phone ''@lid''
        then of_result (validateMessageFields phone formatJid messageID participant)
      else attempt (ensureClientConnected env instanceId) (\<lambda>c.
        case c of
          Inl err \<Rightarrow> raise (''failed to connect client: '' @ err)
        | Inr client \<Rightarrow>
            attempt (checkSingleUserExists env phone False) (\<lambda>first.
              case first of
                Inl _ \<Rightarrow> of_result (validateMessageFields phone formatJid messageID participant)
              | Inr (remoteJID, found) \<Rightarrow>
                  bindg (if found then ret (remoteJID, True)
                         else attempt (checkSingleUserExists env phone True) (\<lambda>second.
                           case second of
                             Inr (remoteJIDRetry, True) \<Rightarrow> ret (remoteJIDRetry, True)
                           | _ \<Rightarrow> ret (remoteJID, False)))
                    (\<lambda>(remoteJID, found).
                      if \<not> found then raise (''number '' @ phone @ '' is not registered on WhatsApp'')
                      else of_result (validateMessageFields remoteJID (Some False) messageID participant)))))"

section \<open>\<open>SendMessage\<close>\<close>

text \<open>An assignment to the \<open>ContextInfo\<close> of a message, or to its mentions; \<^const>\<open>None\<close> is the
  dereference of a nil pointer.\<close>

datatype ctx_update = SetContext context_info | SetMentions "string list"

definition apply_ctx :: "ctx_update \<Rightarrow> 'c field \<Rightarrow> 'c field option" where
  "apply_ctx u fld =
     (case fld of
        None \<Rightarrow> None
      | Some (c, ctx) \<Rightarrow>
          (case u of
             SetContext x \<Rightarrow> Some (Some (c, Some x))
           | SetMentions js \<Rightarrow>
               (case ctx of None \<Rightarrow> None
                | Some x \<Rightarrow> Some (Some (c, Some (x\<lparr>ctxMentionedJID := js\<rparr>))))))"

text \<open>The switches over the message type: no case, a nil dereference, or the changed message.\<close>

datatype switched = NoCase | NilDeref | Changed wa_message

definition store_field :: "'c field option \<Rightarrow> ('c field \<Rightarrow> wa_message) \<Rightarrow> switched" where
  "store_field f upd = (case f of None \<Rightarrow> NilDeref | Some fld \<Rightarrow> Changed (upd fld))"

definition context_switch :: "ctx_update \<Rightarrow> string \<Rightarrow> wa_message \<Rightarrow> switched" where
  "context_switch u messageType msg =
     (if messageType = ''ExtendedTextMessage'' then
        store_field (apply_ctx u (ExtendedTextMessage msg)) (\<lambda>f. msg\<lparr>ExtendedTextMessage := f\<rparr>)
      else if messageType = ''ImageMessage'' then
        store_field (apply_ctx u (ImageMessage msg)) (\<lambda>f. msg\<lparr>ImageMessage := f\<rparr>)
      else if messageType = ''VideoMessage'' then
        store_field (apply_ctx u (VideoMessage msg)) (\<lambda>f. msg\<lparr>VideoMessage := f\<rparr>)
      else if messageType = ''PtvMessage'' then
        store_field (apply_ctx u (PtvMessage msg)) (\<lambda>f. msg\<lparr>PtvMessage := f\<rparr>)
      else if messageType = ''AudioMessage'' then
        store_field (apply_ctx u (AudioMessage msg)) (\<lambda>f. msg\<lparr>AudioMessage := f\<rparr>)
      else if messageType = ''DocumentMessage'' then
        store_field (apply_ctx u (DocumentMessage msg)) (\<lambda>f. msg\<lparr>DocumentMessage := f\<rparr>)
      else if messageType = ''PollCreationMessage'' then
        store_field (apply_ctx u (PollCreationMessage msg)) (\<lambda>f. msg\<lparr>PollCreationMessage := f\<rparr>)
      else if messageType = ''StickerMessage'' then
        store_field (apply_ctx u (StickerMessage msg)) (\<lambda>f. msg\<lparr>StickerMessage := f\<rparr>)
      else if messageType = ''LocationMessage'' then
        store_field (apply_ctx u (LocationMessage msg)) (\<lambda>f. msg\<lparr>LocationMessage := f\<rparr>)
      else if messageType = ''ContactMessage'' then
        store_field (apply_ctx u (ContactMessage msg)) (\<lambda>f. msg\<lparr>ContactMessage := f\<rparr>)
      else NoCase)"

text \<open>The two switches that set the context: a document whose message was moved into
  \<open>DocumentWithCaptionMessage\<close> gets it there.\<close>

definition put_context :: "context_info \<Rightarrow> string \<Rightarrow> wa_message \<Rightarrow> switched" where
  "put_context x messageType msg =
     (if messageType = ''DocumentMessage'' then
        (if DocumentMessage msg \<noteq> None then context_switch (SetContext x) messageType msg
         else if DocumentWithCaptionMessage msg \<noteq> None then
           store_field (apply_ctx (SetContext x) (DocumentWithCaptionMessage msg))
             (\<lambda>f. msg\<lparr>DocumentWithCaptionMessage := f\<rparr>)
         else Changed msg)
      else context_switch (SetContext x) messageType msg)"

definition quoted_context :: "SendDataStruct \<Rightarrow> context_info" where
  "quoted_context data = \<lparr>ctxStanzaID = Some (sdQuotedMessageID data),
     ctxParticipant = Some (sdQuotedParticipant data), ctxQuotedConversation = Some [],
     ctxMentionedJID = []\<rparr>"

definition media_types :: "string list" where
  "media_types = [''ImageMessage'', ''VideoMessage'', ''PtvMessage'', ''AudioMessage'', ''DocumentMessage'']"

text \<open>\<open>isMedia\<close>: a sticker only counts when a message is quoted.\<close>

definition set_context :: "SendDataStruct \<Rightarrow> string \<Rightarrow> wa_message \<Rightarrow> (world, wa_message \<times> bool) go" where
  "set_context data messageType msg =
     (if sdQuotedMessageID data \<noteq> [] then
        (case put_context (quoted_context data) messageType msg of
           NoCase \<Rightarrow> raise (''invalid messageType: '' @ messageType)
         | NilDeref \<Rightarrow> crash
         | Changed msg' \<Rightarrow> ret (msg', messageType \<in> set (''StickerMessage'' # media_types)))
      else
        (case put_context emptyContext messageType msg of
           NoCase \<Rightarrow> raise (''invalid messageType: '' @ messageType)
         | NilDeref \<Rightarrow> crash
         | Changed msg' \<Rightarrow> ret (msg', messageType \<in> set media_types)))"

definition mention_switch :: "string list \<Rightarrow> string \<Rightarrow> wa_message \<Rightarrow> (world, wa_message) go" where
  "mention_switch mentionedJIDs messageType msg =
     (case context_switch (SetMentions mentionedJIDs) messageType msg of
        NoCase \<Rightarrow> ret msg | NilDeref \<Rightarrow> crash | Changed msg' \<Rightarrow> ret msg')"

definition set_mentions :: "env \<Rightarrow> SendDataStruct \<Rightarrow> jid \<Rightarrow> string \<Rightarrow> wa_message \<Rightarrow> (world, wa_message) go" where
  "set_mentions env data recipient messageType msg =
     (if \<not> str_contains (sdNumber data) ''@g.us'' then ret msg
      else
        bindg (if sdMentionAll data then
                 bindg (ask_result (\<lambda>n. envParticipants env n recipient)) (\<lambda>allParticipants.
                   mention_switch (map JID_String allParticipants) messageType msg)
               else ret msg)
          (\<lambda>msg1. if sdMentionedJID data \<noteq> [] then mention_switch [sdMentionedJID data] messageType msg1
                  else ret msg1))"

text \<open>A call of \<open>SendChatPresence\<close> that succeeds leaves its trace.\<close>

definition send_presence :: "env \<Rightarrow> jid \<Rightarrow> string \<Rightarrow> string \<Rightarrow> (world, unit) go" where
  "send_presence env recipient state media =
     bindg (ask_error (\<lambda>n. envPresence env n recipient)) (\<lambda>_.
       modify (\<lambda>w. w\<lparr>wPresence := wPresence w @ [(recipient, state, media)]\<rparr>))"

definition delay_presence :: "env \<Rightarrow> int \<Rightarrow> jid \<Rightarrow> string \<Rightarrow> (world, unit) go" where
  "delay_presence env delay recipient media =
     (if delay > 0 then
        bindg (send_presence env recipient ''composing'' media) (\<lambda>_.
        bindg (sleep (nat delay)) (\<lambda>_.
        send_presence env recipient ''paused'' media))
      else ret ())"

text \<open>The client's \<open>SendMessage\<close> and the dereference of its \<open>Store.ID\<close>.\<close>

definition client_send :: "env \<Rightarrow> jid \<Rightarrow> wa_message \<Rightarrow> string \<Rightarrow> (world, nat) go" where
  "client_send env recipient msg messageId =
     bindg (ask_result (\<lambda>n. envSend env n recipient)) (\<lambda>serverID.
     bindg (modify (\<lambda>w. w\<lparr>wSent := wSent w @ [\<lparr>smTo = recipient, smMessage = msg, smID = messageId\<rparr>]\<rparr>)) (\<lambda>_.
     ret serverID))"

definition message_sent :: "env \<Rightarrow> SendDataStruct \<Rightarrow> jid \<Rightarrow> wa_message \<Rightarrow> string \<Rightarrow> bool \<Rightarrow> string \<Rightarrow> nat
    \<Rightarrow> (world, MessageSendStruct) go" where
  "message_sent env data recipient msg messageId isGroup messageType serverID =
     bindg (ask (\<lambda>n. envStoreID env n)) (\<lambda>storeID.
       case storeID of
         None \<Rightarrow> crash
       | Some sender \<Rightarrow>
           ret \<lparr>msInfo = \<lparr>miChat = recipient, miSender = sender, miIsFromMe = True, miIsGroup = isGroup,
                  miID = messageId, miServerID = serverID, miType = messageType\<rparr>,
                msMessage = msg, msContextInfo = quoted_context data\<rparr>)"

text \<open>The media of the message, downloaded again and encoded, when the configuration asks for it.\<close>

definition media_of :: "wa_message \<Rightarrow> (bool \<times> media_content) option" where
  "media_of msg =
     (case ImageMessage msg of Some (m, _) \<Rightarrow> Some (False, m) | None \<Rightarrow>
     (case AudioMessage msg of Some (m, _) \<Rightarrow> Some (False, m) | None \<Rightarrow>
     (case DocumentMessage msg of Some (m, _) \<Rightarrow> Some (False, m) | None \<Rightarrow>
     (case VideoMessage msg of Some (m, _) \<Rightarrow> Some (False, m) | None \<Rightarrow>
     (case StickerMessage msg of Some (m, _) \<Rightarrow> Some (True, m) | None \<Rightarrow> None)))))"

definition with_base64 :: "env \<Rightarrow> bool \<Rightarrow> wa_message \<Rightarrow> json_object \<Rightarrow> (world, json_object) go" where
  "with_base64 env wanted msg msgMap =
     (if \<not> wanted then ret msgMap
      else case media_of msg of
        None \<Rightarrow> ret (msgMap(''base64'' \<mapsto> JStr (envBase64 env [])))
      | Some (sticker, _) \<Rightarrow>
          attempt (ask_result (\<lambda>n. envDownload env n)) (\<lambda>res.
            case res of
              Inl _ \<Rightarrow> ret msgMap
            | Inr bytes \<Rightarrow>
                (let bytes' = (if sticker then (case envWebPToPng env bytes of Some png \<Rightarrow> png | None \<Rightarrow> bytes)
                               else bytes)
                 in ret (msgMap(''base64'' \<mapsto> JStr (envBase64 env bytes'))))))"

definition post_map :: "env \<Rightarrow> Instance \<Rightarrow> MessageSendStruct \<Rightarrow> json_object \<Rightarrow> json_object" where
  "post_map env instnc sent msgMap =
     [''event'' \<mapsto> JStr ''SendMessage'',
      ''data'' \<mapsto> JObj [''Info'' \<mapsto> envInfoJson env (msInfo sent), ''Message'' \<mapsto> JObj msgMap,
        ''MessageContextInfo'' \<mapsto> envContextJson env (msContextInfo sent)],
      ''instanceToken'' \<mapsto> JStr (iToken instnc), ''instanceId'' \<mapsto> JStr (iId instnc),
      ''instanceName'' \<mapsto> JStr (iName instnc)]"

definition publish_sent :: "env \<Rightarrow> send_config \<Rightarrow> Instance \<Rightarrow> MessageSendStruct \<Rightarrow> bool \<Rightarrow> (world, unit) go" where
  "publish_sent env cfg instnc sent isMedia =
     bindg (of_result (case envMessageJson env (msMessage sent) of
              Inl e \<Rightarrow> Err (''failed to marshal message: '' @ e) | Inr m \<Rightarrow> Ok m)) (\<lambda>msgMap.
     bindg (with_base64 env (isMedia \<and> cfgWebhookFiles cfg) (msMessage sent) msgMap) (\<lambda>msgMap'.
     bindg (ask_error (envMarshal env)) (\<lambda>_.
     bindg (modify (\<lambda>w. w\<lparr>wWebhooks := wWebhooks w @
              [(to_lower (iId instnc @ ''.SendMessage''), post_map env instnc sent msgMap')]\<rparr>)) (\<lambda>_.
     if cfgGlobalQueues cfg then
       modify (\<lambda>w. w\<lparr>wGlobals := wGlobals w @ [(''SendMessage'', post_map env instnc sent msgMap')]\<rparr>)
     else ret ()))))"

text \<open>The stages of \<open>SendMessage\<close>: before the client is called, and from there on.\<close>

definition prepare_message ::
  "env \<Rightarrow> send_config \<Rightarrow> Instance \<Rightarrow> wa_message \<Rightarrow> string \<Rightarrow> SendDataStruct
     \<Rightarrow> (world, jid \<times> string \<times> wa_message \<times> bool) go" where
  "prepare_message env cfg instnc msg messageType data =
     bindg (validateAndCheckUserExists env cfg (sdNumber data) (sdFormatJid data)
              (Some (sdQuotedMessageID data)) (Some (sdQuotedMessageID data)) (iId instnc)) (\<lambda>recipient.
     bindg (if sdId data = [] then ask (envGenerateID env) else ret (sdId data)) (\<lambda>message.
     bindg (delay_presence env (sdDelay data) recipient
              (if messageType = ''AudioMessage'' then ''audio'' else [])) (\<lambda>_.
     bindg (set_context data messageType msg) (\<lambda>(msg1, isMedia).
     bindg (set_mentions env data recipient messageType msg1) (\<lambda>msg2.
     ret (recipient\<lparr>User := remove_char CHR ''+'' (User recipient)\<rparr>, message, msg2, isMedia))))))"

definition deliver_message ::
  "env \<Rightarrow> send_config \<Rightarrow> Instance \<Rightarrow> string \<Rightarrow> SendDataStruct \<Rightarrow> jid \<times> string \<times> wa_message \<times> bool
     \<Rightarrow> (world, MessageSendStruct) go" where
  "deliver_message env cfg instnc messageType data prepared =
     (case prepared of (recipient, message, msg, isMedia) \<Rightarrow>
        bindg (client_send env recipient msg message) (\<lambda>serverID.
        bindg (message_sent env data recipient msg message (str_contains (sdNumber data) ''@g.us'')
                 messageType serverID) (\<lambda>sent.
        bindg (publish_sent env cfg instnc sent isMedia) (\<lambda>_. ret sent))))"

definition SendMessage ::
  "env \<Rightarrow> send_config \<Rightarrow> Instance \<Rightarrow> wa_message \<Rightarrow> string \<Rightarrow> SendDataStruct \<Rightarrow> (world, MessageSendStruct) go" where
  "SendMessage env cfg instnc msg messageType data =
     bindg (prepare_message env cfg instnc msg messageType data)
       (deliver_message env cfg instnc messageType data)"

section \<open>The retry loop\<close>

text \<open>The loop that text, link, media and poll messages share: \<open>k\<close> attempts left of \<open>maxRetries\<close>.
  What an attempt does before \<open>SendMessage\<close> is \<open>build\<close>: it gives the message and its type, and may
  change the variables \<open>d\<close> that live across attempts; an error skips the attempt, or ends the loop.\<close>

datatype 'd built = Built 'd wa_message string | SkipAttempt 'd string | GiveUp string

definition disconnection :: "string \<Rightarrow> bool" where
  "disconnection e = (str_contains e ''client disconnected'' \<or> str_contains e ''no active session'')"

fun send_loop ::
  "string \<Rightarrow> env \<Rightarrow> send_config \<Rightarrow> Instance \<Rightarrow> SendDataStruct \<Rightarrow> (client \<Rightarrow> 'd \<Rightarrow> (world, 'd built) go)
     \<Rightarrow> nat \<Rightarrow> nat \<Rightarrow> 'd \<Rightarrow> (world, MessageSendStruct) go" where
  "send_loop what env cfg instnc data build maxRetries 0 d =
     raise (''failed to send '' @ what @ '' after '' @ show_nat maxRetries @ '' attempts'')"
| "send_loop what env cfg instnc data build maxRetries (Suc k) d =
     attempt (ensureClientConnectedWithRetry env (iId instnc) 2) (\<lambda>c.
       case c of
         Inl err \<Rightarrow> if k = 0 then raise err else send_loop what env cfg instnc data build maxRetries k d
       | Inr client \<Rightarrow>
           bindg (build client d) (\<lambda>b.
             case b of
               GiveUp err \<Rightarrow> raise err
             | SkipAttempt d' err \<Rightarrow>
                 if k = 0 then raise err else send_loop what env cfg instnc data build maxRetries k d'
             | Built d' msg messageType \<Rightarrow>
                 attempt (SendMessage env cfg instnc msg messageType data) (\<lambda>res.
                   case res of
                     Inr message \<Rightarrow> ret message
                   | Inl err \<Rightarrow>
                       if disconnection err \<and> k > 0 then
                         bindg (sleep ((maxRetries - k) * 1000))
                           (\<lambda>_. send_loop what env cfg instnc data build maxRetries k d')
                       else raise err)))"

section \<open>Text, link, poll\<close>

definition text_message :: "string \<Rightarrow> wa_message" where
  "text_message t = emptyMessage\<lparr>ExtendedTextMessage :=
     Some (\<lparr>txText = t, txTitle = None, txMatchedText = None, txThumbnail = [], txDescription = None\<rparr>, None)\<rparr>"

definition sendTextWithRetry :: "env \<Rightarrow> send_config \<Rightarrow> TextStruct \<Rightarrow> Instance \<Rightarrow> nat \<Rightarrow> (world, MessageSendStruct) go" where
  "sendTextWithRetry env cfg data instnc maxRetries =
     send_loop ''text'' env cfg instnc (SendDataStruct.truncate data)
       (\<lambda>client d. ret (Built d (text_message (tsText data)) ''ExtendedTextMessage'')) maxRetries maxRetries ()"

definition SendText :: "env \<Rightarrow> send_config \<Rightarrow> TextStruct \<Rightarrow> Instance \<Rightarrow> (world, MessageSendStruct) go" where
  "SendText env cfg data instnc = sendTextWithRetry env cfg data instnc 3"

text \<open>\<open>findURL\<close>: the first match of \<open>http[s]?://\<close> and at least one character of the pattern's classes,
  taken as far as they go.\<close>

definition url_char :: "char \<Rightarrow> bool" where
  "url_char c = (let n = of_char c :: nat in (36 \<le> n \<and> n \<le> 95) \<or> (97 \<le> n \<and> n \<le> 122) \<or> n = 33)"

definition url_scheme :: "string \<Rightarrow> string option" where
  "url_scheme s = (if has_prefix s ''http://'' then Some ''http://''
     else if has_prefix s ''https://'' then Some ''https://'' else None)"

definition url_here :: "string \<Rightarrow> string option" where
  "url_here s =
     (case url_scheme s of
        None \<Rightarrow> None
      | Some p \<Rightarrow>
          (let rest = takeWhile url_char (drop (length p) s) in
           if rest = [] then None else Some (p @ rest)))"

fun findURL :: "string \<Rightarrow> string" where
  "findURL [] = []"
| "findURL (c # cs) = (case url_here (c # cs) of Some u \<Rightarrow> u | None \<Rightarrow> findURL cs)"

text \<open>\<open>fetchLinkMetadata\<close>: title, description and image of a page, the last of each in document order.\<close>

definition html_data :: "html \<Rightarrow> string" where
  "html_data h = (case h of Element tag _ _ \<Rightarrow> tag | OtherNode s _ \<Rightarrow> s)"

definition last_attr :: "(string \<Rightarrow> bool) \<Rightarrow> (string \<times> string) list \<Rightarrow> string" where
  "last_attr keys attrs = foldl (\<lambda>acc (k, v). if keys k then v else acc) [] attrs"

definition element_metadata ::
  "string \<Rightarrow> (string \<times> string) list \<Rightarrow> html list \<Rightarrow> string \<times> string \<times> string \<Rightarrow> string \<times> string \<times> string" where
  "element_metadata tag attrs children acc =
     (case acc of (title, description, imgURL) \<Rightarrow>
        (let title' = (if tag = ''title'' \<and> children \<noteq> [] then html_data (hd children) else title)
         in if tag = ''meta'' then
              (let property = last_attr (\<lambda>k. k = ''property'' \<or> k = ''name'') attrs;
                   content = last_attr (\<lambda>k. k = ''content'') attrs
               in (title',
                   if (property = ''description'' \<or> property = ''og:description'') \<and> content \<noteq> []
                   then content else description,
                   if property = ''og:image'' \<and> content \<noteq> [] then content else imgURL))
            else (title', description, imgURL)))"

fun html_metadata :: "html \<Rightarrow> string \<times> string \<times> string \<Rightarrow> string \<times> string \<times> string" where
  "html_metadata (Element tag attrs children) acc =
     fold html_metadata children (element_metadata tag attrs children acc)"
| "html_metadata (OtherNode s children) acc = fold html_metadata children acc"

definition fetchLinkMetadata :: "env \<Rightarrow> string \<Rightarrow> (world, string \<times> string \<times> string) go" where
  "fetchLinkMetadata env url =
     bindg (ask_result (\<lambda>n. envHttpGet env n url)) (\<lambda>(body, readErr).
     bindg (of_error readErr) (\<lambda>_.
     bindg (of_result (envHtml env body)) (\<lambda>doc.
     ret (html_metadata doc ([], [], [])))))"

text \<open>The title, description and image of the request are overwritten by those of the page, and stay
  so in the next attempt.\<close>

type_synonym link_vars = "string \<times> string \<times> string"

definition link_message :: "LinkStruct \<Rightarrow> string \<Rightarrow> string \<Rightarrow> link_vars \<Rightarrow> wa_message" where
  "link_message data matchedText fileData d =
     (case d of (title, description, imgUrl) \<Rightarrow>
        emptyMessage\<lparr>ExtendedTextMessage := Some (\<lparr>txText = lsText data, txTitle = Some title,
          txMatchedText = Some matchedText, txThumbnail = fileData, txDescription = Some description\<rparr>, None)\<rparr>)"

definition build_link :: "env \<Rightarrow> LinkStruct \<Rightarrow> client \<Rightarrow> link_vars \<Rightarrow> (world, link_vars built) go" where
  "build_link env data client d =
     (let matchedText = findURL (lsText data) in
      attempt (if matchedText \<noteq> [] then fetchLinkMetadata env matchedText else ret d) (\<lambda>meta.
        case meta of
          Inl err \<Rightarrow> ret (SkipAttempt d err)
        | Inr (title, description, imgUrl) \<Rightarrow>
            (let d' = (title, description, imgUrl) in
             attempt (if imgUrl \<noteq> [] then ask_result (\<lambda>n. envHttpGet env n imgUrl) else ret ([], None)) (\<lambda>img.
               case img of
                 Inl err \<Rightarrow> ret (SkipAttempt d' err)
               | Inr (fileData, _) \<Rightarrow>
                   ret (Built d' (link_message data matchedText fileData d') ''ExtendedTextMessage'')))))"

definition sendLinkWithRetry :: "env \<Rightarrow> send_config \<Rightarrow> LinkStruct \<Rightarrow> Instance \<Rightarrow> nat \<Rightarrow> (world, MessageSendStruct) go" where
  "sendLinkWithRetry env cfg data instnc maxRetries =
     send_loop ''link'' env cfg instnc (SendDataStruct.truncate data) (build_link env data)
       maxRetries maxRetries (lsTitle data, lsDescription data, lsImgUrl data)"

definition SendLink :: "env \<Rightarrow> send_config \<Rightarrow> LinkStruct \<Rightarrow> Instance \<Rightarrow> (world, MessageSendStruct) go" where
  "SendLink env cfg data instnc = sendLinkWithRetry env cfg data instnc 3"

definition sendPollWithRetry :: "env \<Rightarrow> send_config \<Rightarrow> PollStruct \<Rightarrow> Instance \<Rightarrow> nat \<Rightarrow> (world, MessageSendStruct) go" where
  "sendPollWithRetry env cfg data instnc maxRetries =
     send_loop ''poll'' env cfg instnc (SendDataStruct.truncate data)
       (\<lambda>client d. ret (Built d (envPoll env (psQuestion data) (psOptions data) (psMaxAnswer data))
          ''PollCreationMessage'')) maxRetries maxRetries ()"

definition SendPoll :: "env \<Rightarrow> send_config \<Rightarrow> PollStruct \<Rightarrow> Instance \<Rightarrow> (world, MessageSendStruct) go" where
  "SendPoll env cfg data instnc = sendPollWithRetry env cfg data instnc 3"

section \<open>Media\<close>

definition image_mimes :: "string list" where
  "image_mimes = [''image/jpeg'', ''image/png'', ''image/webp'']"

definition bad_format :: "string \<Rightarrow> string \<Rightarrow> string" where
  "bad_format mimeType accepted = ''Invalid file format: '' @ [CHR 0x27] @ mimeType @ [CHR 0x27] @ ''. Only '' @ accepted"

definition quoted :: "string \<Rightarrow> string" where
  "quoted s = [CHR 0x27] @ s @ [CHR 0x27]"

definition image_mime :: "string \<Rightarrow> string result" where
  "image_mime mimeType =
     (if mimeType \<notin> set image_mimes then
        Err (bad_format mimeType (quoted ''image/jpeg'' @ '', '' @ quoted ''image/png'' @ '' and ''
               @ quoted ''image/webp'' @ '' are accepted''))
      else Ok (if mimeType = ''image/webp'' then ''image/jpeg'' else mimeType))"

text \<open>The audio converter: the local one, or the configured service.\<close>

definition convert_audio :: "env \<Rightarrow> send_config \<Rightarrow> string \<Rightarrow> (world, string \<times> nat) go" where
  "convert_audio env cfg fileData =
     (if cfgAudioConverter cfg = [] then ask_result (\<lambda>n. envConvertLocal env n fileData)
      else ask_result (\<lambda>n. envConvertApi env n (envBase64 env fileData)))"

text \<open>The first switch over the media type: the bytes to upload, their MIME type, the kind of upload
  and the duration. \<open>sendMediaFileWithRetry\<close> has no case for \<open>ptv\<close>, \<open>sendMediaUrlWithRetry\<close> has.\<close>

type_synonym staged = "string \<times> string \<times> media_type \<times> nat"

definition stage_audio :: "env \<Rightarrow> send_config \<Rightarrow> string \<Rightarrow> (world, staged) go" where
  "stage_audio env cfg fileData =
     bindg (convert_audio env cfg fileData) (\<lambda>(convertedData, duration).
       ret (convertedData, ''audio/ogg; codecs=opus'', MediaAudio, duration))"

definition stage_file :: "env \<Rightarrow> send_config \<Rightarrow> string \<Rightarrow> string \<Rightarrow> string \<Rightarrow> (world, staged) go" where
  "stage_file env cfg mtype mimeType fileData =
     (if mtype = ''image'' then
        bindg (of_result (image_mime mimeType)) (\<lambda>m. ret (fileData, m, MediaImage, 0))
      else if mtype = ''video'' then
        (if mimeType \<noteq> ''video/mp4'' then raise (bad_format mimeType (quoted ''video/mp4'' @ '' is accepted''))
         else ret (fileData, mimeType, MediaVideo, 0))
      else if mtype = ''audio'' then stage_audio env cfg fileData
      else if mtype = ''document'' then ret (fileData, mimeType, MediaDocument, 0)
      else raise ''invalid media type'')"

definition stage_url :: "env \<Rightarrow> send_config \<Rightarrow> string \<Rightarrow> string \<Rightarrow> string \<Rightarrow> (world, staged) go" where
  "stage_url env cfg mtype mimeType fileData =
     (if mtype = ''image'' then
        bindg (of_result (image_mime mimeType)) (\<lambda>m. ret (fileData, m, MediaImage, 0))
      else if mtype = ''video'' \<or> mtype = ''ptv'' then
        (if mimeType \<noteq> ''video/mp4'' then raise (bad_format mimeType (quoted ''video/mp4'' @ '' are accepted''))
         else ret (fileData, mimeType, MediaVideo, 0))
      else if mtype = ''audio'' then stage_audio env cfg fileData
      else if mtype = ''document'' then ret (fileData, mimeType, MediaDocument, 0)
      else raise ''invalid media type'')"

definition upload :: "env \<Rightarrow> string \<Rightarrow> media_type \<Rightarrow> (world, upload_response) go" where
  "upload env fileData uploadType =
     bindg (ask_result (\<lambda>n. envUpload env n fileData uploadType)) (\<lambda>uploaded.
     bindg (modify (\<lambda>w. w\<lparr>wUploads := wUploads w @ [(uploadType, fileData)]\<rparr>)) (\<lambda>_. ret uploaded))"

definition uploaded_media :: "upload_response \<Rightarrow> string \<Rightarrow> nat \<Rightarrow> media_content" where
  "uploaded_media up mimeType len =
     \<lparr>mdCaption = None, mdFileName = None, mdURL = upURL up, mdDirectPath = upDirectPath up,
      mdMediaKey = upMediaKey up, mdMimetype = mimeType, mdFileEncSHA256 = upFileEncSHA256 up,
      mdFileSHA256 = upFileSHA256 up, mdFileLength = len, mdPTT = False, mdSeconds = None,
      mdStreamingSidecar = [], mdWaveform = []\<rparr>"

text \<open>The second switch: the message and its type. A document with a caption is moved into
  \<open>DocumentWithCaptionMessage\<close>. Audio from a URL carries a fixed sidecar and waveform (\<open>fromUrl\<close>).\<close>

definition media_message ::
  "bool \<Rightarrow> MediaStruct \<Rightarrow> staged \<Rightarrow> upload_response \<Rightarrow> (wa_message \<times> string) result" where
  "media_message fromUrl data st up =
     (case st of (fileData, mimeType, _, duration) \<Rightarrow>
        (let m = uploaded_media up mimeType (length fileData);
             captioned = m\<lparr>mdCaption := Some (msCaption data)\<rparr> in
         if msType data = ''image'' then
           Ok (emptyMessage\<lparr>ImageMessage := Some (captioned, None)\<rparr>, ''ImageMessage'')
         else if msType data = ''video'' then
           Ok (emptyMessage\<lparr>VideoMessage := Some (captioned, None)\<rparr>, ''VideoMessage'')
         else if msType data = ''ptv'' then
           Ok (emptyMessage\<lparr>PtvMessage := Some (m, None)\<rparr>, ''PtvMessage'')
         else if msType data = ''audio'' then
           Ok (emptyMessage\<lparr>AudioMessage := Some (m\<lparr>mdPTT := True, mdFileLength := upFileLength up,
                 mdSeconds := Some duration,
                 mdStreamingSidecar := (if fromUrl then ''QpmXDsU7YLagdg=='' else []),
                 mdWaveform := (if fromUrl then
                   ''OjAnExISDgsKCAkJBwgkHAQEBBEFAwMNAxAcKCgkFzM0QUE4Jh4eKAoKChcLCwkeFgkJCQo3JiQmIiIRPz8/Ow==''
                   else [])\<rparr>, None)\<rparr>, ''AudioMessage'')
         else if msType data = ''document'' then
           (let doc = Some (captioned\<lparr>mdFileName := Some (msFilename data)\<rparr>, None) in
            Ok (if msCaption data \<noteq> [] then emptyMessage\<lparr>DocumentWithCaptionMessage := doc\<rparr>
                else emptyMessage\<lparr>DocumentMessage := doc\<rparr>, ''DocumentMessage''))
         else Err ''invalid media type''))"

text \<open>Every error of these steps ends the sending. The converted audio replaces the file data, also
  for the next attempt.\<close>

definition built_or_give_up :: "(world, 'd built) go \<Rightarrow> (world, 'd built) go" where
  "built_or_give_up m = attempt m (\<lambda>r. case r of Inl err \<Rightarrow> ret (GiveUp err) | Inr b \<Rightarrow> ret b)"

definition build_file :: "env \<Rightarrow> send_config \<Rightarrow> MediaStruct \<Rightarrow> client \<Rightarrow> string \<Rightarrow> (world, string built) go" where
  "build_file env cfg data client fileData =
     built_or_give_up
       (bindg (stage_file env cfg (msType data) (envMime env fileData) fileData) (\<lambda>st.
        bindg (upload env (fst st) (fst (snd (snd st)))) (\<lambda>up.
        bindg (of_result (media_message False data st up)) (\<lambda>(msg, mediaType).
        ret (Built (fst st) msg mediaType)))))"

definition sendMediaFileWithRetry ::
  "env \<Rightarrow> send_config \<Rightarrow> MediaStruct \<Rightarrow> string \<Rightarrow> Instance \<Rightarrow> nat \<Rightarrow> (world, MessageSendStruct) go" where
  "sendMediaFileWithRetry env cfg data fileData instnc maxRetries =
     send_loop ''media file'' env cfg instnc (SendDataStruct.truncate data) (build_file env cfg data)
       maxRetries maxRetries fileData"

definition SendMediaFile :: "env \<Rightarrow> send_config \<Rightarrow> MediaStruct \<Rightarrow> string \<Rightarrow> Instance \<Rightarrow> (world, MessageSendStruct) go" where
  "SendMediaFile env cfg data fileData instnc = sendMediaFileWithRetry env cfg data fileData instnc 3"

definition build_url :: "env \<Rightarrow> send_config \<Rightarrow> MediaStruct \<Rightarrow> client \<Rightarrow> unit \<Rightarrow> (world, unit built) go" where
  "build_url env cfg data client u =
     built_or_give_up
       (bindg (ask_result (\<lambda>n. envHttpGet env n (msUrl data))) (\<lambda>(fileData, readErr).
        bindg (of_error readErr) (\<lambda>_.
        bindg (stage_url env cfg (msType data)
                 (if has_suffix (to_lower (msUrl data)) ''.mp4'' then ''video/mp4'' else envMime env fileData)
                 fileData) (\<lambda>st.
        bindg (upload env (fst st) (fst (snd (snd st)))) (\<lambda>up.
        bindg (of_result (media_message True data st up)) (\<lambda>(msg, mediaType).
        ret (Built () msg mediaType)))))))"

definition sendMediaUrlWithRetry ::
  "env \<Rightarrow> send_config \<Rightarrow> MediaStruct \<Rightarrow> Instance \<Rightarrow> nat \<Rightarrow> (world, MessageSendStruct) go" where
  "sendMediaUrlWithRetry env cfg data instnc maxRetries =
     send_loop ''media url'' env cfg instnc (SendDataStruct.truncate data) (build_url env cfg data)
       maxRetries maxRetries ()"

definition SendMediaUrl :: "env \<Rightarrow> send_config \<Rightarrow> MediaStruct \<Rightarrow> Instance \<Rightarrow> (world, MessageSendStruct) go" where
  "SendMediaUrl env cfg data instnc = sendMediaUrlWithRetry env cfg data instnc 3"

section \<open>Sticker, location, contact\<close>

definition sticker_message :: "upload_response \<Rightarrow> string \<Rightarrow> string \<Rightarrow> wa_message" where
  "sticker_message up mimeType filedata =
     emptyMessage\<lparr>StickerMessage := Some (uploaded_media up mimeType (length filedata), None)\<rparr>"

definition SendSticker :: "env \<Rightarrow> send_config \<Rightarrow> StickerStruct \<Rightarrow> Instance \<Rightarrow> (world, MessageSendStruct) go" where
  "SendSticker env cfg data instnc =
     bindg (ensureClientConnected env (iId instnc)) (\<lambda>client.
       if \<not> has_prefix (ssSticker data) ''http'' then raise ''invalid sticker URL''
       else attempt (ask_result (\<lambda>n. envToWebP env n (ssSticker data))) (\<lambda>webp.
         case webp of
           Inl err \<Rightarrow> raise (''failed to convert image to WebP: '' @ err)
         | Inr filedata \<Rightarrow>
             attempt (upload env filedata MediaImage) (\<lambda>res.
               case res of
                 Inl err \<Rightarrow> raise (''failed to upload sticker: '' @ err)
               | Inr uploaded \<Rightarrow>
                   SendMessage env cfg instnc (sticker_message uploaded (envDetect env filedata) filedata)
                     ''StickerMessage'' (SendDataStruct.truncate data))))"

definition location_message :: "LocationStruct \<Rightarrow> wa_message" where
  "location_message data =
     emptyMessage\<lparr>LocationMessage := Some (\<lparr>lcLatitude = lcsLatitude data, lcLongitude = lcsLongitude data,
       lcName = lcsName data, lcAddress = lcsAddress data\<rparr>, None)\<rparr>"

definition SendLocation :: "env \<Rightarrow> send_config \<Rightarrow> LocationStruct \<Rightarrow> Instance \<Rightarrow> (world, MessageSendStruct) go" where
  "SendLocation env cfg data instnc =
     bindg (ensureClientConnected env (iId instnc)) (\<lambda>_.
       SendMessage env cfg instnc (location_message data) ''LocationMessage'' (SendDataStruct.truncate data))"

definition contact_message :: "ContactStruct \<Rightarrow> wa_message" where
  "contact_message data =
     emptyMessage\<lparr>ContactMessage := Some (\<lparr>ctDisplayName = FullName (csVcard data),
       ctVcard = GenerateVC (csVcard data)\<rparr>, None)\<rparr>"

definition SendContact :: "env \<Rightarrow> send_config \<Rightarrow> ContactStruct \<Rightarrow> Instance \<Rightarrow> (world, MessageSendStruct) go" where
  "SendContact env cfg data instnc =
     bindg (ensureClientConnected env (iId instnc)) (\<lambda>_.
       SendMessage env cfg instnc (contact_message data) ''ContactMessage'' (SendDataStruct.truncate data))"

section \<open>Buttons and lists\<close>

definition mapKeyType :: "string \<Rightarrow> string" where
  "mapKeyType keyType =
     (if keyType = ''phone'' then ''PHONE'' else if keyType = ''email'' then ''EMAIL''
      else if keyType = ''cpf'' then ''CPF'' else if keyType = ''cnpj'' then ''CNPJ''
      else if keyType = ''random'' then ''EVP'' else keyType)"

text \<open>The checks: the flags of the loop over the buttons, and the three errors.\<close>

definition check_buttons :: "Button list \<Rightarrow> go_error" where
  "check_buttons buttons =
     (let hasReply = list_ex (\<lambda>v. btType v = ''reply'') buttons;
          replyCount = length (filter (\<lambda>v. btType v = ''reply'') buttons);
          hasPix = list_ex (\<lambda>v. btType v = ''pix'') buttons;
          hasOtherTypes = list_ex (\<lambda>v. btType v \<noteq> ''reply'' \<and> btType v \<noteq> ''pix'') buttons
      in if hasReply \<and> replyCount > 3 then
           Some (''m'' @ [CHR 0xC3, CHR 0xA1] @ ''ximo de 3 bot'' @ [CHR 0xC3, CHR 0xB5] @ ''es do tipo ''
                 @ quoted ''reply'' @ '' permitidos'')
         else if hasReply \<and> hasOtherTypes then
           Some (''bot'' @ [CHR 0xC3, CHR 0xB5] @ ''es do tipo '' @ quoted ''reply'' @ '' n'' @ [CHR 0xC3, CHR 0xA3]
                 @ ''o podem ser misturados com outros tipos'')
         else if hasPix \<and> length buttons > 1 then
           Some (''bot'' @ [CHR 0xC3, CHR 0xA3] @ ''o do tipo '' @ quoted ''pix'' @ '' n'' @ [CHR 0xC3, CHR 0xA3]
                 @ ''o pode ser combinado com outros bot'' @ [CHR 0xC3, CHR 0xB5] @ ''es'')
         else None)"

text \<open>The parameters are put together as text, without escaping.\<close>

definition qt :: "string \<Rightarrow> string" where
  "qt s = ''\"'' @ s @ ''\"''"

definition member :: "string \<Rightarrow> string \<Rightarrow> string" where
  "member k v = qt k @ '':'' @ qt v"

definition button_params :: "Button \<Rightarrow> string \<Rightarrow> string option \<times> string option" where
  "button_params v randomId =
     (if btType v = ''reply'' then
        (Some ''quick_reply'', Some (''{'' @ member ''display_text'' (btDisplayText v) @ '','' @ member ''id'' (btId v) @ ''}''))
      else if btType v = ''copy'' then
        (Some ''cta_copy'', Some (''{'' @ member ''display_text'' (btDisplayText v) @ '',''
           @ member ''copy_code'' (btCopyCode v) @ ''}''))
      else if btType v = ''url'' then
        (Some ''cta_url'', Some (''{'' @ member ''display_text'' (btDisplayText v) @ '','' @ member ''url'' (btURL v) @ '',''
           @ member ''merchant_url'' (btURL v) @ ''}''))
      else if btType v = ''call'' then
        (Some ''cta_call'', Some (''{'' @ member ''display_text'' (btDisplayText v) @ '',''
           @ member ''phone_number'' (btPhoneNumber v) @ ''}''))
      else if btType v = ''pix'' then
        (Some ''payment_info'', Some (''{'' @ member ''currency'' (btCurrency v)
           @ '',\"total_amount\":{\"value\":0,\"offset\":100},'' @ member ''reference_id'' randomId
           @ '',\"type\":\"physical-goods\",\"order\":{\"status\":\"pending\",\"subtotal\":{\"value\":0,\"offset\":100},\"order_type\":\"ORDER\",\"items\":[{\"name\":\"\",\"amount\":{\"value\":0,\"offset\":100},\"quantity\":0,\"sale_amount\":{\"value\":0,\"offset\":100}}]},\"payment_settings\":[{\"type\":\"pix_static_code\",\"pix_static_code\":{''
           @ member ''merchant_name'' (btName v) @ '','' @ member ''key'' (btKey v) @ '',''
           @ member ''key_type'' (mapKeyType (btKeyType v)) @ ''}}],\"share_payment_status\":false}''))
      else (None, None))"

fun build_buttons :: "env \<Rightarrow> Button list \<Rightarrow> (world, flow_button list) go" where
  "build_buttons env [] = ret []"
| "build_buttons env (v # vs) =
     bindg (if btType v = ''pix'' then ask (envRandom env) else ret []) (\<lambda>randomId.
     bindg (build_buttons env vs) (\<lambda>rest.
     ret (\<lparr>fbName = fst (button_params v randomId), fbParams = snd (button_params v randomId)\<rparr> # rest)))"

definition interactive_body :: "string \<Rightarrow> string \<Rightarrow> string" where
  "interactive_body title description =
     ''*'' @ title @ ''*'' @ (if description \<noteq> [] then nl @ nl @ description @ nl else [])"

definition message_params :: "nat \<Rightarrow> string" where
  "message_params millis = ''{\"from\":\"api\",\"templateId\":'' @ show_nat millis @ ''}''"

definition button_message :: "ButtonStruct \<Rightarrow> flow_button list \<Rightarrow> string \<Rightarrow> wa_message" where
  "button_message data buttons params =
     (if list_ex (\<lambda>v. btType v = ''pix'') (bsButtons data) then
        emptyMessage\<lparr>InteractiveMessage := Some \<lparr>inBody = None, inFooter = None, inButtons = buttons,
          inParams = params\<rparr>\<rparr>
      else
        emptyMessage\<lparr>ViewOnceMessage := Some \<lparr>inBody = Some (interactive_body (bsTitle data) (bsDescription data)),
          inFooter = Some (bsFooter data), inButtons = buttons, inParams = params\<rparr>\<rparr>)"

text \<open>What \<open>SendButton\<close> and \<open>SendList\<close> do with the message they have built: the recipient is used as
  validation gives it, and no event is published.\<close>

definition send_interactive ::
  "env \<Rightarrow> send_config \<Rightarrow> Instance \<Rightarrow> SendDataStruct \<Rightarrow> wa_message \<Rightarrow> string \<Rightarrow> string \<Rightarrow> (world, MessageSendStruct) go" where
  "send_interactive env cfg instnc data msg messageId messageType =
     bindg (validateAndCheckUserExists env cfg (sdNumber data) (sdFormatJid data)
              (Some (sdQuotedMessageID data)) (Some (sdQuotedMessageID data)) (iId instnc)) (\<lambda>recipient.
     bindg (delay_presence env (sdDelay data) recipient []) (\<lambda>_.
     bindg (client_send env recipient msg messageId) (\<lambda>serverID.
     message_sent env data recipient msg messageId False messageType serverID)))"

definition SendButton :: "env \<Rightarrow> send_config \<Rightarrow> ButtonStruct \<Rightarrow> Instance \<Rightarrow> (world, MessageSendStruct) go" where
  "SendButton env cfg data instnc =
     bindg (ensureClientConnected env (iId instnc)) (\<lambda>client.
     bindg (of_error (check_buttons (bsButtons data))) (\<lambda>_.
     bindg (build_buttons env (bsButtons data)) (\<lambda>buttons.
     bindg (ask (envGenerateID env)) (\<lambda>messageId.
     bindg (ask (envMillis env)) (\<lambda>millis.
     send_interactive env cfg instnc (SendDataStruct.truncate data)
       (button_message data buttons (message_params millis)) messageId ''ButtonMessage'')))))"

text \<open>\<open>json.Marshal\<close> of a text and of the sections of a list. Bytes from 128 on are part of UTF-8
  sequences and are kept.\<close>

definition hex_digit :: "nat \<Rightarrow> char" where
  "hex_digit d = (if d < 10 then digit_char d else char_of (87 + d))"

definition json_char :: "char \<Rightarrow> string" where
  "json_char c =
     (let n = of_char c :: nat in
      if c = CHR 0x22 \<or> c = CHR 0x5C then [CHR 0x5C, c]
      else if n = 8 then [CHR 0x5C, CHR ''b''] else if n = 12 then [CHR 0x5C, CHR ''f'']
      else if n = 10 then [CHR 0x5C, CHR ''n''] else if n = 13 then [CHR 0x5C, CHR ''r'']
      else if n = 9 then [CHR 0x5C, CHR ''t'']
      else if n < 32 \<or> c = CHR ''<'' \<or> c = CHR ''>'' \<or> c = CHR ''&'' then
        [CHR 0x5C, CHR ''u'', CHR ''0'', CHR ''0'', hex_digit (n div 16), hex_digit (n mod 16)]
      else [c])"

definition json_string :: "string \<Rightarrow> string" where
  "json_string s = qt (concat (map json_char s))"

definition row_json :: "Row \<Rightarrow> string" where
  "row_json r = ''{\"title\":'' @ json_string (rwTitle r) @ '',\"description\":'' @ json_string (rwDescription r)
     @ '',\"id\":'' @ json_string (rwRowId r) @ ''}''"

definition section_json :: "Section \<Rightarrow> string" where
  "section_json s = ''{\"title\":'' @ json_string (scTitle s) @ '',\"rows\":['' @ join '','' (map row_json (scRows s)) @ '']}''"

definition sectionsToString :: "ListStruct \<Rightarrow> string" where
  "sectionsToString data = ''{\"title\":'' @ json_string (liButtonText data) @ '',\"sections\":[''
     @ join '','' (map section_json (liSections data)) @ '']}''"

definition list_message :: "ListStruct \<Rightarrow> string \<Rightarrow> wa_message" where
  "list_message data params =
     emptyMessage\<lparr>ViewOnceMessage := Some \<lparr>inBody = Some (interactive_body (liTitle data) (liDescription data)),
       inFooter = Some (liFooterText data),
       inButtons = [\<lparr>fbName = Some ''single_select'', fbParams = Some (sectionsToString data)\<rparr>],
       inParams = params\<rparr>\<rparr>"

definition SendList :: "env \<Rightarrow> send_config \<Rightarrow> ListStruct \<Rightarrow> Instance \<Rightarrow> (world, MessageSendStruct) go" where
  "SendList env cfg data instnc =
     bindg (ensureClientConnected env (iId instnc)) (\<lambda>client.
     bindg (ask (envGenerateID env)) (\<lambda>messageId.
     bindg (ask (envMillis env)) (\<lambda>millis.
     send_interactive env cfg instnc (SendDataStruct.truncate data)
       (list_message data (message_params millis)) messageId ''ListMessage'')))"

section \<open>Lemmas\<close>

text \<open>What has left the service: the messages and the events.\<close>

definition outgoing :: "world \<Rightarrow> sent_message list \<times> (string \<times> json_object) list \<times> (string \<times> json_object) list" where
  "outgoing w = (wSent w, wWebhooks w, wGlobals w)"

lemma outgoing_clock [simp]: "clock_only outgoing"
  by (simp add: clock_only_def outgoing_def)

lemma keeps_outgoing: "keeps (same outbox) m \<Longrightarrow> keeps (same outgoing) m"
  by (auto simp: keeps_def same_def outbox_def outgoing_def)

lemmas quiet_connection = keeps_outgoing [OF ensure_quiet] keeps_outgoing [OF ensure_retry_quiet]

lemma check_quiet: "keeps (same outbox) (checkSingleUserExists env phone f)"
  unfolding checkSingleUserExists_def Let_def
  by (intro part.keeps_intros keeps_ask outbox_clock)
    (auto intro!: part.keeps_intros split: list.splits)

lemma validate_quiet: "keeps (same outbox) (validateAndCheckUserExists env cfg phone f m p i)"
  unfolding validateAndCheckUserExists_def
  by (intro part.keeps_intros keeps_ask outbox_clock ensure_quiet check_quiet)
    (auto intro!: part.keeps_intros ensure_quiet check_quiet split: sum.splits bool.splits)

lemma presence_quiet: "keeps (same outgoing) (delay_presence env d r m)"
  unfolding delay_presence_def send_presence_def
  by (intro part.keeps_intros part.keeps_modify keeps_ask outgoing_clock) (simp_all add: same_def outgoing_def)

lemma context_quiet: "keeps (same f) (set_context data t msg)"
  unfolding set_context_def by (auto intro!: part.keeps_intros split: switched.splits)

lemma mention_switch_quiet: "keeps (same f) (mention_switch js t msg)"
  unfolding mention_switch_def by (auto intro!: part.keeps_intros split: switched.splits)

lemma mentions_quiet: "clock_only f \<Longrightarrow> keeps (same f) (set_mentions env data r t msg)"
  unfolding set_mentions_def
  by (intro part.keeps_intros keeps_ask mention_switch_quiet)

lemma prepare_quiet: "keeps (same outgoing) (prepare_message env cfg i msg t data)"
  unfolding prepare_message_def
  by (intro part.keeps_intros keeps_ask outgoing_clock presence_quiet context_quiet mentions_quiet
      keeps_outgoing [OF validate_quiet])

text \<open>The plus sign is removed from the recipient, and the identifier is the requested one.\<close>

lemma prepare_returns:
  assumes "prepare_message env cfg i msg t data w = (Return (recipient, message, msg', isMedia), w')"
  shows "CHR ''+'' \<notin> set (User recipient) \<and> (sdId data \<noteq> [] \<longrightarrow> message = sdId data)"
  using assms unfolding prepare_message_def
  by (auto elim!: bindE simp: run_basic remove_char_def split: if_splits)

text \<open>From the call of the client on: nothing has left, or the message and then, with a nil error, the
  event.\<close>

definition event_of :: "Instance \<Rightarrow> string \<times> json_object \<Rightarrow> bool" where
  "event_of instnc e =
     (fst e = to_lower (iId instnc @ ''.SendMessage'') \<and> snd e ''event'' = Some (JStr ''SendMessage'')
      \<and> snd e ''instanceId'' = Some (JStr (iId instnc)) \<and> snd e ''instanceToken'' = Some (JStr (iToken instnc)))"

definition published ::
  "send_config \<Rightarrow> Instance \<Rightarrow> world \<Rightarrow> world \<Rightarrow> bool" where
  "published cfg instnc w w' =
     (\<exists>e. event_of instnc e \<and> wWebhooks w' = wWebhooks w @ [e] \<and>
          wGlobals w' = wGlobals w @ (if cfgGlobalQueues cfg then [(''SendMessage'', snd e)] else []))"

definition unpublished :: "world \<Rightarrow> world \<Rightarrow> bool" where
  "unpublished w w' = (wWebhooks w' = wWebhooks w \<and> wGlobals w' = wGlobals w)"

lemma base64_quiet: "clock_only f \<Longrightarrow> keeps (same f) (with_base64 env b msg m)"
  unfolding with_base64_def
  by (intro part.keeps_intros keeps_ask) (auto intro!: part.keeps_intros keeps_ask simp: Let_def)

lemma publish_sent_cases:
  assumes "publish_sent env cfg i sent isMedia w = (r, w')"
  shows "wSent w' = wSent w \<and> (if r = Return () then published cfg i w w' else unpublished w w' \<and> r \<noteq> Crash)"
proof -
  have post: "event_of i (to_lower (iId i @ ''.SendMessage''), post_map env i sent m)" for m
    by (simp add: event_of_def post_map_def)
  have b64: "outgoing w2 = outgoing w1 \<and> r1 \<noteq> Crash \<and> (\<forall>e. r1 \<noteq> Raise e)"
    if "with_base64 env b msg m w1 = (r1, w2)" for b msg m w1 r1 w2
    using that base64_quiet [OF outgoing_clock, THEN keepsD, OF that]
    by (auto simp: with_base64_def same_def run_basic attempt_def run_ask_result Let_def
        split: option.splits if_splits sum.splits)
  from assms show ?thesis unfolding publish_sent_def
  proof (cases rule: bindE)
    case (go_on msgMap w1)
    then have w1: "w1 = w" by (auto simp: of_result_def run_basic split: sum.splits)
    from go_on(2) show ?thesis
    proof (cases rule: bindE)
      case (go_on m' w2)
      from b64 [OF go_on(1)] w1 have w2: "outgoing w2 = outgoing w" by simp
      from go_on(2) show ?thesis
      proof (cases rule: bindE)
        case (go_on u w3)
        then have w3: "outgoing w3 = outgoing w"
          using w2 by (auto simp: run_ask_error outgoing_def split: option.splits)
        from go_on(2) show ?thesis using w3 post [of m']
          by (auto simp: bindg_def run_basic outgoing_def published_def split: if_splits)
      next
        case (error e)
        then show ?thesis using w2 by (auto simp: run_ask_error outgoing_def unpublished_def split: option.splits)
      next
        case panic
        then show ?thesis by (auto simp: run_ask_error split: option.splits)
      qed
    next
      case (error e)
      with b64 [OF error(1)] show ?thesis by simp
    next
      case panic
      with b64 [OF panic(1)] show ?thesis by simp
    qed
  next
    case (error e)
    then show ?thesis by (auto simp: of_result_def run_basic unpublished_def split: sum.splits)
  next
    case panic
    then show ?thesis by (auto simp: of_result_def run_basic split: sum.splits)
  qed
qed

definition nothing_sent :: "world \<Rightarrow> world \<Rightarrow> bool" where
  "nothing_sent w w' = (outgoing w' = outgoing w)"

definition sent_one :: "send_config \<Rightarrow> Instance \<Rightarrow> sent_message \<Rightarrow> MessageSendStruct outcome \<Rightarrow> world \<Rightarrow> world \<Rightarrow> bool" where
  "sent_one cfg i m r w w' =
     (wSent w' = wSent w @ [m] \<and>
      (case r of
         Return s \<Rightarrow> published cfg i w w' \<and> msMessage s = smMessage m \<and> miChat (msInfo s) = smTo m
           \<and> miID (msInfo s) = smID m
       | _ \<Rightarrow> unpublished w w'))"

lemma client_send_cases:
  assumes "client_send env to msg mid w = (r, w')"
  shows "(\<exists>e. r = Raise e \<and> outgoing w' = outgoing w) \<or>
     (\<exists>n. r = Return n \<and> wSent w' = wSent w @ [\<lparr>smTo = to, smMessage = msg, smID = mid\<rparr>] \<and> unpublished w w')"
  using assms
  by (auto simp: client_send_def bindg_def run_ask_result run_basic outgoing_def unpublished_def
      split: sum.splits)

lemma message_sent_cases:
  assumes "message_sent env data to msg mid g t n w = (r, w')"
  shows "outgoing w' = outgoing w \<and>
    (r = Crash \<or> (\<exists>s. r = Return s \<and> msMessage s = msg \<and> miChat (msInfo s) = to \<and> miID (msInfo s) = mid))"
  using assms
  by (auto simp: message_sent_def bindg_def run_ask run_basic outgoing_def split: option.splits)

lemma deliver_cases:
  assumes "deliver_message env cfg i t data (to, mid, msg, isMedia) w = (r, w')"
  shows "(nothing_sent w w' \<and> (\<exists>e. r = Raise e)) \<or>
     sent_one cfg i \<lparr>smTo = to, smMessage = msg, smID = mid\<rparr> r w w'"
proof -
  let ?m = "\<lparr>smTo = to, smMessage = msg, smID = mid\<rparr>"
  from assms have "bindg (client_send env to msg mid) (\<lambda>n. bindg (message_sent env data to msg mid
       (str_contains (sdNumber data) ''@g.us'') t n) (\<lambda>sent. bindg (publish_sent env cfg i sent isMedia)
       (\<lambda>_. ret sent))) w = (r, w')" by (simp add: deliver_message_def)
  then show ?thesis
  proof (cases rule: bindE)
    case (go_on n w1)
    from client_send_cases [OF go_on(1)]
    have w1: "wSent w1 = wSent w @ [?m]" "unpublished w w1" by auto
    from go_on(2) show ?thesis
    proof (cases rule: bindE)
      case (go_on sent w2)
      from message_sent_cases [OF go_on(1)]
      have w2: "outgoing w2 = outgoing w1" "msMessage sent = msg" "miChat (msInfo sent) = to" "miID (msInfo sent) = mid"
        by auto
      from go_on(2) show ?thesis
      proof (cases rule: bindE)
        case (go_on u w3)
        with publish_sent_cases [OF go_on(1)] w1 w2 show ?thesis
          by (auto simp: run_basic sent_one_def outgoing_def published_def unpublished_def)
      next
        case (error e)
        with publish_sent_cases [OF error(1)] w1 w2 show ?thesis
          by (auto simp: sent_one_def outgoing_def unpublished_def)
      next
        case panic
        with publish_sent_cases [OF panic(1)] show ?thesis by simp
      qed
    next
      case (error e)
      with message_sent_cases [OF error(1)] show ?thesis by auto
    next
      case panic
      with message_sent_cases [OF panic(1)] w1 show ?thesis
        by (auto simp: sent_one_def outgoing_def unpublished_def)
    qed
  next
    case (error e)
    with client_send_cases [OF error(1)] show ?thesis by (auto simp: nothing_sent_def)
  next
    case panic
    with client_send_cases [OF panic(1)] show ?thesis by auto
  qed
qed

lemma SendMessage_cases:
  assumes "SendMessage env cfg i msg t data w = (r, w')"
  shows "(nothing_sent w w' \<and> (\<forall>s. r \<noteq> Return s)) \<or>
     (\<exists>m. sent_one cfg i m r w w' \<and> CHR ''+'' \<notin> set (User (smTo m)) \<and> (sdId data \<noteq> [] \<longrightarrow> smID m = sdId data))"
  using assms unfolding SendMessage_def
proof (cases rule: bindE)
  case (go_on prep w1)
  obtain to mid msg' isMedia where prep: "prep = (to, mid, msg', isMedia)" by (cases prep)
  from keepsD [OF prepare_quiet go_on(1)] have w1: "outgoing w1 = outgoing w" by (simp add: same_def)
  have p: "CHR ''+'' \<notin> set (User to)" "sdId data \<noteq> [] \<longrightarrow> mid = sdId data"
    using prepare_returns go_on(1) prep by blast+
  from deliver_cases [OF go_on(2) [unfolded prep]] show ?thesis
  proof
    assume "nothing_sent w1 w' \<and> (\<exists>e. r = Raise e)"
    with w1 show ?thesis by (auto simp: nothing_sent_def)
  next
    assume "sent_one cfg i \<lparr>smTo = to, smMessage = msg', smID = mid\<rparr> r w1 w'"
    with w1 have "sent_one cfg i \<lparr>smTo = to, smMessage = msg', smID = mid\<rparr> r w w'"
      by (auto simp: sent_one_def outgoing_def published_def unpublished_def split: outcome.splits)
    with p show ?thesis by (intro disjI2 exI) auto
  qed
next
  case (error e)
  with keepsD [OF prepare_quiet error(1)] show ?thesis by (simp add: nothing_sent_def same_def)
next
  case panic
  with keepsD [OF prepare_quiet panic(1)] show ?thesis by (simp add: nothing_sent_def same_def)
qed

text \<open>\<open>json.Marshal\<close> of the message and of the event does not fail: then an error of \<open>SendMessage\<close> means
  that nothing was sent, and the loop may try again.\<close>

definition marshals :: "env \<Rightarrow> bool" where
  "marshals env = ((\<forall>m. is_ok (envMessageJson env m)) \<and> (\<forall>n. envMarshal env n = None))"

lemma publish_marshals:
  assumes "marshals env" and "publish_sent env cfg i sent isMedia w = (r, w')"
  shows "r = Return ()"
proof -
  obtain m where "envMessageJson env (msMessage sent) = Ok m" "\<forall>n. envMarshal env n = None"
    using assms(1) by (auto simp: marshals_def is_ok_iff)
  with assms(2) show ?thesis
    by (auto simp: publish_sent_def run_basic bindg_def attempt_def run_ask_error run_ask_result
        with_base64_def Let_def split: option.splits if_splits sum.splits)
qed

lemma deliver_raise:
  assumes "marshals env" and "deliver_message env cfg i t data p w = (Raise e, w')"
  shows "nothing_sent w w'"
proof -
  obtain to mid msg isMedia where p: "p = (to, mid, msg, isMedia)" by (cases p)
  from assms(2) have "bindg (client_send env to msg mid) (\<lambda>n. bindg (message_sent env data to msg mid
       (str_contains (sdNumber data) ''@g.us'') t n) (\<lambda>sent. bindg (publish_sent env cfg i sent isMedia)
       (\<lambda>_. ret sent))) w = (Raise e, w')" by (simp add: deliver_message_def p)
  then show ?thesis
  proof (cases rule: bindE)
    case (go_on n w1)
    from go_on(2) show ?thesis
    proof (cases rule: bindE)
      case (go_on sent w2)
      from go_on(2) show ?thesis
        by (cases rule: bindE) (auto simp: run_basic dest: publish_marshals [OF assms(1)])
    next
      case (error e')
      with message_sent_cases [OF error(1)] show ?thesis by auto
    qed auto
  next
    case (error e')
    with client_send_cases [OF error(1)] show ?thesis by (auto simp: nothing_sent_def)
  qed auto
qed

lemma SendMessage_raise:
  assumes "marshals env" and "SendMessage env cfg i msg t data w = (Raise e, w')"
  shows "nothing_sent w w'"
  using assms(2) unfolding SendMessage_def
proof (cases rule: bindE)
  case (go_on prep w1)
  from keepsD [OF prepare_quiet go_on(1)] deliver_raise [OF assms(1) go_on(2)] show ?thesis
    by (simp add: same_def nothing_sent_def)
next
  case (error e')
  with keepsD [OF prepare_quiet error(1)] show ?thesis by (simp add: nothing_sent_def same_def)
qed auto

text \<open>What a whole sending does: nothing has left and it failed, or one message has, with its event
  unless the process panicked in between.\<close>

definition at_most_one ::
  "send_config \<Rightarrow> Instance \<Rightarrow> SendDataStruct \<Rightarrow> MessageSendStruct outcome \<Rightarrow> world \<Rightarrow> world \<Rightarrow> bool" where
  "at_most_one cfg i data r w w' =
     ((nothing_sent w w' \<and> (\<forall>s. r \<noteq> Return s)) \<or>
      (\<exists>m. sent_one cfg i m r w w' \<and> CHR ''+'' \<notin> set (User (smTo m)) \<and> (sdId data \<noteq> [] \<longrightarrow> smID m = sdId data)
         \<and> (\<forall>e. r \<noteq> Raise e)))"

lemma at_most_one_SendMessage:
  assumes "marshals env" and "SendMessage env cfg i msg t data w = (r, w')"
  shows "at_most_one cfg i data r w w'"
proof (cases r)
  case (Raise e)
  with SendMessage_raise assms show ?thesis by (auto simp: at_most_one_def)
qed (use SendMessage_cases [OF assms(2)] in \<open>auto simp: at_most_one_def\<close>)

lemma sent_one_after: "nothing_sent w w1 \<Longrightarrow> sent_one cfg i m r w1 w' = sent_one cfg i m r w w'"
proof -
  assume "nothing_sent w w1"
  then have "wSent w1 = wSent w" "wWebhooks w1 = wWebhooks w" "wGlobals w1 = wGlobals w"
    by (simp_all add: nothing_sent_def outgoing_def)
  then show ?thesis by (simp add: sent_one_def published_def unpublished_def split: outcome.split)
qed

lemma nothing_sent_trans: "nothing_sent w w1 \<Longrightarrow> nothing_sent w1 w2 \<Longrightarrow> nothing_sent w w2"
  by (simp add: nothing_sent_def)

lemma at_most_one_after:
  "nothing_sent w w1 \<Longrightarrow> at_most_one cfg i data r w1 w' \<Longrightarrow> at_most_one cfg i data r w w'"
  unfolding at_most_one_def using nothing_sent_trans [of w w1 w'] by (auto simp: sent_one_after)

lemma at_most_one_failed: "nothing_sent w w' \<Longrightarrow> (\<forall>s. r \<noteq> Return s) \<Longrightarrow> at_most_one cfg i data r w w'"
  by (simp add: at_most_one_def)

lemma quiet_nothing: "keeps (same outgoing) m \<Longrightarrow> m w = (r, w') \<Longrightarrow> nothing_sent w w'"
  by (auto simp: nothing_sent_def same_def dest: keepsD)

lemma send_loop_at_most_one:
  assumes mar: "marshals env" and build: "\<And>c d. keeps (same outgoing) (build c d)"
  shows "send_loop what env cfg i data build m k d w = (r, w') \<Longrightarrow> at_most_one cfg i data r w w'"
proof (induction k arbitrary: d w)
  case 0
  then show ?case by (auto simp: run_basic nothing_sent_def intro!: at_most_one_failed)
next
  case (Suc k)
  have again: "at_most_one cfg i data r w w'"
    if "nothing_sent w w1" "send_loop what env cfg i data build m k d1 w1 = (r, w')" for w1 d1
    using at_most_one_after [OF that(1) Suc.IH [OF that(2)]] .
  from Suc.prems show ?case unfolding send_loop.simps
  proof (cases rule: attemptE)
    case (ok c w1)
    note n1 = quiet_nothing [OF quiet_connection(2) ok(1)]
    from ok(2) have "bindg (build c d) (\<lambda>b. case b of
               GiveUp err \<Rightarrow> raise err
             | SkipAttempt d' err \<Rightarrow>
                 if k = 0 then raise err else send_loop what env cfg i data build m k d'
             | Built d' msg messageType \<Rightarrow>
                 attempt (SendMessage env cfg i msg messageType data) (\<lambda>res.
                   case res of
                     Inr message \<Rightarrow> ret message
                   | Inl err \<Rightarrow>
                       if disconnection err \<and> k > 0 then
                         bindg (sleep ((m - k) * 1000))
                           (\<lambda>_. send_loop what env cfg i data build m k d')
                       else raise err)) w1 = (r, w')" by simp
    then show ?thesis
    proof (cases rule: bindE)
      case (go_on b w2)
      have n2: "nothing_sent w w2" using quiet_nothing [OF build go_on(1)] n1 by (simp add: nothing_sent_def)
      show ?thesis
      proof (cases b)
        case (GiveUp err)
        with go_on(2) n2 show ?thesis by (auto simp: run_basic intro!: at_most_one_failed)
      next
        case (SkipAttempt d' err)
        with go_on(2) n2 show ?thesis
          by (auto simp: run_basic intro: again at_most_one_failed split: if_splits)
      next
        case (Built d' msg t)
        from go_on(2) [unfolded Built built.case] show ?thesis
        proof (cases rule: attemptE)
          case (ok s w3)
          from ok(2) have "r = Return s" "w' = w3" by (simp_all add: run_basic)
          with at_most_one_after [OF n2 at_most_one_SendMessage [OF mar ok(1)]] show ?thesis by simp
        next
          case (failed err w3)
          have n3: "nothing_sent w w3" using SendMessage_raise [OF mar failed(1)] n2 by (simp add: nothing_sent_def)
          show ?thesis
          proof (cases "disconnection err \<and> k > 0")
            case True
            let ?w4 = "w3\<lparr>wSlept := wSlept w3 + (m - k) * 1000\<rparr>"
            have n4: "nothing_sent w ?w4" using n3 by (simp add: nothing_sent_def outgoing_def)
            from failed(2) True have loop: "send_loop what env cfg i data build m k d' ?w4 = (r, w')"
              by (simp add: bindg_def run_sleep)
            show ?thesis by (rule again [OF n4 loop])
          next
            case False
            with failed(2) n3 show ?thesis by (auto simp: run_basic intro!: at_most_one_failed)
          qed
        next
          case panic
          from panic(2) at_most_one_after [OF n2 at_most_one_SendMessage [OF mar panic(1)]] show ?thesis by simp
        qed
      qed
    next
      case (error e)
      with quiet_nothing [OF build error(1)] n1 show ?thesis
        by (simp add: at_most_one_failed nothing_sent_def)
    next
      case panic
      with quiet_nothing [OF build panic(1)] n1 show ?thesis
        by (simp add: at_most_one_failed nothing_sent_def)
    qed
  next
    case (failed e w1)
    note n1 = quiet_nothing [OF quiet_connection(2) failed(1)]
    with failed(2) show ?thesis
      by (auto simp: run_basic intro: again at_most_one_failed split: if_splits)
  next
    case panic
    with quiet_nothing [OF quiet_connection(2) panic(1)] show ?thesis by (simp add: at_most_one_failed)
  qed
qed

lemma build_link_quiet: "keeps (same outgoing) (build_link env data c d)"
  unfolding build_link_def Let_def fetchLinkMetadata_def
  by (intro part.keeps_intros keeps_ask outgoing_clock)

lemma upload_quiet: "keeps (same outgoing) (upload env b t)"
  unfolding upload_def
  by (intro part.keeps_intros part.keeps_modify keeps_ask outgoing_clock) (simp add: same_def outgoing_def)

lemma stage_quiet:
  "clock_only f \<Longrightarrow> keeps (same f) (stage_file env cfg t m b)"
  "clock_only f \<Longrightarrow> keeps (same f) (stage_url env cfg t m b)"
  unfolding stage_file_def stage_url_def stage_audio_def convert_audio_def
  by (intro part.keeps_intros keeps_ask, assumption+)+

lemma build_media_quiet:
  "keeps (same outgoing) (build_file env cfg data c b)" "keeps (same outgoing) (build_url env cfg data c u)"
  unfolding build_file_def build_url_def built_or_give_up_def
  by (intro part.keeps_intros keeps_ask outgoing_clock stage_quiet upload_quiet)+

lemma sends_at_most_one_message:
  assumes "marshals env"
  shows "SendText env cfg td i w = (r, w') \<Longrightarrow> at_most_one cfg i (SendDataStruct.truncate td) r w w'"
    and "SendLink env cfg ld i w = (r, w') \<Longrightarrow> at_most_one cfg i (SendDataStruct.truncate ld) r w w'"
    and "SendPoll env cfg pd i w = (r, w') \<Longrightarrow> at_most_one cfg i (SendDataStruct.truncate pd) r w w'"
    and "SendMediaFile env cfg md fd i w = (r, w') \<Longrightarrow> at_most_one cfg i (SendDataStruct.truncate md) r w w'"
    and "SendMediaUrl env cfg md i w = (r, w') \<Longrightarrow> at_most_one cfg i (SendDataStruct.truncate md) r w w'"
  unfolding SendText_def sendTextWithRetry_def SendLink_def sendLinkWithRetry_def SendPoll_def
    sendPollWithRetry_def SendMediaFile_def sendMediaFileWithRetry_def SendMediaUrl_def sendMediaUrlWithRetry_def
  by (erule send_loop_at_most_one [OF assms, rotated], intro part.keeps_pure build_link_quiet build_media_quiet)+

text \<open>Outcomes of the recipient's validation.\<close>

lemma validate_unchecked:
  "\<not> cfgCheckUserExists cfg \<Longrightarrow>
     validateAndCheckUserExists env cfg phone f m p i = of_result (validateMessageFields phone f m p)"
  by (simp add: validateAndCheckUserExists_def)

lemma final_phone_plain:
  assumes "\<not> str_contains phone ''@s.whatsapp.net''" and "CreateJID phone = Ok n"
  shows "final_phone phone True = Ok n"
  using assms by (simp add: final_phone_def Let_def)

lemma utils_ParseJID_normal: "CreateJID phone = Ok n \<Longrightarrow> utils_ParseJID n = utils_ParseJID phone"
proof -
  assume n: "CreateJID phone = Ok n"
  then have "jid_marker n" by (rule CreateJID_marker)
  then have "CreateJID n = Ok n" "n \<noteq> []" by (auto simp: CreateJID_fixed jid_marker_def)
  moreover have "phone \<noteq> []" using n by (auto simp: CreateJID_def)
  ultimately show ?thesis using n by (simp add: utils_ParseJID_def)
qed

lemma validate_plain:
  assumes "\<not> str_contains phone ''@s.whatsapp.net''"
  shows "validateMessageFields phone None (Some m) (Some p) =
     (case utils_ParseJID phone of
        (j, True) \<Rightarrow> Ok j
      | (j, False) \<Rightarrow> Err (if is_ok (CreateJID phone) then ''could not parse formatted phone''
                            else ''could not parse phone: '' @ phone))"
proof (cases "CreateJID phone")
  case (Inl e)
  then have bad: "\<not> snd (utils_ParseJID phone)" by (simp add: utils_ParseJID_def)
  with Inl assms show ?thesis
    by (cases "utils_ParseJID phone") (auto simp: validateMessageFields_def final_phone_def Let_def)
next
  case (Inr n)
  with assms utils_ParseJID_normal [OF Inr] show ?thesis
    by (simp add: validateMessageFields_def final_phone_plain split: prod.splits bool.splits)
qed

lemma validate_phone:
  assumes "number \<noteq> []" and "\<not> jid_marker number" and "length (clean_number number) < 18"
    and "digit_chars (clean_number number) \<noteq> []"
  shows "validateMessageFields number None (Some m) (Some p) =
     Ok (NewJID (''+'' @ national_format (digit_chars (clean_number number))) DefaultUserServer)"
proof -
  have "\<not> str_contains number ''@s.whatsapp.net''" using assms(2) by (simp add: jid_marker_def)
  then show ?thesis using utils_ParseJID_phone [OF assms] by (simp add: validate_plain)
qed

text \<open>An unregistered number.\<close>

definition never_registered :: "env \<Rightarrow> bool" where
  "never_registered env = (\<forall>n ps. \<exists>r rs. envOnWhatsApp env n ps = Ok (r # rs) \<and> \<not> owIsIn r)"

lemma check_unregistered:
  assumes "never_registered env"
  shows "\<exists>w'. checkSingleUserExists env phone f w = (Return ([], False), w')"
proof -
  obtain r rs where "envOnWhatsApp env (wTick w) (PrepareNumbersForWhatsAppCheck [phone] (Some f)) = Ok (r # rs)"
    "\<not> owIsIn r" using assms unfolding never_registered_def by blast
  then show ?thesis by (simp add: checkSingleUserExists_def Let_def attempt_def run_ask_result run_basic)
qed

lemma validate_unregistered:
  assumes "never_registered env" and "cfgCheckUserExists cfg"
    and "\<not> str_contains phone ''@g.us''" "\<not> str_contains phone ''@broadcast''" "\<not> str_contains phone ''@lid''"
    and "validateAndCheckUserExists env cfg phone f m p i w = (r, w')"
  shows "\<exists>e. r = Raise e"
proof -
  obtain c w1 where ens: "ensureClientConnected env i w = (c, w1)" by fastforce
  obtain w2 where one: "checkSingleUserExists env phone False w1 = (Return ([], False), w2)"
    using check_unregistered [OF assms(1)] by blast
  obtain w3 where two: "checkSingleUserExists env phone True w2 = (Return ([], False), w3)"
    using check_unregistered [OF assms(1)] by blast
  have "c \<noteq> Crash" using ensure_cases [OF ens] by auto
  with assms ens one two show ?thesis
    by (cases c) (auto simp: validateAndCheckUserExists_def attempt_def bindg_def run_basic)
qed

end
