(* ===== verification/SendProperties.thy ===== *)
theory SendProperties
  imports SendService
begin

text \<open>
  The properties of \<open>pkg/sendMessage/service/send_service.go\<close>: connection retries, validation of the
  recipient, what a successful or failed sending has done, the rules for buttons, and the places
  where the code behaves in a way it does not mean to. The witnesses run the operations in the
  sample world defined here.
\<close>

definition sample_client_jid :: jid where
  "sample_client_jid = NewADJID ''5511988887777'' 0 4"

definition sample_upload :: upload_response where
  "sample_upload = \<lparr>upURL = ''https://mmg'', upDirectPath = ''/v/t62'', upMediaKey = ''key'',
     upFileEncSHA256 = ''enc'', upFileSHA256 = ''sha'', upFileLength = 3\<rparr>"

definition sample_env :: env where
  "sample_env = \<lparr>envClient = (\<lambda>n i. Some 1), envConnected = (\<lambda>n c. True), envStart = (\<lambda>n i. None),
     envReconnect = (\<lambda>n i. None), envOnWhatsApp = (\<lambda>n ps. Ok [\<lparr>owJID = EmptyJID, owIsIn = False\<rparr>]),
     envPresence = (\<lambda>n j. None), envGenerateID = (\<lambda>n. ''3EB0''), envParticipants = (\<lambda>n j. Ok []),
     envSend = (\<lambda>n j. Ok 7), envStoreID = (\<lambda>n. Some sample_client_jid),
     envUpload = (\<lambda>n b t. Ok sample_upload), envDownload = (\<lambda>n. Ok ''file''),
     envHttpGet = (\<lambda>n u. Ok (''body'', None)), envHtml = (\<lambda>b. Ok (OtherNode [] [])),
     envMime = (\<lambda>b. ''application/pdf''), envDetect = (\<lambda>b. ''image/webp''),
     envConvertLocal = (\<lambda>n b. Ok (b, 1)), envConvertApi = (\<lambda>n b. Ok (b, 1)),
     envToWebP = (\<lambda>n u. Ok ''webp''), envWebPToPng = (\<lambda>b. None), envPoll = (\<lambda>q os n. emptyMessage),
     envMessageJson = (\<lambda>m. Ok (\<lambda>_. None)), envInfoJson = (\<lambda>i. JNull), envContextJson = (\<lambda>c. JNull),
     envMarshal = (\<lambda>n. None), envBase64 = (\<lambda>b. b), envMillis = (\<lambda>n. 0), envRandom = (\<lambda>n. ''r'')\<rparr>"

definition sample_cfg :: send_config where
  "sample_cfg = \<lparr>cfgCheckUserExists = False, cfgWebhookFiles = False, cfgGlobalQueues = True,
     cfgAudioConverter = []\<rparr>"

definition sample_inst :: Instance where
  "sample_inst = zeroInstance\<lparr>iId := ''i1'', iToken := ''t1''\<rparr>"

definition sample_data :: SendDataStruct where
  "sample_data = \<lparr>sdId = [], sdNumber = ''5511999990000'', sdDelay = 0, sdMentionAll = False,
     sdMentionedJID = [], sdFormatJid = None, sdQuotedMessageID = [], sdQuotedParticipant = []\<rparr>"

definition sample_text :: TextStruct where
  "sample_text = SendDataStruct.extend sample_data \<lparr>tsText = ''hello''\<rparr>"

lemma sample_truncate [simp]: "SendDataStruct.truncate sample_text = sample_data"
  by (simp add: sample_text_def sample_data_def SendDataStruct.defs)

fun returned :: "'a outcome \<Rightarrow> 'a option" where
  "returned (Return x) = Some x"
| "returned _ = None"

lemma sample_run:
  "map_option (\<lambda>s. miID (msInfo s)) (returned (fst (SendText sample_env sample_cfg sample_text sample_inst newWorld)))
     = Some ''3EB0''"
  "map (\<lambda>m. User (smTo m)) (wSent (snd (SendText sample_env sample_cfg sample_text sample_inst newWorld)))
     = [''5511999990000'']"
  by code_simp+

section \<open>Properties\<close>



text \<open>Sending a text, a link, a poll or a media file with the retry loop, whatever the network,
  the sessions and the converters answer in the up to three attempts: success means that exactly
  one message has gone out, the one the result describes, with its event; an error means that none
  has. (\<open>json.Marshal\<close> is taken not to fail; a panic can fall between the message and its event.)\<close>

theorem retries_send_at_most_once:
  assumes "marshals env"
    and "(r, w') \<in> {SendText env cfg td i w, SendLink env cfg ld i w, SendPoll env cfg pd i w,
                     SendMediaFile env cfg md fileData i w, SendMediaUrl env cfg md i w}"
  shows "case r of
      Return s \<Rightarrow> \<exists>m. wSent w' = wSent w @ [m] \<and> msMessage s = smMessage m \<and> published cfg i w w'
    | Raise e \<Rightarrow> wSent w' = wSent w \<and> wWebhooks w' = wWebhooks w
    | Crash \<Rightarrow> length (wSent w') \<le> Suc (length (wSent w)) \<and> wWebhooks w' = wWebhooks w"
proof -
  obtain data where one: "at_most_one cfg i data r w w'"
    using assms(2) sends_at_most_one_message [OF assms(1), where w = w and w' = w' and r = r and i = i and cfg = cfg]
    by (metis (no_types) empty_iff insert_iff)
  then show ?thesis
    by (cases r) (auto simp: at_most_one_def nothing_sent_def outgoing_def sent_one_def unpublished_def)
qed

lemma retries_send_at_most_once_witness:
  "\<exists>m. wSent (snd (SendText sample_env sample_cfg sample_text sample_inst newWorld)) = [m] \<and>
     User (smTo m) = ''5511999990000''"
proof -
  obtain r w' where run: "SendText sample_env sample_cfg sample_text sample_inst newWorld = (r, w')" by fastforce
  have mar: "marshals sample_env" by (simp add: marshals_def sample_env_def)
  obtain s where s: "r = Return s" using sample_run(1) run by (cases r) auto
  have start: "wSent newWorld = []" by (simp add: newWorld_def)
  have "(r, w') \<in> {SendText sample_env sample_cfg sample_text sample_inst newWorld,
      SendLink sample_env sample_cfg ld sample_inst newWorld, SendPoll sample_env sample_cfg pd sample_inst newWorld,
      SendMediaFile sample_env sample_cfg md fd sample_inst newWorld,
      SendMediaUrl sample_env sample_cfg md sample_inst newWorld}" for ld pd md fd
    using run by simp
  from retries_send_at_most_once [OF mar this] s start obtain m where "wSent w' = [m]" by auto
  moreover have "map (\<lambda>m. User (smTo m)) (wSent w') = [''5511999990000'']" using sample_run(2) run by simp
  ultimately show ?thesis using run by simp
qed

text \<open>\<open>ensureClientConnectedWithRetry\<close> with at least one attempt: it returns a client that it has seen
  connected during the call, or one of the two disconnection errors after asking for exactly as
  many reconnections as there were attempts; it sleeps a bounded time and sends nothing.\<close>

theorem connect_with_retry:
  assumes "ensureClientConnectedWithRetry env i m w = (r, w')" and "0 < m"
  shows "outbox w' = outbox w \<and> wSlept w' \<le> wSlept w + 5000 * m + 2000 * m * m \<and>
    (\<exists>j. wReconnected w' = wReconnected w @ replicate j i \<and>
      (case r of
         Return h \<Rightarrow> j < m \<and> seen_connected env h (wTick w) (wTick w')
       | Raise e \<Rightarrow> j = m \<and> retryable e
       | Crash \<Rightarrow> False))"
proof -
  from connect_loop_cases [OF assms(1) [unfolded ensureClientConnectedWithRetry_def] order_refl]
  obtain j where j: "j \<le> m" "wReconnected w' = wReconnected w @ replicate j i"
    "wSlept w' \<le> wSlept w + 2000 * m + 3000 * m + 2000 * m * m"
    "case r of Return h \<Rightarrow> seen_connected env h (wTick w) (wTick w') \<and> j < m
     | Raise e \<Rightarrow> j = m \<and> (0 < m \<longrightarrow> retryable e) | Crash \<Rightarrow> False" by auto
  have "outbox w' = outbox w"
    using keepsD [OF ensure_retry_quiet assms(1)] by (simp add: same_def)
  then show ?thesis using j assms(2) by (auto split: outcome.splits)
qed

lemma connect_with_retry_witness:
  "\<exists>w'. ensureClientConnectedWithRetry (sample_env\<lparr>envConnected := (\<lambda>n c. n \<ge> 3)\<rparr>) ''i1'' 2 newWorld = (Return 1, w')
     \<and> length (wReconnected w') = 1"
proof -
  let ?env = "sample_env\<lparr>envConnected := (\<lambda>n c. n \<ge> 3)\<rparr>"
  obtain r w' where run: "ensureClientConnectedWithRetry ?env ''i1'' 2 newWorld = (r, w')" by fastforce
  have "r = Return 1 \<and> length (wReconnected w') = 1"
    using run by (simp add: ensureClientConnectedWithRetry_def eval_nat_numeral ensureClientConnected_def
      clientPointer_def isConnected_def ReconnectClient_call_def run_ask run_ask_error run_sleep run_basic
      bindg_def attempt_def sample_env_def newWorld_def disconnected_def retryable_def)
      auto
  with connect_with_retry [OF run] run show ?thesis by simp
qed

text \<open>With the check of the recipient switched on, nothing is ever sent to a number, other than a group,
  broadcast or LID, that WhatsApp reports as not registered: \<open>SendMessage\<close> fails whatever the kind of
  message, even though a failing check would let it through.\<close>

theorem unregistered_not_sent:
  assumes "never_registered env" and "cfgCheckUserExists cfg"
    and "\<not> str_contains (sdNumber data) ''@g.us''" and "\<not> str_contains (sdNumber data) ''@broadcast''"
    and "\<not> str_contains (sdNumber data) ''@lid''"
    and "SendMessage env cfg i msg t data w = (r, w')"
  shows "(\<exists>e. r = Raise e) \<and> outbox w' = outbox w"
proof -
  obtain v w1 where v: "validateAndCheckUserExists env cfg (sdNumber data) (sdFormatJid data)
      (Some (sdQuotedMessageID data)) (Some (sdQuotedMessageID data)) (iId i) w = (v, w1)" by fastforce
  obtain e where "v = Raise e" using validate_unregistered [OF assms(1-5) v] ..
  moreover have "outbox w1 = outbox w" using keepsD [OF validate_quiet v] by (simp add: same_def)
  ultimately show ?thesis
    using assms(6) v by (auto simp: SendMessage_def prepare_message_def bindg_def)
qed

lemma unregistered_not_sent_witness:
  "fst (SendMessage sample_env (sample_cfg\<lparr>cfgCheckUserExists := True\<rparr>) sample_inst (text_message ''hello'')
      ''ExtendedTextMessage'' sample_data newWorld) = Raise ''number 5511999990000 is not registered on WhatsApp''
   \<and> wSent (snd (SendMessage sample_env (sample_cfg\<lparr>cfgCheckUserExists := True\<rparr>) sample_inst
       (text_message ''hello'') ''ExtendedTextMessage'' sample_data newWorld)) = []"
proof -
  let ?run = "SendMessage sample_env (sample_cfg\<lparr>cfgCheckUserExists := True\<rparr>) sample_inst (text_message ''hello'')
      ''ExtendedTextMessage'' sample_data newWorld"
  have never: "never_registered sample_env" by (simp add: never_registered_def sample_env_def)
  have on: "cfgCheckUserExists (sample_cfg\<lparr>cfgCheckUserExists := True\<rparr>)" by simp
  have kinds: "\<not> str_contains (sdNumber sample_data) ''@g.us''" "\<not> str_contains (sdNumber sample_data) ''@broadcast''"
    "\<not> str_contains (sdNumber sample_data) ''@lid''" by code_simp+
  have "?run = (fst ?run, snd ?run)" by simp
  from unregistered_not_sent [OF never on kinds this] have "wSent (snd ?run) = []"
    by (simp add: outbox_def newWorld_def)
  moreover have "(case fst ?run of Raise e \<Rightarrow> e | _ \<Rightarrow> []) = ''number 5511999990000 is not registered on WhatsApp''"
    by code_simp
  then have "fst ?run = Raise ''number 5511999990000 is not registered on WhatsApp''"
    by (cases "fst ?run") auto
  ultimately show ?thesis by simp
qed

text \<open>Without formatting options, validation of a number that is not written as a user JID accepts
  exactly what \<open>utils.ParseJID\<close> accepts and returns the same JID, although it formats the number
  before parsing it and parsing formats again.\<close>

theorem validation_is_parsing:
  assumes "\<not> str_contains phone ''@s.whatsapp.net''"
  shows "(case validateMessageFields phone None (Some m) (Some p) of
            Inr j \<Rightarrow> utils_ParseJID phone = (j, True)
          | Inl _ \<Rightarrow> \<not> snd (utils_ParseJID phone))"
  using validate_plain [OF assms, of m p] by (cases "utils_ParseJID phone"; cases "snd (utils_ParseJID phone)") auto

lemma validation_is_parsing_witness:
  "validateMessageFields ''(55) 11 99999-0000'' None (Some []) (Some []) =
     Ok (NewJID ''+5511999990000'' DefaultUserServer)
   \<and> utils_ParseJID ''(55) 11 99999-0000'' = (NewJID ''+5511999990000'' DefaultUserServer, True)"
proof -
  have "\<not> str_contains ''(55) 11 99999-0000'' ''@s.whatsapp.net''"
    and v: "validateMessageFields ''(55) 11 99999-0000'' None (Some []) (Some []) =
     Ok (NewJID ''+5511999990000'' DefaultUserServer)" by code_simp+
  from validation_is_parsing [OF this(1), of "[]" "[]"] v show ?thesis by simp
qed

text \<open>The check of \<open>SendButton\<close> passes exactly the sets of buttons WhatsApp can show: up to three
  replies and nothing else, one PIX button alone, or any number of buttons of the other kinds.\<close>

theorem button_check_exact:
  "check_buttons bs = None \<longleftrightarrow>
     (list_all (\<lambda>v. btType v = ''reply'') bs \<and> length bs \<le> 3) \<or>
     (map btType bs = [''pix'']) \<or>
     list_all (\<lambda>v. btType v \<noteq> ''reply'' \<and> btType v \<noteq> ''pix'') bs"
proof -
  have one: "map btType bs = [''pix''] \<longleftrightarrow> length bs = 1 \<and> list_ex (\<lambda>v. btType v = ''pix'') bs"
    by (cases bs; cases "tl bs") auto
  have none: "list_ex P bs \<longleftrightarrow> \<not> list_all (\<lambda>v. \<not> P v) bs" for P :: "Button \<Rightarrow> bool"
    by (induction bs) auto
  have replies: "length (filter (\<lambda>v. btType v = ''reply'') bs) = length bs" if "list_all (\<lambda>v. btType v = ''reply'') bs"
    using that by (induction bs) auto
  show ?thesis
  proof (cases "list_ex (\<lambda>v. btType v = ''reply'') bs")
    case True
    then have reply: "\<not> list_all (\<lambda>v. btType v \<noteq> ''reply'' \<and> btType v \<noteq> ''pix'') bs"
      by (auto simp: list_ex_iff list_all_iff)
    show ?thesis
    proof (cases "list_all (\<lambda>v. btType v = ''reply'') bs")
      case all: True
      then have "\<not> list_ex (\<lambda>v. btType v \<noteq> ''reply'' \<and> btType v \<noteq> ''pix'') bs"
        "\<not> list_ex (\<lambda>v. btType v = ''pix'') bs" by (auto simp: list_ex_iff list_all_iff)
      with True all reply one replies [OF all] show ?thesis by (simp add: check_buttons_def Let_def)
    next
      case False
      then have mixed: "list_ex (\<lambda>v. btType v \<noteq> ''reply'' \<and> btType v \<noteq> ''pix'') bs
          \<or> list_ex (\<lambda>v. btType v = ''pix'') bs" by (auto simp: list_ex_iff list_all_iff)
      have "length bs \<noteq> 1" using True False by (cases bs; cases "tl bs") auto
      moreover have "length bs \<noteq> 0" using True by auto
      ultimately have "length bs > 1" by linarith
      with True False reply one mixed \<open>length bs \<noteq> 1\<close> show ?thesis by (auto simp: check_buttons_def Let_def)
    qed
  next
    case False
    then have no_reply: "list_all (\<lambda>v. btType v \<noteq> ''reply'') bs" by (simp add: none)
    have empty: "list_all (\<lambda>v. btType v = ''reply'') bs \<longleftrightarrow> bs = []"
      using no_reply by (cases bs) auto
    have others: "list_all (\<lambda>v. btType v \<noteq> ''reply'' \<and> btType v \<noteq> ''pix'') bs
        \<longleftrightarrow> \<not> list_ex (\<lambda>v. btType v = ''pix'') bs"
      using no_reply by (auto simp: list_ex_iff list_all_iff)
    have pos: "list_ex (\<lambda>v. btType v = ''pix'') bs \<Longrightarrow> length bs = 1 \<or> length bs > 1" by (cases bs) auto
    show ?thesis
      using False empty others one pos by (auto simp: check_buttons_def Let_def)
  qed
qed

lemma interactive_recipient:
  assumes "\<not> cfgCheckUserExists cfg"
    and "validateMessageFields (sdNumber data) (sdFormatJid data) (Some (sdQuotedMessageID data))
           (Some (sdQuotedMessageID data)) = Ok j"
    and "send_interactive env cfg i data msg mid t w = (Return s, w')"
  shows "miChat (msInfo s) = j"
  using assms(3) unfolding send_interactive_def
  by (auto elim!: bindE simp: validate_unchecked [OF assms(1)] assms(2) run_basic dest: message_sent_cases)

lemma message_recipient:
  assumes "\<not> cfgCheckUserExists cfg"
    and "validateMessageFields (sdNumber data) (sdFormatJid data) (Some (sdQuotedMessageID data))
           (Some (sdQuotedMessageID data)) = Ok j"
    and "SendMessage env cfg i msg t data w = (Return s, w')"
  shows "miChat (msInfo s) = j\<lparr>User := remove_char CHR ''+'' (User j)\<rparr>"
proof -
  have prep: "fst p = j\<lparr>User := remove_char CHR ''+'' (User j)\<rparr>"
    if "prepare_message env cfg i msg t data w = (Return p, w1)" for p w1
    using that unfolding prepare_message_def
    by (auto elim!: bindE simp: validate_unchecked [OF assms(1)] assms(2) run_basic)
  from assms(3) show ?thesis unfolding SendMessage_def
  proof (cases rule: bindE)
    case (go_on p w1)
    obtain to mid msg' im where p: "p = (to, mid, msg', im)" by (cases p)
    with prep [OF go_on(1)] have to: "to = j\<lparr>User := remove_char CHR ''+'' (User j)\<rparr>" by simp
    from go_on(2) p have "deliver_message env cfg i t data (to, mid, msg', im) w1 = (Return s, w')" by simp
    from deliver_cases [OF this] have "miChat (msInfo s) = to" by (auto simp: sent_one_def)
    with to show ?thesis by simp
  qed auto
qed

lemma list_recipient:
  assumes "\<not> cfgCheckUserExists cfg"
    and "validateMessageFields (sdNumber data) (sdFormatJid data) (Some (sdQuotedMessageID data))
           (Some (sdQuotedMessageID data)) = Ok j"
    and "data = SendDataStruct.truncate ld" and "SendList env cfg ld i w = (Return s, w')"
  shows "miChat (msInfo s) = j"
  using assms(4) unfolding SendList_def
  by (auto elim!: bindE dest!: interactive_recipient [OF assms(1,2), folded assms(3)] simp: assms(3) [symmetric])

text \<open>Lists and buttons go to another recipient than the other messages for the same number: with
  the check of the recipient switched off, a list is sent to the validated JID as it is, plus sign
  included, while \<open>SendMessage\<close> removes the sign; for a phone number written without JID the user
  part of the list's recipient begins with the sign.\<close>

theorem list_recipient_keeps_plus:
  assumes "\<not> cfgCheckUserExists cfg" and "sdFormatJid ld = None"
    and "sdNumber ld \<noteq> []" and "\<not> jid_marker (sdNumber ld)" and "length (clean_number (sdNumber ld)) < 18"
    and "digit_chars (clean_number (sdNumber ld)) \<noteq> []"
    and "SendList env cfg ld i w = (Return s, w1)"
    and "SendMessage env cfg i msg t (SendDataStruct.truncate ld) w = (Return s', w2)"
  shows "hd (User (miChat (msInfo s))) = CHR ''+''
     \<and> User (miChat (msInfo s')) = remove_char CHR ''+'' (User (miChat (msInfo s)))"
proof -
  let ?j = "NewJID (''+'' @ national_format (digit_chars (clean_number (sdNumber ld)))) DefaultUserServer"
  let ?data = "SendDataStruct.truncate ld"
  have trunc: "sdNumber ?data = sdNumber ld" "sdFormatJid ?data = sdFormatJid ld"
    by (simp_all add: SendDataStruct.defs)
  have v: "validateMessageFields (sdNumber ?data) (sdFormatJid ?data) (Some (sdQuotedMessageID ?data))
      (Some (sdQuotedMessageID ?data)) = Ok ?j"
    unfolding trunc assms(2) by (rule validate_phone) (use assms in simp_all)
  from list_recipient [OF assms(1) v refl assms(7)] message_recipient [OF assms(1) v assms(8)]
  show ?thesis by (simp add: NewJID_def)
qed

definition sample_list :: ListStruct where
  "sample_list = SendDataStruct.extend sample_data \<lparr>liTitle = ''menu'', liDescription = [], liButtonText = ''open'',
     liFooterText = [], liSections = []\<rparr>"

lemma list_recipient_keeps_plus_witness:
  "\<exists>s. fst (SendList sample_env sample_cfg sample_list sample_inst newWorld) = Return s
     \<and> hd (User (miChat (msInfo s))) = CHR ''+''"
proof -
  let ?list = "SendList sample_env sample_cfg sample_list sample_inst newWorld"
  let ?msg = "SendMessage sample_env sample_cfg sample_inst (text_message []) ''ExtendedTextMessage''
    (SendDataStruct.truncate sample_list) newWorld"
  have r: "returned (fst ?list) \<noteq> None" "returned (fst ?msg) \<noteq> None" by code_simp+
  obtain s w1 where s: "?list = (Return s, w1)"
    using r(1) by (cases ?list; cases "fst ?list") auto
  obtain s' w2 where s': "?msg = (Return s', w2)"
    using r(2) by (cases ?msg; cases "fst ?msg") auto
  have fields: "sdNumber sample_list = ''5511999990000''" "sdFormatJid sample_list = None"
    by (simp_all add: sample_list_def sample_data_def SendDataStruct.defs)
  have num: "''5511999990000'' \<noteq> ([] :: string)" "\<not> jid_marker ''5511999990000''"
    "length (clean_number ''5511999990000'') < 18" "digit_chars (clean_number ''5511999990000'') \<noteq> []"
    by code_simp+
  have off: "\<not> cfgCheckUserExists sample_cfg" by (simp add: sample_cfg_def)
  from list_recipient_keeps_plus [OF off fields(2) num [folded fields(1)] s s'] s show ?thesis by simp
qed

lemma captioned_mention:
  assumes "DocumentMessage msg = None" and "DocumentWithCaptionMessage msg = Some (c, x)"
    and "str_contains (sdNumber data) ''@g.us''" and "sdMentionedJID data \<noteq> []"
    and "set_context data ''DocumentMessage'' msg w = (Return (msg1, m), w1)"
    and "set_mentions env data to ''DocumentMessage'' msg1 w2 = (r, w3)"
  shows "(\<forall>y. r \<noteq> Return y) \<and> (\<not> sdMentionAll data \<longrightarrow> r = Crash)"
proof -
  have "DocumentMessage msg1 = None"
    using assms(1,2,5) by (auto simp: set_context_def put_context_def store_field_def apply_ctx_def run_basic
        split: if_splits option.splits)
  then show ?thesis
    using assms(3,4,6)
    by (auto simp: set_mentions_def mention_switch_def context_switch_def apply_ctx_def store_field_def run_basic
        bindg_def run_ask_result split: if_splits sum.splits)
qed

lemma captioned_prepare:
  assumes "DocumentMessage msg = None" and "DocumentWithCaptionMessage msg = Some (c, x)"
    and "str_contains (sdNumber data) ''@g.us''" and "sdMentionedJID data \<noteq> []"
  shows "prepare_message env cfg i msg ''DocumentMessage'' data w \<noteq> (Return p, w')"
proof
  assume "prepare_message env cfg i msg ''DocumentMessage'' data w = (Return p, w')"
  then obtain to msg1 m msg2 w1 w2 w3 w4 where
    "set_context data ''DocumentMessage'' msg w1 = (Return (msg1, m), w2)"
    "set_mentions env data to ''DocumentMessage'' msg1 w3 = (Return msg2, w4)"
    unfolding prepare_message_def by (auto elim!: bindE)
  with captioned_mention [OF assms] show False by blast
qed

text \<open>A document with a caption cannot be sent to a group with a mention: its message was moved to
  \<open>DocumentWithCaptionMessage\<close>, and the switch that stores the mention dereferences the nil
  \<open>DocumentMessage\<close>. The operation never succeeds and nothing is sent (the witness shows the panic).\<close>

theorem captioned_document_mention:
  assumes "msType md = ''document''" and "msCaption md \<noteq> []"
    and "media_message fromUrl md st up = Ok (msg, t)"
    and "str_contains (sdNumber data) ''@g.us''" and "sdMentionedJID data \<noteq> []"
    and "SendMessage env cfg i msg t data w = (r, w')"
  shows "returned r = None \<and> wSent w' = wSent w"
proof -
  obtain c where msg: "DocumentMessage msg = None" "DocumentWithCaptionMessage msg = Some (c, None)"
    and t: "t = ''DocumentMessage''"
    using assms(1-3) by (cases st) (auto simp: media_message_def Let_def emptyMessage_def)
  note never = captioned_prepare [OF msg assms(4,5), of env cfg i]
  obtain p w1 where prep: "prepare_message env cfg i msg t data w = (p, w1)" by fastforce
  have "returned p = None" using never [of w] prep t by (cases p) auto
  then have "returned r = None" "w' = w1"
    using assms(6) prep by (cases p; auto simp: SendMessage_def bindg_def)+
  with keepsD [OF prepare_quiet prep] show ?thesis by (simp add: same_def outgoing_def)
qed

definition sample_document :: MediaStruct where
  "sample_document = SendDataStruct.extend
     (sample_data\<lparr>sdNumber := ''123456@g.us'', sdMentionedJID := ''5511988887777@s.whatsapp.net''\<rparr>)
     \<lparr>msUrl = [], msType = ''document'', msCaption = ''read this'', msFilename = ''a.pdf''\<rparr>"

lemma captioned_document_mention_witness:
  "\<exists>w'. SendMessage sample_env sample_cfg sample_inst
       (emptyMessage\<lparr>DocumentWithCaptionMessage := Some ((uploaded_media sample_upload ''application/pdf'' 4)
          \<lparr>mdCaption := Some ''read this'', mdFileName := Some ''a.pdf''\<rparr>, None)\<rparr>) ''DocumentMessage''
       (SendDataStruct.truncate sample_document) newWorld = (Crash, w') \<and> wSent w' = []"
proof -
  let ?msg = "emptyMessage\<lparr>DocumentWithCaptionMessage := Some ((uploaded_media sample_upload ''application/pdf'' 4)
          \<lparr>mdCaption := Some ''read this'', mdFileName := Some ''a.pdf''\<rparr>, None)\<rparr>"
  let ?run = "SendMessage sample_env sample_cfg sample_inst ?msg ''DocumentMessage''
    (SendDataStruct.truncate sample_document) newWorld"
  have doc: "msType sample_document = ''document''" "msCaption sample_document = ''read this''"
    "msFilename sample_document = ''a.pdf''"
    "sdNumber (SendDataStruct.truncate sample_document) = ''123456@g.us''"
    "sdMentionedJID (SendDataStruct.truncate sample_document) = ''5511988887777@s.whatsapp.net''"
    by (simp_all add: sample_document_def sample_data_def SendDataStruct.defs)
  then have msg: "media_message False sample_document (''file'', ''application/pdf'', MediaDocument, 0) sample_upload
      = Ok (?msg, ''DocumentMessage'')"
    by (simp add: media_message_def Let_def eval_nat_numeral)
  have group: "str_contains ''123456@g.us'' ''@g.us''" by code_simp
  have crash: "(case fst ?run of Crash \<Rightarrow> True | _ \<Rightarrow> False)" by code_simp
  obtain r w' where run: "?run = (r, w')" by fastforce
  have "r = Crash" using crash run by (cases r) auto
  moreover have "wSent w' = []"
    using captioned_document_mention [OF doc(1) _ msg _ _ run] doc group by (simp add: newWorld_def)
  ultimately show ?thesis using run by blast
qed

text \<open>The parameters of a button are put together without escaping, so two different buttons can
  give the same text: a display text that ends in a quotation mark and a member of its own is not
  told apart from that member.\<close>

theorem button_params_ambiguous:
  "button_params (b\<lparr>btType := ''reply'', btDisplayText := d @ ''\",\"id\":\"'' @ e, btId := f\<rparr>) r =
   button_params (b\<lparr>btType := ''reply'', btDisplayText := d, btId := e @ ''\",\"id\":\"'' @ f\<rparr>) r'"
  by (simp add: button_params_def member_def qt_def)

end
