(* ===== verification/ProxyJson.thy ===== *)
theory ProxyJson
  imports Prelude
begin

text \<open>
  The proxy settings of an instance and their stored text. \<open>ProxyConfig\<close> is declared in
  \<open>pkg/instance/service/instance_service.go\<close> and again, with the same JSON keys, in
  \<open>pkg/whatsmeow/service/whatsmeow.go\<close>; it is written by \<open>json.Marshal\<close> (or by hand, in
  \<open>StartInstance\<close>) and read by \<open>json.Unmarshal\<close>. Both functions of \<open>encoding/json\<close> are modelled on
  bytes, for texts that are valid UTF-8 without the line separators U+2028 and U+2029; the limit of
  10000 nested levels is left out. The lemmas show that stored settings read back, which hand-made
  texts do, and that the recursion bound of the reader is never reached.
\<close>

section \<open>Strings\<close>

definition quote_char :: char where "quote_char = CHR 0x22"
definition backslash :: char where "backslash = CHR 0x5C"

definition hex_char :: "nat \<Rightarrow> char" where
  "hex_char d = (if d < 10 then digit_char d else char_of (87 + d))"

definition hex_val :: "char \<Rightarrow> nat option" where
  "hex_val c = (let n = of_char c :: nat in
     if 48 \<le> n \<and> n \<le> 57 then Some (n - 48)
     else if 97 \<le> n \<and> n \<le> 102 then Some (n - 87)
     else if 65 \<le> n \<and> n \<le> 70 then Some (n - 55) else None)"

text \<open>What \<open>json.Marshal\<close> writes for a character: HTML characters are escaped, too.\<close>

definition escape_char :: "char \<Rightarrow> string" where
  "escape_char c =
     (let n = of_char c :: nat in
      if c = quote_char \<or> c = backslash then [backslash, c]
      else if n = 8 then [backslash, CHR ''b'']
      else if n = 12 then [backslash, CHR ''f'']
      else if n = 10 then [backslash, CHR ''n'']
      else if n = 13 then [backslash, CHR ''r'']
      else if n = 9 then [backslash, CHR ''t'']
      else if n < 32 \<or> c \<in> {CHR ''<'', CHR ''>'', CHR ''&''} then
        [backslash, CHR ''u'', CHR ''0'', CHR ''0'', hex_char (n div 16), hex_char (n mod 16)]
      else [c])"

definition marshal_string :: "string \<Rightarrow> string" where
  "marshal_string s = quote_char # concat (map escape_char s) @ [quote_char]"

fun hex4 :: "string \<Rightarrow> (nat \<times> string) option" where
  "hex4 (a # b # c # d # rest) =
     (case (hex_val a, hex_val b, hex_val c, hex_val d) of
        (Some w, Some x, Some y, Some z) \<Rightarrow> Some (w * 4096 + x * 256 + y * 16 + z, rest)
      | _ \<Rightarrow> None)"
| "hex4 _ = None"

definition utf8 :: "nat \<Rightarrow> string" where
  "utf8 n =
     (if n < 128 then [char_of n]
      else if n < 2048 then [char_of (192 + n div 64), char_of (128 + n mod 64)]
      else if n < 65536 then
        [char_of (224 + n div 4096), char_of (128 + n div 64 mod 64), char_of (128 + n mod 64)]
      else [char_of (240 + n div 262144), char_of (128 + n div 4096 mod 64),
            char_of (128 + n div 64 mod 64), char_of (128 + n mod 64)])"

text \<open>A surrogate is only meaningful as the first of a pair; otherwise it reads as U+FFFD.\<close>

definition unescape_u :: "string \<Rightarrow> (string \<times> string) option" where
  "unescape_u s =
     (case hex4 s of
        None \<Rightarrow> None
      | Some (n, rest) \<Rightarrow>
          if 55296 \<le> n \<and> n < 57344 then
            (case (if take 2 rest = [backslash, CHR ''u''] then hex4 (drop 2 rest) else None) of
               Some (m, rest2) \<Rightarrow>
                 if n < 56320 \<and> 56320 \<le> m \<and> m < 57344
                 then Some (utf8 (65536 + (n - 55296) * 1024 + (m - 56320)), rest2)
                 else Some (utf8 65533, rest)
             | None \<Rightarrow> Some (utf8 65533, rest))
          else Some (utf8 n, rest))"

definition unescape :: "string \<Rightarrow> (string \<times> string) option" where
  "unescape s =
     (case s of
        [] \<Rightarrow> None
      | c # rest \<Rightarrow>
          if c \<in> {quote_char, backslash, CHR ''/''} then Some ([c], rest)
          else if c = CHR ''b'' then Some ([CHR 0x08], rest)
          else if c = CHR ''f'' then Some ([CHR 0x0C], rest)
          else if c = CHR ''n'' then Some ([CHR 0x0A], rest)
          else if c = CHR ''r'' then Some ([CHR 0x0D], rest)
          else if c = CHR ''t'' then Some ([CHR 0x09], rest)
          else if c = CHR ''u'' then unescape_u rest
          else None)"

lemma hex4_length: "hex4 s = Some (n, rest) \<Longrightarrow> length rest < length s"
  by (cases s rule: hex4.cases) (auto split: option.splits)

lemma unescape_u_length: "unescape_u s = Some (t, rest) \<Longrightarrow> length rest < length s"
  by (auto simp: unescape_u_def dest!: hex4_length split: option.splits if_splits)

lemma unescape_length: "unescape s = Some (t, rest) \<Longrightarrow> length rest < length s"
  by (auto simp: unescape_def dest!: unescape_u_length split: list.splits if_splits)

text \<open>The text after an opening quote: the string, and what follows the closing quote.\<close>

function parse_string :: "string \<Rightarrow> (string \<times> string) option" where
  "parse_string [] = None"
| "parse_string (c # cs) =
     (if c = quote_char then Some ([], cs)
      else if c = backslash then
        (case unescape cs of
           None \<Rightarrow> None
         | Some (t, rest) \<Rightarrow> map_option (\<lambda>(u, r). (t @ u, r)) (parse_string rest))
      else if (of_char c :: nat) < 32 then None
      else map_option (\<lambda>(u, r). (c # u, r)) (parse_string cs))"
  by pat_completeness auto

termination
  by (relation "measure length") (auto dest: unescape_length)

lemma parse_string_length: "parse_string s = Some (t, rest) \<Longrightarrow> length rest < length s"
proof (induction s arbitrary: t rest rule: parse_string.induct)
  case (2 c cs)
  then show ?case by (fastforce dest: unescape_length split: option.splits if_splits)
qed simp

section \<open>Values\<close>

datatype jvalue = JvNull | JvBool bool | JvNumber string | JvString string
  | JvArray "jvalue list" | JvObject "(string \<times> jvalue) list"

definition is_space :: "char \<Rightarrow> bool" where
  "is_space c = (of_char c \<in> {9, 10, 13, 32 :: nat})"

definition skip_ws :: "string \<Rightarrow> string" where
  "skip_ws s = dropWhile is_space s"

text \<open>A number: sign, integer part without leading zeros, fraction, exponent.\<close>

definition digits1 :: "string \<Rightarrow> string option" where
  "digits1 s = (if takeWhile is_digit s = [] then None else Some (dropWhile is_digit s))"

definition parse_number :: "string \<Rightarrow> (jvalue \<times> string) option" where
  "parse_number s =
     (let s1 = (if take 1 s = ''-'' then drop 1 s else s) in
      Option.bind (if take 1 s1 = ''0'' then Some (drop 1 s1) else digits1 s1) (\<lambda>s2.
      Option.bind (if take 1 s2 = ''.'' then digits1 (drop 1 s2) else Some s2) (\<lambda>s3.
      Option.bind (if take 1 s3 = ''e'' \<or> take 1 s3 = ''E'' then
          digits1 (if take 1 (drop 1 s3) = ''+'' \<or> take 1 (drop 1 s3) = ''-'' then drop 2 s3 else drop 1 s3)
        else Some s3) (\<lambda>s4.
      Some (JvNumber (take (length s - length s4) s), s4)))))"

definition parse_atom :: "string \<Rightarrow> (jvalue \<times> string) option" where
  "parse_atom s =
     (if has_prefix s ''null'' then Some (JvNull, drop 4 s)
      else if has_prefix s ''true'' then Some (JvBool True, drop 4 s)
      else if has_prefix s ''false'' then Some (JvBool False, drop 5 s)
      else parse_number s)"

text \<open>The number bounds the depth of the recursion; the length of the text is always enough
  (\<open>parse_enough\<close> below).\<close>

fun parse_value :: "nat \<Rightarrow> string \<Rightarrow> (jvalue \<times> string) option"
  and parse_members :: "nat \<Rightarrow> string \<Rightarrow> ((string \<times> jvalue) list \<times> string) option"
  and parse_elements :: "nat \<Rightarrow> string \<Rightarrow> (jvalue list \<times> string) option" where
  "parse_value 0 s = None"
| "parse_value (Suc n) s =
     (case skip_ws s of
        [] \<Rightarrow> None
      | c # cs \<Rightarrow>
          if c = quote_char then map_option (\<lambda>(t, r). (JvString t, r)) (parse_string cs)
          else if c = CHR ''{'' then
            (if take 1 (skip_ws cs) = ''}'' then Some (JvObject [], drop 1 (skip_ws cs))
             else map_option (\<lambda>(ms, r). (JvObject ms, r)) (parse_members n cs))
          else if c = CHR ''['' then
            (if take 1 (skip_ws cs) = '']'' then Some (JvArray [], drop 1 (skip_ws cs))
             else map_option (\<lambda>(vs, r). (JvArray vs, r)) (parse_elements n cs))
          else parse_atom (c # cs))"
| "parse_members 0 s = None"
| "parse_members (Suc n) s =
     (case skip_ws s of
        [] \<Rightarrow> None
      | c # cs \<Rightarrow>
          if c \<noteq> quote_char then None
          else Option.bind (parse_string cs) (\<lambda>(key, r1).
            case skip_ws r1 of
              [] \<Rightarrow> None
            | d # ds \<Rightarrow>
                if d \<noteq> CHR '':'' then None
                else Option.bind (parse_value n ds) (\<lambda>(v, r2).
                  case skip_ws r2 of
                    [] \<Rightarrow> None
                  | e # es \<Rightarrow>
                      if e = CHR ''}'' then Some ([(key, v)], es)
                      else if e = CHR '','' then
                        map_option (\<lambda>(ms, r). ((key, v) # ms, r)) (parse_members n es)
                      else None)))"
| "parse_elements 0 s = None"
| "parse_elements (Suc n) s =
     Option.bind (parse_value n s) (\<lambda>(v, r).
       case skip_ws r of
         [] \<Rightarrow> None
       | e # es \<Rightarrow>
           if e = CHR '']'' then Some ([v], es)
           else if e = CHR '','' then map_option (\<lambda>(vs, r2). (v # vs, r2)) (parse_elements n es)
           else None)"

text \<open>A whole text is one value; the bound is twice the length, for an element inside an array.\<close>

definition parse_json :: "string \<Rightarrow> jvalue option" where
  "parse_json s =
     (case parse_value (2 * length s + 1) s of
        Some (v, rest) \<Rightarrow> if skip_ws rest = [] then Some v else None
      | None \<Rightarrow> None)"

section \<open>The settings\<close>

record ProxyConfig =
  pPort :: string
  pPassword :: string
  pUsername :: string
  pHost :: string

definition zeroProxy :: ProxyConfig where
  "zeroProxy = \<lparr>pPort = [], pPassword = [], pUsername = [], pHost = []\<rparr>"

definition json_field :: "string \<Rightarrow> string \<Rightarrow> string" where
  "json_field key val = quote_char # key @ [quote_char, CHR '':''] @ marshal_string val"

text \<open>\<open>json.Marshal\<close> of a \<open>*ProxyConfig\<close>; a nil pointer is \<open>null\<close>.\<close>

definition marshalProxy :: "ProxyConfig option \<Rightarrow> string" where
  "marshalProxy q =
     (case q of
        None \<Rightarrow> ''null''
      | Some p \<Rightarrow>
          ''{'' @ json_field ''port'' (pPort p) @ '','' @ json_field ''password'' (pPassword p) @ '','' @
          json_field ''username'' (pUsername p) @ '','' @ json_field ''host'' (pHost p) @ ''}'')"

text \<open>\<open>json.Unmarshal\<close> into a zero \<open>ProxyConfig\<close>: keys match up to letter case, unknown keys are
  skipped, \<open>null\<close> leaves a field (and the whole structure) as it is, another type is an error.\<close>

definition set_proxy_field :: "string \<Rightarrow> string \<Rightarrow> ProxyConfig \<Rightarrow> ProxyConfig" where
  "set_proxy_field key t p =
     (if equal_fold key ''port'' then p\<lparr>pPort := t\<rparr>
      else if equal_fold key ''password'' then p\<lparr>pPassword := t\<rparr>
      else if equal_fold key ''username'' then p\<lparr>pUsername := t\<rparr>
      else if equal_fold key ''host'' then p\<lparr>pHost := t\<rparr> else p)"

definition is_proxy_key :: "string \<Rightarrow> bool" where
  "is_proxy_key key = list_ex (equal_fold key) [''port'', ''password'', ''username'', ''host'']"

fun decode_members :: "(string \<times> jvalue) list \<Rightarrow> ProxyConfig \<Rightarrow> ProxyConfig option" where
  "decode_members [] p = Some p"
| "decode_members ((key, v) # ms) p =
     (case v of
        JvString t \<Rightarrow> decode_members ms (set_proxy_field key t p)
      | JvNull \<Rightarrow> decode_members ms p
      | _ \<Rightarrow> if is_proxy_key key then None else decode_members ms p)"

definition unmarshalProxy :: "string \<Rightarrow> ProxyConfig option" where
  "unmarshalProxy s =
     (case parse_json s of
        Some (JvObject ms) \<Rightarrow> decode_members ms zeroProxy
      | Some JvNull \<Rightarrow> Some zeroProxy
      | _ \<Rightarrow> None)"

text \<open>The text that \<open>StartInstance\<close> puts together from the configuration.\<close>

definition proxyText :: "string \<Rightarrow> string \<Rightarrow> string \<Rightarrow> string \<Rightarrow> string" where
  "proxyText host port username password =
     ''{'' @ [quote_char] @ ''host'' @ [quote_char] @ '': '' @ [quote_char] @ host @ [quote_char] @ '', '' @
     [quote_char] @ ''port'' @ [quote_char] @ '': '' @ [quote_char] @ port @ [quote_char] @ '', '' @
     [quote_char] @ ''username'' @ [quote_char] @ '': '' @ [quote_char] @ username @ [quote_char] @ '', '' @
     [quote_char] @ ''password'' @ [quote_char] @ '': '' @ [quote_char] @ password @ [quote_char] @ ''}''"

section \<open>Reading back what was written\<close>

lemma hex_val_char: "d < 16 \<Longrightarrow> hex_val (hex_char d) = Some d"
  by (auto simp: hex_val_def hex_char_def of_char_digit_char)

lemma hex_zero: "hex_val CHR ''0'' = Some 0"
  by (simp add: hex_val_def)

lemma escape_plain: "(of_char c :: nat) \<ge> 32 \<Longrightarrow> c \<noteq> quote_char \<Longrightarrow> c \<noteq> backslash \<Longrightarrow>
    parse_string (c # s) = map_option (\<lambda>(u, r). (c # u, r)) (parse_string s)"
  by simp

lemma unescape_simple [simp]:
  "unescape (quote_char # s) = Some ([quote_char], s)" "unescape (backslash # s) = Some ([backslash], s)"
  "unescape (CHR ''b'' # s) = Some ([CHR 0x08], s)"
  "unescape (CHR ''f'' # s) = Some ([CHR 0x0C], s)"
  "unescape (CHR ''n'' # s) = Some ([CHR 0x0A], s)"
  "unescape (CHR ''r'' # s) = Some ([CHR 0x0D], s)"
  "unescape (CHR ''t'' # s) = Some ([CHR 0x09], s)"
  "unescape (CHR ''u'' # s) = unescape_u s"
  by (simp_all add: unescape_def quote_char_def backslash_def)

lemma unescape_byte:
  assumes "n < 128"
  shows "unescape_u (CHR ''0'' # CHR ''0'' # hex_char (n div 16) # hex_char (n mod 16) # s) = Some ([char_of n], s)"
proof -
  have "n div 16 < 16" using assms by simp
  then show ?thesis using assms
    by (simp add: unescape_u_def hex_val_char hex_zero utf8_def)
qed

lemma control_chars:
  "char_of (8 :: nat) = CHR 0x08" "char_of (9 :: nat) = CHR 0x09" "char_of (10 :: nat) = CHR 0x0A"
  "char_of (12 :: nat) = CHR 0x0C" "char_of (13 :: nat) = CHR 0x0D"
  by (simp_all add: char_of_def bit_0)

lemma escape_control:
  "escape_char CHR 0x08 @ s = backslash # CHR ''b'' # s" "escape_char CHR 0x0C @ s = backslash # CHR ''f'' # s"
  "escape_char CHR 0x0A @ s = backslash # CHR ''n'' # s" "escape_char CHR 0x0D @ s = backslash # CHR ''r'' # s"
  "escape_char CHR 0x09 @ s = backslash # CHR ''t'' # s"
  by (simp_all add: escape_char_def quote_char_def backslash_def)

lemma parse_escape:
  "parse_string (escape_char c @ s) = map_option (\<lambda>(u, r). (c # u, r)) (parse_string s)"
proof -
  have b: "backslash \<noteq> quote_char" by (simp add: backslash_def quote_char_def)
  have small: "(of_char c :: nat) < 128" if "(of_char c :: nat) < 32 \<or> c \<in> {CHR ''<'', CHR ''>'', CHR ''&''}"
    using that by auto
  consider "c = quote_char \<or> c = backslash" | "(of_char c :: nat) \<in> {8, 9, 10, 12, 13}"
    | "c \<notin> {quote_char, backslash}" "(of_char c :: nat) \<notin> {8, 9, 10, 12, 13}"
      "(of_char c :: nat) < 32 \<or> c \<in> {CHR ''<'', CHR ''>'', CHR ''&''}"
    | "c \<notin> {quote_char, backslash}" "\<not> (of_char c :: nat) < 32" "c \<notin> {CHR ''<'', CHR ''>'', CHR ''&''}"
    by blast
  then show ?thesis
  proof cases
    case 1
    then show ?thesis using b by (auto simp: escape_char_def)
  next
    case 2
    then have "c = char_of (8 :: nat) \<or> c = char_of (9 :: nat) \<or> c = char_of (10 :: nat) \<or>
        c = char_of (12 :: nat) \<or> c = char_of (13 :: nat)"
      by (metis char_of_char insertE singletonD)
    then show ?thesis using b unfolding control_chars
      by (elim disjE) (simp_all add: escape_control)
  next
    case 3
    then show ?thesis using b unescape_byte [OF small [OF 3(3)], of s]
      by (simp add: escape_char_def Let_def)
  next
    case 4
    then show ?thesis by (auto simp: escape_char_def Let_def)
  qed
qed

lemma parse_marshal: "parse_string (concat (map escape_char s) @ quote_char # r) = Some (s, r)"
  by (induction s) (simp_all add: parse_escape)

definition plain_text :: "string \<Rightarrow> bool" where
  "plain_text s = list_all (\<lambda>c. 32 \<le> (of_char c :: nat) \<and> c \<noteq> quote_char \<and> c \<noteq> backslash) s"

lemma parse_plain: "plain_text s \<Longrightarrow> parse_string (s @ quote_char # r) = Some (s, r)"
  by (induction s) (auto simp: plain_text_def)

text \<open>The pieces of an object as the reader sees them.\<close>

lemma skip_simps [simp]:
  "skip_ws (quote_char # s) = quote_char # s" "skip_ws (CHR '':'' # s) = CHR '':'' # s"
  "skip_ws (CHR '','' # s) = CHR '','' # s" "skip_ws (CHR ''}'' # s) = CHR ''}'' # s"
  "skip_ws (CHR ''{'' # s) = CHR ''{'' # s" "skip_ws (CHR '' '' # s) = skip_ws s" "skip_ws [] = []"
  by (simp_all add: skip_ws_def is_space_def quote_char_def)

lemma quote_char_neq [simp]:
  "quote_char \<noteq> CHR '':''" "quote_char \<noteq> CHR '',''" "quote_char \<noteq> CHR ''{''" "quote_char \<noteq> CHR ''}''"
  "CHR '':'' \<noteq> quote_char" "CHR '','' \<noteq> quote_char" "CHR ''{'' \<noteq> quote_char" "CHR ''}'' \<noteq> quote_char"
  by (simp_all add: quote_char_def)

lemma value_string:
  "parse_string s = Some (t, r) \<Longrightarrow> parse_value (Suc n) (quote_char # s) = Some (JvString t, r)"
  "parse_string s = Some (t, r) \<Longrightarrow> parse_value (Suc n) (CHR '' '' # quote_char # s) = Some (JvString t, r)"
  by simp_all

lemma member_more:
  assumes "parse_string s = Some (key, CHR '':'' # v)" and "parse_value n v = Some (val, CHR '','' # r)"
  shows "parse_members (Suc n) (quote_char # s) = map_option (\<lambda>(ms, r). ((key, val) # ms, r)) (parse_members n r)"
    "parse_members (Suc n) (CHR '' '' # quote_char # s) = map_option (\<lambda>(ms, r). ((key, val) # ms, r)) (parse_members n r)"
  using assms by simp_all

lemma member_last:
  assumes "parse_string s = Some (key, CHR '':'' # v)" and "parse_value n v = Some (val, CHR ''}'' # r)"
  shows "parse_members (Suc n) (quote_char # s) = Some ([(key, val)], r)"
    "parse_members (Suc n) (CHR '' '' # quote_char # s) = Some ([(key, val)], r)"
  using assms by simp_all

lemma object_value:
  "parse_value (Suc n) (CHR ''{'' # quote_char # s) =
     map_option (\<lambda>(ms, r). (JvObject ms, r)) (parse_members n (quote_char # s))"
  by simp

lemma plain_keys: "plain_text ''port''" "plain_text ''password''" "plain_text ''username''" "plain_text ''host''"
  by (simp_all add: plain_text_def quote_char_def backslash_def)

text \<open>A member as it is marshalled, and as \<open>StartInstance\<close> writes it.\<close>

lemma members_marshalled:
  assumes "plain_text key"
  shows "parse_members (Suc (Suc n)) (quote_char # key @ quote_char # CHR '':'' # quote_char #
      concat (map escape_char t) @ quote_char # CHR '','' # r) =
      map_option (\<lambda>(ms, r). ((key, JvString t) # ms, r)) (parse_members (Suc n) r)"
    "parse_members (Suc (Suc n)) (quote_char # key @ quote_char # CHR '':'' # quote_char #
      concat (map escape_char t) @ [quote_char, CHR ''}'']) = Some ([(key, JvString t)], [])"
  using assms
  by (simp_all only: member_more(1) [OF parse_plain value_string(1) [OF parse_marshal]]
      member_last(1) [OF parse_plain value_string(1) [OF parse_marshal]])

lemma members_written:
  assumes "plain_text key" and "plain_text t"
  shows "parse_members (Suc (Suc n)) (quote_char # key @ quote_char # CHR '':'' # CHR '' '' # quote_char #
      t @ quote_char # CHR '','' # r) =
      map_option (\<lambda>(ms, r). ((key, JvString t) # ms, r)) (parse_members (Suc n) r)"
    "parse_members (Suc (Suc n)) (CHR '' '' # quote_char # key @ quote_char # CHR '':'' # CHR '' '' # quote_char #
      t @ quote_char # CHR '','' # r) =
      map_option (\<lambda>(ms, r). ((key, JvString t) # ms, r)) (parse_members (Suc n) r)"
    "parse_members (Suc (Suc n)) (CHR '' '' # quote_char # key @ quote_char # CHR '':'' # CHR '' '' # quote_char #
      t @ [quote_char, CHR ''}'']) = Some ([(key, JvString t)], [])"
  using assms
  by (simp_all only: member_more [OF parse_plain value_string(2) [OF parse_plain]]
      member_last [OF parse_plain value_string(2) [OF parse_plain]])

lemmas marshalled_keys = plain_keys [THEN members_marshalled(1), unfolded append.simps]
  plain_keys(4) [THEN members_marshalled(2), unfolded append.simps]

lemma decode_all:
  "decode_members [(''port'', JvString a), (''password'', JvString b), (''username'', JvString c), (''host'', JvString d)] zeroProxy =
     Some \<lparr>pPort = a, pPassword = b, pUsername = c, pHost = d\<rparr>"
  "decode_members [(''host'', JvString d), (''port'', JvString a), (''username'', JvString c), (''password'', JvString b)] zeroProxy =
     Some \<lparr>pPort = a, pPassword = b, pUsername = c, pHost = d\<rparr>"
  by (simp_all add: set_proxy_field_def equal_fold_def to_lower_def zeroProxy_def)

lemma unmarshal_object:
  assumes "\<And>n. parse_value (n + 6) s = Some (JvObject ms, [])" and "3 \<le> length s"
  shows "unmarshalProxy s = decode_members ms zeroProxy"
proof -
  have "2 * length s + 1 = (2 * length s - 5) + 6" using assms(2) by simp
  then show ?thesis using assms(1) [of "2 * length s - 5"] by (simp add: unmarshalProxy_def parse_json_def del: parse_value.simps)
qed

lemma unmarshal_marshal: "unmarshalProxy (marshalProxy (Some p)) = Some p"
proof -
  have "unmarshalProxy (marshalProxy (Some p)) =
      decode_members [(''port'', JvString (pPort p)), (''password'', JvString (pPassword p)),
        (''username'', JvString (pUsername p)), (''host'', JvString (pHost p))] zeroProxy"
    by (rule unmarshal_object)
      (simp_all add: marshalProxy_def json_field_def marshal_string_def numeral_eq_Suc object_value
        marshalled_keys del: parse_value.simps parse_members.simps parse_string.simps)
  then show ?thesis unfolding decode_all by simp
qed

lemma unmarshal_proxyText:
  assumes "plain_text host" "plain_text port" "plain_text username" "plain_text password"
  shows "unmarshalProxy (proxyText host port username password) =
    Some \<lparr>pPort = port, pPassword = password, pUsername = username, pHost = host\<rparr>"
proof -
  have "unmarshalProxy (proxyText host port username password) =
      decode_members [(''host'', JvString host), (''port'', JvString port),
        (''username'', JvString username), (''password'', JvString password)] zeroProxy"
    by (rule unmarshal_object)
      (simp_all add: proxyText_def numeral_eq_Suc object_value
        members_written(1) [OF plain_keys(4), unfolded append.simps]
        plain_keys [THEN members_written(2), unfolded append.simps]
        members_written(3) [OF plain_keys(2), unfolded append.simps] assms
        del: parse_value.simps parse_members.simps parse_string.simps)
  then show ?thesis unfolding decode_all by simp
qed

text \<open>The two texts that mean no settings of one's own: nothing stored, and a nil pointer stored.\<close>

lemma unmarshal_none: "unmarshalProxy (marshalProxy None) = Some zeroProxy"
  by (simp add: marshalProxy_def unmarshalProxy_def parse_json_def skip_ws_def is_space_def
      parse_atom_def has_prefix_def quote_char_def numeral_eq_Suc)

lemma unmarshal_empty: "unmarshalProxy [] = None"
  by (simp add: unmarshalProxy_def parse_json_def skip_ws_def)

lemma marshal_nonempty [simp]: "marshalProxy q \<noteq> []" "proxyText h p u w \<noteq> []"
  by (simp_all add: marshalProxy_def proxyText_def split: option.splits)

section \<open>The bound of the reader is never reached\<close>

lemma skip_ws_length: "skip_ws s = c # cs \<Longrightarrow> length cs < length s"
  by (metis length_Cons length_dropWhile_le less_eq_Suc_le skip_ws_def)

lemma digits1_length: "digits1 s = Some r \<Longrightarrow> length r < length s"
  unfolding digits1_def
  by (metis length_append length_greater_0_conv less_add_same_cancel2 option.distinct(1) option.inject takeWhile_dropWhile_id)

lemma digits1_le: "digits1 (drop n s) = Some r \<Longrightarrow> length r \<le> length s"
  by (drule digits1_length) simp

lemma parse_number_length: "parse_number s = Some (v, r) \<Longrightarrow> length r < length s"
proof -
  assume num: "parse_number s = Some (v, r)"
  define s1 where "s1 = (if take 1 s = ''-'' then drop 1 s else s)"
  from num obtain s2 s3 where
    s2: "(if take 1 s1 = ''0'' then Some (drop 1 s1) else digits1 s1) = Some s2" and
    s3: "(if take 1 s2 = ''.'' then digits1 (drop 1 s2) else Some s2) = Some s3" and
    r: "(if take 1 s3 = ''e'' \<or> take 1 s3 = ''E'' then
          digits1 (if take 1 (drop 1 s3) = ''+'' \<or> take 1 (drop 1 s3) = ''-'' then drop 2 s3 else drop 1 s3)
        else Some s3) = Some r"
    unfolding parse_number_def Let_def bind_eq_Some_conv s1_def by (auto split del: if_split)
  have "length s2 < length s1"
  proof (cases "take 1 s1 = ''0''")
    case True
    with s2 show ?thesis by (cases s1) auto
  qed (use s2 digits1_length in simp)
  moreover have "length s3 \<le> length s2"
    using s3 digits1_le [of 1 s2] by (cases "take 1 s2 = ''.''") simp_all
  moreover have "length r \<le> length s3"
    using r digits1_le [of 1 s3 r] digits1_le [of 2 s3 r]
    by (cases "take 1 s3 = ''e'' \<or> take 1 s3 = ''E''";
        cases "take 1 (drop 1 s3) = ''+'' \<or> take 1 (drop 1 s3) = ''-''") simp_all
  ultimately show ?thesis by (simp add: s1_def split: if_splits)
qed

lemma parse_atom_length: "parse_atom s = Some (v, r) \<Longrightarrow> length r < length s"
proof -
  have "has_prefix s (c # p) \<Longrightarrow> 0 < length s" for c p by (cases s) (simp_all add: has_prefix_def)
  then show "parse_atom s = Some (v, r) \<Longrightarrow> length r < length s"
    unfolding parse_atom_def by (auto dest: parse_number_length split: if_splits)
qed

lemma skip_ws_le: "length (skip_ws s) \<le> length s"
  by (simp add: skip_ws_def length_dropWhile_le)

lemma members_cases:
  assumes "parse_members (Suc n) s = Some (ms, r)"
  obtains cs key r1 ds v r2 e es where "skip_ws s = quote_char # cs" "parse_string cs = Some (key, r1)"
    "skip_ws r1 = CHR '':'' # ds" "parse_value n ds = Some (v, r2)" "skip_ws r2 = e # es"
    "r = es \<or> (\<exists>ms'. parse_members n es = Some (ms', r))"
proof -
  obtain c cs where s: "skip_ws s = c # cs" using assms by (cases "skip_ws s") simp_all
  with assms have c: "c = quote_char" by (simp split: if_splits)
  with s assms obtain key r1 where str: "parse_string cs = Some (key, r1)"
    by (cases "parse_string cs") auto
  with s c assms obtain d ds where r1: "skip_ws r1 = d # ds" by (cases "skip_ws r1") simp_all
  with s c str assms have d: "d = CHR '':''" by (simp split: if_splits)
  with s c str r1 assms obtain v r2 where v: "parse_value n ds = Some (v, r2)"
    by (cases "parse_value n ds") auto
  with s c str r1 d assms obtain e es where r2: "skip_ws r2 = e # es" by (cases "skip_ws r2") simp_all
  have "r = es \<or> (\<exists>ms'. parse_members n es = Some (ms', r))"
    using s c str r1 d v r2 assms by (auto split: if_splits)
  with s c str r1 d v r2 show thesis by (intro that) simp_all
qed

lemma elements_cases:
  assumes "parse_elements (Suc n) s = Some (vs, r)"
  obtains v r2 e es where "parse_value n s = Some (v, r2)" "skip_ws r2 = e # es"
    "r = es \<or> (\<exists>vs'. parse_elements n es = Some (vs', r))"
proof -
  obtain v r2 where v: "parse_value n s = Some (v, r2)" using assms by (cases "parse_value n s") auto
  with assms obtain e es where r2: "skip_ws r2 = e # es" by (cases "skip_ws r2") simp_all
  have "r = es \<or> (\<exists>vs'. parse_elements n es = Some (vs', r))"
    using v r2 assms by (auto split: if_splits)
  with v r2 show thesis by (intro that) simp_all
qed

lemma parse_lengths:
  "parse_value n s = Some (v, r) \<Longrightarrow> length r < length s"
  "parse_members n s = Some (ms, r) \<Longrightarrow> length r < length s"
  "parse_elements n s = Some (vs, r) \<Longrightarrow> length r < length s"
proof (induction n arbitrary: s v ms vs r)
  case (Suc n)
  {
    case 1
    then obtain c cs where "skip_ws s = c # cs" by (auto split: list.splits)
    with 1 Suc.IH(2)[of cs] Suc.IH(3)[of cs] skip_ws_length [of s c cs] skip_ws_le [of cs]
    show ?case
      by (auto dest!: parse_string_length parse_atom_length split: if_splits)
  next
    case 2
    then show ?case
    proof (cases rule: members_cases)
      case (1 cs key r1 ds v r2 e es)
      have "length es < length s"
        using skip_ws_length [OF 1(1)] parse_string_length [OF 1(2)] skip_ws_length [OF 1(3)]
          Suc.IH(1) [OF 1(4)] skip_ws_length [OF 1(5)] by linarith
      with 1(6) show ?thesis using Suc.IH(2) [of es] by fastforce
    qed
  next
    case 3
    then show ?case
    proof (cases rule: elements_cases)
      case (1 v r2 e es)
      have "length es < length s" using Suc.IH(1) [OF 1(1)] skip_ws_length [OF 1(2)] by linarith
      with 1(3) show ?thesis using Suc.IH(3) [of es] by fastforce
    qed
  }
qed simp_all

lemma parse_enough:
  "2 * length s < n \<Longrightarrow> 2 * length s < m \<Longrightarrow> parse_value n s = parse_value m s"
  "2 * length s < n \<Longrightarrow> 2 * length s < m \<Longrightarrow> parse_members n s = parse_members m s"
  "2 * length s + 1 < n \<Longrightarrow> 2 * length s + 1 < m \<Longrightarrow> parse_elements n s = parse_elements m s"
proof (induction n arbitrary: s m)
  case (Suc n)
  {
    case 1
    then obtain m' where m: "m = Suc m'" by (cases m) auto
    show ?case
    proof (cases "skip_ws s")
      case (Cons c cs)
      with skip_ws_length [OF Cons] 1 m have "parse_members n cs = parse_members m' cs"
        "parse_elements n cs = parse_elements m' cs"
        by (intro Suc.IH; simp)+
      with Cons m show ?thesis by simp
    qed (simp add: m)
  next
    case 2
    then obtain m' where m: "m = Suc m'" by (cases m) auto
    have val: "parse_value n t = parse_value m' t" and mem: "parse_members n t = parse_members m' t"
      if "length t < length s" for t
      using that 2 m by (intro Suc.IH; simp)+
    show ?case
    proof (cases "skip_ws s")
      case s: (Cons c cs)
      show ?thesis
      proof (cases "parse_string cs")
        case string: (Some q)
        show ?thesis
        proof (cases "skip_ws (snd q)")
          case r1: (Cons d ds)
          have short: "length ds < length s"
            using skip_ws_length [OF s] parse_string_length [of cs "fst q" "snd q"] skip_ws_length [OF r1] string by simp
          show ?thesis
          proof (cases "parse_value m' ds")
            case val': (Some w)
            then have "length (snd w) < length ds" using parse_lengths(1) [of m' ds "fst w" "snd w"] by simp
            then have "parse_members n es = parse_members m' es" if "skip_ws (snd w) = e # es" for e es
              using mem [of es] skip_ws_length [OF that] short by simp
            then show ?thesis using s string r1 val' val [OF short] m
              by (simp add: split_beta split: list.split)
          qed (use s string r1 val [OF short] m in \<open>simp add: split_beta\<close>)
        qed (use s string m in \<open>simp add: split_beta\<close>)
      qed (simp add: s m)
    qed (simp add: m)
  next
    case 3
    then obtain m' where m: "m = Suc m'" by (cases m) auto
    have "parse_value n s = parse_value m' s" using 3 m by (intro Suc.IH; simp)
    moreover have "parse_elements n t = parse_elements m' t" if "length t < length s" for t
      using that 3 m by (intro Suc.IH; simp)
    ultimately show ?case using m
      by (cases "parse_value m' s")
        (auto simp: dest!: parse_lengths(1) skip_ws_length split: list.split)
  }
qed simp_all

end
