(* ===== verification/Storage.thy ===== *)
theory Storage
  imports InstanceModel GoMonad "HOL-Library.List_Lexorder" "HOL-Library.Char_ord"
begin

text \<open>
  The database: the tables of \<open>pkg/instance/model\<close>, \<open>pkg/label/model\<close> and \<open>pkg/message/model\<close> and
  the three repositories over them (\<open>pkg/instance/repository\<close>, \<open>pkg/label/repository\<close>,
  \<open>pkg/message/repository\<close>). A table is the list of its rows in the order of their insertion. The
  queries are those that gorm makes of the calls; they are run by PostgreSQL, whose answers beyond
  the documented behaviour of the queries are parameters (\<open>db_env\<close>): the n-th statement may fail,
  and texts are read as UUIDs by functions of their own. \<open>First\<close> orders by primary key. The state is
  extensible, so that the services add the shared maps of the program to it.
\<close>

section \<open>Rows and tables\<close>

record Label =
  lbId :: string
  lbInstanceID :: string
  lbLabelID :: string
  lbLabelName :: string
  lbLabelColor :: string
  lbPredefinedId :: string

record Message =
  msgId :: string
  msgMessageID :: string
  msgTimestamp :: string
  msgStatus :: string
  msgSource :: string

record store =
  dbInstances :: "Instance list"
  dbLabels :: "Label list"
  dbMessages :: "Message list"
  stTick :: nat

text \<open>\<open>dbUuidParse\<close> is the verdict of \<open>uuid.Parse\<close>, \<open>dbUuid\<close> the value PostgreSQL reads a text as,
  printed; \<open>dbBefore\<close> is the order of texts that it sorts by.\<close>

record db_env =
  dbFault :: "nat \<Rightarrow> go_error"
  dbUuidParse :: "string \<Rightarrow> go_error"
  dbUuid :: "string \<Rightarrow> string option"
  dbBadUuid :: "string \<Rightarrow> string"
  dbDuplicate :: string
  dbNewUUID :: "nat \<Rightarrow> string"
  dbNow :: "nat \<Rightarrow> int"
  dbBefore :: "string \<Rightarrow> string \<Rightarrow> bool"

definition not_found :: string where "not_found = ''record not found''"

text \<open>The row with the least primary key, as \<open>First\<close> returns it.\<close>

fun least_row :: "('r \<Rightarrow> string) \<Rightarrow> 'r list \<Rightarrow> 'r option" where
  "least_row key [] = None"
| "least_row key (r # rs) =
     (case least_row key rs of None \<Rightarrow> Some r | Some q \<Rightarrow> if key q < key r then Some q else Some r)"

definition first_row :: "('r \<Rightarrow> string) \<Rightarrow> ('r \<Rightarrow> bool) \<Rightarrow> 'r list \<Rightarrow> 'r option" where
  "first_row key P rows = least_row key (filter P rows)"

definition update_rows :: "('r \<Rightarrow> bool) \<Rightarrow> ('r \<Rightarrow> 'r) \<Rightarrow> 'r list \<Rightarrow> 'r list" where
  "update_rows P f rows = map (\<lambda>r. if P r then f r else r) rows"

section \<open>Statements\<close>

definition clock :: "('a store_scheme, nat) go" where
  "clock s = (Return (stTick s), s\<lparr>stTick := Suc (stTick s)\<rparr>)"

definition statement :: "db_env \<Rightarrow> ('a store_scheme, unit) go" where
  "statement env = bindg clock (\<lambda>n. of_error (dbFault env n))"

definition read_uuid :: "db_env \<Rightarrow> string \<Rightarrow> ('a store_scheme, string) go" where
  "read_uuid env t = (case dbUuid env t of None \<Rightarrow> raise (dbBadUuid env t) | Some u \<Rightarrow> ret u)"

definition check_uuid :: "db_env \<Rightarrow> string \<Rightarrow> ('a store_scheme, unit) go" where
  "check_uuid env t =
     (case dbUuidParse env t of None \<Rightarrow> ret () | Some e \<Rightarrow> raise (''invalid UUID format: '' @ e))"

text \<open>\<open>SELECT ... ORDER BY id LIMIT 1\<close> and \<open>SELECT\<close> on the instances.\<close>

definition first_instance :: "db_env \<Rightarrow> (Instance \<Rightarrow> bool) \<Rightarrow> ('a store_scheme, Instance) go" where
  "first_instance env P =
     bindg (statement env) (\<lambda>_.
     bindg (gets dbInstances) (\<lambda>rows.
       case first_row iId P rows of None \<Rightarrow> raise not_found | Some r \<Rightarrow> ret r))"

definition find_instances :: "db_env \<Rightarrow> (Instance \<Rightarrow> bool) \<Rightarrow> ('a store_scheme, Instance list) go" where
  "find_instances env P =
     bindg (statement env) (\<lambda>_. gets (\<lambda>s. filter P (dbInstances s)))"

text \<open>\<open>UPDATE instances SET ... WHERE id = ?\<close>; no row is not an error.\<close>

definition update_instances :: "db_env \<Rightarrow> string \<Rightarrow> (Instance \<Rightarrow> Instance) \<Rightarrow> ('a store_scheme, unit) go" where
  "update_instances env key f =
     bindg (read_uuid env key) (\<lambda>u.
     bindg (statement env) (\<lambda>_.
       modify (\<lambda>s. s\<lparr>dbInstances := update_rows (\<lambda>r. iId r = u) f (dbInstances s)\<rparr>)))"

text \<open>\<open>INSERT\<close>, with the unique primary key and token.\<close>

definition insert_instance :: "db_env \<Rightarrow> Instance \<Rightarrow> ('a store_scheme, unit) go" where
  "insert_instance env i =
     bindg (read_uuid env (iId i)) (\<lambda>u.
     bindg (statement env) (\<lambda>_.
     bindg (gets dbInstances) (\<lambda>rows.
       if \<exists>r \<in> set rows. iId r = u \<or> iToken r = iToken i then raise (dbDuplicate env)
       else modify (\<lambda>s. s\<lparr>dbInstances := rows @ [i\<lparr>iId := u\<rparr>]\<rparr>))))"

text \<open>\<open>autoCreateTime\<close> fills a zero creation time.\<close>

definition created_now :: "db_env \<Rightarrow> Instance \<Rightarrow> ('a store_scheme, Instance) go" where
  "created_now env i =
     (if iCreatedAt i = 0 then bindg clock (\<lambda>n. ret (i\<lparr>iCreatedAt := dbNow env n\<rparr>)) else ret i)"

definition gorm_create :: "db_env \<Rightarrow> Instance \<Rightarrow> ('a store_scheme, Instance) go" where
  "gorm_create env i =
     bindg clock (\<lambda>n.
     bindg (created_now env (BeforeCreate (dbNewUUID env n) i)) (\<lambda>i2.
     bindg (insert_instance env i2) (\<lambda>_. ret i2)))"

text \<open>\<open>Save\<close>: an \<open>UPDATE\<close> of all columns; when it meets no row, the row is inserted (without hooks).
  A zero primary key means \<open>Create\<close>.\<close>

definition gorm_save :: "db_env \<Rightarrow> Instance \<Rightarrow> ('a store_scheme, unit) go" where
  "gorm_save env i =
     (if iId i = [] then bindg (gorm_create env i) (\<lambda>_. ret ())
      else
        bindg (read_uuid env (iId i)) (\<lambda>u.
        bindg (statement env) (\<lambda>_.
        bindg (gets dbInstances) (\<lambda>rows.
          if \<exists>r \<in> set rows. iId r = u then
            if \<exists>r \<in> set rows. iId r \<noteq> u \<and> iToken r = iToken i then raise (dbDuplicate env)
            else modify (\<lambda>s. s\<lparr>dbInstances := update_rows (\<lambda>r. iId r = u) (\<lambda>_. i\<lparr>iId := u\<rparr>) rows\<rparr>)
          else bindg (created_now env i) (insert_instance env)))))"

section \<open>The instance repository\<close>

definition repo_Create :: "db_env \<Rightarrow> Instance \<Rightarrow> ('a store_scheme, Instance) go" where
  "repo_Create env i = gorm_create env i"

definition repo_GetInstanceByToken :: "db_env \<Rightarrow> string \<Rightarrow> ('a store_scheme, Instance) go" where
  "repo_GetInstanceByToken env token = first_instance env (\<lambda>r. iToken r = token)"

definition repo_GetInstanceByName :: "db_env \<Rightarrow> string \<Rightarrow> ('a store_scheme, Instance) go" where
  "repo_GetInstanceByName env name = first_instance env (\<lambda>r. iName r = name)"

definition repo_GetInstanceByID :: "db_env \<Rightarrow> string \<Rightarrow> ('a store_scheme, Instance) go" where
  "repo_GetInstanceByID env instanceId =
     bindg (check_uuid env instanceId) (\<lambda>_.
     bindg (read_uuid env instanceId) (\<lambda>u. first_instance env (\<lambda>r. iId r = u)))"

definition repo_GetConnectedInstanceByID :: "db_env \<Rightarrow> string \<Rightarrow> ('a store_scheme, Instance) go" where
  "repo_GetConnectedInstanceByID env instanceId =
     bindg (read_uuid env instanceId) (\<lambda>u. first_instance env (\<lambda>r. iId r = u \<and> iConnected r = True))"

definition repo_Update :: "db_env \<Rightarrow> Instance \<Rightarrow> ('a store_scheme, unit) go" where
  "repo_Update env i = gorm_save env i"

text \<open>Two statements: the reason is written only when the status was.\<close>

definition repo_UpdateConnected :: "db_env \<Rightarrow> string \<Rightarrow> bool \<Rightarrow> string \<Rightarrow> ('a store_scheme, unit) go" where
  "repo_UpdateConnected env userId status disconnectReason =
     bindg (update_instances env userId (\<lambda>r. r\<lparr>iConnected := status\<rparr>)) (\<lambda>_.
       update_instances env userId (\<lambda>r. r\<lparr>iDisconnectReason := disconnectReason\<rparr>))"

definition repo_UpdateQrcode :: "db_env \<Rightarrow> string \<Rightarrow> string \<Rightarrow> ('a store_scheme, unit) go" where
  "repo_UpdateQrcode env userId qr = update_instances env userId (\<lambda>r. r\<lparr>iQrcode := qr\<rparr>)"

definition repo_UpdateProxy :: "db_env \<Rightarrow> string \<Rightarrow> string \<Rightarrow> ('a store_scheme, unit) go" where
  "repo_UpdateProxy env userId proxy = update_instances env userId (\<lambda>r. r\<lparr>iProxy := proxy\<rparr>)"

definition repo_UpdateJid :: "db_env \<Rightarrow> string \<Rightarrow> string \<Rightarrow> ('a store_scheme, unit) go" where
  "repo_UpdateJid env userId jid = update_instances env userId (\<lambda>r. r\<lparr>iJid := jid\<rparr>)"

definition repo_GetAllConnectedInstances :: "db_env \<Rightarrow> ('a store_scheme, Instance list) go" where
  "repo_GetAllConnectedInstances env = find_instances env (\<lambda>r. iConnected r = True)"

definition repo_GetAllConnectedInstancesByClientName :: "db_env \<Rightarrow> string \<Rightarrow> ('a store_scheme, Instance list) go" where
  "repo_GetAllConnectedInstancesByClientName env clientName =
     find_instances env (\<lambda>r. iConnected r = True \<and> iClientName r = clientName)"

definition repo_GetAll :: "db_env \<Rightarrow> string \<Rightarrow> ('a store_scheme, Instance list) go" where
  "repo_GetAll env clientName = find_instances env (\<lambda>r. iClientName r = clientName)"

text \<open>A transaction: what it changed is undone when it fails; beginning and committing may fail, too.\<close>

definition rolled_back :: "'a store_scheme \<Rightarrow> 'a store_scheme \<Rightarrow> 'a store_scheme" where
  "rolled_back s s' = s\<lparr>stTick := stTick s'\<rparr>"

definition transaction :: "db_env \<Rightarrow> ('a store_scheme, unit) go \<Rightarrow> ('a store_scheme, unit) go" where
  "transaction env m s =
     (case bindg (statement env) (\<lambda>_. bindg m (\<lambda>_. statement env)) s of
        (Return x, s') \<Rightarrow> (Return x, s')
      | (Raise e, s') \<Rightarrow> (Raise e, rolled_back s s')
      | (Crash, s') \<Rightarrow> (Crash, rolled_back s s'))"

definition with_prefix :: "string \<Rightarrow> ('s, unit) go \<Rightarrow> ('s, unit) go" where
  "with_prefix p m = attempt m (\<lambda>r. case r of Inl e \<Rightarrow> raise (p @ e) | Inr _ \<Rightarrow> ret ())"

definition repo_Delete :: "db_env \<Rightarrow> string \<Rightarrow> ('a store_scheme, unit) go" where
  "repo_Delete env instanceId =
     transaction env
       (bindg (with_prefix ''erro ao deletar labels: ''
          (bindg (read_uuid env instanceId) (\<lambda>u. bindg (statement env) (\<lambda>_.
             modify (\<lambda>s. s\<lparr>dbLabels := filter (\<lambda>r. lbInstanceID r \<noteq> u) (dbLabels s)\<rparr>))))) (\<lambda>_.
        bindg (with_prefix ''erro ao deletar mensagens: ''
          (bindg (statement env) (\<lambda>_.
             modify (\<lambda>s. s\<lparr>dbMessages := filter (\<lambda>r. msgSource r \<noteq> instanceId) (dbMessages s)\<rparr>)))) (\<lambda>_.
        with_prefix (''erro ao deletar inst'' @ [CHR 0xC3, CHR 0xA2] @ ''ncia: '')
          (bindg (read_uuid env instanceId) (\<lambda>u. bindg (statement env) (\<lambda>_.
             modify (\<lambda>s. s\<lparr>dbInstances := filter (\<lambda>r. iId r \<noteq> u) (dbInstances s)\<rparr>)))))))"

definition repo_GetAdvancedSettings :: "db_env \<Rightarrow> string \<Rightarrow> ('a store_scheme, AdvancedSettings) go" where
  "repo_GetAdvancedSettings env instanceId =
     bindg (check_uuid env instanceId) (\<lambda>_.
     bindg (read_uuid env instanceId) (\<lambda>u.
     bindg (first_instance env (\<lambda>r. iId r = u)) (\<lambda>i. ret (iSettings i))))"

definition repo_UpdateAdvancedSettings :: "db_env \<Rightarrow> string \<Rightarrow> AdvancedSettings \<Rightarrow> ('a store_scheme, unit) go" where
  "repo_UpdateAdvancedSettings env instanceId settings =
     bindg (check_uuid env instanceId) (\<lambda>_.
       update_instances env instanceId (\<lambda>r. r\<lparr>iSettings := settings\<rparr>))"

section \<open>The label repository\<close>

text \<open>\<open>BeforeCreate\<close> of a label replaces whatever id it has.\<close>

definition insert_label :: "db_env \<Rightarrow> Label \<Rightarrow> ('a store_scheme, unit) go" where
  "insert_label env l =
     bindg clock (\<lambda>n.
     bindg (read_uuid env (lbInstanceID l)) (\<lambda>u.
     bindg (statement env) (\<lambda>_.
     bindg (gets dbLabels) (\<lambda>rows.
       if \<exists>r \<in> set rows. lbId r = dbNewUUID env n then raise (dbDuplicate env)
       else modify (\<lambda>s. s\<lparr>dbLabels := rows @ [l\<lparr>lbId := dbNewUUID env n, lbInstanceID := u\<rparr>]\<rparr>)))))"

definition InsertLabel :: "db_env \<Rightarrow> Label \<Rightarrow> ('a store_scheme, unit) go" where
  "InsertLabel env l = insert_label env l"

text \<open>Since the id is replaced, the conflict clause only meets a row with the new id.\<close>

definition UpdateLabel :: "db_env \<Rightarrow> Label \<Rightarrow> ('a store_scheme, unit) go" where
  "UpdateLabel env l =
     bindg clock (\<lambda>n.
     bindg (read_uuid env (lbInstanceID l)) (\<lambda>u.
     bindg (statement env) (\<lambda>_.
     bindg (gets dbLabels) (\<lambda>rows.
       if \<exists>r \<in> set rows. lbId r = dbNewUUID env n then
         modify (\<lambda>s. s\<lparr>dbLabels := update_rows (\<lambda>r. lbId r = dbNewUUID env n)
           (\<lambda>r. r\<lparr>lbLabelID := lbLabelID l, lbLabelName := lbLabelName l, lbLabelColor := lbLabelColor l\<rparr>) rows\<rparr>)
       else modify (\<lambda>s. s\<lparr>dbLabels := rows @ [l\<lparr>lbId := dbNewUUID env n, lbInstanceID := u\<rparr>]\<rparr>)))))"

definition GetLabelByID :: "db_env \<Rightarrow> string \<Rightarrow> ('a store_scheme, Label option) go" where
  "GetLabelByID env key =
     bindg (read_uuid env key) (\<lambda>u.
     bindg (statement env) (\<lambda>_. gets (\<lambda>s. first_row lbId (\<lambda>r. lbId r = u) (dbLabels s))))"

definition DeleteLabel :: "db_env \<Rightarrow> string \<Rightarrow> ('a store_scheme, unit) go" where
  "DeleteLabel env key =
     bindg (read_uuid env key) (\<lambda>u.
     bindg (statement env) (\<lambda>_.
       modify (\<lambda>s. s\<lparr>dbLabels := filter (\<lambda>r. lbId r \<noteq> u) (dbLabels s)\<rparr>)))"

definition GetAllLabelsByInstanceID :: "db_env \<Rightarrow> string \<Rightarrow> ('a store_scheme, Label list) go" where
  "GetAllLabelsByInstanceID env instanceID =
     bindg (read_uuid env instanceID) (\<lambda>u.
     bindg (statement env) (\<lambda>_. gets (\<lambda>s. filter (\<lambda>r. lbInstanceID r = u) (dbLabels s))))"

text \<open>\<open>Assign\<close> with a structure sets its non-zero fields only. A primary key in the row handed over
  is part of the condition.\<close>

definition wanted_label :: "db_env \<Rightarrow> Label \<Rightarrow> string \<Rightarrow> Label \<Rightarrow> bool" where
  "wanted_label env l u r =
     (lbInstanceID r = u \<and> lbLabelID r = lbLabelID l \<and> (lbId l = [] \<or> dbUuid env (lbId l) = Some (lbId r)))"

definition assign_label :: "Label \<Rightarrow> Label \<Rightarrow> Label" where
  "assign_label l r =
     r\<lparr>lbLabelName := (if lbLabelName l = [] then lbLabelName r else lbLabelName l),
       lbLabelColor := (if lbLabelColor l = [] then lbLabelColor r else lbLabelColor l),
       lbPredefinedId := (if lbPredefinedId l = [] then lbPredefinedId r else lbPredefinedId l)\<rparr>"

definition UpsertLabel :: "db_env \<Rightarrow> Label \<Rightarrow> ('a store_scheme, unit) go" where
  "UpsertLabel env l =
     bindg (read_uuid env (lbInstanceID l)) (\<lambda>u.
     bindg (if lbId l = [] then ret [] else read_uuid env (lbId l)) (\<lambda>_.
     bindg (statement env) (\<lambda>_.
     bindg (gets (\<lambda>s. first_row lbId (wanted_label env l u) (dbLabels s))) (\<lambda>found.
       case found of
         None \<Rightarrow> insert_label env l
       | Some q \<Rightarrow>
           if lbLabelName l = [] \<and> lbLabelColor l = [] \<and> lbPredefinedId l = [] then ret ()
           else bindg (statement env) (\<lambda>_.
             modify (\<lambda>s. s\<lparr>dbLabels := update_rows (\<lambda>r. lbId r = lbId q) (assign_label l) (dbLabels s)\<rparr>))))))"

section \<open>The message repository\<close>

text \<open>An upsert by \<open>message_id\<close> that keeps the row's own id.\<close>

definition InsertMessage :: "db_env \<Rightarrow> Message \<Rightarrow> ('a store_scheme, unit) go" where
  "InsertMessage env m =
     bindg clock (\<lambda>n.
     bindg (statement env) (\<lambda>_.
     bindg (gets dbMessages) (\<lambda>rows.
       if \<exists>r \<in> set rows. msgMessageID r = msgMessageID m then
         modify (\<lambda>s. s\<lparr>dbMessages := update_rows (\<lambda>r. msgMessageID r = msgMessageID m)
           (\<lambda>r. r\<lparr>msgTimestamp := msgTimestamp m, msgStatus := msgStatus m, msgSource := msgSource m\<rparr>) rows\<rparr>)
       else if \<exists>r \<in> set rows. msgId r = dbNewUUID env n then raise (dbDuplicate env)
       else modify (\<lambda>s. s\<lparr>dbMessages := rows @ [m\<lparr>msgId := dbNewUUID env n\<rparr>]\<rparr>))))"

definition GetMessageByID :: "db_env \<Rightarrow> string \<Rightarrow> ('a store_scheme, Message option) go" where
  "GetMessageByID env messageID =
     bindg (statement env) (\<lambda>_. gets (\<lambda>s. first_row msgId (\<lambda>r. msgMessageID r = messageID) (dbMessages s)))"

definition DeleteAllMessages :: "db_env \<Rightarrow> ('a store_scheme, nat) go" where
  "DeleteAllMessages env =
     bindg (statement env) (\<lambda>_.
     bindg (gets (\<lambda>s. length (dbMessages s))) (\<lambda>n.
     bindg (modify (\<lambda>s. s\<lparr>dbMessages := []\<rparr>)) (\<lambda>_. ret n)))"

text \<open>\<open>ORDER BY timestamp DESC, id LIMIT 1\<close>.\<close>

fun latest_row :: "db_env \<Rightarrow> Message list \<Rightarrow> Message option" where
  "latest_row env [] = None"
| "latest_row env (r # rs) =
     (case latest_row env rs of
        None \<Rightarrow> Some r
      | Some q \<Rightarrow>
          if dbBefore env (msgTimestamp r) (msgTimestamp q) then Some q
          else if dbBefore env (msgTimestamp q) (msgTimestamp r) then Some r
          else if msgId q < msgId r then Some q else Some r)"

definition GetLatestMessageID :: "db_env \<Rightarrow> string \<Rightarrow> ('a store_scheme, string \<times> string) go" where
  "GetLatestMessageID env source =
     bindg (statement env) (\<lambda>_.
     bindg (gets (\<lambda>s. latest_row env (filter (\<lambda>r. msgSource r = source) (dbMessages s)))) (\<lambda>found.
       case found of None \<Rightarrow> ret ([], []) | Some m \<Rightarrow> ret (msgMessageID m, msgTimestamp m)))"

section \<open>Runs of statements\<close>

lemma run_clock [go_run]: "clock s = (Return (stTick s), s\<lparr>stTick := Suc (stTick s)\<rparr>)"
  by (simp add: clock_def)

lemma run_statement [go_run]:
  "statement env s = (case dbFault env (stTick s) of None \<Rightarrow> Return () | Some e \<Rightarrow> Raise e,
     s\<lparr>stTick := Suc (stTick s)\<rparr>)"
  by (simp add: statement_def bindg_def clock_def of_error_def run_basic split: option.splits)

lemma run_read_uuid [go_run]:
  "read_uuid env t s = (case dbUuid env t of None \<Rightarrow> Raise (dbBadUuid env t) | Some u \<Rightarrow> Return u, s)"
  by (simp add: read_uuid_def run_basic split: option.splits)

lemma run_check_uuid [go_run]:
  "check_uuid env t s = (case dbUuidParse env t of None \<Rightarrow> Return () | Some e \<Rightarrow> Raise (''invalid UUID format: '' @ e), s)"
  by (simp add: check_uuid_def run_basic split: option.splits)

text \<open>What the database answers on a good day.\<close>

definition healthy :: "db_env \<Rightarrow> bool" where
  "healthy env = (\<forall>n. dbFault env n = None)"

lemma healthyD: "healthy env \<Longrightarrow> dbFault env n = None"
  by (simp add: healthy_def)

section \<open>The keys stay unique\<close>

text \<open>Ids are canonical and unique, tokens are unique; so are the ids of labels and messages and the
  message ids.\<close>

definition db_ok :: "db_env \<Rightarrow> 'a store_scheme \<Rightarrow> bool" where
  "db_ok env s =
     (distinct (map iId (dbInstances s)) \<and> distinct (map iToken (dbInstances s)) \<and>
      (\<forall>r \<in> set (dbInstances s). dbUuid env (iId r) = Some (iId r)) \<and>
      distinct (map lbId (dbLabels s)) \<and> distinct (map msgId (dbMessages s)) \<and>
      distinct (map msgMessageID (dbMessages s)))"

text \<open>PostgreSQL prints a UUID in the form that it reads as itself; the empty text is not a UUID.\<close>

definition canonical :: "db_env \<Rightarrow> bool" where
  "canonical env = (dbUuid env [] = None \<and> (\<forall>t u. dbUuid env t = Some u \<longrightarrow> dbUuid env u = Some u))"

lemma canonicalD: "canonical env \<Longrightarrow> dbUuid env t = Some u \<Longrightarrow> dbUuid env u = Some u \<and> u \<noteq> []"
  by (metis canonical_def option.distinct(1))

definition keeps_ok :: "db_env \<Rightarrow> 'a store_scheme \<Rightarrow> 'a store_scheme \<Rightarrow> bool" where
  "keeps_ok env s s' = (db_ok env s \<longrightarrow> db_ok env s')"

interpretation dbinv: frame "keeps_ok env" for env :: db_env
  by unfold_locales (auto simp: keeps_ok_def)

lemma db_ok_tick [simp]: "db_ok env (s\<lparr>stTick := n\<rparr>) = db_ok env s"
  by (simp add: db_ok_def)

lemma map_update_rows:
  "(\<And>r. P r \<Longrightarrow> key (f r) = key r) \<Longrightarrow> map key (update_rows P f rows) = map key rows"
  by (simp add: update_rows_def)

lemma set_update_rows: "set (update_rows P f rows) = (\<lambda>r. if P r then f r else r) ` set rows"
  by (simp add: update_rows_def)

lemma distinct_filter_key: "distinct (map key rows) \<Longrightarrow> distinct (map key (filter P rows))"
  by (induction rows) auto

text \<open>Changing the row of one key to a row whose own second key is new there.\<close>

lemma distinct_replaced:
  assumes "distinct (map key rows)" and "distinct (map k rows)"
    and "\<And>r. r \<in> set rows \<Longrightarrow> key r \<noteq> u \<Longrightarrow> k r \<noteq> t"
    and "\<And>r. key r = u \<Longrightarrow> k (f r) = t"
  shows "distinct (map k (update_rows (\<lambda>r. key r = u) f rows))"
  using assms
proof (induction rows)
  case (Cons r rows)
  show ?case
  proof (cases "key r = u")
    case True
    with Cons.prems(1) have other: "key q \<noteq> u" if "q \<in> set rows" for q
      using that by (metis distinct.simps(2) image_eqI list.set_map list.simps(9))
    then have "update_rows (\<lambda>r. key r = u) f rows = rows"
      by (auto simp: update_rows_def intro!: map_idI)
    moreover have "t \<notin> k ` set rows" using Cons.prems(3) other by (metis imageE list.set_intros(2))
    ultimately show ?thesis using Cons.prems(2,4) True by (simp add: update_rows_def)
  next
    case False
    have "k r \<notin> (\<lambda>x. k (if key x = u then f x else x)) ` set rows"
      using Cons.prems(2) Cons.prems(3) [of r] Cons.prems(4) False by (auto split: if_splits)
    then show ?thesis using Cons False by (simp add: update_rows_def)
  qed
qed (simp add: update_rows_def)

lemma keeps_ok_clock: "keeps (keeps_ok env) clock" "keeps (keeps_ok env) (statement env')"
  "keeps (keeps_ok env) (read_uuid env' t)" "keeps (keeps_ok env) (check_uuid env' t)"
  by (auto simp: keeps_def keeps_ok_def run_clock run_statement run_read_uuid run_check_uuid)

lemma keeps_ok_modify: "(\<And>s. db_ok env s \<Longrightarrow> db_ok env (f s)) \<Longrightarrow> keeps (keeps_ok env) (modify f)"
  by (simp add: keeps_def keeps_ok_def run_basic)

lemma keeps_ok_update:
  assumes "\<And>r. iId (f r) = iId r" and "\<And>r. iToken (f r) = iToken r"
  shows "keeps (keeps_ok env) (update_instances env' k f)"
  unfolding update_instances_def
  by (intro dbinv.keeps_intros keeps_ok_clock keeps_ok_modify)
    (auto simp: db_ok_def map_update_rows assms set_update_rows)

text \<open>Runs of the writing operations.\<close>

lemma insert_run:
  assumes "insert_instance env i s = (r, s')"
  shows "s' = s \<or> s' = s\<lparr>stTick := Suc (stTick s)\<rparr> \<or>
    (\<exists>u. dbUuid env (iId i) = Some u \<and> r = Return () \<and>
      (\<forall>q \<in> set (dbInstances s). iId q \<noteq> u \<and> iToken q \<noteq> iToken i) \<and>
      s' = s\<lparr>stTick := Suc (stTick s), dbInstances := dbInstances s @ [i\<lparr>iId := u\<rparr>]\<rparr>)"
  using assms
  by (auto simp: insert_instance_def bindg_def run_read_uuid run_statement run_basic split: option.splits if_splits)

lemma keeps_ok_insert: "canonical env \<Longrightarrow> keeps (keeps_ok env) (insert_instance env i)"
  by (rule keepsI, drule insert_run) (fastforce simp: keeps_ok_def db_ok_def canonical_def)

lemma keeps_ok_created: "keeps (keeps_ok env) (created_now env' i)"
  unfolding created_now_def by (intro dbinv.keeps_intros keeps_ok_clock)

lemma keeps_ok_create: "canonical env \<Longrightarrow> keeps (keeps_ok env) (gorm_create env i)"
  unfolding gorm_create_def by (intro dbinv.keeps_intros keeps_ok_clock keeps_ok_created keeps_ok_insert)

text \<open>\<open>Save\<close> on a row that exists.\<close>

definition save_row :: "Instance \<Rightarrow> string \<Rightarrow> 'a store_scheme \<Rightarrow> 'a store_scheme" where
  "save_row i u s = s\<lparr>stTick := Suc (stTick s),
     dbInstances := update_rows (\<lambda>r. iId r = u) (\<lambda>_. i\<lparr>iId := u\<rparr>) (dbInstances s)\<rparr>"

lemma save_row_ok:
  assumes "db_ok env s" and "dbUuid env u = Some u"
    and "\<And>q. q \<in> set (dbInstances s) \<Longrightarrow> iId q \<noteq> u \<Longrightarrow> iToken q \<noteq> iToken i"
  shows "db_ok env (save_row i u s)"
  using assms distinct_replaced [of iId "dbInstances s" iToken u "iToken i" "\<lambda>_. i\<lparr>iId := u\<rparr>"]
    map_update_rows [of "\<lambda>r. iId r = u" iId "\<lambda>_. i\<lparr>iId := u\<rparr>" "dbInstances s"]
  by (auto simp: db_ok_def save_row_def set_update_rows)

lemma save_run:
  assumes "gorm_save env i s = (r, s')" and "iId i \<noteq> []"
  obtains (unchanged) "s' = s \<or> s' = s\<lparr>stTick := Suc (stTick s)\<rparr>" "r \<noteq> Return ()"
    | (updated) u where "dbUuid env (iId i) = Some u" "r = Return ()" "s' = save_row i u s"
        "\<exists>q \<in> set (dbInstances s). iId q = u"
        "\<And>q. q \<in> set (dbInstances s) \<Longrightarrow> iId q \<noteq> u \<Longrightarrow> iToken q \<noteq> iToken i"
    | (inserted) u where "dbUuid env (iId i) = Some u" "\<forall>q \<in> set (dbInstances s). iId q \<noteq> u"
        "bindg (created_now env i) (insert_instance env) (s\<lparr>stTick := Suc (stTick s)\<rparr>) = (r, s')"
proof (cases "dbUuid env (iId i)")
  case None
  with assms show thesis by (intro unchanged) (auto simp: gorm_save_def bindg_def run_read_uuid)
next
  case (Some u)
  show thesis
  proof (cases "dbFault env (stTick s)")
    case fault: (Some e)
    with assms Some show thesis
      by (intro unchanged) (auto simp: gorm_save_def bindg_def run_read_uuid run_statement)
  next
    case None
    let ?s1 = "s\<lparr>stTick := Suc (stTick s)\<rparr>"
    have run: "(if \<exists>q \<in> set (dbInstances s). iId q = u then
        if \<exists>q \<in> set (dbInstances s). iId q \<noteq> u \<and> iToken q = iToken i then raise (dbDuplicate env)
        else modify (\<lambda>s'. s'\<lparr>dbInstances := update_rows (\<lambda>r. iId r = u) (\<lambda>_. i\<lparr>iId := u\<rparr>) (dbInstances s)\<rparr>)
      else bindg (created_now env i) (insert_instance env)) ?s1 = (r, s')"
      using assms Some None
      by (simp add: gorm_save_def bindg_def [of "read_uuid _ _"] bindg_def [of "statement _"] bindg_def [of "gets _"]
          run_read_uuid run_statement run_basic)
    show thesis
    proof (cases "\<exists>q \<in> set (dbInstances s). iId q = u")
      case True
      with run have "(r = Raise (dbDuplicate env) \<and> s' = ?s1) \<or>
        (r = Return () \<and> s' = save_row i u s \<and>
          (\<forall>q \<in> set (dbInstances s). iId q \<noteq> u \<longrightarrow> iToken q \<noteq> iToken i))"
        by (auto simp: run_basic save_row_def split: if_splits)
      then show thesis using unchanged updated [OF Some _ _ True] by auto
    next
      case False
      with run show thesis by (intro inserted [OF Some]) auto
    qed
  qed
qed

lemma keeps_ok_save: "canonical env \<Longrightarrow> keeps (keeps_ok env) (gorm_save env i)"
proof (rule keepsI)
  fix s :: "'a store_scheme" and r s'
  assume c: "canonical env" and run: "gorm_save env i s = (r, s')"
  show "keeps_ok env s s'"
  proof (cases "iId i = []")
    case True
    with run have "bindg (gorm_create env i) (\<lambda>_. ret ()) s = (r, s')" by (simp add: gorm_save_def)
    then show ?thesis by (rule keepsD [rotated]) (intro dbinv.keeps_bind keeps_ok_create c dbinv.keeps_pure)
  next
    case False
    from run False show ?thesis
    proof (cases rule: save_run)
      case unchanged
      then show ?thesis by (auto simp: keeps_ok_def)
    next
      case (updated u)
      then show ?thesis using c save_row_ok [of env s u i] by (auto simp: keeps_ok_def canonical_def)
    next
      case (inserted u)
      have "keeps (keeps_ok env) (bindg (created_now env i) (insert_instance env))"
        by (intro dbinv.keeps_bind keeps_ok_created keeps_ok_insert c)
      from keepsD [OF this inserted(3)] show ?thesis by (simp add: keeps_ok_def)
    qed
  qed
qed

lemma first_row_in: "first_row key P rows = Some r \<Longrightarrow> r \<in> set rows \<and> P r"
proof -
  have least: "least_row key rs = Some q \<Longrightarrow> q \<in> set rs" for rs :: "'a list" and q
    by (induction rs arbitrary: q) (auto split: option.splits if_splits)
  show "first_row key P rows = Some r \<Longrightarrow> r \<in> set rows \<and> P r"
    unfolding first_row_def by (drule least) simp
qed

lemma first_row_None: "first_row key P rows = None \<longleftrightarrow> (\<forall>r \<in> set rows. \<not> P r)"
proof -
  have "least_row key rs = None \<longleftrightarrow> rs = []" for rs :: "'a list"
    by (cases rs) (auto split: option.splits)
  then show ?thesis by (auto simp: first_row_def filter_empty_conv)
qed

text \<open>A row found by its key is the row with that key.\<close>

lemma first_row_key:
  assumes "distinct (map key rows)" and "r \<in> set rows" and "\<And>q. P q \<longleftrightarrow> key q = key r"
  shows "first_row key P rows = Some r"
proof -
  have "filter P rows = [r]" using assms
  proof (induction rows)
    case (Cons q rows)
    show ?case
    proof (cases "q = r")
      case True
      with Cons.prems(1) have "key p \<noteq> key r" if "p \<in> set rows" for p
        using that by (metis distinct.simps(2) image_eqI list.set_map list.simps(9))
      with True Cons.prems(3) show ?thesis by (simp add: filter_empty_conv)
    next
      case False
      with Cons.prems have "key q \<noteq> key r" by (metis image_eqI list.set_map list.simps(9) distinct.simps(2) set_ConsD)
      with False Cons show ?thesis by simp
    qed
  qed simp
  then show ?thesis by (simp add: first_row_def)
qed

lemma keeps_ok_reads: "keeps (keeps_ok env) (first_instance env' P)" "keeps (keeps_ok env) (find_instances env' P)"
  unfolding first_instance_def find_instances_def
  by (intro dbinv.keeps_intros keeps_ok_clock)+

lemma keeps_ok_transaction:
  assumes "keeps (keeps_ok env) m"
  shows "keeps (keeps_ok env) (transaction env' m)"
proof -
  have "keeps (keeps_ok env) (bindg (statement env') (\<lambda>_. bindg m (\<lambda>_. statement env')))"
    by (intro dbinv.keeps_intros keeps_ok_clock assms)
  then show ?thesis
    by (auto simp: keeps_def keeps_ok_def transaction_def rolled_back_def split: prod.splits outcome.splits)
qed

lemma keeps_ok_prefix: "keeps (keeps_ok env) m \<Longrightarrow> keeps (keeps_ok env) (with_prefix p m)"
  unfolding with_prefix_def by (intro dbinv.keeps_intros)

lemma keeps_ok_delete: "keeps (keeps_ok env) (repo_Delete env' k)"
  unfolding repo_Delete_def
  by (intro keeps_ok_transaction dbinv.keeps_intros keeps_ok_prefix keeps_ok_clock keeps_ok_modify)
    (auto simp: db_ok_def distinct_filter_key)

lemmas repo_reads = repo_GetInstanceByToken_def repo_GetInstanceByName_def repo_GetInstanceByID_def
  repo_GetConnectedInstanceByID_def repo_GetAllConnectedInstances_def
  repo_GetAllConnectedInstancesByClientName_def repo_GetAll_def repo_GetAdvancedSettings_def

lemmas repo_updates = repo_UpdateConnected_def repo_UpdateQrcode_def repo_UpdateProxy_def repo_UpdateJid_def
  repo_UpdateAdvancedSettings_def

lemma keeps_ok_repo:
  "keeps (keeps_ok env) (repo_GetInstanceByToken env' t)" "keeps (keeps_ok env) (repo_GetInstanceByName env' t)"
  "keeps (keeps_ok env) (repo_GetInstanceByID env' t)" "keeps (keeps_ok env) (repo_GetConnectedInstanceByID env' t)"
  "keeps (keeps_ok env) (repo_GetAllConnectedInstances env')"
  "keeps (keeps_ok env) (repo_GetAllConnectedInstancesByClientName env' t)"
  "keeps (keeps_ok env) (repo_GetAll env' t)" "keeps (keeps_ok env) (repo_GetAdvancedSettings env' t)"
  "keeps (keeps_ok env) (repo_UpdateConnected env' t b d)" "keeps (keeps_ok env) (repo_UpdateQrcode env' t q)"
  "keeps (keeps_ok env) (repo_UpdateProxy env' t q)" "keeps (keeps_ok env) (repo_UpdateJid env' t q)"
  "keeps (keeps_ok env) (repo_UpdateAdvancedSettings env' t a)"
  unfolding repo_reads repo_updates
  by (intro dbinv.keeps_intros keeps_ok_clock keeps_ok_reads keeps_ok_update; simp)+

section \<open>Reads and writes by id\<close>

definition tick :: "'a store_scheme \<Rightarrow> 'a store_scheme" where
  "tick s = s\<lparr>stTick := Suc (stTick s)\<rparr>"

lemma tick_simps [simp]:
  "dbInstances (tick s) = dbInstances s" "dbLabels (tick s) = dbLabels s" "dbMessages (tick s) = dbMessages s"
  "db_ok env (tick s) = db_ok env s"
  by (simp_all add: tick_def db_ok_def)

text \<open>A text that names the row \<open>i\<close>.\<close>

definition names_row :: "db_env \<Rightarrow> 'a store_scheme \<Rightarrow> string \<Rightarrow> Instance \<Rightarrow> bool" where
  "names_row env s key i =
     (i \<in> set (dbInstances s) \<and> dbUuidParse env key = None \<and> dbUuid env key = Some (iId i))"

lemma statement_healthy: "healthy env \<Longrightarrow> statement env s = (Return (), tick s)"
  by (simp add: run_statement healthyD tick_def)

lemma first_instance_healthy:
  "healthy env \<Longrightarrow> first_instance env P s =
     (case first_row iId P (dbInstances s) of None \<Rightarrow> Raise not_found | Some r \<Rightarrow> Return r, tick s)"
  by (simp add: first_instance_def bindg_def statement_healthy run_basic split: option.split)

lemma get_by_id:
  assumes "healthy env" and "db_ok env s" and "names_row env s key i"
  shows "repo_GetInstanceByID env key s = (Return i, tick s)"
proof -
  have "first_row iId (\<lambda>r. iId r = iId i) (dbInstances s) = Some i"
    using assms(2,3) by (intro first_row_key) (auto simp: db_ok_def names_row_def)
  then show ?thesis using assms
    by (simp add: repo_GetInstanceByID_def bindg_def run_check_uuid run_read_uuid first_instance_healthy names_row_def)
qed

lemma get_by_token:
  assumes "healthy env" and "db_ok env s" and "i \<in> set (dbInstances s)"
  shows "repo_GetInstanceByToken env (iToken i) s = (Return i, tick s)"
proof -
  have "filter (\<lambda>r. iToken r = iToken i) (dbInstances s) = [i]"
    using first_row_key [of iToken "dbInstances s" i "\<lambda>r. iToken r = iToken i"] assms(2,3)
  proof -
    have "distinct (map iToken rows) \<Longrightarrow> i \<in> set rows \<Longrightarrow> filter (\<lambda>r. iToken r = iToken i) rows = [i]" for rows
    proof (induction rows)
      case (Cons q rows)
      show ?case
      proof (cases "q = i")
        case True
        with Cons.prems(1) have "iToken p \<noteq> iToken i" if "p \<in> set rows" for p
          using that by (metis distinct.simps(2) image_eqI list.set_map list.simps(9))
        with True show ?thesis by (simp add: filter_empty_conv)
      next
        case False
        with Cons.prems have "iToken q \<noteq> iToken i"
          by (metis image_eqI list.set_map list.simps(9) distinct.simps(2) set_ConsD)
        with False Cons show ?thesis by simp
      qed
    qed simp
    with assms show ?thesis by (simp add: db_ok_def)
  qed
  then show ?thesis using assms(1)
    by (simp add: repo_GetInstanceByToken_def first_instance_healthy first_row_def)
qed

lemma update_by_id:
  assumes "healthy env" and "dbUuid env key = Some u"
  shows "update_instances env key f s =
    (Return (), (tick s)\<lparr>dbInstances := update_rows (\<lambda>r. iId r = u) f (dbInstances s)\<rparr>)"
  using assms by (simp add: update_instances_def bindg_def run_read_uuid statement_healthy run_basic)

lemma save_by_id:
  assumes "healthy env" and "db_ok env s" and "i \<in> set (dbInstances s)" and "iId j = iId i" and "iToken j = iToken i"
    and "iId i \<noteq> []"
  shows "repo_Update env j s =
    (Return (), (tick s)\<lparr>dbInstances := update_rows (\<lambda>r. iId r = iId i) (\<lambda>_. j) (dbInstances s)\<rparr>)"
proof -
  have u: "dbUuid env (iId i) = Some (iId i)" using assms(2,3) by (simp add: db_ok_def)
  have other: "iToken q \<noteq> iToken j" if "q \<in> set (dbInstances s)" "iId q \<noteq> iId i" for q
    using assms(2,3,5) that by (auto simp: db_ok_def distinct_map inj_on_def)
  have same: "j\<lparr>iId := iId i\<rparr> = j" using assms(4) by (cases j) simp
  show ?thesis using assms u other
    by (auto simp: same repo_Update_def gorm_save_def bindg_def run_read_uuid statement_healthy run_basic)
qed

text \<open>A row that has been replaced is found under its id.\<close>

lemma names_updated:
  assumes "names_row env s key i" and "iId (f i) = iId i"
    and "dbInstances s' = update_rows (\<lambda>r. iId r = iId i) f (dbInstances s)"
  shows "names_row env s' key (f i)"
  using assms by (auto simp: names_row_def set_update_rows)

lemma delete_by_id:
  assumes "healthy env" and "dbUuid env key = Some u"
  shows "repo_Delete env key s =
    (Return (), s\<lparr>dbLabels := filter (\<lambda>r. lbInstanceID r \<noteq> u) (dbLabels s),
       dbMessages := filter (\<lambda>r. msgSource r \<noteq> key) (dbMessages s),
       dbInstances := filter (\<lambda>r. iId r \<noteq> u) (dbInstances s), stTick := stTick s + 5\<rparr>)"
  using assms
  by (simp add: repo_Delete_def transaction_def with_prefix_def bindg_def attempt_def run_read_uuid
      statement_healthy run_basic tick_def numeral_eq_Suc)

end
