(* ===== verification/Sessions.thy ===== *)
theory Sessions
  imports Storage Routing ProxyJson Jid
begin

text \<open>
  The sessions of \<open>pkg/whatsmeow/service/whatsmeow.go\<close>: the maps that all services share
  (\<open>clientPointer\<close>, \<open>myClientPointer\<close>, \<open>killChannel\<close>, \<open>userInfoCache\<close>) and the operations that start,
  restart, update and clear a session. The state \<open>server\<close> extends the database by them.

  A client is a handle; what it answers is a parameter, as are the scheduling decisions: whether a
  goroutine is waiting at a channel at the moment of a send, and what the other goroutines do to the
  state while this one sleeps (\<open>seOthers\<close>). Between two waits an operation runs alone. The goroutines
  it starts are listed with their argument (\<open>svStarted\<close>); they run as part of the others.
\<close>

section \<open>State\<close>

type_synonym session_client = nat
type_synonym channel = nat

text \<open>Structs that are shared by pointer live on a heap: the instances of sessions and the sessions
  themselves (\<open>MyClient\<close>). An address is never used twice.\<close>

type_synonym address = nat

text \<open>\<open>Values\<close> in the cache of user information, the struct of a running session, the argument of
  \<open>StartClient\<close>. The fields of \<open>MyClient\<close> that hold the shared maps, the repositories and the producers
  are parts of the state \<open>server\<close>.\<close>

record UserInfo =
  uiId :: string
  uiJid :: string
  uiToken :: string
  uiEvents :: string
  uiOsName :: string
  uiProxy :: string

record MyClient =
  mcInstance :: address
  mcWAClient :: session_client
  mcUserID :: string
  mcToken :: string
  mcSubscriptions :: "string list"
  mcWebhookUrl :: string
  mcRabbitmqEnable :: string
  mcNatsEnable :: string
  mcWebsocketEnable :: string
  mcEventHandlerID :: nat
  mcQrcodeCount :: int

record ClientData =
  cdInstance :: Instance
  cdSubscriptions :: "string list"
  cdPhone :: string
  cdIsProxy :: bool

text \<open>What is asked of the client library.\<close>

datatype client_command =
    Dial session_client
  | UseSocks session_client ProxyConfig
  | ClearProxy session_client
  | SendPresence session_client bool
  | MarkRead session_client string jid jid
  | Reject session_client jid string
  | Answer session_client jid string

text \<open>\<open>store.DeviceProps\<close>, one variable of the library for all sessions.\<close>

record device_props =
  dpPlatform :: string
  dpOs :: string
  dpFullSync :: bool
  dpVersion :: "32 word \<times> 32 word \<times> 32 word"

text \<open>An event handed to \<open>go CallWebhook\<close>: the fields of the instance that it reads are not changed in
  place, so the instance is the one at the time of the call.\<close>

record post =
  poInstance :: Instance
  poQueue :: string
  poPayload :: json_object

record server = store +
  svClients :: "string \<Rightarrow> session_client option"
  svMyClients :: "string \<Rightarrow> address option"
  svKill :: "string \<Rightarrow> channel option"
  svUserInfo :: "string \<Rightarrow> UserInfo option"
  svFresh :: address
  svInstances :: "address \<Rightarrow> Instance"
  svSessions :: "address \<Rightarrow> MyClient"
  svProcessed :: "string list"
  svDeviceProps :: device_props
  svChannels :: nat
  svClosed :: "channel list"
  svSignals :: "channel list"
  svStarted :: "ClientData list"
  svReconnects :: "Instance list"
  svRestarts :: "string list"
  svPresences :: "address list"
  svPosts :: "post list"
  svGlobalPosts :: "(string \<times> json_object \<times> string) list"
  svInserts :: "Message list"
  svCommands :: "client_command list"
  svDisconnects :: "session_client list"
  svLogouts :: "session_client list"
  svRemovedHandlers :: "(session_client \<times> nat) list"
  svQueries :: "string list"
  svSlept :: nat

record session_config =
  scOsName :: string
  scClientName :: string
  scProxyHost :: string
  scProxyPort :: string
  scProxyUsername :: string
  scProxyPassword :: string
  scGlobalApiKey :: string
  scPostgresAuthDB :: string
  scExPath :: string
  scWhatsappVersion :: "int \<times> int \<times> int"
  scQrcodeMaxCount :: int
  scGlobal :: global_config
  scWebhookFiles :: bool
  scMinioEnabled :: bool
  scEventIgnoreGroup :: bool
  scEventIgnoreStatus :: bool
  scDatabaseSaveMessages :: bool

text \<open>\<open>GetQRChannel\<close>: the events until the channel is closed, the error that the store holds an id, or
  another one.\<close>

record qr_event =
  qeEvent :: string
  qeCode :: string

datatype qr_answer = QrOpened "qr_event list" | QrContainsID | QrFailed string

text \<open>\<open>seDevices\<close> answers a query of the device store, row by row. \<open>seSender\<close>: another goroutine is
  blocked sending on the channel now; \<open>seWaiting\<close>: one is blocked receiving from it now;
  \<open>seEverTaken\<close>: a value sent on it is received while the sender waits.\<close>

record session_env =
  seDb :: db_env
  seConnected :: "nat \<Rightarrow> session_client \<Rightarrow> bool"
  seLoggedIn :: "nat \<Rightarrow> session_client \<Rightarrow> bool"
  seLogout :: "nat \<Rightarrow> session_client \<Rightarrow> go_error"
  sePair :: "nat \<Rightarrow> session_client \<Rightarrow> string \<Rightarrow> string result"
  seStoreJid :: "nat \<Rightarrow> session_client \<Rightarrow> string option"
  sePushName :: "nat \<Rightarrow> session_client \<Rightarrow> string"
  seWaiting :: "nat \<Rightarrow> channel \<Rightarrow> bool"
  seEverTaken :: "nat \<Rightarrow> channel \<Rightarrow> bool"
  seSender :: "nat \<Rightarrow> channel \<Rightarrow> bool"
  seOthers :: "nat \<Rightarrow> server \<Rightarrow> server"
  seDevices :: "nat \<Rightarrow> string \<Rightarrow> string result list result"
  seAtoiError :: "string \<Rightarrow> string"
  seJsonError :: "string \<Rightarrow> string"
  seContainer :: "nat \<Rightarrow> string \<times> string \<Rightarrow> go_error"
  seGetDevice :: "nat \<Rightarrow> jid \<Rightarrow> bool result"
  seWebPage :: "nat \<Rightarrow> string result"
  seSocks :: "nat \<Rightarrow> ProxyConfig \<Rightarrow> go_error"
  seHandlerID :: "nat \<Rightarrow> session_client \<Rightarrow> nat"
  seDial :: "nat \<Rightarrow> session_client \<Rightarrow> go_error"
  seQrChannel :: "nat \<Rightarrow> session_client \<Rightarrow> qr_answer"
  seQrImage :: "string \<Rightarrow> string"
  seHour :: "nat \<Rightarrow> nat"
  seRandom :: "nat \<Rightarrow> nat"

section \<open>Clients, channels and time\<close>

definition question :: "(nat \<Rightarrow> 'a) \<Rightarrow> (server, 'a) go" where
  "question f = bindg clock (\<lambda>n. ret (f n))"

definition client_connected :: "session_env \<Rightarrow> session_client \<Rightarrow> (server, bool) go" where
  "client_connected env c = question (\<lambda>n. seConnected env n c)"

definition client_logged_in :: "session_env \<Rightarrow> session_client \<Rightarrow> (server, bool) go" where
  "client_logged_in env c = question (\<lambda>n. seLoggedIn env n c)"

definition client_disconnect :: "session_client \<Rightarrow> (server, unit) go" where
  "client_disconnect c = modify (\<lambda>s. s\<lparr>svDisconnects := svDisconnects s @ [c]\<rparr>)"

definition client_logout :: "session_env \<Rightarrow> session_client \<Rightarrow> (server, unit) go" where
  "client_logout env c =
     bindg (modify (\<lambda>s. s\<lparr>svLogouts := svLogouts s @ [c]\<rparr>)) (\<lambda>_.
     bindg (question (\<lambda>n. seLogout env n c)) of_error)"

text \<open>\<open>time.Sleep\<close>: meanwhile the other goroutines run.\<close>

definition wait_ms :: "session_env \<Rightarrow> nat \<Rightarrow> (server, unit) go" where
  "wait_ms env ms =
     bindg clock (\<lambda>n. modify (\<lambda>s. seOthers env n (s\<lparr>svSlept := svSlept s + ms\<rparr>)))"

definition make_channel :: "string \<Rightarrow> (server, unit) go" where
  "make_channel instanceId =
     modify (\<lambda>s. s\<lparr>svKill := (svKill s)(instanceId \<mapsto> svChannels s), svChannels := Suc (svChannels s)\<rparr>)"

text \<open>\<open>select { case ch <- true: default: }\<close>: the value is delivered only to a goroutine that waits
  at the channel now. Sending on a closed channel panics, in a \<open>select\<close>, too; on a nil channel it
  is never chosen.\<close>

definition try_send :: "session_env \<Rightarrow> channel option \<Rightarrow> (server, unit) go" where
  "try_send env ch =
     (case ch of
        None \<Rightarrow> ret ()
      | Some c \<Rightarrow>
          bindg (gets svClosed) (\<lambda>closed.
            if c \<in> set closed then crash
            else bindg (question (\<lambda>n. seWaiting env n c)) (\<lambda>waiting.
              if waiting then modify (\<lambda>s. s\<lparr>svSignals := svSignals s @ [c]\<rparr>) else ret ())))"

text \<open>\<open>select { case ch <- true: case <-time.After(d): }\<close> and \<open>ch <- true\<close>: unless somebody waits at the
  channel, the others run until the value is taken, the channel is closed (a panic) or the time is
  up. For the plain send, false means that it blocks forever.\<close>

definition send_waiting :: "session_env \<Rightarrow> channel option \<Rightarrow> nat \<Rightarrow> (server, bool) go" where
  "send_waiting env ch ms =
     (case ch of
        None \<Rightarrow> bindg (wait_ms env ms) (\<lambda>_. ret False)
      | Some c \<Rightarrow>
          bindg (gets svClosed) (\<lambda>closed.
            if c \<in> set closed then crash
            else bindg (question (\<lambda>n. seWaiting env n c)) (\<lambda>waiting.
              bindg (if waiting then ret () else wait_ms env ms) (\<lambda>_.
              bindg (question (\<lambda>n. waiting \<or> seEverTaken env n c)) (\<lambda>taken.
                if taken then bindg (modify (\<lambda>s. s\<lparr>svSignals := svSignals s @ [c]\<rparr>)) (\<lambda>_. ret True)
                else bindg (gets svClosed) (\<lambda>closed2. if c \<in> set closed2 then crash else ret False))))))"

definition send_within :: "session_env \<Rightarrow> channel option \<Rightarrow> nat \<Rightarrow> (server, unit) go" where
  "send_within env ch ms = bindg (send_waiting env ch ms) (\<lambda>_. ret ())"

definition send_blocking :: "session_env \<Rightarrow> channel option \<Rightarrow> (server, bool) go" where
  "send_blocking env ch = send_waiting env ch 0"

definition close_channel :: "channel \<Rightarrow> (server, unit) go" where
  "close_channel c =
     bindg (gets svClosed) (\<lambda>closed.
       if c \<in> set closed then crash else modify (\<lambda>s. s\<lparr>svClosed := c # closed\<rparr>))"

definition forget_client :: "string \<Rightarrow> (server, unit) go" where
  "forget_client instanceId = modify (\<lambda>s. s\<lparr>svClients := (svClients s)(instanceId := None)\<rparr>)"

definition forget_my_client :: "string \<Rightarrow> (server, unit) go" where
  "forget_my_client instanceId = modify (\<lambda>s. s\<lparr>svMyClients := (svMyClients s)(instanceId := None)\<rparr>)"

definition forget_channel :: "string \<Rightarrow> (server, unit) go" where
  "forget_channel instanceId = modify (\<lambda>s. s\<lparr>svKill := (svKill s)(instanceId := None)\<rparr>)"

text \<open>Closing the kill channel of an instance, at once and after a last signal.\<close>

definition close_kill :: "string \<Rightarrow> (server, unit) go" where
  "close_kill instanceId =
     bindg (gets (\<lambda>s. svKill s instanceId)) (\<lambda>killChan.
       case killChan of
         None \<Rightarrow> ret ()
       | Some c \<Rightarrow> bindg (close_channel c) (\<lambda>_. forget_channel instanceId))"

definition signal_and_close :: "session_env \<Rightarrow> string \<Rightarrow> (server, unit) go" where
  "signal_and_close env instanceId =
     bindg (gets (\<lambda>s. svKill s instanceId)) (\<lambda>killChan.
       case killChan of
         None \<Rightarrow> ret ()
       | Some c \<Rightarrow>
           bindg (try_send env (Some c)) (\<lambda>_.
           bindg (close_channel c) (\<lambda>_. forget_channel instanceId)))"

definition forget_user_info :: "string \<Rightarrow> (server, unit) go" where
  "forget_user_info token = modify (\<lambda>s. s\<lparr>svUserInfo := (svUserInfo s)(token := None)\<rparr>)"

section \<open>Starting a session\<close>

definition user_info :: "Instance \<Rightarrow> UserInfo" where
  "user_info i = \<lparr>uiId = iId i, uiJid = iJid i, uiToken = iToken i, uiEvents = iEvents i,
     uiOsName = iOsName i, uiProxy = iProxy i\<rparr>"

definition set_user_info :: "Instance \<Rightarrow> (server, unit) go" where
  "set_user_info i = modify (\<lambda>s. s\<lparr>svUserInfo := (svUserInfo s)(iToken i \<mapsto> user_info i)\<rparr>)"

definition spawn_client :: "ClientData \<Rightarrow> (server, unit) go" where
  "spawn_client cd = modify (\<lambda>s. s\<lparr>svStarted := svStarted s @ [cd]\<rparr>)"

text \<open>The proxy of the configuration is written into an instance without one, when it is complete.\<close>

definition global_proxy_complete :: "session_config \<Rightarrow> bool" where
  "global_proxy_complete cfg =
     (scProxyHost cfg \<noteq> [] \<and> scProxyPort cfg \<noteq> [] \<and> scProxyUsername cfg \<noteq> [] \<and> scProxyPassword cfg \<noteq> [])"

definition with_global_proxy :: "session_env \<Rightarrow> session_config \<Rightarrow> Instance \<Rightarrow> (server, Instance) go" where
  "with_global_proxy env cfg i =
     (if iProxy i = [] \<and> global_proxy_complete cfg then
        let proxy = proxyText (scProxyHost cfg) (scProxyPort cfg) (scProxyUsername cfg) (scProxyPassword cfg) in
        bindg (repo_UpdateProxy (seDb env) (iId i) proxy) (\<lambda>_. ret (i\<lparr>iProxy := proxy\<rparr>))
      else ret i)"

definition read_proxy :: "session_env \<Rightarrow> string \<Rightarrow> (server, ProxyConfig) go" where
  "read_proxy env t = (case unmarshalProxy t of None \<Rightarrow> raise (seJsonError env t) | Some p \<Rightarrow> ret p)"

definition StartInstance :: "session_env \<Rightarrow> session_config \<Rightarrow> string \<Rightarrow> (server, unit) go" where
  "StartInstance env cfg instanceId =
     bindg (repo_GetInstanceByID (seDb env) instanceId) (\<lambda>found.
     bindg (with_global_proxy env cfg found) (\<lambda>i.
     bindg (set_user_info i) (\<lambda>_.
     bindg (make_channel (iId i)) (\<lambda>_.
     bindg (if iProxy i \<noteq> [] then bindg (read_proxy env (iProxy i)) (\<lambda>p. ret (pHost p \<noteq> []))
            else ret False) (\<lambda>isProxy.
       spawn_client \<lparr>cdInstance = i, cdSubscriptions = parse_events (iEvents i), cdPhone = [],
         cdIsProxy = isProxy\<rparr>)))))"

definition ConnectOnStartup :: "session_env \<Rightarrow> session_config \<Rightarrow> string \<Rightarrow> (server, unit) go" where
  "ConnectOnStartup env cfg clientName =
     attempt (if clientName \<noteq> [] then repo_GetAllConnectedInstancesByClientName (seDb env) clientName
              else repo_GetAllConnectedInstances (seDb env)) (\<lambda>res.
       case res of
         Inl _ \<Rightarrow> ret ()
       | Inr instances \<Rightarrow>
           foldr (\<lambda>i rest. attempt (StartInstance env cfg (iId i)) (\<lambda>_. rest)) instances (ret ()))"

section \<open>Restarting and clearing\<close>

text \<open>\<open>ReconnectClient\<close>. The first reading of the row is only for the cache; its error is dropped.\<close>

definition disconnect_existing :: "session_env \<Rightarrow> string \<Rightarrow> (server, unit) go" where
  "disconnect_existing env instanceId =
     bindg (gets (\<lambda>s. svClients s instanceId)) (\<lambda>client.
       case client of
         None \<Rightarrow> ret ()
       | Some c \<Rightarrow>
           bindg (client_connected env c) (\<lambda>connected.
           bindg (if connected then client_disconnect c else ret ()) (\<lambda>_.
           bindg (gets (\<lambda>s. svMyClients s instanceId)) (\<lambda>mycli.
             case mycli of
               None \<Rightarrow> ret ()
             | Some m \<Rightarrow>
                 bindg (gets (\<lambda>s. mcEventHandlerID (svSessions s m))) (\<lambda>h.
                   if h \<noteq> 0 then modify (\<lambda>s. s\<lparr>svRemovedHandlers := svRemovedHandlers s @ [(c, h)]\<rparr>)
                   else ret ())))))"

definition ReconnectClient :: "session_env \<Rightarrow> session_config \<Rightarrow> string \<Rightarrow> (server, unit) go" where
  "ReconnectClient env cfg instanceId =
     bindg (disconnect_existing env instanceId) (\<lambda>_.
     bindg (gets (\<lambda>s. svKill s instanceId)) (\<lambda>killChan.
     bindg (try_send env killChan) (\<lambda>_.
     bindg (forget_client instanceId) (\<lambda>_.
     bindg (forget_my_client instanceId) (\<lambda>_.
     bindg (forget_channel instanceId) (\<lambda>_.
     attempt (repo_GetInstanceByID (seDb env) instanceId) (\<lambda>first.
     bindg (case first of Inl _ \<Rightarrow> ret () | Inr i \<Rightarrow> forget_user_info (iToken i)) (\<lambda>_.
     attempt (repo_GetInstanceByID (seDb env) instanceId) (\<lambda>second.
       case second of
         Inl e \<Rightarrow> raise (''failed to get instance: '' @ e)
       | Inr i \<Rightarrow>
           attempt (repo_UpdateConnected (seDb env) instanceId False ''Reconnecting'') (\<lambda>_.
           bindg (wait_ms env 2000) (\<lambda>_. StartInstance env cfg instanceId)))))))))))"

definition ClearInstanceCache :: "session_env \<Rightarrow> string \<Rightarrow> string \<Rightarrow> (server, unit) go" where
  "ClearInstanceCache env instanceId token =
     bindg (forget_user_info token) (\<lambda>_.
     bindg (forget_my_client instanceId) (\<lambda>_.
     bindg (forget_client instanceId) (\<lambda>_. signal_and_close env instanceId)))"

section \<open>Updating a running session\<close>

definition not_running :: "string \<Rightarrow> string" where
  "not_running instanceId = ''instance '' @ instanceId @ '' not found in runtime''"

definition allocate :: "(address \<Rightarrow> server \<Rightarrow> server) \<Rightarrow> (server, address) go" where
  "allocate put =
     bindg (gets svFresh) (\<lambda>a.
     bindg (modify (\<lambda>s. (put a s)\<lparr>svFresh := Suc a\<rparr>)) (\<lambda>_. ret a))"

definition set_instance :: "address \<Rightarrow> Instance \<Rightarrow> server \<Rightarrow> server" where
  "set_instance a i s = s\<lparr>svInstances := (svInstances s)(a := i)\<rparr>"

definition set_session :: "address \<Rightarrow> MyClient \<Rightarrow> server \<Rightarrow> server" where
  "set_session a m s = s\<lparr>svSessions := (svSessions s)(a := m)\<rparr>"

definition new_instance_struct :: "Instance \<Rightarrow> (server, address) go" where
  "new_instance_struct i = allocate (\<lambda>a. set_instance a i)"

definition change_session :: "address \<Rightarrow> (MyClient \<Rightarrow> MyClient) \<Rightarrow> (server, unit) go" where
  "change_session m f = modify (\<lambda>s. set_session m (f (svSessions s m)) s)"

lemmas session_heap_defs = new_instance_struct_def allocate_def change_session_def set_instance_def
  set_session_def

definition UpdateInstanceSettings :: "session_env \<Rightarrow> string \<Rightarrow> (server, unit) go" where
  "UpdateInstanceSettings env instanceId =
     bindg (repo_GetInstanceByID (seDb env) instanceId) (\<lambda>i.
     bindg (gets (\<lambda>s. svMyClients s instanceId)) (\<lambda>mycli.
       case mycli of
         None \<Rightarrow> raise (not_running instanceId)
       | Some m \<Rightarrow>
           bindg (new_instance_struct i) (\<lambda>a.
           bindg (change_session m (\<lambda>c.
             c\<lparr>mcInstance := a, mcWebhookUrl := iWebhook i, mcRabbitmqEnable := iRabbitmqEnable i,
               mcNatsEnable := iNatsEnable i, mcWebsocketEnable := iWebSocketEnable i,
               mcSubscriptions := parse_events (iEvents i)\<rparr>)) (\<lambda>_.
             set_user_info i))))"

definition UpdateInstanceAdvancedSettings :: "session_env \<Rightarrow> string \<Rightarrow> (server, unit) go" where
  "UpdateInstanceAdvancedSettings env instanceId =
     bindg (repo_GetInstanceByID (seDb env) instanceId) (\<lambda>i.
     bindg (gets (\<lambda>s. svMyClients s instanceId)) (\<lambda>mycli.
       case mycli of
         None \<Rightarrow> raise (not_running instanceId)
       | Some m \<Rightarrow>
           bindg (new_instance_struct i) (\<lambda>a. change_session m (\<lambda>c. c\<lparr>mcInstance := a\<rparr>))))"

section \<open>Finding the device of a number\<close>

text \<open>The loop over the rows: the device with the greatest session number so far.\<close>

fun latest_device :: "session_env \<Rightarrow> string result list \<Rightarrow> string \<times> int \<Rightarrow> (string \<times> int) result" where
  "latest_device env [] latest = Ok latest"
| "latest_device env (row # rows) latest =
     (case row of
        Inl e \<Rightarrow> Err e
      | Inr j \<Rightarrow>
          (case split_char CHR '':'' j of
             [a, b] \<Rightarrow>
               (case atoi (hd (split_char CHR ''@'' b)) of
                  None \<Rightarrow> Err (seAtoiError env (hd (split_char CHR ''@'' b)))
                | Some session \<Rightarrow>
                    latest_device env rows (if session > snd latest then (j, session) else latest))
           | _ \<Rightarrow> latest_device env rows latest))"

definition device_query :: "string \<Rightarrow> string" where
  "device_query number = ''SELECT jid FROM whatsmeow_device WHERE jid LIKE '' @
     [CHR 0x27] @ ''%'' @ number @ ''%'' @ [CHR 0x27]"

definition ForceUpdateJid :: "session_env \<Rightarrow> string \<Rightarrow> string \<Rightarrow> (server, unit) go" where
  "ForceUpdateJid env instanceId number =
     bindg (repo_GetInstanceByID (seDb env) instanceId) (\<lambda>i.
       if iJid i = [] \<and> number \<noteq> [] then
         bindg (modify (\<lambda>s. s\<lparr>svQueries := svQueries s @ [device_query number]\<rparr>)) (\<lambda>_.
         bindg (question (\<lambda>n. seDevices env n (device_query number))) (\<lambda>answer.
         bindg (of_result answer) (\<lambda>rows.
         bindg (of_result (latest_device env rows ([], 0))) (\<lambda>latest.
           if fst latest \<noteq> [] then
             attempt (repo_UpdateJid (seDb env) instanceId (fst latest)) (\<lambda>_. ret ())
           else ret ()))))
       else ret ())"

end
