(* ===== verification/InstanceService.thy ===== *)
theory InstanceService
  imports Sessions
begin

text \<open>
  The instance service, \<open>pkg/instance/service/instance_service.go\<close>: every operation of its interface
  but the reading of log files, on the shared state of the sessions. \<open>Pair\<close> and \<open>ForceReconnect\<close>
  use the client of the map without a check, as the code does: the methods of the client library
  answer on a nil client, too. The authentication middleware
  (\<open>pkg/middleware/auth_middleware.go\<close>), which finds the instance of a request by its token, stands
  at the end.
\<close>

record CreateStruct =
  crInstanceId :: string
  crName :: string
  crToken :: string
  crProxy :: "ProxyConfig option"
  crAdvancedSettings :: "AdvancedSettings option"

record ConnectStruct =
  coWebhookUrl :: string
  coSubscribe :: "string list"
  coImmediate :: bool
  coPhone :: string
  coRabbitmqEnable :: string
  coWebSocketEnable :: string
  coNatsEnable :: string

record StatusStruct =
  stConnected :: bool
  stLoggedIn :: bool
  stMyJid :: "string option"
  stName :: string

record QrcodeStruct =
  qrQrcode :: string
  qrCode :: string

record SetProxyStruct =
  spHost :: string
  spPort :: string
  spUsername :: string
  spPassword :: string

section \<open>The client of an instance\<close>

definition session_client_of :: "string \<Rightarrow> (server, session_client option) go" where
  "session_client_of instanceId = gets (\<lambda>s. svClients s instanceId)"

definition service_ensureClientConnected :: "session_env \<Rightarrow> session_config \<Rightarrow> string \<Rightarrow> (server, session_client) go" where
  "service_ensureClientConnected env cfg instanceId =
     bindg (session_client_of instanceId) (\<lambda>client.
       case client of
         None \<Rightarrow>
           attempt (StartInstance env cfg instanceId) (\<lambda>err.
             case err of
               Inl _ \<Rightarrow> raise ''no active session found''
             | Inr _ \<Rightarrow>
                 bindg (wait_ms env 2000) (\<lambda>_.
                 bindg (session_client_of instanceId) (\<lambda>client2.
                   case client2 of
                     None \<Rightarrow> raise ''no active session found''
                   | Some c \<Rightarrow>
                       bindg (client_connected env c) (\<lambda>connected.
                         if \<not> connected then raise ''no active session found'' else ret c))))
       | Some c \<Rightarrow>
           bindg (client_connected env c) (\<lambda>connected.
             if \<not> connected then raise ''client disconnected'' else ret c))"

section \<open>Creating and connecting\<close>

definition new_instance :: "session_config \<Rightarrow> CreateStruct \<Rightarrow> Instance" where
  "new_instance cfg data =
     zeroInstance\<lparr>iId := crInstanceId data, iName := crName data, iToken := crToken data,
       iOsName := scOsName cfg, iProxy := marshalProxy (crProxy data), iConnected := False,
       iClientName := scClientName cfg,
       iSettings := (case crAdvancedSettings data of None \<Rightarrow> zeroSettings | Some a \<Rightarrow> a)\<rparr>"

definition Create :: "session_env \<Rightarrow> session_config \<Rightarrow> CreateStruct \<Rightarrow> (server, Instance) go" where
  "Create env cfg data =
     attempt (repo_GetInstanceByName (seDb env) (crName data)) (\<lambda>findInstance.
       case findInstance of
         Inr _ \<Rightarrow> raise ''instance already exists''
       | Inl _ \<Rightarrow> repo_Create (seDb env) (new_instance cfg data))"

text \<open>Whether to use a proxy: its own or the configured one (\<open>Connect\<close> and \<open>ForceReconnect\<close>).\<close>

definition wants_proxy :: "session_env \<Rightarrow> session_config \<Rightarrow> Instance \<Rightarrow> (server, bool) go" where
  "wants_proxy env cfg i =
     (if iProxy i \<noteq> [] \<or> scProxyHost cfg \<noteq> [] then
        bindg (read_proxy env (iProxy i)) (\<lambda>p. ret (pHost p \<noteq> [] \<or> scProxyHost cfg \<noteq> []))
      else ret False)"

definition connected_instance :: "ConnectStruct \<Rightarrow> Instance \<Rightarrow> Instance" where
  "connected_instance data i =
     i\<lparr>iEvents := connect_event_string (coSubscribe data), iWebhook := coWebhookUrl data,
       iRabbitmqEnable := coRabbitmqEnable data, iNatsEnable := coNatsEnable data,
       iWebSocketEnable := coWebSocketEnable data\<rparr>"

definition Connect :: "session_env \<Rightarrow> session_config \<Rightarrow> ConnectStruct \<Rightarrow> Instance \<Rightarrow>
    (server, Instance \<times> string \<times> string) go" where
  "Connect env cfg data instnc =
     (let eventString = connect_event_string (coSubscribe data);
          i = connected_instance data instnc in
      bindg (repo_Update (seDb env) i) (\<lambda>_.
      attempt (UpdateInstanceSettings env (iId i)) (\<lambda>updated.
      bindg (case updated of
          Inr _ \<Rightarrow> ret ()
        | Inl _ \<Rightarrow>
            bindg (make_channel (iId i)) (\<lambda>_.
            bindg (wants_proxy env cfg i) (\<lambda>isProxy.
              spawn_client \<lparr>cdInstance = i, cdSubscriptions = connect_events (coSubscribe data),
                cdPhone = coPhone data, cdIsProxy = isProxy\<rparr>))) (\<lambda>_.
        ret (i, iJid i, eventString)))))"

definition Reconnect :: "session_env \<Rightarrow> session_config \<Rightarrow> Instance \<Rightarrow> (server, unit) go" where
  "Reconnect env cfg i =
     bindg (service_ensureClientConnected env cfg (iId i)) (\<lambda>_. ReconnectClient env cfg (iId i))"

section \<open>Disconnecting\<close>

text \<open>\<^const>\<open>None\<close>: the call never returns, because nobody receives the kill signal. An error returns
  the instance, too; it is the one handed in.\<close>

definition service_Disconnect :: "session_env \<Rightarrow> session_config \<Rightarrow> Instance \<Rightarrow> (server, Instance option) go" where
  "service_Disconnect env cfg i =
     bindg (service_ensureClientConnected env cfg (iId i)) (\<lambda>c.
     bindg (client_connected env c) (\<lambda>connected.
     bindg (if connected then client_logged_in env c else ret False) (\<lambda>loggedIn.
       if connected \<and> loggedIn then
         bindg (gets (\<lambda>s. svKill s (iId i))) (\<lambda>killChan.
         bindg (send_blocking env killChan) (\<lambda>sent.
           if \<not> sent then ret None
           else bindg (repo_Update (seDb env) (i\<lparr>iEvents := []\<rparr>)) (\<lambda>_. ret (Some (i\<lparr>iEvents := []\<rparr>)))))
       else ret (Some i))))"

definition stop_session :: "session_env \<Rightarrow> string \<Rightarrow> (server, unit) go" where
  "stop_session env instanceId =
     bindg (gets (\<lambda>s. svKill s instanceId)) (\<lambda>killChan.
     bindg (send_within env killChan 5000) (\<lambda>_.
     bindg (forget_client instanceId) (\<lambda>_. forget_channel instanceId)))"

definition service_Logout :: "session_env \<Rightarrow> session_config \<Rightarrow> Instance \<Rightarrow> (server, Instance) go" where
  "service_Logout env cfg i =
     bindg (service_ensureClientConnected env cfg (iId i)) (\<lambda>c.
     bindg (client_logged_in env c) (\<lambda>loggedIn.
     bindg (if loggedIn then client_connected env c else ret False) (\<lambda>connected.
       if loggedIn \<and> connected then
         bindg (client_logout env c) (\<lambda>_.
         bindg (repo_Update (seDb env) (i\<lparr>iConnected := False\<rparr>)) (\<lambda>_.
         bindg (stop_session env (iId i)) (\<lambda>_. ret (i\<lparr>iConnected := False\<rparr>))))
       else
         bindg (client_connected env c) (\<lambda>connected2.
           if connected2 then
             bindg (client_disconnect c) (\<lambda>_.
             bindg (stop_session env (iId i)) (\<lambda>_. ret i))
           else raise ''ignoring logout as it was not connected''))))"

section \<open>Looking\<close>

definition service_Status :: "session_env \<Rightarrow> session_config \<Rightarrow> Instance \<Rightarrow> (server, StatusStruct) go" where
  "service_Status env cfg i =
     bindg (service_ensureClientConnected env cfg (iId i)) (\<lambda>c.
     bindg (client_connected env c) (\<lambda>isConnected.
     bindg (client_logged_in env c) (\<lambda>isLoggedIn.
       if isLoggedIn then
         bindg (question (\<lambda>n. seStoreJid env n c)) (\<lambda>j.
         bindg (question (\<lambda>n. sePushName env n c)) (\<lambda>name.
           ret \<lparr>stConnected = isConnected, stLoggedIn = isLoggedIn, stMyJid = j, stName = name\<rparr>))
       else ret \<lparr>stConnected = isConnected, stLoggedIn = isLoggedIn, stMyJid = None, stName = []\<rparr>)))"

definition split_qr :: "string \<Rightarrow> QrcodeStruct result" where
  "split_qr code =
     (if code = [] then Err ''no QR code available''
      else let parts = split_char CHR ''|'' code in
        if length parts < 2 then Err ''invalid QR code format''
        else Ok \<lparr>qrQrcode = parts ! 0, qrCode = parts ! 1\<rparr>)"

definition service_GetQr :: "session_env \<Rightarrow> session_config \<Rightarrow> Instance \<Rightarrow> (server, QrcodeStruct) go" where
  "service_GetQr env cfg i =
     bindg (service_ensureClientConnected env cfg (iId i)) (\<lambda>c.
     bindg (client_logged_in env c) (\<lambda>loggedIn.
       if loggedIn then raise ''session already logged in''
       else bindg (repo_GetInstanceByID (seDb env) (iId i)) (\<lambda>row. of_result (split_qr (iQrcode row)))))"

text \<open>An error of the pairing is dropped, that of a nil client, too.\<close>

definition service_Pair :: "session_env \<Rightarrow> string \<Rightarrow> Instance \<Rightarrow> (server, string) go" where
  "service_Pair env phone i =
     bindg (session_client_of (iId i)) (\<lambda>client.
       case client of
         None \<Rightarrow> ret []
       | Some c \<Rightarrow>
           bindg (question (\<lambda>n. sePair env n c phone)) (\<lambda>answer.
             case answer of Inl _ \<Rightarrow> ret [] | Inr code \<Rightarrow> ret code))"

definition with_live_status :: "session_env \<Rightarrow> Instance \<Rightarrow> (server, Instance) go" where
  "with_live_status env i =
     bindg (session_client_of (iId i)) (\<lambda>client.
     bindg (case client of None \<Rightarrow> ret False | Some c \<Rightarrow> client_logged_in env c) (\<lambda>live.
       ret (i\<lparr>iConnected := live, iProxy := []\<rparr>)))"

fun with_live_statuses :: "session_env \<Rightarrow> Instance list \<Rightarrow> (server, Instance list) go" where
  "with_live_statuses env [] = ret []"
| "with_live_statuses env (i # rest) =
     bindg (with_live_status env i) (\<lambda>j.
     bindg (with_live_statuses env rest) (\<lambda>js. ret (j # js)))"

definition service_GetAll :: "session_env \<Rightarrow> session_config \<Rightarrow> (server, Instance list) go" where
  "service_GetAll env cfg =
     bindg (repo_GetAll (seDb env) (scClientName cfg)) (with_live_statuses env)"

definition service_Info :: "session_env \<Rightarrow> string \<Rightarrow> (server, Instance) go" where
  "service_Info env instanceId =
     bindg (repo_GetInstanceByID (seDb env) instanceId) (with_live_status env)"

definition service_GetInstanceByToken :: "session_env \<Rightarrow> string \<Rightarrow> (server, Instance) go" where
  "service_GetInstanceByToken env token = repo_GetInstanceByToken (seDb env) token"

section \<open>Deleting\<close>

text \<open>The map is looked up again for each call; without a wait in between it gives the same client.
  The error of the logout is dropped.\<close>

definition end_client :: "session_env \<Rightarrow> string \<Rightarrow> (server, unit) go" where
  "end_client env instanceId =
     bindg (session_client_of instanceId) (\<lambda>client.
       case client of
         None \<Rightarrow> ret ()
       | Some c \<Rightarrow>
           bindg (client_connected env c) (\<lambda>connected.
             if \<not> connected then ret ()
             else
               bindg (client_logged_in env c) (\<lambda>loggedIn.
               attempt (if loggedIn then client_logout env c else ret ()) (\<lambda>_. client_disconnect c))))"

definition service_Delete :: "session_env \<Rightarrow> string \<Rightarrow> (server, unit) go" where
  "service_Delete env key =
     bindg (repo_GetInstanceByID (seDb env) key) (\<lambda>i.
     bindg (end_client env (iId i)) (\<lambda>_.
     bindg (forget_client (iId i)) (\<lambda>_.
     bindg (close_kill (iId i)) (\<lambda>_.
     attempt (ClearInstanceCache env (iId i) (iToken i)) (\<lambda>_.
       repo_Delete (seDb env) key)))))"

section \<open>Proxies\<close>

definition go_reconnect :: "Instance \<Rightarrow> (server, unit) go" where
  "go_reconnect i = modify (\<lambda>s. s\<lparr>svReconnects := svReconnects s @ [i]\<rparr>)"

definition SetProxy :: "session_env \<Rightarrow> string \<Rightarrow> ProxyConfig option \<Rightarrow> (server, unit) go" where
  "SetProxy env key proxyConfig =
     bindg (repo_GetInstanceByID (seDb env) key) (\<lambda>i.
       case proxyConfig of
         None \<Rightarrow> raise ''proxy configuration cannot be nil''
       | Some p \<Rightarrow>
           if pHost p = [] then raise ''proxy host is required''
           else if pPort p = [] then raise ''proxy port is required''
           else
             bindg (repo_Update (seDb env) (i\<lparr>iProxy := marshalProxy (Some p)\<rparr>)) (\<lambda>_.
               go_reconnect (i\<lparr>iProxy := marshalProxy (Some p)\<rparr>)))"

definition SetProxyFromStruct :: "session_env \<Rightarrow> string \<Rightarrow> SetProxyStruct option \<Rightarrow> (server, unit) go" where
  "SetProxyFromStruct env key data =
     (case data of
        None \<Rightarrow> raise ''proxy data cannot be nil''
      | Some d \<Rightarrow> SetProxy env key
          (Some \<lparr>pPort = spPort d, pPassword = spPassword d, pUsername = spUsername d, pHost = spHost d\<rparr>))"

definition RemoveProxy :: "session_env \<Rightarrow> string \<Rightarrow> (server, unit) go" where
  "RemoveProxy env key =
     bindg (repo_GetInstanceByID (seDb env) key) (\<lambda>i.
     bindg (repo_Update (seDb env) (i\<lparr>iProxy := []\<rparr>)) (\<lambda>_. go_reconnect (i\<lparr>iProxy := []\<rparr>)))"

section \<open>Forced reconnection\<close>

text \<open>\<open>IsConnected\<close> and \<open>IsLoggedIn\<close> of a nil client are false.\<close>

definition client_up :: "session_env \<Rightarrow> session_client option \<Rightarrow> (server, bool) go" where
  "client_up env client = (case client of None \<Rightarrow> ret False | Some c \<Rightarrow> client_connected env c)"

definition client_in :: "session_env \<Rightarrow> session_client option \<Rightarrow> (server, bool) go" where
  "client_in env client = (case client of None \<Rightarrow> ret False | Some c \<Rightarrow> client_logged_in env c)"

definition drop_client :: "session_env \<Rightarrow> string \<Rightarrow> (server, unit) go" where
  "drop_client env instanceId =
     bindg (session_client_of instanceId) (\<lambda>client.
       case client of
         None \<Rightarrow> ret ()
       | Some c \<Rightarrow> bindg (client_disconnect c) (\<lambda>_. stop_session env instanceId))"

definition check_login :: "session_env \<Rightarrow> string \<Rightarrow> (server, unit) go" where
  "check_login env instanceId =
     bindg (session_client_of instanceId) (\<lambda>client.
       case client of
         None \<Rightarrow> raise ''failed to connect''
       | Some c \<Rightarrow>
           bindg (client_connected env c) (\<lambda>connected.
             if \<not> connected then raise ''failed to connect''
             else bindg (client_logged_in env c) (\<lambda>loggedIn.
               if \<not> loggedIn then raise ''failed to login'' else ret ())))"

definition restart_client :: "session_env \<Rightarrow> Instance \<Rightarrow> bool \<Rightarrow> (server, unit) go" where
  "restart_client env i isProxy =
     bindg (drop_client env (iId i)) (\<lambda>_.
     bindg (spawn_client \<lparr>cdInstance = i, cdSubscriptions = split_char CHR '','' (iEvents i),
         cdPhone = [], cdIsProxy = isProxy\<rparr>) (\<lambda>_.
     bindg (wait_ms env 2000) (\<lambda>_. check_login env (iId i))))"

definition force_restart :: "session_env \<Rightarrow> session_config \<Rightarrow> string \<Rightarrow> string \<Rightarrow> (server, unit) go" where
  "force_restart env cfg instanceId number =
     bindg (ForceUpdateJid env instanceId number) (\<lambda>_.
     bindg (repo_GetInstanceByID (seDb env) instanceId) (\<lambda>i.
     bindg (make_channel (iId i)) (\<lambda>_.
     bindg (wants_proxy env cfg i) (restart_client env i))))"

definition ForceReconnect :: "session_env \<Rightarrow> session_config \<Rightarrow> string \<Rightarrow> string \<Rightarrow> (server, unit) go" where
  "ForceReconnect env cfg instanceId number =
     bindg (session_client_of instanceId) (\<lambda>client.
     bindg (client_up env client) (\<lambda>connected.
     bindg (if connected then client_in env client else ret False) (\<lambda>loggedIn.
       if connected \<and> loggedIn then raise ''client already connected''
       else force_restart env cfg instanceId number)))"

section \<open>Advanced settings\<close>

definition service_GetAdvancedSettings :: "session_env \<Rightarrow> string \<Rightarrow> (server, AdvancedSettings) go" where
  "service_GetAdvancedSettings env instanceId = repo_GetAdvancedSettings (seDb env) instanceId"

text \<open>A session that is not running is not an error.\<close>

definition service_UpdateAdvancedSettings :: "session_env \<Rightarrow> string \<Rightarrow> AdvancedSettings \<Rightarrow> (server, unit) go" where
  "service_UpdateAdvancedSettings env instanceId settings =
     bindg (repo_UpdateAdvancedSettings (seDb env) instanceId settings) (\<lambda>_.
     attempt (UpdateInstanceAdvancedSettings env instanceId) (\<lambda>_. ret ()))"

section \<open>Authentication\<close>

text \<open>The header \<open>apikey\<close> (empty when missing); the answer is the instance of the request, or 401.\<close>

datatype 'a auth = Unauthorized | Authorized 'a

definition Auth :: "session_env \<Rightarrow> string \<Rightarrow> (server, Instance auth) go" where
  "Auth env token =
     (if token = [] then ret Unauthorized
      else attempt (service_GetInstanceByToken env token) (\<lambda>res.
        case res of Inl _ \<Rightarrow> ret Unauthorized | Inr i \<Rightarrow> ret (Authorized i)))"

definition AuthAdmin :: "session_config \<Rightarrow> string \<Rightarrow> unit auth" where
  "AuthAdmin cfg token =
     (if token = [] then Unauthorized
      else if token \<noteq> scGlobalApiKey cfg then Unauthorized else Authorized ())"

end
