(* ===== verification/InstanceHandler.thy ===== *)
theory InstanceHandler
  imports InstanceService
begin

text \<open>
  The HTTP handlers of \<open>pkg/instance/handler/instance_handler.go\<close> and their routes
  (\<open>pkg/routes/routes.go\<close>), which put the authentication in front of them. A body is given as what
  binding it yields: an error, nothing (the JSON text \<open>null\<close>, which leaves the pointer nil), or the
  structure. The reply is the status class with the data; a panic is \<^const>\<open>Crash\<close>. The handlers of
  the log files are not modelled.
\<close>

datatype 'a reply = Success 'a | BadRequest string | ServerError string | NotFound string | Refused

type_synonym 'a body = "'a option result"

definition reply_server :: "('s, 'a) go \<Rightarrow> ('s, 'a reply) go" where
  "reply_server m = attempt m (\<lambda>r. case r of Inl e \<Rightarrow> ret (ServerError e) | Inr x \<Rightarrow> ret (Success x))"

definition reply_bad :: "('s, 'a) go \<Rightarrow> ('s, 'a reply) go" where
  "reply_bad m = attempt m (\<lambda>r. case r of Inl e \<Rightarrow> ret (BadRequest e) | Inr x \<Rightarrow> ret (Success x))"

text \<open>A nil pointer is dereferenced by the first check of a field.\<close>

definition with_body :: "'b body \<Rightarrow> ('b \<Rightarrow> ('s, 'a reply) go) \<Rightarrow> ('s, 'a reply) go" where
  "with_body body k =
     (case body of Inl e \<Rightarrow> ret (BadRequest e) | Inr None \<Rightarrow> crash | Inr (Some data) \<Rightarrow> k data)"

definition with_param :: "string \<Rightarrow> string \<Rightarrow> ('s, 'a reply) go \<Rightarrow> ('s, 'a reply) go" where
  "with_param missing instanceId m = (if instanceId = [] then ret (BadRequest missing) else m)"

section \<open>The handlers\<close>

definition default_proxy :: "session_config \<Rightarrow> ProxyConfig option" where
  "default_proxy cfg =
     (if global_proxy_complete cfg then
        Some \<lparr>pPort = scProxyPort cfg, pPassword = scProxyPassword cfg, pUsername = scProxyUsername cfg,
          pHost = scProxyHost cfg\<rparr>
      else None)"

definition handle_Create :: "session_env \<Rightarrow> session_config \<Rightarrow> CreateStruct body \<Rightarrow> (server, Instance reply) go" where
  "handle_Create env cfg body =
     with_body body (\<lambda>data.
       if crName data = [] then ret (BadRequest ''name is required'')
       else if crToken data = [] then ret (BadRequest ''token is required'')
       else
         (case crProxy data of
            Some p \<Rightarrow>
              if pPort p = [] then ret (BadRequest ''proxy port is required'')
              else if pPassword p = [] then ret (BadRequest ''proxy password is required'')
              else if pUsername p = [] then ret (BadRequest ''proxy username is required'')
              else if pHost p = [] then ret (BadRequest ''proxy host is required'')
              else reply_server (Create env cfg data)
          | None \<Rightarrow> reply_server (Create env cfg (data\<lparr>crProxy := default_proxy cfg\<rparr>))))"

definition handle_Connect :: "session_env \<Rightarrow> session_config \<Rightarrow> ConnectStruct body \<Rightarrow> Instance \<Rightarrow>
    (server, (string \<times> string \<times> string) reply) go" where
  "handle_Connect env cfg body i =
     (case body of
        Inl e \<Rightarrow> ret (BadRequest e)
      | Inr None \<Rightarrow> crash
      | Inr (Some data) \<Rightarrow>
          reply_server (bindg (Connect env cfg data i) (\<lambda>(i2, jid, eventString). ret (jid, iWebhook i2, eventString))))"

definition handle_Reconnect :: "session_env \<Rightarrow> session_config \<Rightarrow> Instance \<Rightarrow> (server, unit reply) go" where
  "handle_Reconnect env cfg i = reply_server (Reconnect env cfg i)"

text \<open>\<^const>\<open>None\<close>: the request is never answered.\<close>

definition handle_Disconnect :: "session_env \<Rightarrow> session_config \<Rightarrow> Instance \<Rightarrow> (server, unit reply option) go" where
  "handle_Disconnect env cfg i =
     attempt (service_Disconnect env cfg i) (\<lambda>r.
       case r of
         Inl e \<Rightarrow> ret (Some (ServerError e))
       | Inr None \<Rightarrow> ret None
       | Inr (Some _) \<Rightarrow> ret (Some (Success ())))"

definition handle_Logout :: "session_env \<Rightarrow> session_config \<Rightarrow> Instance \<Rightarrow> (server, unit reply) go" where
  "handle_Logout env cfg i = reply_bad (bindg (service_Logout env cfg i) (\<lambda>_. ret ()))"

definition handle_Status :: "session_env \<Rightarrow> session_config \<Rightarrow> Instance \<Rightarrow> (server, StatusStruct reply) go" where
  "handle_Status env cfg i = reply_bad (service_Status env cfg i)"

definition handle_Qr :: "session_env \<Rightarrow> session_config \<Rightarrow> Instance \<Rightarrow> (server, QrcodeStruct reply) go" where
  "handle_Qr env cfg i = reply_bad (service_GetQr env cfg i)"

definition handle_Pair :: "session_env \<Rightarrow> string body \<Rightarrow> Instance \<Rightarrow> (server, string reply) go" where
  "handle_Pair env body i =
     with_body body (\<lambda>phone.
       if phone = [] then ret (BadRequest ''phone is required'')
       else reply_server (service_Pair env phone i))"

definition handle_All :: "session_env \<Rightarrow> session_config \<Rightarrow> (server, Instance list reply) go" where
  "handle_All env cfg = reply_server (service_GetAll env cfg)"

definition handle_Info :: "session_env \<Rightarrow> string \<Rightarrow> (server, Instance reply) go" where
  "handle_Info env instanceId =
     with_param ''instanceId is required'' instanceId (reply_server (service_Info env instanceId))"

definition handle_Delete :: "session_env \<Rightarrow> string \<Rightarrow> (server, unit reply) go" where
  "handle_Delete env instanceId =
     with_param ''instanceId is required'' instanceId (reply_server (service_Delete env instanceId))"

definition handle_SetProxy :: "session_env \<Rightarrow> string \<Rightarrow> SetProxyStruct body \<Rightarrow>
    (server, (string \<times> string \<times> bool) reply) go" where
  "handle_SetProxy env instanceId body =
     with_param ''instanceId is required'' instanceId
       (with_body body (\<lambda>data.
          if spHost data = [] then ret (BadRequest ''host is required'')
          else if spPort data = [] then ret (BadRequest ''port is required'')
          else reply_server (bindg (SetProxyFromStruct env instanceId (Some data)) (\<lambda>_.
            ret (spHost data, spPort data, spUsername data \<noteq> [] \<and> spPassword data \<noteq> [])))))"

definition handle_DeleteProxy :: "session_env \<Rightarrow> string \<Rightarrow> (server, unit reply) go" where
  "handle_DeleteProxy env instanceId =
     with_param ''id is required'' instanceId (reply_server (RemoveProxy env instanceId))"

definition handle_ForceReconnect :: "session_env \<Rightarrow> session_config \<Rightarrow> string \<Rightarrow> string body \<Rightarrow> (server, unit reply) go" where
  "handle_ForceReconnect env cfg instanceId body =
     with_param ''instanceId is required'' instanceId
       (with_body body (\<lambda>number.
          if number = [] then ret (BadRequest ''number is required'')
          else reply_server (ForceReconnect env cfg instanceId number)))"

definition handle_GetAdvancedSettings :: "session_env \<Rightarrow> string \<Rightarrow> (server, AdvancedSettings reply) go" where
  "handle_GetAdvancedSettings env instanceId =
     with_param ''instanceId is required'' instanceId
       (reply_server (service_GetAdvancedSettings env instanceId))"

text \<open>Here the body is bound into a structure, not a pointer: \<open>null\<close> leaves it zero.\<close>

definition handle_UpdateAdvancedSettings :: "session_env \<Rightarrow> string \<Rightarrow> AdvancedSettings body \<Rightarrow>
    (server, AdvancedSettings reply) go" where
  "handle_UpdateAdvancedSettings env instanceId body =
     with_param ''instanceId is required'' instanceId
       (case body of
          Inl e \<Rightarrow> ret (BadRequest e)
        | Inr bound \<Rightarrow>
            let settings = (case bound of None \<Rightarrow> zeroSettings | Some a \<Rightarrow> a) in
            reply_server (bindg (service_UpdateAdvancedSettings env instanceId settings) (\<lambda>_. ret settings)))"

section \<open>The routes\<close>

text \<open>The routes of an instance run behind \<open>Auth\<close>, those of the administrator behind \<open>AuthAdmin\<close>.\<close>

definition behind_auth :: "session_env \<Rightarrow> string \<Rightarrow> (Instance \<Rightarrow> (server, 'a reply) go) \<Rightarrow> (server, 'a reply) go" where
  "behind_auth env apikey handler =
     bindg (Auth env apikey) (\<lambda>who. case who of Unauthorized \<Rightarrow> ret Refused | Authorized i \<Rightarrow> handler i)"

definition behind_admin :: "session_config \<Rightarrow> string \<Rightarrow> (server, 'a reply) go \<Rightarrow> (server, 'a reply) go" where
  "behind_admin cfg apikey handler =
     (case AuthAdmin cfg apikey of Unauthorized \<Rightarrow> ret Refused | Authorized _ \<Rightarrow> handler)"

text \<open>\<open>GET\<close> and \<open>PUT /instance/:instanceId/advanced-settings\<close>.\<close>

definition route_GetAdvancedSettings :: "session_env \<Rightarrow> string \<Rightarrow> string \<Rightarrow> (server, AdvancedSettings reply) go" where
  "route_GetAdvancedSettings env apikey instanceId =
     behind_auth env apikey (\<lambda>_. handle_GetAdvancedSettings env instanceId)"

definition route_UpdateAdvancedSettings :: "session_env \<Rightarrow> string \<Rightarrow> string \<Rightarrow> AdvancedSettings body \<Rightarrow>
    (server, AdvancedSettings reply) go" where
  "route_UpdateAdvancedSettings env apikey instanceId body =
     behind_auth env apikey (\<lambda>_. handle_UpdateAdvancedSettings env instanceId body)"

definition route_Delete :: "session_env \<Rightarrow> session_config \<Rightarrow> string \<Rightarrow> string \<Rightarrow> (server, unit reply) go" where
  "route_Delete env cfg apikey instanceId = behind_admin cfg apikey (handle_Delete env instanceId)"

definition route_Create :: "session_env \<Rightarrow> session_config \<Rightarrow> string \<Rightarrow> CreateStruct body \<Rightarrow> (server, Instance reply) go" where
  "route_Create env cfg apikey body = behind_admin cfg apikey (handle_Create env cfg body)"

end
