(* ===== verification/ServiceInvariants.thy ===== *)
theory ServiceInvariants
  imports InstanceHandler
begin

text \<open>
  What every operation on sessions and instances keeps. The locale \<open>session_rely\<close> is the interface
  between the operations and the relations they keep: a relation that the primitive steps and the
  other goroutines keep is kept by every operation. It is interpreted for the uniqueness of keys in
  the database and for the state of the kill channels.
\<close>

section \<open>From the primitives to the operations\<close>

definition same_keys :: "(Instance \<Rightarrow> Instance) \<Rightarrow> bool" where
  "same_keys f = (\<forall>r. iId (f r) = iId r \<and> iToken (f r) = iToken r)"

text \<open>The updates of the state outside the database and the kill channels.\<close>

definition local_update :: "(server \<Rightarrow> server) \<Rightarrow> bool" where
  "local_update f = (\<forall>s. dbInstances (f s) = dbInstances s \<and> dbLabels (f s) = dbLabels s \<and>
     dbMessages (f s) = dbMessages s \<and> svKill (f s) = svKill s \<and> svClosed (f s) = svClosed s \<and>
     svChannels (f s) = svChannels s)"

locale session_rely = frame R for R :: "server \<Rightarrow> server \<Rightarrow> bool" +
  fixes env :: session_env
  assumes local: "local_update f \<Longrightarrow> R s (f s)"
    and others: "R s (seOthers env n s)"
    and fresh: "keeps R (make_channel k)"
    and forget: "keeps R (forget_channel k)"
    and shut: "keeps R (close_kill k)" "keeps R (signal_and_close env k)"
    and update: "same_keys g \<Longrightarrow> keeps R (update_instances (seDb env) k g)"
    and create: "keeps R (gorm_create (seDb env) i)"
    and save: "keeps R (gorm_save (seDb env) i)"
    and delete: "keeps R (repo_Delete (seDb env) k)"
begin

lemma modify_local: "local_update f \<Longrightarrow> keeps R (modify f)"
  by (rule keeps_modify) (rule local)

lemma keeps_clock: "keeps R clock" "keeps R (statement d)" "keeps R (read_uuid d t)" "keeps R (check_uuid d t)"
  "keeps R (question h)"
proof -
  have "R s (s\<lparr>stTick := n\<rparr>)" for s n by (rule local [of "\<lambda>s. s\<lparr>stTick := n\<rparr>"]) (simp add: local_update_def)
  then show c: "keeps R clock" "keeps R (statement d)" "keeps R (read_uuid d t)" "keeps R (check_uuid d t)"
    by (auto simp: keeps_def run_clock run_statement run_read_uuid run_check_uuid frame_refl)
  show "keeps R (question h)" unfolding question_def by (intro keeps_bind c keeps_pure)
qed

lemma keeps_first: "keeps R (first_instance d P)" "keeps R (find_instances d P)"
  unfolding first_instance_def find_instances_def by (intro keeps_intros keeps_clock)+

lemma keeps_repo:
  "keeps R (repo_GetInstanceByToken d t)" "keeps R (repo_GetInstanceByName d t)"
  "keeps R (repo_GetInstanceByID d t)" "keeps R (repo_GetConnectedInstanceByID d t)"
  "keeps R (repo_GetAllConnectedInstances d)" "keeps R (repo_GetAllConnectedInstancesByClientName d t)"
  "keeps R (repo_GetAll d t)" "keeps R (repo_GetAdvancedSettings d t)"
  unfolding repo_reads by (intro keeps_intros keeps_clock keeps_first)+

lemma keeps_repo_updates:
  "keeps R (repo_UpdateConnected (seDb env) t b q)" "keeps R (repo_UpdateQrcode (seDb env) t q)"
  "keeps R (repo_UpdateProxy (seDb env) t q)" "keeps R (repo_UpdateJid (seDb env) t q)"
  "keeps R (repo_UpdateAdvancedSettings (seDb env) t a)" "keeps R (repo_Create (seDb env) i)"
  "keeps R (repo_Update (seDb env) i)"
  unfolding repo_updates repo_Create_def repo_Update_def
  by (intro keeps_intros keeps_clock update create save; simp add: same_keys_def)+

lemma keeps_steps:
  "keeps R (client_disconnect c)" "keeps R (forget_client k)" "keeps R (forget_my_client k)"
  "keeps R (forget_user_info t)" "keeps R (set_user_info i)" "keeps R (spawn_client cd)"
  "keeps R (new_instance_struct i)" "keeps R (change_session m f)" "keeps R (go_reconnect i)"
  unfolding client_disconnect_def forget_client_def forget_my_client_def forget_user_info_def
    set_user_info_def spawn_client_def go_reconnect_def session_heap_defs
  by (intro keeps_intros modify_local; simp add: local_update_def)+

lemma keeps_wait: "keeps R (wait_ms env ms)"
proof -
  have "R s (seOthers env n (s\<lparr>svSlept := svSlept s + ms\<rparr>))" for s n
    by (rule frame_trans [OF local [of "\<lambda>s. s\<lparr>svSlept := svSlept s + ms\<rparr>"] others]) (simp add: local_update_def)
  then show ?thesis unfolding wait_ms_def by (intro keeps_bind keeps_clock keeps_modify)
qed

lemma keeps_clients: "keeps R (client_connected env c)" "keeps R (client_logged_in env c)"
  "keeps R (client_logout env c)"
  unfolding client_connected_def client_logged_in_def client_logout_def
  by (intro keeps_intros keeps_clock modify_local; simp add: local_update_def)+

lemma keeps_send: "keeps R (try_send env ch)" "keeps R (send_waiting env ch ms)"
  "keeps R (send_within env ch ms)" "keeps R (send_blocking env ch)"
proof -
  have sig: "keeps R (modify (\<lambda>s. s\<lparr>svSignals := svSignals s @ [c]\<rparr>))" for c
    by (rule modify_local) (simp add: local_update_def)
  show "keeps R (try_send env ch)"
    unfolding try_send_def by (intro keeps_intros keeps_clock sig)
  show w: "keeps R (send_waiting env ch ms)" for ms
    unfolding send_waiting_def by (intro keeps_intros keeps_clock keeps_wait sig)
  show "keeps R (send_within env ch ms)" "keeps R (send_blocking env ch)"
    unfolding send_within_def send_blocking_def by (intro keeps_intros w)+
qed

lemmas keeps_all = keeps_intros keeps_clock keeps_repo keeps_repo_updates keeps_steps keeps_wait
  keeps_clients keeps_send fresh forget delete

lemma keeps_StartInstance: "keeps R (StartInstance env cfg k)"
  unfolding StartInstance_def with_global_proxy_def read_proxy_def Let_def by (intro keeps_all)

lemma keeps_startup: "keeps R (ConnectOnStartup env cfg k)"
proof -
  have "keeps R (foldr (\<lambda>i rest. attempt (StartInstance env cfg (iId i)) (\<lambda>_. rest)) is (ret ()))" for "is"
    by (induction "is") (auto intro!: keeps_all keeps_StartInstance)
  then show ?thesis unfolding ConnectOnStartup_def by (intro keeps_all)
qed

lemma keeps_existing: "keeps R (disconnect_existing env k)"
proof -
  have "keeps R (modify (\<lambda>s. s\<lparr>svRemovedHandlers := svRemovedHandlers s @ [h]\<rparr>))" for h
    by (rule modify_local) (simp add: local_update_def)
  then show ?thesis unfolding disconnect_existing_def by (intro keeps_all)
qed

lemma keeps_ReconnectClient: "keeps R (ReconnectClient env cfg k)"
  unfolding ReconnectClient_def by (intro keeps_all keeps_existing keeps_StartInstance)

lemma keeps_ClearInstanceCache: "keeps R (ClearInstanceCache env k t)"
  unfolding ClearInstanceCache_def by (intro keeps_all shut)

lemma keeps_settings: "keeps R (UpdateInstanceSettings env k)" "keeps R (UpdateInstanceAdvancedSettings env k)"
  unfolding UpdateInstanceSettings_def UpdateInstanceAdvancedSettings_def by (intro keeps_all)+

lemma keeps_ForceUpdateJid: "keeps R (ForceUpdateJid env k t)"
proof -
  have "keeps R (modify (\<lambda>s. s\<lparr>svQueries := svQueries s @ [q]\<rparr>))" for q
    by (rule modify_local) (simp add: local_update_def)
  then show ?thesis unfolding ForceUpdateJid_def by (intro keeps_all)
qed

lemma keeps_ensure: "keeps R (service_ensureClientConnected env cfg k)"
  unfolding service_ensureClientConnected_def session_client_of_def by (intro keeps_all keeps_StartInstance)

lemma keeps_wants: "keeps R (wants_proxy env cfg i)"
  unfolding wants_proxy_def read_proxy_def by (intro keeps_all)

lemma keeps_stop: "keeps R (stop_session env k)"
  unfolding stop_session_def by (intro keeps_all)

lemma keeps_live: "keeps R (with_live_status env i)"
  unfolding with_live_status_def session_client_of_def by (intro keeps_all)

lemma keeps_service:
  "keeps R (Create env cfg data)" "keeps R (Connect env cfg codata i)" "keeps R (Reconnect env cfg i)"
  "keeps R (service_Disconnect env cfg i)" "keeps R (service_Logout env cfg i)"
  "keeps R (service_Status env cfg i)" "keeps R (service_GetQr env cfg i)" "keeps R (service_Pair env t i)"
  "keeps R (service_GetInstanceByToken env t)" "keeps R (service_Info env t)"
  unfolding Create_def Connect_def Reconnect_def service_Disconnect_def service_Logout_def
    service_Status_def service_GetQr_def service_Pair_def service_GetInstanceByToken_def service_Info_def
    session_client_of_def Let_def
  by (intro keeps_all keeps_ensure keeps_ReconnectClient keeps_settings keeps_wants keeps_stop keeps_live)+

lemma keeps_GetAll: "keeps R (service_GetAll env cfg)"
proof -
  have "keeps R (with_live_statuses env is)" for "is"
    by (induction "is") (auto intro!: keeps_all keeps_live)
  then show ?thesis unfolding service_GetAll_def by (intro keeps_all)
qed

lemma keeps_Delete: "keeps R (service_Delete env k)"
proof -
  have "keeps R (end_client env i)" for i
    unfolding end_client_def session_client_of_def by (intro keeps_all)
  then show ?thesis unfolding service_Delete_def by (intro keeps_all keeps_ClearInstanceCache shut)
qed

lemma keeps_proxies: "keeps R (SetProxy env k p)" "keeps R (SetProxyFromStruct env k d)" "keeps R (RemoveProxy env k)"
  unfolding SetProxyFromStruct_def SetProxy_def RemoveProxy_def by (intro keeps_all)+

lemma keeps_ForceReconnect: "keeps R (ForceReconnect env cfg k t)"
  unfolding ForceReconnect_def force_restart_def restart_client_def session_client_of_def client_up_def client_in_def drop_client_def check_login_def
  by (intro keeps_all keeps_ForceUpdateJid keeps_wants keeps_stop)

lemma keeps_advanced: "keeps R (service_GetAdvancedSettings env k)" "keeps R (service_UpdateAdvancedSettings env k a)"
  unfolding service_GetAdvancedSettings_def service_UpdateAdvancedSettings_def by (intro keeps_all keeps_settings)+

end

section \<open>Keys and channels\<close>

text \<open>The kill channels in the map are open, known and not shared.\<close>

definition chan_ok :: "server \<Rightarrow> bool" where
  "chan_ok s =
     ((\<forall>k c. svKill s k = Some c \<longrightarrow> c < svChannels s \<and> c \<notin> set (svClosed s)) \<and>
      (\<forall>c \<in> set (svClosed s). c < svChannels s) \<and>
      (\<forall>k k' c. svKill s k = Some c \<longrightarrow> svKill s k' = Some c \<longrightarrow> k = k'))"

definition server_ok :: "session_env \<Rightarrow> server \<Rightarrow> bool" where
  "server_ok env s = (db_ok (seDb env) s \<and> chan_ok s)"

text \<open>What is relied upon: UUIDs are canonical, and the other goroutines keep the invariant, too.\<close>

definition rely :: "session_env \<Rightarrow> (server \<Rightarrow> bool) \<Rightarrow> bool" where
  "rely env I = (canonical (seDb env) \<and> (\<forall>n s. I s \<longrightarrow> I (seOthers env n s)))"

definition under_rely :: "session_env \<Rightarrow> (server \<Rightarrow> bool) \<Rightarrow> server \<Rightarrow> server \<Rightarrow> bool" where
  "under_rely env I s s' = (rely env I \<longrightarrow> I s \<longrightarrow> I s')"

lemma keeps_under_rely: "(rely env I \<Longrightarrow> keeps (\<lambda>s s'. I s \<longrightarrow> I s') m) \<Longrightarrow> keeps (under_rely env I) m"
  by (simp add: keeps_def under_rely_def)

lemma keeps_ok_server: "keeps (keeps_ok d) m \<Longrightarrow> keeps (\<lambda>s s'. db_ok d s \<longrightarrow> db_ok d s') m"
  by (simp add: keeps_def keeps_ok_def)

lemma db_ok_local: "local_update f \<Longrightarrow> db_ok d (f s) = db_ok d s"
  by (simp add: local_update_def db_ok_def)

lemma chan_ok_local: "local_update f \<Longrightarrow> chan_ok (f s) = chan_ok s"
  by (simp add: local_update_def chan_ok_def)

lemma db_ok_runtime [simp]:
  "db_ok d (svKill_update f s) = db_ok d s" "db_ok d (svClosed_update g s) = db_ok d s"
  "db_ok d (svChannels_update h s) = db_ok d s" "db_ok d (svSignals_update j s) = db_ok d s"
  by (simp_all add: db_ok_def)

text \<open>The database operations do not touch the channels, nor the channel operations the database.\<close>

definition channels_of :: "server \<Rightarrow> (string \<Rightarrow> channel option) \<times> channel list \<times> nat" where
  "channels_of s = (svKill s, svClosed s, svChannels s)"

lemma chan_ok_same: "channels_of s' = channels_of s \<Longrightarrow> chan_ok s' = chan_ok s"
  by (simp add: channels_of_def chan_ok_def)

lemma channels_modify: "(\<And>s. channels_of (f s) = channels_of s) \<Longrightarrow> keeps (same channels_of) (modify f)"
  by (rule part.keeps_modify) (simp add: same_def)

lemma channels_clock:
  "keeps (same channels_of) clock" "keeps (same channels_of) (statement d)"
  "keeps (same channels_of) (read_uuid d t)"
  by (auto simp: keeps_def run_clock run_statement run_read_uuid same_def channels_of_def)

lemma channels_update: "keeps (same channels_of) (update_instances d k g)"
  unfolding update_instances_def
  by (intro part.keeps_intros channels_clock channels_modify) (simp add: channels_of_def)

lemma channels_create: "keeps (same channels_of) (insert_instance d i)"
  "keeps (same channels_of) (created_now d i)" "keeps (same channels_of) (gorm_create d i)"
proof -
  show ins: "keeps (same channels_of) (insert_instance d i)" for i
    unfolding insert_instance_def
    by (intro part.keeps_intros channels_clock channels_modify) (simp add: channels_of_def)
  show new: "keeps (same channels_of) (created_now d i)" for i
    unfolding created_now_def by (intro part.keeps_intros channels_clock)
  show "keeps (same channels_of) (gorm_create d i)"
    unfolding gorm_create_def by (intro part.keeps_intros channels_clock ins new)
qed

lemma channels_save: "keeps (same channels_of) (gorm_save d i)"
  unfolding gorm_save_def
  by (intro part.keeps_intros channels_clock channels_create channels_modify) (simp add: channels_of_def)

lemma channels_transaction:
  assumes "keeps (same channels_of) m"
  shows "keeps (same channels_of) (transaction d m)"
proof -
  have "keeps (same channels_of) (bindg (statement d) (\<lambda>_. bindg m (\<lambda>_. statement d)))"
    by (intro part.keeps_intros channels_clock assms)
  then show ?thesis
    by (auto simp: keeps_def same_def channels_of_def transaction_def rolled_back_def split: prod.splits outcome.splits)
qed

lemma channels_delete: "keeps (same channels_of) (repo_Delete d k)"
  unfolding repo_Delete_def with_prefix_def
  by (intro channels_transaction part.keeps_intros channels_clock channels_modify)
    (simp_all add: channels_of_def)

lemma keeps_chan_ok: "keeps (same channels_of) m \<Longrightarrow> keeps (under_rely env chan_ok) m"
  unfolding keeps_def same_def under_rely_def using chan_ok_same by blast

text \<open>The channel operations keep the channels well formed and the tables as they are.\<close>

lemma make_channel_run:
  "make_channel k s = (Return (), s\<lparr>svKill := (svKill s)(k \<mapsto> svChannels s), svChannels := Suc (svChannels s)\<rparr>)"
  by (simp add: make_channel_def run_basic)

lemma chan_ok_fresh: "chan_ok s \<Longrightarrow>
   chan_ok (s\<lparr>svKill := (svKill s)(k \<mapsto> svChannels s), svChannels := Suc (svChannels s)\<rparr>)"
  by (auto simp: chan_ok_def less_Suc_eq)

lemma chan_ok_forget: "chan_ok s \<Longrightarrow> chan_ok (s\<lparr>svKill := (svKill s)(k := None)\<rparr>)"
  unfolding chan_ok_def by auto

lemma chan_ok_close: "chan_ok s \<Longrightarrow> svKill s k = Some c \<Longrightarrow>
   chan_ok (s\<lparr>svClosed := c # svClosed s, svKill := (svKill s)(k := None)\<rparr>)"
  unfolding chan_ok_def by auto

lemma close_kill_run:
  "close_kill k s =
     (case svKill s k of
        None \<Rightarrow> (Return (), s)
      | Some c \<Rightarrow> if c \<in> set (svClosed s) then (Crash, s)
          else (Return (), s\<lparr>svClosed := c # svClosed s, svKill := (svKill s)(k := None)\<rparr>))"
  by (simp add: close_kill_def close_channel_def forget_channel_def bindg_def run_basic split: option.split)

definition after_signal :: "session_env \<Rightarrow> channel \<Rightarrow> server \<Rightarrow> server" where
  "after_signal env c s =
     (if seWaiting env (stTick s) c then s\<lparr>stTick := Suc (stTick s), svSignals := svSignals s @ [c]\<rparr>
      else s\<lparr>stTick := Suc (stTick s)\<rparr>)"

lemma after_signal_simps [simp]:
  "svKill (after_signal env c s) = svKill s" "svClosed (after_signal env c s) = svClosed s"
  "svChannels (after_signal env c s) = svChannels s" "db_ok d (after_signal env c s) = db_ok d s"
  "chan_ok (after_signal env c s) = chan_ok s" "dbInstances (after_signal env c s) = dbInstances s"
  "dbLabels (after_signal env c s) = dbLabels s" "dbMessages (after_signal env c s) = dbMessages s"
  "svClients (after_signal env c s) = svClients s" "svMyClients (after_signal env c s) = svMyClients s"
  "svUserInfo (after_signal env c s) = svUserInfo s"
  by (simp_all add: after_signal_def db_ok_def chan_ok_def)

lemma try_send_run:
  "c \<notin> set (svClosed s) \<Longrightarrow> try_send env (Some c) s = (Return (), after_signal env c s)"
  by (simp add: try_send_def question_def bindg_def run_clock run_basic after_signal_def)

lemma signal_and_close_run:
  "signal_and_close env k s =
     (case svKill s k of
        None \<Rightarrow> (Return (), s)
      | Some c \<Rightarrow> if c \<in> set (svClosed s) then (Crash, s)
          else (Return (), (after_signal env c s)\<lparr>svClosed := c # svClosed s, svKill := (svKill s)(k := None)\<rparr>))"
proof (cases "svKill s k")
  case (Some c)
  show ?thesis
  proof (cases "c \<in> set (svClosed s)")
    case True
    with Some show ?thesis
      by (simp add: signal_and_close_def bindg_def run_basic try_send_def)
  next
    case False
    with Some show ?thesis
      by (simp add: signal_and_close_def bindg_def run_basic try_send_run close_channel_def forget_channel_def)
  qed
qed (simp add: signal_and_close_def bindg_def run_basic)

interpretation keys: session_rely "under_rely env (db_ok (seDb env))" env for env
proof (unfold_locales, goal_cases)
  case (3 f s) then show ?case by (simp add: under_rely_def db_ok_local)
next
  case (5 k) then show ?case by (auto simp: keeps_def make_channel_run under_rely_def)
next
  case (6 k) then show ?case by (auto simp: keeps_def forget_channel_def run_basic under_rely_def)
next
  case (7 k) then show ?case
    by (auto simp: keeps_def close_kill_run under_rely_def split: option.splits if_splits)
next
  case (8 k)
  have "keeps (keeps_ok (seDb env)) (signal_and_close env k)"
    by (rule keepsI) (auto simp: signal_and_close_run keeps_ok_def split: option.splits if_splits)
  then show ?case by (intro keeps_under_rely keeps_ok_server)
next
  case (9 g k)
  then have "keeps (keeps_ok (seDb env)) (update_instances (seDb env) k g)"
    by (intro keeps_ok_update) (simp_all add: same_keys_def)
  then show ?case by (intro keeps_under_rely keeps_ok_server)
qed (auto simp: under_rely_def rely_def intro!: keeps_under_rely keeps_ok_server keeps_ok_create keeps_ok_save keeps_ok_delete)

interpretation channels: session_rely "under_rely env chan_ok" env for env
proof (unfold_locales, goal_cases)
  case (3 f s) then show ?case by (simp add: under_rely_def chan_ok_local)
next
  case (5 k) then show ?case by (auto simp: keeps_def make_channel_run under_rely_def chan_ok_fresh)
next
  case (6 k) then show ?case by (auto simp: keeps_def forget_channel_def run_basic under_rely_def chan_ok_forget)
next
  case (7 k) then show ?case
    by (auto simp: keeps_def close_kill_run under_rely_def chan_ok_close split: option.splits if_splits)
next
  case (8 k)
  have "chan_ok s \<longrightarrow> chan_ok s'" if "signal_and_close env k s = (r, s')" for s r s'
    using that chan_ok_close [of "after_signal env (the (svKill s k)) s" k "the (svKill s k)"]
    by (auto simp: signal_and_close_run split: option.splits if_splits)
  then show ?case by (auto simp: keeps_def under_rely_def)
qed (auto simp: under_rely_def rely_def intro!: keeps_chan_ok channels_update channels_create channels_save channels_delete)

end
