(* ===== verification/SessionRun.thy ===== *)
theory SessionRun
  imports Sessions Numbers
begin

text \<open>
  The goroutine of a session, \<open>StartClient\<close> of \<open>pkg/whatsmeow/service/whatsmeow.go\<close>: the device, the
  version, the proxy, the connection with its fallbacks, the loop over QR codes and the loop that
  waits for the kill signal and starts anew. The goroutine is a machine whose phase says where it
  waits; \<open>run_session\<close> runs it for a number of steps, a step being a start or one look at the kill
  channel, since the loop has no bound of its own. Also the goroutine \<open>schedulePresenceUpdates\<close>,
  which waits for the same signal.
\<close>

section \<open>Events of the gateway\<close>

definition read_instance :: "address \<Rightarrow> (server, Instance) go" where
  "read_instance a = gets (\<lambda>s. svInstances s a)"

definition write_instance :: "address \<Rightarrow> Instance \<Rightarrow> (server, unit) go" where
  "write_instance a i = modify (set_instance a i)"

definition change_instance :: "address \<Rightarrow> (Instance \<Rightarrow> Instance) \<Rightarrow> (server, unit) go" where
  "change_instance a f = modify (\<lambda>s. set_instance a (f (svInstances s a)) s)"

definition read_session :: "address \<Rightarrow> (server, MyClient) go" where
  "read_session m = gets (\<lambda>s. svSessions s m)"

definition command :: "client_command \<Rightarrow> (server, unit) go" where
  "command c = modify (\<lambda>s. s\<lparr>svCommands := svCommands s @ [c]\<rparr>)"

text \<open>The event as it is marshalled, the queue, and the two goroutines that take it on.\<close>

definition event_map :: "string \<Rightarrow> json \<Rightarrow> MyClient \<Rightarrow> Instance \<Rightarrow> json_object" where
  "event_map event data m i =
     [''event'' \<mapsto> JStr event, ''data'' \<mapsto> data, ''instanceToken'' \<mapsto> JStr (mcToken m),
      ''instanceId'' \<mapsto> JStr (mcUserID m), ''instanceName'' \<mapsto> JStr (iName i)]"

definition queue_name :: "string \<Rightarrow> string \<Rightarrow> string" where
  "queue_name key event = to_lower (key @ ''.'' @ event)"

definition dispatch :: "session_config \<Rightarrow> Instance \<Rightarrow> string \<Rightarrow> string \<Rightarrow> string \<Rightarrow> json_object \<Rightarrow> (server, unit) go" where
  "dispatch cfg i key event user values =
     bindg (modify (\<lambda>s. s\<lparr>svPosts := svPosts s @
       [\<lparr>poInstance = i, poQueue = queue_name key event, poPayload = values\<rparr>]\<rparr>)) (\<lambda>_.
       if AmqpGlobalEnabled (scGlobal cfg) \<or> NatsGlobalEnabled (scGlobal cfg) then
         modify (\<lambda>s. s\<lparr>svGlobalPosts := svGlobalPosts s @ [(event, values, user)]\<rparr>)
       else ret ())"

text \<open>An event of the session goroutine, about the instance of its argument.\<close>

definition post_session :: "session_config \<Rightarrow> address \<Rightarrow> address \<Rightarrow> string \<Rightarrow> json_object \<Rightarrow> (server, unit) go" where
  "post_session cfg a m event data =
     bindg (read_instance a) (\<lambda>i.
     bindg (read_session m) (\<lambda>mycli.
       dispatch cfg i (iId i) event (mcUserID mycli) (event_map event (JObj data) mycli i)))"

section \<open>The version of the web client\<close>

text \<open>The four patterns of \<open>fetchWhatsAppWebVersion\<close> as sequences of character classes, each once, at
  most once or repeated, before a run of digits; the first match is the leftmost one. Optional parts
  are taken when the rest then matches.\<close>

datatype piece = One string | Maybe string | Many string

definition lit :: "string \<Rightarrow> piece list" where
  "lit t = map (\<lambda>c. One [c]) t"

fun match_here :: "piece list \<Rightarrow> string \<Rightarrow> string option" where
  "match_here [] s = (if s \<noteq> [] \<and> is_digit (hd s) then Some (takeWhile is_digit s) else None)"
| "match_here (One cs # ps) s =
     (case s of [] \<Rightarrow> None | c # t \<Rightarrow> if c \<in> set cs then match_here ps t else None)"
| "match_here (Maybe cs # ps) s =
     (case s of
        [] \<Rightarrow> match_here ps []
      | c # t \<Rightarrow>
          if c \<in> set cs then (case match_here ps t of Some r \<Rightarrow> Some r | None \<Rightarrow> match_here ps (c # t))
          else match_here ps (c # t))"
| "match_here (Many cs # ps) s =
     (case s of
        [] \<Rightarrow> match_here ps []
      | c # t \<Rightarrow>
          if c \<in> set cs then
            (case match_here (Many cs # ps) t of Some r \<Rightarrow> Some r | None \<Rightarrow> match_here ps (c # t))
          else match_here ps (c # t))"

fun match_leftmost :: "piece list \<Rightarrow> string \<Rightarrow> string option" where
  "match_leftmost ps [] = match_here ps []"
| "match_leftmost ps (c # s) =
     (case match_here ps (c # s) of Some r \<Rightarrow> Some r | None \<Rightarrow> match_leftmost ps s)"

text \<open>\<open>\s\<close>: tab, line feed, form feed, carriage return, blank.\<close>

definition blanks :: string where
  "blanks = [CHR 0x09, CHR 0x0A, CHR 0x0C, CHR 0x0D, CHR 0x20]"

definition revision_patterns :: "piece list list" where
  "revision_patterns =
    (let q = CHR 0x22; b = CHR 0x5C in
     [lit (q # ''client_revision'' @ [q] @ '':'') @ [Many blanks],
      lit ([b, q] @ ''client_revision'' @ [b, q] @ '':'') @ [Many blanks],
      lit ''client_revision'' @ [Maybe [b], One [b], Maybe [q]] @ lit '':'' @ [Many blanks],
      [One [q, CHR 0x27]] @ lit ''client_revision'' @ [One [q, CHR 0x27], Many blanks] @ lit '':'' @ [Many blanks]])"

fun find_revision :: "piece list list \<Rightarrow> string \<Rightarrow> int option" where
  "find_revision [] content = None"
| "find_revision (p # ps) content =
     (case match_leftmost p content of
        None \<Rightarrow> find_revision ps content
      | Some digits \<Rightarrow>
          (case atoi digits of
             None \<Rightarrow> find_revision ps content
           | Some n \<Rightarrow> if n > 0 then Some n else find_revision ps content))"

definition fetchWhatsAppWebVersion :: "session_env \<Rightarrow> (server, int \<times> int \<times> int) go" where
  "fetchWhatsAppWebVersion env =
     bindg (question (\<lambda>n. seWebPage env n)) (\<lambda>page.
       case page of
         Inl e \<Rightarrow> raise e
       | Inr content \<Rightarrow>
           (case find_revision revision_patterns content of
              Some revision \<Rightarrow> ret (2, 3000, revision)
            | None \<Rightarrow>
                raise (''could not find client revision in the fetched content. Content preview: '' @
                  (if length content > 500 then take 500 content @ ''...'' else content))))"

definition uint32_version :: "int \<times> int \<times> int \<Rightarrow> 32 word \<times> 32 word \<times> 32 word" where
  "uint32_version v = (case v of (x, y, z) \<Rightarrow> (word_of_int x, word_of_int y, word_of_int z))"

definition set_version :: "int \<times> int \<times> int \<Rightarrow> (server, unit) go" where
  "set_version v = modify (\<lambda>s. s\<lparr>svDeviceProps := (svDeviceProps s)\<lparr>dpVersion := uint32_version v\<rparr>\<rparr>)"

definition choose_version :: "session_env \<Rightarrow> session_config \<Rightarrow> (server, unit) go" where
  "choose_version env cfg =
    (let (x, y, z) = scWhatsappVersion cfg in
     if x \<noteq> 0 \<and> y \<noteq> 0 \<and> z \<noteq> 0 then set_version (x, y, z)
     else attempt (fetchWhatsAppWebVersion env) (\<lambda>v.
       case v of Inl _ \<Rightarrow> ret () | Inr w \<Rightarrow> set_version w))"

section \<open>Starting\<close>

definition container_source :: "session_config \<Rightarrow> string \<times> string" where
  "container_source cfg =
     (if scPostgresAuthDB cfg \<noteq> [] then (''postgres'', scPostgresAuthDB cfg)
      else (''sqlite'', ''file:'' @ scExPath cfg @
        ''/dbdata/main.db?_pragma=foreign_keys(1)&_busy_timeout=5000&cache=shared&mode=rwc&_journal_mode=WAL''))"

text \<open>The device of the stored JID, or a new one; a JID without a device is disconnected in the
  database. The verdict of \<open>ParseJID\<close> is dropped.\<close>

definition device_for :: "session_env \<Rightarrow> session_config \<Rightarrow> address \<Rightarrow> (server, unit) go" where
  "device_for env cfg a =
     bindg (question (\<lambda>n. seContainer env n (container_source cfg))) (\<lambda>e.
     bindg (of_error e) (\<lambda>_.
     bindg (read_instance a) (\<lambda>i.
     bindg (if iJid i \<noteq> [] then bindg (question (\<lambda>n. seGetDevice env n (fst (utils_ParseJID (iJid i))))) of_result
            else ret True) (\<lambda>found.
       if found then ret ()
       else
         bindg (change_instance a (\<lambda>r. r\<lparr>iConnected := False\<rparr>)) (\<lambda>_.
           attempt (repo_UpdateConnected (seDb env) (iId i) False (iDisconnectReason i)) (\<lambda>_. ret ()))))))"

definition describe_device :: "session_env \<Rightarrow> session_config \<Rightarrow> address \<Rightarrow> (server, unit) go" where
  "describe_device env cfg a =
     bindg (change_instance a (\<lambda>i. if iOsName i = [] then i\<lparr>iOsName := scOsName cfg\<rparr> else i)) (\<lambda>_.
     bindg (read_instance a) (\<lambda>i.
     bindg (modify (\<lambda>s. s\<lparr>svDeviceProps := (svDeviceProps s)
         \<lparr>dpPlatform := ''CHROME'', dpOs := iOsName i, dpFullSync := True\<rparr>\<rparr>)) (\<lambda>_.
       choose_version env cfg)))"

definition new_client :: "string \<Rightarrow> (server, session_client) go" where
  "new_client key =
     bindg (allocate (\<lambda>c. id)) (\<lambda>c.
     bindg (modify (\<lambda>s. s\<lparr>svClients := (svClients s)(key \<mapsto> c)\<rparr>)) (\<lambda>_. ret c))"

text \<open>Each part of the proxy that the instance leaves empty is taken from the configuration.\<close>

definition merged_proxy :: "session_config \<Rightarrow> ProxyConfig \<Rightarrow> ProxyConfig" where
  "merged_proxy cfg p =
     \<lparr>pPort = if pPort p = [] then scProxyPort cfg else pPort p,
      pPassword = if pPassword p = [] then scProxyPassword cfg else pPassword p,
      pUsername = if pUsername p = [] then scProxyUsername cfg else pUsername p,
      pHost = if pHost p = [] then scProxyHost cfg else pHost p\<rparr>"

definition apply_proxy :: "session_env \<Rightarrow> session_config \<Rightarrow> address \<Rightarrow> session_client \<Rightarrow> (server, unit) go" where
  "apply_proxy env cfg a c =
     bindg (read_instance a) (\<lambda>i.
     bindg (read_proxy env (iProxy i)) (\<lambda>p.
     bindg (question (\<lambda>n. seSocks env n (merged_proxy cfg p))) (\<lambda>e.
       if e = None then command (UseSocks c (merged_proxy cfg p)) else ret ())))"

definition new_session :: "session_env \<Rightarrow> address \<Rightarrow> string list \<Rightarrow> session_client \<Rightarrow> (server, address) go" where
  "new_session env a subscriptions c =
     bindg (read_instance a) (\<lambda>i.
     bindg (question (\<lambda>n. seHandlerID env n c)) (\<lambda>h.
     bindg (allocate (\<lambda>m. set_session m
       \<lparr>mcInstance = a, mcWAClient = c, mcUserID = iId i, mcToken = iToken i, mcSubscriptions = subscriptions,
        mcWebhookUrl = iWebhook i, mcRabbitmqEnable = iRabbitmqEnable i, mcNatsEnable = iNatsEnable i,
        mcWebsocketEnable = iWebSocketEnable i, mcEventHandlerID = h, mcQrcodeCount = 0\<rparr>)) (\<lambda>m.
     bindg (modify (\<lambda>s. s\<lparr>svMyClients := (svMyClients s)(iId i \<mapsto> m)\<rparr>)) (\<lambda>_. ret m))))"

section \<open>Connecting\<close>

definition dial :: "session_env \<Rightarrow> session_client \<Rightarrow> (server, unit) go" where
  "dial env c =
     bindg (command (Dial c)) (\<lambda>_. bindg (question (\<lambda>n. seDial env n c)) of_error)"

text \<open>\<open>client.Connect()\<close> with the second attempt: after five seconds when the connection was closed,
  without the proxy when the proxy refused the credentials.\<close>

definition dial_with_fallback :: "session_env \<Rightarrow> session_client \<Rightarrow> (server, unit) go" where
  "dial_with_fallback env c =
     attempt (dial env c) (\<lambda>res.
       case res of
         Inr _ \<Rightarrow> ret ()
       | Inl e \<Rightarrow>
           if str_contains e ''EOF'' then bindg (wait_ms env 5000) (\<lambda>_. dial env c)
           else if str_contains e ''username/password authentication failed'' then
             bindg (command (ClearProxy c)) (\<lambda>_. dial env c)
           else raise e)"

section \<open>QR codes\<close>

text \<open>Where the goroutine is: about to start, at the loop that waits for the kill signal, returned,
  or blocked forever in a send that nobody receives.\<close>

datatype session_phase = Starting | Watching session_client address | Finished | Stuck

definition limit_text :: "int \<Rightarrow> string" where
  "limit_text n = show_nat (nat n)"

text \<open>The maximum is reached: log out, clear, signal without waiting, report, return.\<close>

definition qr_limit :: "session_env \<Rightarrow> session_config \<Rightarrow> address \<Rightarrow> address \<Rightarrow> session_client \<Rightarrow> int \<Rightarrow> (server, unit) go" where
  "qr_limit env cfg a m c shown =
     bindg (read_instance a) (\<lambda>i.
     bindg (client_connected env c) (\<lambda>connected.
     bindg (if connected then attempt (client_logout env c) (\<lambda>_. ret ()) else ret ()) (\<lambda>_.
     bindg (change_instance a (\<lambda>r. r\<lparr>iQrcode := []\<rparr>)) (\<lambda>_.
     attempt (repo_UpdateQrcode (seDb env) (iId i) []) (\<lambda>_.
     let reason = ''QR code limit reached ('' @ limit_text (scQrcodeMaxCount cfg) @ '')'' in
     bindg (change_instance a (\<lambda>r. r\<lparr>iConnected := False, iDisconnectReason := reason\<rparr>)) (\<lambda>_.
     attempt (repo_UpdateConnected (seDb env) (iId i) False reason) (\<lambda>_.
     bindg (forget_client (iId i)) (\<lambda>_.
     bindg (forget_my_client (iId i)) (\<lambda>_.
     bindg (gets (\<lambda>s. svKill s (iId i))) (\<lambda>killChan.
     bindg (case killChan of
              None \<Rightarrow> ret ()
            | Some ch \<Rightarrow> bindg (try_send env (Some ch)) (\<lambda>_. forget_channel (iId i))) (\<lambda>_.
       post_session cfg a m ''QRTimeout''
         [''reason'' \<mapsto> JStr (''Maximum QR code count ('' @ limit_text (scQrcodeMaxCount cfg) @ '') reached''),
          ''qrcount'' \<mapsto> JNum shown, ''maxCount'' \<mapsto> JNum (scQrcodeMaxCount cfg),
          ''forceLogout'' \<mapsto> JBool True])))))))))))"

definition qr_image :: "session_env \<Rightarrow> string \<Rightarrow> string" where
  "qr_image env code = ''data:image/png;base64,'' @ seQrImage env code"

definition qr_show :: "session_env \<Rightarrow> session_config \<Rightarrow> address \<Rightarrow> address \<Rightarrow> string \<Rightarrow> int \<Rightarrow> (server, unit) go" where
  "qr_show env cfg a m code shown =
     bindg (read_instance a) (\<lambda>i.
     bindg (change_instance a (\<lambda>r. r\<lparr>iQrcode := qr_image env code @ ''|'' @ code\<rparr>)) (\<lambda>_.
     attempt (repo_UpdateQrcode (seDb env) (iId i) (qr_image env code @ ''|'' @ code)) (\<lambda>_.
       post_session cfg a m ''QRCode''
         [''qrcode'' \<mapsto> JStr (qr_image env code), ''code'' \<mapsto> JStr code, ''count'' \<mapsto> JNum shown,
          ''maxCount'' \<mapsto> JNum (scQrcodeMaxCount cfg)])))"

text \<open>The value of the following is whether the loop goes on.\<close>

definition qr_code_event :: "session_env \<Rightarrow> session_config \<Rightarrow> address \<Rightarrow> address \<Rightarrow> session_client \<Rightarrow> string \<Rightarrow> (server, bool) go" where
  "qr_code_event env cfg a m c code =
     bindg (change_session m (\<lambda>r. r\<lparr>mcQrcodeCount := mcQrcodeCount r + 1\<rparr>)) (\<lambda>_.
     bindg (gets (\<lambda>s. mcQrcodeCount (svSessions s m))) (\<lambda>shown.
       if scQrcodeMaxCount cfg > 0 \<and> shown \<ge> scQrcodeMaxCount cfg then
         bindg (qr_limit env cfg a m c shown) (\<lambda>_. ret False)
       else bindg (qr_show env cfg a m code shown) (\<lambda>_. ret True)))"

text \<open>\<open>timeout\<close>: the kill signal is sent with a plain send, by the goroutine that would receive it.\<close>

definition qr_timeout :: "session_env \<Rightarrow> session_config \<Rightarrow> address \<Rightarrow> address \<Rightarrow> (server, bool) go" where
  "qr_timeout env cfg a m =
     bindg (read_instance a) (\<lambda>i.
     bindg (change_instance a (\<lambda>r. r\<lparr>iQrcode := []\<rparr>)) (\<lambda>_.
     attempt (repo_UpdateQrcode (seDb env) (iId i) []) (\<lambda>_.
     bindg (forget_client (iId i)) (\<lambda>_.
     bindg (forget_my_client (iId i)) (\<lambda>_.
     bindg (gets (\<lambda>s. svKill s (iId i))) (\<lambda>ch.
     bindg (send_blocking env ch) (\<lambda>sent.
       if sent then bindg (post_session cfg a m ''QRTimeout'' (\<lambda>_. None)) (\<lambda>_. ret True)
       else ret False)))))))"

fun qr_loop :: "session_env \<Rightarrow> session_config \<Rightarrow> address \<Rightarrow> address \<Rightarrow> session_client \<Rightarrow> qr_event list \<Rightarrow> (server, session_phase) go" where
  "qr_loop env cfg a m c [] = bindg (wait_ms env 0) (\<lambda>_. ret (Watching c m))"
| "qr_loop env cfg a m c (evt # evts) =
     bindg (wait_ms env 0) (\<lambda>_.
       if qeEvent evt = ''code'' then
         bindg (qr_code_event env cfg a m c (qeCode evt)) (\<lambda>goes.
           if goes then qr_loop env cfg a m c evts else ret Finished)
       else if qeEvent evt = ''timeout'' then
         bindg (qr_timeout env cfg a m) (\<lambda>goes.
           if goes then qr_loop env cfg a m c evts else ret Stuck)
       else qr_loop env cfg a m c evts)"

section \<open>The session\<close>

definition connect_session :: "session_env \<Rightarrow> session_config \<Rightarrow> address \<Rightarrow> address \<Rightarrow> session_client \<Rightarrow> (server, session_phase) go" where
  "connect_session env cfg a m c =
     bindg (question (\<lambda>n. seStoreJid env n c)) (\<lambda>store.
       if store \<noteq> None then bindg (dial_with_fallback env c) (\<lambda>_. ret (Watching c m))
       else
         bindg (question (\<lambda>n. seQrChannel env n c)) (\<lambda>answer.
           case answer of
             QrFailed e \<Rightarrow> raise e
           | QrContainsID \<Rightarrow> ret (Watching c m)
           | QrOpened evts \<Rightarrow> bindg (dial_with_fallback env c) (\<lambda>_. qr_loop env cfg a m c evts)))"

definition build_session :: "session_env \<Rightarrow> session_config \<Rightarrow> address \<Rightarrow> string list \<Rightarrow> bool \<Rightarrow> (server, session_phase) go" where
  "build_session env cfg a subscriptions isProxy =
     bindg (device_for env cfg a) (\<lambda>_.
     bindg (describe_device env cfg a) (\<lambda>_.
     bindg (read_instance a) (\<lambda>i.
     bindg (new_client (iId i)) (\<lambda>c.
     bindg (if isProxy then apply_proxy env cfg a c else ret ()) (\<lambda>_.
     bindg (new_session env a subscriptions c) (\<lambda>m.
       connect_session env cfg a m c))))))"

text \<open>An instance with a connected client is left alone; every error ends the goroutine.\<close>

definition start_session :: "session_env \<Rightarrow> session_config \<Rightarrow> address \<Rightarrow> string list \<Rightarrow> bool \<Rightarrow> (server, session_phase) go" where
  "start_session env cfg a subscriptions isProxy =
     bindg (read_instance a) (\<lambda>i.
     bindg (gets (\<lambda>s. svClients s (iId i))) (\<lambda>client.
     bindg (case client of None \<Rightarrow> ret False | Some c \<Rightarrow> client_connected env c) (\<lambda>connected.
       if connected then ret Finished
       else attempt (build_session env cfg a subscriptions isProxy) (\<lambda>res.
         case res of Inl _ \<Rightarrow> ret Finished | Inr ph \<Rightarrow> ret ph))))"

text \<open>One look at the kill channel that is in the map now. The receive never waits: it succeeds when a
  sender is blocked on the channel, or the channel is closed.\<close>

definition poll_kill :: "session_env \<Rightarrow> string \<Rightarrow> (server, bool) go" where
  "poll_kill env key =
     bindg (gets (\<lambda>s. svKill s key)) (\<lambda>ch.
       case ch of
         None \<Rightarrow> ret False
       | Some c \<Rightarrow>
           bindg (gets svClosed) (\<lambda>closed.
             if c \<in> set closed then ret True else question (\<lambda>n. seSender env n c)))"

definition end_session :: "session_env \<Rightarrow> session_config \<Rightarrow> address \<Rightarrow> address \<Rightarrow> session_client \<Rightarrow> (server, unit) go" where
  "end_session env cfg a m c =
     bindg (read_instance a) (\<lambda>i.
     bindg (client_disconnect c) (\<lambda>_.
     bindg (forget_client (iId i)) (\<lambda>_.
     bindg (forget_my_client (iId i)) (\<lambda>_.
     bindg (forget_user_info (iToken i)) (\<lambda>_.
     bindg (change_instance a (\<lambda>r. r\<lparr>iConnected := False\<rparr>)) (\<lambda>_.
     attempt (repo_UpdateConnected (seDb env) (iId i) False (iDisconnectReason i)) (\<lambda>_.
       post_session cfg a m ''LoggedOut'' [''reason'' \<mapsto> JStr ''Logged out''])))))))"

fun run_session :: "session_env \<Rightarrow> session_config \<Rightarrow> address \<Rightarrow> string list \<Rightarrow> bool \<Rightarrow> nat \<Rightarrow> session_phase \<Rightarrow> (server, session_phase) go" where
  "run_session env cfg a subs isProxy 0 ph = ret ph"
| "run_session env cfg a subs isProxy (Suc n) ph =
     (case ph of
        Starting \<Rightarrow> bindg (start_session env cfg a subs isProxy) (run_session env cfg a subs isProxy n)
      | Watching c m \<Rightarrow>
          bindg (read_instance a) (\<lambda>i.
          bindg (poll_kill env (iId i)) (\<lambda>killed.
            if killed then bindg (end_session env cfg a m c) (\<lambda>_. run_session env cfg a subs isProxy n Starting)
            else bindg (wait_ms env 1000) (\<lambda>_. run_session env cfg a subs isProxy n ph)))
      | _ \<Rightarrow> ret ph)"

definition StartClient :: "session_env \<Rightarrow> session_config \<Rightarrow> nat \<Rightarrow> ClientData \<Rightarrow> (server, session_phase) go" where
  "StartClient env cfg steps cd =
     bindg (new_instance_struct (cdInstance cd)) (\<lambda>a.
       run_session env cfg a (cdSubscriptions cd) (cdIsProxy cd) steps Starting)"

section \<open>Presence updates\<close>

definition processPresenceUpdates :: "session_env \<Rightarrow> address \<Rightarrow> (server, unit) go" where
  "processPresenceUpdates env m =
     bindg (question (\<lambda>n. seHour env n)) (\<lambda>hour.
     bindg (read_session m) (\<lambda>mycli.
       if hour \<ge> 1 \<and> hour < 24 then
         bindg (command (SendPresence (mcWAClient mycli) False)) (\<lambda>_.
         bindg (question (\<lambda>n. seRandom env n mod 5)) (\<lambda>r.
         bindg (wait_ms env ((1 + r) * 1000)) (\<lambda>_.
           command (SendPresence (mcWAClient mycli) True))))
       else ret ()))"

text \<open>One round of the loop: the ticker or the kill signal, whichever comes first; false when the
  goroutine ends. Rounds after the first last one to three hours.\<close>

definition presence_round :: "session_env \<Rightarrow> address \<Rightarrow> nat \<Rightarrow> (server, nat option) go" where
  "presence_round env m ms =
     bindg (read_session m) (\<lambda>mycli.
     bindg (gets (\<lambda>s. svKill s (mcUserID mycli))) (\<lambda>ch.
     bindg (wait_ms env ms) (\<lambda>_.
     bindg (case ch of
              None \<Rightarrow> ret False
            | Some c \<Rightarrow>
                bindg (gets svClosed) (\<lambda>closed.
                  if c \<in> set closed then ret True else question (\<lambda>n. seSender env n c))) (\<lambda>killed.
       if killed then ret None
       else attempt (repo_GetInstanceByID (seDb env) (mcUserID mycli)) (\<lambda>row.
         case row of
           Inl _ \<Rightarrow> ret None
         | Inr _ \<Rightarrow>
             bindg (processPresenceUpdates env m) (\<lambda>_.
             bindg (question (\<lambda>n. seRandom env n mod 3)) (\<lambda>r. ret (Some ((1 + r) * 3600000)))))))))"

fun presence_rounds :: "session_env \<Rightarrow> address \<Rightarrow> nat \<Rightarrow> nat \<Rightarrow> (server, bool) go" where
  "presence_rounds env m 0 ms = ret True"
| "presence_rounds env m (Suc n) ms =
     bindg (presence_round env m ms) (\<lambda>next.
       case next of None \<Rightarrow> ret False | Some ms2 \<Rightarrow> presence_rounds env m n ms2)"

definition schedulePresenceUpdates :: "session_env \<Rightarrow> nat \<Rightarrow> address \<Rightarrow> (server, bool) go" where
  "schedulePresenceUpdates env rounds m = presence_rounds env m rounds 60000"

end
