(* ===== verification/EventHandler.thy ===== *)
theory EventHandler
  imports SessionRun MessageType
begin

text \<open>
  The event handler of a session, \<open>myEventHandler\<close> of \<open>pkg/whatsmeow/service/whatsmeow.go\<close>: what each
  event of the client library changes in the database and the shared maps, what is asked of the
  client, and what is dispatched. The value of the branches is what \<open>postMap\<close> holds besides the
  common fields when the branch reaches the dispatch at the end, or \<open>None\<close> when the handler returns
  early or \<open>doWebhook\<close> is false.

  The client library recovers from a panic of the handler, the effects before it stay. Marshalling an
  event, decryption, downloads, image conversion, media storage and group information are answers of
  the outside.
\<close>

section \<open>Events\<close>

text \<open>Of an event, the fields that the handler reads. Pointers whose address matters are pairs of the
  address and the value.\<close>

record recv_info =
  riID :: string
  riChat :: jid
  riSender :: jid
  riSenderAlt :: jid
  riIsFromMe :: bool

text \<open>\<open>rmQuote\<close>: the stanza id and the quoted message in the context of a field; \<open>rmChild\<close>: the message
  in \<open>AssociatedChildMessage\<close>.\<close>

record recv_message = in_message +
  rmQuote :: "string \<Rightarrow> string \<times> json option"
  rmChild :: "in_message option"

datatype receipt_type = ReceiptRead | ReceiptReadSelf | ReceiptDelivered | ReceiptOther

record recv_receipt =
  rcChat :: jid
  rcMessageIDs :: "string list"
  rcTimestamp :: string
  rcType :: receipt_type

type_synonym int_pointer = "(nat \<times> int) option"

datatype wa_event =
    AppStateSyncComplete bool
  | ConnectedEvent
  | PushNameSetting
  | PairSuccess string
  | StreamReplaced
  | TemporaryBan string json
  | MessageEvent recv_info "recv_message option"
  | ReceiptEvent recv_receipt
  | PresenceEvent bool
  | ArchiveEvent
  | HistorySync
  | AppState
  | LoggedOut string
  | ChatPresence
  | CallOffer jid string
  | CallAccept
  | CallTerminate
  | CallOfferNotice
  | CallRelayLatency
  | OfflineSyncCompleted
  | ConnectFailure string
  | DisconnectedEvent
  | LabelEdit string "string option" int_pointer int_pointer
  | LabelAssociationChat
  | LabelAssociationMessage
  | ContactEvent
  | PushNameEvent
  | IdentityChange
  | GroupInfo
  | JoinedGroup
  | NewsletterJoin
  | NewsletterLeave
  | UndecryptableMessage string bool
  | OtherEvent

record handler_env =
  evSessions :: session_env
  evJson :: "nat \<Rightarrow> wa_event \<Rightarrow> json_object result"
  evDecrypt :: "nat \<Rightarrow> session_client option \<Rightarrow> json result"
  evDownload :: "nat \<Rightarrow> string \<Rightarrow> string result"
  evPng :: "string \<Rightarrow> string result"
  evBase64 :: "string \<Rightarrow> string"
  evStore :: "nat \<Rightarrow> string \<Rightarrow> string \<Rightarrow> string result"
  evGroupInfo :: "nat \<Rightarrow> jid \<Rightarrow> json result"

abbreviation evDb :: "handler_env \<Rightarrow> db_env" where
  "evDb env \<equiv> seDb (evSessions env)"

text \<open>What a branch leaves: nothing to dispatch, or the event, its data and the state field. The data
  is the event itself when the branch has not replaced it.\<close>

record outgoing =
  ogEvent :: string
  ogData :: "json_object option"
  ogState :: "string option"

definition plain :: "string \<Rightarrow> outgoing option" where
  "plain e = Some \<lparr>ogEvent = e, ogData = None, ogState = None\<rparr>"

definition with_data :: "string \<Rightarrow> json_object \<Rightarrow> outgoing option" where
  "with_data e d = Some \<lparr>ogEvent = e, ogData = Some d, ogState = None\<rparr>"

definition with_state :: "string \<Rightarrow> string \<Rightarrow> outgoing option" where
  "with_state e st = Some \<lparr>ogEvent = e, ogData = None, ogState = Some st\<rparr>"

text \<open>\<open>postMap["data"]\<close> marshalled and read back as a map; an error ends the handler.\<close>

definition data_map :: "handler_env \<Rightarrow> wa_event \<Rightarrow> (server, json_object) go" where
  "data_map env evt = bindg (question (\<lambda>n. evJson env n evt)) of_result"

definition my_instance :: "address \<Rightarrow> (server, Instance) go" where
  "my_instance m = gets (\<lambda>s. svInstances s (mcInstance (svSessions s m)))"

definition change_my_instance :: "address \<Rightarrow> (Instance \<Rightarrow> Instance) \<Rightarrow> (server, unit) go" where
  "change_my_instance m f =
     modify (\<lambda>s. let a = mcInstance (svSessions s m) in set_instance a (f (svInstances s a)) s)"

text \<open>\<open>WAClient.Store.ID.String()\<close>: the pointer is nil before pairing.\<close>

definition store_jid :: "handler_env \<Rightarrow> MyClient \<Rightarrow> (server, string) go" where
  "store_jid env m =
     bindg (question (\<lambda>n. seStoreJid (evSessions env) n (mcWAClient m))) (\<lambda>id.
       case id of None \<Rightarrow> crash | Some t \<Rightarrow> ret t)"

section \<open>Connection events\<close>

definition on_app_state_sync :: "handler_env \<Rightarrow> MyClient \<Rightarrow> bool \<Rightarrow> (server, outgoing option) go" where
  "on_app_state_sync env m critical =
     bindg (question (\<lambda>n. sePushName (evSessions env) n (mcWAClient m))) (\<lambda>name.
     bindg (if length name > 0 \<and> critical then command (SendPresence (mcWAClient m) False) else ret ()) (\<lambda>_.
       ret None))"

definition on_connected :: "handler_env \<Rightarrow> address \<Rightarrow> MyClient \<Rightarrow> wa_event \<Rightarrow> (server, outgoing option) go" where
  "on_connected env a m evt =
     bindg (question (\<lambda>n. sePushName (evSessions env) n (mcWAClient m))) (\<lambda>name.
       if length name > 0 then
         bindg (data_map env evt) (\<lambda>d.
         bindg (store_jid env m) (\<lambda>jid.
         bindg (modify (\<lambda>s. s\<lparr>svPresences := svPresences s @ [a]\<rparr>)) (\<lambda>_.
         bindg (command (SendPresence (mcWAClient m) True)) (\<lambda>_.
         bindg (change_my_instance a (\<lambda>i. i\<lparr>iConnected := True, iDisconnectReason := []\<rparr>)) (\<lambda>_.
         bindg (my_instance a) (\<lambda>i.
         attempt (repo_UpdateConnected (evDb env) (iId i) True []) (\<lambda>_.
         attempt (repo_UpdateQrcode (evDb env) (iId i) []) (\<lambda>_.
           ret (with_data ''Connected''
             (d(''status'' \<mapsto> JStr ''open'', ''jid'' \<mapsto> JStr jid, ''pushName'' \<mapsto> JStr name)))))))))))
       else ret None)"

text \<open>\<open>UpdateUserInfo\<close> is given the \<open>Values\<close> of another package, so that its type assertion fails and
  it returns them unchanged.\<close>

definition UpdateUserInfo :: "UserInfo \<Rightarrow> string \<Rightarrow> string \<Rightarrow> UserInfo" where
  "UpdateUserInfo v field value = v"

definition on_pair_success :: "handler_env \<Rightarrow> MyClient \<Rightarrow> wa_event \<Rightarrow> string \<Rightarrow> (server, outgoing option) go" where
  "on_pair_success env m evt newId =
     bindg (store_jid env m) (\<lambda>jid.
     attempt (repo_GetInstanceByID (evDb env) (mcUserID m)) (\<lambda>row.
       case row of
         Inl _ \<Rightarrow> crash
       | Inr i \<Rightarrow>
           attempt (repo_Update (evDb env) (i\<lparr>iQrcode := [], iConnected := True, iDisconnectReason := [], iJid := jid\<rparr>)) (\<lambda>_.
           bindg (gets (\<lambda>s. svUserInfo s (mcToken m))) (\<lambda>info.
           bindg (case info of
                    None \<Rightarrow> ret ()
                  | Some v \<Rightarrow>
                      modify (\<lambda>s. s\<lparr>svUserInfo := (svUserInfo s)(uiToken v \<mapsto> UpdateUserInfo v ''Jid'' newId)\<rparr>)) (\<lambda>_.
           bindg (data_map env evt) (\<lambda>d.
           bindg (question (\<lambda>n. sePushName (evSessions env) n (mcWAClient m))) (\<lambda>name.
             let d2 = d(''status'' \<mapsto> JStr ''open'', ''jid'' \<mapsto> JStr jid) in
             ret (with_data ''PairSuccess'' (if name \<noteq> [] then d2(''pushName'' \<mapsto> JStr name) else d2)))))))))"

definition on_temporary_ban :: "handler_env \<Rightarrow> wa_event \<Rightarrow> string \<Rightarrow> json \<Rightarrow> (server, outgoing option) go" where
  "on_temporary_ban env evt code expire =
     bindg (data_map env evt) (\<lambda>d.
       ret (with_data ''TemporaryBan'' (d(''reason'' \<mapsto> JStr code, ''expire'' \<mapsto> expire))))"

text \<open>The row and the struct are marked as disconnected, the cached user data are dropped.\<close>

definition mark_disconnected :: "handler_env \<Rightarrow> address \<Rightarrow> string \<Rightarrow> (server, unit) go" where
  "mark_disconnected env a reason =
     bindg (my_instance a) (\<lambda>i.
     bindg (forget_user_info (iToken i)) (\<lambda>_.
     bindg (change_my_instance a (\<lambda>r. r\<lparr>iDisconnectReason := reason, iConnected := False\<rparr>)) (\<lambda>_.
       attempt (repo_UpdateConnected (evDb env) (iId i) False reason) (\<lambda>_. ret ()))))"

text \<open>The event is dispatched before the kill signal, and again at the end of the handler, if the
  signal is ever received.\<close>

definition on_logged_out :: "handler_env \<Rightarrow> session_config \<Rightarrow> address \<Rightarrow> MyClient \<Rightarrow> wa_event \<Rightarrow> string \<Rightarrow> (server, outgoing option) go" where
  "on_logged_out env cfg a m evt reason =
     bindg (mark_disconnected env a reason) (\<lambda>_.
     bindg (data_map env evt) (\<lambda>d.
     bindg (my_instance a) (\<lambda>i.
     let d2 = d(''reason'' \<mapsto> JStr reason) in
     bindg (dispatch cfg i (mcUserID m) ''LoggedOut'' (mcUserID m)
       ((event_map ''LoggedOut'' (JObj d2) m i)(''instanceToken'' \<mapsto> JStr (iToken i)))) (\<lambda>_.
     bindg (gets (\<lambda>s. svKill s (mcUserID m))) (\<lambda>ch.
     bindg (send_blocking (evSessions env) ch) (\<lambda>sent.
       ret (if sent then with_data ''LoggedOut'' d2 else None)))))))"

definition disconnected_reason :: string where
  "disconnected_reason = ''Disconnected emitted because the websocket is closed by the server.''"

definition on_disconnected :: "handler_env \<Rightarrow> address \<Rightarrow> MyClient \<Rightarrow> (server, outgoing option) go" where
  "on_disconnected env a m =
     bindg (mark_disconnected env a disconnected_reason) (\<lambda>_.
     bindg (modify (\<lambda>s. s\<lparr>svRestarts := svRestarts s @ [mcUserID m]\<rparr>)) (\<lambda>_.
       ret (plain ''Disconnected'')))"

section \<open>Messages\<close>

definition is_group_chat :: "jid \<Rightarrow> bool" where
  "is_group_chat chat = str_contains (JID_String chat) ''@g.us''"

definition is_status :: "recv_info \<Rightarrow> bool" where
  "is_status info = (str_contains (JID_String (riChat info)) ''@broadcast'' \<or> str_contains (riID info) ''@broadcast'')"

definition ignored_message :: "session_config \<Rightarrow> AdvancedSettings \<Rightarrow> recv_info \<Rightarrow> bool" where
  "ignored_message cfg settings info =
     (asIgnoreStatus settings \<and> is_status info \<or>
      asIgnoreGroups settings \<and> is_group_chat (riChat info) \<or>
      (scEventIgnoreGroup cfg \<or> asIgnoreGroups settings) \<and> is_group_chat (riChat info) \<or>
      (scEventIgnoreStatus cfg \<or> asIgnoreStatus settings) \<and> is_status info)"

text \<open>\<open>if jid, err := types.ParseJID(t); err == nil { ... }\<close>.\<close>

definition parsed :: "string \<Rightarrow> jid option" where
  "parsed t = (case ParseJID t of (j, None) \<Rightarrow> Some j | (_, Some _) \<Rightarrow> None)"

definition swap_sender :: "recv_info \<Rightarrow> recv_info" where
  "swap_sender info =
    (let sender = JID_String (riSender info); alt = JID_String (riSenderAlt info); chat = JID_String (riChat info) in
     if str_contains sender ''@lid'' \<and> str_contains alt ''@s.whatsapp.net'' then
       (let info1 =
              (case parsed (cleanSenderID alt) of
                 None \<Rightarrow> info
               | Some j \<Rightarrow>
                   if str_contains chat ''@lid'' then info\<lparr>riSender := j, riChat := j\<rparr> else info\<lparr>riSender := j\<rparr>)
        in case parsed (cleanSenderID sender) of None \<Rightarrow> info1 | Some l \<Rightarrow> info1\<lparr>riSenderAlt := l\<rparr>)
     else
       (let info1 = (case parsed (cleanSenderID sender) of None \<Rightarrow> info | Some j \<Rightarrow> info\<lparr>riSender := j\<rparr>)
        in case parsed (cleanSenderID alt) of None \<Rightarrow> info1 | Some l \<Rightarrow> info1\<lparr>riSenderAlt := l\<rparr>))"

definition dropped_type :: "string \<Rightarrow> bool" where
  "dropped_type t = (t = ''ignore'' \<or> has_prefix t ''unknown_protocol_'')"

text \<open>Whether the key has been seen in the last half hour; it has now.\<close>

definition seen_before :: "string \<Rightarrow> (server, bool) go" where
  "seen_before key =
     bindg (gets (\<lambda>s. key \<in> set (svProcessed s))) (\<lambda>found.
       if found then ret True
       else bindg (modify (\<lambda>s. s\<lparr>svProcessed := svProcessed s @ [key]\<rparr>)) (\<lambda>_. ret False))"

definition poll_vote :: "handler_env \<Rightarrow> MyClient \<Rightarrow> recv_message \<Rightarrow> json_object \<Rightarrow> (server, json_object) go" where
  "poll_vote env m msg d =
     (if imHas msg ''PollUpdateMessage'' then
        bindg (gets (\<lambda>s. svClients s (mcUserID m))) (\<lambda>client.
        bindg (question (\<lambda>n. evDecrypt env n client)) (\<lambda>vote.
          ret (d(''isPoll'' \<mapsto> JBool True, ''pollVotes'' \<mapsto> (case vote of Inl _ \<Rightarrow> JNull | Inr v \<Rightarrow> v)))))
      else ret d)"

text \<open>Revocations and edits are marked, other protocol messages are dropped, and a message that was
  handled before is dropped.\<close>

definition message_key :: "MyClient \<Rightarrow> recv_info \<Rightarrow> string" where
  "message_key m info = mcUserID m @ ''_'' @ riID info"

definition protocol_or_new :: "MyClient \<Rightarrow> recv_info \<Rightarrow> recv_message \<Rightarrow> json_object \<Rightarrow> (server, json_object option) go" where
  "protocol_or_new m info msg d =
     (if imHas msg ''ProtocolMessage'' then
        if imProtocolType msg = 0 then ret (Some (d(''revoked'' \<mapsto> JBool True)))
        else if imProtocolType msg = 14 then ret (Some (d(''edited'' \<mapsto> JBool True)))
        else ret None
      else bindg (seen_before (message_key m info)) (\<lambda>seen. ret (if seen then None else Some d)))"

definition quoting_field :: "in_message \<Rightarrow> string option" where
  "quoting_field msg =
     find (imHas msg) [''ExtendedTextMessage'', ''ImageMessage'', ''AudioMessage'', ''DocumentMessage'', ''VideoMessage'']"

definition add_quote :: "recv_message \<Rightarrow> json_object \<Rightarrow> json_object" where
  "add_quote msg d =
     (case quoting_field (in_message.truncate msg) of
        None \<Rightarrow> d
      | Some f \<Rightarrow>
          (case rmQuote msg f of
             (stanza, Some quoted) \<Rightarrow>
               if stanza \<noteq> [] then
                 d(''quoted'' \<mapsto> JObj [''stanzaID'' \<mapsto> JStr stanza, ''quotedMessage'' \<mapsto> quoted],
                   ''isQuoted'' \<mapsto> JBool True)
               else d
           | _ \<Rightarrow> d))"

text \<open>The media of a message: the first field that is set, in this order, of the message itself and
  then of the associated one.\<close>

definition media_fields :: "string list" where
  "media_fields = [''ImageMessage'', ''AudioMessage'', ''DocumentMessage'', ''VideoMessage'', ''StickerMessage'']"

definition media_source :: "recv_message \<Rightarrow> (bool \<times> string) option" where
  "media_source msg =
     (case find (imHas msg) media_fields of
        Some f \<Rightarrow> Some (False, f)
      | None \<Rightarrow>
          (case rmChild msg of
             None \<Rightarrow> None
           | Some child \<Rightarrow> map_option (\<lambda>f. (True, f)) (find (imHas child) media_fields)))"

definition getExtensionFromMimeType :: "string \<Rightarrow> string" where
  "getExtensionFromMimeType mimeType =
     (if mimeType = ''image/jpeg'' then ''.jpg''
      else if mimeType = ''image/png'' then ''.png''
      else if mimeType = ''image/webp'' then ''.webp''
      else if mimeType = ''video/mp4'' then ''.mp4''
      else if mimeType = ''audio/ogg'' then ''.ogg''
      else if mimeType = ''audio/mpeg'' then ''.mp3''
      else if mimeType = ''application/pdf'' then ''.pdf''
      else if mimeType = ''application/vnd.openxmlformats-officedocument.wordprocessingml.document'' then ''.docx''
      else if mimeType = ''application/vnd.openxmlformats-officedocument.spreadsheetml.sheet'' then ''.xlsx''
      else if mimeType = ''application/vnd.openxmlformats-officedocument.presentationml.presentation'' then ''.pptx''
      else
        (let parts = split_char CHR ''/'' mimeType in
         if length parts > 1 then ''.'' @ parts ! 1 else ''.bin''))"

definition media_format :: "recv_message \<Rightarrow> bool \<Rightarrow> string \<Rightarrow> string \<times> string" where
  "media_format msg child f =
     (if f = ''ImageMessage'' then (''.jpg'', ''image/jpeg'')
      else if f = ''AudioMessage'' then (''.ogg'', ''audio/ogg'')
      else if f = ''DocumentMessage'' then
        (let mime = (case rmChild msg of Some c \<Rightarrow> if child then imMimetype c f else imMimetype msg f
                     | None \<Rightarrow> imMimetype msg f)
         in (getExtensionFromMimeType mime, mime))
      else if f = ''VideoMessage'' then (''.mp4'', ''video/mp4'')
      else (''.png'', ''image/png''))"

text \<open>The download. Stickers are converted: the one of the message itself when its download succeeded,
  an associated one in any case. A failed conversion ends the handler, a failed download does not.\<close>

definition fetch_media :: "handler_env \<Rightarrow> bool \<Rightarrow> string \<Rightarrow> (server, string result) go" where
  "fetch_media env child f =
     bindg (question (\<lambda>n. evDownload env n (if child then ''AssociatedChildMessage.'' @ f else f))) (\<lambda>got.
       if f = ''StickerMessage'' then
         (case got of
            Inl e \<Rightarrow> if child then bindg (of_result (evPng env [])) (\<lambda>_. ret (Err e)) else ret (Err e)
          | Inr data \<Rightarrow> bindg (of_result (evPng env data)) (\<lambda>png. ret (Ok png)))
       else ret got)"

definition as_map :: "json option \<Rightarrow> json_object" where
  "as_map v = (case v of Some (JObj d) \<Rightarrow> d | _ \<Rightarrow> (\<lambda>_. None))"

definition store_media :: "handler_env \<Rightarrow> session_config \<Rightarrow> string \<Rightarrow> string \<Rightarrow> string \<Rightarrow> json_object \<Rightarrow> (server, json_object) go" where
  "store_media env cfg fileName mimeType data mm =
     (if scMinioEnabled cfg then
        bindg (question (\<lambda>n. evStore env n fileName mimeType)) (\<lambda>url.
          ret (case url of
                 Inl _ \<Rightarrow> mm
               | Inr u \<Rightarrow> mm(''mediaUrl'' \<mapsto> JStr u, ''mimetype'' \<mapsto> JStr mimeType)))
      else ret (mm(''base64'' \<mapsto> JStr (evBase64 env data))))"

definition add_media :: "handler_env \<Rightarrow> session_config \<Rightarrow> recv_info \<Rightarrow> recv_message \<Rightarrow> json_object \<Rightarrow> (server, json_object) go" where
  "add_media env cfg info msg d =
     (if \<not> scWebhookFiles cfg then ret d
      else case media_source msg of
        None \<Rightarrow> ret d
      | Some (child, f) \<Rightarrow>
          bindg (fetch_media env child f) (\<lambda>got.
          let mm = as_map (d ''Message''); (extension, mimeType) = media_format msg child f in
          bindg (case got of
                   Inr data \<Rightarrow>
                     if data \<noteq> [] then store_media env cfg (riID info @ extension) mimeType data mm else ret mm
                 | Inl _ \<Rightarrow> ret mm) (\<lambda>mm2.
            ret (d(''Message'' \<mapsto> JObj mm2)))))"

definition add_group :: "handler_env \<Rightarrow> recv_info \<Rightarrow> json_object \<Rightarrow> (server, json_object) go" where
  "add_group env info d =
     (if has_suffix (JID_String (riChat info)) ''@g.us'' then
        bindg (question (\<lambda>n. evGroupInfo env n (riChat info))) (\<lambda>g.
          ret (case g of Inl _ \<Rightarrow> d | Inr v \<Rightarrow> d(''groupData'' \<mapsto> v)))
      else ret d)"

definition strip_thumbnail :: "string \<Rightarrow> json_object \<Rightarrow> json_object" where
  "strip_thumbnail f mm =
     (case mm f of Some (JObj x) \<Rightarrow> mm(f \<mapsto> JObj (x(''JPEGThumbnail'' := None))) | _ \<Rightarrow> mm)"

definition strip_raw :: "json_object \<Rightarrow> json_object" where
  "strip_raw d =
    (let d2 = d(''RawMessage'' := None) in
     case d2 ''Message'' of
       Some (JObj mm) \<Rightarrow>
         d2(''Message'' \<mapsto> JObj (strip_thumbnail ''documentMessage''
           (strip_thumbnail ''videoMessage'' (strip_thumbnail ''imageMessage'' mm))))
     | _ \<Rightarrow> d2)"

definition on_known_message :: "handler_env \<Rightarrow> session_config \<Rightarrow> MyClient \<Rightarrow> recv_info \<Rightarrow> recv_message \<Rightarrow> (server, outgoing option) go" where
  "on_known_message env cfg m info msg =
     bindg (data_map env (MessageEvent info (Some msg))) (\<lambda>d.
     bindg (poll_vote env m msg d) (\<lambda>d1.
     bindg (protocol_or_new m info msg d1) (\<lambda>kept.
       case kept of
         None \<Rightarrow> ret None
       | Some d2 \<Rightarrow>
           bindg (add_media env cfg info msg (add_quote msg d2)) (\<lambda>d3.
           bindg (add_group env info d3) (\<lambda>d4.
             ret (with_data ''Message'' (strip_raw d4)))))))"

definition on_message :: "handler_env \<Rightarrow> session_config \<Rightarrow> address \<Rightarrow> MyClient \<Rightarrow> recv_info \<Rightarrow> recv_message option \<Rightarrow> (server, outgoing option) go" where
  "on_message env cfg a m info0 msg =
     bindg (my_instance a) (\<lambda>i.
     let settings = iSettings i in
     bindg (if asReadMessages settings then
              command (MarkRead (mcWAClient m) (riID info0) (riSender info0) (riSender info0))
            else ret ()) (\<lambda>_.
       if ignored_message cfg settings info0 then ret None
       else
         let info = swap_sender info0 in
         bindg (if asReadMessages settings \<and> \<not> riIsFromMe info then
                  command (MarkRead (mcWAClient m) (riID info) (riChat info) (riSender info))
                else ret ()) (\<lambda>_.
           case msg of
             None \<Rightarrow> ret None
           | Some w \<Rightarrow>
               if dropped_type (GetMessageType (Some (in_message.truncate w))) then ret None
               else on_known_message env cfg m info w)))"

section \<open>Receipts, labels, calls\<close>

definition status_row :: "recv_receipt \<Rightarrow> string \<Rightarrow> string \<Rightarrow> Message" where
  "status_row rc key status =
     \<lparr>msgId = [], msgMessageID = key, msgTimestamp = rcTimestamp rc, msgStatus = status,
      msgSource = User (ToNonAD (rcChat rc))\<rparr>"

definition save_status :: "session_config \<Rightarrow> recv_receipt \<Rightarrow> string \<Rightarrow> string \<Rightarrow> (server, unit) go" where
  "save_status cfg rc key status =
     (if scDatabaseSaveMessages cfg then
        modify (\<lambda>s. s\<lparr>svInserts := svInserts s @ [status_row rc key status]\<rparr>)
      else ret ())"

definition status_key :: "MyClient \<Rightarrow> string \<Rightarrow> string \<Rightarrow> string" where
  "status_key m key status = mcUserID m @ ''_'' @ key @ ''_'' @ status"

fun read_receipts :: "session_config \<Rightarrow> MyClient \<Rightarrow> recv_receipt \<Rightarrow> string list \<Rightarrow> (server, unit) go" where
  "read_receipts cfg m rc [] = ret ()"
| "read_receipts cfg m rc (v # vs) =
     bindg (seen_before (status_key m v ''Read'')) (\<lambda>seen.
     bindg (if seen then ret () else save_status cfg rc v ''Read'') (\<lambda>_. read_receipts cfg m rc vs))"

definition on_receipt :: "session_config \<Rightarrow> address \<Rightarrow> MyClient \<Rightarrow> recv_receipt \<Rightarrow> (server, outgoing option) go" where
  "on_receipt cfg a m rc =
     bindg (my_instance a) (\<lambda>i.
       if asIgnoreGroups (iSettings i) \<and> is_group_chat (rcChat rc) \<or>
          scEventIgnoreGroup cfg \<and> is_group_chat (rcChat rc) then ret None
       else case rcMessageIDs rc of
         [] \<Rightarrow> crash
       | key # _ \<Rightarrow>
           (case rcType rc of
              ReceiptRead \<Rightarrow>
                bindg (read_receipts cfg m rc (rcMessageIDs rc)) (\<lambda>_. ret (with_state ''Receipt'' ''Read''))
            | ReceiptReadSelf \<Rightarrow> ret (with_state ''Receipt'' ''ReadSelf'')
            | ReceiptDelivered \<Rightarrow>
                bindg (seen_before (status_key m key ''Delivered'')) (\<lambda>seen.
                  if seen then ret None
                  else bindg (save_status cfg rc key ''Delivered'') (\<lambda>_.
                    ret (with_state ''Receipt'' ''Delivered'')))
            | ReceiptOther \<Rightarrow> ret None))"

text \<open>\<open>fmt.Sprintf("%d", p)\<close> with a pointer \<open>p\<close> prints the address, not the number it points to.\<close>

definition print_pointer :: "int_pointer \<Rightarrow> string" where
  "print_pointer p = show_nat (case p of None \<Rightarrow> 0 | Some (address, _) \<Rightarrow> address)"

definition on_label_edit :: "handler_env \<Rightarrow> MyClient \<Rightarrow> string \<Rightarrow> string option \<Rightarrow> int_pointer \<Rightarrow> int_pointer \<Rightarrow> (server, outgoing option) go" where
  "on_label_edit env m labelID name color predefined =
     attempt (UpsertLabel (evDb env)
       \<lparr>lbId = [], lbInstanceID = mcUserID m, lbLabelID = labelID, lbLabelName = str_of name,
        lbLabelColor = print_pointer color, lbPredefinedId = print_pointer predefined\<rparr>) (\<lambda>_.
       ret (plain ''LabelEdit''))"

definition on_call_offer :: "address \<Rightarrow> MyClient \<Rightarrow> jid \<Rightarrow> string \<Rightarrow> (server, outgoing option) go" where
  "on_call_offer a m creator callID =
     bindg (my_instance a) (\<lambda>i.
       if asRejectCall (iSettings i) then
         bindg (command (Reject (mcWAClient m) creator callID)) (\<lambda>_.
         bindg (if asMsgRejectCall (iSettings i) \<noteq> [] then
                  command (Answer (mcWAClient m) creator (asMsgRejectCall (iSettings i)))
                else ret ()) (\<lambda>_. ret None))
       else ret (plain ''CallOffer''))"

definition on_undecryptable :: "handler_env \<Rightarrow> MyClient \<Rightarrow> string \<Rightarrow> bool \<Rightarrow> (server, outgoing option) go" where
  "on_undecryptable env m key viewOnce =
     (if viewOnce then ret (plain ''Message'')
      else if has_prefix key ''66'' \<or> has_prefix key ''67'' then
        bindg (client_disconnect (mcWAClient m)) (\<lambda>_.
        attempt (dial (evSessions env) (mcWAClient m)) (\<lambda>_. ret None))
      else ret None)"

section \<open>The handler\<close>

definition handle_branch :: "handler_env \<Rightarrow> session_config \<Rightarrow> address \<Rightarrow> MyClient \<Rightarrow> wa_event \<Rightarrow> (server, outgoing option) go" where
  "handle_branch env cfg a m evt =
     (case evt of
        AppStateSyncComplete critical \<Rightarrow> on_app_state_sync env m critical
      | ConnectedEvent \<Rightarrow> on_connected env a m evt
      | PushNameSetting \<Rightarrow> on_connected env a m evt
      | PairSuccess newId \<Rightarrow> on_pair_success env m evt newId
      | StreamReplaced \<Rightarrow> ret None
      | TemporaryBan code expire \<Rightarrow> on_temporary_ban env evt code expire
      | MessageEvent info msg \<Rightarrow> on_message env cfg a m info msg
      | ReceiptEvent rc \<Rightarrow> on_receipt cfg a m rc
      | PresenceEvent unavailable \<Rightarrow> ret (with_state ''Presence'' (if unavailable then ''offline'' else ''online''))
      | ArchiveEvent \<Rightarrow> crash
      | HistorySync \<Rightarrow> ret (plain ''HistorySync'')
      | AppState \<Rightarrow> ret None
      | LoggedOut reason \<Rightarrow> on_logged_out env cfg a m evt reason
      | ChatPresence \<Rightarrow> ret (plain ''ChatPresence'')
      | CallOffer creator callID \<Rightarrow> on_call_offer a m creator callID
      | CallAccept \<Rightarrow> ret (plain ''CallAccept'')
      | CallTerminate \<Rightarrow> ret (plain ''CallTerminate'')
      | CallOfferNotice \<Rightarrow> ret (plain ''CallOfferNotice'')
      | CallRelayLatency \<Rightarrow> ret (plain ''CallRelayLatency'')
      | OfflineSyncCompleted \<Rightarrow> ret (plain ''OfflineSyncCompleted'')
      | ConnectFailure reason \<Rightarrow>
          bindg (mark_disconnected env a reason) (\<lambda>_. ret (plain ''ConnectFailure''))
      | DisconnectedEvent \<Rightarrow> on_disconnected env a m
      | LabelEdit labelID name color predefined \<Rightarrow> on_label_edit env m labelID name color predefined
      | LabelAssociationChat \<Rightarrow> ret (plain ''LabelAssociationChat'')
      | LabelAssociationMessage \<Rightarrow> ret (plain ''LabelAssociationMessage'')
      | ContactEvent \<Rightarrow> ret (plain ''Contact'')
      | PushNameEvent \<Rightarrow> ret (plain ''PushName'')
      | IdentityChange \<Rightarrow> ret None
      | GroupInfo \<Rightarrow> ret (plain ''GroupInfo'')
      | JoinedGroup \<Rightarrow> ret (plain ''JoinedGroup'')
      | NewsletterJoin \<Rightarrow> ret (plain ''NewsletterJoin'')
      | NewsletterLeave \<Rightarrow> ret (plain ''NewsletterLeave'')
      | UndecryptableMessage key viewOnce \<Rightarrow> on_undecryptable env m key viewOnce
      | OtherEvent \<Rightarrow> ret None)"

definition finish_event :: "handler_env \<Rightarrow> session_config \<Rightarrow> address \<Rightarrow> MyClient \<Rightarrow> wa_event \<Rightarrow> outgoing option \<Rightarrow> (server, unit) go" where
  "finish_event env cfg a m evt out =
     (case out of
        None \<Rightarrow> ret ()
      | Some og \<Rightarrow>
          bindg (case ogData og of Some d \<Rightarrow> ret d | None \<Rightarrow> data_map env evt) (\<lambda>d.
          bindg (my_instance a) (\<lambda>i.
            dispatch cfg i (mcUserID m) (ogEvent og) (mcUserID m)
              ((event_map (ogEvent og) (JObj d) m i)(''state'' := map_option JStr (ogState og))))))"

text \<open>The fields of \<open>MyClient\<close> that the handler keeps in \<open>m\<close> never change. An error inside is an early
  return.\<close>

definition myEventHandler :: "handler_env \<Rightarrow> session_config \<Rightarrow> address \<Rightarrow> wa_event \<Rightarrow> (server, unit) go" where
  "myEventHandler env cfg a evt =
     bindg (read_session a) (\<lambda>m.
       attempt (bindg (handle_branch env cfg a m evt) (finish_event env cfg a m evt)) (\<lambda>_. ret ()))"

text \<open>The library calls the handler and recovers from its panics.\<close>

definition dispatchEvent :: "handler_env \<Rightarrow> session_config \<Rightarrow> address \<Rightarrow> wa_event \<Rightarrow> (server, unit) go" where
  "dispatchEvent env cfg a evt s = (Return (), snd (myEventHandler env cfg a evt s))"

end
