(* ===== verification/SessionInvariants.thy ===== *)
theory SessionInvariants
  imports ServiceInvariants EventHandler
begin

text \<open>
  What the goroutines of a session keep: the loop of the session, the presence updates and the event
  handler. The locale extends the interface of \<open>ServiceInvariants\<close> by the writes of the handler to the
  tables of labels and messages; it is interpreted for the same two invariants.
\<close>

locale handler_rely = session_rely +
  assumes upsert: "keeps R (UpsertLabel (seDb env) l)"
    and insert: "keeps R (InsertMessage (seDb env) msg)"
begin

lemma keeps_heap:
  "keeps R (read_instance a)" "keeps R (write_instance a i)" "keeps R (change_instance a f)"
  "keeps R (read_session m)" "keeps R (change_session m g)" "keeps R (command cmd)"
  "keeps R (new_instance_struct i)" "keeps R (new_client k)" "keeps R (new_session env a subs c)"
  "keeps R (my_instance m)" "keeps R (change_my_instance m f)" "keeps R (set_version v)"
  unfolding read_instance_def write_instance_def change_instance_def read_session_def command_def
    new_client_def new_session_def my_instance_def change_my_instance_def set_version_def session_heap_defs
  by (intro keeps_all modify_local; simp add: local_update_def set_instance_def Let_def)+

lemma keeps_dispatch: "keeps R (dispatch cfg i k e u v)" "keeps R (post_session cfg a m e d)"
proof -
  show d: "keeps R (dispatch cfg i k e u v)" for i k e u v
    unfolding dispatch_def by (intro keeps_all modify_local; simp add: local_update_def)
  show "keeps R (post_session cfg a m e d)"
    unfolding post_session_def by (intro keeps_all keeps_heap d)
qed

lemma keeps_start_parts:
  "keeps R (fetchWhatsAppWebVersion env)" "keeps R (choose_version env cfg)" "keeps R (device_for env cfg a)"
  "keeps R (describe_device env cfg a)" "keeps R (apply_proxy env cfg a c)" "keeps R (dial env c)"
  "keeps R (dial_with_fallback env c)"
proof -
  show f: "keeps R (fetchWhatsAppWebVersion env)"
    unfolding fetchWhatsAppWebVersion_def by (intro keeps_all)
  show v: "keeps R (choose_version env cfg)"
    unfolding choose_version_def Let_def by (intro keeps_all keeps_heap f)
  show "keeps R (device_for env cfg a)"
    unfolding device_for_def by (intro keeps_all keeps_heap)
  show "keeps R (describe_device env cfg a)"
    unfolding describe_device_def by (intro keeps_all keeps_heap v modify_local) (simp add: local_update_def)
  show "keeps R (apply_proxy env cfg a c)"
    unfolding apply_proxy_def read_proxy_def by (intro keeps_all keeps_heap)
  show d: "keeps R (dial env c)"
    unfolding dial_def by (intro keeps_all keeps_heap)
  show "keeps R (dial_with_fallback env c)"
    unfolding dial_with_fallback_def by (intro keeps_all keeps_heap d)
qed

lemma keeps_qr:
  "keeps R (qr_limit env cfg a m c k)" "keeps R (qr_show env cfg a m t k)"
  "keeps R (qr_code_event env cfg a m c t)" "keeps R (qr_timeout env cfg a m)"
proof -
  show l: "keeps R (qr_limit env cfg a m c k)" for k
    unfolding qr_limit_def Let_def by (intro keeps_all keeps_heap keeps_dispatch)
  show w: "keeps R (qr_show env cfg a m t k)" for k
    unfolding qr_show_def by (intro keeps_all keeps_heap keeps_dispatch)
  show "keeps R (qr_code_event env cfg a m c t)"
    unfolding qr_code_event_def by (intro keeps_all keeps_heap l w)
  show "keeps R (qr_timeout env cfg a m)"
    unfolding qr_timeout_def by (intro keeps_all keeps_heap keeps_dispatch)
qed

lemma keeps_qr_loop: "keeps R (qr_loop env cfg a m c evts)"
  by (induction evts) (auto intro!: keeps_all keeps_qr)

lemma keeps_start_session: "keeps R (start_session env cfg a subs p)"
proof -
  have "keeps R (connect_session env cfg a m c)" for m c
  proof -
    have "keeps R (case x of QrOpened evts \<Rightarrow> bindg (dial_with_fallback env c) (\<lambda>_. qr_loop env cfg a m c evts)
      | QrContainsID \<Rightarrow> ret (Watching c m) | QrFailed e \<Rightarrow> raise e)" for x
      by (cases x) (auto intro!: keeps_all keeps_start_parts keeps_qr_loop)
    then show ?thesis
      unfolding connect_session_def by (intro keeps_all keeps_start_parts)
  qed
  then show ?thesis
    unfolding start_session_def build_session_def by (intro keeps_all keeps_heap keeps_start_parts)
qed

lemma keeps_run_session: "keeps R (run_session env cfg a subs p n ph)"
proof (induction n arbitrary: ph)
  case (Suc n)
  have "keeps R (poll_kill env k)" for k
    unfolding poll_kill_def by (intro keeps_all)
  moreover have "keeps R (end_session env cfg a m c)" for m c
    unfolding end_session_def by (intro keeps_all keeps_heap keeps_dispatch)
  ultimately show ?case
    by (cases ph) (auto intro!: keeps_all keeps_heap keeps_start_session Suc.IH)
qed (auto intro!: keeps_all)

lemma keeps_StartClient: "keeps R (StartClient env cfg n cd)"
  unfolding StartClient_def by (intro keeps_all keeps_heap keeps_run_session)

lemma keeps_presence: "keeps R (schedulePresenceUpdates env n m)"
proof -
  have p: "keeps R (processPresenceUpdates env m)"
    unfolding processPresenceUpdates_def by (intro keeps_all keeps_heap)
  have "keeps R (presence_round env m ms)" for ms
    unfolding presence_round_def by (intro keeps_all keeps_heap p)
  then have "keeps R (presence_rounds env m n ms)" for ms
    by (induction n arbitrary: ms) (auto intro!: keeps_all)
  then show ?thesis unfolding schedulePresenceUpdates_def .
qed

end

text \<open>The handler has an environment of its own around that of the sessions.\<close>

context handler_rely
begin

lemma keeps_connection_events:
  assumes "evSessions h = env"
  shows "keeps R (data_map h evt)" "keeps R (store_jid h m)" "keeps R (on_app_state_sync h m b)"
    "keeps R (on_connected h a m evt)" "keeps R (on_pair_success h m evt t)" "keeps R (on_temporary_ban h evt t j)"
    "keeps R (mark_disconnected h a t)" "keeps R (on_logged_out h cfg a m evt t)" "keeps R (on_disconnected h a m)"
proof -
  show d: "keeps R (data_map h evt)"
    unfolding data_map_def by (intro keeps_all)
  show j: "keeps R (store_jid h m)"
    unfolding store_jid_def by (intro keeps_all)
  show "keeps R (on_app_state_sync h m b)"
    unfolding on_app_state_sync_def by (intro keeps_all keeps_heap)
  show "keeps R (on_connected h a m evt)"
    unfolding on_connected_def assms
    by (intro keeps_all keeps_heap d j modify_local) (simp add: local_update_def)
  show "keeps R (on_pair_success h m evt t)"
    unfolding on_pair_success_def assms Let_def
    by (intro keeps_all keeps_heap d j modify_local) (simp add: local_update_def)
  show "keeps R (on_temporary_ban h evt t j)" for j
    unfolding on_temporary_ban_def by (intro keeps_all d)
  show m: "keeps R (mark_disconnected h a t)" for t
    unfolding mark_disconnected_def assms by (intro keeps_all keeps_heap)
  show "keeps R (on_logged_out h cfg a m evt t)"
    unfolding on_logged_out_def assms Let_def by (intro keeps_all keeps_heap keeps_dispatch d m)
  show "keeps R (on_disconnected h a m)"
    unfolding on_disconnected_def by (intro keeps_all m modify_local) (simp add: local_update_def)
qed

lemma keeps_seen: "keeps R (seen_before k)"
  unfolding seen_before_def by (intro keeps_all modify_local) (simp add: local_update_def)

lemma keeps_media: "keeps R (add_media h cfg info msg d)"
proof -
  have "keeps R (store_media h cfg f t data mm)" for f t data mm
    unfolding store_media_def by (intro keeps_all)
  moreover have "keeps R (fetch_media h b f)" for b f
    unfolding fetch_media_def by (intro keeps_all)
  ultimately show ?thesis unfolding add_media_def Let_def by (intro keeps_all)
qed

lemma keeps_message: "keeps R (on_message h cfg a m info msg)"
proof -
  have "keeps R (poll_vote h m w d)" "keeps R (protocol_or_new m i w d)" "keeps R (add_group h i d)" for w d i
    unfolding poll_vote_def protocol_or_new_def add_group_def by (intro keeps_all keeps_seen)+
  moreover have "keeps R (data_map h e)" for e unfolding data_map_def by (intro keeps_all)
  ultimately have "keeps R (on_known_message h cfg m i w)" for i w
    unfolding on_known_message_def by (intro keeps_all keeps_media)
  then show ?thesis unfolding on_message_def Let_def by (intro keeps_all keeps_heap)
qed

lemma keeps_receipt: "keeps R (on_receipt cfg a m rc)"
proof -
  have s: "keeps R (save_status cfg rc k t)" for k t
    unfolding save_status_def by (intro keeps_all modify_local) (simp add: local_update_def)
  then have r: "keeps R (read_receipts cfg m rc vs)" for vs
    by (induction vs) (auto intro!: keeps_all keeps_seen)
  show ?thesis unfolding on_receipt_def
    by (cases "rcMessageIDs rc"; cases "rcType rc") (auto intro!: keeps_all keeps_heap keeps_seen s r)
qed

lemma keeps_other_events:
  assumes "evSessions h = env"
  shows "keeps R (on_label_edit h m t q c p)" "keeps R (on_call_offer a m j t)" "keeps R (on_undecryptable h m t b)"
  unfolding on_label_edit_def on_call_offer_def on_undecryptable_def assms
  by (intro keeps_all keeps_heap upsert keeps_start_parts)+

lemma keeps_branch:
  assumes "evSessions h = env"
  shows "keeps R (handle_branch h cfg a m evt)"
  using keeps_connection_events [OF assms] keeps_message keeps_receipt keeps_other_events [OF assms]
  unfolding handle_branch_def by (cases evt) (auto intro!: keeps_all)

lemma keeps_handler:
  assumes "evSessions h = env"
  shows "keeps R (myEventHandler h cfg a evt)" "keeps R (dispatchEvent h cfg a evt)"
proof -
  have "keeps R (finish_event h cfg a m evt out)" for m out
    unfolding finish_event_def
    by (intro keeps_all keeps_heap keeps_dispatch keeps_connection_events assms)
  then show k: "keeps R (myEventHandler h cfg a evt)"
    unfolding myEventHandler_def by (intro keeps_all keeps_heap keeps_branch assms)
  have "R s (snd (myEventHandler h cfg a evt s))" for s
    using keepsD [OF k] by (metis prod.collapse)
  then show "keeps R (dispatchEvent h cfg a evt)"
    by (auto simp: keeps_def dispatchEvent_def)
qed

end

section \<open>Labels and messages\<close>

lemma keeps_ok_insert_label: "keeps (keeps_ok d) (insert_label d' l)"
  by (rule keepsI)
    (auto simp: insert_label_def keeps_ok_def db_ok_def bindg_def run_clock run_read_uuid run_statement run_basic
      split: option.splits if_splits)

lemma keeps_ok_labels: "keeps (keeps_ok d) (UpsertLabel d' l)"
  unfolding UpsertLabel_def
  by (intro dbinv.keeps_intros keeps_ok_clock keeps_ok_insert_label keeps_ok_modify)
    (simp add: db_ok_def map_update_rows assign_label_def)

lemma keeps_ok_message: "keeps (keeps_ok d) (InsertMessage d' m)"
  by (rule keepsI)
    (auto simp: InsertMessage_def keeps_ok_def db_ok_def bindg_def run_clock run_statement run_basic map_update_rows
      split: option.splits if_splits)

lemma channels_tables: "keeps (same channels_of) (UpsertLabel d l)" "keeps (same channels_of) (InsertMessage d m)"
proof -
  have "keeps (same channels_of) (insert_label d l)"
    unfolding insert_label_def
    by (intro part.keeps_intros channels_clock channels_modify) (simp add: channels_of_def)
  then show "keeps (same channels_of) (UpsertLabel d l)"
    unfolding UpsertLabel_def
    by (intro part.keeps_intros channels_clock channels_modify) (simp_all add: channels_of_def)
  show "keeps (same channels_of) (InsertMessage d m)"
    unfolding InsertMessage_def
    by (intro part.keeps_intros channels_clock channels_modify) (simp_all add: channels_of_def)
qed

interpretation keys: handler_rely "under_rely env (db_ok (seDb env))" env for env
  by unfold_locales (intro keeps_under_rely keeps_ok_server keeps_ok_labels keeps_ok_message)+

interpretation channels: handler_rely "under_rely env chan_ok" env for env
  by unfold_locales (intro keeps_chan_ok channels_tables)+

end
