(* ===== verification/InstanceProperties.thy ===== *)
theory InstanceProperties
  imports SessionInvariants
begin

text \<open>
  What the instance service, its handlers and the sessions achieve together: the invariant of every
  reachable state, the effect of deleting an instance, the way of a proxy from a request to a
  session, and the places where the operations do not fit together.
\<close>

section \<open>A concrete environment\<close>

text \<open>A database that reads texts of at least three characters as UUIDs as they are, clients that
  are always connected and logged in, and no other goroutines: for the witnesses.\<close>

definition sample_db :: db_env where
  "sample_db = \<lparr>dbFault = (\<lambda>_. None), dbUuidParse = (\<lambda>_. None),
     dbUuid = (\<lambda>t. if length t < 3 then None else Some t), dbBadUuid = (\<lambda>_. ''invalid input syntax''),
     dbDuplicate = ''duplicate key'', dbNewUUID = (\<lambda>n. ''uuid'' @ show_nat n), dbNow = (\<lambda>n. int n),
     dbBefore = (\<lambda>_ _. False)\<rparr>"

definition sample_sessions :: session_env where
  "sample_sessions = \<lparr>seDb = sample_db, seConnected = (\<lambda>_ _. True), seLoggedIn = (\<lambda>_ _. True),
     seLogout = (\<lambda>_ _. None), sePair = (\<lambda>_ _ _. Ok ''ABCD''), seStoreJid = (\<lambda>_ _. None),
     sePushName = (\<lambda>_ _. []), seWaiting = (\<lambda>_ _. False), seEverTaken = (\<lambda>_ _. False), seSender = (\<lambda>_ _. False),
     seOthers = (\<lambda>_ s. s), seDevices = (\<lambda>_ _. Ok []), seAtoiError = (\<lambda>_. ''invalid syntax''),
     seJsonError = (\<lambda>_. ''unexpected end of JSON input''),
     seContainer = (\<lambda>_ _. None), seGetDevice = (\<lambda>_ _. Ok True), seWebPage = (\<lambda>_. Err ''timeout''),
     seSocks = (\<lambda>_ _. None), seHandlerID = (\<lambda>_ _. 1), seDial = (\<lambda>_ _. None),
     seQrChannel = (\<lambda>_ _. QrOpened []), seQrImage = (\<lambda>_. ''image''), seHour = (\<lambda>_. 12),
     seRandom = (\<lambda>_. 0)\<rparr>"

definition sample_session_config :: session_config where
  "sample_session_config = \<lparr>scOsName = ''Linux'', scClientName = ''evo'', scProxyHost = ''proxy'',
     scProxyPort = ''80'', scProxyUsername = [], scProxyPassword = [], scGlobalApiKey = ''admin'', scPostgresAuthDB = [],
     scExPath = ''/app'', scWhatsappVersion = (2, 3000, 1), scQrcodeMaxCount = 3,
     scGlobal = \<lparr>AmqpGlobalEnabled = False, AmqpGlobalEvents = [], AmqpSpecificEvents = [],
       NatsGlobalEnabled = False, NatsGlobalEvents = []\<rparr>,
     scWebhookFiles = False, scMinioEnabled = False, scEventIgnoreGroup = False,
     scEventIgnoreStatus = False, scDatabaseSaveMessages = True\<rparr>"

definition sample_instance :: "string \<Rightarrow> string \<Rightarrow> Instance" where
  "sample_instance key token = zeroInstance\<lparr>iId := key, iToken := token, iName := key, iCreatedAt := 1\<rparr>"

definition zeroMyClient :: MyClient where
  "zeroMyClient = \<lparr>mcInstance = 0, mcWAClient = 0, mcUserID = [], mcToken = [], mcSubscriptions = [],
     mcWebhookUrl = [], mcRabbitmqEnable = [], mcNatsEnable = [], mcWebsocketEnable = [],
     mcEventHandlerID = 0, mcQrcodeCount = 0\<rparr>"

definition zeroDeviceProps :: device_props where
  "zeroDeviceProps = \<lparr>dpPlatform = [], dpOs = [], dpFullSync = False, dpVersion = (0, 0, 0)\<rparr>"

definition emptyServer :: server where
  "emptyServer = \<lparr>dbInstances = [], dbLabels = [], dbMessages = [], stTick = 0, svClients = (\<lambda>_. None),
     svMyClients = (\<lambda>_. None), svKill = (\<lambda>_. None), svUserInfo = (\<lambda>_. None), svFresh = 0,
     svInstances = (\<lambda>_. zeroInstance), svSessions = (\<lambda>_. zeroMyClient), svProcessed = [],
     svDeviceProps = zeroDeviceProps, svChannels = 0, svClosed = [],
     svSignals = [], svStarted = [], svReconnects = [], svRestarts = [], svPresences = [], svPosts = [],
     svGlobalPosts = [], svInserts = [], svCommands = [], svDisconnects = [], svLogouts = [],
     svRemovedHandlers = [], svQueries = [], svSlept = 0\<rparr>"

definition sampleServer :: server where
  "sampleServer = emptyServer\<lparr>dbInstances := [sample_instance ''one'' ''t1'', sample_instance ''two'' ''t2''],
     svClients := [''one'' \<mapsto> 7], svKill := [''one'' \<mapsto> 0], svChannels := 1\<rparr>"

lemmas sample_defs = sample_db_def sample_sessions_def sample_session_config_def sample_instance_def
  emptyServer_def sampleServer_def zeroMyClient_def zeroDeviceProps_def zeroInstance_def zeroSettings_def

lemma sample_ok: "healthy (seDb sample_sessions)" "canonical (seDb sample_sessions)"
  "server_ok sample_sessions sampleServer" "seOthers sample_sessions n s = s"
  "names_row (seDb sample_sessions) sampleServer ''one'' (sample_instance ''one'' ''t1'')"
  "names_row (seDb sample_sessions) sampleServer ''two'' (sample_instance ''two'' ''t2'')"
  by (simp_all add: healthy_def canonical_def server_ok_def db_ok_def chan_ok_def names_row_def sample_defs)

section \<open>The invariant of the running server\<close>

inductive service_step :: "session_env \<Rightarrow> session_config \<Rightarrow> server \<Rightarrow> server \<Rightarrow> bool"
  for env :: session_env and cfg :: session_config where
  create: "Create env cfg d s = (r1, s') \<Longrightarrow> service_step env cfg s s'"
| connect: "Connect env cfg co i s = (r2, s') \<Longrightarrow> service_step env cfg s s'"
| reconnect: "Reconnect env cfg i s = (r3, s') \<Longrightarrow> service_step env cfg s s'"
| disconnect: "service_Disconnect env cfg i s = (r4, s') \<Longrightarrow> service_step env cfg s s'"
| logout: "service_Logout env cfg i s = (r5, s') \<Longrightarrow> service_step env cfg s s'"
| status: "service_Status env cfg i s = (r6, s') \<Longrightarrow> service_step env cfg s s'"
| get_qr: "service_GetQr env cfg i s = (r7, s') \<Longrightarrow> service_step env cfg s s'"
| pair: "service_Pair env t i s = (r8, s') \<Longrightarrow> service_step env cfg s s'"
| get_all: "service_GetAll env cfg s = (r9, s') \<Longrightarrow> service_step env cfg s s'"
| info: "service_Info env k s = (r10, s') \<Longrightarrow> service_step env cfg s s'"
| by_token: "service_GetInstanceByToken env t s = (r11, s') \<Longrightarrow> service_step env cfg s s'"
| remove: "service_Delete env k s = (r12, s') \<Longrightarrow> service_step env cfg s s'"
| set_proxy: "SetProxyFromStruct env k sp s = (r13, s') \<Longrightarrow> service_step env cfg s s'"
| remove_proxy: "RemoveProxy env k s = (r14, s') \<Longrightarrow> service_step env cfg s s'"
| force: "ForceReconnect env cfg k t s = (r15, s') \<Longrightarrow> service_step env cfg s s'"
| get_settings: "service_GetAdvancedSettings env k s = (r16, s') \<Longrightarrow> service_step env cfg s s'"
| put_settings: "service_UpdateAdvancedSettings env k a s = (r17, s') \<Longrightarrow> service_step env cfg s s'"
| start: "StartInstance env cfg k s = (r18, s') \<Longrightarrow> service_step env cfg s s'"
| startup: "ConnectOnStartup env cfg k s = (r19, s') \<Longrightarrow> service_step env cfg s s'"
| restart: "ReconnectClient env cfg k s = (r20, s') \<Longrightarrow> service_step env cfg s s'"
| session: "StartClient env cfg n cd s = (r21, s') \<Longrightarrow> service_step env cfg s s'"
| session_on: "run_session env cfg a subs p n ph s = (r22, s') \<Longrightarrow> service_step env cfg s s'"
| presence: "schedulePresenceUpdates env n a s = (r23, s') \<Longrightarrow> service_step env cfg s s'"
| event: "evSessions h = env \<Longrightarrow> dispatchEvent h cfg a evt s = (r24, s') \<Longrightarrow> service_step env cfg s s'"
| stored: "InsertMessage (seDb env) msg s = (r25, s') \<Longrightarrow> service_step env cfg s s'"
| other: "service_step env cfg s (seOthers env n s)"

inductive service_reachable :: "session_env \<Rightarrow> session_config \<Rightarrow> server \<Rightarrow> bool"
  for env :: session_env and cfg :: session_config where
  empty: "service_reachable env cfg emptyServer"
| step: "service_reachable env cfg s \<Longrightarrow> service_step env cfg s s' \<Longrightarrow> service_reachable env cfg s'"

text \<open>What every operation keeps is kept by every step.\<close>

context handler_rely
begin

lemma step_keeps: "service_step env cfg s s' \<Longrightarrow> R s s'"
proof (induction rule: service_step.induct)
  case (event h a evt s r24 s')
  then show ?case using keepsD [OF keeps_handler(2)] by blast
qed (auto intro: others dest: keeps_service [THEN keepsD] keeps_GetAll [THEN keepsD] keeps_Delete [THEN keepsD]
      keeps_proxies [THEN keepsD] keeps_ForceReconnect [THEN keepsD] keeps_advanced [THEN keepsD]
      keeps_StartInstance [THEN keepsD] keeps_startup [THEN keepsD] keeps_ReconnectClient [THEN keepsD]
      keeps_StartClient [THEN keepsD] keeps_run_session [THEN keepsD] keeps_presence [THEN keepsD]
      insert [THEN keepsD])

lemma reachable_keeps: "service_reachable env cfg s \<Longrightarrow> R emptyServer s"
  by (induction rule: service_reachable.induct) (blast intro: frame_refl frame_trans step_keeps)+

end

text \<open>C18: Whatever sequence of operations of the instance service, of the session functions, of the
  goroutines of sessions and of their event handlers runs, with whatever answers of the database and
  of the clients, as long as the other goroutines keep it, too: ids and tokens of instances, ids of labels and messages and message ids stay unique, and the
  kill channels in the shared map stay open and belong to one instance each.\<close>

theorem service_keeps_invariant:
  assumes "canonical (seDb env)"
    and "\<And>n s. db_ok (seDb env) s \<Longrightarrow> db_ok (seDb env) (seOthers env n s)"
    and "\<And>n s. chan_ok s \<Longrightarrow> chan_ok (seOthers env n s)"
    and "service_reachable env cfg s"
  shows "server_ok env s"
proof -
  have "db_ok (seDb env) emptyServer" "chan_ok emptyServer"
    by (simp_all add: emptyServer_def db_ok_def chan_ok_def)
  moreover have "rely env (db_ok (seDb env))" "rely env chan_ok"
    using assms(1-3) by (simp_all add: rely_def)
  ultimately show ?thesis
    using keys.reachable_keeps [OF assms(4)] channels.reachable_keeps [OF assms(4)]
    by (simp add: under_rely_def server_ok_def)
qed

definition sample_create :: CreateStruct where
  "sample_create = \<lparr>crInstanceId = ''one'', crName = ''one'', crToken = ''t1'', crProxy = None,
     crAdvancedSettings = None\<rparr>"

theorem service_keeps_invariant_witness:
  "server_ok sample_sessions (snd (StartInstance sample_sessions sample_session_config ''one''
     (snd (Create sample_sessions sample_session_config sample_create emptyServer))))"
proof (rule service_keeps_invariant)
  show "service_reachable sample_sessions sample_session_config
      (snd (StartInstance sample_sessions sample_session_config ''one''
        (snd (Create sample_sessions sample_session_config sample_create emptyServer))))"
    by (rule service_reachable.step [OF service_reachable.step [OF service_reachable.empty service_step.create]
          service_step.start]) (rule surjective_pairing)+
qed (simp_all add: sample_ok)

section \<open>Deleting an instance\<close>

text \<open>The shared state that ending a client leaves alone.\<close>

definition shared :: "server \<Rightarrow> Instance list \<times> Label list \<times> Message list \<times> (string \<Rightarrow> session_client option) \<times>
    (string \<Rightarrow> address option) \<times> (string \<Rightarrow> channel option) \<times> channel list \<times> nat \<times> (string \<Rightarrow> UserInfo option) \<times>
    ClientData list" where
  "shared s = (dbInstances s, dbLabels s, dbMessages s, svClients s, svMyClients s, svKill s, svClosed s,
     svChannels s, svUserInfo s, svStarted s)"

lemma shared_tick [simp]: "shared (tick s) = shared s"
  by (simp add: shared_def tick_def)

lemma server_ok_shared: "shared s' = shared s \<Longrightarrow> server_ok env s = server_ok env s'"
  by (simp add: shared_def server_ok_def db_ok_def chan_ok_def)

lemma shared_clock: "keeps (same shared) clock" "keeps (same shared) (question h)"
proof -
  show c: "keeps (same shared) clock" by (simp add: keeps_def run_clock same_def shared_def)
  show "keeps (same shared) (question h)" unfolding question_def by (intro part.keeps_intros c)
qed

lemma shared_quiet: "keeps (same shared) (client_disconnect c)" "keeps (same shared) (client_logout env c)"
  "keeps (same shared) (client_connected env c)" "keeps (same shared) (client_logged_in env c)"
  unfolding client_disconnect_def client_logout_def client_connected_def client_logged_in_def
  by (intro part.keeps_intros part.keeps_modify shared_clock; simp add: same_def shared_def)+

lemma end_client_quiet: "\<exists>s1. end_client env k s = (Return (), s1) \<and> shared s1 = shared s"
proof -
  have "keeps (same shared) (end_client env k)"
    unfolding end_client_def session_client_of_def by (intro part.keeps_intros shared_clock shared_quiet)
  moreover have "fst (end_client env k s) = Return ()"
    by (auto simp: end_client_def session_client_of_def client_connected_def client_logged_in_def client_logout_def
        client_disconnect_def question_def bindg_def attempt_def run_clock run_basic of_error_def
        split: option.splits prod.splits)
  ultimately show ?thesis
    by (metis keepsD prod.collapse same_def)
qed

lemma clear_cache_run:
  assumes "svKill s k = None"
  shows "ClearInstanceCache env k t s =
    (Return (), s\<lparr>svUserInfo := (svUserInfo s)(t := None), svMyClients := (svMyClients s)(k := None),
       svClients := (svClients s)(k := None)\<rparr>)"
  using assms
  by (simp add: ClearInstanceCache_def forget_user_info_def forget_my_client_def forget_client_def
      bindg_def run_basic signal_and_close_run)

definition deleted :: "string \<Rightarrow> Instance \<Rightarrow> server \<Rightarrow> server \<Rightarrow> bool" where
  "deleted key i s s' =
     (dbInstances s' = filter (\<lambda>r. iId r \<noteq> iId i) (dbInstances s) \<and>
      dbLabels s' = filter (\<lambda>r. lbInstanceID r \<noteq> iId i) (dbLabels s) \<and>
      dbMessages s' = filter (\<lambda>r. msgSource r \<noteq> key) (dbMessages s) \<and>
      svClients s' = (svClients s)(iId i := None) \<and> svMyClients s' = (svMyClients s)(iId i := None) \<and>
      svKill s' = (svKill s)(iId i := None) \<and> svUserInfo s' = (svUserInfo s)(iToken i := None) \<and>
      set (svClosed s') = set (svClosed s) \<union> set_option (svKill s (iId i)) \<and> svStarted s' = svStarted s)"

text \<open>C30: Deleting an instance of a well-formed state, whatever its client answers, succeeds without a
  panic: its row and labels are gone, so are its entries in the four shared maps, its kill channel is
  closed, and every other instance keeps all of its own. Messages are removed by their source, the
  user of a chat, compared with the id of the instance, so those of the instance stay.\<close>

theorem delete_instance:
  assumes "healthy (seDb env)" and "server_ok env s" and "names_row (seDb env) s key i"
  shows "\<exists>s'. service_Delete env key s = (Return (), s') \<and> deleted key i s s'"
proof -
  have ok: "db_ok (seDb env) s" "chan_ok s" using assms(2) by (simp_all add: server_ok_def)
  have get: "repo_GetInstanceByID (seDb env) key s = (Return i, tick s)"
    by (rule get_by_id [OF assms(1) ok(1) assms(3)])
  obtain s1 where s1: "end_client env (iId i) (tick s) = (Return (), s1)" "shared s1 = shared s"
    using end_client_quiet [of env "iId i" "tick s"] by auto
  let ?s2 = "s1\<lparr>svClients := (svClients s)(iId i := None)\<rparr>"
  have s2: "forget_client (iId i) s1 = (Return (), ?s2)"
    using s1(2) by (simp add: forget_client_def run_basic shared_def)
  define s3 where "s3 = (case svKill s (iId i) of None \<Rightarrow> ?s2
    | Some c \<Rightarrow> ?s2\<lparr>svClosed := c # svClosed s, svKill := (svKill s)(iId i := None)\<rparr>)"
  have s3: "close_kill (iId i) ?s2 = (Return (), s3)"
    using s1(2) ok(2) by (auto simp: close_kill_run s3_def shared_def chan_ok_def split: option.split)
  let ?s4 = "s3\<lparr>svUserInfo := (svUserInfo s3)(iToken i := None), svMyClients := (svMyClients s3)(iId i := None),
    svClients := (svClients s3)(iId i := None)\<rparr>"
  have s4: "ClearInstanceCache env (iId i) (iToken i) s3 = (Return (), ?s4)"
    using s1(2) by (intro clear_cache_run) (auto simp: s3_def shared_def split: option.split)
  have u: "dbUuid (seDb env) key = Some (iId i)" using assms(3) by (simp add: names_row_def)
  have run: "service_Delete env key s = repo_Delete (seDb env) key ?s4"
    using get s1(1) s2 s3 s4 by (simp add: service_Delete_def bindg_def attempt_def)
  show ?thesis unfolding run delete_by_id [OF assms(1) u] deleted_def
    using s1(2) by (auto simp: s3_def shared_def split: option.split)
qed

theorem delete_instance_witness:
  "\<exists>s'. service_Delete sample_sessions ''one'' sampleServer = (Return (), s') \<and>
     deleted ''one'' (sample_instance ''one'' ''t1'') sampleServer s'"
  by (rule delete_instance) (rule sample_ok)+

section \<open>Proxies\<close>

lemma names_id:
  "names_row d s key i \<Longrightarrow> db_ok d s \<Longrightarrow> i \<in> set (dbInstances s) \<and> dbUuid d key = Some (iId i)"
  by (simp add: names_row_def)

lemma names_nonempty: "canonical d \<Longrightarrow> names_row d s key i \<Longrightarrow> iId i \<noteq> []"
  using canonicalD by (auto simp: names_row_def)

text \<open>Writing the proxy of a row, as \<open>SetProxy\<close> and \<open>RemoveProxy\<close> do.\<close>

lemma save_proxy:
  assumes "healthy d" and "canonical d" and "db_ok d s" and "names_row d s key i"
  obtains s1 where "repo_Update d (i\<lparr>iProxy := t\<rparr>) (s :: server) = (Return (), s1)" "db_ok d s1"
    "names_row d s1 key (i\<lparr>iProxy := t\<rparr>)" "svMyClients s1 = svMyClients s" "svStarted s1 = svStarted s"
proof -
  let ?s1 = "(tick s)\<lparr>dbInstances := update_rows (\<lambda>r. iId r = iId i) (\<lambda>_. i\<lparr>iProxy := t\<rparr>) (dbInstances s)\<rparr>"
  have run: "repo_Update d (i\<lparr>iProxy := t\<rparr>) s = (Return (), ?s1)"
    using assms names_nonempty [OF assms(2,4)] by (intro save_by_id) (auto simp: names_row_def)
  have "keeps (keeps_ok d) (repo_Update d (i\<lparr>iProxy := t\<rparr>))"
    unfolding repo_Update_def by (rule keeps_ok_save [OF assms(2)])
  from keepsD [OF this run] have "db_ok d ?s1" using assms(3) by (simp add: keeps_ok_def)
  moreover have "names_row d ?s1 key (i\<lparr>iProxy := t\<rparr>)"
    by (rule names_updated [OF assms(4), of "\<lambda>_. i\<lparr>iProxy := t\<rparr>"]) simp_all
  ultimately show thesis using run by (intro that [of ?s1]) (simp_all add: tick_def)
qed

lemma SetProxy_run:
  assumes "healthy (seDb env)" and "canonical (seDb env)" and "db_ok (seDb env) s" and "names_row (seDb env) s key i"
    and "pHost p \<noteq> []" and "pPort p \<noteq> []"
  obtains s1 where "SetProxy env key (Some p) s = (Return (), s1)" "db_ok (seDb env) s1"
    "names_row (seDb env) s1 key (i\<lparr>iProxy := marshalProxy (Some p)\<rparr>)"
proof -
  have "names_row (seDb env) (tick s) key i" "db_ok (seDb env) (tick s)"
    using assms(3,4) by (simp_all add: names_row_def)
  from save_proxy [OF assms(1,2) this(2,1)] obtain s1
    where s1: "repo_Update (seDb env) (i\<lparr>iProxy := marshalProxy (Some p)\<rparr>) (tick s) = (Return (), s1)"
      "db_ok (seDb env) s1" "names_row (seDb env) s1 key (i\<lparr>iProxy := marshalProxy (Some p)\<rparr>)" by blast
  let ?s2 = "s1\<lparr>svReconnects := svReconnects s1 @ [i\<lparr>iProxy := marshalProxy (Some p)\<rparr>]\<rparr>"
  have "SetProxy env key (Some p) s = (Return (), ?s2)"
    using s1(1) assms(5,6) get_by_id [OF assms(1,3,4)]
    by (simp add: SetProxy_def bindg_def go_reconnect_def run_basic)
  moreover have "db_ok (seDb env) ?s2" "names_row (seDb env) ?s2 key (i\<lparr>iProxy := marshalProxy (Some p)\<rparr>)"
    using s1(2,3) by (simp_all add: db_ok_def names_row_def)
  ultimately show thesis by (rule that)
qed

text \<open>Starting a session for a row that has a proxy text.\<close>

lemma StartInstance_run:
  assumes "healthy (seDb env)" and "db_ok (seDb env) s" and "names_row (seDb env) s key i"
    and "iProxy i \<noteq> []" and "unmarshalProxy (iProxy i) = Some p"
  shows "\<exists>s'. StartInstance env cfg key s = (Return (), s') \<and> svStarted s' = svStarted s @
      [\<lparr>cdInstance = i, cdSubscriptions = parse_events (iEvents i), cdPhone = [], cdIsProxy = (pHost p \<noteq> [])\<rparr>]"
  using assms(4,5) get_by_id [OF assms(1-3)]
  by (simp add: StartInstance_def with_global_proxy_def read_proxy_def set_user_info_def make_channel_run
      spawn_client_def bindg_def run_basic tick_def)



lemma RemoveProxy_run:
  assumes "healthy (seDb env)" and "canonical (seDb env)" and "db_ok (seDb env) s" and "names_row (seDb env) s key i"
  obtains s1 where "RemoveProxy env key s = (Return (), s1)" "db_ok (seDb env) s1"
    "names_row (seDb env) s1 key (i\<lparr>iProxy := []\<rparr>)" "svMyClients s1 = svMyClients s"
proof -
  have "names_row (seDb env) (tick s) key i" "db_ok (seDb env) (tick s)"
    using assms(3,4) by (simp_all add: names_row_def)
  from save_proxy [OF assms(1,2) this(2,1)] obtain s1
    where s1: "repo_Update (seDb env) (i\<lparr>iProxy := []\<rparr>) (tick s) = (Return (), s1)"
      "db_ok (seDb env) s1" "names_row (seDb env) s1 key (i\<lparr>iProxy := []\<rparr>)" "svMyClients s1 = svMyClients (tick s)" by blast
  let ?s2 = "s1\<lparr>svReconnects := svReconnects s1 @ [i\<lparr>iProxy := []\<rparr>]\<rparr>"
  have "RemoveProxy env key s = (Return (), ?s2)"
    using s1(1) get_by_id [OF assms(1,3,4)] by (simp add: RemoveProxy_def bindg_def go_reconnect_def run_basic)
  moreover have "db_ok (seDb env) ?s2" "names_row (seDb env) ?s2 key (i\<lparr>iProxy := []\<rparr>)" "svMyClients ?s2 = svMyClients s"
    using s1(2,3,4) by (simp_all add: db_ok_def names_row_def tick_def)
  ultimately show thesis by (rule that)
qed

text \<open>\<open>Connect\<close> for an instance that is not running and whose stored proxy text is empty.\<close>

lemma Connect_without_proxy:
  assumes "healthy (seDb env)" and "canonical (seDb env)" and "db_ok (seDb env) s" and "i \<in> set (dbInstances s)"
    and "dbUuidParse (seDb env) (iId i) = None" and "svMyClients s (iId i) = None" and "iProxy i = []" and "scProxyHost cfg \<noteq> []"
  shows "\<exists>s'. Connect env cfg data i s = (Raise (seJsonError env []), s') \<and> svStarted s' = svStarted s"
proof -
  let ?i = "connected_instance data i"
  have u: "dbUuid (seDb env) (iId i) = Some (iId i)" using assms(3,4) by (simp add: db_ok_def)
  with assms(2) have ne: "iId i \<noteq> []" by (auto simp: canonical_def)
  have ki: "iId ?i = iId i" "iToken ?i = iToken i" "iProxy ?i = []" using assms(7) by (simp_all add: connected_instance_def)
  let ?s1 = "(tick s)\<lparr>dbInstances := update_rows (\<lambda>r. iId r = iId i) (\<lambda>_. ?i) (dbInstances s)\<rparr>"
  have save: "repo_Update (seDb env) ?i s = (Return (), ?s1)"
    by (rule save_by_id) (use assms ki ne in simp_all)
  have "keeps (keeps_ok (seDb env)) (repo_Update (seDb env) ?i)"
    unfolding repo_Update_def by (rule keeps_ok_save [OF assms(2)])
  from keepsD [OF this save] assms(3) have ok: "db_ok (seDb env) ?s1" by (simp add: keeps_ok_def)
  have "names_row (seDb env) s (iId i) i" using assms(4,5) u by (simp add: names_row_def)
  then have "names_row (seDb env) ?s1 (iId i) ?i"
    by (rule names_updated [of _ _ _ _ "\<lambda>_. ?i"]) (simp_all add: ki)
  from get_by_id [OF assms(1) ok this]
  have "UpdateInstanceSettings env (iId i) ?s1 = (Raise (not_running (iId i)), tick ?s1)"
    using assms(6) by (simp add: UpdateInstanceSettings_def bindg_def run_basic tick_def)
  then show ?thesis using save assms(8) ki
    by (simp add: Connect_def Let_def bindg_def attempt_def make_channel_run wants_proxy_def read_proxy_def
        unmarshal_empty run_basic tick_def)
qed

text \<open>After \<open>RemoveProxy\<close> an instance that is not running cannot be connected while a proxy host is
  configured: the empty text that \<open>RemoveProxy\<close> stores is not JSON, \<open>Connect\<close> tries to read it because
  of the configured host, fails, and starts no session.\<close>

theorem remove_proxy_breaks_connect:
  assumes "healthy (seDb env)" and "canonical (seDb env)" and "server_ok env s" and "names_row (seDb env) s key i"
    and "dbUuidParse (seDb env) (iId i) = None" and "svMyClients s (iId i) = None" and "scProxyHost cfg \<noteq> []"
    and "iToken i \<noteq> []"
  shows "\<exists>s1 s2 s3. RemoveProxy env key s = (Return (), s1) \<and>
    Auth env (iToken i) s1 = (Return (Authorized (i\<lparr>iProxy := []\<rparr>)), s2) \<and>
    Connect env cfg data (i\<lparr>iProxy := []\<rparr>) s2 = (Raise (seJsonError env []), s3) \<and> svStarted s3 = svStarted s2"
proof -
  let ?i = "i\<lparr>iProxy := []\<rparr>"
  from assms(3) have "db_ok (seDb env) s" by (simp add: server_ok_def)
  from RemoveProxy_run [OF assms(1,2) this assms(4)] obtain s1 where
    s1: "RemoveProxy env key s = (Return (), s1)" "db_ok (seDb env) s1" "names_row (seDb env) s1 key ?i"
      "svMyClients s1 = svMyClients s" .
  have row: "?i \<in> set (dbInstances s1)" using s1(3) by (simp add: names_row_def)
  have auth: "Auth env (iToken i) s1 = (Return (Authorized ?i), tick s1)"
    using get_by_token [OF assms(1) s1(2) row] assms(8)
    by (simp add: Auth_def service_GetInstanceByToken_def attempt_def run_basic)
  have "\<exists>s'. Connect env cfg data ?i (tick s1) = (Raise (seJsonError env []), s') \<and> svStarted s' = svStarted (tick s1)"
    by (rule Connect_without_proxy [OF assms(1,2)]) (use s1 row assms in \<open>simp_all add: tick_def db_ok_def\<close>)
  with s1(1) auth show ?thesis by blast
qed

definition sample_connect :: ConnectStruct where
  "sample_connect = \<lparr>coWebhookUrl = ''http://x'', coSubscribe = [], coImmediate = False, coPhone = [],
     coRabbitmqEnable = [], coWebSocketEnable = [], coNatsEnable = []\<rparr>"

theorem remove_proxy_breaks_connect_witness:
  "\<exists>s1 s2 s3. RemoveProxy sample_sessions ''two'' sampleServer = (Return (), s1) \<and>
    Auth sample_sessions ''t2'' s1 = (Return (Authorized (sample_instance ''two'' ''t2'')), s2) \<and>
    Connect sample_sessions sample_session_config sample_connect (sample_instance ''two'' ''t2'') s2 =
      (Raise ''unexpected end of JSON input'', s3) \<and> svStarted s3 = svStarted s2"
  using remove_proxy_breaks_connect [OF sample_ok(1,2,3,6), of sample_session_config sample_connect]
  by (simp add: sample_defs)

section \<open>Tokens and settings\<close>

text \<open>C33: The token of any instance is enough to overwrite the advanced settings of every other one: the
  route checks that the token belongs to some instance, and then uses the id from the path.\<close>

theorem any_token_changes_settings:
  assumes "healthy (seDb env)" and "server_ok env s" and "i \<in> set (dbInstances s)" and "iToken i \<noteq> []"
    and "names_row (seDb env) s key j" and "key \<noteq> []"
  shows "\<exists>s'. route_UpdateAdvancedSettings env (iToken i) key (Ok (Some a)) s = (Return (Success a), s') \<and>
    j\<lparr>iSettings := a\<rparr> \<in> set (dbInstances s')"
proof -
  from assms(2) have ok: "db_ok (seDb env) s" by (simp add: server_ok_def)
  have auth: "Auth env (iToken i) s = (Return (Authorized i), tick s)"
    using get_by_token [OF assms(1) ok assms(3)] assms(4)
    by (simp add: Auth_def service_GetInstanceByToken_def attempt_def run_basic)
  let ?s1 = "(tick (tick s))\<lparr>dbInstances := update_rows (\<lambda>r. iId r = iId j) (\<lambda>r. r\<lparr>iSettings := a\<rparr>) (dbInstances s)\<rparr>"
  have upd: "repo_UpdateAdvancedSettings (seDb env) key a (tick s) = (Return (), ?s1)"
    using assms(1,5) by (simp add: repo_UpdateAdvancedSettings_def bindg_def run_check_uuid names_row_def update_by_id)
  have row: "j\<lparr>iSettings := a\<rparr> \<in> set (dbInstances ?s1)"
    using assms(5) by (force simp: set_update_rows names_row_def)
  have "db_ok (seDb env) ?s1"
    using keepsD [OF keeps_ok_repo(13) upd] ok by (simp add: keeps_ok_def)
  moreover have "names_row (seDb env) ?s1 key (j\<lparr>iSettings := a\<rparr>)"
    by (rule names_updated [OF assms(5), of "\<lambda>r. r\<lparr>iSettings := a\<rparr>"]) simp_all
  ultimately have get: "repo_GetInstanceByID (seDb env) key ?s1 = (Return (j\<lparr>iSettings := a\<rparr>), tick ?s1)"
    by (rule get_by_id [OF assms(1)])
  obtain r s2 where s2: "UpdateInstanceAdvancedSettings env key ?s1 = (r, s2)" "r \<noteq> Crash" "dbInstances s2 = dbInstances ?s1"
    using get by (cases "svMyClients (tick ?s1) key")
      (auto simp: UpdateInstanceAdvancedSettings_def session_heap_defs bindg_def run_basic tick_def)
  then have "handle_UpdateAdvancedSettings env key (Ok (Some a)) (tick s) = (Return (Success a), s2)"
    using upd assms(6)
    by (cases r) (simp_all add: handle_UpdateAdvancedSettings_def with_param_def reply_server_def
        service_UpdateAdvancedSettings_def bindg_def attempt_def run_basic Let_def)
  with auth s2(3) row show ?thesis
    by (simp add: route_UpdateAdvancedSettings_def behind_auth_def bindg_def)
qed

theorem any_token_changes_settings_witness:
  "\<exists>s'. route_UpdateAdvancedSettings sample_sessions ''t1'' ''two'' (Ok (Some (zeroSettings\<lparr>asRejectCall := True\<rparr>))) sampleServer =
      (Return (Success (zeroSettings\<lparr>asRejectCall := True\<rparr>)), s') \<and>
    (sample_instance ''two'' ''t2'')\<lparr>iSettings := zeroSettings\<lparr>asRejectCall := True\<rparr>\<rparr> \<in> set (dbInstances s')"
  using any_token_changes_settings [OF sample_ok(1,3) _ _ sample_ok(6), of "sample_instance ''one'' ''t1''"
      "zeroSettings\<lparr>asRejectCall := True\<rparr>"]
  by (simp add: sampleServer_def sample_instance_def)

section \<open>Forced reconnection\<close>

text \<open>The others leave the clients and the kill channel of one instance alone.\<close>

definition others_spare :: "session_env \<Rightarrow> string \<Rightarrow> bool" where
  "others_spare env k = (\<forall>n s. svKill (seOthers env n s) k = svKill s k)"

lemma others_spareD: "others_spare env k \<Longrightarrow> svKill (seOthers env n s) k = svKill s k"
  by (simp add: others_spare_def)

lemma send_within_kill:
  assumes "others_spare env k" and "send_within env ch ms s = (r, s')"
  shows "svKill s' k = svKill s k"
proof -
  have m: "keeps (same (\<lambda>s. svKill s k)) (wait_ms env t)" for t
    using assms(1) by (auto simp: keeps_def same_def wait_ms_def bindg_def run_clock run_basic others_spare_def)
  have q: "keeps (same (\<lambda>s. svKill s k)) (question h)" for h :: "nat \<Rightarrow> bool"
    by (simp add: keeps_def same_def question_def bindg_def run_clock run_basic)
  have g: "keeps (same (\<lambda>s. svKill s k)) (modify (\<lambda>s. s\<lparr>svSignals := svSignals s @ [c]\<rparr>))" for c
    by (rule part.keeps_modify) (simp add: same_def)
  have "keeps (same (\<lambda>s. svKill s k)) (send_within env ch ms)"
    unfolding send_within_def send_waiting_def by (intro part.keeps_intros m q g)
  from keepsD [OF this assms(2)] show ?thesis by (simp add: same_def)
qed

lemma bind_ReturnD:
  "bindg m k s = (Return x, s') \<Longrightarrow> \<exists>y s1. m s = (Return y, s1) \<and> k y s1 = (Return x, s')"
  by (auto elim: bindE)

lemma get_by_id_key: "repo_GetInstanceByID d key s = (Return r, s1) \<Longrightarrow> dbUuid d key = Some (iId r)"
  by (auto simp: repo_GetInstanceByID_def first_instance_def bindg_def run_check_uuid run_read_uuid run_statement
      run_basic dest: first_row_in split: option.splits)

text \<open>The steps of \<open>ForceReconnect\<close> before it drops the client leave the clients alone.\<close>

lemma clients_quiet:
  "keeps (same svClients) clock" "keeps (same svClients) (question h)" "keeps (same svClients) (statement d)"
  "keeps (same svClients) (read_uuid d t)" "keeps (same svClients) (check_uuid d t)"
  "keeps (same svClients) (repo_GetInstanceByID d t)" "keeps (same svClients) (update_instances d t f)"
  "keeps (same svClients) (make_channel t)" "keeps (same svClients) (wants_proxy env cfg i)"
proof -
  show c: "keeps (same svClients) clock" "keeps (same svClients) (statement d)" "keeps (same svClients) (read_uuid d t)"
      "keeps (same svClients) (check_uuid d t)" for d t
    by (auto simp: keeps_def same_def run_clock run_statement run_read_uuid run_check_uuid)
  show "keeps (same svClients) (question h)" unfolding question_def by (intro part.keeps_intros c)
  show "keeps (same svClients) (repo_GetInstanceByID d t)"
    unfolding repo_GetInstanceByID_def first_instance_def by (intro part.keeps_intros c)
  show "keeps (same svClients) (update_instances d t f)"
    unfolding update_instances_def by (intro part.keeps_intros part.keeps_modify c) (simp add: same_def)
  show "keeps (same svClients) (make_channel t)" by (simp add: keeps_def make_channel_run same_def)
  show "keeps (same svClients) (wants_proxy env cfg i)"
    unfolding wants_proxy_def read_proxy_def by (intro part.keeps_intros)
qed

lemma clients_force: "keeps (same svClients) (ForceUpdateJid env k t)"
proof -
  have "keeps (same svClients) (modify (\<lambda>s. s\<lparr>svQueries := svQueries s @ [q]\<rparr>))" for q
    by (rule part.keeps_modify) (simp add: same_def)
  then show ?thesis
    unfolding ForceUpdateJid_def repo_UpdateJid_def by (intro part.keeps_intros clients_quiet)
qed

lemma drop_client_kill:
  assumes "others_spare env k" and "svClients s k = Some c" and "drop_client env k s = (r, s')" and "r \<noteq> Crash"
  shows "svKill s' k = None"
proof -
  let ?s1 = "s\<lparr>svDisconnects := svDisconnects s @ [c]\<rparr>"
  have "stop_session env k ?s1 = (r, s')"
    using assms(2,3) by (simp add: drop_client_def session_client_of_def client_disconnect_def bindg_def run_basic)
  then show ?thesis using assms(4)
    by (auto simp: stop_session_def forget_client_def forget_channel_def send_within_def send_waiting_def
        bindg_def run_basic wait_ms_def question_def run_clock split: option.splits if_splits prod.splits)
qed

lemma restart_client_kill:
  assumes "others_spare env (iId j)" and "svClients s (iId j) = Some old" and "restart_client env j isProxy s = (Return (), s')"
  shows "svKill s' (iId j) = None \<and> (\<exists>c. svClients s' (iId j) = Some c)"
proof -
  from assms(3) obtain s7 s8 s9 where
    s7: "drop_client env (iId j) s = (Return (), s7)" and
    s8: "spawn_client \<lparr>cdInstance = j, cdSubscriptions = split_char CHR '','' (iEvents j), cdPhone = [],
      cdIsProxy = isProxy\<rparr> s7 = (Return (), s8)" and
    s9: "wait_ms env 2000 s8 = (Return (), s9)" and
    login: "check_login env (iId j) s9 = (Return (), s')"
    by (auto simp: restart_client_def dest!: bind_ReturnD)
  have "svKill s7 (iId j) = None" by (rule drop_client_kill [OF assms(1,2) s7]) simp
  with s8 s9 have k9: "svKill s9 (iId j) = None"
    by (auto simp: spawn_client_def wait_ms_def bindg_def run_clock run_basic others_spareD [OF assms(1)])
  from login have "(\<exists>c. svClients s' (iId j) = Some c) \<and> svKill s' = svKill s9"
    by (auto simp: check_login_def session_client_of_def client_connected_def client_logged_in_def question_def
        bindg_def run_clock run_basic split: option.splits if_splits)
  with k9 show ?thesis by simp
qed

text \<open>A client that is connected and logged in is disconnected by a signal on the kill channel.\<close>

lemma disconnect_without_channel:
  assumes "svClients s (iId i) = Some c" and "svKill s (iId i) = None" and "others_spare env (iId i)"
    and "\<And>n. stTick s \<le> n \<Longrightarrow> seConnected env n c \<and> seLoggedIn env n c"
  shows "\<exists>s'. service_Disconnect env cfg i s = (Return None, s')"
  using assms
  by (simp add: service_Disconnect_def service_ensureClientConnected_def session_client_of_def client_connected_def
      client_logged_in_def question_def bindg_def run_clock run_basic send_blocking_def send_waiting_def wait_ms_def)

text \<open>C34: After \<open>ForceReconnect\<close> of an instance that had a client, the instance has no kill channel: the
  channel made for the new session is removed together with the old client. While the new client is
  connected and logged in, \<open>Disconnect\<close> then sends on a nil channel: it never returns, and its
  request is never answered.\<close>

theorem force_reconnect_blocks_disconnect:
  assumes "others_spare env (iId i)" and "dbUuid (seDb env) (iId i) = Some (iId i)"
    and "svClients s (iId i) = Some old"
    and "ForceReconnect env cfg (iId i) number s = (Return (), s')"
    and "\<And>c n. svClients s' (iId i) = Some c \<Longrightarrow> stTick s' \<le> n \<Longrightarrow> seConnected env n c \<and> seLoggedIn env n c"
  shows "svKill s' (iId i) = None \<and> (\<exists>s''. service_Disconnect env cfg' i s' = (Return None, s''))"
proof -
  let ?k = "iId i"
  have quiet: "keeps (same svClients) (client_up env q)" "keeps (same svClients) (client_in env q)" for q
    unfolding client_up_def client_in_def client_connected_def client_logged_in_def
    by (intro part.keeps_intros clients_quiet)+
  from assms(4) obtain up inn s1 s2 where
    s1: "client_up env (Some old) s = (Return up, s1)" "(if up then client_in env (Some old) else ret False) s1 = (Return inn, s2)"
    and go: "force_restart env cfg ?k number s2 = (Return (), s')"
    using assms(3) by (auto simp: ForceReconnect_def session_client_of_def bindg_def [of "gets _"] run_basic
        dest!: bind_ReturnD split: if_splits)
  have c2: "svClients s2 ?k = Some old"
    using assms(3) keepsD [OF quiet(1) s1(1)] s1(2) keepsD [OF quiet(2)]
    by (auto simp: same_def run_basic split: if_splits)
  from go obtain j isProxy s3 s4 s5 s6 where
    s3: "ForceUpdateJid env ?k number s2 = (Return (), s3)" and
    s4: "repo_GetInstanceByID (seDb env) ?k s3 = (Return j, s4)" and
    s5: "make_channel (iId j) s4 = (Return (), s5)" and
    s6: "wants_proxy env cfg j s5 = (Return isProxy, s6)" and
    re: "restart_client env j isProxy s6 = (Return (), s')"
    by (auto simp: force_restart_def dest!: bind_ReturnD)
  have j: "iId j = ?k" using get_by_id_key [OF s4] assms(2) by simp
  have c6: "svClients s6 ?k = Some old"
    using c2 keepsD [OF clients_force s3] keepsD [OF clients_quiet(6) s4] keepsD [OF clients_quiet(8) s5]
      keepsD [OF clients_quiet(9) s6] by (simp add: same_def)
  from restart_client_kill [of env j s6 old isProxy s'] c6 re assms(1) obtain c
    where c: "svKill s' ?k = None" "svClients s' ?k = Some c" by (auto simp: j)
  have "seConnected env n c \<and> seLoggedIn env n c" if "stTick s' \<le> n" for n
    using assms(5) [OF c(2) that] .
  from c(1) disconnect_without_channel [OF c(2,1) assms(1) this, of cfg'] show ?thesis by simp
qed

definition force_sample :: session_env where
  "force_sample = sample_sessions\<lparr>seConnected := (\<lambda>_ c. c = 8),
     seOthers := (\<lambda>_ s. s\<lparr>svClients := (svClients s)(''one'' \<mapsto> 8)\<rparr>)\<rparr>"

definition force_config :: session_config where
  "force_config = sample_session_config\<lparr>scProxyHost := []\<rparr>"

lemma force_sample_run: "fst (ForceReconnect force_sample force_config ''one'' ''5511'' sampleServer) = Return ()"
  by code_simp

lemma force_sample_client: "svClients (snd (ForceReconnect force_sample force_config ''one'' ''5511'' sampleServer)) ''one'' = Some 8"
  by code_simp

theorem force_reconnect_blocks_disconnect_witness:
  "svKill (snd (ForceReconnect force_sample force_config ''one'' ''5511'' sampleServer)) ''one'' = None \<and>
   (\<exists>s''. service_Disconnect force_sample force_config (sample_instance ''one'' ''t1'')
      (snd (ForceReconnect force_sample force_config ''one'' ''5511'' sampleServer)) = (Return None, s''))"
proof -
  let ?i = "sample_instance ''one'' ''t1''"
  let ?run = "ForceReconnect force_sample force_config ''one'' ''5511'' sampleServer"
  have i: "iId ?i = ''one''" by (simp add: sample_instance_def)
  have "svKill (snd ?run) (iId ?i) = None \<and>
    (\<exists>s''. service_Disconnect force_sample force_config ?i (snd ?run) = (Return None, s''))"
  proof (rule force_reconnect_blocks_disconnect)
    show "others_spare force_sample (iId ?i)" by (simp add: others_spare_def force_sample_def)
    show "dbUuid (seDb force_sample) (iId ?i) = Some (iId ?i)" by (simp add: force_sample_def sample_defs)
    show "svClients sampleServer (iId ?i) = Some 7" by (simp add: sample_defs)
    show "ForceReconnect force_sample force_config (iId ?i) ''5511'' sampleServer = (Return (), snd ?run)"
      unfolding i using force_sample_run by (metis prod.collapse)
    show "seConnected force_sample n c \<and> seLoggedIn force_sample n c" if "svClients (snd ?run) (iId ?i) = Some c" for c n
      using that force_sample_client unfolding i by (simp add: force_sample_def sample_sessions_def)
  qed
  then show ?thesis unfolding i .
qed

section \<open>The device of a number\<close>

text \<open>The session number in the JID of a device: between the colon and the at sign.\<close>

definition session_number :: "string \<Rightarrow> int option" where
  "session_number j =
     (case split_char CHR '':'' j of [a, b] \<Rightarrow> atoi (hd (split_char CHR ''@'' b)) | _ \<Rightarrow> None)"

definition readable_device :: "string \<Rightarrow> bool" where
  "readable_device j = (length (split_char CHR '':'' j) = 2 \<longrightarrow> session_number j \<noteq> None)"

lemma latest_device_step:
  assumes "readable_device j"
  shows "latest_device env (Ok j # rows) latest =
    latest_device env rows (case session_number j of None \<Rightarrow> latest | Some n \<Rightarrow> if n > snd latest then (j, n) else latest)"
proof -
  consider "split_char CHR '':'' j = []" | a where "split_char CHR '':'' j = [a]"
    | a b where "split_char CHR '':'' j = [a, b]" | a b c r where "split_char CHR '':'' j = a # b # c # r"
    by (metis list.exhaust)
  then show ?thesis
    using assms by cases (auto simp: session_number_def readable_device_def split: option.splits)
qed

declare latest_device.simps(2) [simp del]

text \<open>The loop keeps the greatest session number it has met and its device.\<close>

lemma latest_device_max:
  assumes "\<forall>j \<in> set js. readable_device j"
    and "m \<in> set js" "session_number m = Some n" "snd latest < n"
    and "\<And>j k. j \<in> set js \<Longrightarrow> j \<noteq> m \<Longrightarrow> session_number j = Some k \<Longrightarrow> k < n"
  shows "latest_device env (map Ok js) latest = Ok (m, n)"
proof -
  have found: "latest_device env (map Ok ks) (m, n) = Ok (m, n)" if "set ks \<subseteq> set js" for ks
    using that
  proof (induction ks)
    case (Cons k ks)
    have "session_number k = None \<or> (\<exists>x. session_number k = Some x \<and> x \<le> n)"
      using assms(3) assms(5) [of k] Cons.prems by (cases "session_number k"; cases "k = m") force+
    with Cons assms(1) show ?case by (auto simp: latest_device_step)
  qed simp
  have "latest_device env (map Ok ks) l = Ok (m, n)" if "set ks \<subseteq> set js" "m \<in> set ks" "snd l < n" for ks l
    using that
  proof (induction ks arbitrary: l)
    case (Cons k ks)
    show ?case
    proof (cases "k = m")
      case True
      with Cons.prems assms(1,3) found [of ks] show ?thesis by (simp add: latest_device_step)
    next
      case False
      let ?l = "case session_number k of None \<Rightarrow> l | Some x \<Rightarrow> if x > snd l then (k, x) else l"
      have "snd ?l < n" using assms(5) [of k] Cons.prems False by (auto split: option.split)
      with Cons False assms(1) show ?thesis by (simp add: latest_device_step)
    qed
  qed simp
  then show ?thesis using assms(2,4) by blast
qed

text \<open>\<open>ForceUpdateJid\<close> gives an instance without a JID the device of the number with the greatest
  session: the rows may come in any order, and rows that are not device JIDs are skipped.\<close>

theorem force_update_latest:
  assumes "healthy (seDb env)" and "server_ok env s" and "names_row (seDb env) s key i" and "iJid i = []" and "number \<noteq> []"
    and "\<And>n. seDevices env n (device_query number) = Ok (map Ok js)"
    and "\<forall>j \<in> set js. readable_device j" and "m \<in> set js" and "session_number m = Some n" and "0 < n" and "m \<noteq> []"
    and "\<And>j k. j \<in> set js \<Longrightarrow> j \<noteq> m \<Longrightarrow> session_number j = Some k \<Longrightarrow> k < n"
  shows "\<exists>s'. ForceUpdateJid env key number s = (Return (), s') \<and> i\<lparr>iJid := m\<rparr> \<in> set (dbInstances s')"
proof -
  have ok: "db_ok (seDb env) s" using assms(2) by (simp add: server_ok_def)
  have "latest_device env (map Ok js) ([], 0) = Ok (m, n)"
    by (rule latest_device_max) (use assms in auto)
  moreover have "i\<lparr>iJid := m\<rparr> \<in> set (update_rows (\<lambda>r. iId r = iId i) (iJid_update (\<lambda>_. m)) (dbInstances s))"
    using assms(3) by (force simp: set_update_rows names_row_def)
  ultimately show ?thesis
    using assms(1,3-6,11) get_by_id [OF assms(1) ok assms(3)]
    by (simp add: ForceUpdateJid_def question_def bindg_def attempt_def run_clock run_basic repo_UpdateJid_def
        update_by_id names_row_def tick_def)
qed

definition device_sample :: session_env where
  "device_sample = sample_sessions\<lparr>seDevices := (\<lambda>_ _. Ok (map Ok [''5511:2@s.whatsapp.net'', ''5511@lid'', ''5511:12@s.whatsapp.net'']))\<rparr>"

lemma device_numbers:
  "session_number ''5511:2@s.whatsapp.net'' = Some 2" "session_number ''5511:12@s.whatsapp.net'' = Some 12"
  "session_number ''5511@lid'' = None"
  "readable_device ''5511:2@s.whatsapp.net''" "readable_device ''5511:12@s.whatsapp.net''" "readable_device ''5511@lid''"
  by code_simp+

theorem force_update_latest_witness:
  "\<exists>s'. ForceUpdateJid device_sample ''one'' ''5511'' sampleServer = (Return (), s') \<and>
     (sample_instance ''one'' ''t1'')\<lparr>iJid := ''5511:12@s.whatsapp.net''\<rparr> \<in> set (dbInstances s')"
proof (rule force_update_latest [where js = "[''5511:2@s.whatsapp.net'', ''5511@lid'', ''5511:12@s.whatsapp.net'']" and n = 12])
  show "healthy (seDb device_sample)" "server_ok device_sample sampleServer"
      "names_row (seDb device_sample) sampleServer ''one'' (sample_instance ''one'' ''t1'')"
    using sample_ok(1,3,5) by (simp_all add: device_sample_def server_ok_def)
qed (auto simp: device_numbers device_sample_def sample_defs)

section \<open>The repository as a map\<close>

text \<open>The abstract state: the instance of each id.\<close>

definition rows_of :: "'a store_scheme \<Rightarrow> string \<Rightarrow> Instance option" where
  "rows_of s u = first_row iId (\<lambda>r. iId r = u) (dbInstances s)"

lemma rows_of_in: "db_ok d s \<Longrightarrow> r \<in> set (dbInstances s) \<Longrightarrow> rows_of s (iId r) = Some r"
  unfolding rows_of_def by (intro first_row_key) (auto simp: db_ok_def)

lemma rows_of_None: "rows_of s u = None \<longleftrightarrow> (\<forall>r \<in> set (dbInstances s). iId r \<noteq> u)"
  by (simp add: rows_of_def first_row_None)

lemma rows_of_Some: "db_ok d s \<Longrightarrow> rows_of s u = Some r \<longleftrightarrow> r \<in> set (dbInstances s) \<and> iId r = u"
  using rows_of_in [of d s] first_row_in [of iId "\<lambda>r. iId r = u" "dbInstances s" r]
  by (auto simp: rows_of_def)

lemma rows_of_update:
  assumes "db_ok d s" and "db_ok d s'" and "dbInstances s' = update_rows (\<lambda>r. iId r = u) f (dbInstances s)"
    and "\<And>r. iId r = u \<Longrightarrow> iId (f r) = u"
  shows "rows_of s' = (rows_of s)(u := map_option f (rows_of s u))"
proof
  fix v
  show "rows_of s' v = ((rows_of s)(u := map_option f (rows_of s u))) v"
  proof (cases "rows_of s v")
    case None
    then have "rows_of s' v = None" using assms(3,4) by (auto simp: rows_of_None set_update_rows)
    with None show ?thesis by auto
  next
    case (Some r)
    then have r: "r \<in> set (dbInstances s)" "iId r = v" using assms(1) by (simp_all add: rows_of_Some)
    then have "(if v = u then f r else r) \<in> set (dbInstances s')" using assms(3) by (auto simp: set_update_rows)
    moreover have "iId (if v = u then f r else r) = v" using assms(4) r by simp
    ultimately show ?thesis using Some assms(2) by (auto simp: rows_of_Some)
  qed
qed

lemma updates_refine:
  assumes "healthy d" and "db_ok d s" and "dbUuid d key = Some u" and "\<And>r. iId (f r) = iId r" and "\<And>r. iToken (f r) = iToken r"
  shows "\<exists>s'. update_instances d key f s = (Return (), s') \<and> rows_of s' = (rows_of s)(u := map_option f (rows_of s u)) \<and> db_ok d s'"
proof -
  let ?s' = "(tick s)\<lparr>dbInstances := update_rows (\<lambda>r. iId r = u) f (dbInstances s)\<rparr>"
  have run: "update_instances d key f s = (Return (), ?s')" by (rule update_by_id [OF assms(1,3)])
  from keepsD [OF keeps_ok_update [OF assms(4,5)] run] assms(2) have ok: "db_ok d ?s'" by (simp add: keeps_ok_def)
  from rows_of_update [OF assms(2) ok, of u f] assms(4) run ok show ?thesis by auto
qed

lemma save_refines:
  assumes "healthy d" and "canonical d" and "db_ok d s" and "dbUuid d (iId i) = Some (iId i)" and "iCreatedAt i \<noteq> 0"
    and "\<And>v r. rows_of s v = Some r \<Longrightarrow> iToken r = iToken i \<Longrightarrow> v = iId i"
  shows "\<exists>s'. repo_Update d i s = (Return (), s') \<and> rows_of s' = (rows_of s)(iId i \<mapsto> i)"
proof (cases "rows_of s (iId i)")
  case (Some r)
  then have r: "r \<in> set (dbInstances s)" "iId r = iId i" using assms(3) by (simp_all add: rows_of_Some)
  have other: "iToken q \<noteq> iToken i" if "q \<in> set (dbInstances s)" "iId q \<noteq> iId i" for q
    using assms(6) rows_of_in [OF assms(3) that(1)] that(2) by blast
  have ne: "iId i \<noteq> []" using canonicalD [OF assms(2,4)] by simp
  let ?s' = "(tick s)\<lparr>dbInstances := update_rows (\<lambda>q. iId q = iId i) (\<lambda>_. i) (dbInstances s)\<rparr>"
  have run: "repo_Update d i s = (Return (), ?s')"
    using assms(1,4) ne other r
    by (auto simp: repo_Update_def gorm_save_def bindg_def run_read_uuid statement_healthy run_basic)
  have "keeps (keeps_ok d) (repo_Update d i)" unfolding repo_Update_def by (rule keeps_ok_save [OF assms(2)])
  from keepsD [OF this run] assms(3) have "db_ok d ?s'" by (simp add: keeps_ok_def)
  from rows_of_update [OF assms(3) this, of "iId i" "\<lambda>_. i"] run Some show ?thesis by auto
next
  case None
  have other: "iToken q \<noteq> iToken i" if "q \<in> set (dbInstances s)" for q
    using assms(6) rows_of_in [OF assms(3) that] None that by (auto simp: rows_of_None)
  have ne: "iId i \<noteq> []" using canonicalD [OF assms(2,4)] by simp
  let ?s' = "(tick (tick s))\<lparr>dbInstances := dbInstances s @ [i]\<rparr>"
  have run: "repo_Update d i s = (Return (), ?s')"
    using assms(1,4,5) ne other None
    by (auto simp: repo_Update_def gorm_save_def created_now_def insert_instance_def bindg_def run_read_uuid
        statement_healthy run_basic rows_of_None)
  have "keeps (keeps_ok d) (repo_Update d i)" unfolding repo_Update_def by (rule keeps_ok_save [OF assms(2)])
  from keepsD [OF this run] assms(3) have ok: "db_ok d ?s'" by (simp add: keeps_ok_def)
  have "rows_of ?s' = (rows_of s)(iId i \<mapsto> i)"
  proof
    fix v
    have "rows_of ?s' v = Some r \<longleftrightarrow> ((rows_of s)(iId i \<mapsto> i)) v = Some r" for r
      using None by (auto simp: rows_of_Some [OF ok] rows_of_Some [OF assms(3)] rows_of_None)
    then show "rows_of ?s' v = ((rows_of s)(iId i \<mapsto> i)) v" by (metis not_None_eq)
  qed
  with run show ?thesis by blast
qed

text \<open>C31: Seen as a map from ids to instances, with a database that is up, the repository is a map with
  column updates: reading by id is lookup, the four column updates, the status and the settings
  change the named columns of that row, \<open>Delete\<close> removes it, and \<open>Update\<close> stores the row even when
  there was none, so that saving a stale instance brings a deleted one back.\<close>

theorem repository_refines_map:
  fixes s :: server
  assumes "healthy d" and "canonical d" and "db_ok d s" and "dbUuid d u = Some u" and "dbUuidParse d u = None"
  shows "fst (repo_GetInstanceByID d u s) = (case rows_of s u of None \<Rightarrow> Raise not_found | Some r \<Rightarrow> Return r) \<and>
    rows_of (snd (repo_UpdateQrcode d u t s)) = (rows_of s)(u := map_option (\<lambda>r. r\<lparr>iQrcode := t\<rparr>) (rows_of s u)) \<and>
    rows_of (snd (repo_UpdateProxy d u t s)) = (rows_of s)(u := map_option (\<lambda>r. r\<lparr>iProxy := t\<rparr>) (rows_of s u)) \<and>
    rows_of (snd (repo_UpdateJid d u t s)) = (rows_of s)(u := map_option (\<lambda>r. r\<lparr>iJid := t\<rparr>) (rows_of s u)) \<and>
    rows_of (snd (repo_UpdateConnected d u b t s)) =
      (rows_of s)(u := map_option (\<lambda>r. r\<lparr>iConnected := b, iDisconnectReason := t\<rparr>) (rows_of s u)) \<and>
    rows_of (snd (repo_UpdateAdvancedSettings d u a s)) = (rows_of s)(u := map_option (\<lambda>r. r\<lparr>iSettings := a\<rparr>) (rows_of s u)) \<and>
    rows_of (snd (repo_Delete d u s)) = (rows_of s)(u := None) \<and>
    (\<forall>i. iId i = u \<longrightarrow> iCreatedAt i \<noteq> 0 \<longrightarrow> (\<forall>v r. rows_of s v = Some r \<longrightarrow> iToken r = iToken i \<longrightarrow> v = u) \<longrightarrow>
       rows_of (snd (repo_Update d i s)) = (rows_of s)(u \<mapsto> i))"
proof (intro conjI allI impI)
  show "fst (repo_GetInstanceByID d u s) = (case rows_of s u of None \<Rightarrow> Raise not_found | Some r \<Rightarrow> Return r)"
    using assms by (simp add: repo_GetInstanceByID_def bindg_def run_check_uuid run_read_uuid first_instance_healthy rows_of_def)
  note up = updates_refine [OF assms(1,3,4)]
  show "rows_of (snd (repo_UpdateQrcode d u t s)) = (rows_of s)(u := map_option (\<lambda>r. r\<lparr>iQrcode := t\<rparr>) (rows_of s u))"
    using up [of "iQrcode_update (\<lambda>_. t)"] by (auto simp: repo_UpdateQrcode_def)
  show "rows_of (snd (repo_UpdateProxy d u t s)) = (rows_of s)(u := map_option (\<lambda>r. r\<lparr>iProxy := t\<rparr>) (rows_of s u))"
    using up [of "iProxy_update (\<lambda>_. t)"] by (auto simp: repo_UpdateProxy_def)
  show "rows_of (snd (repo_UpdateJid d u t s)) = (rows_of s)(u := map_option (\<lambda>r. r\<lparr>iJid := t\<rparr>) (rows_of s u))"
    using up [of "iJid_update (\<lambda>_. t)"] by (auto simp: repo_UpdateJid_def)
  show "rows_of (snd (repo_UpdateAdvancedSettings d u a s)) = (rows_of s)(u := map_option (\<lambda>r. r\<lparr>iSettings := a\<rparr>) (rows_of s u))"
    using up [of "iSettings_update (\<lambda>_. a)"] assms(5)
    by (auto simp: repo_UpdateAdvancedSettings_def bindg_def run_check_uuid)
  from up [of "iConnected_update (\<lambda>_. b)"] obtain s1 where
    s1: "update_instances d u (iConnected_update (\<lambda>_. b)) s = (Return (), s1)"
      "rows_of s1 = (rows_of s)(u := map_option (iConnected_update (\<lambda>_. b)) (rows_of s u))" "db_ok d s1" by auto
  from updates_refine [OF assms(1) s1(3) assms(4), of "iDisconnectReason_update (\<lambda>_. t)"] s1
  show "rows_of (snd (repo_UpdateConnected d u b t s)) =
      (rows_of s)(u := map_option (\<lambda>r. r\<lparr>iConnected := b, iDisconnectReason := t\<rparr>) (rows_of s u))"
    by (auto simp: repo_UpdateConnected_def bindg_def option.map_comp comp_def)
  show "rows_of (snd (repo_Delete d u s)) = (rows_of s)(u := None)"
  proof
    fix v
    have "filter (\<lambda>r. iId r = v \<and> iId r \<noteq> u) (dbInstances s) = (if v = u then [] else filter (\<lambda>r. iId r = v) (dbInstances s))"
      by (auto intro: filter_cong simp: filter_empty_conv)
    then show "rows_of (snd (repo_Delete d u s)) v = ((rows_of s)(u := None)) v"
      by (simp add: delete_by_id [OF assms(1,4)] rows_of_def first_row_def conj_commute)
  qed
  show "rows_of (snd (repo_Update d i s)) = (rows_of s)(u \<mapsto> i)"
    if "iId i = u" "iCreatedAt i \<noteq> 0" "\<forall>v r. rows_of s v = Some r \<longrightarrow> iToken r = iToken i \<longrightarrow> v = u" for i
    using save_refines [OF assms(1-3), of i] that assms(4) by fastforce
qed

theorem repository_refines_map_witness:
  "rows_of (snd (repo_Update sample_db (sample_instance ''one'' ''t9'') (snd (repo_Delete sample_db ''one'' sampleServer)))) ''one'' =
     Some (sample_instance ''one'' ''t9'')"
proof -
  define s1 where "s1 = sampleServer\<lparr>dbInstances := [sample_instance ''two'' ''t2''], stTick := 5\<rparr>"
  have gone: "snd (repo_Delete sample_db ''one'' sampleServer) = s1"
    using delete_by_id [of sample_db "''one''" "''one''" sampleServer] by (simp add: healthy_def sample_defs s1_def)
  have "healthy sample_db" "canonical sample_db" "db_ok sample_db s1" "dbUuid sample_db ''one'' = Some ''one''"
    "dbUuidParse sample_db ''one'' = None"
    by (simp_all add: s1_def healthy_def canonical_def db_ok_def sample_defs)
  note repo = repository_refines_map [OF this]
  have "\<forall>v r. rows_of s1 v = Some r \<longrightarrow> iToken r = iToken (sample_instance ''one'' ''t9'') \<longrightarrow> v = ''one''"
    by (auto simp: s1_def rows_of_def first_row_def sample_instance_def split: if_splits)
  with repo show ?thesis unfolding gone by (simp add: sample_instance_def)
qed

end
