(* ===== verification/SessionProperties.thy ===== *)
theory SessionProperties
  imports InstanceProperties
begin

text \<open>
  What the goroutine of a session achieves: how many QR codes are delivered, what a QR timeout and a
  kill signal do, and what is left of a session that failed to start or was restarted. The locale
  \<open>apart\<close> carries the proofs that a part of the state is left alone by the operations that write only
  to the tables, the heap of instances and the logs.
\<close>

section \<open>Parts of the state that most operations leave alone\<close>

type_synonym core_state = "post list \<times> (address \<Rightarrow> MyClient) \<times> (string \<Rightarrow> channel option) \<times> channel list \<times>
  (string \<Rightarrow> session_client option) \<times> (string \<Rightarrow> address option) \<times> session_client list \<times> string list \<times>
  Message list \<times> string list \<times> (address \<Rightarrow> string)"

definition core :: "server \<Rightarrow> core_state" where
  "core s = (svPosts s, svSessions s, svKill s, svClosed s, svClients s, svMyClients s, svDisconnects s,
     svProcessed s, svInserts s, svRestarts s, \<lambda>a. iId (svInstances s a))"

definition spared :: "(server \<Rightarrow> 'a) \<Rightarrow> session_env \<Rightarrow> bool" where
  "spared f env = (\<forall>n s. f (seOthers env n s) = f s)"

locale apart =
  fixes f :: "server \<Rightarrow> 'a"
  assumes depends: "core t = core s \<Longrightarrow> f t = f s"
begin

lemma alone_modify: "(\<And>s. core (g s) = core s) \<Longrightarrow> keeps (same f) (modify g)"
  by (rule part.keeps_modify, unfold same_def, rule depends)

lemma alone_clock: "keeps (same f) clock" "keeps (same f) (statement d)" "keeps (same f) (read_uuid d t)"
  "keeps (same f) (check_uuid d t)" "keeps (same f) (question h)"
proof -
  show c: "keeps (same f) clock" "keeps (same f) (statement d)" "keeps (same f) (read_uuid d t)"
    "keeps (same f) (check_uuid d t)"
    by (auto simp: keeps_def same_def run_clock run_statement run_read_uuid run_check_uuid core_def intro!: depends)
  show "keeps (same f) (question h)" unfolding question_def by (intro part.keeps_intros c)
qed

lemma alone_repo:
  "keeps (same f) (repo_GetInstanceByID d t)" "keeps (same f) (update_instances d t g)"
  "keeps (same f) (repo_UpdateConnected d t b q)" "keeps (same f) (repo_UpdateQrcode d t q)"
proof -
  show "keeps (same f) (repo_GetInstanceByID d t)"
    unfolding repo_GetInstanceByID_def first_instance_def by (intro part.keeps_intros alone_clock)
  show u: "keeps (same f) (update_instances d t g)" for g
    unfolding update_instances_def by (intro part.keeps_intros alone_clock alone_modify) (simp add: core_def)
  show "keeps (same f) (repo_UpdateConnected d t b q)" "keeps (same f) (repo_UpdateQrcode d t q)"
    unfolding repo_updates by (intro part.keeps_intros u)+
qed

lemma alone_wait: "spared f env \<Longrightarrow> keeps (same f) (wait_ms env ms)"
  by (auto simp: keeps_def same_def wait_ms_def bindg_def run_clock run_basic spared_def core_def intro!: depends)

lemma alone_steps:
  "keeps (same f) (read_instance a)" "keeps (same f) (read_session m)" "keeps (same f) (command c)"
  "keeps (same f) (client_connected env k)" "keeps (same f) (client_logout env k)"
  "keeps (same f) (forget_user_info t)"
  unfolding read_instance_def read_session_def command_def client_connected_def client_logout_def
    forget_user_info_def
  by (intro part.keeps_intros alone_clock alone_modify; simp add: core_def)+

lemma alone_change: "(\<And>r. iId (g r) = iId r) \<Longrightarrow> keeps (same f) (change_instance a g)"
  "(\<And>r. iId (g r) = iId r) \<Longrightarrow> keeps (same f) (change_my_instance m g)"
  unfolding change_instance_def change_my_instance_def
  by (intro alone_modify; auto simp: core_def set_instance_def Let_def fun_eq_iff)+

lemma alone_try: "keeps (same f) (try_send env ch)"
  unfolding try_send_def
  by (intro part.keeps_intros alone_clock alone_modify) (simp add: core_def)

lemma alone_send:
  assumes "spared f env"
  shows "keeps (same f) (send_waiting env ch ms)" "keeps (same f) (send_blocking env ch)"
proof -
  have g: "keeps (same f) (modify (\<lambda>s. s\<lparr>svSignals := svSignals s @ [c]\<rparr>))" for c
    by (rule alone_modify) (simp add: core_def)
  show w: "keeps (same f) (send_waiting env ch ms)" for ms
    unfolding send_waiting_def by (intro part.keeps_intros alone_clock alone_wait assms g)
  show "keeps (same f) (send_blocking env ch)" unfolding send_blocking_def by (rule w)
qed

lemmas alone = part.keeps_intros alone_clock alone_repo alone_steps alone_change alone_try

end

lemma post_session_run:
  "post_session cfg a m e d s =
     (Return (), s\<lparr>svPosts := svPosts s @ [\<lparr>poInstance = svInstances s a,
          poQueue = queue_name (iId (svInstances s a)) e,
          poPayload = event_map e (JObj d) (svSessions s m) (svInstances s a)\<rparr>],
        svGlobalPosts := svGlobalPosts s @
          (if AmqpGlobalEnabled (scGlobal cfg) \<or> NatsGlobalEnabled (scGlobal cfg)
           then [(e, event_map e (JObj d) (svSessions s m) (svInstances s a), mcUserID (svSessions s m))] else [])\<rparr>)"
  by (simp add: post_session_def dispatch_def read_instance_def read_session_def bindg_def run_basic)

section \<open>QR codes\<close>

definition is_qrcode :: "post \<Rightarrow> bool" where
  "is_qrcode p = (case poPayload p ''event'' of Some (JStr e) \<Rightarrow> e = ''QRCode'' | _ \<Rightarrow> False)"

definition codes_posted :: "server \<Rightarrow> nat" where
  "codes_posted s = length (filter is_qrcode (svPosts s))"

definition qr_view :: "address \<Rightarrow> server \<Rightarrow> nat \<times> MyClient" where
  "qr_view m s = (codes_posted s, svSessions s m)"

interpretation qr: apart "qr_view m" for m
  by unfold_locales (simp add: qr_view_def codes_posted_def core_def)

lemma event_map_event [simp]: "event_map e d m i ''event'' = Some (JStr e)"
  by (simp add: event_map_def)

lemma qr_forget: "keeps (same (qr_view m)) (forget_client k)" "keeps (same (qr_view m)) (forget_my_client k)"
  "keeps (same (qr_view m)) (forget_channel k)"
  by (simp_all add: keeps_def forget_client_def forget_my_client_def forget_channel_def run_basic same_def
      qr_view_def codes_posted_def)

lemma qr_post: "e \<noteq> ''QRCode'' \<Longrightarrow> keeps (same (qr_view m)) (post_session cfg a m' e d)"
  by (simp add: keeps_def post_session_run same_def qr_view_def codes_posted_def is_qrcode_def)

lemma qr_limit_posts: "keeps (same (qr_view m)) (qr_limit env cfg a m' c k)"
  unfolding qr_limit_def Let_def by (intro qr.alone qr_forget qr_post; simp)

text \<open>All errors on the way are logged only.\<close>

definition no_error :: "('s, 'a) go \<Rightarrow> bool" where
  "no_error p = (\<forall>s e s'. p s \<noteq> (Raise e, s'))"

lemma no_error_basic: "no_error (ret x)" "no_error crash" "no_error (gets h)" "no_error (modify g)" "no_error clock"
  by (simp_all add: no_error_def run_basic run_clock)

lemma no_error_bind: "no_error p \<Longrightarrow> (\<And>x. no_error (k x)) \<Longrightarrow> no_error (bindg p k)"
  by (auto simp: no_error_def elim!: bindE)

lemma no_error_attempt: "(\<And>x. no_error (k x)) \<Longrightarrow> no_error (attempt p k)"
  by (auto simp: no_error_def elim!: attemptE)

lemma no_error_cases: "no_error p \<Longrightarrow> no_error q \<Longrightarrow> no_error (if b then p else q)"
  "no_error p \<Longrightarrow> (\<And>x. no_error (h x)) \<Longrightarrow> no_error (case z of None \<Rightarrow> p | Some x \<Rightarrow> h x)"
  by (simp_all split: option.split)

lemmas no_error_intros = no_error_basic no_error_bind no_error_attempt no_error_cases

lemma no_error_steps: "no_error (question h)" "no_error (read_instance a)" "no_error (change_instance a g)"
  "no_error (client_connected env c)" "no_error (forget_client k)" "no_error (forget_my_client k)"
  "no_error (forget_channel k)" "no_error (try_send env ch)" "no_error (post_session cfg a m e d)"
  unfolding question_def read_instance_def change_instance_def client_connected_def forget_client_def
    forget_my_client_def forget_channel_def try_send_def post_session_def dispatch_def read_session_def
  by (intro no_error_intros)+

lemma qr_limit_no_error: "no_error (qr_limit env cfg a m c k)"
  unfolding qr_limit_def Let_def by (intro no_error_intros no_error_steps)

lemma qr_show_posts:
  assumes "qr_show env cfg a m t k s = (r, s')"
  shows "r = Return () \<and> qr_view m s' = (Suc (codes_posted s), svSessions s m)"
proof -
  let ?i = "svInstances s a"
  from assms obtain r1 s1 where
    "attempt (repo_UpdateQrcode (seDb env) (iId ?i) (qr_image env t @ ''|'' @ t)) (\<lambda>_. ret ())
       (set_instance a (?i\<lparr>iQrcode := qr_image env t @ ''|'' @ t\<rparr>) s) = (r1, s1)"
    and post: "post_session cfg a m ''QRCode''
         [''qrcode'' \<mapsto> JStr (qr_image env t), ''code'' \<mapsto> JStr t, ''count'' \<mapsto> JNum k,
          ''maxCount'' \<mapsto> JNum (scQrcodeMaxCount cfg)] s1 = (r, s') \<or> (r = Crash \<and> r1 = Crash)"
    by (auto simp: qr_show_def bindg_def attempt_def read_instance_def change_instance_def run_basic
        split: prod.splits outcome.splits)
  moreover have "keeps (same (qr_view m)) (attempt (repo_UpdateQrcode (seDb env) (iId ?i) (qr_image env t @ ''|'' @ t)) (\<lambda>_. ret ()))"
    by (intro qr.alone)
  moreover have "r1 \<noteq> Crash" using calculation(1)
    by (auto simp: repo_UpdateQrcode_def update_instances_def attempt_def bindg_def run_read_uuid run_statement run_basic
        split: option.splits)
  ultimately show ?thesis
    by (auto dest!: keepsD simp: post_session_run same_def qr_view_def codes_posted_def is_qrcode_def set_instance_def)
qed

definition is_code :: "qr_event \<Rightarrow> bool" where
  "is_code evt = (qeEvent evt = ''code'')"

lemma code_event_posts:
  assumes "qr_code_event env cfg a m c t s = (r, s')" and "mcQrcodeCount (svSessions s m) = int k"
    and "scQrcodeMaxCount cfg = int (Suc lim)" and "k \<le> lim"
  shows "if k < lim then r = Return True \<and> codes_posted s' = Suc (codes_posted s) \<and>
      mcQrcodeCount (svSessions s' m) = int (Suc k)
    else (r = Return False \<or> r = Crash) \<and> codes_posted s' = codes_posted s"
proof -
  let ?m = "(svSessions s m)\<lparr>mcQrcodeCount := int k + 1\<rparr>" and ?s1 = "set_session m ((svSessions s m)\<lparr>mcQrcodeCount := int k + 1\<rparr>) s"
  have v: "codes_posted ?s1 = codes_posted s" "svSessions ?s1 m = ?m"
    by (simp_all add: codes_posted_def set_session_def)
  show ?thesis
  proof (cases "k < lim")
    case True
    with assms have "bindg (qr_show env cfg a m t (int k + 1)) (\<lambda>_. ret True) ?s1 = (r, s')"
      by (simp add: qr_code_event_def change_session_def bindg_def run_basic v set_session_def split: if_splits)
    then show ?thesis using True v
      by (auto elim!: bindE dest!: qr_show_posts simp: run_basic qr_view_def)
  next
    case False
    with assms have "bindg (qr_limit env cfg a m c (int k + 1)) (\<lambda>_. ret False) ?s1 = (r, s')"
      by (simp add: qr_code_event_def change_session_def bindg_def run_basic v set_session_def split: if_splits)
    moreover have "no_error (bindg (qr_limit env cfg a m c (int k + 1)) (\<lambda>_. ret False))"
      by (intro no_error_intros qr_limit_no_error)
    ultimately show ?thesis using False v
      by (cases r) (auto simp: no_error_def run_basic qr_view_def same_def elim!: bindE
          dest!: keepsD [OF qr_limit_posts [of m]])
  qed
qed

lemma qr_wait:
  assumes "spared (qr_view m) env" and "bindg (wait_ms env 0) k s = (r, s')"
  obtains s1 where "k () s1 = (r, s')" "codes_posted s1 = codes_posted s" "svSessions s1 m = svSessions s m"
proof -
  obtain x s1 where w: "wait_ms env 0 s = (Return x, s1)" by (simp add: wait_ms_def bindg_def run_clock run_basic)
  have "k () s1 = (r, s')" using assms(2) w by (simp add: bindg_def)
  moreover have "qr_view m s1 = qr_view m s"
    using keepsD [OF qr.alone_wait [OF assms(1)] w] by (simp add: same_def)
  ultimately show thesis using that by (simp add: qr_view_def)
qed

lemma qr_loop_codes:
  assumes "spared (qr_view m) env" and "scQrcodeMaxCount cfg = int (Suc lim)"
    and "\<forall>evt \<in> set evts. qeEvent evt \<noteq> ''timeout''"
    and "qr_loop env cfg a m c evts s = (r, s')" and "mcQrcodeCount (svSessions s m) = int k" and "k \<le> lim"
  shows "codes_posted s' = codes_posted s + min (length (filter is_code evts)) (lim - k)"
  using assms(3-)
proof (induction evts arbitrary: s k)
  case Nil
  then show ?case using qr_wait [OF assms(1)] by (fastforce simp: run_basic)
next
  case (Cons evt evts)
  from Cons.prems(2) obtain s1 where rest: "(if qeEvent evt = ''code'' then
         bindg (qr_code_event env cfg a m c (qeCode evt)) (\<lambda>goes.
           if goes then qr_loop env cfg a m c evts else ret Finished)
       else qr_loop env cfg a m c evts) s1 = (r, s')"
    and s1: "codes_posted s1 = codes_posted s" "svSessions s1 m = svSessions s m"
    using Cons.prems(1) by (auto elim!: qr_wait [OF assms(1)] split: if_splits)
  show ?case
  proof (cases "qeEvent evt = ''code''")
    case False
    with rest Cons.IH [of s1 k] Cons.prems s1 show ?thesis by (simp add: is_code_def)
  next
    case True
    with rest have run: "bindg (qr_code_event env cfg a m c (qeCode evt)) (\<lambda>goes.
        if goes then qr_loop env cfg a m c evts else ret Finished) s1 = (r, s')" by simp
    obtain q s2 where step: "qr_code_event env cfg a m c (qeCode evt) s1 = (q, s2)" by fastforce
    note posts = code_event_posts [OF step _ assms(2) Cons.prems(4)]
    show ?thesis
    proof (cases "k < lim")
      case lt: True
      with posts Cons.prems(3) s1 have "q = Return True" "codes_posted s2 = Suc (codes_posted s)"
        "mcQrcodeCount (svSessions s2 m) = int (Suc k)" by simp_all
      moreover from this(1) run step have "qr_loop env cfg a m c evts s2 = (r, s')" by (simp add: bindg_def)
      ultimately show ?thesis using Cons.IH [of s2 "Suc k"] Cons.prems(1) lt True by (simp add: is_code_def)
    next
      case False
      with posts Cons.prems(3) s1 have "q = Return False \<or> q = Crash" "codes_posted s2 = codes_posted s" by simp_all
      with run step False Cons.prems(4) show ?thesis by (auto simp: bindg_def run_basic)
    qed
  qed
qed


definition sample_codes :: "qr_event list" where
  "sample_codes = [\<lparr>qeEvent = ''code'', qeCode = ''a''\<rparr>, \<lparr>qeEvent = ''code'', qeCode = ''b''\<rparr>,
     \<lparr>qeEvent = ''code'', qeCode = ''c''\<rparr>, \<lparr>qeEvent = ''code'', qeCode = ''d''\<rparr>]"


section \<open>A QR timeout\<close>

type_synonym timeout_state = "post list \<times> (string \<Rightarrow> channel option) \<times> channel list \<times> session_client list \<times>
  (string \<Rightarrow> session_client option) \<times> string"

definition timeout_view :: "address \<Rightarrow> server \<Rightarrow> timeout_state" where
  "timeout_view a s = (svPosts s, svKill s, svClosed s, svDisconnects s, svClients s, iId (svInstances s a))"

interpretation timeout: apart "timeout_view a" for a
  by unfold_locales (auto simp: timeout_view_def core_def dest: fun_cong)

definition nobody_receives :: "session_env \<Rightarrow> bool" where
  "nobody_receives env = (\<forall>n ch. \<not> seWaiting env n ch \<and> \<not> seEverTaken env n ch)"

lemma question_run: "question f s = (Return (f (stTick s)), s\<lparr>stTick := Suc (stTick s)\<rparr>)"
  by (simp add: question_def bindg_def run_clock run_basic)

lemma wait_ms_run: "wait_ms env ms s =
    (Return (), seOthers env (stTick s) (s\<lparr>stTick := Suc (stTick s), svSlept := svSlept s + ms\<rparr>))"
  by (simp add: wait_ms_def bindg_def run_clock run_basic)

text \<open>Sending to nobody blocks, on an open channel and on a nil one.\<close>

lemma send_to_nobody:
  assumes "spared (timeout_view a) env" and "nobody_receives env"
    and "\<forall>c. ch = Some c \<longrightarrow> c \<notin> set (svClosed s)"
  obtains s' where "send_blocking env ch s = (Return False, s')" "timeout_view a s' = timeout_view a s"
proof -
  have w: "timeout_view a (seOthers env n t) = timeout_view a t" for n t
    using assms(1) by (simp add: spared_def)
  have closed: "svClosed (seOthers env n t) = svClosed t" for n t
    using w [of n t] by (simp add: timeout_view_def)
  obtain r s' where run: "send_blocking env ch s = (r, s')" by fastforce
  moreover have "r = Return False"
    using run assms(2,3)
    by (auto simp: send_blocking_def send_waiting_def bindg_def question_run wait_ms_run run_basic closed
        nobody_receives_def split: option.splits)
  moreover have "timeout_view a s' = timeout_view a s"
    using keepsD [OF timeout.alone_send(2) [OF assms(1)] run] by (simp add: same_def)
  ultimately show thesis using that by blast
qed

lemma update_qrcode_no_crash: "repo_UpdateQrcode d k q s \<noteq> (Crash, s')"
  by (auto simp: repo_UpdateQrcode_def update_instances_def bindg_def run_read_uuid run_statement run_basic
      split: option.splits)

lemma qr_timeout_stuck_run:
  assumes "spared (timeout_view a) env" and "nobody_receives env"
    and "\<And>c. svKill s (iId (svInstances s a)) = Some c \<Longrightarrow> c \<notin> set (svClosed s)"
  obtains s' where "qr_timeout env cfg a m s = (Return False, s')" "svPosts s' = svPosts s"
    "svDisconnects s' = svDisconnects s" "svClients s' = (svClients s)(iId (svInstances s a) := None)"
    "svKill s' = svKill s"
proof -
  let ?k = "iId (svInstances s a)"
  let ?up = "bindg (change_instance a (\<lambda>r. r\<lparr>iQrcode := []\<rparr>)) (\<lambda>_. attempt (repo_UpdateQrcode (seDb env) ?k []) (\<lambda>_. ret ()))"
  obtain r1 s1 where up: "?up s = (r1, s1)" by fastforce
  have v1: "timeout_view a s1 = timeout_view a s"
  proof -
    have "keeps (same (timeout_view a)) ?up" by (intro timeout.alone) simp
    from keepsD [OF this up] show ?thesis by (simp add: same_def)
  qed
  have "r1 = Return ()"
    using up by (auto elim!: bindE attemptE simp: run_basic change_instance_def update_qrcode_no_crash)
  let ?s2 = "s1\<lparr>svClients := (svClients s1)(?k := None), svMyClients := (svMyClients s1)(?k := None)\<rparr>"
  from v1 assms(3) have "\<forall>c. svKill ?s2 ?k = Some c \<longrightarrow> c \<notin> set (svClosed ?s2)"
    by (simp add: timeout_view_def)
  then obtain s3 where s3: "send_blocking env (svKill ?s2 ?k) ?s2 = (Return False, s3)"
    "timeout_view a s3 = timeout_view a ?s2"
    using send_to_nobody [OF assms(1,2)] by blast
  have "qr_timeout env cfg a m s =
      bindg ?up (\<lambda>_. bindg (forget_client ?k) (\<lambda>_. bindg (forget_my_client ?k) (\<lambda>_.
        bindg (gets (\<lambda>s. svKill s ?k)) (\<lambda>ch. bindg (send_blocking env ch) (\<lambda>sent.
          if sent then bindg (post_session cfg a m ''QRTimeout'' (\<lambda>_. None)) (\<lambda>_. ret True) else ret False))))) s"
    by (auto simp: qr_timeout_def bindg_def attempt_def read_instance_def run_basic split: prod.split outcome.split)
  with up \<open>r1 = Return ()\<close> s3(1) have "qr_timeout env cfg a m s = (Return False, s3)"
    by (simp add: bindg_def forget_client_def forget_my_client_def run_basic)
  with s3(2) v1 show thesis using that by (simp add: timeout_view_def)
qed


text \<open>A server on which the session of the first instance runs.\<close>

definition runningServer :: server where
  "runningServer = set_instance 0 (sample_instance ''one'' ''t1'') sampleServer"


section \<open>The kill signal\<close>

definition signalled :: "session_env \<Rightarrow> string \<Rightarrow> server \<Rightarrow> bool" where
  "signalled env key s =
     (\<exists>ch. svKill s key = Some ch \<and> (ch \<in> set (svClosed s) \<or> seSender env (stTick s) ch))"

lemma poll_signalled:
  assumes "signalled env key s"
  obtains n where "poll_kill env key s = (Return True, s\<lparr>stTick := n\<rparr>)"
proof -
  from assms obtain ch where ch: "svKill s key = Some ch" "ch \<in> set (svClosed s) \<or> seSender env (stTick s) ch"
    by (auto simp: signalled_def)
  show thesis
  proof (cases "ch \<in> set (svClosed s)")
    case True
    with ch(1) have "poll_kill env key s = (Return True, s\<lparr>stTick := stTick s\<rparr>)"
      by (simp add: poll_kill_def bindg_def run_basic)
    then show thesis by (rule that)
  next
    case False
    with ch have "poll_kill env key s = (Return True, s\<lparr>stTick := Suc (stTick s)\<rparr>)"
      by (simp add: poll_kill_def bindg_def run_basic question_run)
    then show thesis by (rule that)
  qed
qed

text \<open>What the end of a session leaves, whatever the database answers.\<close>

definition ended :: "string \<Rightarrow> string \<Rightarrow> session_client \<Rightarrow> server \<Rightarrow> server \<Rightarrow> bool" where
  "ended key token c s s' =
     (svClients s' = (svClients s)(key := None) \<and> svMyClients s' = (svMyClients s)(key := None) \<and>
      svKill s' = svKill s \<and> svDisconnects s' = svDisconnects s @ [c] \<and>
      (\<exists>p. svPosts s' = svPosts s @ [p] \<and> poQueue p = queue_name key ''LoggedOut'' \<and>
           poPayload p ''event'' = Some (JStr ''LoggedOut'')))"

lemma update_connected_no_crash: "repo_UpdateConnected d k b q s \<noteq> (Crash, s')"
  by (auto simp: repo_UpdateConnected_def update_instances_def bindg_def run_read_uuid run_statement run_basic
      split: option.splits)

interpretation whole: apart core
  by unfold_locales

lemma end_session_ended:
  assumes "end_session env cfg a m c s = (r, s')"
  shows "r = Return () \<and> ended (iId (svInstances s a)) (iToken (svInstances s a)) c s s'"
proof -
  let ?i = "svInstances s a"
  let ?t = "s\<lparr>svDisconnects := svDisconnects s @ [c], svClients := (svClients s)(iId ?i := None),
    svMyClients := (svMyClients s)(iId ?i := None), svUserInfo := (svUserInfo s)(iToken ?i := None),
    svInstances := (svInstances s)(a := ?i\<lparr>iConnected := False\<rparr>)\<rparr>"
  obtain q u where up: "repo_UpdateConnected (seDb env) (iId ?i) False (iDisconnectReason ?i) ?t = (q, u)" by fastforce
  then have "q \<noteq> Crash" using update_connected_no_crash by metis
  with up have "end_session env cfg a m c s = post_session cfg a m ''LoggedOut'' [''reason'' \<mapsto> JStr ''Logged out''] u"
    by (cases q) (simp_all add: end_session_def bindg_def attempt_def read_instance_def client_disconnect_def
        forget_client_def forget_my_client_def forget_user_info_def change_instance_def set_instance_def run_basic)
  moreover have "core u = core ?t"
    using keepsD [OF whole.alone_repo(3) up] by (simp add: same_def)
  moreover from this have "iId (svInstances u a) = iId ?i"
    by (simp add: core_def fun_eq_iff)
  ultimately show ?thesis using assms by (auto simp: ended_def core_def post_session_run)
qed

lemma update_rows_in: "r \<in> set rows \<Longrightarrow> P r \<Longrightarrow> f r \<in> set (update_rows P f rows)"
  by (auto simp: set_update_rows)

text \<open>C28: A kill signal for an instance, whoever it was meant for, is taken by any goroutine that watches
  the instance: it disconnects its own client \<open>c\<close>, unregisters the client and the session that are
  registered now, reports the logout, marks the row as disconnected with the reason of its own copy
  of the instance, and starts anew.\<close>

theorem kill_signal_ends_session:
  assumes "healthy (seDb env)" and "names_row (seDb env) s key i" and "iId (svInstances s a) = key" and "iId i = key"
    and "signalled env key s"
  shows "\<exists>s'. run_session env cfg a subs isProxy 1 (Watching c m) s = (Return Starting, s') \<and>
    ended key (iToken (svInstances s a)) c s s' \<and>
    i\<lparr>iConnected := False, iDisconnectReason := iDisconnectReason (svInstances s a)\<rparr> \<in> set (dbInstances s')"
proof -
  obtain n where poll: "poll_kill env key s = (Return True, s\<lparr>stTick := n\<rparr>)"
    using poll_signalled [OF assms(5)] .
  let ?s1 = "s\<lparr>stTick := n\<rparr>"
  obtain r s' where e: "end_session env cfg a m c ?s1 = (r, s')" by fastforce
  note fin = end_session_ended [OF e]
  then have run: "run_session env cfg a subs isProxy 1 (Watching c m) s = (Return Starting, s')"
    using poll e assms(3) by (simp add: bindg_def read_instance_def run_basic)
  let ?rows = "update_rows (\<lambda>r. iId r = key) (\<lambda>r. r\<lparr>iConnected := False\<rparr>) (dbInstances s)"
  have "i\<lparr>iConnected := False\<rparr> \<in> set ?rows"
    using assms(2,4) by (intro update_rows_in) (simp_all add: names_row_def)
  then have "(i\<lparr>iConnected := False\<rparr>)\<lparr>iDisconnectReason := iDisconnectReason (svInstances s a)\<rparr> \<in>
      set (update_rows (\<lambda>r. iId r = key) (\<lambda>r. r\<lparr>iDisconnectReason := iDisconnectReason (svInstances s a)\<rparr>) ?rows)"
    using assms(4) by - (rule update_rows_in, simp_all)
  moreover have "dbInstances s' = update_rows (\<lambda>r. iId r = key)
      (\<lambda>r. r\<lparr>iDisconnectReason := iDisconnectReason (svInstances s a)\<rparr>) ?rows"
    using e assms(1-4)
    by (auto simp: end_session_def bindg_def attempt_def read_instance_def client_disconnect_def
        forget_client_def forget_my_client_def forget_user_info_def change_instance_def set_instance_def run_basic
        repo_UpdateConnected_def update_by_id names_row_def post_session_run)
  ultimately have "i\<lparr>iConnected := False, iDisconnectReason := iDisconnectReason (svInstances s a)\<rparr> \<in> set (dbInstances s')"
    by simp
  moreover have "ended key (iToken (svInstances s a)) c s s'"
    using fin assms(3) by (simp add: ended_def)
  ultimately show ?thesis using run by blast
qed

definition killed_sample :: session_env where
  "killed_sample = sample_sessions\<lparr>seSender := (\<lambda>_ ch. ch = 0)\<rparr>"

theorem kill_signal_ends_session_witness:
  "\<exists>s'. run_session killed_sample sample_session_config 0 [] False 1 (Watching 7 1) runningServer = (Return Starting, s') \<and>
    ended ''one'' ''t1'' 7 runningServer s' \<and>
    (sample_instance ''one'' ''t1'')\<lparr>iConnected := False, iDisconnectReason := []\<rparr> \<in> set (dbInstances s')"
  using kill_signal_ends_session [of killed_sample runningServer "''one''" "sample_instance ''one'' ''t1''" 0
      sample_session_config "[]" False 7 1]
  by (simp add: killed_sample_def runningServer_def set_instance_def signalled_def healthy_def names_row_def sample_defs)

section \<open>Restarting leaves the old goroutine\<close>

lemma signals_clock: "keeps (same svSignals) clock" "keeps (same svSignals) (statement d)"
  "keeps (same svSignals) (read_uuid d t)" "keeps (same svSignals) (check_uuid d t)"
  "keeps (same svSignals) (question h)"
  by (auto simp: keeps_def same_def run_clock run_statement run_read_uuid run_check_uuid question_run)

lemma signals_steps:
  assumes "nobody_receives env" and "spared svSignals env"
  shows "keeps (same svSignals) (try_send env ch)" "keeps (same svSignals) (wait_ms env ms)"
    "keeps (same svSignals) (repo_GetInstanceByID d t)" "keeps (same svSignals) (update_instances d t g)"
    "keeps (same svSignals) (disconnect_existing env k)"
proof -
  show "keeps (same svSignals) (try_send env ch)"
    using assms(1)
    by (auto simp: keeps_def try_send_def bindg_def run_basic question_run same_def nobody_receives_def split: option.splits)
  show "keeps (same svSignals) (wait_ms env ms)"
    using assms(2) by (simp add: keeps_def same_def wait_ms_run spared_def)
  show "keeps (same svSignals) (repo_GetInstanceByID d t)"
    unfolding repo_GetInstanceByID_def first_instance_def by (intro part.keeps_intros signals_clock)
  show "keeps (same svSignals) (update_instances d t g)"
    unfolding update_instances_def by (intro part.keeps_intros part.keeps_modify signals_clock) (simp add: same_def)
  show "keeps (same svSignals) (disconnect_existing env k)"
    unfolding disconnect_existing_def client_connected_def client_disconnect_def
    by (intro part.keeps_intros part.keeps_modify signals_clock; simp add: same_def)
qed

lemma signals_modify: "keeps (same svSignals) (forget_client k)" "keeps (same svSignals) (forget_my_client k)"
  "keeps (same svSignals) (forget_channel k)" "keeps (same svSignals) (forget_user_info t)"
  "keeps (same svSignals) (set_user_info i)" "keeps (same svSignals) (make_channel k)"
  "keeps (same svSignals) (spawn_client cd)"
  unfolding forget_client_def forget_my_client_def forget_channel_def forget_user_info_def set_user_info_def
    make_channel_def spawn_client_def
  by (intro part.keeps_modify; simp add: same_def)+

lemma reconnect_no_signal:
  assumes "nobody_receives env" and "spared svSignals env"
  shows "keeps (same svSignals) (ReconnectClient env cfg key)"
  unfolding ReconnectClient_def StartInstance_def with_global_proxy_def read_proxy_def repo_updates Let_def
  by (intro part.keeps_intros signals_modify signals_steps [OF assms])

lemma start_makes_channel:
  assumes "StartInstance env cfg key s = (Return (), s')" and "dbUuid (seDb env) key = Some key"
  shows "\<exists>n cd. svKill s' key = Some n \<and> svChannels s' = Suc n \<and> svStarted s' = svStarted s @ [cd]"
proof -
  obtain found s1 where found: "repo_GetInstanceByID (seDb env) key s = (Return found, s1)"
    and rest1: "bindg (with_global_proxy env cfg found) (\<lambda>i. bindg (set_user_info i) (\<lambda>_. bindg (make_channel (iId i)) (\<lambda>_.
      bindg (if iProxy i \<noteq> [] then bindg (read_proxy env (iProxy i)) (\<lambda>p. ret (pHost p \<noteq> [])) else ret False) (\<lambda>isProxy.
        spawn_client \<lparr>cdInstance = i, cdSubscriptions = parse_events (iEvents i), cdPhone = [], cdIsProxy = isProxy\<rparr>)))) s1 =
      (Return (), s')"
    using bind_ReturnD [OF assms(1) [unfolded StartInstance_def]] by blast
  obtain i s2 where i: "with_global_proxy env cfg found s1 = (Return i, s2)"
    and rest: "bindg (set_user_info i) (\<lambda>_. bindg (make_channel (iId i)) (\<lambda>_.
      bindg (if iProxy i \<noteq> [] then bindg (read_proxy env (iProxy i)) (\<lambda>p. ret (pHost p \<noteq> [])) else ret False) (\<lambda>isProxy.
        spawn_client \<lparr>cdInstance = i, cdSubscriptions = parse_events (iEvents i), cdPhone = [], cdIsProxy = isProxy\<rparr>))) s2 =
      (Return (), s')"
    using bind_ReturnD [OF rest1] by blast
  have "iId found = key" using get_by_id_key [OF found] assms(2) by simp
  moreover have "iId i = iId found"
    using i by (auto simp: with_global_proxy_def Let_def run_basic dest!: bind_ReturnD split: if_splits)
  moreover have "svStarted s2 = svStarted s"
  proof -
    have c: "keeps (same svStarted) clock" "keeps (same svStarted) (statement d)" "keeps (same svStarted) (read_uuid d t)"
        "keeps (same svStarted) (check_uuid d t)" for d t
      by (auto simp: keeps_def same_def run_clock run_statement run_read_uuid run_check_uuid)
    have a: "keeps (same svStarted) (repo_GetInstanceByID (seDb env) key)"
      unfolding repo_GetInstanceByID_def first_instance_def by (intro part.keeps_intros c)
    have b: "keeps (same svStarted) (with_global_proxy env cfg found)"
      unfolding with_global_proxy_def Let_def repo_updates update_instances_def
      by (intro part.keeps_intros part.keeps_modify c) (simp add: same_def)
    show ?thesis using keepsD [OF a found] keepsD [OF b i] by (simp add: same_def)
  qed
  ultimately show ?thesis using rest
    by (auto simp: bindg_def set_user_info_def make_channel_run read_proxy_def spawn_client_def run_basic
        split: if_splits option.splits)
qed

lemma reconnect_starts:
  assumes "ReconnectClient env cfg key s = (Return (), s')"
  obtains s1 where "StartInstance env cfg key s1 = (Return (), s')"
  using assms unfolding ReconnectClient_def
  by (auto dest!: bind_ReturnD elim!: attemptE split: sum.splits simp: run_basic)

text \<open>A successful \<open>ReconnectClient\<close> does not stop the goroutine of the old session: its signal is sent
  only if somebody is waiting, which that goroutine never does, since it looks at the channel once a
  second. The new session gets a channel of its own under the same instance id, which the old
  goroutine watches from then on: a later kill signal for the instance may be taken by the old one,
  which then unregisters the new client without disconnecting it.\<close>

theorem reconnect_leaves_old_session:
  assumes "nobody_receives env" and "spared svSignals env" and "dbUuid (seDb env) key = Some key"
    and "ReconnectClient env cfg key s = (Return (), s1)"
  shows "svSignals s1 = svSignals s \<and>
    (\<exists>ch. svKill s1 key = Some ch \<and>
      (\<forall>s2 a old m subs isProxy. svKill s2 key = Some ch \<longrightarrow> seSender env (stTick s2) ch \<longrightarrow> iId (svInstances s2 a) = key \<longrightarrow>
        (\<exists>s3. run_session env cfg a subs isProxy 1 (Watching old m) s2 = (Return Starting, s3) \<and>
          svDisconnects s3 = svDisconnects s2 @ [old] \<and> svClients s3 key = None)))"
proof -
  have "svSignals s1 = svSignals s"
    using keepsD [OF reconnect_no_signal [OF assms(1,2)] assms(4)] by (simp add: same_def)
  moreover obtain ch where ch: "svKill s1 key = Some ch"
    using reconnect_starts [OF assms(4)] start_makes_channel [OF _ assms(3)] by metis
  moreover have "\<exists>s3. run_session env cfg a subs isProxy 1 (Watching old m) s2 = (Return Starting, s3) \<and>
      svDisconnects s3 = svDisconnects s2 @ [old] \<and> svClients s3 key = None"
    if "svKill s2 key = Some ch" "seSender env (stTick s2) ch" "iId (svInstances s2 a) = key" for s2 a old m subs isProxy
  proof -
    have "signalled env key s2" using that by (simp add: signalled_def)
    then obtain n where poll: "poll_kill env key s2 = (Return True, s2\<lparr>stTick := n\<rparr>)" by (rule poll_signalled)
    obtain r s3 where e: "end_session env cfg a m old (s2\<lparr>stTick := n\<rparr>) = (r, s3)" by fastforce
    with end_session_ended [OF e] poll that(3) show ?thesis
      by (auto simp: bindg_def read_instance_def run_basic ended_def)
  qed
  ultimately show ?thesis by blast
qed

theorem reconnect_leaves_old_session_witness:
  "let s1 = snd (ReconnectClient killed_sample sample_session_config ''one'' runningServer) in
   svSignals s1 = [] \<and> svKill s1 ''one'' = Some 1"
proof -
  have run: "fst (ReconnectClient killed_sample sample_session_config ''one'' runningServer) = Return ()"
    "svKill (snd (ReconnectClient killed_sample sample_session_config ''one'' runningServer)) ''one'' = Some 1" by code_simp+
  have "ReconnectClient killed_sample sample_session_config ''one'' runningServer =
      (Return (), snd (ReconnectClient killed_sample sample_session_config ''one'' runningServer))"
    using run(1) by (metis prod.collapse)
  from reconnect_leaves_old_session [OF _ _ _ this] run(2) show ?thesis
    by (simp add: nobody_receives_def spared_def killed_sample_def runningServer_def set_instance_def sample_defs)
qed

section \<open>The version of the web client\<close>

lemma match_lit: "match_here (lit p @ ps) (p @ t) = match_here ps t"
  by (induction p) (simp_all add: lit_def)

lemma match_many:
  assumes "set ws \<subseteq> set cs" and "ds \<noteq> []" and "\<forall>d \<in> set ds. is_digit d" and "\<forall>d \<in> set cs. \<not> is_digit d"
    and "post = [] \<or> \<not> is_digit (hd post)"
  shows "match_here [Many cs] (ws @ ds @ post) = Some ds"
  using assms(1)
proof (induction ws)
  case Nil
  obtain d ds' where ds: "ds = d # ds'" using assms(2) by (cases ds) auto
  with assms(3,4) have "d \<notin> set cs" "is_digit d" by auto
  moreover have "takeWhile is_digit (ds' @ post) = ds'"
    using assms(3,5) ds by (cases post) (simp_all add: takeWhile_append)
  ultimately show ?case by (simp add: ds)
next
  case (Cons w ws)
  then show ?case by simp
qed

lemma match_skips:
  assumes "c \<notin> set pre"
  shows "match_leftmost (One [c] # ps) (pre @ t) = match_leftmost (One [c] # ps) t"
  using assms by (induction pre) auto

lemma find_first: "match_leftmost p t = Some ds \<Longrightarrow> atoi ds = Some n \<Longrightarrow> n > 0 \<Longrightarrow> find_revision (p # ps) t = Some n"
  by simp

lemma leftmost_here: "match_here ps t = Some r \<Longrightarrow> match_leftmost ps t = Some r"
  by (cases t) simp_all

definition revision_key :: string where
  "revision_key = [CHR 0x22] @ ''client_revision'' @ [CHR 0x22] @ '':''"

text \<open>The version that is announced to WhatsApp is read off the page: the number after the first
  \<open>"client_revision":\<close> becomes the patch number, cut to 32 bits, when the configuration sets none.\<close>

theorem web_version_announced:
  assumes "seWebPage env (stTick s) = Ok (pre @ revision_key @ ws @ ds @ post)"
    and "CHR 0x22 \<notin> set pre" and "set ws \<subseteq> set blanks" and "ds \<noteq> []" and "\<forall>d \<in> set ds. is_digit d"
    and "post = [] \<or> \<not> is_digit (hd post)" and "atoi ds = Some n" and "n > 0"
    and "scWhatsappVersion cfg = (0, y, z)"
  shows "\<exists>s'. choose_version env cfg s = (Return (), s') \<and>
    dpVersion (svDeviceProps s') = (2, 3000, word_of_int n)"
proof -
  let ?q = "CHR 0x22"
  have p: "hd revision_patterns = One [?q] # lit (''client_revision'' @ [?q] @ '':'') @ [Many blanks]"
    by (simp add: revision_patterns_def Let_def lit_def)
  have "\<forall>d \<in> set blanks. \<not> is_digit d" by (simp add: blanks_def is_digit_def)
  then have "match_here [Many blanks] (ws @ ds @ post) = Some ds" by (rule match_many [OF assms(3-5) _ assms(6)])
  then have "match_here (lit revision_key @ [Many blanks]) (revision_key @ ws @ ds @ post) = Some ds"
    by (simp add: match_lit)
  moreover have "lit revision_key @ [Many blanks] = hd revision_patterns"
    by (simp add: p revision_key_def lit_def)
  ultimately have "match_leftmost (hd revision_patterns) (pre @ revision_key @ ws @ ds @ post) = Some ds"
    unfolding p by (simp add: match_skips [OF assms(2)] leftmost_here del: match_leftmost.simps match_here.simps)
  moreover have "revision_patterns = hd revision_patterns # tl revision_patterns" by (simp add: revision_patterns_def Let_def)
  ultimately have "find_revision revision_patterns (pre @ revision_key @ ws @ ds @ post) = Some n"
    using find_first [OF _ assms(7,8)] by metis
  with assms(1,9) show ?thesis
    by (simp add: choose_version_def fetchWhatsAppWebVersion_def bindg_def attempt_def question_run run_basic
        set_version_def uint32_version_def)
qed

definition page_sample :: session_env where
  "page_sample = sample_sessions\<lparr>seWebPage := (\<lambda>_. Ok (''var x = {'' @ revision_key @ '' 1023456789,''))\<rparr>"

theorem web_version_announced_witness:
  "\<exists>s'. choose_version page_sample (sample_session_config\<lparr>scWhatsappVersion := (0, 0, 0)\<rparr>) sampleServer = (Return (), s') \<and>
    dpVersion (svDeviceProps s') = (2, 3000, 1023456789)"
  using web_version_announced [of page_sample sampleServer "''var x = {''" "'' ''" "''1023456789''" "'',''" 1023456789
      "sample_session_config\<lparr>scWhatsappVersion := (0, 0, 0)\<rparr>" 0 0]
  by (simp add: page_sample_def blanks_def is_digit_def atoi_def digits_val_def digit_val_def)

section \<open>A start that fails\<close>

text \<open>When the connection of a session fails for another reason than a closed connection or refused
  proxy credentials, the goroutine ends and leaves the unconnected client registered. From then on
  the operations that need a client fail with \<open>client disconnected\<close>, and do not start a session.\<close>

theorem failed_start_blocks:
  assumes "svClients s (iId i) = None" and "svInstances s a = i" and "iJid i \<noteq> []"
    and "\<And>n. seContainer env n (container_source cfg) = None" and "\<And>n j. seGetDevice env n j = Ok True"
    and "scWhatsappVersion cfg = (x, y, z)" and "x \<noteq> 0" and "y \<noteq> 0" and "z \<noteq> 0"
    and "\<And>n c. seStoreJid env n c = Some (iJid i)" and "\<And>n c. seDial env n c = Some e"
    and "\<not> str_contains e ''EOF''" and "\<not> str_contains e ''username/password authentication failed''"
    and "\<And>n. \<not> seConnected env n (svFresh s)"
  shows "\<exists>s'. start_session env cfg a subs False s = (Return Finished, s') \<and> svClients s' (iId i) = Some (svFresh s) \<and>
    svPosts s' = svPosts s \<and>
    (\<exists>s2. service_ensureClientConnected env cfg (iId i) s' = (Raise ''client disconnected'', s2) \<and>
      svStarted s2 = svStarted s)"
  using assms
  by (auto simp: start_session_def build_session_def device_for_def describe_device_def choose_version_def
        new_client_def new_session_def connect_session_def dial_with_fallback_def dial_def command_def set_version_def
        read_instance_def change_instance_def allocate_def set_instance_def set_session_def Let_def
        service_ensureClientConnected_def session_client_of_def client_connected_def
        bindg_def attempt_def question_run run_basic)

definition failing_sample :: session_env where
  "failing_sample = sample_sessions\<lparr>seConnected := (\<lambda>_ _. False), seStoreJid := (\<lambda>_ _. Some ''55@s.whatsapp.net''),
     seDial := (\<lambda>_ _. Some ''no such host'')\<rparr>"

theorem failed_start_blocks_witness:
  "\<exists>s'. start_session failing_sample sample_session_config 1 [] False
      (set_instance 1 ((sample_instance ''two'' ''t2'')\<lparr>iJid := ''55@s.whatsapp.net''\<rparr>) sampleServer) = (Return Finished, s') \<and>
    svClients s' ''two'' = Some 0 \<and> svPosts s' = [] \<and>
    (\<exists>s2. service_ensureClientConnected failing_sample sample_session_config ''two'' s' = (Raise ''client disconnected'', s2) \<and>
      svStarted s2 = [])"
  using failed_start_blocks [of "set_instance 1 ((sample_instance ''two'' ''t2'')\<lparr>iJid := ''55@s.whatsapp.net''\<rparr>) sampleServer"
      "(sample_instance ''two'' ''t2'')\<lparr>iJid := ''55@s.whatsapp.net''\<rparr>" 1 failing_sample sample_session_config 2 3000 1
      "''no such host''" "[]"]
  by (simp add: failing_sample_def set_instance_def has_prefix_def sample_defs)

end
