(* ===== verification/HandlerProperties.thy ===== *)
theory HandlerProperties
  imports SessionProperties
begin

text \<open>
  What the event handler of a session does with events: which events are dispatched and how often,
  how the addresses of a message are rewritten, and what the handler leaves in the database.
\<close>

section \<open>Steps of the handler and the parts they leave alone\<close>

definition sample_handler :: handler_env where
  "sample_handler = \<lparr>evSessions = sample_sessions, evJson = (\<lambda>_ _. Ok (\<lambda>_. None)), evDecrypt = (\<lambda>_ _. Ok JNull),
     evDownload = (\<lambda>_ _. Ok ''data''), evPng = (\<lambda>d. Ok d), evBase64 = (\<lambda>d. d),
     evStore = (\<lambda>_ f _. Ok f), evGroupInfo = (\<lambda>_ _. Ok JNull)\<rparr>"

text \<open>A session of the first instance is at address 1.\<close>

definition handlingServer :: server where
  "handlingServer = set_session 1 (zeroMyClient\<lparr>mcUserID := ''one'', mcToken := ''t1'', mcWAClient := 7\<rparr>)
     (runningServer\<lparr>svMyClients := [''one'' \<mapsto> 1], svFresh := 2\<rparr>)"

lemmas handler_sample_defs = sample_handler_def handlingServer_def runningServer_def set_instance_def set_session_def

text \<open>What is dispatched, and what the handler knows of its session.\<close>

definition post_view :: "address \<Rightarrow> server \<Rightarrow> post list \<times> string" where
  "post_view a s = (svPosts s, mcUserID (svSessions s a))"

interpretation posts: apart "post_view a" for a
  by unfold_locales (auto simp: post_view_def core_def)

lemma posts_modify: "(\<And>s. post_view a (g s) = post_view a s) \<Longrightarrow> keeps (same (post_view a)) (modify g)"
  by (rule part.keeps_modify) (simp add: same_def)

lemma posts_steps:
  "keeps (same (post_view a)) (my_instance m)" "keeps (same (post_view a)) (data_map h evt)"
  "keeps (same (post_view a)) (store_jid h c)" "keeps (same (post_view a)) (seen_before k)"
  "keeps (same (post_view a)) (mark_disconnected h m t)"
proof -
  show i: "keeps (same (post_view a)) (my_instance m)"
    unfolding my_instance_def by (intro posts.alone)
  show "keeps (same (post_view a)) (data_map h evt)" "keeps (same (post_view a)) (store_jid h c)"
    unfolding data_map_def store_jid_def by (intro posts.alone)+
  show "keeps (same (post_view a)) (seen_before k)"
    unfolding seen_before_def by (intro posts.alone posts_modify) (simp add: post_view_def)
  show "keeps (same (post_view a)) (mark_disconnected h m t)"
    unfolding mark_disconnected_def by (intro posts.alone i) simp
qed

lemma posts_save: "keeps (same (post_view a)) (repo_Update d i)"
proof -
  have n: "keeps (same (post_view a)) (insert_instance d i)" for i
    unfolding insert_instance_def by (intro posts.alone posts_modify) (simp add: post_view_def)
  have c: "keeps (same (post_view a)) (created_now d i)" for i
    unfolding created_now_def by (intro posts.alone)
  show ?thesis unfolding repo_Update_def gorm_save_def gorm_create_def
    by (intro posts.alone n c posts_modify) (simp add: post_view_def)
qed

lemma posts_upsert: "keeps (same (post_view a)) (UpsertLabel d l)"
  unfolding UpsertLabel_def insert_label_def
  by (intro posts.alone posts_modify; simp add: post_view_def)

lemma posts_connection:
  "keeps (same (post_view a)) (on_app_state_sync h c b)" "keeps (same (post_view a)) (on_connected h m c evt)"
  "keeps (same (post_view a)) (on_pair_success h c evt t)" "keeps (same (post_view a)) (on_temporary_ban h evt t j)"
  "keeps (same (post_view a)) (on_disconnected h m c)" "keeps (same (post_view a)) (on_label_edit h c t q x y)"
  "keeps (same (post_view a)) (on_call_offer m c w t)" "keeps (same (post_view a)) (on_undecryptable h c t b)"
proof -
  show "keeps (same (post_view a)) (on_app_state_sync h c b)"
    unfolding on_app_state_sync_def by (intro posts.alone posts_steps)
  show "keeps (same (post_view a)) (on_connected h m c evt)"
    unfolding on_connected_def by (intro posts.alone posts_steps posts_modify; simp add: post_view_def)
  show "keeps (same (post_view a)) (on_pair_success h c evt t)"
    unfolding on_pair_success_def Let_def
    by (intro posts.alone posts_steps posts_modify posts_save; simp add: post_view_def)
  show "keeps (same (post_view a)) (on_temporary_ban h evt t j)"
    unfolding on_temporary_ban_def by (intro posts.alone posts_steps)
  show "keeps (same (post_view a)) (on_disconnected h m c)"
    unfolding on_disconnected_def by (intro posts.alone posts_steps posts_modify; simp add: post_view_def)
  show "keeps (same (post_view a)) (on_label_edit h c t q x y)"
    unfolding on_label_edit_def by (intro posts.alone posts_upsert)
  show "keeps (same (post_view a)) (on_call_offer m c w t)"
    unfolding on_call_offer_def by (intro posts.alone posts_steps)
  show "keeps (same (post_view a)) (on_undecryptable h c t b)"
    unfolding on_undecryptable_def dial_def client_disconnect_def
    by (intro posts.alone posts_steps posts_modify; simp add: post_view_def)
qed

lemma posts_message: "keeps (same (post_view a)) (on_message h cfg m c info msg)"
proof -
  have "keeps (same (post_view a)) (add_media h cfg i w d)" for i w d
    unfolding add_media_def fetch_media_def store_media_def Let_def by (intro posts.alone)
  moreover have "keeps (same (post_view a)) (poll_vote h c w d)" "keeps (same (post_view a)) (protocol_or_new c i w d)"
    "keeps (same (post_view a)) (add_group h i d)" for w d i
    unfolding poll_vote_def protocol_or_new_def add_group_def by (intro posts.alone posts_steps)+
  ultimately have "keeps (same (post_view a)) (on_known_message h cfg c i w)" for i w
    unfolding on_known_message_def by (intro posts.alone posts_steps)
  then show ?thesis unfolding on_message_def Let_def by (intro posts.alone posts_steps)
qed

lemma posts_receipt: "keeps (same (post_view a)) (on_receipt cfg m c rc)"
proof -
  have s: "keeps (same (post_view a)) (save_status cfg rc k t)" for k t
    unfolding save_status_def by (intro posts.alone posts_modify) (simp add: post_view_def)
  have r: "keeps (same (post_view a)) (read_receipts cfg c rc vs)" for vs
    by (induction vs) (auto intro!: posts.alone posts_steps s)
  show ?thesis unfolding on_receipt_def
    by (cases "rcMessageIDs rc"; cases "rcType rc") (auto intro!: posts.alone posts_steps s r)
qed

text \<open>Only the logout dispatches before the end of the handler.\<close>

definition is_logout :: "wa_event \<Rightarrow> bool" where
  "is_logout evt = (case evt of LoggedOut _ \<Rightarrow> True | _ \<Rightarrow> False)"

lemma posts_branch:
  assumes "\<not> is_logout evt"
  shows "keeps (same (post_view a)) (handle_branch h cfg m c evt)"
  using assms posts_connection posts_message posts_receipt
  unfolding handle_branch_def is_logout_def
  by (cases evt) (auto intro!: posts.alone posts_steps)

section \<open>Values of the branches\<close>

text \<open>The events that can be dispatched belong to a group of subscriptions, but for one.\<close>

definition reported :: "string \<Rightarrow> bool" where
  "reported e = (webhook_group e \<noteq> None \<or> e = ''OfflineSyncCompleted'')"

definition reportable :: "outgoing option \<Rightarrow> bool" where
  "reportable out = (case out of None \<Rightarrow> True | Some og \<Rightarrow> reported (ogEvent og))"

lemma reportable_simps [simp]: "reportable None" "reportable (plain e) = reported e"
  "reportable (with_data e d) = reported e" "reportable (with_state e t) = reported e"
  by (simp_all add: reportable_def plain_def with_data_def with_state_def)

lemma reported_names: "reported ''Connected''" "reported ''PairSuccess''" "reported ''TemporaryBan''"
  "reported ''Message''" "reported ''Receipt''" "reported ''Presence''" "reported ''HistorySync''"
  "reported ''LoggedOut''" "reported ''ChatPresence''" "reported ''CallOffer''" "reported ''CallAccept''"
  "reported ''CallTerminate''" "reported ''CallOfferNotice''" "reported ''CallRelayLatency''"
  "reported ''OfflineSyncCompleted''" "reported ''ConnectFailure''" "reported ''Disconnected''"
  "reported ''LabelEdit''" "reported ''LabelAssociationChat''" "reported ''LabelAssociationMessage''"
  "reported ''Contact''" "reported ''PushName''" "reported ''GroupInfo''" "reported ''JoinedGroup''"
  "reported ''NewsletterJoin''" "reported ''NewsletterLeave''"
  by (simp_all add: reported_def webhook_group_def)

lemma reportable_branch: "yields reportable (handle_branch h cfg a m evt)"
proof (cases evt)
  case (ReceiptEvent rc)
  show ?thesis unfolding ReceiptEvent handle_branch_def on_receipt_def
    by (cases "rcMessageIDs rc"; cases "rcType rc") (auto intro!: yields_intros simp: reported_names)
next
  case (MessageEvent info msg)
  have "yields reportable (on_known_message h cfg m i w)" for i w
    unfolding on_known_message_def by (intro yields_intros) (simp_all add: reported_names)
  then show ?thesis unfolding MessageEvent handle_branch_def on_message_def Let_def
    by (auto intro!: yields_intros)
qed (auto simp: handle_branch_def on_app_state_sync_def on_connected_def on_pair_success_def on_temporary_ban_def
    on_logged_out_def on_disconnected_def on_label_edit_def on_call_offer_def on_undecryptable_def Let_def reported_names
    intro!: yields_intros)

section \<open>What is dispatched\<close>

definition own_post :: "string \<Rightarrow> post \<Rightarrow> bool" where
  "own_post key p =
     (\<exists>e. poPayload p ''event'' = Some (JStr e) \<and> poPayload p ''instanceId'' = Some (JStr key) \<and>
          poQueue p = queue_name key e \<and> reported e)"

definition posts_more :: "address \<Rightarrow> string \<Rightarrow> nat \<Rightarrow> server \<Rightarrow> server \<Rightarrow> bool" where
  "posts_more a key n s s' =
     (\<exists>new. svPosts s' = svPosts s @ new \<and> length new \<le> n \<and> (\<forall>p \<in> set new. own_post key p))"

lemma posts_more_same: "post_view a s' = post_view a s \<Longrightarrow> posts_more a key n s s'"
  by (auto simp: posts_more_def post_view_def)

lemma dispatch_run:
  "dispatch cfg i key e user v s =
     (Return (), s\<lparr>svPosts := svPosts s @ [\<lparr>poInstance = i, poQueue = queue_name key e, poPayload = v\<rparr>],
        svGlobalPosts := svGlobalPosts s @
          (if AmqpGlobalEnabled (scGlobal cfg) \<or> NatsGlobalEnabled (scGlobal cfg) then [(e, v, user)] else [])\<rparr>)"
  by (simp add: dispatch_def bindg_def run_basic)

text \<open>The end of the handler dispatches once, or not at all.\<close>

lemma finish_posts:
  assumes "finish_event h cfg a c evt out s = (r, s')" and "reportable out"
  shows "posts_more a (mcUserID c) 1 s s'"
proof (cases out)
  case None
  with assms show ?thesis by (simp add: finish_event_def run_basic posts_more_def)
next
  case (Some og)
  let ?data = "case ogData og of Some d \<Rightarrow> ret d | None \<Rightarrow> data_map h evt"
  let ?send = "\<lambda>d. bindg (my_instance a) (\<lambda>i. dispatch cfg i (mcUserID c) (ogEvent og) (mcUserID c)
    ((event_map (ogEvent og) (JObj d) c i)(''state'' := map_option JStr (ogState og))))"
  have k: "keeps (same (post_view a)) ?data"
    by (cases "ogData og") (auto intro!: posts.alone posts_steps)
  have run: "bindg ?data ?send s = (r, s')" using assms(1) Some by (simp add: finish_event_def)
  have "reported (ogEvent og)" using assms(2) Some by (simp add: reportable_def)
  then have "own_post (mcUserID c) \<lparr>poInstance = i, poQueue = queue_name (mcUserID c) (ogEvent og),
      poPayload = (event_map (ogEvent og) (JObj d) c i)(''state'' := map_option JStr (ogState og))\<rparr>" for d i
    by (auto simp: own_post_def event_map_def)
  with run show ?thesis
    by (auto elim!: bindE dest!: keepsD [OF k] simp: my_instance_def dispatch_run run_basic posts_more_def post_view_def same_def)
qed



section \<open>Logging out\<close>

definition logout_events :: "server \<Rightarrow> nat" where
  "logout_events s = length (filter (\<lambda>p. poPayload p ''event'' = Some (JStr ''LoggedOut'')) (svPosts s))"

definition logout_view :: "address \<Rightarrow> server \<Rightarrow> post list \<times> (string \<Rightarrow> channel option) \<times> channel list" where
  "logout_view a s = (svPosts s, svKill s, svClosed s)"

interpretation logout: apart "logout_view a" for a
  by unfold_locales (auto simp: logout_view_def core_def)

definition everyone_receives :: "session_env \<Rightarrow> bool" where
  "everyone_receives env = (\<forall>n ch. seWaiting env n ch)"

lemma send_blocking_cases:
  assumes "spared (logout_view a) env" and "\<And>c. ch = Some c \<Longrightarrow> c \<notin> set (svClosed s)"
  shows "nobody_receives env \<Longrightarrow> \<exists>s'. send_blocking env ch s = (Return False, s') \<and> logout_view a s' = logout_view a s"
    and "everyone_receives env \<Longrightarrow> ch \<noteq> None \<Longrightarrow>
      \<exists>s'. send_blocking env ch s = (Return True, s') \<and> logout_view a s' = logout_view a s"
proof -
  have closed: "svClosed (seOthers env n t) = svClosed t" for n t
    using assms(1) by (simp add: spared_def logout_view_def)
  obtain r s' where run: "send_blocking env ch s = (r, s')" by fastforce
  note v = keepsD [OF logout.alone_send(2) [OF assms(1)] run]
  show "\<exists>s'. send_blocking env ch s = (Return False, s') \<and> logout_view a s' = logout_view a s" if "nobody_receives env"
  proof -
    have "r = Return False" using run assms(2) that
      by (auto simp: send_blocking_def send_waiting_def bindg_def question_run wait_ms_run run_basic closed
          nobody_receives_def split: option.splits)
    with run v show ?thesis by (simp add: same_def)
  qed
  show "\<exists>s'. send_blocking env ch s = (Return True, s') \<and> logout_view a s' = logout_view a s"
    if "everyone_receives env" "ch \<noteq> None"
  proof -
    have "r = Return True" using run assms(2) that
      by (auto simp: send_blocking_def send_waiting_def bindg_def question_run wait_ms_run run_basic closed
          everyone_receives_def split: option.splits)
    with run v show ?thesis by (simp add: same_def)
  qed
qed

lemma mark_disconnected_run:
  obtains s1 where "mark_disconnected h a t s = (Return (), s1)" "core s1 = core s"
proof -
  obtain r s1 where run: "mark_disconnected h a t s = (r, s1)" by fastforce
  have "keeps (same core) (mark_disconnected h a t)"
    unfolding mark_disconnected_def my_instance_def by (intro whole.alone) simp
  from keepsD [OF this run] have "core s1 = core s" by (simp add: same_def)
  moreover have "r = Return ()" using run
    by (auto simp: mark_disconnected_def my_instance_def forget_user_info_def change_my_instance_def run_basic
        update_connected_no_crash elim!: bindE attemptE)
  ultimately show thesis using run that by blast
qed

text \<open>The branch up to the signal: one report.\<close>

lemma logged_out_run:
  assumes "\<And>n. evJson h n (LoggedOut t) = Ok d" and "c = svSessions s a"
  obtains s3 p where "svPosts s3 = svPosts s @ [p]" "poPayload p ''event'' = Some (JStr ''LoggedOut'')"
    "svKill s3 = svKill s" "svClosed s3 = svClosed s"
    "handle_branch h cfg a c (LoggedOut t) s =
      bindg (send_blocking (evSessions h) (svKill s (mcUserID c))) (\<lambda>sent.
        ret (if sent then with_data ''LoggedOut'' (d(''reason'' \<mapsto> JStr t)) else None)) s3"
proof -
  obtain s1 where s1: "mark_disconnected h a t s = (Return (), s1)" "core s1 = core s" by (rule mark_disconnected_run)
  let ?s2 = "s1\<lparr>stTick := Suc (stTick s1)\<rparr>"
  obtain s3 where s3: "dispatch cfg (svInstances ?s2 (mcInstance (svSessions ?s2 a))) (mcUserID c) ''LoggedOut'' (mcUserID c)
      ((event_map ''LoggedOut'' (JObj (d(''reason'' \<mapsto> JStr t))) c (svInstances ?s2 (mcInstance (svSessions ?s2 a))))
       (''instanceToken'' \<mapsto> JStr (iToken (svInstances ?s2 (mcInstance (svSessions ?s2 a)))))) ?s2 = (Return (), s3)"
    by (simp add: dispatch_run)
  have "handle_branch h cfg a c (LoggedOut t) s =
      bindg (send_blocking (evSessions h) (svKill s3 (mcUserID c))) (\<lambda>sent.
        ret (if sent then with_data ''LoggedOut'' (d(''reason'' \<mapsto> JStr t)) else None)) s3"
    using s1(1) s3 assms(1)
    by (simp add: handle_branch_def on_logged_out_def Let_def bindg_def data_map_def question_run my_instance_def run_basic)
  moreover have "svKill s3 = svKill s" "svClosed s3 = svClosed s" "svPosts s3 = svPosts s @ [last (svPosts s3)]"
    "poPayload (last (svPosts s3)) ''event'' = Some (JStr ''LoggedOut'')"
    using s3 s1(2) by (auto simp: dispatch_run core_def)
  ultimately show thesis using that by metis
qed

lemma dispatch_event_run:
  assumes "handle_branch h cfg a (svSessions s a) evt s = (Return out, s1)"
    and "finish_event h cfg a (svSessions s a) evt out s1 = (Return (), s2)"
  shows "dispatchEvent h cfg a evt s = (Return (), s2)"
  using assms by (simp add: dispatchEvent_def myEventHandler_def read_session_def bindg_def attempt_def run_basic)

lemma finish_data_run:
  "finish_event h cfg a c evt (with_data e d) s =
     dispatch cfg (svInstances s (mcInstance (svSessions s a))) (mcUserID c) e (mcUserID c)
       ((event_map e (JObj d) c (svInstances s (mcInstance (svSessions s a))))(''state'' := None)) s"
  by (simp add: finish_event_def with_data_def my_instance_def bindg_def run_basic)



section \<open>Messages\<close>

text \<open>What a message leaves when its branch ends without a dispatch.\<close>

lemma no_dispatch:
  assumes "dispatchEvent h cfg a evt s = (r, s')" and "\<not> is_logout evt"
    and "\<And>out s1. handle_branch h cfg a (svSessions s a) evt s = (Return out, s1) \<Longrightarrow> out = None"
  shows "svPosts s' = svPosts s"
proof -
  obtain q s1 where branch: "handle_branch h cfg a (svSessions s a) evt s = (q, s1)" by fastforce
  have "s' = s1" using assms(1) branch assms(3)
    by (cases q) (auto simp: dispatchEvent_def myEventHandler_def read_session_def bindg_def attempt_def run_basic
        finish_event_def)
  with keepsD [OF posts_branch [OF assms(2), of a] branch] show ?thesis by (simp add: same_def post_view_def)
qed

definition seen_view :: "server \<Rightarrow> string list" where
  "seen_view s = svProcessed s"

interpretation seen: apart seen_view
  by unfold_locales (simp add: seen_view_def core_def)

lemma swap_keeps_id [simp]: "riID (swap_sender info) = riID info" "riIsFromMe (swap_sender info) = riIsFromMe info"
  by (simp_all add: swap_sender_def Let_def split: option.split)

lemma message_no_logout: "\<not> is_logout (MessageEvent info msg)"
  by (simp add: is_logout_def)

lemma message_key_swap [simp]: "message_key c (swap_sender info) = message_key c info"
  by (simp add: message_key_def)

lemma seen_before_run:
  "seen_before k s = (if k \<in> set (svProcessed s) then (Return True, s)
     else (Return False, s\<lparr>svProcessed := svProcessed s @ [k]\<rparr>))"
  by (simp add: seen_before_def bindg_def run_basic)

text \<open>The part of the branch before the check for duplicates, and the one after it.\<close>

lemma known_message_seen:
  assumes "on_known_message h cfg c info w s = (Return out, s')" and "\<not> imHas w ''ProtocolMessage''"
  shows "if message_key c info \<in> set (svProcessed s) then out = None else message_key c info \<in> set (svProcessed s')"
proof -
  have d: "keeps (same seen_view) (data_map h e)" for e
    unfolding data_map_def by (intro seen.alone)
  have v: "keeps (same seen_view) (poll_vote h c w e)" for e
    unfolding poll_vote_def by (intro seen.alone)
  have m: "keeps (same seen_view) (add_media h cfg info w e)" for e
    unfolding add_media_def fetch_media_def store_media_def Let_def by (intro seen.alone)
  have g: "keeps (same seen_view) (add_group h info e)" for e
    unfolding add_group_def by (intro seen.alone)
  from assms show ?thesis
    by (auto simp: on_known_message_def protocol_or_new_def seen_before_run run_basic seen_view_def same_def
        elim!: bindE dest!: keepsD [OF d] keepsD [OF v] keepsD [OF m] keepsD [OF g] split: if_splits option.splits)
qed

lemma on_message_seen:
  assumes "on_message h cfg a c info (Some w) s = (Return out, s')" and "\<not> imHas w ''ProtocolMessage''"
  shows "if message_key c info \<in> set (svProcessed s) then out = None
    else out = None \<or> message_key c info \<in> set (svProcessed s')"
  using assms(1)
  by (auto simp: on_message_def Let_def my_instance_def run_basic command_def elim!: bindE split: if_splits
      dest!: known_message_seen [OF _ assms(2)])

text \<open>C19: A message is dispatched once: after an event for a message has been dispatched, another one
  with the same id for the same instance (while the id is remembered) is not, whatever it contains,
  unless it is a protocol message (a revocation or an edit).\<close>

theorem message_dispatched_once:
  assumes "dispatchEvent h cfg a (MessageEvent info (Some w)) s = (r, s1)" and "svPosts s1 \<noteq> svPosts s"
    and "\<not> imHas w ''ProtocolMessage''" and "\<not> imHas w2 ''ProtocolMessage''"
    and "riID info2 = riID info" and "mcUserID (svSessions s2 a2) = mcUserID (svSessions s a)"
    and "set (svProcessed s1) \<subseteq> set (svProcessed s2)"
    and "dispatchEvent h2 cfg2 a2 (MessageEvent info2 (Some w2)) s2 = (r2, s3)"
  shows "svPosts s3 = svPosts s2"
proof (rule no_dispatch [OF assms(8)])
  let ?c = "svSessions s a" and ?c2 = "svSessions s2 a2"
  obtain out q where branch: "handle_branch h cfg a ?c (MessageEvent info (Some w)) s = (Return out, q)" "out \<noteq> None"
    using no_dispatch [OF assms(1)] assms(2) message_no_logout by metis
  then have "message_key ?c info \<in> set (svProcessed q)"
    using on_message_seen [OF _ assms(3), of h cfg a ?c info s out q] by (auto simp: handle_branch_def split: if_splits)
  moreover have "svProcessed s1 = svProcessed q"
  proof -
    obtain z t where f: "finish_event h cfg a ?c (MessageEvent info (Some w)) out q = (z, t)" by fastforce
    with assms(1) branch(1) have "s1 = t"
      by (cases z) (auto simp: dispatchEvent_def myEventHandler_def read_session_def bindg_def attempt_def run_basic)
    moreover have k: "keeps (same seen_view) (finish_event h cfg a ?c (MessageEvent info (Some w)) out)"
      unfolding finish_event_def data_map_def my_instance_def
      by (intro seen.alone part.keeps_modify) (simp add: dispatch_run keeps_def same_def seen_view_def)
    ultimately show ?thesis using keepsD [OF k f] by (simp add: same_def seen_view_def)
  qed
  ultimately have seen2: "message_key ?c2 info2 \<in> set (svProcessed s2)"
    using assms(5-7) by (auto simp: message_key_def)
  show "out2 = None" if "handle_branch h2 cfg2 a2 ?c2 (MessageEvent info2 (Some w2)) s2 = (Return out2, q2)" for out2 q2
    using on_message_seen [OF _ assms(4), of h2 cfg2 a2 ?c2 info2 s2 out2 q2] that seen2
    by (simp add: handle_branch_def)
qed (simp add: is_logout_def)

definition text_message :: recv_message where
  "text_message = \<lparr>imHas = (\<lambda>f. f = ''Conversation''), imMimetype = (\<lambda>_. []), imReactionText = [], imProtocolType = 0,
     imProtocolKey = False, rmQuote = (\<lambda>_. ([], None)), rmChild = None\<rparr>"

definition sample_info :: recv_info where
  "sample_info = \<lparr>riID = ''A1'', riChat = NewJID ''5511'' DefaultUserServer, riSender = NewJID ''5511'' DefaultUserServer,
     riSenderAlt = EmptyJID, riIsFromMe = False\<rparr>"

theorem message_dispatched_once_witness:
  "let e = MessageEvent sample_info (Some text_message);
       s1 = snd (dispatchEvent sample_handler sample_session_config 1 e handlingServer) in
   svPosts s1 \<noteq> [] \<and> svPosts (snd (dispatchEvent sample_handler sample_session_config 1 e s1)) = svPosts s1"
proof -
  let ?e = "MessageEvent sample_info (Some text_message)"
  let ?s1 = "snd (dispatchEvent sample_handler sample_session_config 1 ?e handlingServer)"
  have "length (svPosts ?s1) = 1" "mcUserID (svSessions ?s1 1) = mcUserID (svSessions handlingServer 1)"
    by code_simp+
  then have posted: "svPosts ?s1 \<noteq> svPosts handlingServer" "mcUserID (svSessions ?s1 1) = mcUserID (svSessions handlingServer 1)"
    by (auto simp: handler_sample_defs sample_defs)
  have "\<not> imHas text_message ''ProtocolMessage''" by (simp add: text_message_def)
  from message_dispatched_once [OF surjective_pairing posted(1) this this refl posted(2) subset_refl surjective_pairing]
    posted(1) show ?thesis by (simp add: Let_def handler_sample_defs sample_defs)
qed

text \<open>A message that the settings of the instance or the configuration exclude (of a group, of the status
  broadcast) is not dispatched and is not remembered; it is marked as read nevertheless when the
  instance marks messages as read, with the sender in the place of the chat.\<close>

theorem excluded_message_dropped:
  assumes "ignored_message cfg (iSettings (svInstances s (mcInstance (svSessions s a)))) info"
  shows "dispatchEvent h cfg a (MessageEvent info msg) s =
    (Return (), if asReadMessages (iSettings (svInstances s (mcInstance (svSessions s a))))
       then s\<lparr>svCommands := svCommands s @
         [MarkRead (mcWAClient (svSessions s a)) (riID info) (riSender info) (riSender info)]\<rparr>
       else s)"
  using assms
  by (simp add: dispatchEvent_def myEventHandler_def read_session_def handle_branch_def on_message_def my_instance_def
      command_def finish_event_def Let_def bindg_def attempt_def run_basic)

definition group_sample :: session_config where
  "group_sample = sample_session_config\<lparr>scEventIgnoreGroup := True\<rparr>"

theorem excluded_message_dropped_witness:
  "dispatchEvent sample_handler group_sample 1
     (MessageEvent (sample_info\<lparr>riChat := NewJID ''123'' GroupServer\<rparr>) (Some text_message)) handlingServer = (Return (), handlingServer)"
proof -
  have "ignored_message group_sample (iSettings (svInstances handlingServer (mcInstance (svSessions handlingServer 1))))
      (sample_info\<lparr>riChat := NewJID ''123'' GroupServer\<rparr>)" by code_simp
  then show ?thesis
    using excluded_message_dropped [of group_sample handlingServer 1 "sample_info\<lparr>riChat := NewJID ''123'' GroupServer\<rparr>"
        sample_handler "Some text_message"]
    by (simp add: handler_sample_defs sample_defs)
qed

section \<open>Senders known by two addresses\<close>

lemma contains_server:
  assumes "User j \<noteq> []" and "RawAgent j = 0"
  shows "str_contains (JID_String j) (CHR ''@'' # Server j)"
proof -
  have "\<exists>u. JID_String j = u @ CHR ''@'' # Server j"
    using assms by (auto simp: JID_String_def)
  then show ?thesis using str_contains_append(3) by metis
qed

text \<open>A message from a device of a hidden user (LID) whose alternative address is a phone number: sender
  and alternative change places, both without their devices, and a chat with the hidden user
  becomes the chat with the phone number.\<close>

theorem hidden_sender_replaced:
  assumes "wf_jid (riSender info)" and "RawAgent (riSender info) = 0" and "User (riSender info) \<noteq> []"
    and "Server (riSender info) = HiddenUserServer"
    and "wf_jid (riSenderAlt info)" and "RawAgent (riSenderAlt info) = 0" and "User (riSenderAlt info) \<noteq> []"
    and "Server (riSenderAlt info) = DefaultUserServer"
  shows "swap_sender info = info\<lparr>riSender := ToNonAD (riSenderAlt info), riSenderAlt := ToNonAD (riSender info),
    riChat := (if str_contains (JID_String (riChat info)) ''@lid'' then ToNonAD (riSenderAlt info) else riChat info)\<rparr>"
proof -
  have wf: "wf_jid (ToNonAD j)" if "wf_jid j" for j using that by (simp add: wf_jid_def ToNonAD_def)
  have clean: "cleanSenderID (JID_String (riSender info)) = JID_String (ToNonAD (riSender info))"
    "cleanSenderID (JID_String (riSenderAlt info)) = JID_String (ToNonAD (riSenderAlt info))"
    using assms by (auto intro!: cleaned_text simp: server_defs)
  have "parsed (JID_String (ToNonAD (riSender info))) = Some (ToNonAD (riSender info))"
    "parsed (JID_String (ToNonAD (riSenderAlt info))) = Some (ToNonAD (riSenderAlt info))"
    by (simp_all add: parsed_def parse_print_jid wf assms)
  moreover have "str_contains (JID_String (riSender info)) ''@lid''"
    "str_contains (JID_String (riSenderAlt info)) ''@s.whatsapp.net''"
    using contains_server [of "riSender info"] contains_server [of "riSenderAlt info"] assms by (simp_all add: server_defs)
  ultimately show ?thesis by (simp add: swap_sender_def Let_def clean)
qed

theorem hidden_sender_replaced_witness:
  "swap_sender \<lparr>riID = ''A1'', riChat = NewJID ''99'' HiddenUserServer,
     riSender = (NewJID ''99'' HiddenUserServer)\<lparr>Device := 3\<rparr>, riSenderAlt = NewJID ''5511'' DefaultUserServer, riIsFromMe = False\<rparr> =
   \<lparr>riID = ''A1'', riChat = NewJID ''5511'' DefaultUserServer, riSender = NewJID ''5511'' DefaultUserServer,
     riSenderAlt = NewJID ''99'' HiddenUserServer, riIsFromMe = False\<rparr>"
proof -
  have chat: "str_contains (JID_String (NewJID ''99'' HiddenUserServer)) ''@lid''" by code_simp
  show ?thesis
    using hidden_sender_replaced [of "\<lparr>riID = ''A1'', riChat = NewJID ''99'' HiddenUserServer,
        riSender = (NewJID ''99'' HiddenUserServer)\<lparr>Device := 3\<rparr>, riSenderAlt = NewJID ''5511'' DefaultUserServer, riIsFromMe = False\<rparr>"] chat
    by (simp add: wf_jid_def NewJID_def server_defs ToNonAD_def)
qed

section \<open>Receipts and labels\<close>

definition insert_view :: "server \<Rightarrow> Message list \<times> string list" where
  "insert_view s = (svInserts s, svProcessed s)"

interpretation inserts: apart insert_view
  by unfold_locales (auto simp: insert_view_def core_def)

lemma finish_inserts: "keeps (same insert_view) (finish_event h cfg a c evt out)"
proof -
  have "keeps (same insert_view) (dispatch cfg i k e u v)" for i k e u v
    by (simp add: keeps_def dispatch_run same_def insert_view_def)
  then show ?thesis unfolding finish_event_def data_map_def my_instance_def by (intro inserts.alone)
qed

lemma status_key_eq [simp]: "status_key m v t = status_key m w t \<longleftrightarrow> v = w"
  by (simp add: status_key_def)

lemma read_receipts_run:
  assumes "scDatabaseSaveMessages cfg"
  shows "\<exists>s' new. read_receipts cfg m rc vs s = (Return (), s') \<and>
    svInserts s' = svInserts s @ map (\<lambda>v. status_row rc v ''Read'') new \<and> distinct new \<and>
    set new = {v \<in> set vs. status_key m v ''Read'' \<notin> set (svProcessed s)} \<and>
    set (svProcessed s') = set (svProcessed s) \<union> (\<lambda>v. status_key m v ''Read'') ` set vs"
proof (induction vs arbitrary: s)
  case Nil
  show ?case by (simp add: run_basic)
next
  case (Cons v vs)
  let ?k = "status_key m v ''Read''"
  show ?case
  proof (cases "?k \<in> set (svProcessed s)")
    case True
    then have "read_receipts cfg m rc (v # vs) s = read_receipts cfg m rc vs s"
      by (simp add: bindg_def seen_before_run run_basic)
    with Cons.IH [of s] True show ?thesis by (auto simp: insert_absorb)
  next
    case False
    let ?s = "s\<lparr>svProcessed := svProcessed s @ [?k], svInserts := svInserts s @ [status_row rc v ''Read'']\<rparr>"
    have "read_receipts cfg m rc (v # vs) s = read_receipts cfg m rc vs ?s"
      using False assms by (simp add: bindg_def seen_before_run run_basic save_status_def)
    moreover obtain s' new where r: "read_receipts cfg m rc vs ?s = (Return (), s')"
      "svInserts s' = svInserts ?s @ map (\<lambda>v. status_row rc v ''Read'') new" "distinct new"
      "set new = {w \<in> set vs. status_key m w ''Read'' \<notin> set (svProcessed ?s)}"
      "set (svProcessed s') = set (svProcessed ?s) \<union> (\<lambda>v. status_key m v ''Read'') ` set vs"
      using Cons.IH [of ?s] by blast
    moreover have "svInserts s' = svInserts s @ map (\<lambda>v. status_row rc v ''Read'') (v # new)" using r(2) by simp
    moreover have "distinct (v # new)" using r(3,4) by auto
    moreover have "set (v # new) = {w \<in> set (v # vs). status_key m w ''Read'' \<notin> set (svProcessed s)}"
      using r(4) False by auto
    moreover have "set (svProcessed s') = set (svProcessed s) \<union> (\<lambda>v. status_key m v ''Read'') ` set (v # vs)"
      using r(5) by auto
    ultimately show ?thesis by metis
  qed
qed

text \<open>A read receipt asks for one row per message id that was not seen before, also when the receipt
  repeats an id, and remembers every id, so that the same receipt again asks for none.\<close>

theorem read_receipt_saved_once:
  assumes "rcType rc = ReceiptRead" and "scDatabaseSaveMessages cfg" and "rcMessageIDs rc \<noteq> []"
    and "\<not> is_group_chat (rcChat rc)" and "dispatchEvent h cfg a (ReceiptEvent rc) s = (r, s')"
  shows "\<exists>new. svInserts s' = svInserts s @ map (\<lambda>v. status_row rc v ''Read'') new \<and> distinct new \<and>
    set new = {v \<in> set (rcMessageIDs rc). status_key (svSessions s a) v ''Read'' \<notin> set (svProcessed s)} \<and>
    (\<forall>v \<in> set (rcMessageIDs rc). status_key (svSessions s a) v ''Read'' \<in> set (svProcessed s'))"
proof -
  let ?c = "svSessions s a"
  obtain s1 new where rr: "read_receipts cfg ?c rc (rcMessageIDs rc) s = (Return (), s1)"
    "svInserts s1 = svInserts s @ map (\<lambda>v. status_row rc v ''Read'') new" "distinct new"
    "set new = {v \<in> set (rcMessageIDs rc). status_key ?c v ''Read'' \<notin> set (svProcessed s)}"
    "set (svProcessed s1) = set (svProcessed s) \<union> (\<lambda>v. status_key ?c v ''Read'') ` set (rcMessageIDs rc)"
    using read_receipts_run [OF assms(2)] by blast
  have branch: "handle_branch h cfg a ?c (ReceiptEvent rc) s = (Return (with_state ''Receipt'' ''Read''), s1)"
    using assms(1,3,4) rr(1)
    by (auto simp: handle_branch_def on_receipt_def my_instance_def bindg_def run_basic split: list.split)
  obtain z t where f: "finish_event h cfg a ?c (ReceiptEvent rc) (with_state ''Receipt'' ''Read'') s1 = (z, t)" by fastforce
  have "s' = t" using assms(5) branch f
    by (cases z) (auto simp: dispatchEvent_def myEventHandler_def read_session_def bindg_def attempt_def run_basic)
  then have v: "insert_view s' = insert_view s1" using keepsD [OF finish_inserts f] by (simp add: same_def)
  have "svInserts s' = svInserts s @ map (\<lambda>v. status_row rc v ''Read'') new" using v rr(2) by (simp add: insert_view_def)
  moreover have "\<forall>v \<in> set (rcMessageIDs rc). status_key ?c v ''Read'' \<in> set (svProcessed s')"
    using v rr(5) by (simp add: insert_view_def)
  ultimately show ?thesis using rr(3,4) by blast
qed

definition sample_receipt :: recv_receipt where
  "sample_receipt = \<lparr>rcChat = NewJID ''5511'' DefaultUserServer, rcMessageIDs = [''A1'', ''A1''], rcTimestamp = ''2024'',
     rcType = ReceiptRead\<rparr>"

theorem read_receipt_saved_once_witness:
  "\<exists>new. svInserts (snd (dispatchEvent sample_handler sample_session_config 1 (ReceiptEvent sample_receipt) handlingServer)) =
      map (\<lambda>v. status_row sample_receipt v ''Read'') new \<and> distinct new \<and> set new = {''A1''}"
proof -
  have "\<not> is_group_chat (rcChat sample_receipt)" by code_simp
  then show ?thesis
    using read_receipt_saved_once [of sample_receipt sample_session_config sample_handler 1 handlingServer, OF _ _ _ _ surjective_pairing]
    by (auto simp: sample_receipt_def handler_sample_defs sample_defs)
qed

lemma finish_labels: "keeps (same dbLabels) (finish_event h cfg a c evt out)"
proof -
  have "keeps (same dbLabels) (dispatch cfg i k e u v)" for i k e u v
    by (simp add: keeps_def dispatch_run same_def)
  moreover have "keeps (same dbLabels) (question f)" for f :: "nat \<Rightarrow> json_object result"
    by (simp add: keeps_def question_run same_def)
  ultimately show ?thesis unfolding finish_event_def data_map_def my_instance_def by (intro part.keeps_intros)
qed

text \<open>The colour of a label is lost: the text that is stored is the address of the number in memory, so
  that two events that differ in the colour only leave the same rows.\<close>

theorem label_color_lost:
  assumes "healthy (evDb h)" and "dbUuid (evDb h) (mcUserID (svSessions s a)) = Some u"
    and "\<forall>r \<in> set (dbLabels s). lbId r \<noteq> dbNewUUID (evDb h) (Suc (stTick s))"
    and "\<forall>r \<in> set (dbLabels s). lbLabelID r \<noteq> labelID"
  shows "dbLabels (snd (dispatchEvent h cfg a (LabelEdit labelID name (Some (address, color)) predefined) s)) =
    dbLabels s @ [\<lparr>lbId = dbNewUUID (evDb h) (Suc (stTick s)), lbInstanceID = u, lbLabelID = labelID,
      lbLabelName = str_of name, lbLabelColor = show_nat address, lbPredefinedId = print_pointer predefined\<rparr>]"
proof -
  let ?e = "LabelEdit labelID name (Some (address, color)) predefined" and ?c = "svSessions s a"
  let ?l = "\<lparr>lbId = [], lbInstanceID = mcUserID ?c, lbLabelID = labelID, lbLabelName = str_of name,
        lbLabelColor = show_nat address, lbPredefinedId = print_pointer predefined\<rparr>"
  have none: "first_row lbId (wanted_label (evDb h) ?l u) (dbLabels s) = None"
    using assms(4) by (auto simp: first_row_def wanted_label_def filter_empty_conv)
  obtain s1 where up: "UpsertLabel (evDb h) ?l s = (Return (), s1)"
    and rows: "dbLabels s1 = dbLabels s @ [?l\<lparr>lbId := dbNewUUID (evDb h) (Suc (stTick s)), lbInstanceID := u\<rparr>]"
    using assms(1-3) none
    by (auto simp: UpsertLabel_def insert_label_def bindg_def run_read_uuid statement_healthy run_clock run_basic tick_def)
  have branch: "handle_branch h cfg a ?c ?e s = (Return (plain ''LabelEdit''), s1)"
    using up by (simp add: handle_branch_def on_label_edit_def attempt_def run_basic print_pointer_def)
  obtain z t where f: "finish_event h cfg a ?c ?e (plain ''LabelEdit'') s1 = (z, t)" by fastforce
  have "snd (dispatchEvent h cfg a ?e s) = t" using branch f
    by (cases z) (simp_all add: dispatchEvent_def myEventHandler_def read_session_def bindg_def attempt_def run_basic)
  with keepsD [OF finish_labels f] rows show ?thesis by (simp add: same_def)
qed

theorem label_color_lost_witness:
  "dbLabels (snd (dispatchEvent sample_handler sample_session_config 1 (LabelEdit ''5'' (Some ''New'') (Some (4096, 3)) None) handlingServer)) =
   [\<lparr>lbId = ''uuid1'', lbInstanceID = ''one'', lbLabelID = ''5'', lbLabelName = ''New'', lbLabelColor = ''4096'',
     lbPredefinedId = ''0''\<rparr>]"
proof -
  have n: "show_nat 4096 = ''4096''" "show_nat (Suc 0) = ''1''" "show_nat 0 = ''0''" by code_simp+
  show ?thesis
    using label_color_lost [of sample_handler handlingServer 1 "''one''" "''5''" sample_session_config "Some ''New''" 4096 3 None]
    by (simp add: healthy_def print_pointer_def str_of_def n handler_sample_defs sample_defs del: show_nat.simps)
qed

end
