(* ===== verification/BinaryNode.thy ===== *)
theory BinaryNode
  imports BinaryTokens GoMonad "HOL-Library.AList"
begin

text \<open>
  The elements of WhatsApp's binary XML: \<open>whatsmeow-lib/binary/node.go\<close> and the readers of their
  attributes, \<open>whatsmeow-lib/binary/attrs.go\<close>.

  \<open>bvalue\<close> is what the encoder's type switch tells apart in an \<open>interface{}\<close>: \<open>VInt\<close> carries the
  integer type beside the number, \<open>VOther\<close> stands for every other dynamic type. The map of
  attributes is the list of its entries in the order in which a \<open>range\<close> meets them, which Go leaves
  open: keys are distinct, and the theorems hold for every order.
\<close>

datatype int_type = TInt | TInt32 | TInt64 | TUint | TUint32 | TUint64

datatype bvalue =
    VNil
  | VJid jid
  | VStr string
  | VInt int_type int
  | VBool bool
  | VBytes string
  | VNodes "node list"
  | VOther
and node = Node (Tag: string) (Attrs: "(string \<times> bvalue) list") (Content: bvalue)

text \<open>The zero value of \<open>Node\<close>.\<close>

definition zeroNode :: node where
  "zeroNode = Node '''' [] VNil"

section \<open>Children\<close>

definition GetChildren :: "node \<Rightarrow> node list" where
  "GetChildren n = (case Content n of VNodes ns \<Rightarrow> ns | _ \<Rightarrow> [])"

definition GetChildrenByTag :: "node \<Rightarrow> string \<Rightarrow> node list" where
  "GetChildrenByTag n tag = filter (\<lambda>c. Tag c = tag) (GetChildren n)"

text \<open>The pair \<open>(val, ok)\<close>: without a match \<open>val\<close> is the last element reached.\<close>

fun GetOptionalChildByTag :: "node \<Rightarrow> string list \<Rightarrow> node \<times> bool" where
  "GetOptionalChildByTag val [] = (val, True)"
| "GetOptionalChildByTag val (tag # tags) =
     (case find (\<lambda>c. Tag c = tag) (GetChildren val) of
        Some child \<Rightarrow> GetOptionalChildByTag child tags
      | None \<Rightarrow> (val, False))"

definition GetChildByTag :: "node \<Rightarrow> string list \<Rightarrow> node" where
  "GetChildByTag n tags = fst (GetOptionalChildByTag n tags)"

section \<open>Reading attributes\<close>

text \<open>One constructor for each \<open>fmt.Errorf\<close> of the file, with the values printed in it.\<close>

datatype attr_error =
    MissingJID string
  | NotJID string bvalue
  | MissingString string
  | NotString string bvalue
  | BadInt string string
  | BadUint string string
  | BadBool string string

record AttrUtility =
  auAttrs :: "(string \<times> bvalue) list"
  auErrors :: "attr_error list"

definition AttrGetter :: "node \<Rightarrow> AttrUtility" where
  "AttrGetter n = \<lparr>auAttrs = Attrs n, auErrors = []\<rparr>"

text \<open>The readers return \<open>(value, ok)\<close> and may append an error.\<close>

type_synonym 'a attr_reader = "AttrUtility \<Rightarrow> ('a \<times> bool) \<times> AttrUtility"

definition add_error :: "attr_error \<Rightarrow> AttrUtility \<Rightarrow> AttrUtility" where
  "add_error e au = au\<lparr>auErrors := auErrors au @ [e]\<rparr>"

definition GetJID :: "string \<Rightarrow> bool \<Rightarrow> jid attr_reader" where
  "GetJID key require au =
     (case map_of (auAttrs au) key of
        None \<Rightarrow> ((EmptyJID, False), if require then add_error (MissingJID key) au else au)
      | Some (VJid j) \<Rightarrow> ((j, True), au)
      | Some v \<Rightarrow> ((EmptyJID, False), add_error (NotJID key v) au))"

definition OptionalJID :: "string \<Rightarrow> AttrUtility \<Rightarrow> jid option \<times> AttrUtility" where
  "OptionalJID key au = (let ((j, ok), au') = GetJID key False au in (if ok then Some j else None, au'))"

definition OptionalJIDOrEmpty :: "string \<Rightarrow> AttrUtility \<Rightarrow> jid \<times> AttrUtility" where
  "OptionalJIDOrEmpty key au = (let ((j, ok), au') = GetJID key False au in (if ok then j else EmptyJID, au'))"

definition attr_JID :: "string \<Rightarrow> AttrUtility \<Rightarrow> jid \<times> AttrUtility" where
  "attr_JID key au = (let ((j, _), au') = GetJID key True au in (j, au'))"

definition GetString :: "string \<Rightarrow> bool \<Rightarrow> string attr_reader" where
  "GetString key require au =
     (case map_of (auAttrs au) key of
        None \<Rightarrow> (('''', False), if require then add_error (MissingString key) au else au)
      | Some (VStr s) \<Rightarrow> ((s, True), au)
      | Some v \<Rightarrow> (('''', False), add_error (NotString key v) au))"

text \<open>\<open>strconv.ParseInt(s, 10, 64)\<close> is \<open>Atoi\<close> on a 64-bit platform; \<open>ParseUint\<close> takes no sign.\<close>

definition parse_uint :: "string \<Rightarrow> nat option" where
  "parse_uint s =
     (if s = '''' \<or> \<not> list_all is_digit s \<or> digits_val s \<ge> 2 ^ 64 then None else Some (digits_val s))"

definition parse_bool :: "string \<Rightarrow> bool option" where
  "parse_bool s =
     (if s \<in> {''1'', ''t'', ''T'', ''TRUE'', ''true'', ''True''} then Some True
      else if s \<in> {''0'', ''f'', ''F'', ''FALSE'', ''false'', ''False''} then Some False
      else None)"

text \<open>A text attribute that is parsed further: \<open>GetInt64\<close>, \<open>GetUint64\<close> and \<open>GetBool\<close> differ only in
  the parser, the error and the zero value.\<close>

definition GetInt64 :: "string \<Rightarrow> bool \<Rightarrow> int attr_reader" where
  "GetInt64 key require au =
     (let ((s, ok), au') = GetString key require au in
      if \<not> ok then ((0, False), au')
      else case atoi s of None \<Rightarrow> ((0, False), add_error (BadInt key s) au') | Some i \<Rightarrow> ((i, True), au'))"

definition GetUint64 :: "string \<Rightarrow> bool \<Rightarrow> nat attr_reader" where
  "GetUint64 key require au =
     (let ((s, ok), au') = GetString key require au in
      if \<not> ok then ((0, False), au')
      else case parse_uint s of None \<Rightarrow> ((0, False), add_error (BadUint key s) au') | Some i \<Rightarrow> ((i, True), au'))"

definition GetBool :: "string \<Rightarrow> bool \<Rightarrow> bool attr_reader" where
  "GetBool key require au =
     (let ((s, ok), au') = GetString key require au in
      if \<not> ok then ((False, False), au')
      else case parse_bool s of None \<Rightarrow> ((False, False), add_error (BadBool key s) au') | Some b \<Rightarrow> ((b, True), au'))"

text \<open>\<open>time.Time{}\<close>, \<open>time.Unix(n, 0)\<close> and \<open>time.UnixMilli(n)\<close>.\<close>

datatype go_time = ZeroTime | UnixTime int | UnixMilli int

definition GetUnixTime :: "string \<Rightarrow> bool \<Rightarrow> go_time attr_reader" where
  "GetUnixTime key require au =
     (let ((i, ok), au') = GetInt64 key require au in
      if \<not> ok then ((ZeroTime, False), au')
      else if i = 0 then ((ZeroTime, True), au') else ((UnixTime i, True), au'))"

definition GetUnixMilli :: "string \<Rightarrow> bool \<Rightarrow> go_time attr_reader" where
  "GetUnixMilli key require au =
     (let ((i, ok), au') = GetInt64 key require au in
      if \<not> ok then ((ZeroTime, False), au')
      else if i = 0 then ((ZeroTime, True), au') else ((UnixMilli i, True), au'))"

text \<open>The readers without the flag: \<open>OptionalString\<close> and \<open>String\<close>, \<open>OptionalInt\<close> and \<open>Int\<close>, \<open>Int64\<close>,
  \<open>Uint64\<close>, \<open>OptionalBool\<close> and \<open>Bool\<close>, \<open>OptionalUnixTime\<close>, \<open>UnixTime\<close>, \<open>OptionalUnixMilli\<close>,
  \<open>UnixMilli\<close> are \<open>without_ok\<close> of the reader above with \<open>require\<close> off or on.\<close>

definition without_ok :: "'a attr_reader \<Rightarrow> AttrUtility \<Rightarrow> 'a \<times> AttrUtility" where
  "without_ok r au = (let ((v, _), au') = r au in (v, au'))"

definition attr_OK :: "AttrUtility \<Rightarrow> bool" where
  "attr_OK au = (length (auErrors au) = 0)"

definition attr_Error :: "AttrUtility \<Rightarrow> attr_error list option" where
  "attr_Error au = (if attr_OK au then None else Some (auErrors au))"

section \<open>Lemmas\<close>

lemma find_child: "find (\<lambda>c. Tag c = tag) ns = Some c \<Longrightarrow> c \<in> set ns \<and> Tag c = tag"
  by (induction ns) (auto split: if_splits)

lemma get_child_tag:
  "GetOptionalChildByTag n tags = (c, True) \<Longrightarrow> tags \<noteq> [] \<Longrightarrow> Tag c = last tags"
proof (induction n tags rule: GetOptionalChildByTag.induct)
  case (2 val tag tags)
  then show ?case
    by (cases tags) (auto split: option.splits dest: find_child)
qed simp

text \<open>Readers only append errors, and a reader that reports \<open>ok\<close> appends none.\<close>

definition honest :: "'a attr_reader \<Rightarrow> bool" where
  "honest r = (\<forall>au v ok au'. r au = ((v, ok), au') \<longrightarrow>
     auAttrs au' = auAttrs au \<and> prefix (auErrors au) (auErrors au') \<and> (ok \<longrightarrow> au' = au))"

lemma honest_readers:
  "honest (GetJID key q)" "honest (GetString key q)" "honest (GetInt64 key q)"
  "honest (GetUint64 key q)" "honest (GetBool key q)" "honest (GetUnixTime key q)"
  "honest (GetUnixMilli key q)"
  by (auto simp: honest_def GetJID_def GetString_def GetInt64_def GetUint64_def GetBool_def
      GetUnixTime_def GetUnixMilli_def add_error_def Let_def
      split: option.splits bvalue.splits if_splits prod.splits)

end
