(* ===== verification/BinaryEncoder.thy ===== *)
theory BinaryEncoder
  imports BinaryNode
begin

text \<open>
  Writing binary XML: \<open>whatsmeow-lib/binary/encoder.go\<close> and \<open>Marshal\<close>. The encoder appends to its
  buffer; a value it cannot write is a panic. \<open>writes m bs\<close> says that an operation appends exactly
  \<open>bs\<close>; the lemmas give it for the primitive operations and their sequences.
\<close>

record binaryEncoder =
  encData :: string

definition newEncoder :: binaryEncoder where
  "newEncoder = \<lparr>encData = [byte 0]\<rparr>"

type_synonym 'a writer = "(binaryEncoder, 'a) go"

definition getData :: "string writer" where
  "getData = gets encData"

definition pushByte :: "byte \<Rightarrow> unit writer" where
  "pushByte b = modify (\<lambda>w. w\<lparr>encData := encData w @ [b]\<rparr>)"

definition pushBytes :: "string \<Rightarrow> unit writer" where
  "pushBytes bytes = modify (\<lambda>w. w\<lparr>encData := encData w @ bytes\<rparr>)"

text \<open>The loop of \<open>pushIntN\<close> from \<open>i\<close> on, \<open>k\<close> rounds before its end.\<close>

fun push_int_from :: "nat \<Rightarrow> nat \<Rightarrow> bool \<Rightarrow> nat \<Rightarrow> unit writer" where
  "push_int_from val n littleEndian 0 = ret ()"
| "push_int_from val n littleEndian (Suc k) =
     (let i = n - Suc k; curShift = (if littleEndian then i else n - i - 1) in
      bindg (pushByte (byte (drop_bit (curShift * 8) val mod 256))) (\<lambda>_. push_int_from val n littleEndian k))"

definition pushIntN :: "nat \<Rightarrow> nat \<Rightarrow> bool \<Rightarrow> unit writer" where
  "pushIntN val n littleEndian = push_int_from val n littleEndian n"

definition pushInt20 :: "nat \<Rightarrow> unit writer" where
  "pushInt20 val = pushBytes [byte (drop_bit 16 val mod 16), byte (drop_bit 8 val mod 256), byte (val mod 256)]"

definition pushInt8 :: "nat \<Rightarrow> unit writer" where "pushInt8 val = pushIntN val 1 False"
definition pushInt16 :: "nat \<Rightarrow> unit writer" where "pushInt16 val = pushIntN val 2 False"
definition pushInt32 :: "nat \<Rightarrow> unit writer" where "pushInt32 val = pushIntN val 4 False"
definition pushString :: "string \<Rightarrow> unit writer" where "pushString val = pushBytes val"

definition MaxInt32 :: nat where "MaxInt32 = 2147483647"

definition writeByteLength :: "nat \<Rightarrow> unit writer" where
  "writeByteLength n =
     (if n < 256 then bindg (pushByte (byte Binary8)) (\<lambda>_. pushInt8 n)
      else if n < 2 ^ 20 then bindg (pushByte (byte Binary20)) (\<lambda>_. pushInt20 n)
      else if n < MaxInt32 then bindg (pushByte (byte Binary32)) (\<lambda>_. pushInt32 n)
      else crash)"

section \<open>Packed texts\<close>

text \<open>The loops of the source go over runes; a text with a byte outside ASCII has a rune outside ASCII,
  so both refuse the same texts.\<close>

definition nibble_char :: "byte \<Rightarrow> bool" where
  "nibble_char c = (is_digit c \<or> c = CHR ''-'' \<or> c = CHR ''.'')"

definition validateNibble :: "string \<Rightarrow> bool" where
  "validateNibble val = (length val \<le> PackedMax \<and> list_all nibble_char val)"

definition hex_char :: "byte \<Rightarrow> bool" where
  "hex_char c = (is_digit c \<or> 65 \<le> byte_val c \<and> byte_val c \<le> 70)"

definition validateHex :: "string \<Rightarrow> bool" where
  "validateHex val = (length val \<le> PackedMax \<and> list_all hex_char val)"

text \<open>\<^const>\<open>None\<close> is the panic of a character that was not validated.\<close>

definition packNibble :: "byte \<Rightarrow> nat option" where
  "packNibble val =
     (if val = CHR ''-'' then Some 10
      else if val = CHR ''.'' then Some 11
      else if byte_val val = 0 then Some 15
      else if is_digit val then Some (byte_val val - 48)
      else None)"

definition packHex :: "byte \<Rightarrow> nat option" where
  "packHex val =
     (if is_digit val then Some (byte_val val - 48)
      else if 65 \<le> byte_val val \<and> byte_val val \<le> 70 then Some (10 + byte_val val - 65)
      else if byte_val val = 0 then Some 15
      else None)"

definition packBytePair :: "(byte \<Rightarrow> nat option) \<Rightarrow> byte \<Rightarrow> byte \<Rightarrow> byte option" where
  "packBytePair packer part1 part2 =
     (case (packer part1, packer part2) of
        (Some a, Some b) \<Rightarrow> Some (byte (or (push_bit 4 a) b))
      | _ \<Rightarrow> None)"

definition push_pair :: "(byte \<Rightarrow> nat option) \<Rightarrow> byte \<Rightarrow> byte \<Rightarrow> unit writer" where
  "push_pair packer a b = (case packBytePair packer a b of None \<Rightarrow> crash | Some c \<Rightarrow> pushByte c)"

fun push_pairs :: "(byte \<Rightarrow> nat option) \<Rightarrow> string \<Rightarrow> unit writer" where
  "push_pairs packer (a # b # cs) = bindg (push_pair packer a b) (\<lambda>_. push_pairs packer cs)"
| "push_pairs packer [a] = push_pair packer a (byte 0)"
| "push_pairs packer [] = ret ()"

definition writePackedBytes :: "string \<Rightarrow> nat \<Rightarrow> unit writer" where
  "writePackedBytes val dataType =
     (if length val > PackedMax then crash
      else bindg (pushByte (byte dataType)) (\<lambda>_.
        let half = (length val + 1) div 2;
            roundedLength = (if length val mod 2 \<noteq> 0 then or half 128 else half) in
        bindg (pushByte (byte roundedLength)) (\<lambda>_.
          if dataType = Nibble8 then push_pairs packNibble val
          else if dataType = Hex8 then push_pairs packHex val
          else crash)))"

section \<open>Texts, JIDs and values\<close>

definition writeBytes :: "string \<Rightarrow> unit writer" where
  "writeBytes val = bindg (writeByteLength (length val)) (\<lambda>_. pushBytes val)"

definition writeStringRaw :: "string \<Rightarrow> unit writer" where
  "writeStringRaw val = bindg (writeByteLength (length val)) (\<lambda>_. pushString val)"

definition writeString :: "string \<Rightarrow> unit writer" where
  "writeString data =
     (case IndexOfSingleToken data of
        Some tokenIndex \<Rightarrow> pushByte tokenIndex
      | None \<Rightarrow>
          (case IndexOfDoubleByteToken data of
             Some (dictIndex, tokenIndex) \<Rightarrow>
               bindg (pushByte (byte (Dictionary0 + byte_val dictIndex))) (\<lambda>_. pushByte tokenIndex)
           | None \<Rightarrow>
               if validateNibble data then writePackedBytes data Nibble8
               else if validateHex data then writePackedBytes data Hex8
               else writeStringRaw data))"

text \<open>\<open>w.write(jid.User)\<close> of a text is \<open>writeString\<close>. \<open>ad_jid\<close> is the condition of the first branch.\<close>

definition ad_jid :: "jid \<Rightarrow> bool" where
  "ad_jid j = ((Server j = DefaultUserServer \<or> Server j = HiddenUserServer) \<and> Device j > 0 \<or>
     Server j = HostedServer \<or> Server j = HostedLIDServer)"

definition writeJID :: "jid \<Rightarrow> unit writer" where
  "writeJID j =
     (if ad_jid j then
        bindg (pushByte (byte ADJID)) (\<lambda>_.
        bindg (pushByte (byte (unat (ActualAgent j)))) (\<lambda>_.
        bindg (pushByte (byte (unat (Device j)))) (\<lambda>_. writeString (User j))))
      else if Server j = MessengerServer then
        bindg (pushByte (byte FBJID)) (\<lambda>_.
        bindg (writeString (User j)) (\<lambda>_.
        bindg (pushInt16 (unat (Device j))) (\<lambda>_. writeString (Server j))))
      else if Server j = InteropServer then
        bindg (pushByte (byte InteropJID)) (\<lambda>_.
        bindg (writeString (User j)) (\<lambda>_.
        bindg (pushInt16 (unat (Device j))) (\<lambda>_.
        bindg (pushInt16 (unat (Integrator j))) (\<lambda>_. writeString (Server j)))))
      else
        bindg (pushByte (byte JIDPair)) (\<lambda>_.
        bindg (if length (User j) = 0 then pushByte (byte ListEmpty) else writeString (User j)) (\<lambda>_.
        writeString (Server j))))"

definition skipped_attr :: "bvalue \<Rightarrow> bool" where
  "skipped_attr val = (val = VStr '''' \<or> val = VNil)"

definition countAttributes :: "(string \<times> bvalue) list \<Rightarrow> nat" where
  "countAttributes attributes = length (filter (\<lambda>(_, val). \<not> skipped_attr val) attributes)"

definition writeListStart :: "nat \<Rightarrow> unit writer" where
  "writeListStart listSize =
     (if listSize = 0 then pushByte (byte ListEmpty)
      else if listSize < 256 then bindg (pushByte (byte List8)) (\<lambda>_. pushInt8 listSize)
      else bindg (pushByte (byte List16)) (\<lambda>_. pushInt16 listSize))"

text \<open>\<open>strconv.Itoa\<close>, \<open>FormatInt\<close> and \<open>FormatUint\<close> in base 10, and \<open>FormatBool\<close>.\<close>

definition show_int :: "int \<Rightarrow> string" where
  "show_int i = (if i < 0 then CHR ''-'' # show_nat (nat (- i)) else show_nat (nat i))"

definition show_bool :: "bool \<Rightarrow> string" where
  "show_bool b = (if b then ''true'' else ''false'')"

definition tagSize :: nat where "tagSize = 1"

fun writeNode :: "node \<Rightarrow> unit writer"
  and "write" :: "bvalue \<Rightarrow> unit writer"
  and writeNodes :: "node list \<Rightarrow> unit writer"
  and writeAttributes :: "(string \<times> bvalue) list \<Rightarrow> unit writer" where
  "writeNode (Node tag attrs content) =
     (if tag = ''0'' then bindg (pushByte (byte List8)) (\<lambda>_. pushByte (byte ListEmpty))
      else
        let hasContent = (if content \<noteq> VNil then 1 else 0) in
        bindg (writeListStart (2 * countAttributes attrs + tagSize + hasContent)) (\<lambda>_.
        bindg (writeString tag) (\<lambda>_.
        bindg (writeAttributes attrs) (\<lambda>_.
        if content \<noteq> VNil then write content else ret ()))))"
| "write VNil = pushByte (byte ListEmpty)"
| "write (VJid j) = writeJID j"
| "write (VStr s) = writeString s"
| "write (VInt _ i) = writeString (show_int i)"
| "write (VBool b) = writeString (show_bool b)"
| "write (VBytes bs) = writeBytes bs"
| "write (VNodes ns) = bindg (writeListStart (length ns)) (\<lambda>_. writeNodes ns)"
| "write VOther = crash"
| "writeNodes [] = ret ()"
| "writeNodes (n # ns) = bindg (writeNode n) (\<lambda>_. writeNodes ns)"
| "writeAttributes [] = ret ()"
| "writeAttributes ((key, val) # attributes) =
     (if skipped_attr val then writeAttributes attributes
      else bindg (writeString key) (\<lambda>_. bindg (write val) (\<lambda>_. writeAttributes attributes)))"

definition Marshal :: "node \<Rightarrow> string outcome" where
  "Marshal n = fst (bindg (writeNode n) (\<lambda>_. getData) newEncoder)"

end
