(* ===== verification/BinaryDecoder.thy ===== *)
theory BinaryDecoder
  imports BinaryNode
begin

text \<open>
  Reading binary XML: \<open>whatsmeow-lib/binary/decoder.go\<close>, \<open>Unmarshal\<close> and \<open>Unpack\<close>.

  \<open>read\<close>, \<open>readList\<close>, \<open>readNode\<close> and the readers of JIDs call each other. Each is a definition of its
  own with the recursive call of \<open>read\<close> as its parameter \<open>rd\<close>, and \<open>read\<close> ties the knot with fuel:
  every recursive call follows the reading of a tag byte, so the number of bytes bounds the depth.
  A failed type assertion is a panic. The texts of errors that print a decoded value of unknown type
  stop at the error they wrap.
\<close>

record binaryDecoder =
  decData :: string
  decIndex :: nat

definition newDecoder :: "string \<Rightarrow> binaryDecoder" where
  "newDecoder data = \<lparr>decData = data, decIndex = 0\<rparr>"

type_synonym 'a reader = "(binaryDecoder, 'a) go"

definition EOF :: string where "EOF = ''EOF''"

definition checkEOS :: "nat \<Rightarrow> unit reader" where
  "checkEOS n = bindg (gets (\<lambda>r. decIndex r + n > length (decData r)))
     (\<lambda>past. if past then raise EOF else ret ())"

definition advance :: "nat \<Rightarrow> unit reader" where
  "advance n = modify (\<lambda>r. r\<lparr>decIndex := decIndex r + n\<rparr>)"

definition readByte :: "byte reader" where
  "readByte = bindg (checkEOS 1) (\<lambda>_.
     bindg (gets (\<lambda>r. decData r ! decIndex r)) (\<lambda>b. bindg (advance 1) (\<lambda>_. ret b)))"

text \<open>The number in the bytes \<open>index\<close> to \<open>index + n\<close>.\<close>

definition int_at :: "string \<Rightarrow> nat \<Rightarrow> nat \<Rightarrow> bool \<Rightarrow> nat" where
  "int_at data index n littleEndian =
     foldl (\<lambda>acc i. or acc (push_bit ((if littleEndian then i else n - i - 1) * 8) (byte_val (data ! (index + i)))))
       0 [0..<n]"

definition readIntN :: "nat \<Rightarrow> bool \<Rightarrow> nat reader" where
  "readIntN n littleEndian = bindg (checkEOS n) (\<lambda>_.
     bindg (gets (\<lambda>r. int_at (decData r) (decIndex r) n littleEndian)) (\<lambda>v.
     bindg (advance n) (\<lambda>_. ret v)))"

definition readInt8 :: "bool \<Rightarrow> nat reader" where "readInt8 littleEndian = readIntN 1 littleEndian"
definition readInt16 :: "bool \<Rightarrow> nat reader" where "readInt16 littleEndian = readIntN 2 littleEndian"
definition readInt32 :: "bool \<Rightarrow> nat reader" where "readInt32 littleEndian = readIntN 4 littleEndian"

definition readInt20 :: "nat reader" where
  "readInt20 = bindg (checkEOS 3) (\<lambda>_.
     bindg (gets (\<lambda>r. push_bit 16 (byte_val (decData r ! decIndex r) mod 16)
         + push_bit 8 (byte_val (decData r ! (decIndex r + 1)))
         + byte_val (decData r ! (decIndex r + 2)))) (\<lambda>v.
     bindg (advance 3) (\<lambda>_. ret v)))"

definition readRaw :: "nat \<Rightarrow> string reader" where
  "readRaw n = bindg (checkEOS n) (\<lambda>_.
     bindg (gets (\<lambda>r. take n (drop (decIndex r) (decData r)))) (\<lambda>bs.
     bindg (advance n) (\<lambda>_. ret bs)))"

definition readBytesOrString :: "nat \<Rightarrow> bool \<Rightarrow> bvalue reader" where
  "readBytesOrString n asString =
     bindg (readRaw n) (\<lambda>data. ret (if asString then VStr data else VBytes data))"

section \<open>Packed texts\<close>

definition unpackNibble :: "nat \<Rightarrow> byte result" where
  "unpackNibble val =
     (if val < 10 then Ok (byte (48 + val))
      else if val = 10 then Ok CHR ''-''
      else if val = 11 then Ok CHR ''.''
      else if val = 15 then Ok (byte 0)
      else Err (''unpackNibble with value '' @ show_nat val))"

definition unpackHex :: "nat \<Rightarrow> byte result" where
  "unpackHex val =
     (if val < 10 then Ok (byte (48 + val))
      else if val < 16 then Ok (byte (65 + val - 10))
      else Err (''unpackHex with value '' @ show_nat val))"

definition unpackByte :: "nat \<Rightarrow> nat \<Rightarrow> byte result" where
  "unpackByte tag val =
     (if tag = Nibble8 then unpackNibble val
      else if tag = Hex8 then unpackHex val
      else Err (''unpackByte with unknown tag '' @ show_nat tag))"

text \<open>\<open>currByte&0xF0>>4\<close> and \<open>currByte&0x0F\<close>.\<close>

definition high_nibble :: "byte \<Rightarrow> nat" where "high_nibble b = drop_bit 4 (and (byte_val b) 240)"
definition low_nibble :: "byte \<Rightarrow> nat" where "low_nibble b = and (byte_val b) 15"

text \<open>The loop over the packed bytes, with the text built so far.\<close>

fun unpack_loop :: "nat \<Rightarrow> nat \<Rightarrow> string \<Rightarrow> string reader" where
  "unpack_loop tag 0 build = ret build"
| "unpack_loop tag (Suc k) build =
     bindg readByte (\<lambda>currByte.
     bindg (of_result (unpackByte tag (high_nibble currByte))) (\<lambda>lower.
     bindg (of_result (unpackByte tag (low_nibble currByte))) (\<lambda>upper.
     unpack_loop tag k (build @ [lower, upper]))))"

text \<open>\<open>ret[:len(ret)-1]\<close> of an empty text is a panic.\<close>

definition readPacked8 :: "nat \<Rightarrow> string reader" where
  "readPacked8 tag =
     bindg readByte (\<lambda>startByte.
     bindg (unpack_loop tag (and (byte_val startByte) 127) '''') (\<lambda>built.
     if drop_bit 7 (byte_val startByte) \<noteq> 0
     then (if built = '''' then crash else ret (butlast built))
     else ret built))"

section \<open>JIDs\<close>

definition ErrInvalidJIDType :: string where "ErrInvalidJIDType = ''invalid JID type''"
definition ErrInvalidNode :: string where "ErrInvalidNode = ''invalid node''"
definition ErrInvalidToken :: string where "ErrInvalidToken = ''invalid token with tag''"
definition ErrNonStringKey :: string where "ErrNonStringKey = ''non-string key''"

text \<open>The assertion \<open>v.(string)\<close>.\<close>

definition assert_string :: "bvalue \<Rightarrow> string reader" where
  "assert_string v = (case v of VStr s \<Rightarrow> ret s | _ \<Rightarrow> crash)"

definition readJIDPair :: "(bool \<Rightarrow> bvalue reader) \<Rightarrow> bvalue reader" where
  "readJIDPair rd =
     bindg (rd True) (\<lambda>user.
     bindg (rd True) (\<lambda>server.
       if server = VNil then raise ErrInvalidJIDType
       else if user = VNil then bindg (assert_string server) (\<lambda>s. ret (VJid (NewJID '''' s)))
       else bindg (assert_string user) (\<lambda>u. bindg (assert_string server) (\<lambda>s. ret (VJid (NewJID u s))))))"

definition readInteropJID :: "(bool \<Rightarrow> bvalue reader) \<Rightarrow> bvalue reader" where
  "readInteropJID rd =
     bindg (rd True) (\<lambda>user.
     bindg (readInt16 False) (\<lambda>device.
     bindg (readInt16 False) (\<lambda>integrator.
     bindg (rd True) (\<lambda>server.
       if server \<noteq> VStr InteropServer then raise ErrInvalidJIDType
       else bindg (assert_string user) (\<lambda>u. ret (VJid \<lparr>User = u, RawAgent = 0,
         Device = word_of_nat device, Integrator = word_of_nat integrator, Server = InteropServer\<rparr>))))))"

definition readFBJID :: "(bool \<Rightarrow> bvalue reader) \<Rightarrow> bvalue reader" where
  "readFBJID rd =
     bindg (rd True) (\<lambda>user.
     bindg (readInt16 False) (\<lambda>device.
     bindg (rd True) (\<lambda>server.
       if server \<noteq> VStr MessengerServer then raise ErrInvalidJIDType
       else bindg (assert_string user) (\<lambda>u. bindg (assert_string server) (\<lambda>s.
         ret (VJid \<lparr>User = u, RawAgent = 0, Device = word_of_nat device, Integrator = 0, Server = s\<rparr>))))))"

definition readADJID :: "(bool \<Rightarrow> bvalue reader) \<Rightarrow> bvalue reader" where
  "readADJID rd =
     bindg readByte (\<lambda>agent.
     bindg readByte (\<lambda>device.
     bindg (rd True) (\<lambda>user.
     bindg (assert_string user) (\<lambda>u.
       ret (VJid (NewADJID u (word_of_nat (byte_val agent)) (word_of_nat (byte_val device))))))))"

section \<open>Elements\<close>

definition readListSize :: "nat \<Rightarrow> nat reader" where
  "readListSize tag =
     (if tag = ListEmpty then ret 0
      else if tag = List8 then readInt8 False
      else if tag = List16 then readInt16 False
      else bindg (gets decIndex) (\<lambda>index.
        raise (''readListSize with unknown tag '' @ show_nat tag @ '' at position '' @ show_nat index)))"

text \<open>\<open>k\<close> attributes are left; \<open>acc\<close> is the map built so far. The message of a key that is not a text
  prints the empty \<open>key\<close> instead of the value.\<close>

fun read_attributes :: "(bool \<Rightarrow> bvalue reader) \<Rightarrow> nat \<Rightarrow> (string \<times> bvalue) list \<Rightarrow> ((string \<times> bvalue) list) reader" where
  "read_attributes rd 0 acc = ret acc"
| "read_attributes rd (Suc k) acc =
     bindg (rd True) (\<lambda>keyIfc.
       case keyIfc of
         VStr key \<Rightarrow> bindg (rd True) (\<lambda>val. read_attributes rd k (AList.update key val acc))
       | _ \<Rightarrow> bindg (gets decIndex) (\<lambda>index.
           raise (ErrNonStringKey @ '' at position '' @ show_nat index @ '' (string): '')))"

definition readAttributes :: "(bool \<Rightarrow> bvalue reader) \<Rightarrow> nat \<Rightarrow> ((string \<times> bvalue) list) reader" where
  "readAttributes rd n = (if n = 0 then ret [] else read_attributes rd n [])"

definition readNode :: "(bool \<Rightarrow> bvalue reader) \<Rightarrow> node reader" where
  "readNode rd =
     bindg (readInt8 False) (\<lambda>size.
     bindg (readListSize size) (\<lambda>listSize.
     bindg (rd True) (\<lambda>rawDesc.
     bindg (assert_string rawDesc) (\<lambda>tag.
       if listSize = 0 \<or> tag = '''' then raise ErrInvalidNode
       else
         bindg (readAttributes rd (drop_bit 1 (listSize - 1))) (\<lambda>attrs.
         if listSize mod 2 = 1 then ret (Node tag attrs VNil)
         else bindg (rd False) (\<lambda>content. ret (Node tag attrs content)))))))"

fun read_nodes :: "(bool \<Rightarrow> bvalue reader) \<Rightarrow> nat \<Rightarrow> (node list) reader" where
  "read_nodes rd 0 = ret []"
| "read_nodes rd (Suc k) = bindg (readNode rd) (\<lambda>n. bindg (read_nodes rd k) (\<lambda>ns. ret (n # ns)))"

definition readList :: "(bool \<Rightarrow> bvalue reader) \<Rightarrow> nat \<Rightarrow> (node list) reader" where
  "readList rd tag = bindg (readListSize tag) (\<lambda>size. read_nodes rd size)"

section \<open>Values\<close>

definition read_tagged :: "(bool \<Rightarrow> bvalue reader) \<Rightarrow> nat \<Rightarrow> bool \<Rightarrow> bvalue reader" where
  "read_tagged rd tag asString =
     (if tag = ListEmpty then ret VNil
      else if tag = List8 \<or> tag = List16 then bindg (readList rd tag) (\<lambda>ns. ret (VNodes ns))
      else if tag = Binary8 then bindg (readInt8 False) (\<lambda>size. readBytesOrString size asString)
      else if tag = Binary20 then bindg readInt20 (\<lambda>size. readBytesOrString size asString)
      else if tag = Binary32 then bindg (readInt32 False) (\<lambda>size. readBytesOrString size asString)
      else if tag \<in> {Dictionary0, Dictionary1, Dictionary2, Dictionary3} then
        bindg (readInt8 False) (\<lambda>i. bindg (of_result (GetDoubleToken (tag - Dictionary0) i)) (\<lambda>s. ret (VStr s)))
      else if tag = FBJID then readFBJID rd
      else if tag = InteropJID then readInteropJID rd
      else if tag = JIDPair then readJIDPair rd
      else if tag = ADJID then readADJID rd
      else if tag = Nibble8 \<or> tag = Hex8 then bindg (readPacked8 tag) (\<lambda>s. ret (VStr s))
      else if 1 \<le> tag \<and> tag < length SingleByteTokens then ret (VStr (SingleByteTokens ! tag))
      else bindg (gets decIndex) (\<lambda>index.
        raise (ErrInvalidToken @ '' '' @ show_nat tag @ '' at position '' @ show_nat index)))"

definition out_of_fuel :: string where "out_of_fuel = ''out of fuel''"

fun read :: "nat \<Rightarrow> bool \<Rightarrow> bvalue reader" where
  "read 0 asString = raise out_of_fuel"
| "read (Suc fuel) asString = bindg readByte (\<lambda>tagByte. read_tagged (read fuel) (byte_val tagByte) asString)"

text \<open>With leftover bytes \<open>Unmarshal\<close> returns the element together with an error; the callers drop it.\<close>

definition Unmarshal :: "string \<Rightarrow> node outcome" where
  "Unmarshal data =
     fst (bindg (readNode (read (length data))) (\<lambda>n.
          bindg (gets decIndex) (\<lambda>index.
            if index \<noteq> length data
            then raise (show_nat (length data - index) @ '' leftover bytes after decoding'')
            else ret n)) (newDecoder data))"

text \<open>\<open>inflate\<close> is \<open>zlib\<close>. Indexing empty data is a panic.\<close>

definition Unpack :: "(string \<Rightarrow> string result) \<Rightarrow> string \<Rightarrow> string outcome" where
  "Unpack inflate data =
     (case data of
        [] \<Rightarrow> Crash
      | dataType # rest \<Rightarrow>
          if and 2 (byte_val dataType) > 0
          then (case inflate rest of Inl e \<Rightarrow> Raise e | Inr x \<Rightarrow> Return x)
          else Return rest)"

end
