(* ===== verification/BinaryRoundTrip.thy ===== *)
theory BinaryRoundTrip
  imports BinaryEncoder BinaryDecoder
begin

text \<open>
  What is written is read back. \<open>writes m bs\<close> and \<open>reads m bs v\<close> say what an operation appends and what
  an operation makes of the same bytes wherever they stand; both compose along sequences. The lemmas
  go from integers and packed texts over JIDs and values to whole elements; \<open>delivered_node\<close> is the
  element the other side sees.
\<close>

section \<open>What operations write and read\<close>

definition writes :: "unit writer \<Rightarrow> string \<Rightarrow> bool" where
  "writes m bs = (\<forall>w. m w = (Return (), w\<lparr>encData := encData w @ bs\<rparr>))"

definition reads :: "'a reader \<Rightarrow> string \<Rightarrow> 'a \<Rightarrow> bool" where
  "reads m bs v = (\<forall>pre rest. m \<lparr>decData = pre @ bs @ rest, decIndex = length pre\<rparr> =
     (Return v, \<lparr>decData = pre @ bs @ rest, decIndex = length pre + length bs\<rparr>))"

lemma writes_bind: "writes m a \<Longrightarrow> writes n b \<Longrightarrow> writes (bindg m (\<lambda>_. n)) (a @ b)"
  by (simp add: writes_def bindg_def)

lemma writes_ret: "writes (ret ()) []"
  by (simp add: writes_def run_basic)

lemma writes_push: "writes (pushByte b) [b]" "writes (pushBytes bs) bs" "writes (pushString bs) bs"
  by (simp_all add: writes_def pushByte_def pushBytes_def pushString_def run_basic)

lemma writes_byte_bind: "writes n bs \<Longrightarrow> writes (bindg (pushByte b) (\<lambda>_. n)) (b # bs)"
  using writes_bind [OF writes_push(1)] by fastforce

lemma reads_bind:
  assumes "reads m a x" and "reads (k x) b v"
  shows "reads (bindg m k) (a @ b) v"
  unfolding reads_def
proof (intro allI)
  fix pre rest
  from assms(1) have "m \<lparr>decData = pre @ a @ b @ rest, decIndex = length pre\<rparr> =
     (Return x, \<lparr>decData = pre @ a @ b @ rest, decIndex = length pre + length a\<rparr>)"
    unfolding reads_def by blast
  moreover from assms(2) have "k x \<lparr>decData = (pre @ a) @ b @ rest, decIndex = length (pre @ a)\<rparr> =
     (Return v, \<lparr>decData = (pre @ a) @ b @ rest, decIndex = length (pre @ a) + length b\<rparr>)"
    unfolding reads_def by blast
  ultimately show "bindg m k \<lparr>decData = pre @ (a @ b) @ rest, decIndex = length pre\<rparr> =
     (Return v, \<lparr>decData = pre @ (a @ b) @ rest, decIndex = length pre + length (a @ b)\<rparr>)"
    by (simp add: bindg_def add.assoc)
qed

lemma reads_ret: "reads (ret x) [] x"
  by (simp add: reads_def run_basic)

text \<open>The same bytes, with the parts of a sequence read one after the other.\<close>

lemma reads_bind_last: "reads m bs x \<Longrightarrow> k x = ret v \<Longrightarrow> reads (bindg m k) bs v"
  using reads_bind [of m bs x k "[]" v] by (simp add: reads_ret)

lemma reads_then: "reads m bs x \<Longrightarrow> reads (bindg m (\<lambda>y. ret (f y))) bs (f x)"
  by (rule reads_bind_last) simp_all

lemma reads_pure: "reads (k x) bs v \<Longrightarrow> reads (bindg (ret x) k) bs v"
  by simp

lemma readByte_reads: "reads readByte [b] b"
  by (simp add: reads_def readByte_def checkEOS_def advance_def bindg_def run_basic nth_append)

lemma reads_byte_bind: "reads (k b) bs v \<Longrightarrow> reads (bindg readByte k) (b # bs) v"
  using reads_bind [OF readByte_reads] by fastforce

lemma readRaw_reads: "reads (readRaw (length bs)) bs bs"
  by (simp add: reads_def readRaw_def checkEOS_def advance_def bindg_def run_basic)

section \<open>Integers\<close>

definition be_bytes :: "nat \<Rightarrow> nat \<Rightarrow> string" where
  "be_bytes n v = map (\<lambda>i. byte (drop_bit ((n - i - 1) * 8) v mod 256)) [0..<n]"

lemma be_bytes_length [simp]: "length (be_bytes n v) = n"
  by (simp add: be_bytes_def)

lemma push_int_writes:
  "k \<le> n \<Longrightarrow> writes (push_int_from v n False k) (drop (n - k) (be_bytes n v))"
proof (induction k)
  case (Suc k)
  from Suc.prems have n: "n - k = Suc (n - Suc k)" and less: "n - Suc k < n" by simp_all
  have "drop (n - Suc k) (be_bytes n v) =
    byte (drop_bit ((n - (n - Suc k) - 1) * 8) v mod 256) # drop (n - k) (be_bytes n v)"
    using Cons_nth_drop_Suc [of "n - Suc k" "be_bytes n v"] less
    by (simp add: be_bytes_def n)
  then show ?case using Suc by (simp add: Let_def writes_byte_bind)
qed (simp add: writes_ret)

lemma pushIntN_writes: "writes (pushIntN v n False) (be_bytes n v)"
  using push_int_writes [of n n v] by (simp add: pushIntN_def)

lemma upto_small: "[0..<1] = [0]" "[0..<2] = [0, 1]" "[0..<4] = [0, 1, 2, 3]"
  by (simp_all add: upt_rec)

lemma readIntN_reads:
  assumes "int_at (be_bytes n v) 0 n False = v"
  shows "reads (readIntN n False) (be_bytes n v) v"
proof -
  have "int_at (pre @ be_bytes n v @ rest) (length pre) n False = v" for pre rest
  proof -
    have "int_at (pre @ be_bytes n v @ rest) (length pre) n False = int_at (be_bytes n v) 0 n False"
      unfolding int_at_def
      by (rule foldl_cong) (auto simp: nth_append)
    with assms show ?thesis by simp
  qed
  then show ?thesis
    by (simp add: reads_def readIntN_def checkEOS_def advance_def bindg_def run_basic)
qed

lemma readInt_reads:
  "v < 256 \<Longrightarrow> reads (readInt8 False) (be_bytes 1 v) v"
  "v < 2 ^ 16 \<Longrightarrow> reads (readInt16 False) (be_bytes 2 v) v"
  "v < 2 ^ 32 \<Longrightarrow> reads (readInt32 False) (be_bytes 4 v) v"
proof -
  show "reads (readInt8 False) (be_bytes 1 v) v" if "v < 256"
    unfolding readInt8_def using that
    by (intro readIntN_reads) (simp add: int_at_def be_bytes_def upto_small)
  show "reads (readInt16 False) (be_bytes 2 v) v" if "v < 2 ^ 16"
    unfolding readInt16_def using joined_2 [OF that]
    by (intro readIntN_reads) (simp add: int_at_def be_bytes_def upto_small)
  show "reads (readInt32 False) (be_bytes 4 v) v" if "v < 2 ^ 32"
    unfolding readInt32_def using joined_4 [OF that]
    by (intro readIntN_reads) (simp add: int_at_def be_bytes_def upto_small)
qed

lemma one_byte: "be_bytes 1 v = [byte v]"
  by (simp add: be_bytes_def)

lemma readInt20_reads:
  assumes "v < 2 ^ 20"
  shows "reads readInt20 [byte (drop_bit 16 v mod 16), byte (drop_bit 8 v mod 256), byte (v mod 256)] v"
proof -
  have "push_bit 16 (drop_bit 16 v mod 16) + push_bit 8 (drop_bit 8 v mod 256) + v mod 256 = v"
  proof -
    have "drop_bit 16 v mod 16 = v div 65536" "drop_bit 8 v mod 256 = v div 256 mod 256"
      using assms by (simp_all add: drop_bit_eq_div)
    moreover have "v div 65536 * 65536 + v div 256 mod 256 * 256 + v mod 256 = v"
    proof -
      have "v div 65536 = v div 256 div 256" by (simp add: div_mult2_eq [symmetric])
      moreover have "v div 256 = v div 256 div 256 * 256 + v div 256 mod 256" "v = v div 256 * 256 + v mod 256"
        by simp_all
      ultimately show ?thesis by linarith
    qed
    ultimately show ?thesis by (simp add: push_bit_eq_mult)
  qed
  moreover have "drop_bit 16 v mod 16 mod 16 = drop_bit 16 v mod 16" "drop_bit 16 v mod 16 < 256" by simp_all
  ultimately show ?thesis
    by (simp add: reads_def readInt20_def checkEOS_def advance_def bindg_def run_basic nth_append)
qed

section \<open>Packed texts\<close>

lemma nibble_sum:
  assumes "(b :: nat) < 16"
  shows "or (push_bit 4 a) b = 16 * a + b"
proof -
  have "bit b n \<Longrightarrow> n < 4" for n using small_bit [of b 4] assms by simp
  then have "or (push_bit 4 a) b = push_bit 4 a + b"
    by (intro disjunctive_add [symmetric]) (fastforce simp: bit_simps)
  then show ?thesis by (simp add: push_bit_eq_mult)
qed

lemma low_15: "and (n :: nat) 15 = n mod 16"
  using take_bit_eq_mask [of 4 n] by (simp add: take_bit_eq_mod mask_eq_exp_minus_1)

lemma high_div: "high_nibble c = byte_val c div 16 mod 16"
proof -
  have "drop_bit 4 (and (byte_val c) 240) = and (drop_bit 4 (byte_val c)) (15 :: nat)" by simp
  then show ?thesis by (simp only: high_nibble_def low_15) (simp add: drop_bit_eq_div)
qed

lemma nibble_pair:
  assumes "a < 16" and "b < 16"
  shows "high_nibble (byte (or (push_bit 4 a) b)) = a" and "low_nibble (byte (or (push_bit 4 a) b)) = b"
  using assms by (simp_all add: high_div low_nibble_def nibble_sum low_15)

text \<open>A packing and its inverse on the characters of a text.\<close>

definition unpacks :: "(byte \<Rightarrow> nat option) \<Rightarrow> nat \<Rightarrow> byte \<Rightarrow> bool" where
  "unpacks packer tag c = (\<exists>a<16. packer c = Some a \<and> unpackByte tag a = Ok c)"

definition pads :: "(byte \<Rightarrow> nat option) \<Rightarrow> nat \<Rightarrow> byte \<Rightarrow> bool" where
  "pads packer tag z = (packer (byte 0) = Some 15 \<and> unpackByte tag 15 = Ok z)"

lemma digit_nibble: "is_digit c \<Longrightarrow> byte_val c - 48 < 10 \<and> byte (48 + (byte_val c - 48)) = c \<and> byte_val c \<noteq> 0"
  by (simp add: is_digit_def) linarith

lemma nibble_unpacks: "nibble_char c \<Longrightarrow> unpacks packNibble Nibble8 c"
  using digit_nibble [of c]
  by (auto simp: nibble_char_def unpacks_def packNibble_def unpackByte_def unpackNibble_def)

lemma hex_unpacks: "hex_char c \<Longrightarrow> unpacks packHex Hex8 c"
  using digit_nibble [of c]
  by (auto simp: hex_char_def unpacks_def packHex_def unpackByte_def unpackHex_def tag_defs)

lemma zero_byte: "byte 0 \<noteq> CHR ''.''" "byte 0 \<noteq> CHR ''-''" "\<not> is_digit (byte 0)"
  by code_simp+

lemma pads_nibble: "pads packNibble Nibble8 (byte 0)"
  by (simp add: pads_def packNibble_def unpackByte_def unpackNibble_def zero_byte)

lemma char_F: "byte 70 = CHR ''F''"
  by code_simp

lemma pads_hex: "pads packHex Hex8 CHR ''F''"
  by (simp add: pads_def packHex_def unpackByte_def unpackHex_def tag_defs zero_byte char_F)

lemma reads_pair:
  assumes "a < 16" "b < 16" "unpackByte tag a = Ok x" "unpackByte tag b = Ok y"
    and "reads (unpack_loop tag k (build @ [x, y])) bs v"
  shows "reads (unpack_loop tag (Suc k) build) (byte (or (push_bit 4 a) b) # bs) v"
  unfolding unpack_loop.simps
  by (rule reads_byte_bind) (simp add: nibble_pair [OF assms(1,2)] assms(3-5))

lemma push_pairs_packed:
  assumes "list_all (unpacks packer tag) s" and "pads packer tag z"
  shows "\<exists>bs. writes (push_pairs packer s) bs \<and> length bs = (length s + 1) div 2 \<and>
    (\<forall>build. reads (unpack_loop tag ((length s + 1) div 2) build) bs
       (build @ s @ (if odd (length s) then [z] else [])))"
  using assms
proof (induction packer s rule: push_pairs.induct)
  case (1 packer c d cs)
  then obtain bs where bs: "writes (push_pairs packer cs) bs" "length bs = (length cs + 1) div 2"
    and r: "\<And>build. reads (unpack_loop tag ((length cs + 1) div 2) build) bs
       (build @ cs @ (if odd (length cs) then [z] else []))" by auto
  from 1 obtain a b where ab: "a < 16" "b < 16" "packer c = Some a" "packer d = Some b"
    "unpackByte tag a = Ok c" "unpackByte tag b = Ok d" by (auto simp: unpacks_def)
  have "writes (push_pair packer c d) [byte (or (push_bit 4 a) b)]"
    by (simp add: push_pair_def packBytePair_def ab writes_push)
  from writes_bind [OF this bs(1)]
  have "writes (push_pairs packer (c # d # cs)) (byte (or (push_bit 4 a) b) # bs)" by simp
  moreover have "reads (unpack_loop tag (Suc ((length cs + 1) div 2)) build) (byte (or (push_bit 4 a) b) # bs)
     (build @ (c # d # cs) @ (if odd (length (c # d # cs)) then [z] else []))" for build
    using reads_pair [OF ab(1,2,5,6) r [of "build @ [c, d]"]] by simp
  ultimately show ?case
    by (intro exI [of _ "byte (or (push_bit 4 a) b) # bs"]) (simp add: bs(2))
next
  case (2 packer c)
  then obtain a where a: "a < 16" "packer c = Some a" "unpackByte tag a = Ok c" by (auto simp: unpacks_def)
  from 2 have z: "packer (byte 0) = Some 15" "unpackByte tag 15 = Ok z" by (auto simp: pads_def)
  have "writes (push_pairs packer [c]) [byte (or (push_bit 4 a) 15)]"
    by (simp add: push_pair_def packBytePair_def a z writes_push)
  moreover have "reads (unpack_loop tag (Suc 0) build) [byte (or (push_bit 4 a) 15)] (build @ [c] @ [z])" for build
    by (rule reads_pair [OF a(1) _ a(3) z(2)]) (simp_all add: reads_ret)
  ultimately show ?case by (intro exI [of _ "[byte (or (push_bit 4 a) 15)]"]) simp
next
  case (3 packer)
  then show ?case by (auto simp: writes_ret reads_ret intro!: exI [of _ "[]"])
qed

text \<open>A whole packed text.\<close>

lemma low_127: "and (n :: nat) 127 = n mod 128"
  using take_bit_eq_mask [of 7 n] by (simp add: take_bit_eq_mod mask_eq_exp_minus_1)

lemma or_128:
  assumes "(h :: nat) < 128"
  shows "or h 128 = h + 128"
proof -
  have "take_bit 7 h = h" using assms by (simp add: take_bit_nat_eq_self)
  then have "bit h n \<Longrightarrow> n < 7" for n by (metis bit_take_bit_iff)
  then have "\<not> bit h n \<or> \<not> bit (push_bit 7 (1 :: nat)) n" for n
    unfolding bit_push_bit_iff by (meson not_le)
  then have "or h (push_bit 7 1) = h + push_bit 7 1"
    by (rule disjunctive_add [symmetric])
  then show ?thesis by (simp add: push_bit_eq_mult)
qed

definition start_byte :: "nat \<Rightarrow> byte" where
  "start_byte n = byte (if n mod 2 \<noteq> 0 then or ((n + 1) div 2) 128 else (n + 1) div 2)"

lemma start_byte_parts:
  assumes "n \<le> 127"
  shows "and (byte_val (start_byte n)) 127 = (n + 1) div 2"
    and "drop_bit 7 (byte_val (start_byte n)) = n mod 2"
proof -
  have h: "(n + 1) div 2 < 128" using assms by linarith
  then show "and (byte_val (start_byte n)) 127 = (n + 1) div 2" "drop_bit 7 (byte_val (start_byte n)) = n mod 2"
    by (simp_all only: start_byte_def low_127 or_128 [OF h] drop_bit_eq_div of_char_of) auto
qed

lemma packed_text:
  assumes "list_all (unpacks packer tag) s" "pads packer tag z" "length s \<le> PackedMax"
    and "tag = Nibble8 \<and> packer = packNibble \<or> tag = Hex8 \<and> packer = packHex"
  shows "\<exists>bs. writes (writePackedBytes s tag) (byte tag # bs) \<and> reads (readPacked8 tag) bs s"
proof -
  from push_pairs_packed [OF assms(1,2)] obtain bs where w: "writes (push_pairs packer s) bs"
    and "\<And>build. reads (unpack_loop tag ((length s + 1) div 2) build) bs
      (build @ s @ (if odd (length s) then [z] else []))" by blast
  from this(2) [of "''''"]
  have r: "reads (unpack_loop tag ((length s + 1) div 2) '''') bs (s @ (if odd (length s) then [z] else []))"
    by simp
  have short: "length s \<le> 127" using assms(3) by (simp add: PackedMax_def)
  have "writePackedBytes s tag = bindg (pushByte (byte tag)) (\<lambda>_.
     bindg (pushByte (start_byte (length s))) (\<lambda>_. push_pairs packer s))"
    using assms(3,4) by (auto simp: writePackedBytes_def start_byte_def Let_def tag_defs)
  then have "writes (writePackedBytes s tag) (byte tag # start_byte (length s) # bs)"
    by (simp add: writes_byte_bind w)
  moreover have "reads (readPacked8 tag) (start_byte (length s) # bs) s"
    unfolding readPacked8_def
  proof (rule reads_byte_bind, rule reads_bind_last)
    show "reads (unpack_loop tag (and (byte_val (start_byte (length s))) 127) '''') bs
        (s @ (if odd (length s) then [z] else []))"
      using r by (simp only: start_byte_parts [OF short])
    show "(if drop_bit 7 (byte_val (start_byte (length s))) \<noteq> 0
        then if s @ (if odd (length s) then [z] else []) = '''' then crash
          else ret (butlast (s @ (if odd (length s) then [z] else [])))
        else ret (s @ (if odd (length s) then [z] else []))) = ret s"
      by (simp only: start_byte_parts [OF short]) (auto simp: odd_iff_mod_2_eq_one)
  qed
  ultimately show ?thesis by blast
qed

section \<open>Texts and bytes\<close>

text \<open>An operation writes what \<open>read\<close> turns into \<open>v b\<close>, given one unit of fuel for each byte.\<close>

definition codec :: "unit writer \<Rightarrow> (bool \<Rightarrow> bvalue) \<Rightarrow> bool" where
  "codec w v = (\<exists>bs. writes w bs \<and> (\<forall>f b. length bs \<le> f \<longrightarrow> reads (read f b) bs (v b)))"

lemma codecI:
  assumes "writes w (t # bs)"
    and "\<And>f b. length bs \<le> f \<Longrightarrow> reads (read_tagged (read f) (byte_val t) b) bs (v b)"
  shows "codec w v"
  unfolding codec_def
proof (intro exI conjI allI impI)
  show "writes w (t # bs)" by (rule assms(1))
  fix f b assume "length (t # bs) \<le> f"
  then obtain g where "f = Suc g" "length bs \<le> g" by (cases f) auto
  then show "reads (read f b) (t # bs) (v b)"
    using assms(2) by (auto intro: reads_byte_bind)
qed

definition short :: "string \<Rightarrow> bool" where
  "short s = (length s < MaxInt32)"

lemma bytes_read: "reads (readBytesOrString (length bs) b) bs (if b then VStr bs else VBytes bs)"
  unfolding readBytesOrString_def by (rule reads_bind_last [OF readRaw_reads]) simp

lemma sized_read:
  "reads m hdr n \<Longrightarrow> n = length bs \<Longrightarrow>
   reads (bindg m (\<lambda>size. readBytesOrString size b)) (hdr @ bs) (if b then VStr bs else VBytes bs)"
  by (erule reads_bind) (simp only: bytes_read)

lemma sized_codec:
  assumes w: "writes (writeByteLength (length bs)) (byte t # hdr)" and r: "reads m hdr (length bs)"
    and t: "\<And>rd b. read_tagged rd (byte_val (byte t)) b = bindg m (\<lambda>size. readBytesOrString size b)"
  shows "codec (bindg (writeByteLength (length bs)) (\<lambda>_. pushBytes bs)) (\<lambda>b. if b then VStr bs else VBytes bs)"
proof (rule codecI)
  show "writes (bindg (writeByteLength (length bs)) (\<lambda>_. pushBytes bs)) (byte t # hdr @ bs)"
    using writes_bind [OF w writes_push(2)] by simp
qed (simp only: t sized_read [OF r refl])

lemma bytes_codec:
  assumes "short bs"
  shows "codec (bindg (writeByteLength (length bs)) (\<lambda>_. pushBytes bs)) (\<lambda>b. if b then VStr bs else VBytes bs)"
proof -
  let ?n = "length bs"
  consider "?n < 256" | "\<not> ?n < 256" "?n < 2 ^ 20" | "\<not> ?n < 256" "\<not> ?n < 2 ^ 20" "?n < MaxInt32"
    using assms by (auto simp: short_def)
  then show ?thesis
  proof cases
    case 1
    then show ?thesis
      by (intro sized_codec [of _ Binary8 "be_bytes 1 ?n", OF _ readInt_reads(1)])
        (simp_all add: writeByteLength_def pushInt8_def writes_byte_bind pushIntN_writes read_tagged_def tag_defs)
  next
    case 2
    show ?thesis
    proof (rule sized_codec [of _ Binary20, OF _ readInt20_reads])
      show "writes (writeByteLength ?n) (byte Binary20 #
          [byte (drop_bit 16 ?n mod 16), byte (drop_bit 8 ?n mod 256), byte (?n mod 256)])"
        using 2 by (simp only: writeByteLength_def pushInt20_def if_False if_True writes_byte_bind writes_push)
    qed (use 2 in \<open>simp_all add: read_tagged_def tag_defs\<close>)
  next
    case 3
    then show ?thesis
      by (intro sized_codec [of _ Binary32 "be_bytes 4 ?n", OF _ readInt_reads(3)])
        (simp_all add: writeByteLength_def pushInt32_def writes_byte_bind pushIntN_writes read_tagged_def tag_defs
          MaxInt32_def)
  qed
qed

text \<open>Texts that are written as a token or packed come back as texts even where bytes are read.\<close>

definition compact :: "string \<Rightarrow> bool" where
  "compact s = (IndexOfSingleToken s \<noteq> None \<or> IndexOfDoubleByteToken s \<noteq> None \<or> validateNibble s \<or> validateHex s)"

definition text_form :: "bool \<Rightarrow> string \<Rightarrow> bvalue" where
  "text_form b s = (if b \<or> compact s then VStr s else VBytes s)"

lemma packed_codec:
  assumes "list_all (unpacks packer tag) s" "pads packer tag z" "length s \<le> PackedMax"
    and "tag = Nibble8 \<and> packer = packNibble \<or> tag = Hex8 \<and> packer = packHex"
  shows "codec (writePackedBytes s tag) (\<lambda>b. VStr s)"
proof -
  from packed_text [OF assms] obtain bs where
    w: "writes (writePackedBytes s tag) (byte tag # bs)" and r: "reads (readPacked8 tag) bs s" by blast
  from reads_then [OF r, of VStr] show ?thesis
    by (intro codecI [OF w]) (use assms(4) in \<open>auto simp: read_tagged_def tag_defs\<close>)
qed

lemma text_codec:
  assumes "short s"
  shows "codec (writeString s) (\<lambda>b. text_form b s)"
proof -
  consider (single) t where "IndexOfSingleToken s = Some t"
    | (double) d t where "IndexOfSingleToken s = None" "IndexOfDoubleByteToken s = Some (d, t)"
    | (nibble) "IndexOfSingleToken s = None" "IndexOfDoubleByteToken s = None" "validateNibble s"
    | (hex) "IndexOfSingleToken s = None" "IndexOfDoubleByteToken s = None" "\<not> validateNibble s" "validateHex s"
    | (raw) "\<not> compact s"
    unfolding compact_def by (metis not_None_eq surj_pair)
  then show ?thesis
  proof cases
    case single
    note t = single_index [OF single]
    have "writes (writeString s) (t # [])" by (simp add: writeString_def single writes_push)
    moreover have "read_tagged (read f) (byte_val t) b = ret (VStr s)" for f b
      using t by (simp add: read_tagged_def tag_defs tables_length)
    ultimately show ?thesis
      by (intro codecI [of _ t "[]"]) (simp_all add: reads_ret text_form_def compact_def single)
  next
    case double
    note d = double_index [OF double(2)]
    have "writes (writeString s) (byte (Dictionary0 + byte_val d) # [t])"
      by (simp add: writeString_def double writes_byte_bind writes_push)
    moreover have "reads (read_tagged (read f) (byte_val (byte (Dictionary0 + byte_val d))) b) [t] (VStr s)" for f b
    proof -
      have "byte_val d = 0 \<or> byte_val d = 1 \<or> byte_val d = 2 \<or> byte_val d = 3" using d by linarith
      then have "read_tagged (read f) (byte_val (byte (Dictionary0 + byte_val d))) b =
        bindg (readInt8 False) (\<lambda>i. bindg (of_result (GetDoubleToken (byte_val d) i)) (\<lambda>s. ret (VStr s)))"
        by (elim disjE) (simp_all add: read_tagged_def tag_defs)
      moreover have "reads (readInt8 False) [t] (byte_val t)"
        using readInt_reads(1) [of "byte_val t"] one_byte [of "byte_val t"] by simp
      ultimately show ?thesis using d by (simp add: reads_bind_last)
    qed
    ultimately show ?thesis
      by (intro codecI [of _ "byte (Dictionary0 + byte_val d)" "[t]"]) (simp_all add: text_form_def compact_def double)
  next
    case nibble
    then have "codec (writePackedBytes s Nibble8) (\<lambda>b. VStr s)"
      by (intro packed_codec [where packer = packNibble, OF _ pads_nibble])
        (auto simp: validateNibble_def list_all_iff nibble_unpacks)
    with nibble show ?thesis by (simp add: writeString_def text_form_def compact_def)
  next
    case hex
    then have "codec (writePackedBytes s Hex8) (\<lambda>b. VStr s)"
      by (intro packed_codec [where packer = packHex, OF _ pads_hex])
        (auto simp: validateHex_def list_all_iff hex_unpacks)
    with hex show ?thesis by (simp add: writeString_def text_form_def compact_def)
  next
    case raw
    then have "IndexOfSingleToken s = None" "IndexOfDoubleByteToken s = None" "\<not> validateNibble s" "\<not> validateHex s"
      unfolding compact_def by blast+
    then have "writeString s = bindg (writeByteLength (length s)) (\<lambda>_. pushBytes s)"
      by (simp add: writeString_def writeStringRaw_def pushString_def)
    with bytes_codec [OF assms] raw show ?thesis by (simp add: text_form_def)
  qed
qed

section \<open>JIDs\<close>

lemma assert_string_simps [simp]: "assert_string (VStr s) = ret s"
  by (simp add: assert_string_def)

lemma text_read:
  assumes "short s"
  obtains bs where "writes (writeString s) bs" "\<And>f. length bs \<le> f \<Longrightarrow> reads (read f True) bs (VStr s)"
proof -
  from text_codec [OF assms] obtain bs where "writes (writeString s) bs"
    "\<And>f b. length bs \<le> f \<Longrightarrow> reads (read f b) bs (text_form b s)" by (auto simp: codec_def)
  then show ?thesis using that [of bs] by (metis text_form_def)
qed

text \<open>What is left of a JID on the way: the device of a user is cut to a byte, agents and integrators
  are only sent for the servers that have them.\<close>

definition delivered_jid :: "jid \<Rightarrow> jid" where
  "delivered_jid j =
     (if ad_jid j then \<lparr>User = User j, RawAgent = 0, Device = ucast (ucast (Device j) :: 8 word),
        Integrator = 0, Server = Server j\<rparr>
      else if Server j = MessengerServer then \<lparr>User = User j, RawAgent = 0, Device = Device j,
        Integrator = 0, Server = Server j\<rparr>
      else if Server j = InteropServer then \<lparr>User = User j, RawAgent = 0, Device = Device j,
        Integrator = Integrator j, Server = Server j\<rparr>
      else NewJID (User j) (Server j))"

lemma ad_jid_new:
  "ad_jid j \<Longrightarrow> NewADJID (User j) (ActualAgent j) (ucast (Device j)) = delivered_jid j"
  by (auto simp: ad_jid_def NewADJID_def ActualAgent_def delivered_jid_def domain_defs server_defs)

lemma word_of_byte: "word_of_nat (byte_val (byte (unat (w :: 16 word)))) = (ucast w :: 8 word)"
  "word_of_nat (byte_val (byte (unat (a :: 8 word)))) = a"
proof -
  show "word_of_nat (byte_val (byte (unat w))) = (ucast w :: 8 word)"
    by (simp, transfer) (simp add: take_bit_eq_mod zmod_int)
  have "unat a < 256" using unsigned_less [of a] by simp
  then show "word_of_nat (byte_val (byte (unat a))) = a" by simp
qed

lemma readInt16_word: "reads (readInt16 False) (be_bytes 2 (unat (w :: 16 word))) (unat w)"
  by (rule readInt_reads) (use unsigned_less [of w] in simp)

lemma ad_jid_codec:
  assumes "ad_jid j" and "short (User j)"
  shows "codec (writeJID j) (\<lambda>b. VJid (delivered_jid j))"
proof -
  from text_read [OF assms(2)] obtain bs where w: "writes (writeString (User j)) bs"
    and r: "\<And>f. length bs \<le> f \<Longrightarrow> reads (read f True) bs (VStr (User j))" by blast
  let ?a = "byte (unat (ActualAgent j))" and ?d = "byte (unat (Device j))"
  have "writes (writeJID j) (byte ADJID # ?a # ?d # bs)"
    by (simp add: writeJID_def assms(1) writes_byte_bind w)
  then show ?thesis
  proof (rule codecI)
    fix f b assume "length (?a # ?d # bs) \<le> f"
    then have u: "reads (read f True) bs (VStr (User j))" by (intro r) simp
    have "reads (readADJID (read f)) (?a # ?d # bs) (VJid (delivered_jid j))"
      unfolding readADJID_def
      by (intro reads_byte_bind reads_bind_last [OF u])
        (simp only: word_of_byte assert_string_simps bind_basic ad_jid_new [OF assms(1)])
    then show "reads (read_tagged (read f) (byte_val (byte ADJID)) b) (?a # ?d # bs) (VJid (delivered_jid j))"
      by (simp add: read_tagged_def tag_defs)
  qed
qed

lemma fb_jid_codec:
  assumes "\<not> ad_jid j" "Server j = MessengerServer" and "short (User j)"
  shows "codec (writeJID j) (\<lambda>b. VJid (delivered_jid j))"
proof -
  from text_read [OF assms(3)] obtain us where u: "writes (writeString (User j)) us"
    "\<And>f. length us \<le> f \<Longrightarrow> reads (read f True) us (VStr (User j))" by blast
  have "short MessengerServer" by (simp add: short_def MessengerServer_def MaxInt32_def)
  from text_read [OF this] obtain ss where s: "writes (writeString MessengerServer) ss"
    "\<And>f. length ss \<le> f \<Longrightarrow> reads (read f True) ss (VStr MessengerServer)" by blast
  let ?bs = "us @ be_bytes 2 (unat (Device j)) @ ss"
  have "writes (writeJID j) (byte FBJID # ?bs)"
    unfolding writeJID_def pushInt16_def using assms(1,2)
    by (simp add: writes_byte_bind writes_bind u s pushIntN_writes)
  then show ?thesis
  proof (rule codecI)
    fix f b assume len: "length ?bs \<le> f"
    have "reads (readFBJID (read f)) ?bs (VJid (delivered_jid j))"
      unfolding readFBJID_def
      by (intro reads_bind [OF u(2)] reads_bind [OF readInt16_word] reads_bind_last [OF s(2)])
        (use len in \<open>simp_all add: delivered_jid_def assms\<close>)
    then show "reads (read_tagged (read f) (byte_val (byte FBJID)) b) ?bs (VJid (delivered_jid j))"
      by (simp add: read_tagged_def tag_defs)
  qed
qed

lemma interop_jid_codec:
  assumes "\<not> ad_jid j" "Server j = InteropServer" and "short (User j)"
  shows "codec (writeJID j) (\<lambda>b. VJid (delivered_jid j))"
proof -
  from text_read [OF assms(3)] obtain us where u: "writes (writeString (User j)) us"
    "\<And>f. length us \<le> f \<Longrightarrow> reads (read f True) us (VStr (User j))" by blast
  have "short InteropServer" by (simp add: short_def InteropServer_def MaxInt32_def)
  from text_read [OF this] obtain ss where s: "writes (writeString InteropServer) ss"
    "\<And>f. length ss \<le> f \<Longrightarrow> reads (read f True) ss (VStr InteropServer)" by blast
  have other: "InteropServer \<noteq> MessengerServer" by (simp add: InteropServer_def MessengerServer_def)
  let ?bs = "us @ be_bytes 2 (unat (Device j)) @ be_bytes 2 (unat (Integrator j)) @ ss"
  have "writes (writeJID j) (byte InteropJID # ?bs)"
    unfolding writeJID_def pushInt16_def using assms(1,2) other
    by (simp add: writes_byte_bind writes_bind u s pushIntN_writes)
  then show ?thesis
  proof (rule codecI)
    fix f b assume len: "length ?bs \<le> f"
    have "reads (readInteropJID (read f)) ?bs (VJid (delivered_jid j))"
      unfolding readInteropJID_def
      by (intro reads_bind [OF u(2)] reads_bind [OF readInt16_word] reads_bind_last [OF s(2)])
        (use len in \<open>simp_all add: delivered_jid_def assms other\<close>)
    then show "reads (read_tagged (read f) (byte_val (byte InteropJID)) b) ?bs (VJid (delivered_jid j))"
      by (simp add: read_tagged_def tag_defs)
  qed
qed

lemma empty_read: "0 < f \<Longrightarrow> reads (read f b) [byte ListEmpty] VNil"
  by (cases f) (auto intro!: reads_byte_bind simp: read_tagged_def tag_defs reads_ret)

lemma pair_jid_codec:
  assumes "\<not> ad_jid j" "Server j \<noteq> MessengerServer" "Server j \<noteq> InteropServer"
    and "short (User j)" "short (Server j)"
  shows "codec (writeJID j) (\<lambda>b. VJid (delivered_jid j))"
proof -
  define w where "w = (if length (User j) = 0 then pushByte (byte ListEmpty) else writeString (User j))"
  define v where "v = (if User j = '''' then VNil else VStr (User j))"
  from text_read [OF assms(4)] obtain us where "writes (writeString (User j)) us"
    "\<And>f. length us \<le> f \<Longrightarrow> reads (read f True) us (VStr (User j))" by blast
  then have "\<exists>us. writes w us \<and> (\<forall>f. length us \<le> f \<longrightarrow> reads (read f True) us v)"
    using empty_read writes_push(1) by (cases "User j = ''''") (force simp: w_def v_def)+
  then obtain us where u: "writes w us" "\<And>f. length us \<le> f \<Longrightarrow> reads (read f True) us v" by blast
  from text_read [OF assms(5)] obtain ss where s: "writes (writeString (Server j)) ss"
    "\<And>f. length ss \<le> f \<Longrightarrow> reads (read f True) ss (VStr (Server j))" by blast
  have "writeJID j = bindg (pushByte (byte JIDPair)) (\<lambda>_. bindg w (\<lambda>_. writeString (Server j)))"
    using assms(1-3) by (simp add: writeJID_def w_def)
  then have "writes (writeJID j) (byte JIDPair # us @ ss)"
    by (simp only: writes_byte_bind writes_bind u s)
  then show ?thesis
  proof (rule codecI)
    fix f b assume len: "length (us @ ss) \<le> f"
    have "reads (readJIDPair (read f)) (us @ ss) (VJid (delivered_jid j))"
      unfolding readJIDPair_def
      by (intro reads_bind [OF u(2)] reads_bind_last [OF s(2)])
        (use len in \<open>simp_all add: delivered_jid_def assms v_def\<close>)
    then show "reads (read_tagged (read f) (byte_val (byte JIDPair)) b) (us @ ss) (VJid (delivered_jid j))"
      by (simp add: read_tagged_def tag_defs)
  qed
qed

lemma jid_codec:
  "short (User j) \<Longrightarrow> short (Server j) \<Longrightarrow> codec (writeJID j) (\<lambda>b. VJid (delivered_jid j))"
  using ad_jid_codec fb_jid_codec interop_jid_codec pair_jid_codec by blast

end
