(* ===== verification/BinaryDecoding.thy ===== *)
theory BinaryDecoding
  imports BinaryDecoder
begin

text \<open>
  What holds of the decoder on every input. \<open>moves\<close>: no operation changes the data, goes back or leaves
  it. \<open>agree\<close>: with more fuel than bytes left two runs do the same and neither runs out of fuel.
  \<open>wire_node\<close>: the shape of what is returned.
\<close>

section \<open>The position\<close>

definition moves :: "binaryDecoder \<Rightarrow> binaryDecoder \<Rightarrow> bool" where
  "moves r r' = (decData r' = decData r \<and> decIndex r \<le> decIndex r' \<and>
     (decIndex r' \<le> length (decData r) \<or> decIndex r' = decIndex r))"

interpretation move: frame moves
  by unfold_locales (auto simp: moves_def)

lemma moves_checkEOS: "keeps moves (checkEOS n)"
  unfolding checkEOS_def by (intro move.keeps_intros)

text \<open>The operations that check, look and advance by the same number of bytes.\<close>

lemma moves_checked: "keeps moves (bindg (checkEOS n) (\<lambda>_. bindg (gets g) (\<lambda>x. bindg (advance n) (\<lambda>_. ret x))))"
  by (auto simp: keeps_def checkEOS_def advance_def bindg_def run_basic moves_def split: if_splits)

lemma moves_basic: "keeps moves readByte" "keeps moves (readIntN n b)" "keeps moves readInt20" "keeps moves (readRaw n)"
  unfolding readByte_def readIntN_def readInt20_def readRaw_def by (rule moves_checked)+

lemma moves_int: "keeps moves (readInt8 b)" "keeps moves (readInt16 b)" "keeps moves (readInt32 b)"
  unfolding readInt8_def readInt16_def readInt32_def by (rule moves_basic)+

lemma moves_assert: "keeps moves (assert_string v)"
  unfolding assert_string_def by (cases v) (simp_all add: move.keeps_pure)

lemma moves_bytes: "keeps moves (readBytesOrString n b)"
  unfolding readBytesOrString_def by (intro move.keeps_intros moves_basic)

lemma moves_unpack: "keeps moves (unpack_loop tag k build)"
  by (induction k arbitrary: build) (auto intro!: move.keeps_intros moves_basic)

lemma moves_packed: "keeps moves (readPacked8 tag)"
  unfolding readPacked8_def by (intro move.keeps_intros moves_basic moves_unpack)

lemma moves_size: "keeps moves (readListSize tag)"
  unfolding readListSize_def by (intro move.keeps_intros moves_int)

lemmas moves_leaves = moves_basic moves_int moves_assert moves_bytes moves_packed moves_size

definition all_moves :: "(bool \<Rightarrow> bvalue reader) \<Rightarrow> bool" where
  "all_moves rd = (\<forall>b. keeps moves (rd b))"

lemma moves_jids:
  assumes "all_moves rd"
  shows "keeps moves (readJIDPair rd)" "keeps moves (readInteropJID rd)" "keeps moves (readFBJID rd)"
    "keeps moves (readADJID rd)"
proof -
  have rd: "keeps moves (rd b)" for b using assms by (simp add: all_moves_def)
  show "keeps moves (readJIDPair rd)" "keeps moves (readInteropJID rd)" "keeps moves (readFBJID rd)"
    "keeps moves (readADJID rd)"
    unfolding readJIDPair_def readInteropJID_def readFBJID_def readADJID_def
    by (intro move.keeps_intros moves_leaves rd)+
qed

lemma moves_attributes: "all_moves rd \<Longrightarrow> keeps moves (read_attributes rd k acc)"
proof (induction k arbitrary: acc)
  case (Suc k)
  then have rd: "keeps moves (rd b)" for b by (simp add: all_moves_def)
  have "keeps moves (case v of VStr key \<Rightarrow> bindg (rd True) (\<lambda>val. read_attributes rd k (AList.update key val acc))
       | _ \<Rightarrow> bindg (gets decIndex) (\<lambda>index.
           raise (ErrNonStringKey @ '' at position '' @ show_nat index @ '' (string): '')))" for v
    using Suc rd by (cases v) (auto intro!: move.keeps_intros)
  then show ?case unfolding read_attributes.simps by (intro move.keeps_bind rd)
qed (simp add: move.keeps_pure)

lemma moves_node: "all_moves rd \<Longrightarrow> keeps moves (readNode rd)"
  unfolding readNode_def readAttributes_def
  by (intro move.keeps_intros moves_leaves moves_attributes) (simp_all add: all_moves_def)

lemma moves_nodes: "all_moves rd \<Longrightarrow> keeps moves (read_nodes rd k)"
  by (induction k) (auto intro!: move.keeps_intros moves_node)

lemma moves_tagged: "all_moves rd \<Longrightarrow> keeps moves (read_tagged rd tag b)"
  unfolding read_tagged_def readList_def
  by (intro move.keeps_intros moves_leaves moves_nodes moves_jids)

lemma moves_read: "keeps moves (read f b)"
proof (induction f arbitrary: b)
  case (Suc f)
  then have "all_moves (read f)" by (simp add: all_moves_def)
  then show ?case unfolding read.simps by (intro move.keeps_bind moves_basic moves_tagged)
qed (simp add: move.keeps_pure)

lemma all_moves_read: "all_moves (read f)"
  by (simp add: all_moves_def moves_read)

section \<open>Fuel\<close>

definition left :: "binaryDecoder \<Rightarrow> nat" where
  "left r = length (decData r) - decIndex r"

definition agree :: "nat \<Rightarrow> 'a reader \<Rightarrow> 'a reader \<Rightarrow> bool" where
  "agree n m m' = (\<forall>r. left r \<le> n \<longrightarrow> m r = m' r \<and> fst (m r) \<noteq> Raise out_of_fuel)"

lemma moves_left: "moves r r' \<Longrightarrow> left r' \<le> left r"
  by (auto simp: moves_def left_def)

lemma agree_at: "agree n m m' \<Longrightarrow> left r \<le> n \<Longrightarrow> m r = m' r \<and> fst (m' r) \<noteq> Raise out_of_fuel"
  by (auto simp: agree_def)

lemma agree_less: "agree (Suc n) m m' \<Longrightarrow> agree n m m'"
  unfolding agree_def by (meson le_SucI)

lemma agree_bind:
  assumes "agree n m m'" "keeps moves m" "\<And>x. agree n (k x) (k' x)"
  shows "agree n (bindg m k) (bindg m' k')"
  unfolding agree_def
proof (intro allI impI)
  fix r assume r: "left r \<le> n"
  obtain y r1 where m: "m r = (y, r1)" by (cases "m r")
  from r assms(1) m have "m' r = (y, r1)" "y \<noteq> Raise out_of_fuel" by (auto simp: agree_def)
  moreover have "left r1 \<le> n" using moves_left keepsD [OF assms(2) m] r by (meson le_trans)
  ultimately show "bindg m k r = bindg m' k' r \<and> fst (bindg m k r) \<noteq> Raise out_of_fuel"
    using agree_at [OF assms(3)] m by (cases y) (simp_all add: bindg_def)
qed

text \<open>Reading a byte leaves fewer of them.\<close>

lemma agree_consume:
  assumes "\<And>x m. n = Suc m \<Longrightarrow> agree m (k x) (k' x)"
    and p: "p = bindg (checkEOS 1) (\<lambda>_. bindg (gets g) (\<lambda>x. bindg (advance 1) (\<lambda>_. ret x)))"
  shows "agree n (bindg p k) (bindg p k')"
  unfolding agree_def
proof (intro allI impI)
  fix r assume r: "left r \<le> n"
  show "bindg p k r = bindg p k' r \<and> fst (bindg p k r) \<noteq> Raise out_of_fuel"
  proof (cases "decIndex r < length (decData r)")
    case False
    then show ?thesis by (simp add: p checkEOS_def bindg_def run_basic EOF_def out_of_fuel_def)
  next
    case True
    then have eq: "bindg p h r = h (g r) (r\<lparr>decIndex := decIndex r + 1\<rparr>)" for h
      by (simp add: p checkEOS_def advance_def bindg_def run_basic)
    have "0 < left r" using True by (simp add: left_def)
    with r obtain m where "n = Suc m" by (cases n) auto
    moreover have "left (r\<lparr>decIndex := decIndex r + 1\<rparr>) \<le> m"
      using r True \<open>n = Suc m\<close> by (simp add: left_def)
    ultimately show ?thesis using assms [unfolded agree_def] unfolding eq by blast
  qed
qed

lemmas agree_byte = agree_consume [OF _ readByte_def]

lemmas agree_header = agree_consume [OF _ readInt8_def [unfolded readIntN_def]]

lemma agree_pure: "agree n (ret x) (ret x)" "e \<noteq> out_of_fuel \<Longrightarrow> agree n (raise e) (raise e)"
  "agree n crash crash" "agree n (gets g) (gets g)"
  by (auto simp: agree_def run_basic)

lemma agree_if: "agree n a a' \<Longrightarrow> agree n c c' \<Longrightarrow> agree n (if b then a else c) (if b then a' else c')"
  by simp

lemma agree_checked: "agree n (bindg (checkEOS j) (\<lambda>_. bindg (gets g) (\<lambda>x. bindg (advance j) (\<lambda>_. ret x))))
    (bindg (checkEOS j) (\<lambda>_. bindg (gets g) (\<lambda>x. bindg (advance j) (\<lambda>_. ret x))))"
  by (auto simp: agree_def checkEOS_def advance_def bindg_def run_basic EOF_def out_of_fuel_def)

lemma agree_basic: "agree n readByte readByte" "agree n (readIntN j b) (readIntN j b)" "agree n readInt20 readInt20"
  "agree n (readRaw j) (readRaw j)"
  unfolding readByte_def readIntN_def readInt20_def readRaw_def by (rule agree_checked)+

lemma agree_int: "agree n (readInt8 b) (readInt8 b)" "agree n (readInt16 b) (readInt16 b)" "agree n (readInt32 b) (readInt32 b)"
  unfolding readInt8_def readInt16_def readInt32_def by (rule agree_basic)+

lemma agree_assert: "agree n (assert_string v) (assert_string v)"
  unfolding assert_string_def by (cases v) (simp_all add: agree_pure)

lemma agree_bytes: "agree n (readBytesOrString j b) (readBytesOrString j b)"
  unfolding readBytesOrString_def by (intro agree_bind agree_basic agree_pure moves_basic)

text \<open>The texts of the other errors.\<close>

lemma other_errors:
  "ErrInvalidJIDType \<noteq> out_of_fuel" "ErrInvalidNode \<noteq> out_of_fuel" "ErrInvalidToken @ s \<noteq> out_of_fuel"
  "ErrNonStringKey @ s \<noteq> out_of_fuel" "''readListSize with unknown tag '' @ s \<noteq> out_of_fuel"
  by (simp_all add: ErrInvalidJIDType_def ErrInvalidNode_def ErrInvalidToken_def ErrNonStringKey_def out_of_fuel_def)

lemma agree_unpack_byte: "agree n (of_result (unpackByte tag v)) (of_result (unpackByte tag v))"
  by (auto simp: unpackByte_def unpackNibble_def unpackHex_def out_of_fuel_def intro!: agree_pure)

lemma agree_token: "agree n (of_result (GetDoubleToken i j)) (of_result (GetDoubleToken i j))"
  by (auto simp: GetDoubleToken_def out_of_fuel_def intro!: agree_pure)

lemma agree_unpack: "agree n (unpack_loop tag k build) (unpack_loop tag k build)"
  by (induction k arbitrary: build)
    (auto intro!: agree_bind agree_basic agree_pure agree_unpack_byte moves_basic move.keeps_pure)

lemma agree_packed: "agree n (readPacked8 tag) (readPacked8 tag)"
  unfolding readPacked8_def
  by (intro agree_bind agree_basic agree_unpack agree_if agree_pure moves_basic moves_unpack)

lemma agree_size: "agree n (readListSize tag) (readListSize tag)"
  unfolding readListSize_def
  by (intro agree_if agree_pure agree_int agree_bind move.keeps_pure other_errors)

lemmas agree_leaves = agree_basic agree_int agree_assert agree_bytes agree_packed agree_size agree_pure agree_token

definition all_agree :: "nat \<Rightarrow> (bool \<Rightarrow> bvalue reader) \<Rightarrow> (bool \<Rightarrow> bvalue reader) \<Rightarrow> bool" where
  "all_agree n rd rd' = (all_moves rd \<and> (\<forall>b. agree n (rd b) (rd' b)))"

lemma all_agreeD: "all_agree n rd rd' \<Longrightarrow> agree n (rd b) (rd' b)" "all_agree n rd rd' \<Longrightarrow> keeps moves (rd b)"
  "all_agree n rd rd' \<Longrightarrow> all_moves rd"
  by (simp_all add: all_agree_def all_moves_def)

lemma agree_jids:
  assumes "all_agree n rd rd'"
  shows "agree n (readJIDPair rd) (readJIDPair rd')" "agree n (readInteropJID rd) (readInteropJID rd')"
    "agree n (readFBJID rd) (readFBJID rd')" "agree n (readADJID rd) (readADJID rd')"
  unfolding readJIDPair_def readInteropJID_def readFBJID_def readADJID_def
  by (intro agree_bind agree_if agree_leaves all_agreeD [OF assms] moves_leaves other_errors)+

lemma agree_attributes: "all_agree n rd rd' \<Longrightarrow> agree n (read_attributes rd k acc) (read_attributes rd' k acc)"
proof (induction k arbitrary: acc)
  case (Suc k)
  have "agree n
     (case v of VStr key \<Rightarrow> bindg (rd True) (\<lambda>val. read_attributes rd k (AList.update key val acc))
       | _ \<Rightarrow> bindg (gets decIndex) (\<lambda>index.
           raise (ErrNonStringKey @ '' at position '' @ show_nat index @ '' (string): '')))
     (case v of VStr key \<Rightarrow> bindg (rd' True) (\<lambda>val. read_attributes rd' k (AList.update key val acc))
       | _ \<Rightarrow> bindg (gets decIndex) (\<lambda>index.
           raise (ErrNonStringKey @ '' at position '' @ show_nat index @ '' (string): '')))" for v
    using Suc.IH [OF Suc.prems] all_agreeD [OF Suc.prems]
    by (cases v) (auto intro!: agree_bind agree_pure move.keeps_pure other_errors)
  then show ?case unfolding read_attributes.simps by (intro agree_bind all_agreeD [OF Suc.prems])
qed (simp add: agree_pure)

lemma agree_element: "(\<And>m. n = Suc m \<Longrightarrow> all_agree m rd rd') \<Longrightarrow> agree n (readNode rd) (readNode rd')"
  unfolding readNode_def readAttributes_def
  by (rule agree_header)
    (intro agree_bind agree_if agree_leaves agree_attributes moves_leaves move.keeps_if move.keeps_pure
      moves_attributes all_agreeD other_errors | assumption)+

lemma agree_node: "all_agree n rd rd' \<Longrightarrow> agree n (readNode rd) (readNode rd')"
  by (rule agree_element) (auto simp: all_agree_def intro: agree_less)

lemma agree_nodes: "all_agree n rd rd' \<Longrightarrow> agree n (read_nodes rd k) (read_nodes rd' k)"
  by (induction k)
    (auto intro!: agree_bind agree_pure agree_node moves_node moves_nodes dest: all_agreeD)

lemma agree_tagged: "all_agree n rd rd' \<Longrightarrow> agree n (read_tagged rd tag b) (read_tagged rd' tag b)"
  unfolding read_tagged_def readList_def
  by (intro agree_bind agree_if agree_leaves agree_jids agree_nodes moves_leaves move.keeps_pure move.keeps_bind
      moves_nodes all_agreeD other_errors)

lemma agree_read: "n < f \<Longrightarrow> n < g \<Longrightarrow> agree n (read f b) (read g b)"
proof (induction n arbitrary: f g b rule: less_induct)
  case (less n)
  then obtain f' g' where fg: "f = Suc f'" "g = Suc g'" by (cases f; cases g) auto
  have "agree m (read_tagged (read f') t b) (read_tagged (read g') t b)" if "n = Suc m" for m t
  proof (rule agree_tagged)
    show "all_agree m (read f') (read g')"
      using less that fg by (simp add: all_agree_def all_moves_read)
  qed
  then show ?case unfolding fg read.simps by (intro agree_byte)
qed

section \<open>The shape of the result\<close>

text \<open>What a reader can return: texts, JIDs, lists of elements, nothing, and bytes where the flag asks
  for them; never a number or a truth value. The keys of attributes are distinct.\<close>

fun wire_node :: "node \<Rightarrow> bool"
  and wire :: "bvalue \<Rightarrow> bool \<Rightarrow> bool"
  and wire_nodes :: "node list \<Rightarrow> bool"
  and wire_attrs :: "(string \<times> bvalue) list \<Rightarrow> bool" where
  "wire_node (Node tag attrs content) =
     (tag \<noteq> '''' \<and> distinct (map fst attrs) \<and> wire_attrs attrs \<and> wire content False)"
| "wire VNil b = True"
| "wire (VJid j) b = (Integrator j = 0 \<or> Server j = InteropServer)"
| "wire (VStr s) b = True"
| "wire (VInt _ i) b = False"
| "wire (VBool x) b = False"
| "wire (VBytes bs) b = (\<not> b)"
| "wire (VNodes ns) b = wire_nodes ns"
| "wire VOther b = False"
| "wire_nodes [] = True"
| "wire_nodes (n # ns) = (wire_node n \<and> wire_nodes ns)"
| "wire_attrs [] = True"
| "wire_attrs ((key, val) # attributes) = (wire val True \<and> wire_attrs attributes)"

lemma wire_update: "wire_attrs as \<Longrightarrow> wire v True \<Longrightarrow> wire_attrs (AList.update k v as)"
  by (induction as) auto

definition all_wire :: "(bool \<Rightarrow> bvalue reader) \<Rightarrow> bool" where
  "all_wire rd = (\<forall>b. yields (\<lambda>v. wire v b) (rd b))"

lemma all_wireD: "all_wire rd \<Longrightarrow> yields (\<lambda>v. wire v b) (rd b)"
  by (simp add: all_wire_def)

lemma wire_jids:
  "yields (\<lambda>v. wire v b) (readJIDPair rd)" "yields (\<lambda>v. wire v b) (readInteropJID rd)"
  "yields (\<lambda>v. wire v b) (readFBJID rd)" "yields (\<lambda>v. wire v b) (readADJID rd)"
  unfolding readJIDPair_def readInteropJID_def readFBJID_def readADJID_def
  by (intro yields_intros; simp add: NewJID_def NewADJID_def Let_def)+

lemma wire_attributes:
  "all_wire rd \<Longrightarrow> distinct (map fst acc) \<Longrightarrow> wire_attrs acc \<Longrightarrow>
   yields (\<lambda>as. distinct (map fst as) \<and> wire_attrs as) (read_attributes rd k acc)"
proof (induction k arbitrary: acc)
  case (Suc k)
  have "yields (\<lambda>as. distinct (map fst as) \<and> wire_attrs as)
     (case v of VStr key \<Rightarrow> bindg (rd True) (\<lambda>val. read_attributes rd k (AList.update key val acc))
       | _ \<Rightarrow> bindg (gets decIndex) (\<lambda>index.
           raise (ErrNonStringKey @ '' at position '' @ show_nat index @ '' (string): '')))" for v
  proof (cases v)
    case (VStr key)
    have "yields (\<lambda>as. distinct (map fst as) \<and> wire_attrs as)
       (bindg (rd True) (\<lambda>val. read_attributes rd k (AList.update key val acc)))"
      by (rule yields_then [OF all_wireD [OF Suc.prems(1)]])
        (rule Suc.IH [OF Suc.prems(1)], auto intro: wire_update distinct_update simp: Suc.prems)
    with VStr show ?thesis by simp
  qed (auto intro!: yields_intros)
  then show ?case unfolding read_attributes.simps by (rule yields_bind)
qed (simp add: yields_basic)

lemma wire_readNode:
  assumes "all_wire rd"
  shows "yields wire_node (readNode rd)"
proof -
  have as: "yields (\<lambda>as. distinct (map fst as) \<and> wire_attrs as) (readAttributes rd k)" for k
    unfolding readAttributes_def by (intro yields_cases yields_basic wire_attributes assms) simp_all
  have "yields wire_node
     (if n = 0 \<or> tag = '''' then raise ErrInvalidNode
      else bindg (readAttributes rd (drop_bit 1 (n - 1))) (\<lambda>attrs.
         if n mod 2 = 1 then ret (Node tag attrs VNil)
         else bindg (rd False) (\<lambda>content. ret (Node tag attrs content))))" for n tag
  proof (cases "n = 0 \<or> tag = ''''")
    case False
    have "yields wire_node (bindg (readAttributes rd (drop_bit 1 (n - 1))) (\<lambda>attrs.
         if n mod 2 = 1 then ret (Node tag attrs VNil)
         else bindg (rd False) (\<lambda>content. ret (Node tag attrs content))))"
      by (rule yields_then [OF as], intro yields_cases)
        (use False in \<open>auto intro!: yields_basic yields_then [OF all_wireD [OF assms]]\<close>)
    with False show ?thesis by simp
  qed (simp add: yields_basic)
  then show ?thesis unfolding readNode_def by (intro yields_bind) blast
qed

lemma wire_read_nodes: "all_wire rd \<Longrightarrow> yields wire_nodes (read_nodes rd k)"
proof (induction k)
  case (Suc k)
  then show ?case
    by (auto intro!: yields_basic yields_then [OF wire_readNode] yields_then [OF Suc.IH])
qed (simp add: yields_basic)

lemma wire_tagged:
  assumes "all_wire rd"
  shows "yields (\<lambda>v. wire v b) (read_tagged rd tag b)"
proof -
  have nodes: "yields (\<lambda>v. wire v b) (bindg (readList rd tag) (\<lambda>ns. ret (VNodes ns)))"
    by (rule yields_then [of wire_nodes])
      (auto simp: readList_def intro!: yields_bind yields_basic wire_read_nodes assms)
  have bytes: "yields (\<lambda>v. wire v b) (bindg m (\<lambda>n. readBytesOrString n b))" for m
    unfolding readBytesOrString_def by (intro yields_intros) simp
  show ?thesis
    unfolding read_tagged_def by (intro yields_intros nodes bytes wire_jids) simp_all
qed

lemma wire_read: "yields (\<lambda>v. wire v b) (read f b)"
proof (induction f arbitrary: b)
  case (Suc f)
  then have "all_wire (read f)" by (simp add: all_wire_def)
  then show ?case unfolding read.simps by (intro yields_bind wire_tagged)
qed (simp add: yields_basic)

lemma all_wire_read: "all_wire (read f)"
  by (simp add: all_wire_def wire_read)

end
