(* ===== verification/BinaryProperties.thy ===== *)
theory BinaryProperties
  imports BinaryRoundTrip BinaryDecoding
begin

text \<open>
  The theorems about binary XML as a whole: an element that can be written is read back as the element
  \<open>delivered_node\<close> describes, elements in the form the library builds them in unchanged; the fuel of
  \<open>read\<close> never runs out, so decoding ends on every input; what is decoded is well formed; and what
  ill-formed input does.
\<close>

section \<open>What can be written and what arrives\<close>

text \<open>The bounds are those of the format: two bytes for the length of a list, and the tag \<open>0\<close>, which is
  written as an empty list.\<close>

fun encodable_node :: "node \<Rightarrow> bool"
  and encodable :: "bvalue \<Rightarrow> bool"
  and encodable_nodes :: "node list \<Rightarrow> bool"
  and encodable_attrs :: "(string \<times> bvalue) list \<Rightarrow> bool" where
  "encodable_node (Node tag attrs content) =
     (tag \<noteq> '''' \<and> tag \<noteq> ''0'' \<and> short tag \<and> distinct (map fst attrs) \<and>
      2 * countAttributes attrs + 2 < 2 ^ 16 \<and> encodable_attrs attrs \<and> encodable content)"
| "encodable VNil = True"
| "encodable (VJid j) = (short (User j) \<and> short (Server j))"
| "encodable (VStr s) = short s"
| "encodable (VInt _ i) = (\<bar>i\<bar> < 2 ^ 64)"
| "encodable (VBool b) = True"
| "encodable (VBytes bs) = short bs"
| "encodable (VNodes ns) = (length ns < 2 ^ 16 \<and> encodable_nodes ns)"
| "encodable VOther = False"
| "encodable_nodes [] = True"
| "encodable_nodes (n # ns) = (encodable_node n \<and> encodable_nodes ns)"
| "encodable_attrs [] = True"
| "encodable_attrs ((key, val) # attributes) =
     ((skipped_attr val \<or> short key \<and> encodable val) \<and> encodable_attrs attributes)"

text \<open>The element the reader sees; the flag is the one of \<open>read\<close>.\<close>

fun delivered_node :: "node \<Rightarrow> node"
  and delivered :: "bvalue \<Rightarrow> bool \<Rightarrow> bvalue"
  and delivered_nodes :: "node list \<Rightarrow> node list"
  and delivered_attrs :: "(string \<times> bvalue) list \<Rightarrow> (string \<times> bvalue) list" where
  "delivered_node (Node tag attrs content) = Node tag (delivered_attrs attrs) (delivered content False)"
| "delivered VNil b = VNil"
| "delivered (VJid j) b = VJid (delivered_jid j)"
| "delivered (VStr s) b = text_form b s"
| "delivered (VInt _ i) b = text_form b (show_int i)"
| "delivered (VBool x) b = text_form b (show_bool x)"
| "delivered (VBytes bs) b = (if b then VStr bs else VBytes bs)"
| "delivered (VNodes ns) b = (if ns = [] then VNil else VNodes (delivered_nodes ns))"
| "delivered VOther b = VOther"
| "delivered_nodes [] = []"
| "delivered_nodes (n # ns) = delivered_node n # delivered_nodes ns"
| "delivered_attrs [] = []"
| "delivered_attrs ((key, val) # attributes) =
     (if skipped_attr val then delivered_attrs attributes
      else (key, delivered val True) # delivered_attrs attributes)"

lemma show_nat_length: "n < 10 ^ Suc k \<Longrightarrow> length (show_nat n) \<le> Suc k"
proof (induction k arbitrary: n)
  case 0
  then show ?case by (subst show_nat.simps) simp
next
  case (Suc k)
  then have "n div 10 < 10 ^ Suc k" by (simp add: less_mult_imp_div_less)
  with Suc.IH show ?case by (subst show_nat.simps) auto
qed

lemma show_int_short: "\<bar>i\<bar> < 2 ^ 64 \<Longrightarrow> short (show_int i)"
proof -
  assume i: "\<bar>i\<bar> < 2 ^ 64"
  have "length (show_nat (nat \<bar>i\<bar>)) \<le> Suc 19"
    by (rule show_nat_length) (use i in \<open>simp add: nat_less_iff\<close>)
  then show ?thesis by (auto simp: short_def show_int_def MaxInt32_def abs_if split: if_splits)
qed

lemma show_bool_short: "short (show_bool b)"
  by (simp add: short_def show_bool_def MaxInt32_def)

section \<open>Lists and elements\<close>

lemma writeListStart_tag:
  "0 < n \<Longrightarrow> n < 256 \<Longrightarrow> writes (writeListStart n) (byte List8 # be_bytes 1 n)"
  "256 \<le> n \<Longrightarrow> writes (writeListStart n) (byte List16 # be_bytes 2 n)"
  by (simp_all add: writeListStart_def pushInt8_def pushInt16_def writes_byte_bind pushIntN_writes)

lemma readListSize_tag:
  "n < 256 \<Longrightarrow> reads (readListSize (byte_val (byte List8))) (be_bytes 1 n) n"
  "n < 2 ^ 16 \<Longrightarrow> reads (readListSize (byte_val (byte List16))) (be_bytes 2 n) n"
  using readInt_reads by (simp_all add: readListSize_def tag_defs)

text \<open>The start of a non-empty list: a tag that both \<open>read\<close> and \<open>readNode\<close> take for one.\<close>

lemma list_start:
  assumes "0 < n" "n < 2 ^ 16"
  obtains t bs where "writes (writeListStart n) (byte t # bs)" "t = List8 \<or> t = List16"
    "reads (readListSize (byte_val (byte t))) bs n" "byte_val (byte t) = t"
proof (cases "n < 256")
  case True
  with assms show ?thesis
    by (intro that [of List8 "be_bytes 1 n"] writeListStart_tag(1) readListSize_tag(1)) (simp_all add: List8_def)
next
  case False
  with assms show ?thesis
    by (intro that [of List16 "be_bytes 2 n"] writeListStart_tag(2) readListSize_tag(2)) (simp_all add: List16_def)
qed

lemma header_byte: "reads (readInt8 False) [b] (byte_val b)"
  using readInt_reads(1) [of "byte_val b"] one_byte [of "byte_val b"] by simp

definition node_codec :: "node \<Rightarrow> bool" where
  "node_codec n = (\<exists>bs. writes (writeNode n) bs \<and>
     (\<forall>f. length bs \<le> f \<longrightarrow> reads (readNode (read f)) bs (delivered_node n)))"

definition nodes_codec :: "node list \<Rightarrow> bool" where
  "nodes_codec ns = (\<exists>bs. writes (writeNodes ns) bs \<and>
     (\<forall>f. length bs \<le> f \<longrightarrow> reads (read_nodes (read f) (length ns)) bs (delivered_nodes ns)))"

definition attrs_codec :: "(string \<times> bvalue) list \<Rightarrow> bool" where
  "attrs_codec as = (\<exists>bs. writes (writeAttributes as) bs \<and>
     (\<forall>f acc. length bs \<le> f \<longrightarrow> distinct (map fst as) \<longrightarrow> set (map fst as) \<inter> set (map fst acc) = {} \<longrightarrow>
       reads (read_attributes (read f) (countAttributes as) acc) bs (acc @ delivered_attrs as)))"

lemma nodes_codec_Cons:
  assumes "node_codec n" and "nodes_codec ns"
  shows "nodes_codec (n # ns)"
proof -
  from assms(1) obtain a where a: "writes (writeNode n) a"
    "\<And>f. length a \<le> f \<Longrightarrow> reads (readNode (read f)) a (delivered_node n)" by (auto simp: node_codec_def)
  from assms(2) obtain b where b: "writes (writeNodes ns) b"
    "\<And>f. length b \<le> f \<Longrightarrow> reads (read_nodes (read f) (length ns)) b (delivered_nodes ns)"
    by (auto simp: nodes_codec_def)
  have "writes (writeNodes (n # ns)) (a @ b)" by (simp add: writes_bind a b)
  moreover have "reads (read_nodes (read f) (length (n # ns))) (a @ b) (delivered_nodes (n # ns))"
    if "length (a @ b) \<le> f" for f
    using that by (auto intro!: reads_bind [OF a(2)] reads_bind_last [OF b(2)])
  ultimately show ?thesis unfolding nodes_codec_def by blast
qed

lemma update_fresh: "k \<notin> set (map fst acc) \<Longrightarrow> AList.update k v acc = acc @ [(k, v)]"
  by (induction acc) auto

lemma attrs_codec_Cons:
  assumes "\<not> skipped_attr v" "short k" "codec (write v) (delivered v)" and "attrs_codec as"
  shows "attrs_codec ((k, v) # as)"
proof -
  from text_read [OF assms(2)] obtain ks where k: "writes (writeString k) ks"
    "\<And>f. length ks \<le> f \<Longrightarrow> reads (read f True) ks (VStr k)" by blast
  from assms(3) obtain vs where v: "writes (write v) vs"
    "\<And>f b. length vs \<le> f \<Longrightarrow> reads (read f b) vs (delivered v b)" by (auto simp: codec_def)
  from assms(4) obtain bs where b: "writes (writeAttributes as) bs"
    "\<And>f acc. length bs \<le> f \<Longrightarrow> distinct (map fst as) \<Longrightarrow> set (map fst as) \<inter> set (map fst acc) = {} \<Longrightarrow>
       reads (read_attributes (read f) (countAttributes as) acc) bs (acc @ delivered_attrs as)"
    by (auto simp: attrs_codec_def)
  have "writes (writeAttributes ((k, v) # as)) (ks @ vs @ bs)"
    using assms(1) by (simp add: writes_bind k v b)
  moreover have "reads (read_attributes (read f) (countAttributes ((k, v) # as)) acc) (ks @ vs @ bs)
      (acc @ delivered_attrs ((k, v) # as))"
    if len: "length (ks @ vs @ bs) \<le> f" and d: "distinct (map fst ((k, v) # as))"
      and fresh: "set (map fst ((k, v) # as)) \<inter> set (map fst acc) = {}" for f acc
  proof -
    have "reads (read_attributes (read f) (countAttributes as) (AList.update k (delivered v True) acc)) bs
       ((acc @ [(k, delivered v True)]) @ delivered_attrs as)"
      using len d fresh b(2) [of f "acc @ [(k, delivered v True)]"] by (subst update_fresh) auto
    then have "reads (read_attributes (read f) (Suc (countAttributes as)) acc) (ks @ vs @ bs)
       ((acc @ [(k, delivered v True)]) @ delivered_attrs as)"
      using len by (auto intro!: reads_bind [OF k(2)] reads_bind [OF v(2)])
    then show ?thesis using assms(1) by (simp add: countAttributes_def)
  qed
  ultimately show ?thesis unfolding attrs_codec_def by blast
qed

lemma nodes_value_codec:
  assumes "nodes_codec ns" and "length ns < 2 ^ 16"
  shows "codec (write (VNodes ns)) (delivered (VNodes ns))"
proof (cases "ns = []")
  case True
  have "writes (writeListStart 0) [byte ListEmpty]" by (simp add: writeListStart_def writes_push)
  from writes_bind [OF this writes_ret] True have "writes (write (VNodes ns)) (byte ListEmpty # [])"
    by simp
  then show ?thesis
    by (rule codecI) (simp add: True read_tagged_def tag_defs reads_ret)
next
  case False
  with assms(2) obtain t hs where h: "writes (writeListStart (length ns)) (byte t # hs)"
    "t = List8 \<or> t = List16" "reads (readListSize t) hs (length ns)" "byte_val (byte t) = t"
    using list_start [of "length ns"] by (metis length_greater_0_conv)
  from assms(1) obtain bs where b: "writes (writeNodes ns) bs"
    "\<And>f. length bs \<le> f \<Longrightarrow> reads (read_nodes (read f) (length ns)) bs (delivered_nodes ns)"
    by (auto simp: nodes_codec_def)
  from writes_bind [OF h(1) b(1)] have "writes (write (VNodes ns)) (byte t # hs @ bs)" by simp
  then show ?thesis
  proof (rule codecI)
    fix f b' assume len: "length (hs @ bs) \<le> f"
    have "reads (readList (read f) t) (hs @ bs) (delivered_nodes ns)"
      unfolding readList_def using len by (auto intro!: reads_bind [OF h(3)] b(2))
    from reads_then [OF this, of VNodes]
    show "reads (read_tagged (read f) (byte_val (byte t)) b') (hs @ bs) (delivered (VNodes ns) b')"
      using h(2) False unfolding h(4) by (auto simp: read_tagged_def tag_defs)
  qed
qed

lemma attrs_codec_nil:
  assumes "attrs_codec as" and "distinct (map fst as)"
  shows "\<exists>bs. writes (writeAttributes as) bs \<and>
    (\<forall>f. length bs \<le> f \<longrightarrow> reads (read_attributes (read f) (countAttributes as) []) bs (delivered_attrs as))"
proof -
  from assms(1) obtain bs where b: "writes (writeAttributes as) bs"
    and r: "\<And>f acc. length bs \<le> f \<Longrightarrow> distinct (map fst as) \<Longrightarrow> set (map fst as) \<inter> set (map fst acc) = {} \<Longrightarrow>
       reads (read_attributes (read f) (countAttributes as) acc) bs (acc @ delivered_attrs as)"
    unfolding attrs_codec_def by blast
  have "reads (read_attributes (read f) (countAttributes as) []) bs (delivered_attrs as)" if "length bs \<le> f" for f
    using r [OF that assms(2), of "[]"] by simp
  with b show ?thesis by blast
qed

text \<open>The header of an element holds the number of its parts, odd without a content.\<close>

lemma node_codec_Node:
  assumes "tag \<noteq> ''''" "tag \<noteq> ''0''" "short tag" "distinct (map fst as)" "2 * countAttributes as + 2 < 2 ^ 16"
    and "attrs_codec as" and "codec (write c) (delivered c)"
  shows "node_codec (Node tag as c)"
proof -
  define n where "n = 2 * countAttributes as + (if c \<noteq> VNil then 2 else 1)"
  have n: "0 < n" "n < 2 ^ 16" "drop_bit 1 (n - 1) = countAttributes as" "n mod 2 = 1 \<longleftrightarrow> c = VNil"
    using assms(5) by (auto simp: n_def drop_bit_Suc)
  from list_start [OF n(1,2)] obtain t hs where h: "writes (writeListStart n) (byte t # hs)"
    "reads (readListSize (byte_val (byte t))) hs n" by metis
  from text_read [OF assms(3)] obtain ts where ts: "writes (writeString tag) ts"
    "\<And>f. length ts \<le> f \<Longrightarrow> reads (read f True) ts (VStr tag)" by blast
  from attrs_codec_nil [OF assms(6,4)] obtain bs where b: "writes (writeAttributes as) bs"
    "\<And>f. length bs \<le> f \<Longrightarrow> reads (read_attributes (read f) (countAttributes as) []) bs (delivered_attrs as)"
    by blast
  have attrs: "length bs \<le> f \<Longrightarrow> reads (readAttributes (read f) (countAttributes as)) bs (delivered_attrs as)" for f
    using b(2) [of f] by (auto simp: readAttributes_def)
  from assms(7) obtain cs where cs: "writes (write c) cs"
    "\<And>f b. length cs \<le> f \<Longrightarrow> reads (read f b) cs (delivered c b)" by (auto simp: codec_def)
  let ?cs = "if c \<noteq> VNil then cs else []"
  have wc: "writes (if c \<noteq> VNil then write c else ret ()) ?cs" using cs(1) writes_ret by simp
  have "writeNode (Node tag as c) = bindg (writeListStart n) (\<lambda>_. bindg (writeString tag) (\<lambda>_.
      bindg (writeAttributes as) (\<lambda>_. if c \<noteq> VNil then write c else ret ())))"
    using assms(2) by (simp add: n_def tagSize_def)
  then have w: "writes (writeNode (Node tag as c)) ((byte t # hs) @ ts @ bs @ ?cs)"
    by (simp only: writes_bind [OF h(1) writes_bind [OF ts(1) writes_bind [OF b(1) wc]]])
  have "reads (readNode (read f)) ([byte t] @ hs @ ts @ bs @ ?cs) (delivered_node (Node tag as c))"
    if len: "length ((byte t # hs) @ ts @ bs @ ?cs) \<le> f" for f
    unfolding readNode_def
  proof (intro reads_bind [OF header_byte] reads_bind [OF h(2)] reads_bind [OF ts(2)])
    show "length ts \<le> f" using len by simp
    have "reads (if n mod 2 = 1 then ret (Node tag (delivered_attrs as) VNil)
        else bindg (read f False) (\<lambda>content. ret (Node tag (delivered_attrs as) content))) ?cs
        (delivered_node (Node tag as c))"
      using n(4) len cs(2) [of f False] reads_then [OF cs(2) [of f False], of "Node tag (delivered_attrs as)"]
      by (cases "c = VNil") (simp_all add: reads_ret)
    then have "reads (bindg (readAttributes (read f) (drop_bit 1 (n - 1))) (\<lambda>attrs.
        if n mod 2 = 1 then ret (Node tag attrs VNil)
        else bindg (read f False) (\<lambda>content. ret (Node tag attrs content)))) (bs @ ?cs)
        (delivered_node (Node tag as c))"
      unfolding n(3) by (rule reads_bind [OF attrs, rotated]) (use len in simp)
    then show "reads (bindg (assert_string (VStr tag)) (\<lambda>tag. if n = 0 \<or> tag = '''' then raise ErrInvalidNode
        else bindg (readAttributes (read f) (drop_bit 1 (n - 1))) (\<lambda>attrs.
          if n mod 2 = 1 then ret (Node tag attrs VNil)
          else bindg (read f False) (\<lambda>content. ret (Node tag attrs content))))) (bs @ ?cs)
        (delivered_node (Node tag as c))"
      using n(1) assms(1) by simp
  qed
  with w show ?thesis unfolding node_codec_def by fastforce
qed

lemma nil_codec: "codec (write VNil) (delivered VNil)"
proof -
  have "writes (write VNil) (byte ListEmpty # [])" by (simp add: writes_push)
  then show ?thesis by (rule codecI) (simp add: read_tagged_def tag_defs reads_ret)
qed

lemma all_codecs:
  "encodable_node n \<Longrightarrow> node_codec n"
  "encodable v \<Longrightarrow> codec (write v) (delivered v)"
  "encodable_nodes ns \<Longrightarrow> nodes_codec ns"
  "encodable_attrs as \<Longrightarrow> attrs_codec as"
proof (induction n and v and ns and as rule: encodable_node_encodable_encodable_nodes_encodable_attrs.induct)
  case (1 tag attrs content)
  then show ?case by (intro node_codec_Node) simp_all
next
  case 2
  show ?case by (rule nil_codec)
next
  case (3 j)
  then have "codec (writeJID j) (\<lambda>b. VJid (delivered_jid j))" by (intro jid_codec) simp_all
  moreover have "delivered (VJid j) = (\<lambda>b. VJid (delivered_jid j))" by (simp add: fun_eq_iff)
  ultimately show ?case by simp
next
  case (4 s)
  then have "codec (writeString s) (\<lambda>b. text_form b s)" by (intro text_codec) simp
  moreover have "delivered (VStr s) = (\<lambda>b. text_form b s)" by (simp add: fun_eq_iff)
  ultimately show ?case by simp
next
  case (5 t i)
  then have "codec (writeString (show_int i)) (\<lambda>b. text_form b (show_int i))"
    by (intro text_codec show_int_short) simp
  moreover have "delivered (VInt t i) = (\<lambda>b. text_form b (show_int i))" by (simp add: fun_eq_iff)
  ultimately show ?case by simp
next
  case (6 x)
  have "codec (writeString (show_bool x)) (\<lambda>b. text_form b (show_bool x))"
    by (intro text_codec show_bool_short)
  moreover have "delivered (VBool x) = (\<lambda>b. text_form b (show_bool x))" by (simp add: fun_eq_iff)
  ultimately show ?case by simp
next
  case (7 bs)
  then have "codec (writeBytes bs) (\<lambda>b. if b then VStr bs else VBytes bs)"
    unfolding writeBytes_def by (intro bytes_codec) simp
  moreover have "delivered (VBytes bs) = (\<lambda>b. if b then VStr bs else VBytes bs)" by (simp add: fun_eq_iff)
  ultimately show ?case by simp
next
  case (8 ns)
  then show ?case by (intro nodes_value_codec) simp_all
next
  case 9
  then show ?case by simp
next
  case 10
  show ?case by (auto simp: nodes_codec_def writes_ret reads_ret intro!: exI [of _ "[]"])
next
  case (11 n ns)
  then show ?case by (intro nodes_codec_Cons) simp_all
next
  case 12
  show ?case by (auto simp: attrs_codec_def countAttributes_def writes_ret reads_ret intro!: exI [of _ "[]"])
next
  case (13 k v as)
  show ?case
  proof (cases "skipped_attr v")
    case True
    with 13 have "attrs_codec as" by simp
    with True show ?thesis by (auto simp: attrs_codec_def countAttributes_def)
  next
    case False
    with 13 show ?thesis by (intro attrs_codec_Cons) simp_all
  qed
qed

section \<open>The theorems\<close>

text \<open>Elements as the library builds them: attributes are non-empty texts or JIDs with the parts the
  format carries, the content is missing, bytes, or a non-empty list of such elements.\<close>

definition plain_jid :: "jid \<Rightarrow> bool" where
  "plain_jid j = (delivered_jid j = j)"

fun plain_node :: "node \<Rightarrow> bool"
  and plain_nodes :: "node list \<Rightarrow> bool"
  and plain_attrs :: "(string \<times> bvalue) list \<Rightarrow> bool" where
  "plain_node (Node tag attrs content) =
     (plain_attrs attrs \<and>
      (case content of VNil \<Rightarrow> True | VBytes _ \<Rightarrow> True | VNodes ns \<Rightarrow> ns \<noteq> [] \<and> plain_nodes ns | _ \<Rightarrow> False))"
| "plain_nodes [] = True"
| "plain_nodes (n # ns) = (plain_node n \<and> plain_nodes ns)"
| "plain_attrs [] = True"
| "plain_attrs ((key, val) # attributes) =
     ((case val of VStr s \<Rightarrow> s \<noteq> '''' | VJid j \<Rightarrow> plain_jid j | _ \<Rightarrow> False) \<and> plain_attrs attributes)"

lemma plain_delivered:
  "plain_node n \<Longrightarrow> delivered_node n = n"
  "plain_nodes ns \<Longrightarrow> delivered_nodes ns = ns"
  "plain_attrs as \<Longrightarrow> delivered_attrs as = as"
proof (induction n and ns and as rule: plain_node_plain_nodes_plain_attrs.induct)
  case (1 tag attrs content)
  then show ?case by (cases content) auto
next
  case (5 key val attributes)
  then show ?case by (cases val) (auto simp: skipped_attr_def text_form_def plain_jid_def)
qed auto

lemma marshal_body:
  assumes "encodable_node n"
  obtains body where "Marshal n = Return (byte 0 # body)"
    "\<And>f. length body \<le> f \<Longrightarrow> reads (readNode (read f)) body (delivered_node n)"
proof -
  from all_codecs(1) [OF assms] obtain bs where "writes (writeNode n) bs"
    "\<And>f. length bs \<le> f \<Longrightarrow> reads (readNode (read f)) bs (delivered_node n)" by (auto simp: node_codec_def)
  then show ?thesis
    by (intro that [of bs]) (simp_all add: Marshal_def writes_def bindg_def getData_def newEncoder_def run_basic)
qed

lemma unmarshal_body:
  assumes "\<And>f. length body \<le> f \<Longrightarrow> reads (readNode (read f)) body m"
  shows "Unmarshal body = Return m"
proof -
  have "readNode (read (length body)) \<lparr>decData = body, decIndex = 0\<rparr> =
      (Return m, \<lparr>decData = body, decIndex = length body\<rparr>)"
    using assms [OF order_refl, unfolded reads_def, rule_format, of "[]" "[]"] by simp
  then show ?thesis by (simp add: Unmarshal_def newDecoder_def bindg_def run_basic)
qed

text \<open>C3: An element within the bounds of the format is marshalled without a panic; unpacking and
  unmarshalling the bytes gives the element as the format delivers it (numbers and truth values as
  texts, empty attributes left out, JIDs cut to what their server carries), and an element built the
  way the library builds them unchanged.\<close>

theorem marshal_round_trip:
  assumes "encodable_node n"
  shows "\<exists>data body. Marshal n = Return data \<and> Unpack inflate data = Return body \<and>
    Unmarshal body = Return (delivered_node n) \<and> (plain_node n \<longrightarrow> Unmarshal body = Return n)"
proof -
  from marshal_body [OF assms] obtain body where b: "Marshal n = Return (byte 0 # body)"
    "\<And>f. length body \<le> f \<Longrightarrow> reads (readNode (read f)) body (delivered_node n)" by blast
  from unmarshal_body [OF b(2)] have "Unmarshal body = Return (delivered_node n)" .
  moreover have "Unpack inflate (byte 0 # body) = Return body" by (simp add: Unpack_def)
  ultimately show ?thesis using b(1) plain_delivered(1) by auto
qed

definition sample_node :: node where
  "sample_node = Node ''iq''
     [(''id'', VStr ''17''), (''to'', VJid (NewJID ''5511999998888'' DefaultUserServer)), (''type'', VStr ''get'')]
     (VNodes [Node ''item'' [] (VBytes ''abc''), Node ''list'' [(''hash'', VStr ''X'')] VNil])"

lemma marshal_round_trip_witness:
  "\<exists>data body. Marshal sample_node = Return data \<and> Unpack (\<lambda>_. Err '''') data = Return body \<and>
    Unmarshal body = Return (delivered_node sample_node) \<and>
    (plain_node sample_node \<longrightarrow> Unmarshal body = Return sample_node)"
  by (rule marshal_round_trip)
    (simp add: sample_node_def short_def MaxInt32_def countAttributes_def skipped_attr_def NewJID_def server_defs)

lemma map_of_delivered:
  "distinct (map fst as) \<Longrightarrow> map_of as key = Some v \<Longrightarrow>
   map_of (delivered_attrs as) key = (if skipped_attr v then None else Some (delivered v True))"
proof (induction as)
  case (Cons a as)
  obtain k w where a: "a = (k, w)" by (cases a)
  have "map_of (delivered_attrs as) k = None" if "k \<notin> fst ` set as"
    using that by (induction as) auto
  with Cons a show ?case by auto
qed simp

lemma atoi_show_int: "- (2 ^ 63) \<le> i \<Longrightarrow> i < 2 ^ 63 \<Longrightarrow> atoi (show_int i) = Some i"
  using atoi_show_nat [of "nat i"] show_nat_digits [of "nat (- i)"]
  by (auto simp: show_int_def atoi_def Let_def split: list.splits)

lemma parse_show_bool: "parse_bool (show_bool b) = Some b"
  by (simp add: parse_bool_def show_bool_def)

text \<open>What the attribute readers make of an attribute that was marshalled: numbers, truth values,
  texts and JIDs come back, without an error; an attribute that was the empty text is reported as
  missing.\<close>

theorem sent_attribute_read:
  assumes "encodable_node n" and "map_of (Attrs n) key = Some v"
  shows "\<exists>data body m. Marshal n = Return data \<and> Unpack inflate data = Return body \<and>
    Unmarshal body = Return m \<and> (let au = AttrGetter m in
    case v of
      VInt t i \<Rightarrow> - (2 ^ 63) \<le> i \<and> i < 2 ^ 63 \<longrightarrow> GetInt64 key True au = ((i, True), au)
    | VBool b \<Rightarrow> GetBool key True au = ((b, True), au)
    | VStr s \<Rightarrow> GetString key True au =
        (if s = '''' then ((s, False), add_error (MissingString key) au) else ((s, True), au))
    | VJid j \<Rightarrow> GetJID key True au = ((delivered_jid j, True), au)
    | _ \<Rightarrow> True)"
proof -
  obtain tag as c where n: "n = Node tag as c" by (cases n)
  from marshal_body [OF assms(1)] obtain b where b: "Marshal n = Return (byte 0 # b)"
    "\<And>f. length b \<le> f \<Longrightarrow> reads (readNode (read f)) b (delivered_node n)" by blast
  from unmarshal_body [OF b(2)] have "Unmarshal b = Return (delivered_node n)" .
  moreover have "Unpack inflate (byte 0 # b) = Return b" by (simp add: Unpack_def)
  moreover have "map_of (delivered_attrs as) key = (if skipped_attr v then None else Some (delivered v True))"
    using assms(1,2) n by (intro map_of_delivered) simp_all
  ultimately show ?thesis
    using b(1) by (cases v) (auto simp: n AttrGetter_def GetInt64_def GetBool_def GetString_def GetJID_def
        skipped_attr_def text_form_def atoi_show_int parse_show_bool)
qed

definition counted_node :: node where
  "counted_node = Node ''receipt'' [(''id'', VStr ''A1''), (''count'', VInt TUint32 12)] VNil"

lemma sent_attribute_read_witness:
  "\<exists>data body m. Marshal counted_node = Return data \<and> Unpack (\<lambda>_. Err '''') data = Return body \<and>
    Unmarshal body = Return m \<and> GetInt64 ''count'' True (AttrGetter m) = ((12, True), AttrGetter m)"
  using sent_attribute_read [of counted_node "''count''" "VInt TUint32 12" "\<lambda>_. Err ''''"]
  by (simp add: counted_node_def short_def MaxInt32_def countAttributes_def skipped_attr_def Let_def)

text \<open>C22: Decoding ends on every input. The element is read with one unit of fuel for each byte; more
  fuel changes neither the result nor the decoder, and the fuel never runs out.\<close>

theorem decoder_terminates:
  assumes "length data \<le> f"
  shows "readNode (read f) (newDecoder data) = readNode (read (length data)) (newDecoder data) \<and>
    Unmarshal data \<noteq> Raise out_of_fuel"
proof -
  have "all_agree m (read f) (read (length data))" if "length data = Suc m" for m
    using assms that unfolding all_agree_def by (intro conjI allI all_moves_read agree_read) simp_all
  then have "agree (length data) (readNode (read f)) (readNode (read (length data)))" by (rule agree_element)
  moreover have "left (newDecoder data) \<le> length data" by (simp add: left_def newDecoder_def)
  ultimately have *: "readNode (read f) (newDecoder data) = readNode (read (length data)) (newDecoder data)"
    "fst (readNode (read (length data)) (newDecoder data)) \<noteq> Raise out_of_fuel"
    using agree_at by blast+
  have "show_nat k @ '' leftover bytes after decoding'' \<noteq> out_of_fuel" for k
  proof -
    have "length (show_nat k @ '' leftover bytes after decoding'') \<noteq> length out_of_fuel"
      by (simp add: out_of_fuel_def)
    then show ?thesis by metis
  qed
  with * show ?thesis
    by (cases "readNode (read (length data)) (newDecoder data)")
      (auto simp: Unmarshal_def bindg_def run_basic split: outcome.splits)
qed

lemma decoder_terminates_witness:
  "readNode (read 9) (newDecoder ''abc'') = readNode (read (length ''abc'')) (newDecoder ''abc'') \<and>
   Unmarshal ''abc'' \<noteq> Raise out_of_fuel"
  by (rule decoder_terminates) simp

text \<open>C21: Whatever bytes are decoded, the decoder stays inside them and leaves them unchanged, and an
  element that is returned is well formed all the way down: tags are not empty, the keys of attributes
  are distinct, attributes are texts, JIDs, lists or missing, and no number, truth value or foreign
  type occurs.\<close>

theorem decoded_well_formed:
  assumes "readNode (read f) (newDecoder data) = (r, d)"
  shows "decData d = data \<and> decIndex d \<le> length data \<and> (\<forall>n. r = Return n \<longrightarrow> wire_node n)"
proof -
  have "keeps moves (readNode (read f))" by (intro moves_node all_moves_read)
  from keepsD [OF this assms] have "decData d = data \<and> decIndex d \<le> length data"
    by (auto simp: moves_def newDecoder_def)
  moreover have "yields wire_node (readNode (read f))" by (intro wire_readNode all_wire_read)
  ultimately show ?thesis using assms unfolding yields_def by blast
qed

lemma decoded_well_formed_witness: "wire_node (Node ''participant'' [] VNil)"
proof -
  have "readNode (read 3) (newDecoder [byte 248, byte 1, byte 5]) =
    (Return (Node ''participant'' [] VNil), \<lparr>decData = [byte 248, byte 1, byte 5], decIndex = 3\<rparr>)"
    by (simp add: newDecoder_def readNode_def readInt8_def readIntN_def checkEOS_def advance_def numeral_3_eq_3
        readListSize_def tag_defs readByte_def read_tagged_def assert_string_def int_at_def readAttributes_def
        bindg_def run_basic SingleByteTokens_def)
  from decoded_well_formed [OF this] show ?thesis by blast
qed

text \<open>An element whose tag is the empty list makes the decoder panic in the type assertion on the
  tag, whatever follows.\<close>

theorem nil_tag_panics: "Unmarshal (byte List8 # k # byte ListEmpty # rest) = Crash"
  by (simp add: Unmarshal_def newDecoder_def readNode_def readInt8_def readIntN_def checkEOS_def advance_def
      readListSize_def tag_defs readByte_def read_tagged_def assert_string_def int_at_def bindg_def run_basic)

end
