(* ===== verification/FrameSocket.thy ===== *)
theory FrameSocket
  imports BinaryTokens GoMonad
begin

text \<open>
  Frames on a web socket: \<open>whatsmeow-lib/socket/framesocket.go\<close> and the encrypted frames of
  \<open>whatsmeow-lib/socket/noisesocket.go\<close>. A frame is sent with its length in three bytes, the first one
  after a connection header. \<open>processData\<close> takes the stream apart again; messages of the web socket
  need not end where frames end. Whether a write to the connection fails is a parameter, as is the
  cipher. The channel of complete frames is the list of the frames that were put into it.
\<close>

record FrameSocket =
  fsConn :: bool
  fsHeader :: "string option"
  fsWritten :: "string list"
  fsFrames :: "string list"
  fsIncomingLength :: nat
  fsReceivedLength :: nat
  fsIncoming :: "string option"
  fsPartialHeader :: "string option"

definition FrameMaxSize :: nat where "FrameMaxSize = 2 ^ 24"
definition FrameLengthSize :: nat where "FrameLengthSize = 3"
definition WAMagicValue :: nat where "WAMagicValue = 6"

definition WAConnHeader :: string where
  "WAConnHeader = ''WA'' @ [byte WAMagicValue, byte DictVersion]"

definition NewFrameSocket :: FrameSocket where
  "NewFrameSocket = \<lparr>fsConn = False, fsHeader = Some WAConnHeader, fsWritten = [], fsFrames = [],
     fsIncomingLength = 0, fsReceivedLength = 0, fsIncoming = None, fsPartialHeader = None\<rparr>"

section \<open>Sending\<close>

definition ErrSocketClosed :: string where "ErrSocketClosed = ''frame socket is closed''"
definition ErrFrameTooLarge :: string where "ErrFrameTooLarge = ''frame too large''"

definition frame_length :: "nat \<Rightarrow> string" where
  "frame_length n = [byte (drop_bit 16 n), byte (drop_bit 8 n), byte n]"

text \<open>\<open>fs_SendFrame write\<close>: \<open>write\<close> is the error of \<open>conn.Write\<close>. The header is dropped before the write.\<close>

definition fs_SendFrame :: "go_error \<Rightarrow> string \<Rightarrow> (FrameSocket, unit) go" where
  "fs_SendFrame write data =
     bindg (gets fsConn) (\<lambda>conn.
       if \<not> conn then raise ErrSocketClosed
       else if length data \<ge> FrameMaxSize
       then raise (ErrFrameTooLarge @ '' (got '' @ show_nat (length data) @ '' bytes, max ''
              @ show_nat FrameMaxSize @ '' bytes)'')
       else
         bindg (gets fsHeader) (\<lambda>header.
         bindg (modify (\<lambda>fs. fs\<lparr>fsHeader := None\<rparr>)) (\<lambda>_.
         let wholeFrame = (case header of Some h \<Rightarrow> h | None \<Rightarrow> []) @ frame_length (length data) @ data in
         bindg (of_error write) (\<lambda>_. modify (\<lambda>fs. fs\<lparr>fsWritten := fsWritten fs @ [wholeFrame]\<rparr>)))))"

section \<open>Receiving\<close>

definition frameComplete :: "FrameSocket \<Rightarrow> FrameSocket" where
  "frameComplete fs = fs\<lparr>fsIncoming := None, fsPartialHeader := None, fsIncomingLength := 0,
     fsReceivedLength := 0, fsFrames := fsFrames fs @ [case fsIncoming fs of Some d \<Rightarrow> d | None \<Rightarrow> []]\<rparr>"

definition header_value :: "string \<Rightarrow> nat" where
  "header_value msg = push_bit 16 (byte_val (msg ! 0)) + push_bit 8 (byte_val (msg ! 1)) + byte_val (msg ! 2)"

text \<open>\<open>copy(dst[at:], src)\<close>: as many bytes as both have room for.\<close>

definition copy_at :: "string \<Rightarrow> nat \<Rightarrow> string \<Rightarrow> string" where
  "copy_at dst pos src = (let n = min (length dst - pos) (length src) in
     take pos dst @ take n src @ drop (pos + n) dst)"

text \<open>One round of the loop of \<open>processData\<close>: the socket and the bytes that are left. Slicing a buffer
  beyond its end (\<open>incoming[received:]\<close>) or with a negative bound is a panic.\<close>

definition start_frame :: "FrameSocket \<Rightarrow> string \<Rightarrow> string outcome \<times> FrameSocket" where
  "start_frame fs msg =
     (if length msg \<ge> FrameLengthSize then
        (let n = header_value msg;
             fs1 = fs\<lparr>fsIncomingLength := n, fsReceivedLength := length msg\<rparr>;
             msg1 = drop FrameLengthSize msg in
         if length msg1 \<ge> n
         then (Return (drop n msg1), frameComplete (fs1\<lparr>fsIncoming := Some (take n msg1)\<rparr>))
         else (Return [], fs1\<lparr>fsIncoming := Some (copy_at (replicate n (byte 0)) 0 msg1)\<rparr>))
      else (Return [], fs\<lparr>fsPartialHeader := Some msg\<rparr>))"

definition continue_frame :: "FrameSocket \<Rightarrow> string \<Rightarrow> string \<Rightarrow> string outcome \<times> FrameSocket" where
  "continue_frame fs incoming msg =
     (if fsReceivedLength fs > length incoming then (Crash, fs)
      else if fsReceivedLength fs + length msg \<ge> fsIncomingLength fs
      then if fsReceivedLength fs > fsIncomingLength fs then (Crash, fs)
        else
          (let n = fsIncomingLength fs - fsReceivedLength fs in
           (Return (drop n msg),
            frameComplete (fs\<lparr>fsIncoming := Some (copy_at incoming (fsReceivedLength fs) (take n msg))\<rparr>)))
      else (Return [], fs\<lparr>fsIncoming := Some (copy_at incoming (fsReceivedLength fs) msg),
              fsReceivedLength := fsReceivedLength fs + length msg\<rparr>))"

definition process_round :: "FrameSocket \<Rightarrow> string \<Rightarrow> string outcome \<times> FrameSocket" where
  "process_round fs msg0 =
     (let msg = (case fsPartialHeader fs of Some p \<Rightarrow> p @ msg0 | None \<Rightarrow> msg0);
          fs1 = fs\<lparr>fsPartialHeader := None\<rparr> in
      case fsIncoming fs1 of
        None \<Rightarrow> start_frame fs1 msg
      | Some incoming \<Rightarrow> continue_frame fs1 incoming msg)"

definition round_size :: "FrameSocket \<Rightarrow> string \<Rightarrow> nat" where
  "round_size fs msg = 2 * (length msg + (case fsPartialHeader fs of Some p \<Rightarrow> length p | None \<Rightarrow> 0))
     + (if fsIncoming fs = None then 0 else 1)"

lemma round_shrinks:
  assumes "process_round fs msg = (Return rest, fs')" and "rest \<noteq> []"
  shows "round_size fs' rest < round_size fs msg"
proof -
  let ?msg = "case fsPartialHeader fs of Some p \<Rightarrow> p @ msg | None \<Rightarrow> msg"
  have len: "length ?msg = length msg + (case fsPartialHeader fs of Some p \<Rightarrow> length p | None \<Rightarrow> 0)"
    by (simp split: option.splits)
  show ?thesis
  proof (cases "fsIncoming fs")
    case None
    with assms have "rest = drop (header_value ?msg) (drop 3 ?msg)" "fsPartialHeader fs' = None"
      "fsIncoming fs' = None" "length ?msg \<ge> 3"
      by (auto simp: process_round_def start_frame_def Let_def frameComplete_def FrameLengthSize_def split: if_splits)
    then show ?thesis using len by (simp add: round_size_def)
  next
    case (Some inc)
    with assms obtain n where "rest = drop n ?msg" "fsPartialHeader fs' = None" "fsIncoming fs' = None"
      by (auto simp: process_round_def continue_frame_def Let_def frameComplete_def split: if_splits)
    then show ?thesis using len Some by (simp add: round_size_def)
  qed
qed

function process_loop :: "FrameSocket \<Rightarrow> string \<Rightarrow> unit outcome \<times> FrameSocket" where
  "process_loop fs msg =
     (if msg = [] then (Return (), fs)
      else case process_round fs msg of
        (Return rest, fs') \<Rightarrow> (if rest = [] then (Return (), fs') else process_loop fs' rest)
      | (Raise e, fs') \<Rightarrow> (Raise e, fs')
      | (Crash, fs') \<Rightarrow> (Crash, fs'))"
  by pat_completeness auto

termination
  by (relation "measure (\<lambda>(fs, msg). round_size fs msg)") (auto dest: round_shrinks [OF sym])

declare process_loop.simps [simp del]

definition processData :: "string \<Rightarrow> (FrameSocket, unit) go" where
  "processData msg fs = process_loop fs msg"

text \<open>The messages of a connection, one after the other.\<close>

fun process_messages :: "string list \<Rightarrow> (FrameSocket, unit) go" where
  "process_messages [] = ret ()"
| "process_messages (m # ms) = bindg (processData m) (\<lambda>_. process_messages ms)"

section \<open>Encrypted frames\<close>

text \<open>\<open>writeKey.Seal\<close> and \<open>readKey.Open\<close> are parameters; the counters are \<open>uint32\<close>.\<close>

record NoiseSocket =
  nsFs :: FrameSocket
  nsWriteCounter :: "32 word"
  nsReadCounter :: "32 word"
  nsReceived :: "string list"

definition generateIV :: "32 word \<Rightarrow> string" where
  "generateIV n = replicate 8 (byte 0) @
     [byte (unat (drop_bit 24 n)), byte (unat (drop_bit 16 n)), byte (unat (drop_bit 8 n)), byte (unat n)]"

definition ns_SendFrame :: "(string \<Rightarrow> string \<Rightarrow> string) \<Rightarrow> go_error \<Rightarrow> string \<Rightarrow> (NoiseSocket, unit) go" where
  "ns_SendFrame seal write plaintext ns =
     (let ciphertext = seal (generateIV (nsWriteCounter ns)) plaintext;
          (r, fs) = fs_SendFrame write ciphertext (nsFs ns) in
      (r, ns\<lparr>nsFs := fs, nsWriteCounter := nsWriteCounter ns + 1\<rparr>))"

text \<open>A frame that cannot be decrypted is dropped, but counted.\<close>

definition receiveEncryptedFrame :: "(string \<Rightarrow> string \<Rightarrow> string result) \<Rightarrow> string \<Rightarrow> NoiseSocket \<Rightarrow> NoiseSocket" where
  "receiveEncryptedFrame open ciphertext ns =
     (let ns1 = ns\<lparr>nsReadCounter := nsReadCounter ns + 1\<rparr> in
      case open (generateIV (nsReadCounter ns)) ciphertext of
        Inl _ \<Rightarrow> ns1
      | Inr plaintext \<Rightarrow> ns1\<lparr>nsReceived := nsReceived ns @ [plaintext]\<rparr>)"

text \<open>\<open>consumeFrames\<close> on the frames the frame socket puts into the channel.\<close>

fun consumeFrames :: "(string \<Rightarrow> string \<Rightarrow> string result) \<Rightarrow> string list \<Rightarrow> NoiseSocket \<Rightarrow> NoiseSocket" where
  "consumeFrames open [] ns = ns"
| "consumeFrames open (f # fs) ns = consumeFrames open fs (receiveEncryptedFrame open f ns)"

end
