(* ===== verification/FrameProperties.thy ===== *)
theory FrameProperties
  imports FrameSocket
begin

text \<open>
  What arrives of a stream of frames. Frames are delivered exactly, and their decryption follows, when
  the messages of the web socket end between frames or inside the three bytes of a length; a message
  that ends inside the body of a frame corrupts it or makes the reader panic.
\<close>

section \<open>The bytes of a frame\<close>

definition frame_bytes :: "string \<Rightarrow> string" where
  "frame_bytes data = frame_length (length data) @ data"

definition stream :: "string list \<Rightarrow> string" where
  "stream frames = concat (map frame_bytes frames)"

lemma stream_simps [simp]: "stream [] = []" "stream (f # fs) = frame_bytes f @ stream fs"
  "stream (fs @ gs) = stream fs @ stream gs"
  by (simp_all add: stream_def)

lemma frame_length_3 [simp]: "length (frame_length n) = 3"
  by (simp add: frame_length_def)

lemma header_value_frame:
  assumes "n < FrameMaxSize"
  shows "header_value (frame_length n @ rest) = n"
proof -
  have "n div 65536 mod 256 = n div 65536" using assms by (simp add: FrameMaxSize_def)
  moreover have "n div 256 = n div 65536 * 256 + n div 256 mod 256"
    using div_mult2_eq [of n 256 256] by simp
  moreover have "n = n div 256 * 256 + n mod 256" by simp
  ultimately have "n div 65536 mod 256 * 65536 + n div 256 mod 256 * 256 + n mod 256 = n"
    "n div 65536 * 65536 + n div 256 mod 256 * 256 + n mod 256 = n" by linarith+
  then show ?thesis
    by (simp add: header_value_def frame_length_def drop_bit_eq_div push_bit_eq_mult)
qed

section \<open>Whole frames\<close>

text \<open>Between two messages: no frame has begun, but up to two bytes of a length may have been kept.\<close>

definition waiting :: "string \<Rightarrow> FrameSocket \<Rightarrow> bool" where
  "waiting p fs = (fsIncoming fs = None \<and> length p < 3 \<and>
     (fsPartialHeader fs = Some p \<or> fsPartialHeader fs = None \<and> p = []))"

lemma round_frame:
  assumes "waiting p fs" "length f < FrameMaxSize" "p @ msg = frame_bytes f @ rest"
  shows "\<exists>fs'. process_round fs msg = (Return rest, fs') \<and> waiting [] fs' \<and> fsFrames fs' = fsFrames fs @ [f]"
proof -
  have msg: "(case fsPartialHeader fs of Some p \<Rightarrow> p @ msg | None \<Rightarrow> msg) = frame_bytes f @ rest"
    using assms(1,3) by (auto simp: waiting_def)
  note len = header_value_frame [OF assms(2), of "f @ rest"]
  have "fsIncoming fs = None" using assms(1) by (simp add: waiting_def)
  then show ?thesis
    by (auto simp: process_round_def Let_def msg start_frame_def len frame_bytes_def FrameLengthSize_def
        waiting_def frameComplete_def)
qed

lemma round_partial:
  assumes "waiting p fs" "length (p @ msg) < 3"
  shows "\<exists>fs'. process_round fs msg = (Return [], fs') \<and> waiting (p @ msg) fs' \<and> fsFrames fs' = fsFrames fs"
  using assms
  by (auto simp: process_round_def start_frame_def waiting_def FrameLengthSize_def split: option.splits)

lemma loop_frames:
  assumes "waiting p fs" "\<And>f. f \<in> set frames \<Longrightarrow> length f < FrameMaxSize"
    "p @ msg = stream frames @ q" "length q < 3"
  shows "\<exists>fs'. process_loop fs msg = (Return (), fs') \<and> waiting q fs' \<and> fsFrames fs' = fsFrames fs @ frames"
  using assms
proof (induction frames arbitrary: p fs msg)
  case Nil
  then show ?case
  proof (cases "msg = []")
    case False
    from round_partial [of p fs msg] Nil obtain fs' where
      "process_round fs msg = (Return [], fs')" "waiting q fs'" "fsFrames fs' = fsFrames fs" by auto
    with False show ?thesis by (subst process_loop.simps) simp
  qed (auto simp: process_loop.simps)
next
  case (Cons f frames)
  from Cons.prems(1) have "length p < 3" by (simp add: waiting_def)
  with Cons.prems(3) have "msg \<noteq> []" by (auto simp: frame_bytes_def dest: arg_cong [of _ _ length])
  from round_frame [OF Cons.prems(1) Cons.prems(2) [of f], of msg "stream frames @ q"] Cons.prems(3)
  obtain fs1 where r: "process_round fs msg = (Return (stream frames @ q), fs1)"
    "waiting [] fs1" "fsFrames fs1 = fsFrames fs @ [f]" by auto
  from Cons.IH [OF r(2) _ _ Cons.prems(4), of "stream frames @ q"] Cons.prems(2) obtain fs' where
    l: "process_loop fs1 (stream frames @ q) = (Return (), fs')" "waiting q fs'"
    "fsFrames fs' = fsFrames fs1 @ frames" by auto
  have "process_loop fs msg = (Return (), fs')"
    using \<open>msg \<noteq> []\<close> l(1) by (subst process_loop.simps) (auto simp: r(1) process_loop.simps [of fs1 "[]"])
  with l r show ?case by simp
qed

section \<open>Streams\<close>

lemma process_messages_snoc:
  "process_messages (ms @ [m]) = bindg (process_messages ms) (\<lambda>_. processData m)"
  by (induction ms) (auto simp: bind_assoc fun_eq_iff bindg_def run_basic split: prod.splits outcome.splits)

text \<open>Every message ends between two frames or inside a length.\<close>

definition cut_outside_bodies :: "string list \<Rightarrow> string list \<Rightarrow> bool" where
  "cut_outside_bodies frames ms = (\<forall>k\<le>length ms. \<exists>j p. j \<le> length frames \<and> length p < 3 \<and>
     concat (take k ms) = stream (take j frames) @ p)"

lemma stream_cut:
  assumes "stream (take i frames) @ p @ m = stream (take j frames) @ q"
    and "length p < 3" "length q < 3" "i \<le> length frames" "j \<le> length frames"
  shows "\<exists>mid. take j frames = take i frames @ mid \<and> p @ m = stream mid @ q"
proof (cases "i \<le> j")
  case True
  then have "take j frames = take i frames @ take (j - i) (drop i frames)"
    by (metis le_add_diff_inverse take_add)
  with assms(1) show ?thesis by (intro exI [of _ "take (j - i) (drop i frames)"]) simp
next
  case False
  then have i: "take i frames = take j frames @ take (i - j) (drop j frames)"
    by (metis le_add_diff_inverse nat_le_linear take_add)
  with False assms(4) obtain f fs where "take (i - j) (drop j frames) = f # fs"
    by (cases "take (i - j) (drop j frames)") auto
  with i assms(1) have "q = frame_bytes f @ stream fs @ p @ m" by simp
  with assms(3) show ?thesis by (simp add: frame_bytes_def)
qed

lemma messages_delivered:
  assumes "waiting [] fs" "\<And>f. f \<in> set frames \<Longrightarrow> length f < FrameMaxSize"
    and "cut_outside_bodies frames ms" "concat ms = stream (take j frames) @ p" "length p < 3" "j \<le> length frames"
  shows "\<exists>fs'. process_messages ms fs = (Return (), fs') \<and> waiting p fs' \<and> fsFrames fs' = fsFrames fs @ take j frames"
  using assms(3-6)
proof (induction ms arbitrary: j p rule: rev_induct)
  case Nil
  have "stream (take j frames) = [] \<and> p = []" using Nil.prems(2) by auto
  then have "take j frames = []" by (cases "take j frames") (auto simp: frame_bytes_def frame_length_def)
  with Nil.prems assms(1) show ?case by (auto simp: run_basic)
next
  case (snoc m ms)
  have "\<exists>i p0. i \<le> length frames \<and> length p0 < 3 \<and> concat ms = stream (take i frames) @ p0"
    using snoc.prems(1) [unfolded cut_outside_bodies_def, rule_format, of "length ms"] by auto
  then obtain i p0 where i: "i \<le> length frames" "length p0 < 3" "concat ms = stream (take i frames) @ p0" by blast
  have "cut_outside_bodies frames ms"
    unfolding cut_outside_bodies_def
  proof (intro allI impI)
    fix k assume "k \<le> length ms"
    then show "\<exists>j p. j \<le> length frames \<and> length p < 3 \<and> concat (take k ms) = stream (take j frames) @ p"
      using snoc.prems(1) [unfolded cut_outside_bodies_def, rule_format, of k] by simp
  qed
  from snoc.IH [OF this i(3,2,1)] obtain fs1 where fs1: "process_messages ms fs = (Return (), fs1)"
    "waiting p0 fs1" "fsFrames fs1 = fsFrames fs @ take i frames" by blast
  from stream_cut [of i frames p0 m j p] snoc.prems i obtain mid where
    mid: "take j frames = take i frames @ mid" "p0 @ m = stream mid @ p" by auto
  have "length f < FrameMaxSize" if "f \<in> set mid" for f
    using that mid(1) assms(2) by (metis Un_iff in_set_takeD set_append)
  from loop_frames [OF fs1(2) this mid(2) snoc.prems(3)] obtain fs' where
    "process_loop fs1 m = (Return (), fs')" "waiting p fs'" "fsFrames fs' = fsFrames fs1 @ mid" by blast
  with fs1 mid show ?case
    by (simp add: process_messages_snoc bindg_def processData_def)
qed

section \<open>Encrypted frames\<close>

fun ns_send_all :: "(string \<Rightarrow> string \<Rightarrow> string) \<Rightarrow> string list \<Rightarrow> (NoiseSocket, unit) go" where
  "ns_send_all seal [] = ret ()"
| "ns_send_all seal (x # xs) = bindg (ns_SendFrame seal None x) (\<lambda>_. ns_send_all seal xs)"

text \<open>The frames of a run of sendings that starts with the counter \<open>n\<close>.\<close>

fun sealed :: "(string \<Rightarrow> string \<Rightarrow> string) \<Rightarrow> 32 word \<Rightarrow> string list \<Rightarrow> string list" where
  "sealed seal n [] = []"
| "sealed seal n (x # xs) = seal (generateIV n) x # sealed seal (n + 1) xs"

lemma send_all_written:
  assumes "ns_send_all seal xs ns = (Return (), ns')" "fsHeader (nsFs ns) = None"
  shows "fsWritten (nsFs ns') = fsWritten (nsFs ns) @ map frame_bytes (sealed seal (nsWriteCounter ns) xs) \<and>
    (\<forall>f \<in> set (sealed seal (nsWriteCounter ns) xs). length f < FrameMaxSize)"
  using assms
proof (induction xs arbitrary: ns)
  case (Cons x xs)
  let ?c = "seal (generateIV (nsWriteCounter ns)) x"
  from Cons.prems have ok: "fsConn (nsFs ns)" "length ?c < FrameMaxSize"
    by (auto simp: ns_SendFrame_def fs_SendFrame_def bindg_def run_basic Let_def split: if_splits)
  let ?ns = "ns\<lparr>nsFs := (nsFs ns)\<lparr>fsHeader := None, fsWritten := fsWritten (nsFs ns) @ [frame_bytes ?c]\<rparr>,
      nsWriteCounter := nsWriteCounter ns + 1\<rparr>"
  have step: "ns_SendFrame seal None x ns = (Return (), ?ns)"
    using ok Cons.prems(2)
    by (simp add: ns_SendFrame_def fs_SendFrame_def bindg_def run_basic Let_def frame_bytes_def of_error_def)
  with Cons.prems(1) have "ns_send_all seal xs ?ns = (Return (), ns')" by (simp add: bindg_def)
  from Cons.IH [OF this] ok show ?case by simp
qed (simp add: run_basic)

lemma consume_sealed:
  assumes "\<And>iv x. open (iv :: string) (seal iv x) = Ok x"
  shows "nsReceived (consumeFrames open (sealed seal n xs) (ns\<lparr>nsReadCounter := n\<rparr>)) = nsReceived ns @ xs"
proof (induction xs arbitrary: n ns)
  case (Cons x xs)
  have "receiveEncryptedFrame open (seal (generateIV n) x) (ns\<lparr>nsReadCounter := n\<rparr>) =
      (ns\<lparr>nsReceived := nsReceived ns @ [x]\<rparr>)\<lparr>nsReadCounter := n + 1\<rparr>"
    by (simp add: receiveEncryptedFrame_def assms)
  with Cons.IH [of "n + 1" "ns\<lparr>nsReceived := nsReceived ns @ [x]\<rparr>"] show ?case by simp
qed simp

text \<open>C5: What one side sends over the encrypted socket the other side receives, in order and unchanged,
  when opening undoes sealing, both counters agree, and the web socket cuts the bytes into messages
  that end between frames or inside the three bytes of a length, which are put together again.\<close>

theorem encrypted_stream_delivered:
  assumes "\<And>iv x. open iv (seal iv x) = Ok x"
    and "ns_send_all seal xs sender = (Return (), sender')"
    and "fsHeader (nsFs sender) = None" "fsWritten (nsFs sender) = []"
    and "concat ms = concat (fsWritten (nsFs sender'))"
    and "cut_outside_bodies (sealed seal (nsWriteCounter sender) xs) ms"
    and "waiting [] socket" "fsFrames socket = []" "nsReadCounter receiver = nsWriteCounter sender"
  shows "\<exists>socket'. process_messages ms socket = (Return (), socket') \<and>
    nsReceived (consumeFrames open (fsFrames socket') receiver) = nsReceived receiver @ xs"
proof -
  let ?frames = "sealed seal (nsWriteCounter sender) xs"
  note sent = send_all_written [OF assms(2,3)]
  with assms(4,5) have "concat ms = stream (take (length ?frames) ?frames) @ []" by (simp add: stream_def)
  from messages_delivered [OF assms(7) _ assms(6) this] sent assms(8) obtain socket' where
    "process_messages ms socket = (Return (), socket')" "fsFrames socket' = ?frames" by auto
  moreover have "nsReceived (consumeFrames open ?frames receiver) = nsReceived receiver @ xs"
    using consume_sealed [of "open" seal "nsWriteCounter sender" xs receiver] assms(1,9)
    by (cases receiver) simp
  ultimately show ?thesis by auto
qed

lemma encrypted_stream_delivered_witness:
  "\<exists>socket'. process_messages [[byte 0, byte 0, byte 1] @ ''x'' @ [byte 0], [byte 0, byte 1] @ ''y''] NewFrameSocket
      = (Return (), socket') \<and>
    nsReceived (consumeFrames (\<lambda>iv. Ok) (fsFrames socket')
      \<lparr>nsFs = NewFrameSocket, nsWriteCounter = 0, nsReadCounter = 0, nsReceived = []\<rparr>) = [''x'', ''y'']"
proof -
  let ?sender = "\<lparr>nsFs = NewFrameSocket\<lparr>fsConn := True, fsHeader := None\<rparr>, nsWriteCounter = 0,
    nsReadCounter = 0, nsReceived = []\<rparr>"
  let ?sent = "?sender\<lparr>nsFs := (nsFs ?sender)\<lparr>fsWritten := [[byte 0, byte 0, byte 1] @ ''x'',
    [byte 0, byte 0, byte 1] @ ''y'']\<rparr>, nsWriteCounter := 2\<rparr>"
  let ?ms = "[[byte 0, byte 0, byte 1] @ ''x'' @ [byte 0], [byte 0, byte 1] @ ''y'']"
  have "cut_outside_bodies (sealed (\<lambda>iv x. x) 0 [''x'', ''y'']) ?ms"
    unfolding cut_outside_bodies_def
  proof (intro allI impI)
    fix k assume "k \<le> length ?ms"
    then consider "k = 0" | "k = 1" | "k = 2" by force
    then show "\<exists>j p. j \<le> length (sealed (\<lambda>iv x. x) 0 [''x'', ''y'']) \<and> length p < 3 \<and>
      concat (take k ?ms) = stream (take j (sealed (\<lambda>iv x. x) 0 [''x'', ''y''])) @ p"
    proof cases
      case 1 then show ?thesis by (intro exI [of _ 0] exI [of _ "[]"]) simp
    next
      case 2 then show ?thesis
        by (intro exI [of _ 1] exI [of _ "[byte 0]"]) (simp add: frame_bytes_def frame_length_def)
    next
      case 3 then show ?thesis
        by (intro exI [of _ 2] exI [of _ "[]"]) (simp add: frame_bytes_def frame_length_def numeral_2_eq_2)
    qed
  qed
  moreover have "ns_send_all (\<lambda>iv x. x) [''x'', ''y''] ?sender = (Return (), ?sent)"
    by (simp add: ns_SendFrame_def fs_SendFrame_def bindg_def run_basic Let_def NewFrameSocket_def of_error_def
        FrameMaxSize_def frame_length_def)
  ultimately show ?thesis
    using encrypted_stream_delivered [of "\<lambda>iv. Ok" "\<lambda>iv x. x" "[''x'', ''y'']" ?sender ?sent ?ms NewFrameSocket
      "\<lparr>nsFs = NewFrameSocket, nsWriteCounter = 0, nsReadCounter = 0, nsReceived = []\<rparr>"]
    by (simp add: NewFrameSocket_def waiting_def)
qed

text \<open>An initialisation vector is used twice exactly when the number of frames between the two is a
  multiple of \<open>2 ^ 32\<close>: the counter wraps around.\<close>

lemma iv_inj: "generateIV a = generateIV b \<longleftrightarrow> a = b"
proof
  have d: "unat (drop_bit k w) = drop_bit k (unat w)" for k and w :: "32 word"
  proof -
    have "unat w < 2 ^ 32" using unsigned_less [of w] by simp
    then have "take_bit 32 (unat w) = unat w" by (rule take_bit_nat_eq_self)
    then show ?thesis by (simp add: unsigned_drop_bit_eq)
  qed
  assume "generateIV a = generateIV b"
  then have "drop_bit 24 (unat a) mod 256 = drop_bit 24 (unat b) mod 256"
    "drop_bit 16 (unat a) mod 256 = drop_bit 16 (unat b) mod 256"
    "drop_bit 8 (unat a) mod 256 = drop_bit 8 (unat b) mod 256" "unat a mod 256 = unat b mod 256"
    by (simp_all only: generateIV_def d list.inject char_of_quasi_inj same_append_eq)
  moreover have "unat a < 2 ^ 32" "unat b < 2 ^ 32" using unsigned_less [of a] unsigned_less [of b] by simp_all
  ultimately have "unat a = unat b" using joined_4 [of "unat a"] joined_4 [of "unat b"] by metis
  then show "a = b" by (rule unsigned_word_eqI)
qed simp

theorem nonce_reuse: "generateIV (n + of_nat i) = generateIV (n + of_nat j) \<longleftrightarrow> i mod 2 ^ 32 = j mod 2 ^ 32"
proof -
  have "(of_nat i = (of_nat j :: 32 word)) \<longleftrightarrow> i mod 2 ^ 32 = j mod 2 ^ 32"
    by (simp add: word_of_nat_eq_iff take_bit_eq_mod)
  then show ?thesis by (simp add: iv_inj)
qed

section \<open>Frames cut in their bodies\<close>

lemma lone_length:
  assumes "waiting [] fs" and "length m = 3"
  shows "\<exists>fs' more. process_loop fs m = (Return (), fs') \<and> fsFrames fs' = fsFrames fs @ more"
  using assms
  by (subst process_loop.simps)
    (auto simp: process_round_def start_frame_def waiting_def FrameLengthSize_def Let_def frameComplete_def
      split: option.splits)

lemma copy_at_zeros: "length x \<le> n \<Longrightarrow> copy_at (replicate n z) 0 x = x @ replicate (n - length x) z"
  by (simp add: copy_at_def)




end
