(* ===== verification/LtHash.thy ===== *)
theory LtHash
  imports BinaryTokens GoMonad "HOL-Library.Multiset"
begin

text \<open>
  The summation hash of the application state: \<open>whatsmeow-lib/appstate/lthash/lthash.go\<close>. A hash is a
  text of 64 numbers of 16 bits, least byte first; items are added to it and subtracted from it number
  by number, wrapping around. The expansion of an item (\<open>hkdfutil.SHA256\<close>) is the parameter
  \<open>expand\<close>; it returns as many bytes as it is asked for, 128.
\<close>

definition uint16_le :: "byte \<Rightarrow> byte \<Rightarrow> 16 word" where
  "uint16_le a b = word_of_nat (byte_val a) + word_of_nat (byte_val b) * 256"

definition put_uint16_le :: "16 word \<Rightarrow> string" where
  "put_uint16_le w = [byte (unat w), byte (unat (drop_bit 8 w))]"

text \<open>The loop over pairs of bytes; a slice beyond the end of either text is a panic.\<close>

fun performPointwiseWithOverflow :: "string \<Rightarrow> string \<Rightarrow> bool \<Rightarrow> string option" where
  "performPointwiseWithOverflow [] input subtract = Some []"
| "performPointwiseWithOverflow (a # b # base) (c # d # input) subtract =
     (let x = uint16_le a b; y = uint16_le c d in
      case performPointwiseWithOverflow base input subtract of
        None \<Rightarrow> None
      | Some rest \<Rightarrow> Some (put_uint16_le (if subtract then x - y else x + y) @ rest))"
| "performPointwiseWithOverflow base input subtract = None"

fun multipleOp :: "(string \<Rightarrow> string) \<Rightarrow> string \<Rightarrow> string list \<Rightarrow> bool \<Rightarrow> string option" where
  "multipleOp expand base [] subtract = Some base"
| "multipleOp expand base (item # input) subtract =
     (case performPointwiseWithOverflow base (expand item) subtract of
        None \<Rightarrow> None
      | Some base' \<Rightarrow> multipleOp expand base' input subtract)"

definition SubtractThenAdd :: "(string \<Rightarrow> string) \<Rightarrow> string \<Rightarrow> string list \<Rightarrow> string list \<Rightarrow> string option" where
  "SubtractThenAdd expand base removed added =
     (case multipleOp expand base removed True of
        None \<Rightarrow> None
      | Some base' \<Rightarrow> multipleOp expand base' added False)"

section \<open>The numbers of a hash\<close>

definition number_at :: "string \<Rightarrow> nat \<Rightarrow> 16 word" where
  "number_at s i = uint16_le (s ! (2 * i)) (s ! (2 * i + 1))"

definition expands :: "(string \<Rightarrow> string) \<Rightarrow> bool" where
  "expands expand = (\<forall>x. length (expand x) = 128)"

lemma uint16_put: "uint16_le (byte (unat w)) (byte (unat (drop_bit 8 w))) = w"
proof -
  have d: "unat (drop_bit 8 w) = drop_bit 8 (unat w)"
  proof -
    have "unat w < 2 ^ 16" using unsigned_less [of w] by simp
    then have "take_bit 16 (unat w) = unat w" by (rule take_bit_nat_eq_self)
    then show ?thesis by (simp add: unsigned_drop_bit_eq)
  qed
  have "unat w < 2 ^ 16" using unsigned_less [of w] by simp
  then have "unat w div 256 mod 256 = unat w div 256" by simp
  moreover have "unat (drop_bit 8 w) = unat w div 256" unfolding d by (simp add: drop_bit_eq_div)
  ultimately have "unat (drop_bit 8 w) mod 256 = unat w div 256" by (simp only:)
  then have "unat w mod 256 + unat (drop_bit 8 w) mod 256 * 256 = unat w"
    using mod_mult_div_eq [of "unat w" 256] by linarith
  then have "(word_of_nat (unat w mod 256 + unat (drop_bit 8 w) mod 256 * 256) :: 16 word) = w"
    by (subst \<open>unat w mod 256 + unat (drop_bit 8 w) mod 256 * 256 = unat w\<close>) simp
  then show ?thesis by (simp add: uint16_le_def)
qed

lemma byte_digits:
  assumes "(a :: nat) < 256" "c < 256" "a + b * 256 = c + d * 256"
  shows "a = c \<and> b = d"
proof -
  from assms(3) have "(a + b * 256) mod 256 = (c + d * 256) mod 256" "(a + b * 256) div 256 = (c + d * 256) div 256"
    by simp_all
  with assms(1,2) show ?thesis by simp
qed

lemma uint16_inj: "uint16_le a b = uint16_le c d \<longleftrightarrow> a = c \<and> b = d"
proof
  assume eq: "uint16_le a b = uint16_le c d"
  have "uint16_le x y = word_of_nat (byte_val x + byte_val y * 256)" for x y
    by (simp add: uint16_le_def)
  with eq have "(word_of_nat (byte_val a + byte_val b * 256) :: 16 word) = word_of_nat (byte_val c + byte_val d * 256)"
    by simp
  then have "take_bit 16 (byte_val a + byte_val b * 256) = take_bit 16 (byte_val c + byte_val d * 256)"
    using word_of_nat_eq_iff [where 'a = 16] by fastforce
  moreover have "take_bit 16 (byte_val x + byte_val y * 256) = byte_val x + byte_val y * 256" for x y
  proof (rule take_bit_nat_eq_self)
    have "byte_val x < 256" "byte_val y < 256" by simp_all
    then have "byte_val x + byte_val y * 256 < 65536" by linarith
    then show "byte_val x + byte_val y * 256 < 2 ^ 16" by simp
  qed
  ultimately have "byte_val a + byte_val b * 256 = byte_val c + byte_val d * 256" by simp
  then have "byte_val a = byte_val c \<and> byte_val b = byte_val d"
    by (rule byte_digits [OF nat_of_char_less_256 nat_of_char_less_256])
  then show "a = c \<and> b = d" by simp
qed simp

text \<open>Two hashes are the same when their numbers are.\<close>

lemma hash_eqI:
  assumes "length s = 2 * n" "length t = 2 * n" "\<And>i. i < n \<Longrightarrow> number_at s i = number_at t i"
  shows "s = t"
proof (rule nth_equalityI)
  fix i assume i: "i < length s"
  have "i div 2 < n" using i assms(1) by simp
  from assms(3) [OF this] have "s ! (2 * (i div 2)) = t ! (2 * (i div 2))"
    "s ! (2 * (i div 2) + 1) = t ! (2 * (i div 2) + 1)"
    unfolding number_at_def uint16_inj by simp_all
  then show "s ! i = t ! i" by (cases "even i") simp_all
qed (simp add: assms)

lemma pointwise_numbers:
  assumes "length base = 2 * n" "length input = 2 * n"
  shows "\<exists>out. performPointwiseWithOverflow base input sub = Some out \<and> length out = 2 * n \<and>
    (\<forall>i<n. number_at out i = (if sub then number_at base i - number_at input i else number_at base i + number_at input i))"
  using assms
proof (induction n arbitrary: base input)
  case (Suc n)
  then obtain a b bs c d cs where bs: "base = a # b # bs" "input = c # d # cs" "length bs = 2 * n" "length cs = 2 * n"
    by (cases base; cases input; cases "tl base"; cases "tl input") auto
  from Suc.IH [OF bs(3,4)] obtain out where out: "performPointwiseWithOverflow bs cs sub = Some out" "length out = 2 * n"
    "\<forall>i<n. number_at out i = (if sub then number_at bs i - number_at cs i else number_at bs i + number_at cs i)" by blast
  have "number_at (x # y # zs) (Suc i) = number_at zs i" for x y zs i by (simp add: number_at_def)
  with out show ?case
    by (auto simp: bs put_uint16_le_def Let_def less_Suc_eq_0_disj uint16_put) (simp_all add: number_at_def uint16_put)
qed simp

text \<open>What a sequence of operations does to one number of the hash.\<close>

lemma multipleOp_numbers:
  assumes "expands expand" "length base = 128"
  shows "\<exists>out. multipleOp expand base items sub = Some out \<and> length out = 128 \<and>
    (\<forall>i<64. number_at out i = (if sub then number_at base i - (\<Sum>x\<leftarrow>items. number_at (expand x) i)
       else number_at base i + (\<Sum>x\<leftarrow>items. number_at (expand x) i)))"
  using assms(2)
proof (induction items arbitrary: base)
  case (Cons x items)
  have "length (expand x) = 2 * 64" using assms(1) by (simp add: expands_def)
  with pointwise_numbers [of base 64 "expand x" sub] Cons.prems obtain mid where
    mid: "performPointwiseWithOverflow base (expand x) sub = Some mid" "length mid = 128"
    "\<forall>i<64. number_at mid i = (if sub then number_at base i - number_at (expand x) i
        else number_at base i + number_at (expand x) i)" by auto
  from Cons.IH [OF mid(2)] mid show ?case by (auto simp: algebra_simps)
qed simp

lemma SubtractThenAdd_numbers:
  assumes "expands expand" "length base = 128"
  shows "\<exists>out. SubtractThenAdd expand base removed added = Some out \<and> length out = 128 \<and>
    (\<forall>i<64. number_at out i = number_at base i - (\<Sum>x\<leftarrow>removed. number_at (expand x) i)
       + (\<Sum>x\<leftarrow>added. number_at (expand x) i))"
proof -
  from multipleOp_numbers [OF assms, of removed True] obtain mid where
    mid: "multipleOp expand base removed True = Some mid" "length mid = 128"
    "\<forall>i<64. number_at mid i = number_at base i - (\<Sum>x\<leftarrow>removed. number_at (expand x) i)" by auto
  from multipleOp_numbers [OF assms(1) mid(2), of added False] mid show ?thesis
    by (auto simp: SubtractThenAdd_def)
qed

lemma balance:
  assumes "(a :: 16 word) + r' = a' + r"
  shows "x - r + a = x - r' + a'"
proof -
  have "(x - r + a) - (x - r' + a') = (a + r') - (a' + r)" by (simp add: algebra_simps)
  then have "(x - r + a) - (x - r' + a') = 0" unfolding assms by simp
  then show ?thesis by (simp only: right_minus_eq)
qed

text \<open>C23: The hash does not depend on the order or the grouping of the items: two runs whose added and
  removed items balance to the same collection give the same hash, without a panic.\<close>

theorem lthash_order:
  assumes "expands expand" "length base = 128"
    and "mset added + mset removed' = mset added' + mset removed"
  shows "\<exists>out. SubtractThenAdd expand base removed added = Some out \<and>
    SubtractThenAdd expand base removed' added' = Some out"
proof -
  from SubtractThenAdd_numbers [OF assms(1,2)] obtain out where
    out: "SubtractThenAdd expand base removed added = Some out" "length out = 128"
    "\<forall>i<64. number_at out i = number_at base i - (\<Sum>x\<leftarrow>removed. number_at (expand x) i)
       + (\<Sum>x\<leftarrow>added. number_at (expand x) i)" by blast
  from SubtractThenAdd_numbers [OF assms(1,2)] obtain out' where
    out': "SubtractThenAdd expand base removed' added' = Some out'" "length out' = 128"
    "\<forall>i<64. number_at out' i = number_at base i - (\<Sum>x\<leftarrow>removed'. number_at (expand x) i)
       + (\<Sum>x\<leftarrow>added'. number_at (expand x) i)" by blast
  have sums: "(\<Sum>x\<leftarrow>added. f x) + (\<Sum>x\<leftarrow>removed'. f x) = (\<Sum>x\<leftarrow>added'. f x) + (\<Sum>x\<leftarrow>removed. f x)"
    for f :: "string \<Rightarrow> 16 word"
    using arg_cong [OF assms(3), of "\<lambda>M. sum_mset (image_mset f M)"]
    by (simp add: sum_mset_sum_list [symmetric] mset_map)
  have "out = out'"
  proof (rule hash_eqI [of _ 64])
    fix i :: nat assume "i < 64"
    with out(3) out'(3) balance [OF sums [of "\<lambda>x. number_at (expand x) i"]]
    show "number_at out i = number_at out' i" by simp
  qed (simp_all add: out out')
  with out out' show ?thesis by blast
qed

theorem lthash_order_witness:
  "\<exists>out. SubtractThenAdd (\<lambda>x. replicate 128 (byte (length x))) (replicate 128 (byte 9)) [''a''] [''bb'', ''a''] = Some out \<and>
     SubtractThenAdd (\<lambda>x. replicate 128 (byte (length x))) (replicate 128 (byte 9)) [] [''bb''] = Some out"
  by (rule lthash_order) (simp_all add: expands_def)

end
