(* ===== verification/AppState.thy ===== *)
theory AppState
  imports LtHash Jid
begin

text \<open>
  The application state (pins, mutes, labels and contacts that the devices of an account share):
  \<open>whatsmeow-lib/appstate\<close> with its store in \<open>whatsmeow-lib/store/sqlstore/store.go\<close>. Patches of
  mutations are encoded, decoded and checked against a summation hash and MACs.

  Parameters (\<open>app_env\<close>): the block cipher, the keyed hashes, the key expansions, protobuf and JSON,
  the random vectors and the failures of database statements. The tables are those of one device;
  a statement that fails changes nothing. The key cache is indexed by the key id, of which the base64
  text of the source is an injective image.
\<close>

section \<open>Actions and patches\<close>

datatype sync_action =
    MuteAction bool "int option"
  | PinAction bool
  | ArchiveChatAction bool message_range
  | MarkChatAsReadAction bool message_range
  | DeleteChatAction message_range
  | LabelAssociationAction bool
  | LabelEditAction string int bool
  | PushNameSetting string
  | StarAction bool
and message_range = MessageRange int "(string \<times> int) option"

record SyncActionValue =
  savTimestamp :: "int option"
  savAction :: sync_action

record MutationInfo =
  miIndex :: "string list"
  miVersion :: int
  miValue :: sync_action

record PatchInfo =
  piTimestamp :: "int option"
  piType :: string
  piMutations :: "MutationInfo list"

definition WAPatchCriticalBlock :: string where "WAPatchCriticalBlock = ''critical_block''"
definition WAPatchCriticalUnblockLow :: string where "WAPatchCriticalUnblockLow = ''critical_unblock_low''"
definition WAPatchRegularLow :: string where "WAPatchRegularLow = ''regular_low''"
definition WAPatchRegularHigh :: string where "WAPatchRegularHigh = ''regular_high''"
definition WAPatchRegular :: string where "WAPatchRegular = ''regular''"

definition IndexMute :: string where "IndexMute = ''mute''"
definition IndexPin :: string where "IndexPin = ''pin_v1''"
definition IndexArchive :: string where "IndexArchive = ''archive''"
definition IndexDeleteChat :: string where "IndexDeleteChat = ''deleteChat''"
definition IndexStar :: string where "IndexStar = ''star''"
definition IndexMarkChatAsRead :: string where "IndexMarkChatAsRead = ''markChatAsRead''"
definition IndexSettingPushName :: string where "IndexSettingPushName = ''setting_pushName''"
definition IndexLabelEdit :: string where "IndexLabelEdit = ''label_edit''"
definition IndexLabelAssociationChat :: string where "IndexLabelAssociationChat = ''label_jid''"
definition IndexLabelAssociationMessage :: string where "IndexLabelAssociationMessage = ''label_message''"

lemmas index_defs = IndexMute_def IndexPin_def IndexArchive_def IndexDeleteChat_def IndexStar_def
  IndexMarkChatAsRead_def IndexSettingPushName_def IndexLabelEdit_def IndexLabelAssociationChat_def
  IndexLabelAssociationMessage_def

section \<open>Building patches\<close>

text \<open>\<open>now\<close> is \<open>time.Now()\<close> in milliseconds. A zero time is \<^const>\<open>None\<close>; patches are built with a zero
  time stamp, which \<open>EncodePatch\<close> fills in.\<close>

definition patch_of :: "string \<Rightarrow> MutationInfo list \<Rightarrow> PatchInfo" where
  "patch_of name mutations = \<lparr>piTimestamp = None, piType = name, piMutations = mutations\<rparr>"

definition newMessageRange :: "int \<Rightarrow> int option \<Rightarrow> string option \<Rightarrow> message_range" where
  "newMessageRange now lastMessageTimestamp lastMessageKey =
     (let t = (case lastMessageTimestamp of None \<Rightarrow> now | Some ts \<Rightarrow> ts) div 1000 in
      MessageRange t (map_option (\<lambda>k. (k, t)) lastMessageKey))"

definition BuildMuteAbs :: "jid \<Rightarrow> bool \<Rightarrow> int option \<Rightarrow> PatchInfo" where
  "BuildMuteAbs target mute muteEndTimestamp =
     patch_of WAPatchRegularHigh [\<lparr>miIndex = [IndexMute, JID_String target], miVersion = 2,
       miValue = MuteAction mute (if muteEndTimestamp = None \<and> mute then Some (- 1) else muteEndTimestamp)\<rparr>]"

text \<open>\<open>muteDuration\<close> in milliseconds.\<close>

definition BuildMute :: "int \<Rightarrow> jid \<Rightarrow> bool \<Rightarrow> int \<Rightarrow> PatchInfo" where
  "BuildMute now target mute muteDuration =
     BuildMuteAbs target mute (if muteDuration > 0 then Some (now + muteDuration) else None)"

definition newPinMutationInfo :: "jid \<Rightarrow> bool \<Rightarrow> MutationInfo" where
  "newPinMutationInfo target pin =
     \<lparr>miIndex = [IndexPin, JID_String target], miVersion = 5, miValue = PinAction pin\<rparr>"

definition BuildPin :: "jid \<Rightarrow> bool \<Rightarrow> PatchInfo" where
  "BuildPin target pin = patch_of WAPatchRegularLow [newPinMutationInfo target pin]"

definition BuildArchive :: "int \<Rightarrow> jid \<Rightarrow> bool \<Rightarrow> int option \<Rightarrow> string option \<Rightarrow> PatchInfo" where
  "BuildArchive now target archive lastMessageTimestamp lastMessageKey =
     patch_of WAPatchRegularLow
       (\<lparr>miIndex = [IndexArchive, JID_String target], miVersion = 3,
         miValue = ArchiveChatAction archive (newMessageRange now lastMessageTimestamp lastMessageKey)\<rparr>
        # (if archive then [newPinMutationInfo target False] else []))"

definition BuildMarkChatAsRead :: "int \<Rightarrow> jid \<Rightarrow> bool \<Rightarrow> int option \<Rightarrow> string option \<Rightarrow> PatchInfo" where
  "BuildMarkChatAsRead now target asRead lastMessageTimestamp lastMessageKey =
     patch_of WAPatchRegularLow [\<lparr>miIndex = [IndexMarkChatAsRead, JID_String target], miVersion = 3,
       miValue = MarkChatAsReadAction asRead (newMessageRange now lastMessageTimestamp lastMessageKey)\<rparr>]"

definition newLabelChatMutation :: "jid \<Rightarrow> string \<Rightarrow> bool \<Rightarrow> MutationInfo" where
  "newLabelChatMutation target labelID labeled =
     \<lparr>miIndex = [IndexLabelAssociationChat, labelID, JID_String target], miVersion = 3,
      miValue = LabelAssociationAction labeled\<rparr>"

definition BuildLabelChat :: "jid \<Rightarrow> string \<Rightarrow> bool \<Rightarrow> PatchInfo" where
  "BuildLabelChat target labelID labeled = patch_of WAPatchRegular [newLabelChatMutation target labelID labeled]"

definition newLabelMessageMutation :: "jid \<Rightarrow> string \<Rightarrow> string \<Rightarrow> bool \<Rightarrow> MutationInfo" where
  "newLabelMessageMutation target labelID messageID labeled =
     \<lparr>miIndex = [IndexLabelAssociationMessage, labelID, JID_String target, messageID, ''0'', ''0''],
      miVersion = 3, miValue = LabelAssociationAction labeled\<rparr>"

definition BuildLabelMessage :: "jid \<Rightarrow> string \<Rightarrow> string \<Rightarrow> bool \<Rightarrow> PatchInfo" where
  "BuildLabelMessage target labelID messageID labeled =
     patch_of WAPatchRegular [newLabelMessageMutation target labelID messageID labeled]"

definition newLabelEditMutation :: "string \<Rightarrow> string \<Rightarrow> int \<Rightarrow> bool \<Rightarrow> MutationInfo" where
  "newLabelEditMutation labelID labelName labelColor deleted =
     \<lparr>miIndex = [IndexLabelEdit, labelID], miVersion = 3, miValue = LabelEditAction labelName labelColor deleted\<rparr>"

definition BuildLabelEdit :: "string \<Rightarrow> string \<Rightarrow> int \<Rightarrow> bool \<Rightarrow> PatchInfo" where
  "BuildLabelEdit labelID labelName labelColor deleted =
     patch_of WAPatchRegular [newLabelEditMutation labelID labelName labelColor deleted]"

definition BuildSettingPushName :: "string \<Rightarrow> PatchInfo" where
  "BuildSettingPushName pushName = patch_of WAPatchCriticalBlock
     [\<lparr>miIndex = [IndexSettingPushName], miVersion = 1, miValue = PushNameSetting pushName\<rparr>]"

definition BuildStar :: "jid \<Rightarrow> jid \<Rightarrow> string \<Rightarrow> bool \<Rightarrow> bool \<Rightarrow> PatchInfo" where
  "BuildStar target sender messageID fromMe starred =
     (let isFromMe = (if fromMe then ''1'' else ''0'');
          senderJID = (if User target = User sender then ''0'' else JID_String sender) in
      patch_of WAPatchRegularHigh
        [\<lparr>miIndex = [IndexStar, JID_String target, messageID, isFromMe, senderJID], miVersion = 2,
          miValue = StarAction starred\<rparr>])"

definition BuildDeleteChat :: "int \<Rightarrow> jid \<Rightarrow> int option \<Rightarrow> string option \<Rightarrow> PatchInfo" where
  "BuildDeleteChat now target lastMessageTimestamp lastMessageKey =
     patch_of WAPatchRegular [\<lparr>miIndex = [IndexDeleteChat, JID_String target], miVersion = 6,
       miValue = DeleteChatAction (newMessageRange now lastMessageTimestamp lastMessageKey)\<rparr>]"

section \<open>What is sent\<close>

text \<open>Messages of protobuf with the values their getters return: an absent version is 0, absent bytes
  are empty; key ids, whose absence is tested, are optional. The records of a snapshot are kept as the
  mutations that \<open>decodeSnapshot\<close> wraps them in.\<close>

datatype sync_op = OpSet | OpRemove

record SyncdMutation =
  smOperation :: sync_op
  smIndex :: string
  smValue :: string
  smKeyID :: "string option"

record SyncdPatch =
  spVersion :: "64 word"
  spMutations :: "SyncdMutation list"
  spExternalMutations :: "string option"
  spSnapshotMAC :: string
  spPatchMAC :: string
  spKeyID :: "string option"

record SyncdSnapshot =
  ssVersion :: "64 word"
  ssRecords :: "SyncdMutation list"
  ssMac :: string
  ssKeyID :: "string option"

record PatchList =
  plName :: string
  plHasMorePatches :: bool
  plPatches :: "SyncdPatch list"
  plSnapshot :: "SyncdSnapshot option"

record SyncActionData =
  sadIndex :: string
  sadValue :: SyncActionValue
  sadVersion :: int

record Mutation =
  muOperation :: sync_op
  muAction :: SyncActionValue
  muVersion :: int
  muIndex :: "string list"
  muIndexMAC :: string
  muValueMAC :: string

record HashState =
  hsVersion :: "64 word"
  hsHash :: string

record ExpandedAppStateKeys =
  ekIndex :: string
  ekValueEncryption :: string
  ekValueMAC :: string
  ekSnapshotMAC :: string
  ekPatchMAC :: string

section \<open>The store\<close>

text \<open>A row of \<open>whatsmeow_app_state_mutation_macs\<close>; its primary key is name, version and index.\<close>

record mac_row =
  mrName :: string
  mrVersion :: "64 word"
  mrIndex :: string
  mrValue :: string

record app_state =
  asTick :: nat
  asVersions :: "string \<rightharpoonup> 64 word \<times> string"
  asMacs :: "mac_row list"
  asSyncKeys :: "string \<rightharpoonup> string"
  asKeyCache :: "string \<rightharpoonup> ExpandedAppStateKeys"

record app_env =
  apFault :: "nat \<Rightarrow> go_error"
  apConstraint :: string
  apMutationKeys :: "string \<Rightarrow> string"
  apHmac256 :: "string \<Rightarrow> string \<Rightarrow> string"
  apHmac512 :: "string \<Rightarrow> string \<Rightarrow> string"
  apExpand :: "string \<Rightarrow> string"
  apRandom :: "nat \<Rightarrow> string result"
  apCipherError :: "string \<Rightarrow> go_error"
  apCbcEncrypt :: "string \<Rightarrow> string \<Rightarrow> string \<Rightarrow> string"
  apCbcDecrypt :: "string \<Rightarrow> string \<Rightarrow> string \<Rightarrow> string"
  apMarshal :: "SyncActionData \<Rightarrow> string result"
  apUnmarshal :: "string \<Rightarrow> SyncActionData result"
  apJson :: "string list \<Rightarrow> string"
  apParseJson :: "string \<Rightarrow> (string list) result"

definition as_ask :: "(nat \<Rightarrow> 'a) \<Rightarrow> (app_state, 'a) go" where
  "as_ask f s = (Return (f (asTick s)), s\<lparr>asTick := Suc (asTick s)\<rparr>)"

definition as_statement :: "app_env \<Rightarrow> (app_state, unit) go" where
  "as_statement env = bindg (as_ask (apFault env)) of_error"

definition PutAppStateVersion :: "app_env \<Rightarrow> string \<Rightarrow> 64 word \<Rightarrow> string \<Rightarrow> (app_state, unit) go" where
  "PutAppStateVersion env name version hash =
     bindg (as_statement env) (\<lambda>_. modify (\<lambda>s. s\<lparr>asVersions := (asVersions s)(name \<mapsto> (version, hash))\<rparr>))"

text \<open>No row is the initial state. The column holds 128 bytes, which its constraint checks.\<close>

definition GetAppStateVersion :: "app_env \<Rightarrow> string \<Rightarrow> (app_state, 64 word \<times> string) go" where
  "GetAppStateVersion env name =
     bindg (as_statement env) (\<lambda>_. gets (\<lambda>s.
       case asVersions s name of None \<Rightarrow> (0, replicate 128 (byte 0)) | Some v \<Rightarrow> v))"

text \<open>The rows of the mutations refer to the version with \<open>ON DELETE CASCADE\<close>.\<close>

definition DeleteAppStateVersion :: "app_env \<Rightarrow> string \<Rightarrow> (app_state, unit) go" where
  "DeleteAppStateVersion env name =
     bindg (as_statement env) (\<lambda>_. modify (\<lambda>s.
       s\<lparr>asVersions := (asVersions s)(name := None), asMacs := filter (\<lambda>r. mrName r \<noteq> name) (asMacs s)\<rparr>))"

definition mac_row_of :: "string \<Rightarrow> 64 word \<Rightarrow> string \<times> string \<Rightarrow> mac_row" where
  "mac_row_of name version = (\<lambda>(index, val). \<lparr>mrName = name, mrVersion = version, mrIndex = index, mrValue = val\<rparr>)"

text \<open>The constraints of the table on rows to be inserted: the primary key, the reference and the
  lengths.\<close>

definition insertable :: "app_state \<Rightarrow> string \<Rightarrow> 64 word \<Rightarrow> (string \<times> string) list \<Rightarrow> bool" where
  "insertable s name version macs =
     (asVersions s name \<noteq> None \<and> distinct (map fst macs) \<and>
      list_all (\<lambda>(index, val). length index = 32 \<and> length val = 32) macs \<and>
      list_all (\<lambda>r. mrName r = name \<and> mrVersion r = version \<longrightarrow> mrIndex r \<notin> set (map fst macs)) (asMacs s))"

text \<open>One transaction; the chunks of 400 rows only matter to the driver.\<close>

definition PutAppStateMutationMACs :: "app_env \<Rightarrow> string \<Rightarrow> 64 word \<Rightarrow> (string \<times> string) list \<Rightarrow> (app_state, unit) go" where
  "PutAppStateMutationMACs env name version mutations =
     (if mutations = [] then ret ()
      else bindg (as_statement env) (\<lambda>_.
        bindg (gets (\<lambda>s. insertable s name version mutations)) (\<lambda>ok.
        if \<not> ok then raise (apConstraint env)
        else modify (\<lambda>s. s\<lparr>asMacs := asMacs s @ map (mac_row_of name version) mutations\<rparr>))))"

definition DeleteAppStateMutationMACs :: "app_env \<Rightarrow> string \<Rightarrow> string list \<Rightarrow> (app_state, unit) go" where
  "DeleteAppStateMutationMACs env name indexMACs =
     (if indexMACs = [] then ret ()
      else bindg (as_statement env) (\<lambda>_. modify (\<lambda>s.
        s\<lparr>asMacs := filter (\<lambda>r. \<not> (mrName r = name \<and> mrIndex r \<in> set indexMACs)) (asMacs s)\<rparr>)))"

text \<open>\<open>ORDER BY version DESC LIMIT 1\<close>.\<close>

fun latest_row :: "mac_row list \<Rightarrow> mac_row option" where
  "latest_row [] = None"
| "latest_row (r # rs) =
     (case latest_row rs of None \<Rightarrow> Some r | Some q \<Rightarrow> if mrVersion r < mrVersion q then Some q else Some r)"

definition stored_mac :: "app_state \<Rightarrow> string \<Rightarrow> string \<Rightarrow> string option" where
  "stored_mac s name indexMAC =
     map_option mrValue (latest_row (filter (\<lambda>r. mrName r = name \<and> mrIndex r = indexMAC) (asMacs s)))"

definition GetAppStateMutationMAC :: "app_env \<Rightarrow> string \<Rightarrow> string \<Rightarrow> (app_state, string option) go" where
  "GetAppStateMutationMAC env name indexMAC =
     bindg (as_statement env) (\<lambda>_. gets (\<lambda>s. stored_mac s name indexMAC))"

definition GetAppStateSyncKey :: "app_env \<Rightarrow> string \<Rightarrow> (app_state, string option) go" where
  "GetAppStateSyncKey env keyID = bindg (as_statement env) (\<lambda>_. gets (\<lambda>s. asSyncKeys s keyID))"

end
