(* ===== verification/AppStatePatch.thy ===== *)
theory AppStatePatch
  imports AppState BinaryEncoder
begin

text \<open>
  Encoding and decoding of application state patches: \<open>keys.go\<close>, \<open>hash.go\<close>, \<open>encode.go\<close> and
  \<open>decode.go\<close> of \<open>whatsmeow-lib/appstate\<close>, with the padding of \<open>util/cbcutil/cbc.go\<close>. Warnings are
  only logged and are left out. \<open>Decrypt\<close> works in place: it overwrites the value of the mutation
  except its initialisation vector and its MAC, which is all that is read of it afterwards.
\<close>

section \<open>Keys\<close>

definition hex_with :: "string \<Rightarrow> string \<Rightarrow> string" where
  "hex_with digits s = concat (map (\<lambda>b. [digits ! (byte_val b div 16), digits ! (byte_val b mod 16)]) s)"

definition hex_lower :: "string \<Rightarrow> string" where "hex_lower = hex_with ''0123456789abcdef''"
definition hex_upper :: "string \<Rightarrow> string" where "hex_upper = hex_with ''0123456789ABCDEF''"

definition ErrKeyNotFound :: string where
  "ErrKeyNotFound = ''didn'' @ [CHR 0x27] @ ''t find app state key''"
definition ErrMismatchingLTHash :: string where "ErrMismatchingLTHash = ''mismatching LTHash''"
definition ErrMismatchingPatchMAC :: string where "ErrMismatchingPatchMAC = ''mismatching patch MAC''"
definition ErrMismatchingContentMAC :: string where "ErrMismatchingContentMAC = ''mismatching content MAC''"
definition ErrMismatchingIndexMAC :: string where "ErrMismatchingIndexMAC = ''mismatching index MAC''"

definition slice :: "nat \<Rightarrow> nat \<Rightarrow> string \<Rightarrow> string" where
  "slice i j s = take (j - i) (drop i s)"

text \<open>\<open>apMutationKeys\<close> is \<open>hkdfutil.SHA256(keyData, nil, "WhatsApp Mutation Keys", 160)\<close>.\<close>

definition expandAppStateKeys :: "app_env \<Rightarrow> string \<Rightarrow> ExpandedAppStateKeys" where
  "expandAppStateKeys env keyData =
     (let expanded = apMutationKeys env keyData in
      \<lparr>ekIndex = slice 0 32 expanded, ekValueEncryption = slice 32 64 expanded,
       ekValueMAC = slice 64 96 expanded, ekSnapshotMAC = slice 96 128 expanded,
       ekPatchMAC = slice 128 160 expanded\<rparr>)"

text \<open>With a query error the store returns a pointer to an empty key beside the error, and its expansion is
  put into the cache.\<close>

definition getAppStateKey :: "app_env \<Rightarrow> string \<Rightarrow> (app_state, ExpandedAppStateKeys) go" where
  "getAppStateKey env keyID =
     bindg (gets (\<lambda>s. asKeyCache s keyID)) (\<lambda>cached.
     case cached of Some keys \<Rightarrow> ret keys
     | None \<Rightarrow>
         attempt (GetAppStateSyncKey env keyID) (\<lambda>r.
         let remember = (\<lambda>keys. modify (\<lambda>s. s\<lparr>asKeyCache := (asKeyCache s)(keyID \<mapsto> keys)\<rparr>)) in
         case r of
           Inl e \<Rightarrow> bindg (remember (expandAppStateKeys env [])) (\<lambda>_. raise e)
         | Inr None \<Rightarrow> raise ErrKeyNotFound
         | Inr (Some d) \<Rightarrow>
             (let keys = expandAppStateKeys env d in bindg (remember keys) (\<lambda>_. ret keys))))"

text \<open>The ids of keys that are not stored, each once.\<close>

fun check_missing :: "app_env \<Rightarrow> (string option) list \<Rightarrow> string set \<Rightarrow> (app_state, string list) go" where
  "check_missing env [] cache = ret []"
| "check_missing env (None # ids) cache = check_missing env ids cache"
| "check_missing env (Some keyID # ids) cache =
     (if keyID \<in> cache then check_missing env ids cache
      else attempt (GetAppStateSyncKey env keyID) (\<lambda>r.
        bindg (check_missing env ids (insert keyID cache)) (\<lambda>rest.
        ret (case r of Inr None \<Rightarrow> keyID # rest | _ \<Rightarrow> rest))))"

definition GetMissingKeyIDs :: "app_env \<Rightarrow> PatchList \<Rightarrow> (app_state, string list) go" where
  "GetMissingKeyIDs env pl =
     check_missing env
       ((case plSnapshot pl of None \<Rightarrow> [] | Some ss \<Rightarrow> ssKeyID ss # map smKeyID (ssRecords ss))
        @ map spKeyID (plPatches pl)) {}"

section \<open>Hashes\<close>

text \<open>The last 32 bytes of a value; a shorter one is a panic.\<close>

definition value_mac :: "string \<Rightarrow> string option" where
  "value_mac val = (if length val < 32 then None else Some (drop (length val - 32) val))"

definition content_of :: "string \<Rightarrow> string" where
  "content_of val = take (length val - 32) val"

definition or_panic :: "'a option \<Rightarrow> ('s, 'a) go" where
  "or_panic x = (case x of None \<Rightarrow> crash | Some y \<Rightarrow> ret y)"

fun hash_items :: "(string \<Rightarrow> nat \<Rightarrow> (app_state, string option) go) \<Rightarrow> nat \<Rightarrow> SyncdMutation list
    \<Rightarrow> (app_state, string list \<times> string list) go" where
  "hash_items getPrev i [] = ret ([], [])"
| "hash_items getPrev i (mutation # rest) =
     bindg (case smOperation mutation of
         OpSet \<Rightarrow> bindg (or_panic (value_mac (smValue mutation))) (\<lambda>m. ret [m])
       | OpRemove \<Rightarrow> ret []) (\<lambda>addition.
     attempt (getPrev (smIndex mutation) i) (\<lambda>r.
     case r of
       Inl e \<Rightarrow> raise (''failed to get value MAC of previous SET operation: '' @ e)
     | Inr removal \<Rightarrow>
         bindg (hash_items getPrev (Suc i) rest) (\<lambda>(added, removed).
         ret (addition @ added, (case removal of None \<Rightarrow> removed | Some m \<Rightarrow> m # removed)))))"

definition updateHash :: "app_env \<Rightarrow> HashState \<Rightarrow> SyncdMutation list
    \<Rightarrow> (string \<Rightarrow> nat \<Rightarrow> (app_state, string option) go) \<Rightarrow> (app_state, HashState) go" where
  "updateHash env hs mutations getPrev =
     bindg (hash_items getPrev 0 mutations) (\<lambda>(added, removed).
     bindg (or_panic (SubtractThenAdd (apExpand env) (hsHash hs) removed added)) (\<lambda>h.
     ret (hs\<lparr>hsHash := h\<rparr>)))"

text \<open>Big endian, most significant byte first.\<close>

definition uint64ToBytes :: "64 word \<Rightarrow> string" where
  "uint64ToBytes val = map (\<lambda>i. byte (unat (drop_bit (8 * i) val))) (rev [0..<8])"

definition generateSnapshotMAC :: "app_env \<Rightarrow> HashState \<Rightarrow> string \<Rightarrow> string \<Rightarrow> string" where
  "generateSnapshotMAC env hs name key = apHmac256 env key (hsHash hs @ uint64ToBytes (hsVersion hs) @ name)"

definition generatePatchMAC :: "app_env \<Rightarrow> SyncdPatch \<Rightarrow> string \<Rightarrow> string \<Rightarrow> 64 word \<Rightarrow> string option" where
  "generatePatchMAC env patch name key version =
     (case those (map (\<lambda>m. value_mac (smValue m)) (spMutations patch)) of
        None \<Rightarrow> None
      | Some macs \<Rightarrow>
          Some (apHmac256 env key (concat (spSnapshotMAC patch # macs @ [uint64ToBytes version, name]))))"

definition operation_byte :: "sync_op \<Rightarrow> string" where
  "operation_byte operation = (case operation of OpSet \<Rightarrow> [byte 1] | OpRemove \<Rightarrow> [byte 2])"

definition generateContentMAC :: "app_env \<Rightarrow> sync_op \<Rightarrow> string \<Rightarrow> string \<Rightarrow> string \<Rightarrow> string" where
  "generateContentMAC env operation data keyID key =
     take 32 (apHmac512 env key
       (concat [operation_byte operation, keyID, data, uint64ToBytes (of_nat (length keyID + 1))]))"

section \<open>The block cipher mode\<close>

text \<open>\<open>apCbcEncrypt\<close> and \<open>apCbcDecrypt\<close> stand for \<open>CryptBlocks\<close> on whole blocks of 16 bytes. The two
  calls of \<open>Encrypt\<close> continue one chain; a text that is not made of whole blocks is a panic of
  \<open>CryptBlocks\<close>.\<close>

definition pad :: "string \<Rightarrow> string" where
  "pad plaintext =
     (let paddingLen = 16 - length plaintext mod 16 in plaintext @ replicate paddingLen (byte paddingLen))"

definition Encrypt :: "app_env \<Rightarrow> string \<Rightarrow> string \<Rightarrow> (app_state, string) go" where
  "Encrypt env key plaintext =
     bindg (of_error (apCipherError env key)) (\<lambda>_.
     bindg (bindg (as_ask (apRandom env)) of_result) (\<lambda>iv.
     ret (iv @ apCbcEncrypt env key iv (pad plaintext))))"

definition unpad :: "string \<Rightarrow> string result" where
  "unpad src =
     (let padLen = byte_val (last src) in
      if padLen > length src
      then Err (''padding is greater then the length: '' @ show_nat padLen @ '' / '' @ show_nat (length src))
      else Ok (take (length src - padLen) src))"

definition Decrypt :: "app_env \<Rightarrow> string \<Rightarrow> string \<Rightarrow> string \<Rightarrow> (app_state, string) go" where
  "Decrypt env key iv ciphertext =
     bindg (of_error (apCipherError env key)) (\<lambda>_.
     if length ciphertext < 16
     then raise (''ciphertext is shorter then block size: '' @ show_nat (length ciphertext) @ '' / 16'')
     else if length ciphertext mod 16 \<noteq> 0 then crash
     else of_result (unpad (apCbcDecrypt env key iv ciphertext)))"

section \<open>Encoding\<close>

definition wrap_error :: "string \<Rightarrow> ('s, 'a) go \<Rightarrow> ('s, 'a) go" where
  "wrap_error what m = attempt m (\<lambda>r. case r of Inl e \<Rightarrow> raise (what @ e) | Inr x \<Rightarrow> ret x)"

definition encode_mutation :: "app_env \<Rightarrow> string \<Rightarrow> ExpandedAppStateKeys \<Rightarrow> int \<Rightarrow> MutationInfo
    \<Rightarrow> (app_state, SyncdMutation) go" where
  "encode_mutation env keyID keys timestamp mutationInfo =
     (let indexBytes = apJson env (miIndex mutationInfo);
          pbObj = \<lparr>sadIndex = indexBytes,
                   sadValue = \<lparr>savTimestamp = Some timestamp, savAction = miValue mutationInfo\<rparr>,
                   sadVersion = miVersion mutationInfo\<rparr> in
      bindg (wrap_error ''failed to marshal mutation: '' (of_result (apMarshal env pbObj))) (\<lambda>content.
      bindg (wrap_error ''failed to encrypt mutation: '' (Encrypt env (ekValueEncryption keys) content)) (\<lambda>encryptedContent.
      ret \<lparr>smOperation = OpSet, smIndex = apHmac256 env (ekIndex keys) indexBytes,
           smValue = encryptedContent @ generateContentMAC env OpSet encryptedContent keyID (ekValueMAC keys),
           smKeyID = Some keyID\<rparr>)))"

fun encode_mutations :: "app_env \<Rightarrow> string \<Rightarrow> ExpandedAppStateKeys \<Rightarrow> int \<Rightarrow> MutationInfo list
    \<Rightarrow> (app_state, SyncdMutation list) go" where
  "encode_mutations env keyID keys timestamp [] = ret []"
| "encode_mutations env keyID keys timestamp (m # ms) =
     bindg (encode_mutation env keyID keys timestamp m) (\<lambda>x.
     bindg (encode_mutations env keyID keys timestamp ms) (\<lambda>xs. ret (x # xs)))"

text \<open>The patch before its final \<open>proto.Marshal\<close>. \<open>now\<close> is \<open>time.Now()\<close> in milliseconds.\<close>

definition EncodePatch :: "app_env \<Rightarrow> int \<Rightarrow> string \<Rightarrow> HashState \<Rightarrow> PatchInfo \<Rightarrow> (app_state, SyncdPatch) go" where
  "EncodePatch env now keyID state patchInfo =
     bindg (wrap_error (''failed to get app state key details with key ID '' @ hex_lower keyID @ '': '')
       (getAppStateKey env keyID)) (\<lambda>keys.
     bindg (encode_mutations env keyID keys
       (case piTimestamp patchInfo of None \<Rightarrow> now | Some t \<Rightarrow> t) (piMutations patchInfo)) (\<lambda>mutations.
     bindg (wrap_error ''failed to update state hash: ''
       (updateHash env state mutations
         (\<lambda>indexMAC _. GetAppStateMutationMAC env (piType patchInfo) indexMAC))) (\<lambda>state1.
     let state2 = state1\<lparr>hsVersion := hsVersion state1 + 1\<rparr>;
         syncdPatch = \<lparr>spVersion = 0, spMutations = mutations, spExternalMutations = None,
           spSnapshotMAC = generateSnapshotMAC env state2 (piType patchInfo) (ekSnapshotMAC keys),
           spPatchMAC = [], spKeyID = Some keyID\<rparr> in
     bindg (or_panic (generatePatchMAC env syncdPatch (piType patchInfo) (ekPatchMAC keys) (hsVersion state2))) (\<lambda>mac.
     ret (syncdPatch\<lparr>spPatchMAC := mac\<rparr>)))))"

section \<open>Decoding\<close>

record patchOutput =
  RemovedMACs :: "string list"
  AddedMACs :: "(string \<times> string) list"
  Mutations :: "Mutation list"

definition add_output :: "SyncdMutation \<Rightarrow> string \<Rightarrow> SyncActionData \<Rightarrow> string list \<Rightarrow> patchOutput \<Rightarrow> patchOutput" where
  "add_output mutation valueMAC syncAction index out =
     \<lparr>RemovedMACs = RemovedMACs out @ (if smOperation mutation = OpRemove then [smIndex mutation] else []),
      AddedMACs = AddedMACs out @ (if smOperation mutation = OpSet then [(smIndex mutation, valueMAC)] else []),
      Mutations = Mutations out @ [\<lparr>muOperation = smOperation mutation, muAction = sadValue syncAction,
        muVersion = sadVersion syncAction, muIndex = index, muIndexMAC = smIndex mutation, muValueMAC = valueMAC\<rparr>]\<rparr>"

definition decode_mutation :: "app_env \<Rightarrow> bool \<Rightarrow> nat \<Rightarrow> SyncdMutation \<Rightarrow> patchOutput \<Rightarrow> (app_state, patchOutput) go" where
  "decode_mutation env validateMACs i mutation out =
     (let keyID = str_of (smKeyID mutation) in
      bindg (wrap_error (''failed to get key '' @ hex_upper keyID @ '' to decode mutation: '')
        (getAppStateKey env keyID)) (\<lambda>keys.
      bindg (or_panic (value_mac (smValue mutation))) (\<lambda>valueMAC.
      let content = content_of (smValue mutation) in
      if validateMACs \<and>
        generateContentMAC env (smOperation mutation) content keyID (ekValueMAC keys) \<noteq> valueMAC
      then raise (''failed to verify mutation #'' @ show_nat (i + 1) @ '': '' @ ErrMismatchingContentMAC)
      else if length content < 16 then crash
      else
      bindg (wrap_error (''failed to decrypt mutation #'' @ show_nat (i + 1) @ '': '')
        (Decrypt env (ekValueEncryption keys) (take 16 content) (drop 16 content))) (\<lambda>plaintext.
      bindg (wrap_error (''failed to unmarshal mutation #'' @ show_nat (i + 1) @ '': '')
        (of_result (apUnmarshal env plaintext))) (\<lambda>syncAction.
      if validateMACs \<and> apHmac256 env (ekIndex keys) (sadIndex syncAction) \<noteq> smIndex mutation
      then raise (''failed to verify mutation #'' @ show_nat (i + 1) @ '': '' @ ErrMismatchingIndexMAC)
      else
      bindg (wrap_error (''failed to unmarshal index of mutation #'' @ show_nat (i + 1) @ '': '')
        (of_result (apParseJson env (sadIndex syncAction)))) (\<lambda>index.
      ret (add_output mutation valueMAC syncAction index out)))))))"

fun decodeMutations :: "app_env \<Rightarrow> bool \<Rightarrow> nat \<Rightarrow> SyncdMutation list \<Rightarrow> patchOutput \<Rightarrow> (app_state, patchOutput) go" where
  "decodeMutations env validateMACs i [] out = ret out"
| "decodeMutations env validateMACs i (mutation # mutations) out =
     bindg (decode_mutation env validateMACs i mutation out) (\<lambda>out'.
     decodeMutations env validateMACs (Suc i) mutations out')"

text \<open>Each of the three statements is tried; errors are only logged.\<close>

definition storeMACs :: "app_env \<Rightarrow> string \<Rightarrow> HashState \<Rightarrow> patchOutput \<Rightarrow> (app_state, unit) go" where
  "storeMACs env name currentState out =
     attempt (PutAppStateVersion env name (hsVersion currentState) (hsHash currentState)) (\<lambda>_.
     attempt (DeleteAppStateMutationMACs env name (RemovedMACs out)) (\<lambda>_.
     attempt (PutAppStateMutationMACs env name (hsVersion currentState) (AddedMACs out)) (\<lambda>_. ret ())))"

definition validateSnapshotMAC :: "app_env \<Rightarrow> string \<Rightarrow> HashState \<Rightarrow> string \<Rightarrow> string
    \<Rightarrow> (app_state, ExpandedAppStateKeys) go" where
  "validateSnapshotMAC env name currentState keyID expectedSnapshotMAC =
     bindg (wrap_error (''failed to get key '' @ hex_upper keyID @ '' to verify patch v'' @
         show_nat (unat (hsVersion currentState)) @ '' MACs: '')
       (getAppStateKey env keyID)) (\<lambda>keys.
     if generateSnapshotMAC env currentState name (ekSnapshotMAC keys) \<noteq> expectedSnapshotMAC
     then raise (''failed to verify patch v'' @ show_nat (unat (hsVersion currentState)) @ '': '' @ ErrMismatchingLTHash)
     else ret keys)"

definition decodeSnapshot :: "app_env \<Rightarrow> string \<Rightarrow> SyncdSnapshot \<Rightarrow> HashState \<Rightarrow> bool \<Rightarrow> Mutation list
    \<Rightarrow> (app_state, Mutation list \<times> HashState) go" where
  "decodeSnapshot env name ss initialState validateMACs newMutationsInput =
     (let mutations = map (\<lambda>m. m\<lparr>smOperation := OpSet\<rparr>) (ssRecords ss) in
      bindg (wrap_error ''failed to update state hash: ''
        (updateHash env (initialState\<lparr>hsVersion := ssVersion ss\<rparr>) mutations (\<lambda>indexMAC maxIndex. ret None))) (\<lambda>currentState.
      bindg (if validateMACs
        then bindg (validateSnapshotMAC env name currentState (str_of (ssKeyID ss)) (ssMac ss)) (\<lambda>_. ret ())
        else ret ()) (\<lambda>_.
      bindg (wrap_error (''failed to decode snapshot of v'' @ show_nat (unat (hsVersion currentState)) @ '': '')
        (decodeMutations env validateMACs 0 mutations
          \<lparr>RemovedMACs = [], AddedMACs = [], Mutations = newMutationsInput\<rparr>)) (\<lambda>out.
      bindg (storeMACs env name currentState out) (\<lambda>_.
      ret (Mutations out, currentState))))))"

text \<open>The previous value of an index: the last mutation of the patch before the current one, whatever
  its operation, or the stored MAC.\<close>

definition previous_mac :: "app_env \<Rightarrow> string \<Rightarrow> SyncdMutation list \<Rightarrow> string \<Rightarrow> nat \<Rightarrow> (app_state, string option) go" where
  "previous_mac env name mutations indexMAC maxIndex =
     (case find (\<lambda>m. smIndex m = indexMAC) (rev (take maxIndex mutations)) of
        Some m \<Rightarrow> bindg (or_panic (value_mac (smValue m))) (\<lambda>v. ret (Some v))
      | None \<Rightarrow> GetAppStateMutationMAC env name indexMAC)"

definition validate_patch :: "app_env \<Rightarrow> string \<Rightarrow> SyncdPatch \<Rightarrow> HashState \<Rightarrow> (app_state, unit) go" where
  "validate_patch env name patch currentState =
     bindg (validateSnapshotMAC env name currentState (str_of (spKeyID patch)) (spSnapshotMAC patch)) (\<lambda>keys.
     bindg (or_panic (generatePatchMAC env patch name (ekPatchMAC keys) (spVersion patch))) (\<lambda>patchMAC.
     if patchMAC \<noteq> spPatchMAC patch
     then raise (''failed to verify patch v'' @ show_nat (unat (spVersion patch)) @ '': '' @ ErrMismatchingPatchMAC)
     else ret ()))"

definition decode_patch :: "app_env \<Rightarrow> string \<Rightarrow> bool \<Rightarrow> SyncdPatch \<Rightarrow> Mutation list \<times> HashState
    \<Rightarrow> (app_state, Mutation list \<times> HashState) go" where
  "decode_patch env name validateMACs patch = (\<lambda>(newMutations, state).
     bindg (wrap_error ''failed to update state hash: ''
       (updateHash env (state\<lparr>hsVersion := spVersion patch\<rparr>) (spMutations patch)
         (previous_mac env name (spMutations patch)))) (\<lambda>currentState.
     bindg (if validateMACs then validate_patch env name patch currentState else ret ()) (\<lambda>_.
     bindg (decodeMutations env validateMACs 0 (spMutations patch)
       \<lparr>RemovedMACs = [], AddedMACs = [], Mutations = newMutations\<rparr>) (\<lambda>out.
     bindg (storeMACs env name currentState out) (\<lambda>_.
     ret (Mutations out, currentState))))))"

fun decode_patches :: "app_env \<Rightarrow> string \<Rightarrow> bool \<Rightarrow> SyncdPatch list \<Rightarrow> Mutation list \<times> HashState
    \<Rightarrow> (app_state, Mutation list \<times> HashState) go" where
  "decode_patches env name validateMACs [] acc = ret acc"
| "decode_patches env name validateMACs (p # ps) acc =
     bindg (decode_patch env name validateMACs p acc) (decode_patches env name validateMACs ps)"

definition DecodePatches :: "app_env \<Rightarrow> PatchList \<Rightarrow> HashState \<Rightarrow> bool
    \<Rightarrow> (app_state, Mutation list \<times> HashState) go" where
  "DecodePatches env lst initialState validateMACs =
     bindg (case plSnapshot lst of
         None \<Rightarrow> ret ([], initialState)
       | Some ss \<Rightarrow> decodeSnapshot env (plName lst) ss initialState validateMACs [])
       (decode_patches env (plName lst) validateMACs (plPatches lst))"

end
