(* ===== verification/AppStateProperties.thy ===== *)
theory AppStateProperties
  imports AppStatePatch
begin

text \<open>
  The stored hash of a collection is the sum of the value MACs that are stored for it, as long as
  patches name an index once and their versions grow; a patch that is encoded is accepted when it comes
  back. The hash sees the table of MACs through the interface \<open>mac_store\<close>.
\<close>

section \<open>Sums over a finite map\<close>

definition msum :: "('v \<Rightarrow> 'g :: ab_group_add) \<Rightarrow> ('k \<rightharpoonup> 'v) \<Rightarrow> 'g" where
  "msum f m = (\<Sum>k\<in>dom m. f (the (m k)))"

definition weight :: "('v \<Rightarrow> 'g :: ab_group_add) \<Rightarrow> 'v option \<Rightarrow> 'g" where
  "weight f x = (case x of None \<Rightarrow> 0 | Some v \<Rightarrow> f v)"

lemma weight_simps [simp]: "weight f None = 0" "weight f (Some v) = f v"
  by (simp_all add: weight_def)

lemma msum_upd:
  assumes "finite (dom m)"
  shows "msum f (m(k := x)) = msum f m - weight f (m k) + weight f x"
proof -
  have rest: "msum f (m(k := y)) = weight f y + (\<Sum>j\<in>dom m - {k}. f (the (m j)))" for y
  proof (cases y)
    case None
    then have "msum f (m(k := y)) = (\<Sum>j\<in>dom m - {k}. f (the ((m(k := y)) j)))"
      by (simp add: msum_def)
    also have "\<dots> = (\<Sum>j\<in>dom m - {k}. f (the (m j)))" by (rule sum.cong) auto
    finally show ?thesis using None by simp
  next
    case (Some v)
    have "dom (m(k := y)) = insert k (dom m - {k})" using Some by auto
    then have "msum f (m(k := y)) = (\<Sum>j\<in>insert k (dom m - {k}). f (the ((m(k := y)) j)))"
      by (simp only: msum_def)
    also have "\<dots> = f v + (\<Sum>j\<in>dom m - {k}. f (the ((m(k := y)) j)))"
      using assms Some by (subst sum.insert) auto
    also have "(\<Sum>j\<in>dom m - {k}. f (the ((m(k := y)) j))) = (\<Sum>j\<in>dom m - {k}. f (the (m j)))"
      by (rule sum.cong) auto
    finally show ?thesis unfolding Some weight_simps .
  qed
  from rest [of "m k"] rest [of x] show ?thesis by (simp add: algebra_simps)
qed

text \<open>Replacing the values of distinct keys one after the other.\<close>

fun replace :: "('k \<rightharpoonup> 'v) \<Rightarrow> ('k \<times> 'v option) list \<Rightarrow> 'k \<rightharpoonup> 'v" where
  "replace m [] = m"
| "replace m ((k, x) # kxs) = replace (m(k := x)) kxs"

lemma replace_at: "distinct (map fst kxs) \<Longrightarrow>
    replace m kxs k = (case map_of kxs k of None \<Rightarrow> m k | Some x \<Rightarrow> x)"
proof (induction kxs arbitrary: m)
  case (Cons p kxs)
  obtain j x where p: "p = (j, x)" by fastforce
  show ?case
  proof (cases "k = j")
    case True
    with Cons.prems have "map_of kxs k = None" by (simp add: p map_of_eq_None_iff)
    with Cons p True show ?thesis by simp
  next
    case False
    with Cons p have "replace m (p # kxs) k = (case map_of kxs k of None \<Rightarrow> (m(j := x)) k | Some x \<Rightarrow> x)" by simp
    with False p show ?thesis by (simp split: option.split)
  qed
qed simp

lemma msum_replace:
  assumes "finite (dom m)" "distinct (map fst kxs)"
  shows "msum f (replace m kxs) =
    msum f m - (\<Sum>k\<leftarrow>map fst kxs. weight f (m k)) + (\<Sum>x\<leftarrow>map snd kxs. weight f x)"
  using assms
proof (induction kxs arbitrary: m)
  case (Cons p kxs)
  obtain k x where p: "p = (k, x)" by fastforce
  have "finite (dom (m(k := x)))" using Cons.prems(1) by (cases x) (auto simp: dom_fun_upd)
  moreover have "distinct (map fst kxs)" using Cons.prems(2) by (simp add: p)
  ultimately have
    "msum f (replace (m(k := x)) kxs) =
       msum f (m(k := x)) - (\<Sum>j\<leftarrow>map fst kxs. weight f ((m(k := x)) j)) + (\<Sum>x\<leftarrow>map snd kxs. weight f x)"
    by (rule Cons.IH)
  moreover have "map (\<lambda>j. weight f ((m(k := x)) j)) (map fst kxs) = map (\<lambda>j. weight f (m j)) (map fst kxs)"
    using Cons.prems(2) by (auto simp: p)
  ultimately have "msum f (replace (m(k := x)) kxs) =
     msum f m - weight f (m k) + weight f x - (\<Sum>j\<leftarrow>map fst kxs. weight f (m j)) + (\<Sum>x\<leftarrow>map snd kxs. weight f x)"
    unfolding msum_upd [OF Cons.prems(1)] by (simp only:)
  then show ?case unfolding p by (simp add: algebra_simps del: map_map)
qed simp

section \<open>The interface to the table of MACs\<close>

locale mac_store =
  fixes lookup :: "'s \<Rightarrow> string \<Rightarrow> string option"
    and store :: "string list \<Rightarrow> (string \<times> string) list \<Rightarrow> 's \<Rightarrow> 's"
    and ready :: "(string \<times> string) list \<Rightarrow> 's \<Rightarrow> bool"
  assumes finite_lookup: "finite (dom (lookup s))"
    and lookup_store: "ready added s \<Longrightarrow>
      lookup (store removed added s) k =
        (case map_of added k of Some v \<Rightarrow> Some v | None \<Rightarrow> if k \<in> set removed then None else lookup s k)"
begin

definition total :: "(string \<Rightarrow> 'g :: ab_group_add) \<Rightarrow> 's \<Rightarrow> 'g" where
  "total f s = msum f (lookup s)"

text \<open>What storing the changes of a patch does to the sum over the stored values: the previous value of
  each changed index goes, the new one comes.\<close>

lemma total_store:
  assumes "ready added s" "distinct (map fst changes)"
    and "added = [(k, v). (k, Some v) \<leftarrow> changes]" "removed = [k. (k, None) \<leftarrow> changes]"
  shows "total f (store removed added s) =
    total f s - (\<Sum>k\<leftarrow>map fst changes. weight f (lookup s k)) + (\<Sum>x\<leftarrow>map snd changes. weight f x)"
proof -
  have a: "map_of [(k, v). (k, Some v) \<leftarrow> changes] k = (case map_of changes k of Some (Some v) \<Rightarrow> Some v | _ \<Rightarrow> None)" for k
    using assms(2)
  proof (induction changes)
    case (Cons p changes)
    obtain j x where p: "p = (j, x)" by fastforce
    show ?case
    proof (cases "k = j")
      case True
      with Cons.prems have none: "map_of changes k = None" by (simp add: p map_of_eq_None_iff)
      from Cons none show ?thesis unfolding p True by (cases x) simp_all
    next
      case False
      with Cons show ?thesis unfolding p by (cases x) simp_all
    qed
  qed simp
  have r: "k \<in> set [k. (k, None) \<leftarrow> changes] \<longleftrightarrow> map_of changes k = Some None" for k
  proof -
    have "k \<in> set [k. (k, None) \<leftarrow> changes] \<longleftrightarrow> (k, None) \<in> set changes"
      by (auto split: option.splits)
    with assms(2) show ?thesis by simp
  qed
  have "lookup (store removed added s) k = replace (lookup s) changes k" for k
    unfolding lookup_store [OF assms(1)] replace_at [OF assms(2)]
    unfolding assms(3,4) a r by (auto split: option.split)
  then have "lookup (store removed added s) = replace (lookup s) changes" by blast
  then show ?thesis unfolding total_def by (simp add: msum_replace [OF finite_lookup assms(2)])
qed

end

section \<open>The table of the store\<close>

definition store_rows :: "string \<Rightarrow> 64 word \<Rightarrow> string list \<Rightarrow> (string \<times> string) list \<Rightarrow> app_state \<Rightarrow> app_state" where
  "store_rows name version removed added s =
     s\<lparr>asMacs := filter (\<lambda>r. \<not> (mrName r = name \<and> mrIndex r \<in> set removed)) (asMacs s)
        @ map (mac_row_of name version) added\<rparr>"

definition fresh_rows :: "string \<Rightarrow> 64 word \<Rightarrow> (string \<times> string) list \<Rightarrow> app_state \<Rightarrow> bool" where
  "fresh_rows name version added s =
     (distinct (map fst added) \<and> (\<forall>r\<in>set (asMacs s). mrName r = name \<longrightarrow> mrVersion r < version))"

lemma latest_row_append:
  assumes "\<forall>r\<in>set rs. mrVersion r < mrVersion q"
  shows "latest_row (rs @ [q]) = Some q"
  using assms by (induction rs) auto

lemma latest_row_none: "latest_row rs = None \<longleftrightarrow> rs = []"
  by (cases rs) (auto split: option.splits)

lemma latest_row_in: "latest_row rs = Some r \<Longrightarrow> r \<in> set rs"
  by (induction rs arbitrary: r) (auto split: option.splits if_splits)

lemma rows_of_index:
  "distinct (map fst added) \<Longrightarrow>
     filter (\<lambda>r. mrName r = name \<and> mrIndex r = k) (map (mac_row_of name version) added) =
       (case map_of added k of None \<Rightarrow> [] | Some v \<Rightarrow> [mac_row_of name version (k, v)])"
proof (induction added)
  case (Cons p added)
  obtain j v where p: "p = (j, v)" by fastforce
  have "map_of added k = None" if "k = j" using Cons.prems that by (simp add: p map_of_eq_None_iff)
  with Cons show ?case by (auto simp: p mac_row_of_def split: option.splits)
qed simp

lemma stored_mac_store_rows:
  assumes "fresh_rows name version added s"
  shows "stored_mac (store_rows name version removed added s) name k =
    (case map_of added k of Some v \<Rightarrow> Some v | None \<Rightarrow> if k \<in> set removed then None else stored_mac s name k)"
proof -
  let ?rows = "filter (\<lambda>r. mrName r = name \<and> mrIndex r = k)"
  have old: "?rows (filter (\<lambda>r. \<not> (mrName r = name \<and> mrIndex r \<in> set removed)) (asMacs s)) =
    (if k \<in> set removed then [] else ?rows (asMacs s))"
    by (auto simp: filter_empty_conv intro!: filter_cong)
  have new: "?rows (map (mac_row_of name version) added) =
      (case map_of added k of None \<Rightarrow> [] | Some v \<Rightarrow> [mac_row_of name version (k, v)])"
    by (rule rows_of_index) (use assms in \<open>simp add: fresh_rows_def\<close>)
  have latest: "latest_row (?rows (asMacs s) @ [mac_row_of name version (k, v)]) = Some (mac_row_of name version (k, v))" for v
    by (rule latest_row_append) (use assms in \<open>auto simp: fresh_rows_def mac_row_of_def\<close>)
  have val: "mrValue (mac_row_of name version (k, v)) = v" for v by (simp add: mac_row_of_def)
  have rows: "?rows (asMacs (store_rows name version removed added s)) =
     (if k \<in> set removed then [] else ?rows (asMacs s)) @
     (case map_of added k of None \<Rightarrow> [] | Some v \<Rightarrow> [mac_row_of name version (k, v)])"
  proof -
    have "asMacs (store_rows name version removed added s) =
        filter (\<lambda>r. \<not> (mrName r = name \<and> mrIndex r \<in> set removed)) (asMacs s) @ map (mac_row_of name version) added"
      by (simp add: store_rows_def)
    then show ?thesis unfolding old [symmetric] new [symmetric] by (simp only: filter_append)
  qed
  show ?thesis
    unfolding stored_mac_def rows by (auto simp: latest val split: option.split)
qed

lemma finite_stored_mac: "finite (dom (stored_mac s name))"
proof (rule finite_subset)
  show "dom (stored_mac s name) \<subseteq> mrIndex ` set (asMacs s)"
    by (auto simp: stored_mac_def dest!: latest_row_in)
qed simp

interpretation macs: mac_store "\<lambda>s. stored_mac s name" "store_rows name version" "fresh_rows name version"
  for name version
  by unfold_locales (rule finite_stored_mac, rule stored_mac_store_rows)

section \<open>Steps that leave the tables alone\<close>

definition tables :: "app_state \<Rightarrow> (string \<rightharpoonup> 64 word \<times> string) \<times> mac_row list \<times> (string \<rightharpoonup> string)" where
  "tables s = (asVersions s, asMacs s, asSyncKeys s)"

lemma tables_simps [simp]:
  "tables (s\<lparr>asTick := n\<rparr>) = tables s" "tables (s\<lparr>asKeyCache := c\<rparr>) = tables s"
  by (simp_all add: tables_def)

lemma stored_mac_tables: "tables s = tables t \<Longrightarrow> stored_mac s name = stored_mac t name"
  by (simp add: tables_def stored_mac_def fun_eq_iff)

text \<open>A view of the state that the counter is not part of is left alone by queries, by the cipher and by
  the hash loop; one that the key cache is not part of, by all the steps that decode.\<close>

locale quiet_view =
  fixes view :: "app_state \<Rightarrow> 'a"
  assumes view_tick: "view (s\<lparr>asTick := n\<rparr>) = view s"
begin

lemma quiet_ask: "keeps (same view) (as_ask f)"
  by (rule keepsI) (auto simp: as_ask_def same_def view_tick)

lemma keeps_statement: "keeps (same view) (as_statement env)"
  unfolding as_statement_def by (intro part.keeps_intros quiet_ask)

lemma keeps_or_panic: "keeps (same view) (or_panic x)"
  by (cases x) (simp_all add: or_panic_def part.keeps_pure)

lemma keeps_wrap: "keeps (same view) m \<Longrightarrow> keeps (same view) (wrap_error w m)"
  unfolding wrap_error_def by (intro part.keeps_intros)

lemmas keeps_quiet = part.keeps_intros quiet_ask keeps_statement keeps_or_panic keeps_wrap

lemma keeps_queries:
  "keeps (same view) (GetAppStateMutationMAC env name k)"
  "keeps (same view) (GetAppStateSyncKey env k)"
  unfolding GetAppStateMutationMAC_def GetAppStateSyncKey_def by (intro keeps_quiet)+

lemma keeps_previous: "keeps (same view) (previous_mac env name ms k i)"
  unfolding previous_mac_def by (intro keeps_quiet keeps_queries)

lemma keeps_hash_items:
  "(\<And>k i. keeps (same view) (getPrev k i)) \<Longrightarrow> keeps (same view) (hash_items getPrev i ms)"
proof (induction ms arbitrary: i)
  case (Cons m ms)
  show ?case
    by (cases "smOperation m") (auto intro!: keeps_quiet Cons)
qed (simp add: part.keeps_pure)

lemma keeps_updateHash:
  "(\<And>k i. keeps (same view) (getPrev k i)) \<Longrightarrow> keeps (same view) (updateHash env hs ms getPrev)"
  unfolding updateHash_def by (intro keeps_quiet keeps_hash_items)

lemma keeps_cipher:
  "keeps (same view) (Encrypt env key plain)" "keeps (same view) (Decrypt env key iv c)"
  unfolding Encrypt_def Decrypt_def by (intro keeps_quiet)+

lemma keeps_encode_mutation: "keeps (same view) (encode_mutation env keyID keys t mi)"
  unfolding encode_mutation_def Let_def by (intro keeps_quiet keeps_cipher)

lemma keeps_encode_mutations: "keeps (same view) (encode_mutations env keyID keys t mis)"
  by (induction mis) (auto intro!: keeps_quiet keeps_encode_mutation)

end

locale table_view = quiet_view +
  assumes view_cache: "view (s\<lparr>asKeyCache := c\<rparr>) = view s"
begin

lemma keeps_getAppStateKey: "keeps (same view) (getAppStateKey env keyID)"
proof -
  have "keeps (same view) (modify (\<lambda>s. s\<lparr>asKeyCache := f s\<rparr>))" for f
    by (rule part.keeps_modify) (simp add: same_def view_cache)
  then show ?thesis
    unfolding getAppStateKey_def Let_def by (intro keeps_quiet keeps_queries)
qed

lemma keeps_decode_mutation: "keeps (same view) (decode_mutation env v i m out)"
  unfolding decode_mutation_def Let_def by (intro keeps_quiet keeps_getAppStateKey keeps_cipher)

lemma keeps_decodeMutations: "keeps (same view) (decodeMutations env v i ms out)"
  by (induction ms arbitrary: i out) (auto intro!: keeps_quiet keeps_decode_mutation)

lemma keeps_validateSnapshotMAC: "keeps (same view) (validateSnapshotMAC env name hs k mac)"
  unfolding validateSnapshotMAC_def by (intro keeps_quiet keeps_getAppStateKey)

lemma keeps_validate_patch: "keeps (same view) (validate_patch env name p hs)"
  unfolding validate_patch_def by (intro keeps_quiet keeps_validateSnapshotMAC)

end

interpretation tabs: table_view tables
  by unfold_locales simp_all

interpretation cached: quiet_view "\<lambda>s. (tables s, asKeyCache s)"
  by unfold_locales simp

section \<open>What a decoded patch does to the tables\<close>

definition changes_of :: "SyncdMutation list \<Rightarrow> (string \<times> string option) list" where
  "changes_of ms = map (\<lambda>m. (smIndex m,
     case smOperation m of OpSet \<Rightarrow> value_mac (smValue m) | OpRemove \<Rightarrow> None)) ms"

definition no_faults :: "app_env \<Rightarrow> bool" where
  "no_faults env = (\<forall>n. apFault env n = None)"

lemma fst_changes [simp]: "map fst (changes_of ms) = map smIndex ms"
  by (simp add: changes_of_def comp_def)

lemma changes_of_simps [simp]:
  "changes_of [] = []"
  "changes_of (m # ms) = (smIndex m, case smOperation m of OpSet \<Rightarrow> value_mac (smValue m) | OpRemove \<Rightarrow> None) # changes_of ms"
  by (simp_all add: changes_of_def)

lemma statement_ok: "no_faults env \<Longrightarrow> as_statement env s = (Return (), s\<lparr>asTick := Suc (asTick s)\<rparr>)"
  by (simp add: as_statement_def no_faults_def bindg_def as_ask_def run_basic)

lemma same_tables: "same tables s t \<longleftrightarrow> tables t = tables s"
  by (simp add: same_def)

lemma previous_mac_run:
  assumes "no_faults env" "\<forall>m\<in>set (take i ms). smIndex m \<noteq> k"
  shows "previous_mac env name ms k i s = (Return (stored_mac s name k), s\<lparr>asTick := Suc (asTick s)\<rparr>)"
proof -
  have "find (\<lambda>m. smIndex m = k) (rev (take i ms)) = None"
    using assms(2) by (auto simp: find_None_iff)
  then show ?thesis
    by (simp add: previous_mac_def GetAppStateMutationMAC_def bindg_def statement_ok [OF assms(1)] run_basic
      stored_mac_def)
qed

text \<open>With the indices of a patch distinct, the hash loop subtracts the stored values of all of them and
  adds the new ones.\<close>

lemma hash_items_sums:
  assumes "no_faults env" "distinct (map smIndex (pre @ ms))"
    and "hash_items (previous_mac env name (pre @ ms)) (length pre) ms s = (Return (added, removed), s')"
  shows "(\<Sum>v\<leftarrow>added. f v) = (\<Sum>x\<leftarrow>map snd (changes_of ms). weight f x) \<and>
    (\<Sum>v\<leftarrow>removed. f v) = (\<Sum>k\<leftarrow>map smIndex ms. weight f (stored_mac s name k))"
  using assms(2,3)
proof (induction ms arbitrary: pre s added removed)
  case Nil
  then show ?case by (simp add: run_basic)
next
  case (Cons m ms)
  let ?prev = "previous_mac env name (pre @ m # ms)"
  have "\<forall>x\<in>set (take (length pre) (pre @ m # ms)). smIndex x \<noteq> smIndex m"
  proof
    fix x assume "x \<in> set (take (length pre) (pre @ m # ms))"
    then have "smIndex x \<in> smIndex ` set pre" by simp
    with Cons.prems(1) show "smIndex x \<noteq> smIndex m" by auto
  qed
  note prev = previous_mac_run [OF assms(1) this, of name]
  let ?s1 = "s\<lparr>asTick := Suc (asTick s)\<rparr>"
  have macs: "stored_mac ?s1 name = stored_mac s name" by (rule stored_mac_tables) simp
  from Cons.prems(2) obtain addition added2 removed2 where run:
    "hash_items ?prev (length (pre @ [m])) ms ?s1 = (Return (added2, removed2), s')"
    "added = addition @ added2"
    "removed = (case stored_mac s name (smIndex m) of None \<Rightarrow> removed2 | Some v \<Rightarrow> v # removed2)"
    and addition: "(\<Sum>v\<leftarrow>addition. f v) =
      weight f (case smOperation m of OpSet \<Rightarrow> value_mac (smValue m) | OpRemove \<Rightarrow> None)"
    by (cases "smOperation m"; cases "value_mac (smValue m)")
       (auto simp: or_panic_def run_basic attempt_def prev elim!: bindE)
  have "distinct (map smIndex ((pre @ [m]) @ ms))" using Cons.prems(1) by auto
  from Cons.IH [OF this] run(1) have
    "(\<Sum>v\<leftarrow>added2. f v) = (\<Sum>x\<leftarrow>map snd (changes_of ms). weight f x)"
    "(\<Sum>v\<leftarrow>removed2. f v) = (\<Sum>k\<leftarrow>map smIndex ms. weight f (stored_mac s name k))"
    by (simp_all add: macs)
  with addition show ?case by (simp add: run(2,3) split: option.split)
qed

lemma decode_mutation_output:
  assumes "decode_mutation env v i m out s = (Return out', s')"
  shows "\<exists>mac data index. value_mac (smValue m) = Some mac \<and> out' = add_output m mac data index out"
proof -
  have "yields (\<lambda>out'. \<exists>mac data index. value_mac (smValue m) = Some mac \<and> out' = add_output m mac data index out)
    (decode_mutation env v i m out)"
    unfolding decode_mutation_def Let_def or_panic_def
    by (cases "value_mac (smValue m)") (auto intro!: yields_intros)
  with assms show ?thesis unfolding yields_def by blast
qed

lemma decodeMutations_output:
  assumes "decodeMutations env v i ms out s = (Return out', s')"
  shows "AddedMACs out' = AddedMACs out @ [(k, v). (k, Some v) \<leftarrow> changes_of ms] \<and>
    RemovedMACs out' = RemovedMACs out @ [k. (k, None) \<leftarrow> changes_of ms]"
  using assms
proof (induction ms arbitrary: i out s)
  case Nil
  then show ?case by (simp add: run_basic)
next
  case (Cons m ms)
  from Cons.prems obtain out1 s1 where one: "decode_mutation env v i m out s = (Return out1, s1)"
    and rest: "decodeMutations env v (Suc i) ms out1 s1 = (Return out', s')"
    by (auto elim: bindE)
  from decode_mutation_output [OF one] obtain mac data index where
    mac: "value_mac (smValue m) = Some mac" and out1: "out1 = add_output m mac data index out" by blast
  from Cons.IH [OF rest] show ?case
    by (cases "smOperation m") (simp_all add: out1 add_output_def mac)
qed

definition stored_rows :: "string \<Rightarrow> HashState \<Rightarrow> patchOutput \<Rightarrow> app_state \<Rightarrow> app_state" where
  "stored_rows name hs out s =
     store_rows name (hsVersion hs) (RemovedMACs out) (AddedMACs out)
       (s\<lparr>asVersions := (asVersions s)(name \<mapsto> (hsVersion hs, hsHash hs))\<rparr>)"

lemma put_version_run:
  "no_faults env \<Longrightarrow> PutAppStateVersion env name v h s =
     (Return (), s\<lparr>asTick := Suc (asTick s), asVersions := (asVersions s)(name \<mapsto> (v, h))\<rparr>)"
  by (simp add: PutAppStateVersion_def bindg_def statement_ok run_basic)

lemma delete_macs_run:
  assumes "no_faults env"
  shows "\<exists>s'. DeleteAppStateMutationMACs env name removed s = (Return (), s') \<and>
    tables s' = tables (store_rows name v removed [] s)"
  by (cases "removed = []")
     (simp_all add: DeleteAppStateMutationMACs_def bindg_def statement_ok [OF assms] run_basic tables_def store_rows_def)

lemma put_macs_run:
  assumes "no_faults env" "asVersions s name \<noteq> None" "fresh_rows name v added s"
    and "\<forall>(k, x)\<in>set added. length k = 32 \<and> length x = 32"
  shows "\<exists>s'. PutAppStateMutationMACs env name v added s = (Return (), s') \<and>
    tables s' = tables (store_rows name v [] added s)"
proof (cases "added = []")
  case False
  have "insertable (s\<lparr>asTick := n\<rparr>) name v added" for n
    using assms(2-4) by (auto simp: insertable_def fresh_rows_def list_all_iff)
  with False show ?thesis
    by (simp add: PutAppStateMutationMACs_def bindg_def statement_ok [OF assms(1)] run_basic tables_def store_rows_def)
qed (simp add: PutAppStateMutationMACs_def run_basic tables_def store_rows_def)

lemma storeMACs_run:
  assumes "no_faults env" "fresh_rows name (hsVersion hs) (AddedMACs out) s"
    and "\<forall>(k, x)\<in>set (AddedMACs out). length k = 32 \<and> length x = 32"
  shows "\<exists>s'. storeMACs env name hs out s = (Return (), s') \<and> tables s' = tables (stored_rows name hs out s)"
proof -
  let ?s1 = "s\<lparr>asTick := Suc (asTick s), asVersions := (asVersions s)(name \<mapsto> (hsVersion hs, hsHash hs))\<rparr>"
  from delete_macs_run [OF assms(1), of name "RemovedMACs out" ?s1 "hsVersion hs"] obtain s2 where
    two: "DeleteAppStateMutationMACs env name (RemovedMACs out) ?s1 = (Return (), s2)"
    "tables s2 = tables (store_rows name (hsVersion hs) (RemovedMACs out) [] ?s1)" by blast
  from two(2) have t2: "asVersions s2 = asVersions ?s1"
    "asMacs s2 = filter (\<lambda>r. \<not> (mrName r = name \<and> mrIndex r \<in> set (RemovedMACs out))) (asMacs s)"
    "asSyncKeys s2 = asSyncKeys s"
    by (simp_all add: tables_def store_rows_def)
  have "asVersions s2 name \<noteq> None" by (simp add: t2)
  moreover have "fresh_rows name (hsVersion hs) (AddedMACs out) s2"
    using assms(2) by (simp add: fresh_rows_def t2)
  ultimately obtain s3 where
    three: "PutAppStateMutationMACs env name (hsVersion hs) (AddedMACs out) s2 = (Return (), s3)"
    "tables s3 = tables (store_rows name (hsVersion hs) [] (AddedMACs out) s2)"
    using put_macs_run [OF assms(1) _ _ assms(3)] by blast
  have "storeMACs env name hs out s = (Return (), s3)"
    by (simp add: storeMACs_def attempt_def put_version_run [OF assms(1)] two(1) three(1) run_basic)
  with three(2) show ?thesis by (simp add: tables_def stored_rows_def store_rows_def t2)
qed

section \<open>The stored hash\<close>

definition stored_state :: "app_state \<Rightarrow> string \<Rightarrow> HashState" where
  "stored_state s name =
     (case asVersions s name of None \<Rightarrow> \<lparr>hsVersion = 0, hsHash = replicate 128 (byte 0)\<rparr>
      | Some (v, h) \<Rightarrow> \<lparr>hsVersion = v, hsHash = h\<rparr>)"

definition hashes :: "app_env \<Rightarrow> app_state \<Rightarrow> string \<Rightarrow> string \<Rightarrow> bool" where
  "hashes env s name h =
     (length h = 128 \<and> (\<forall>i<64. number_at h i = macs.total name (\<lambda>v. number_at (apExpand env v) i) s))"

definition in_sync :: "app_env \<Rightarrow> string \<Rightarrow> app_state \<Rightarrow> bool" where
  "in_sync env name s =
     (hashes env s name (hsHash (stored_state s name)) \<and>
      (\<forall>r\<in>set (asMacs s). mrName r = name \<longrightarrow> mrVersion r \<le> hsVersion (stored_state s name)))"

definition proper_mutations :: "SyncdMutation list \<Rightarrow> bool" where
  "proper_mutations ms = (distinct (map smIndex ms) \<and> (\<forall>m\<in>set ms. length (smIndex m) = 32))"

lemma stored_state_tables: "tables s = tables t \<Longrightarrow> stored_state s name = stored_state t name"
  by (simp add: stored_state_def tables_def)

lemma in_sync_tables:
  assumes "tables s = tables t"
  shows "in_sync env name s = in_sync env name t"
proof -
  have "asMacs s = asMacs t" using assms by (simp add: tables_def)
  then show ?thesis
    by (simp add: in_sync_def hashes_def macs.total_def stored_state_tables [OF assms] stored_mac_tables [OF assms])
qed

lemma in_added: "(k, v) \<in> set [(k, v). (k, Some v) \<leftarrow> kxs] \<longleftrightarrow> (k, Some v) \<in> set kxs"
  by (auto split: option.splits)

lemma key_absent: "(\<And>v. (k, v) \<notin> set xs) \<Longrightarrow> k \<notin> set (map fst xs)"
  by auto

lemma distinct_added: "distinct (map fst kxs) \<Longrightarrow> distinct (map fst [(k, v). (k, Some v) \<leftarrow> kxs])"
proof (induction kxs)
  case (Cons p kxs)
  obtain k x where p: "p = (k, x)" by fastforce
  have rest: "distinct (map fst [(k, v). (k, Some v) \<leftarrow> kxs])" using Cons by (simp add: p)
  have "k \<notin> fst ` set kxs" using Cons.prems by (simp add: p)
  then have "(k, v) \<notin> set [(k, v). (k, Some v) \<leftarrow> kxs]" for v unfolding in_added by force
  then have "k \<notin> set (map fst [(k, v). (k, Some v) \<leftarrow> kxs])" by (rule key_absent)
  with rest show ?case by (cases x) (simp_all add: p)
qed simp

lemma added_lengths:
  assumes "\<forall>m\<in>set ms. length (smIndex m) = 32"
  shows "\<forall>(k, x)\<in>set [(k, v). (k, Some v) \<leftarrow> changes_of ms]. length k = 32 \<and> length x = 32"
proof (intro ballI, clarify)
  fix k x assume "(k, x) \<in> set [(k, v). (k, Some v) \<leftarrow> changes_of ms]"
  then have "(k, Some x) \<in> set (changes_of ms)" by (simp only: in_added)
  then obtain m where "m \<in> set ms" "k = smIndex m" "value_mac (smValue m) = Some x"
    by (auto simp: changes_of_def split: sync_op.splits)
  with assms show "length k = 32 \<and> length x = 32" by (auto simp: value_mac_def split: if_splits)
qed

lemma wrapE:
  assumes "wrap_error w m s = (r, s')"
  obtains (ok) x where "m s = (Return x, s')" "r = Return x"
    | (failed) e where "m s = (Raise e, s')" "r = Raise (w @ e)"
    | (panic) "m s = (Crash, s')" "r = Crash"
  using assms unfolding wrap_error_def by (elim attemptE) (auto simp: run_basic)

lemma or_panicE:
  assumes "or_panic x s = (r, s')"
  obtains (ok) y where "x = Some y" "r = Return y" "s' = s"
    | (panic) "x = None" "r = Crash" "s' = s"
  using assms by (cases x) (auto simp: or_panic_def run_basic)

text \<open>Storing the outputs of a patch whose hash was updated with the sums of its changes.\<close>

lemma commit:
  assumes env: "no_faults env" "expands (apExpand env)" and proper: "proper_mutations ms"
    and sync: "in_sync env name s" and t: "tables s2 = tables s"
    and older: "\<forall>r\<in>set (asMacs s). mrName r = name \<longrightarrow> mrVersion r < v"
    and h: "SubtractThenAdd (apExpand env) (hsHash (stored_state s name)) removed added = Some h"
    and sums: "\<And>f :: string \<Rightarrow> 16 word. (\<Sum>v\<leftarrow>added. f v) = (\<Sum>x\<leftarrow>map snd (changes_of ms). weight f x)"
      "\<And>f :: string \<Rightarrow> 16 word. (\<Sum>v\<leftarrow>removed. f v) = (\<Sum>k\<leftarrow>map smIndex ms. weight f (stored_mac s name k))"
    and out: "AddedMACs out = [(k, v). (k, Some v) \<leftarrow> changes_of ms]"
      "RemovedMACs out = [k. (k, None) \<leftarrow> changes_of ms]"
    and run: "storeMACs env name \<lparr>hsVersion = v, hsHash = h\<rparr> out s2 = (r, s3)"
  shows "r = Return () \<and> in_sync env name s3 \<and> stored_state s3 name = \<lparr>hsVersion = v, hsHash = h\<rparr>"
proof -
  let ?hs = "\<lparr>hsVersion = v, hsHash = h\<rparr>"
  have rows2: "asMacs s2 = asMacs s" using t by (simp add: tables_def)
  have fresh: "fresh_rows name v (AddedMACs out) s2"
    using proper older distinct_added [of "changes_of ms"] by (simp add: fresh_rows_def out rows2 proper_mutations_def)
  have "\<forall>(k, x)\<in>set (AddedMACs out). length k = 32 \<and> length x = 32"
    unfolding out by (rule added_lengths) (use proper in \<open>simp add: proper_mutations_def\<close>)
  with storeMACs_run [OF env(1), of name ?hs out s2] fresh run
  have r: "r = Return ()" and s3: "tables s3 = tables (stored_rows name ?hs out s2)" by auto
  let ?base = "s2\<lparr>asVersions := (asVersions s2)(name \<mapsto> (v, h))\<rparr>"
  have state: "stored_state s3 name = ?hs"
    unfolding stored_state_tables [OF s3] by (simp add: stored_state_def stored_rows_def store_rows_def)
  have macs: "stored_mac ?base name = stored_mac s name" by (simp add: stored_mac_def rows2 fun_eq_iff)
  have fresh': "fresh_rows name v (AddedMACs out) ?base" using fresh by (simp add: fresh_rows_def)
  have numbers: "length h = 128 \<and> (\<forall>i<64. number_at h i =
      number_at (hsHash (stored_state s name)) i - (\<Sum>x\<leftarrow>removed. number_at (apExpand env x) i)
        + (\<Sum>x\<leftarrow>added. number_at (apExpand env x) i))"
    using SubtractThenAdd_numbers [OF env(2), of "hsHash (stored_state s name)" removed added] sync h
    by (auto simp: in_sync_def hashes_def)
  have "macs.total name f s3 = macs.total name f s - (\<Sum>x\<leftarrow>removed. f x) + (\<Sum>x\<leftarrow>added. f x)" for f :: "string \<Rightarrow> 16 word"
  proof -
    have "macs.total name f s3 = macs.total name f (store_rows name v (RemovedMACs out) (AddedMACs out) ?base)"
      unfolding macs.total_def by (subst stored_mac_tables [OF s3]) (simp add: stored_rows_def)
    also have "\<dots> = macs.total name f ?base - (\<Sum>k\<leftarrow>map fst (changes_of ms). weight f (stored_mac ?base name k))
        + (\<Sum>x\<leftarrow>map snd (changes_of ms). weight f x)"
      by (rule macs.total_store [OF fresh' _ out]) (use proper in \<open>simp add: proper_mutations_def\<close>)
    finally show ?thesis unfolding sums macs macs.total_def fst_changes .
  qed
  with numbers sync have "hashes env s3 name h" by (simp add: hashes_def in_sync_def)
  moreover have "mrVersion q \<le> v" if "q \<in> set (asMacs s3)" "mrName q = name" for q
  proof -
    have "asMacs s3 = asMacs (stored_rows name ?hs out s2)" using s3 by (simp add: tables_def)
    with that(1) consider "q \<in> set (asMacs s)" | p where "q = mac_row_of name v p"
      by (auto simp: stored_rows_def store_rows_def rows2)
    then show ?thesis
      by cases (use that(2) older in \<open>auto simp: mac_row_of_def split: prod.split\<close>)
  qed
  ultimately show ?thesis using r state by (simp add: in_sync_def)
qed

lemma updateHash_run:
  assumes "updateHash env hs ms getPrev s = (Return hs', s')"
  shows "\<exists>added removed h. hash_items getPrev 0 ms s = (Return (added, removed), s') \<and>
    SubtractThenAdd (apExpand env) (hsHash hs) removed added = Some h \<and> hs' = hs\<lparr>hsHash := h\<rparr>"
  using assms unfolding updateHash_def by (auto elim!: bindE or_panicE simp: run_basic)

lemma quietE:
  assumes "bindg m k s = (r, s')" "keeps (same tables) m"
  obtains (stop) "tables s' = tables s" "\<And>x. r \<noteq> Return x"
    | (go) x s1 where "m s = (Return x, s1)" "tables s1 = tables s" "k x s1 = (r, s')"
  using assms(1) keepsD [OF assms(2)] by (elim bindE) (auto simp: same_tables)

definition kept_sync :: "app_env \<Rightarrow> string \<Rightarrow> (Mutation list \<times> HashState) outcome \<Rightarrow> app_state \<Rightarrow> bool" where
  "kept_sync env name r s =
     (in_sync env name s \<and> (\<forall>ms hs. r = Return (ms, hs) \<longrightarrow> hs = stored_state s name))"

lemma kept_sync_unchanged:
  "in_sync env name s \<Longrightarrow> tables t = tables s \<Longrightarrow> (\<And>x. r \<noteq> Return x) \<Longrightarrow> kept_sync env name r t"
  using in_sync_tables [of t s env name] by (auto simp: kept_sync_def)

lemma decode_patch_sync:
  assumes env: "no_faults env" "expands (apExpand env)" and sync: "in_sync env name s"
    and proper: "proper_mutations (spMutations p)"
    and newer: "hsVersion (stored_state s name) < spVersion p"
    and run: "decode_patch env name v p (acc, stored_state s name) s = (r, s')"
  shows "kept_sync env name r s' \<and> (\<forall>ms hs. r = Return (ms, hs) \<longrightarrow> hsVersion hs = spVersion p)"
proof -
  let ?hs = "(stored_state s name)\<lparr>hsVersion := spVersion p\<rparr>"
  let ?prev = "previous_mac env name (spMutations p)"
  have keep_check: "keeps (same tables) (if v then validate_patch env name p hs else ret ())" for hs
    by (simp add: tabs.keeps_validate_patch part.keeps_pure)
  from run show ?thesis
    unfolding decode_patch_def prod.case
  proof (cases rule: quietE [OF _ tabs.keeps_wrap [OF tabs.keeps_updateHash [OF tabs.keeps_previous]], consumes 1, case_names stop go])
    case stop
    with kept_sync_unchanged [OF sync] show ?thesis by blast
  next
    case (go hs s1)
    note hash = go
    from hash(3) show ?thesis
    proof (cases rule: quietE [OF _ keep_check, consumes 1, case_names stop go])
      case stop
      with hash(2) kept_sync_unchanged [OF sync] show ?thesis by simp
    next
      case (go u s2)
      note check = go
      from check(3) show ?thesis
      proof (cases rule: quietE [OF _ tabs.keeps_decodeMutations, consumes 1, case_names stop go])
        case stop
        with hash(2) check(2) kept_sync_unchanged [OF sync] show ?thesis by simp
      next
        case (go out s3)
        with hash(2) check(2) have t3: "tables s3 = tables s" by simp
        from hash(1) have "updateHash env ?hs (spMutations p) ?prev s = (Return hs, s1)" by (elim wrapE) auto
        from updateHash_run [OF this] obtain added removed h where
          items: "hash_items ?prev 0 (spMutations p) s = (Return (added, removed), s1)"
          and h: "SubtractThenAdd (apExpand env) (hsHash (stored_state s name)) removed added = Some h"
          and hs: "hs = \<lparr>hsVersion = spVersion p, hsHash = h\<rparr>" by (cases "stored_state s name") auto
        have "distinct (map smIndex ([] @ spMutations p))" using proper by (simp add: proper_mutations_def)
        from hash_items_sums [OF env(1) this] items
        have sums: "(\<Sum>v\<leftarrow>added. f v) = (\<Sum>x\<leftarrow>map snd (changes_of (spMutations p)). weight f x)"
          "(\<Sum>v\<leftarrow>removed. f v) = (\<Sum>k\<leftarrow>map smIndex (spMutations p). weight f (stored_mac s name k))"
          for f :: "string \<Rightarrow> 16 word" by fastforce+
        have older: "\<forall>r\<in>set (asMacs s). mrName r = name \<longrightarrow> mrVersion r < spVersion p"
          using sync newer by (auto simp: in_sync_def intro: le_less_trans)
        obtain r2 s4 where st: "storeMACs env name hs out s3 = (r2, s4)" by fastforce
        from decodeMutations_output [OF go(1)]
        have "r2 = Return () \<and> in_sync env name s4 \<and> stored_state s4 name = hs"
          using commit [OF env proper sync t3 older h sums _ _ st [unfolded hs]] by (simp add: hs)
        with go(3) st hs show ?thesis by (auto simp: bindg_def run_basic kept_sync_def)
      qed
    qed
  qed
qed

lemma decode_patches_sync:
  assumes "no_faults env" "expands (apExpand env)" "in_sync env name s"
    and "\<forall>p\<in>set ps. proper_mutations (spMutations p)"
    and "sorted_wrt (<) (hsVersion (stored_state s name) # map spVersion ps)"
    and "decode_patches env name v ps (acc, stored_state s name) s = (r, s')"
  shows "kept_sync env name r s'"
  using assms(3-6)
proof (induction ps arbitrary: acc s)
  case Nil
  then show ?case by (auto simp: kept_sync_def run_basic)
next
  case (Cons p ps)
  from Cons.prems have proper: "proper_mutations (spMutations p)" "hsVersion (stored_state s name) < spVersion p" by simp_all
  note patch = decode_patch_sync [OF assms(1,2) Cons.prems(1) proper]
  from Cons.prems(4) have "bindg (decode_patch env name v p (acc, stored_state s name)) (decode_patches env name v ps) s = (r, s')"
    by simp
  then show ?case
  proof (cases rule: bindE)
    case (go_on x s1)
    obtain acc1 hs where x: "x = (acc1, hs)" by fastforce
    from patch [OF go_on(1)] have one: "in_sync env name s1" "hs = stored_state s1 name" "hsVersion hs = spVersion p"
      unfolding kept_sync_def x by blast+
    moreover have "sorted_wrt (<) (hsVersion hs # map spVersion ps)" using Cons.prems(3) by (simp add: one(3))
    moreover have "decode_patches env name v ps (acc1, stored_state s1 name) s1 = (r, s')" using go_on(2) by (simp add: x one)
    ultimately show ?thesis using Cons.IH [of s1 acc1] Cons.prems(2) by simp
  next
    case (error e)
    from patch [OF error(1)] error(2) show ?thesis by (simp add: kept_sync_def)
  next
    case panic
    from patch [OF panic(1)] panic(2) show ?thesis by (simp add: kept_sync_def)
  qed
qed

definition pristine :: "string \<Rightarrow> app_state \<Rightarrow> bool" where
  "pristine name s = (asVersions s name = None \<and> (\<forall>r\<in>set (asMacs s). mrName r \<noteq> name))"

lemma zero_number: "i < 64 \<Longrightarrow> number_at (replicate 128 (byte 0)) i = 0"
  by (simp add: number_at_def uint16_le_def)

lemma pristine_mac: "pristine name s \<Longrightarrow> stored_mac s name k = None"
  by (auto simp: pristine_def stored_mac_def latest_row_none filter_empty_conv)

lemma pristine_sync: "pristine name s \<Longrightarrow> in_sync env name s"
  by (auto simp: in_sync_def hashes_def stored_state_def macs.total_def msum_def zero_number pristine_mac dom_def)
     (auto simp: pristine_def zero_number)

lemma hash_items_none:
  assumes g: "\<And>k i s. g k i s = (Return None, s)"
    and "hash_items g i ms s = (Return (added, removed), s')"
  shows "removed = [] \<and> (\<Sum>v\<leftarrow>added. f v) = (\<Sum>x\<leftarrow>map snd (changes_of ms). weight f x)"
  using assms(2)
proof (induction ms arbitrary: i s added removed)
  case (Cons m ms)
  have none: "attempt (g k j) h u = h (Ok None) u" for k j h u by (simp add: attempt_def g)
  from Cons.prems obtain addition added2 removed2 s1 where run:
    "hash_items g (Suc i) ms s1 = (Return (added2, removed2), s')"
    "added = addition @ added2" "removed = removed2"
    and addition: "(\<Sum>v\<leftarrow>addition. f v) =
      weight f (case smOperation m of OpSet \<Rightarrow> value_mac (smValue m) | OpRemove \<Rightarrow> None)"
    by (cases "smOperation m"; cases "value_mac (smValue m)")
       (auto simp: or_panic_def run_basic none elim!: bindE)
  from Cons.IH [OF run(1)] addition show ?case by (simp add: run(2,3))
qed (simp add: run_basic)

lemma decodeSnapshot_sync:
  assumes env: "no_faults env" "expands (apExpand env)" and p: "pristine name s"
    and proper: "proper_mutations (ssRecords ss)"
    and run: "decodeSnapshot env name ss (stored_state s name) v acc s = (r, s')"
  shows "kept_sync env name r s' \<and> (\<forall>ms hs. r = Return (ms, hs) \<longrightarrow> hsVersion hs = ssVersion ss)"
proof -
  let ?ms = "map (\<lambda>m. m\<lparr>smOperation := OpSet\<rparr>) (ssRecords ss)"
  let ?hs = "(stored_state s name)\<lparr>hsVersion := ssVersion ss\<rparr>"
  have sync: "in_sync env name s" by (rule pristine_sync [OF p])
  have proper': "proper_mutations ?ms" using proper by (simp add: proper_mutations_def comp_def)
  have keep_check: "keeps (same tables) (if v then bindg (validateSnapshotMAC env name hs k m) (\<lambda>_. ret ()) else ret ())" for hs k m
    by (simp add: tabs.keeps_validateSnapshotMAC part.keeps_intros)
  have keep_none: "keeps (same tables) ((\<lambda>k i. ret None) (k :: string) (i :: nat) :: (app_state, string option) go)" for k i
    by (simp add: part.keeps_pure)
  from run show ?thesis
    unfolding decodeSnapshot_def Let_def
  proof (cases rule: quietE [OF _ tabs.keeps_wrap [OF tabs.keeps_updateHash [OF keep_none]], consumes 1, case_names stop go])
    case stop
    with kept_sync_unchanged [OF sync] show ?thesis by blast
  next
    case (go hs s1)
    note hash = go
    from hash(3) show ?thesis
    proof (cases rule: quietE [OF _ keep_check, consumes 1, case_names stop go])
      case stop
      with hash(2) kept_sync_unchanged [OF sync] show ?thesis by simp
    next
      case (go u s2)
      note check = go
      from check(3) show ?thesis
      proof (cases rule: quietE [OF _ tabs.keeps_wrap [OF tabs.keeps_decodeMutations], consumes 1, case_names stop go])
        case stop
        with hash(2) check(2) kept_sync_unchanged [OF sync] show ?thesis by simp
      next
        case (go out s3)
        with hash(2) check(2) have t3: "tables s3 = tables s" by simp
        from hash(1) have "updateHash env ?hs ?ms (\<lambda>k i. ret None) s = (Return hs, s1)" by (elim wrapE) auto
        from updateHash_run [OF this] obtain added removed h where
          items: "hash_items (\<lambda>k i. ret None) 0 ?ms s = (Return (added, removed), s1)"
          and h: "SubtractThenAdd (apExpand env) (hsHash (stored_state s name)) removed added = Some h"
          and hs: "hs = \<lparr>hsVersion = ssVersion ss, hsHash = h\<rparr>" by (cases "stored_state s name") auto
        from hash_items_none [OF _ items]
        have rem: "removed = []" and sums: "(\<Sum>v\<leftarrow>added. f v) = (\<Sum>x\<leftarrow>map snd (changes_of ?ms). weight f x)"
          for f :: "string \<Rightarrow> 16 word" by (blast intro: run_basic)+
        have gone: "(\<Sum>v\<leftarrow>removed. f v) = (\<Sum>k\<leftarrow>map smIndex ?ms. weight f (stored_mac s name k))"
          for f :: "string \<Rightarrow> 16 word"
          by (simp add: rem pristine_mac [OF p] comp_def)
        have older: "\<forall>r\<in>set (asMacs s). mrName r = name \<longrightarrow> mrVersion r < ssVersion ss"
          using p by (simp add: pristine_def)
        obtain r2 s4 where st: "storeMACs env name hs out s3 = (r2, s4)" by fastforce
        from go(1) have "decodeMutations env v 0 ?ms \<lparr>RemovedMACs = [], AddedMACs = [], Mutations = acc\<rparr> s2 = (Return out, s3)"
          by (elim wrapE) auto
        from decodeMutations_output [OF this]
        have "r2 = Return () \<and> in_sync env name s4 \<and> stored_state s4 name = hs"
          using commit [OF env proper' sync t3 older h sums gone _ _ st [unfolded hs]] by (simp add: hs)
        with go(3) st hs show ?thesis by (auto simp: bindg_def run_basic kept_sync_def)
      qed
    qed
  qed
qed

section \<open>The invariant\<close>

definition orderly :: "PatchList \<Rightarrow> app_state \<Rightarrow> bool" where
  "orderly lst s =
     ((case plSnapshot lst of None \<Rightarrow> True
       | Some ss \<Rightarrow> pristine (plName lst) s \<and> proper_mutations (ssRecords ss)) \<and>
      list_all (\<lambda>p. proper_mutations (spMutations p)) (plPatches lst) \<and>
      sorted_wrt (<) ((case plSnapshot lst of None \<Rightarrow> hsVersion (stored_state s (plName lst)) | Some ss \<Rightarrow> ssVersion ss)
        # map spVersion (plPatches lst)))"

text \<open>C4: Decoding a list of patches, with a snapshot only for a collection that is not stored yet, keeps
  the stored hash of the collection equal to the sum of its stored value MACs whatever the outcome, and
  what it returns is the stored state; provided no statement fails, patches name an index once and their
  versions grow.\<close>

theorem stored_hash_invariant:
  assumes "no_faults env" "expands (apExpand env)" "in_sync env (plName lst) s" "orderly lst s"
    and "DecodePatches env lst (stored_state s (plName lst)) v s = (r, s')"
  shows "kept_sync env (plName lst) r s'"
proof (cases "plSnapshot lst")
  case None
  with assms(4,5) show ?thesis
    by (intro decode_patches_sync [OF assms(1-3)]) (auto simp: orderly_def DecodePatches_def list_all_iff)
next
  case (Some ss)
  with assms(5) have "bindg (decodeSnapshot env (plName lst) ss (stored_state s (plName lst)) v [])
    (decode_patches env (plName lst) v (plPatches lst)) s = (r, s')" by (simp add: DecodePatches_def)
  moreover from assms(4) Some have p: "pristine (plName lst) s" "proper_mutations (ssRecords ss)" by (simp_all add: orderly_def)
  note snap = decodeSnapshot_sync [OF assms(1,2) p]
  ultimately show ?thesis
  proof (cases rule: bindE)
    case (go_on x s1)
    obtain acc hs where x: "x = (acc, hs)" by fastforce
    from snap [OF go_on(1)] have one: "in_sync env (plName lst) s1" "hs = stored_state s1 (plName lst)" "hsVersion hs = ssVersion ss"
      unfolding kept_sync_def x by blast+
    have "sorted_wrt (<) (hsVersion hs # map spVersion (plPatches lst))" using assms(4) Some by (simp add: orderly_def one(3))
    with decode_patches_sync [OF assms(1,2) one(1), of "plPatches lst" v acc r s'] go_on(2) assms(4) show ?thesis
      by (simp add: x one(2) orderly_def list_all_iff)
  next
    case (error e)
    from snap [OF error(1)] error(2) show ?thesis by (simp add: kept_sync_def)
  next
    case panic
    from snap [OF panic(1)] panic(2) show ?thesis by (simp add: kept_sync_def)
  qed
qed

text \<open>A plain environment: the ciphers do nothing, the MACs are constant, and every plain text is the data
  of one action.\<close>

definition plain_data :: SyncActionData where
  "plain_data = \<lparr>sadIndex = [], sadValue = \<lparr>savTimestamp = None, savAction = PinAction True\<rparr>, sadVersion = 5\<rparr>"

definition plain_env :: app_env where
  "plain_env = \<lparr>apFault = \<lambda>n. None, apConstraint = ''constraint'', apMutationKeys = \<lambda>d. replicate 160 (byte 7),
     apHmac256 = \<lambda>k d. replicate 32 (byte 3), apHmac512 = \<lambda>k d. replicate 64 (byte 4),
     apExpand = \<lambda>x. replicate 128 (byte (length x)),
     apRandom = \<lambda>n. Ok (replicate 16 (byte 0)), apCipherError = \<lambda>k. None,
     apCbcEncrypt = \<lambda>k iv p. p, apCbcDecrypt = \<lambda>k iv c. c,
     apMarshal = \<lambda>d. Ok [], apUnmarshal = \<lambda>b. Ok plain_data,
     apJson = \<lambda>l. [], apParseJson = \<lambda>b. Ok []\<rparr>"

lemma plain_env_ok: "no_faults plain_env" "expands (apExpand plain_env)"
  by (simp_all add: plain_env_def no_faults_def expands_def)

definition one_key :: app_state where
  "one_key = \<lparr>asTick = 0, asVersions = Map.empty, asMacs = [], asSyncKeys = [[byte 1] \<mapsto> ''key''],
     asKeyCache = Map.empty\<rparr>"

definition some_mutation :: "sync_op \<Rightarrow> nat \<Rightarrow> SyncdMutation" where
  "some_mutation operation n = \<lparr>smOperation = operation, smIndex = replicate 32 (byte n),
     smValue = replicate 64 (byte n), smKeyID = Some [byte 1]\<rparr>"

definition some_patch :: "64 word \<Rightarrow> SyncdMutation list \<Rightarrow> SyncdPatch" where
  "some_patch version mutations = \<lparr>spVersion = version, spMutations = mutations, spExternalMutations = None,
     spSnapshotMAC = [], spPatchMAC = [], spKeyID = Some [byte 1]\<rparr>"

definition some_list :: PatchList where
  "some_list = \<lparr>plName = ''regular'', plHasMorePatches = False,
     plPatches = [some_patch 8 [some_mutation OpRemove 1, some_mutation OpSet 2]],
     plSnapshot = Some \<lparr>ssVersion = 7, ssRecords = [some_mutation OpSet 1], ssMac = [], ssKeyID = None\<rparr>\<rparr>"

theorem stored_hash_invariant_witness:
  "\<exists>r s'. DecodePatches plain_env some_list (stored_state one_key ''regular'') False one_key = (r, s') \<and>
     kept_sync plain_env ''regular'' r s'"
proof -
  obtain r s' where run: "DecodePatches plain_env some_list (stored_state one_key ''regular'') False one_key = (r, s')"
    by fastforce
  have "in_sync plain_env ''regular'' one_key"
    by (rule pristine_sync) (simp add: pristine_def one_key_def)
  moreover have "orderly some_list one_key"
    by (simp add: orderly_def some_list_def some_patch_def some_mutation_def pristine_def one_key_def
      proper_mutations_def replicate_eq_replicate)
  ultimately have "kept_sync plain_env (plName some_list) r s'"
    using run by (intro stored_hash_invariant [OF plain_env_ok]) (simp_all add: some_list_def)
  with run show ?thesis by (simp add: some_list_def)
qed

section \<open>An index that is set and removed in one patch\<close>

lemma set_then_remove_items:
  assumes "no_faults env" "stored_mac s name (smIndex a) = None" "smOperation a = OpSet" "smOperation b = OpRemove"
    and "smIndex b = smIndex a" "value_mac (smValue a) = Some m" "s' = s\<lparr>asTick := Suc (asTick s)\<rparr>"
  shows "hash_items (previous_mac env name [a, b]) 0 [a, b] s = (Return ([m], [m]), s')"
proof -
  have none: "\<forall>m\<in>set (take 0 [a, b]). smIndex m \<noteq> smIndex a" by simp
  have first: "attempt (previous_mac env name [a, b] (smIndex a) 0) h s = h (Ok None) s'" for h
    by (simp add: attempt_def previous_mac_run [OF assms(1) none] assms(2,7))
  have second: "attempt (previous_mac env name [a, b] (smIndex a) (Suc 0)) h u = h (Ok (Some m)) u" for h u
    using assms(6) by (simp add: attempt_def previous_mac_def or_panic_def run_basic)
  have inner: "bindg (attempt m h) k = attempt m (\<lambda>r. bindg (h r) k)" for m h k
    by (auto simp: fun_eq_iff bindg_def attempt_def split: prod.splits outcome.splits)
  have "hash_items (previous_mac env name [a, b]) 0 [a, b] s = ret ([m], [m]) s'"
    using assms(3-6) by (simp add: or_panic_def first second inner)
  then show ?thesis by (simp add: run_basic)
qed

lemma set_then_remove_hash:
  assumes "hash_items (previous_mac env name [a, b]) 0 [a, b] s = (Return (added, removed), s')"
    and "no_faults env" "stored_mac s name (smIndex a) = None" "smOperation a = OpSet" "smOperation b = OpRemove"
    and "smIndex b = smIndex a"
  shows "added = removed"
proof (cases "value_mac (smValue a)")
  case None
  with assms(1,4) show ?thesis by (simp add: or_panic_def run_basic)
next
  case (Some m)
  from set_then_remove_items [OF assms(2-6) Some refl] assms(1) show ?thesis by (simp only: prod.inject outcome.inject)
qed

text \<open>C24: A patch that sets an index of a new collection and removes it again leaves the hash as it was
  but the value MAC of the index stored: the deletions of a patch are stored before its insertions.\<close>

theorem set_then_remove_stale:
  assumes env: "no_faults env" "expands (apExpand env)" and s: "pristine name s" and h: "length (hsHash hs) = 128"
    and p: "spMutations p = [a, b]" "smOperation a = OpSet" "smOperation b = OpRemove" "smIndex b = smIndex a"
      "length (smIndex a) = 32"
    and run: "decode_patch env name v p (acc, hs) s = (Return (ms, hs'), s')"
  shows "hsHash hs' = hsHash hs \<and> stored_mac s' name (smIndex a) = value_mac (smValue a) \<and>
    value_mac (smValue a) \<noteq> None"
proof -
  let ?prev = "previous_mac env name [a, b]"
  from run obtain s1 s2 s3 out where
    upd: "updateHash env (hs\<lparr>hsVersion := spVersion p\<rparr>) (spMutations p) (previous_mac env name (spMutations p)) s = (Return hs', s1)"
    and check: "(if v then validate_patch env name p hs' else ret ()) s1 = (Return (), s2)"
    and dec: "decodeMutations env v 0 (spMutations p) \<lparr>RemovedMACs = [], AddedMACs = [], Mutations = acc\<rparr> s2 = (Return out, s3)"
    and st: "storeMACs env name hs' out s3 = (Return (), s')"
    unfolding decode_patch_def prod.case by (auto elim!: bindE wrapE simp: run_basic)
  note upd = upd [unfolded p(1)] and dec = dec [unfolded p(1)]
  have "keeps (same tables) (if v then validate_patch env name p hs' else ret ())"
    by (simp add: tabs.keeps_validate_patch part.keeps_pure)
  from keepsD [OF this check] keepsD [OF tabs.keeps_updateHash [OF tabs.keeps_previous] upd]
    keepsD [OF tabs.keeps_decodeMutations dec]
  have t: "tables s3 = tables s" by (simp add: same_tables)
  from updateHash_run [OF upd] obtain added removed h' where
    items: "hash_items ?prev 0 [a, b] s = (Return (added, removed), s1)"
    and h': "SubtractThenAdd (apExpand env) (hsHash hs) removed added = Some h'" "hs' = hs\<lparr>hsVersion := spVersion p, hsHash := h'\<rparr>"
    by auto
  have "added = removed"
    by (rule set_then_remove_hash [OF items env(1) pristine_mac [OF s] p(2-4)])
  with SubtractThenAdd_numbers [OF env(2) h, of removed added] h'(1)
  have "h' = hsHash hs" by (intro hash_eqI [of _ 64]) (auto simp: h)
  from dec have "\<exists>out1 u. decode_mutation env v 0 a \<lparr>RemovedMACs = [], AddedMACs = [], Mutations = acc\<rparr> s2 = (Return out1, u)"
    unfolding decodeMutations.simps by (elim bindE) blast+
  then obtain mac where mac: "value_mac (smValue a) = Some mac" by (blast dest: decode_mutation_output)
  from decodeMutations_output [OF dec] p mac
  have out: "AddedMACs out = [(smIndex a, mac)]" "RemovedMACs out = [smIndex a]" by simp_all
  have fresh: "fresh_rows name (hsVersion hs') (AddedMACs out) s3"
    using s t by (simp add: fresh_rows_def out pristine_def tables_def)
  have "length mac = 32" using mac by (auto simp: value_mac_def split: if_splits)
  with storeMACs_run [OF env(1) fresh] st p(5) have "tables s' = tables (stored_rows name hs' out s3)" by (auto simp: out)
  then have "stored_mac s' name (smIndex a) = stored_mac (stored_rows name hs' out s3) name (smIndex a)"
    by (rule fun_cong [OF stored_mac_tables])
  also have "\<dots> = Some mac"
    unfolding stored_rows_def by (subst stored_mac_store_rows) (use fresh in \<open>simp_all add: fresh_rows_def out\<close>)
  finally show ?thesis using mac \<open>h' = hsHash hs\<close> h'(2) by simp
qed

text \<open>Runs with the key in the cache.\<close>

lemma key_cached:
  assumes "asKeyCache u k = Some keys"
  shows "getAppStateKey env k u = (Return keys, u)"
  by (simp add: getAppStateKey_def bindg_def run_basic assms)

lemma wrap_run: "m s = (Return x, s') \<Longrightarrow> wrap_error w m s = (Return x, s')"
  by (simp add: wrap_error_def run_attempt run_basic)

lemma wrap_ret [simp]: "wrap_error w (ret x) = ret x"
  by (simp add: wrap_error_def)

text \<open>A mutation whose content passes all the checks.\<close>

definition readable :: "app_env \<Rightarrow> bool \<Rightarrow> ExpandedAppStateKeys \<Rightarrow> SyncdMutation \<Rightarrow> string \<Rightarrow> SyncActionData \<Rightarrow> string list \<Rightarrow> bool" where
  "readable env v keys m mac data index =
     (let c = content_of (smValue m); k = ekValueEncryption keys in
      value_mac (smValue m) = Some mac \<and> 32 \<le> length c \<and> length c mod 16 = 0 \<and> apCipherError env k = None \<and>
      (\<exists>plain. unpad (apCbcDecrypt env k (take 16 c) (drop 16 c)) = Ok plain \<and> apUnmarshal env plain = Ok data) \<and>
      apParseJson env (sadIndex data) = Ok index \<and>
      (v \<longrightarrow> generateContentMAC env (smOperation m) c (str_of (smKeyID m)) (ekValueMAC keys) = mac \<and>
        apHmac256 env (ekIndex keys) (sadIndex data) = smIndex m))"

lemma decode_mutation_run:
  assumes "readable env v keys m mac data index" "asKeyCache u (str_of (smKeyID m)) = Some keys"
  shows "decode_mutation env v i m out u = (Return (add_output m mac data index out), u)"
proof -
  let ?c = "content_of (smValue m)"
  from assms(1) obtain plain where facts: "value_mac (smValue m) = Some mac" "32 \<le> length ?c" "length ?c mod 16 = 0"
    "apCipherError env (ekValueEncryption keys) = None"
    "unpad (apCbcDecrypt env (ekValueEncryption keys) (take 16 ?c) (drop 16 ?c)) = Ok plain"
    "apUnmarshal env plain = Ok data" "apParseJson env (sadIndex data) = Ok index"
    "v \<longrightarrow> generateContentMAC env (smOperation m) ?c (str_of (smKeyID m)) (ekValueMAC keys) = mac"
    "v \<longrightarrow> apHmac256 env (ekIndex keys) (sadIndex data) = smIndex m"
    by (auto simp: readable_def Let_def)
  have "(length ?c - 16) mod 16 = 0" using facts(2,3) by (simp add: mod_diff_right_eq [symmetric] le_mod_geq)
  then have dec: "Decrypt env (ekValueEncryption keys) (take 16 ?c) (drop 16 ?c) u = (Return plain, u)"
    using facts(2) by (simp add: Decrypt_def facts(4,5) run_basic)
  have key: "bindg (wrap_error w (getAppStateKey env (str_of (smKeyID m)))) k u = k keys u"
    for w and k :: "_ \<Rightarrow> (app_state, patchOutput) go"
    by (rule run_bind(1), rule wrap_run, rule key_cached [OF assms(2)])
  have plain: "bindg (wrap_error w (Decrypt env (ekValueEncryption keys) (take 16 ?c) (drop 16 ?c))) k u = k plain u"
    for w and k :: "_ \<Rightarrow> (app_state, patchOutput) go"
    by (rule run_bind(1), rule wrap_run, rule dec)
  show ?thesis
    unfolding decode_mutation_def Let_def
    using facts(2,8,9)
    by (simp add: key plain or_panic_def facts(1,6,7)) (simp add: run_basic)
qed

lemma decodeMutations_run:
  assumes "\<forall>m\<in>set ms. readable env v keys m (mac_of m) (data_of m) (index_of m) \<and> asKeyCache u (str_of (smKeyID m)) = Some keys"
  shows "decodeMutations env v i ms out u =
    (Return (fold (\<lambda>m. add_output m (mac_of m) (data_of m) (index_of m)) ms out), u)"
  using assms
proof (induction ms arbitrary: i out)
  case (Cons m ms)
  then have "readable env v keys m (mac_of m) (data_of m) (index_of m)" "asKeyCache u (str_of (smKeyID m)) = Some keys" by simp_all
  from decode_mutation_run [OF this] Cons show ?case by (simp add: bindg_def)
qed (simp add: run_basic)

lemma storeMACs_returns: "\<exists>s'. storeMACs env name hs out s = (Return (), s')"
proof -
  have st: "as_statement env u = (Return (), u\<lparr>asTick := Suc (asTick u)\<rparr>) \<or>
     (\<exists>e. as_statement env u = (Raise e, u\<lparr>asTick := Suc (asTick u)\<rparr>))" for u
    by (cases "apFault env (asTick u)") (simp_all add: as_statement_def bindg_def as_ask_def run_basic)
  have "\<exists>r u'. PutAppStateVersion env name ve h u = (r, u') \<and> r \<noteq> Crash"
    "\<exists>r u'. DeleteAppStateMutationMACs env name ks u = (r, u') \<and> r \<noteq> Crash"
    "\<exists>r u'. PutAppStateMutationMACs env name ve as u = (r, u') \<and> r \<noteq> Crash" for u ve h ks as
    using st [of u]
    by (auto simp: PutAppStateVersion_def DeleteAppStateMutationMACs_def PutAppStateMutationMACs_def bindg_def run_basic)
  note ok = this
  have step: "\<exists>s'. attempt m k u = (Return (), s')"
    if "\<exists>r u'. m u = (r, u') \<and> r \<noteq> Crash" "\<And>x w. \<exists>s'. k x w = (Return (), s')" for m k u
  proof -
    from that(1) obtain r u' where "m u = (r, u')" "r \<noteq> Crash" by blast
    with that(2) show ?thesis by (cases r) (simp_all add: attempt_def)
  qed
  show ?thesis unfolding storeMACs_def by (intro step ok) (simp add: run_basic)
qed

definition odd_patch :: SyncdPatch where
  "odd_patch = some_patch 8 [some_mutation OpSet 1, some_mutation OpRemove 1]"

definition one_key_cached :: app_state where
  "one_key_cached = one_key\<lparr>asKeyCache := [[byte 1] \<mapsto> expandAppStateKeys plain_env ''key'']\<rparr>"

lemma plain_readable:
  "readable plain_env False keys (some_mutation operation 1) (replicate 32 (byte 1)) plain_data []"
  by (simp add: readable_def Let_def some_mutation_def content_of_def value_mac_def plain_env_def unpad_def
      last_replicate)

theorem set_then_remove_stale_witness:
  "\<exists>ms hs' s'. decode_patch plain_env ''regular'' False odd_patch ([], stored_state one_key_cached ''regular'') one_key_cached
      = (Return (ms, hs'), s') \<and>
    hsHash hs' = replicate 128 (byte 0) \<and> stored_mac s' ''regular'' (replicate 32 (byte 1)) = Some (replicate 32 (byte 1))"
proof -
  let ?s = one_key_cached and ?hs = "stored_state one_key_cached ''regular''"
  let ?a = "some_mutation OpSet 1" and ?b = "some_mutation OpRemove 1"
  let ?run = "decode_patch plain_env ''regular'' False odd_patch ([], ?hs) ?s"
  have muts: "spMutations odd_patch = [?a, ?b]" by (simp add: odd_patch_def some_patch_def)
  have p: "pristine ''regular'' ?s" by (simp add: pristine_def one_key_cached_def one_key_def)
  have len: "length (hsHash ?hs) = 128" by (simp add: stored_state_def one_key_cached_def one_key_def)
  have "hash_items (previous_mac plain_env ''regular'' [?a, ?b]) 0 [?a, ?b] ?s =
    (Return ([replicate 32 (byte 1)], [replicate 32 (byte 1)]), ?s\<lparr>asTick := 1\<rparr>)"
    by (rule set_then_remove_items) (simp_all add: plain_env_ok pristine_mac [OF p], simp_all add: some_mutation_def
      value_mac_def one_key_cached_def one_key_def)
  moreover from SubtractThenAdd_numbers [OF plain_env_ok(2) len] obtain h where
    "SubtractThenAdd (apExpand plain_env) (hsHash ?hs) [replicate 32 (byte 1)] [replicate 32 (byte 1)] = Some h" by blast
  ultimately have upd: "wrap_error w (updateHash plain_env (?hs\<lparr>hsVersion := 8\<rparr>) [?a, ?b]
      (previous_mac plain_env ''regular'' [?a, ?b])) ?s = (Return (?hs\<lparr>hsVersion := 8, hsHash := h\<rparr>), ?s\<lparr>asTick := 1\<rparr>)" for w
    by (intro wrap_run) (simp add: updateHash_def bindg_def or_panic_def run_basic)
  have dec: "\<exists>out. decodeMutations plain_env False 0 [?a, ?b] out0 (?s\<lparr>asTick := 1\<rparr>) = (Return out, ?s\<lparr>asTick := 1\<rparr>)" for out0
  proof -
    have "\<forall>m\<in>set [?a, ?b]. readable plain_env False (expandAppStateKeys plain_env ''key'') m (replicate 32 (byte 1)) plain_data [] \<and>
      asKeyCache (?s\<lparr>asTick := 1\<rparr>) (str_of (smKeyID m)) = Some (expandAppStateKeys plain_env ''key'')"
      using plain_readable by (auto simp: one_key_cached_def) (simp_all add: some_mutation_def)
    from decodeMutations_run [OF this] show ?thesis by blast
  qed
  have v8: "spVersion odd_patch = 8" by (simp add: odd_patch_def some_patch_def)
  from dec obtain out where out: "decodeMutations plain_env False 0 [?a, ?b]
     \<lparr>RemovedMACs = [], AddedMACs = [], Mutations = []\<rparr> (?s\<lparr>asTick := 1\<rparr>) = (Return out, ?s\<lparr>asTick := 1\<rparr>)" by blast
  from storeMACs_returns obtain s' where
    "storeMACs plain_env ''regular'' (?hs\<lparr>hsVersion := 8, hsHash := h\<rparr>) out (?s\<lparr>asTick := 1\<rparr>) = (Return (), s')" by blast
  then have "?run = (Return (Mutations out, ?hs\<lparr>hsVersion := 8, hsHash := h\<rparr>), s')"
    unfolding decode_patch_def prod.case muts v8
    by (simp only: bindg_def upd out if_False run_basic prod.case outcome.case)
  then obtain ms hs' where run: "?run = (Return (ms, hs'), s')" by blast
  have "hsHash hs' = hsHash ?hs \<and> stored_mac s' ''regular'' (smIndex ?a) = value_mac (smValue ?a) \<and>
      value_mac (smValue ?a) \<noteq> None"
    by (rule set_then_remove_stale [OF plain_env_ok p len muts _ _ _ _ run]) (simp_all add: some_mutation_def)
  with run show ?thesis
    by (simp add: stored_state_def one_key_cached_def one_key_def some_mutation_def value_mac_def)
qed

section \<open>A query that fails once\<close>

text \<open>When the query for a key fails, the expansion of the empty key stays in the cache: the next request
  for the key answers with it, without an error and without asking the store.\<close>

theorem failed_query_poisons_key:
  assumes "asKeyCache s keyID = None" "apFault env (asTick s) = Some e"
  shows "\<exists>s1. getAppStateKey env keyID s = (Raise e, s1) \<and>
    getAppStateKey env keyID s1 = (Return (expandAppStateKeys env []), s1)"
  using assms
  by (simp add: getAppStateKey_def bindg_def attempt_def run_basic GetAppStateSyncKey_def as_statement_def
    as_ask_def)

theorem failed_query_poisons_key_witness:
  "\<exists>s1. getAppStateKey (plain_env\<lparr>apFault := \<lambda>n. if n = 0 then Some ''locked'' else None\<rparr>) [byte 1] one_key =
      (Raise ''locked'', s1) \<and>
    getAppStateKey (plain_env\<lparr>apFault := \<lambda>n. if n = 0 then Some ''locked'' else None\<rparr>) [byte 1] s1 =
      (Return (expandAppStateKeys (plain_env\<lparr>apFault := \<lambda>n. if n = 0 then Some ''locked'' else None\<rparr>) []), s1)"
  by (rule failed_query_poisons_key) (simp_all add: one_key_def)

end
