(* ===== verification/LibClient.thy ===== *)
theory LibClient
  imports BinaryEncoder Client Storage AppState
begin

text \<open>
  Requests of the client library: \<open>whatsmeow-lib/request.go\<close>, the sending of elements of
  \<open>client.go\<close> and the errors of \<open>errors.go\<close>.

  The state is the database with the outside of the services (\<open>world\<close>, whose clock numbers the
  questions), what each client keeps in memory, and the log of what the clients were told to do. An
  element that is sent is an entry of the log; the encoder and the socket only answer whether sending
  fails. Sending of messages and of application state patches, downloads and the queries of
  newsletters, which go through ciphers, protocol buffers or GraphQL, are entries whose answers are
  parameters.

  The waiters are the ids for which the client waits for a response. A response removes its waiter
  (\<open>receiveResponse\<close>), a disconnection removes all of them (\<open>clearResponseWaiters\<close>).
\<close>

section \<open>State\<close>

record privacy_settings =
  psGroupAdd :: string
  psLastSeen :: string
  psStatus :: string
  psProfile :: string
  psReadReceipts :: string
  psCallAdd :: string
  psOnline :: string

definition zeroPrivacy :: privacy_settings where
  "zeroPrivacy = \<lparr>psGroupAdd = [], psLastSeen = [], psStatus = [], psProfile = [], psReadReceipts = [],
     psCallAdd = [], psOnline = []\<rparr>"

text \<open>\<open>groupMetaCache\<close>.\<close>

record group_meta =
  gmAddressingMode :: string
  gmAnnouncementGroup :: bool
  gmMembers :: "jid list"

record client_state =
  csCounter :: "64 word"
  csWaiters :: "string list"
  csPrivacy :: "privacy_settings option"
  csGroups :: "jid \<Rightarrow> group_meta option"

definition newClient :: client_state where
  "newClient = \<lparr>csCounter = 0, csWaiters = [], csPrivacy = None, csGroups = (\<lambda>_. None)\<rparr>"

text \<open>Protocol messages that are not among those of the send service.\<close>

record sent_key =
  mkRemoteJID :: string
  mkFromMe :: bool
  mkID :: string
  mkParticipant :: "string option"

datatype peer_request =
    HistorySyncOnDemand string string bool "32 word" int
  | PlaceholderResend sent_key

datatype api_message =
    Reaction sent_key string int
  | Revoke sent_key
  | Edited sent_key api_message int
  | Conversation string
  | PeerRequest peer_request

type_synonym media_file = nat

datatype client_op =
    OpNode node
  | OpMessage jid api_message string bool
  | OpAppState PatchInfo
  | OpDownload media_file
  | OpStoreLIDs "(jid \<times> jid) list"
  | OpStorePhones "(jid \<times> string) list"
  | OpStoreBusinessName jid string
  | OpBusinessNameEvent jid string string
  | OpNewsletter string "(string \<times> json) list"

record api_state = store +
  apWorld :: world
  apClients :: "client \<Rightarrow> client_state"
  apOps :: "(client \<times> client_op) list"

section \<open>Errors\<close>

text \<open>The errors the library builds; \<open>Plain\<close> is every other error by its text.\<close>

datatype lib_error =
    IQError int string "node option" node
  | ElementMissing string string
  | Disconnected string
  | Wrapped string lib_error
  | Prefixed string lib_error
  | AttrErrors "attr_error list"
  | Plain string

definition ErrNotLoggedIn :: lib_error where
  "ErrNotLoggedIn = Plain ''the store doesn't contain a device JID''"

definition ErrIQTimedOut :: lib_error where "ErrIQTimedOut = Plain ''info query timed out''"
definition ErrNotConnected :: lib_error where "ErrNotConnected = Plain ''websocket not connected''"

definition parseIQError :: "node \<Rightarrow> lib_error" where
  "parseIQError n =
     (let (val, ok) = GetOptionalChildByTag n [''error''] in
      if ok then
        let ag = AttrGetter val;
            (code, ag1) = without_ok (GetInt64 ''code'' False) ag;
            (txt, _) = without_ok (GetString ''text'' False) ag1
        in IQError code txt (Some val) n
      else IQError 0 [] None n)"

text \<open>\<open>errors.Is\<close> against one of the common errors, which have a code and a text but no element:
  \<open>IQError.Is\<close> along the chain of \<open>Unwrap\<close>.\<close>

fun is_iq_error :: "lib_error \<Rightarrow> int \<times> string \<Rightarrow> bool" where
  "is_iq_error (IQError code txt _ _) (c, t) = (code \<noteq> 0 \<and> code = c \<and> txt = t)"
| "is_iq_error (Wrapped _ e) target = is_iq_error e target"
| "is_iq_error (Prefixed _ e) target = is_iq_error e target"
| "is_iq_error _ _ = False"

definition ErrIQNotAuthorized :: "int \<times> string" where "ErrIQNotAuthorized = (401, ''not-authorized'')"
definition ErrIQForbidden :: "int \<times> string" where "ErrIQForbidden = (403, ''forbidden'')"
definition ErrIQNotFound :: "int \<times> string" where "ErrIQNotFound = (404, ''item-not-found'')"
definition ErrIQNotAcceptable :: "int \<times> string" where "ErrIQNotAcceptable = (406, ''not-acceptable'')"
definition ErrIQGone :: "int \<times> string" where "ErrIQGone = (410, ''gone'')"

text \<open>The text of an error: \<open>xml\<close> is \<open>XMLString\<close>, \<open>attrs\<close> the text of an error list.\<close>

fun error_text :: "(node \<Rightarrow> string) \<Rightarrow> (attr_error list \<Rightarrow> string) \<Rightarrow> lib_error \<Rightarrow> string" where
  "error_text xml attrs (IQError code txt errorNode rawNode) =
     (if code = 0 then
        (case errorNode of
           Some e \<Rightarrow> ''info query returned unknown error: '' @ xml e
         | None \<Rightarrow> ''info query returned unexpected response: '' @ xml rawNode)
      else ''info query returned status '' @ show_int code @ '': '' @ txt)"
| "error_text xml attrs (ElementMissing tag loc) = ''missing <'' @ tag @ ''> element in '' @ loc"
| "error_text xml attrs (Disconnected action) = ''websocket disconnected before '' @ action @ '' returned response''"
| "error_text xml attrs (Wrapped human e) = human"
| "error_text xml attrs (Prefixed p e) = p @ error_text xml attrs e"
| "error_text xml attrs (AttrErrors es) = attrs es"
| "error_text xml attrs (Plain t) = t"

section \<open>The outside\<close>

text \<open>What a waiting query meets: a response, the end of the stream, the end of its context, or the
  time limit.\<close>

datatype iq_wait = IQResponse node | IQStreamEnd | IQCancelled string | IQTimedOut

record send_response =
  srID :: string
  srServerID :: nat

record contact =
  coFound :: bool
  coFirstName :: string
  coFullName :: string
  coPushName :: string
  coBusinessName :: string

record lib_env =
  leUniqueID :: "client \<Rightarrow> string"
  leSend :: "nat \<Rightarrow> client \<Rightarrow> node \<Rightarrow> go_error"
  leWait :: "nat \<Rightarrow> client \<Rightarrow> string \<Rightarrow> iq_wait"
  leReconnected :: "nat \<Rightarrow> client \<Rightarrow> bool"
  leSocket :: "nat \<Rightarrow> client \<Rightarrow> bool"
  leResend :: "nat \<Rightarrow> client \<Rightarrow> string \<Rightarrow> go_error"
  leXML :: "node \<Rightarrow> string"
  leAttrErrors :: "attr_error list \<Rightarrow> string"
  leNow :: "nat \<Rightarrow> int"
  leOwnID :: "nat \<Rightarrow> client \<Rightarrow> jid option"
  leOwnLID :: "nat \<Rightarrow> client \<Rightarrow> jid"
  leMessageID :: "nat \<Rightarrow> client \<Rightarrow> string"
  leHasTokens :: "client \<Rightarrow> bool"
  lePrivacyToken :: "nat \<Rightarrow> client \<Rightarrow> jid \<Rightarrow> (string option) result"
  leHasLIDs :: "client \<Rightarrow> bool"
  leHasContacts :: "client \<Rightarrow> bool"
  lePutBusinessName :: "nat \<Rightarrow> client \<Rightarrow> jid \<Rightarrow> string \<Rightarrow> (string option) result"
  leAltJID :: "nat \<Rightarrow> client \<Rightarrow> jid \<Rightarrow> jid"
  leLIDForPN :: "nat \<Rightarrow> client \<Rightarrow> jid \<Rightarrow> jid result"
  lePNForLID :: "nat \<Rightarrow> client \<Rightarrow> jid \<Rightarrow> jid result"
  leContacts :: "nat \<Rightarrow> client \<Rightarrow> ((jid \<times> contact) list) result"
  leVerifiedName :: "string \<Rightarrow> string result"
  leUnmarshals :: "string \<Rightarrow> bool"
  leBase64 :: "string \<Rightarrow> string"
  leSendMessage :: "nat \<Rightarrow> client \<Rightarrow> client_op \<Rightarrow> send_response result"
  leAppState :: "nat \<Rightarrow> client \<Rightarrow> PatchInfo \<Rightarrow> go_error"
  leDownload :: "nat \<Rightarrow> client \<Rightarrow> media_file \<Rightarrow> string result"
  leNewsletter :: "nat \<Rightarrow> client \<Rightarrow> client_op \<Rightarrow> json result"

section \<open>Programs of the library\<close>

text \<open>A library function returns a value or an error that its caller can look into; \<open>bindr\<close> is
  \<open>if err != nil { return err }\<close>.\<close>

type_synonym 'a lib = "(api_state, lib_error + 'a) go"

definition bindr :: "'a lib \<Rightarrow> ('a \<Rightarrow> 'b lib) \<Rightarrow> 'b lib" where
  "bindr m k = bindg m (\<lambda>r. case r of Inl e \<Rightarrow> ret (Inl e) | Inr x \<Rightarrow> k x)"

definition fails :: "lib_error \<Rightarrow> 'a lib" where "fails e = ret (Inl e)"
definition gives :: "'a \<Rightarrow> 'a lib" where "gives x = ret (Inr x)"

definition on_world :: "(world, 'a) go \<Rightarrow> (api_state, 'a) go" where
  "on_world m s = (case m (apWorld s) of (r, w) \<Rightarrow> (r, s\<lparr>apWorld := w\<rparr>))"

definition asks :: "(nat \<Rightarrow> 'a) \<Rightarrow> (api_state, 'a) go" where
  "asks f = on_world (ask f)"

definition perform :: "client \<Rightarrow> client_op \<Rightarrow> (api_state, unit) go" where
  "perform h c = modify (\<lambda>s. s\<lparr>apOps := apOps s @ [(h, c)]\<rparr>)"

definition memory :: "client \<Rightarrow> (api_state, client_state) go" where
  "memory h = gets (\<lambda>s. apClients s h)"

definition change_client :: "client \<Rightarrow> (client_state \<Rightarrow> client_state) \<Rightarrow> (api_state, unit) go" where
  "change_client h f = modify (\<lambda>s. s\<lparr>apClients := (apClients s)(h := f (apClients s h))\<rparr>)"

definition of_plain :: "'a result \<Rightarrow> 'a lib" where
  "of_plain r = (case r of Inl e \<Rightarrow> fails (Plain e) | Inr x \<Rightarrow> gives x)"

definition plain_error :: "go_error \<Rightarrow> unit lib" where
  "plain_error e = (case e of None \<Rightarrow> gives () | Some t \<Rightarrow> fails (Plain t))"

section \<open>Sending elements and queries\<close>

definition sendNode :: "lib_env \<Rightarrow> client \<Rightarrow> node \<Rightarrow> unit lib" where
  "sendNode env h n =
     bindg (asks (\<lambda>t. leSend env t h n)) (\<lambda>err.
       case err of
         Some e \<Rightarrow> fails (Plain e)
       | None \<Rightarrow> bindg (perform h (OpNode n)) (\<lambda>_. gives ()))"

definition generateRequestID :: "lib_env \<Rightarrow> client \<Rightarrow> (api_state, string) go" where
  "generateRequestID env h =
     bindg (change_client h (\<lambda>c. c\<lparr>csCounter := csCounter c + 1\<rparr>)) (\<lambda>_.
     bindg (memory h) (\<lambda>c. ret (leUniqueID env h @ show_nat (unat (csCounter c)))))"

definition waitResponse :: "client \<Rightarrow> string \<Rightarrow> (api_state, unit) go" where
  "waitResponse h reqID = change_client h (\<lambda>c. c\<lparr>csWaiters := add_new (csWaiters c) reqID\<rparr>)"

definition dropWaiter :: "client \<Rightarrow> string \<Rightarrow> (api_state, unit) go" where
  "dropWaiter h reqID = change_client h (\<lambda>c. c\<lparr>csWaiters := filter (\<lambda>i. i \<noteq> reqID) (csWaiters c)\<rparr>)"

definition clearResponseWaiters :: "client \<Rightarrow> (api_state, unit) go" where
  "clearResponseWaiters h = change_client h (\<lambda>c. c\<lparr>csWaiters := []\<rparr>)"

definition isDisconnect :: "iq_wait \<Rightarrow> bool" where
  "isDisconnect r = (case r of IQStreamEnd \<Rightarrow> True | IQResponse n \<Rightarrow> Tag n = ''stream:error'' | _ \<Rightarrow> False)"

definition isAuthErrorDisconnect :: "iq_wait \<Rightarrow> bool" where
  "isAuthErrorDisconnect r =
     (case r of
        IQResponse n \<Rightarrow>
          Tag n = ''stream:error'' \<and>
          (let code = (case map_of (Attrs n) ''code'' of Some (VStr s) \<Rightarrow> s | _ \<Rightarrow> []);
               (conflict, _) = GetOptionalChildByTag n [''conflict''];
               (conflictType, _) = without_ok (GetString ''type'' False) (AttrGetter conflict)
           in code = ''401'' \<or> conflictType = ''replaced'' \<or> conflictType = ''device_removed'')
      | _ \<Rightarrow> False)"

text \<open>The wait for the channel of a query: the response was taken from the table by
  \<open>receiveResponse\<close>, the element of a disconnection put there by \<open>clearResponseWaiters\<close>. A query
  that is cancelled or times out leaves its waiter in the table.\<close>

definition await :: "lib_env \<Rightarrow> client \<Rightarrow> string \<Rightarrow> (api_state, iq_wait) go" where
  "await env h reqID =
     bindg (asks (\<lambda>t. leWait env t h reqID)) (\<lambda>r.
     bindg (if isDisconnect r then clearResponseWaiters h
            else case r of IQResponse _ \<Rightarrow> dropWaiter h reqID | _ \<Rightarrow> ret ()) (\<lambda>_. ret r))"

text \<open>\<open>WaitForConnection\<close> for five seconds is one question, and so is the socket being there.\<close>

definition retryFrame :: "lib_env \<Rightarrow> client \<Rightarrow> string \<Rightarrow> string \<Rightarrow> node \<Rightarrow> iq_wait \<Rightarrow> node lib" where
  "retryFrame env h reqType reqID n origResp =
     (if isAuthErrorDisconnect origResp then fails (Disconnected reqType)
      else
        bindg (asks (\<lambda>t. leReconnected env t h)) (\<lambda>again.
        if \<not> again then fails (Disconnected reqType)
        else
          bindg (asks (\<lambda>t. leSocket env t h)) (\<lambda>sock.
          if \<not> sock then fails ErrNotConnected
          else
          bindg (waitResponse h reqID) (\<lambda>_.
          bindg (asks (\<lambda>t. leResend env t h reqID)) (\<lambda>err.
            case err of
              Some e \<Rightarrow> bindg (dropWaiter h reqID) (\<lambda>_. fails (Plain e))
            | None \<Rightarrow>
                bindg (perform h (OpNode n)) (\<lambda>_.
                bindg (await env h reqID) (\<lambda>r.
                  if isDisconnect r then fails (Disconnected (reqType @ '' (retry)''))
                  else case r of
                      IQResponse res \<Rightarrow> gives res
                    | IQCancelled e \<Rightarrow> fails (Plain e)
                    | _ \<Rightarrow> fails ErrIQTimedOut)))))))"

record info_query =
  iqNamespace :: string
  iqType :: string
  iqTo :: jid
  iqTarget :: jid
  iqID :: string
  iqSMaxID :: string
  iqContent :: bvalue
  iqNoRetry :: bool

definition query :: "string \<Rightarrow> string \<Rightarrow> jid \<Rightarrow> bvalue \<Rightarrow> info_query" where
  "query namespace t recipient content =
     \<lparr>iqNamespace = namespace, iqType = t, iqTo = recipient, iqTarget = EmptyJID, iqID = [], iqSMaxID = [],
      iqContent = content, iqNoRetry = False\<rparr>"

definition ServerJID :: jid where "ServerJID = NewJID [] DefaultUserServer"
definition GroupServerJID :: jid where "GroupServerJID = NewJID [] GroupServer"

definition iq_node :: "info_query \<Rightarrow> string \<Rightarrow> node" where
  "iq_node q reqID =
     Node ''iq''
       ([(''id'', VStr reqID), (''xmlns'', VStr (iqNamespace q)), (''type'', VStr (iqType q))]
        @ (if iqSMaxID q \<noteq> [] then [(''smax_id'', VStr (iqSMaxID q))] else [])
        @ (if \<not> IsEmpty (iqTo q) then [(''to'', VJid (iqTo q))] else [])
        @ (if \<not> IsEmpty (iqTarget q) then [(''target'', VJid (iqTarget q))] else []))
       (iqContent q)"

definition sendIQAsyncAndGetData :: "lib_env \<Rightarrow> client \<Rightarrow> info_query \<Rightarrow> (string \<times> node) lib" where
  "sendIQAsyncAndGetData env h q =
     bindg (if iqID q = [] then generateRequestID env h else ret (iqID q)) (\<lambda>reqID.
     bindg (waitResponse h reqID) (\<lambda>_.
     bindg (sendNode env h (iq_node q reqID)) (\<lambda>r.
       case r of
         Inl e \<Rightarrow> bindg (dropWaiter h reqID) (\<lambda>_. fails e)
       | Inr _ \<Rightarrow> gives (reqID, iq_node q reqID))))"

definition iq_result :: "node \<Rightarrow> node lib" where
  "iq_result res =
     (let resType = (case map_of (Attrs res) ''type'' of Some (VStr s) \<Rightarrow> s | _ \<Rightarrow> []) in
      if Tag res \<noteq> ''iq'' \<or> (resType \<noteq> ''result'' \<and> resType \<noteq> ''error'') then fails (IQError 0 [] None res)
      else if resType = ''error'' then fails (parseIQError res)
      else gives res)"

definition sendIQ :: "lib_env \<Rightarrow> client \<Rightarrow> info_query \<Rightarrow> node lib" where
  "sendIQ env h q =
     bindr (sendIQAsyncAndGetData env h q) (\<lambda>(reqID, n).
     bindg (await env h reqID) (\<lambda>r.
       if isDisconnect r then
         (if iqNoRetry q then fails (Disconnected ''info query'')
          else bindr (retryFrame env h ''info query'' reqID n r) iq_result)
       else case r of
           IQResponse res \<Rightarrow> iq_result res
         | IQCancelled e \<Rightarrow> fails (Plain e)
         | _ \<Rightarrow> fails ErrIQTimedOut))"

section \<open>The own account\<close>

definition getOwnID :: "lib_env \<Rightarrow> client \<Rightarrow> (api_state, jid) go" where
  "getOwnID env h = bindg (asks (\<lambda>t. leOwnID env t h)) (\<lambda>j. ret (case j of None \<Rightarrow> EmptyJID | Some i \<Rightarrow> i))"

definition getOwnLID :: "lib_env \<Rightarrow> client \<Rightarrow> (api_state, jid) go" where
  "getOwnLID env h = asks (\<lambda>t. leOwnLID env t h)"

section \<open>The store of the device\<close>

text \<open>\<open>Store.LIDs\<close> and \<open>Store.Contacts\<close> are interfaces that may be nil; the errors of these two calls
  are only logged.\<close>

definition PutManyLIDMappings :: "lib_env \<Rightarrow> client \<Rightarrow> (jid \<times> jid) list \<Rightarrow> (api_state, unit) go" where
  "PutManyLIDMappings env h pairs = (if leHasLIDs env h then perform h (OpStoreLIDs pairs) else crash)"

definition PutManyRedactedPhones :: "lib_env \<Rightarrow> client \<Rightarrow> (jid \<times> string) list \<Rightarrow> (api_state, unit) go" where
  "PutManyRedactedPhones env h phones = (if leHasContacts env h then perform h (OpStorePhones phones) else crash)"

section \<open>Lemmas\<close>

lemma run_on_world [go_run]: "m (apWorld s) = (r, w) \<Longrightarrow> on_world m s = (r, s\<lparr>apWorld := w\<rparr>)"
  by (simp add: on_world_def)

definition next_tick :: "api_state \<Rightarrow> api_state" where
  "next_tick s = s\<lparr>apWorld := (apWorld s)\<lparr>wTick := Suc (wTick (apWorld s))\<rparr>\<rparr>"

lemma run_asks [go_run]: "asks f s = (Return (f (wTick (apWorld s))), next_tick s)"
  by (simp add: asks_def on_world_def ask_def next_tick_def)

lemma run_perform [go_run]: "perform h c s = (Return (), s\<lparr>apOps := apOps s @ [(h, c)]\<rparr>)"
  by (simp add: perform_def run_basic)

lemma run_memory [go_run]: "memory h s = (Return (apClients s h), s)"
  by (simp add: memory_def run_basic)

lemma run_change_client [go_run]:
  "change_client h f s = (Return (), s\<lparr>apClients := (apClients s)(h := f (apClients s h))\<rparr>)"
  by (simp add: change_client_def run_basic)

lemma bindr_simps [simp, go_run]:
  "bindr (gives x) k = k x" "bindr (fails e) k = fails e"
  by (simp_all add: bindr_def gives_def fails_def)

lemma next_tick_simps [simp]:
  "apOps (next_tick s) = apOps s" "apClients (next_tick s) = apClients s"
  "wTick (apWorld (next_tick s)) = Suc (wTick (apWorld s))"
  "dbLabels (next_tick s) = dbLabels s" "dbMessages (next_tick s) = dbMessages s"
  "dbInstances (next_tick s) = dbInstances s" "stTick (next_tick s) = stTick s"
  by (simp_all add: next_tick_def)

text \<open>The laws under which a query of the client \<open>h\<close> keeps a relation between the states before and
  after: it holds for the steps a query is made of. Operations that change more of the memory of the
  client keep the relations that hold for any such change.\<close>

locale query_rely = frame R for R :: "api_state \<Rightarrow> api_state \<Rightarrow> bool" +
  fixes h :: client
  assumes rely_tick: "R s (next_tick s)"
    and rely_perform: "R s (s\<lparr>apOps := apOps s @ [(h, c)]\<rparr>)"
    and rely_counter: "R s (s\<lparr>apClients := (apClients s)(h := (apClients s h)\<lparr>csCounter := n\<rparr>)\<rparr>)"
    and rely_waiters: "R s (s\<lparr>apClients := (apClients s)(h := (apClients s h)\<lparr>csWaiters := ws\<rparr>)\<rparr>)"
begin

lemma keeps_query_steps: "keeps R (asks q)" "keeps R (perform h c)" "keeps R (memory g)"
  by (auto simp: keeps_def run_asks run_perform run_memory frame_refl rely_tick rely_perform)

lemma keeps_bindr: "keeps R m \<Longrightarrow> (\<And>x. keeps R (k x)) \<Longrightarrow> keeps R (bindr m k)"
  unfolding bindr_def by (rule keeps_bind) (auto intro: keeps_pure split: sum.split)

lemma keeps_gives: "keeps R (gives x)" "keeps R (fails e)" "keeps R (of_plain q)" "keeps R (plain_error g)"
  unfolding gives_def fails_def of_plain_def plain_error_def
  by (auto intro: keeps_pure split: sum.split option.split)

lemmas query_intros = keeps_intros keeps_query_steps keeps_bindr keeps_gives

lemma keeps_sendNode: "keeps R (sendNode env h n)"
  unfolding sendNode_def by (intro query_intros)

lemma keeps_waiters: "keeps R (waitResponse h i)" "keeps R (dropWaiter h i)" "keeps R (clearResponseWaiters h)"
  unfolding waitResponse_def dropWaiter_def clearResponseWaiters_def
  by (simp_all add: keeps_def run_change_client rely_waiters)

lemma keeps_request_id: "keeps R (generateRequestID env h)"
proof -
  have "keeps R (change_client h (\<lambda>c. c\<lparr>csCounter := csCounter c + 1\<rparr>))"
    by (simp add: keeps_def run_change_client rely_counter)
  then show ?thesis unfolding generateRequestID_def by (intro query_intros)
qed

lemma keeps_await: "keeps R (await env h i)"
  unfolding await_def
  by (intro query_intros keeps_waiters) (auto intro: query_intros keeps_waiters split: iq_wait.split)

lemma keeps_iq_result: "keeps R (iq_result n)"
  unfolding iq_result_def Let_def by (intro query_intros)

lemma keeps_retryFrame: "keeps R (retryFrame env h t i n r)"
  unfolding retryFrame_def
  by (intro query_intros keeps_waiters keeps_await) (auto intro: query_intros split: iq_wait.split)

lemma keeps_sendIQAsync: "keeps R (sendIQAsyncAndGetData env h q)"
  unfolding sendIQAsyncAndGetData_def by (intro query_intros keeps_waiters keeps_request_id keeps_sendNode)

lemma keeps_sendIQ: "keeps R (sendIQ env h q)"
  unfolding sendIQ_def
  by (intro query_intros keeps_await keeps_retryFrame keeps_iq_result keeps_sendIQAsync)
    (auto intro: query_intros keeps_iq_result split: iq_wait.split)

lemma keeps_own: "keeps R (getOwnID env h)" "keeps R (getOwnLID env h)"
  unfolding getOwnID_def getOwnLID_def by (intro query_intros)+

lemma keeps_store: "keeps R (PutManyLIDMappings env h pairs)" "keeps R (PutManyRedactedPhones env h phones)"
  unfolding PutManyLIDMappings_def PutManyRedactedPhones_def by (intro query_intros)+

end

locale client_rely = query_rely +
  assumes rely_change: "R s (s\<lparr>apClients := (apClients s)(h := f (apClients s h))\<rparr>)"
begin

lemma keeps_change: "keeps R (change_client h f)"
  by (simp add: keeps_def run_change_client rely_change)

lemmas lib_intros = query_intros keeps_change keeps_request_id

lemmas request_intros = lib_intros keeps_sendNode keeps_sendIQ keeps_own keeps_store

end

text \<open>An operation on a client acts through that client alone and leaves the tables and what the
  services did outside as they are.\<close>

definition api_tables :: "api_state \<Rightarrow> Instance list \<times> Label list \<times> Message list" where
  "api_tables s = (dbInstances s, dbLabels s, dbMessages s)"

definition acts_through :: "client \<Rightarrow> api_state \<Rightarrow> api_state \<Rightarrow> bool" where
  "acts_through h s s' =
     ((\<exists>ops. apOps s' = apOps s @ ops \<and> fst ` set ops \<subseteq> {h}) \<and> api_tables s' = api_tables s \<and>
      outbox (apWorld s') = outbox (apWorld s) \<and> wTick (apWorld s) \<le> wTick (apWorld s') \<and>
      wSlept (apWorld s') = wSlept (apWorld s) \<and> wStarted (apWorld s') = wStarted (apWorld s) \<and>
      wReconnected (apWorld s') = wReconnected (apWorld s) \<and>
      (\<forall>g. g \<noteq> h \<longrightarrow> apClients s' g = apClients s g))"

lemma acts_through_trans: "acts_through h s t \<Longrightarrow> acts_through h t u \<Longrightarrow> acts_through h s u"
proof -
  assume st: "acts_through h s t" and tu: "acts_through h t u"
  from st obtain a where "apOps t = apOps s @ a" "fst ` set a \<subseteq> {h}" by (auto simp: acts_through_def)
  moreover from tu obtain b where "apOps u = apOps t @ b" "fst ` set b \<subseteq> {h}"
    by (auto simp: acts_through_def)
  ultimately have "apOps u = apOps s @ (a @ b) \<and> fst ` set (a @ b) \<subseteq> {h}" by auto
  then have "\<exists>ops. apOps u = apOps s @ ops \<and> fst ` set ops \<subseteq> {h}" by blast
  with st tu show ?thesis by (simp add: acts_through_def)
qed

lemma acts_through_refl: "acts_through h s s"
  by (simp add: acts_through_def)

interpretation own: client_rely "acts_through h" h for h
proof
  show "acts_through h s s" for s by (rule acts_through_refl)
  show "acts_through h s t \<Longrightarrow> acts_through h t u \<Longrightarrow> acts_through h s u" for s t u
    by (rule acts_through_trans)
  show "acts_through h s (next_tick s)" for s
    by (auto simp: acts_through_def api_tables_def outbox_def next_tick_def)
  show "acts_through h s (s\<lparr>apOps := apOps s @ [(h, c)]\<rparr>)" for s c
    by (auto simp: acts_through_def api_tables_def)
  show "acts_through h s (s\<lparr>apClients := (apClients s)(h := (apClients s h)\<lparr>csCounter := n\<rparr>)\<rparr>)" for s n
    by (auto simp: acts_through_def api_tables_def)
  show "acts_through h s (s\<lparr>apClients := (apClients s)(h := (apClients s h)\<lparr>csWaiters := ws\<rparr>)\<rparr>)" for s ws
    by (auto simp: acts_through_def api_tables_def)
  show "acts_through h s (s\<lparr>apClients := (apClients s)(h := f (apClients s h))\<rparr>)" for s f
    by (auto simp: acts_through_def api_tables_def)
qed

text \<open>A query leaves the settings and the groups that are cached as they are.\<close>

definition caches :: "client \<Rightarrow> api_state \<Rightarrow> privacy_settings option \<times> (jid \<Rightarrow> group_meta option)" where
  "caches h s = (csPrivacy (apClients s h), csGroups (apClients s h))"

interpretation cached: query_rely "same (caches g)" h for g h
  by unfold_locales (auto simp: same_def caches_def next_tick_def)

end
