(* ===== verification/LibGroups.thy ===== *)
theory LibGroups
  imports LibClient
begin

text \<open>
  Groups in the client library: \<open>whatsmeow-lib/group.go\<close> with the types of
  \<open>whatsmeow-lib/types/group.go\<close>. Requests are built as elements and sent as queries, responses and
  notifications are parsed, and the members of each group are cached. Log lines are left out. The
  warnings about attributes of children have no other effect.
\<close>

section \<open>Types\<close>

record GroupParticipantAddRequest =
  arCode :: string
  arExpiration :: go_time

record GroupParticipant =
  gpJID :: jid
  gpPhoneNumber :: jid
  gpLID :: jid
  gpIsAdmin :: bool
  gpIsSuperAdmin :: bool
  gpDisplayName :: string
  gpError :: int
  gpAddRequest :: "GroupParticipantAddRequest option"

record GroupInfo =
  giJID :: jid
  giOwnerJID :: jid
  giOwnerPN :: jid
  giName :: string
  giNameSetAt :: go_time
  giNameSetBy :: jid
  giNameSetByPN :: jid
  giTopic :: string
  giTopicID :: string
  giTopicSetAt :: go_time
  giTopicSetBy :: jid
  giTopicSetByPN :: jid
  giIsLocked :: bool
  giIsAnnounce :: bool
  giAnnounceVersionID :: string
  giIsEphemeral :: bool
  giDisappearingTimer :: "32 word"
  giIsIncognito :: bool
  giIsParent :: bool
  giDefaultMembershipApprovalMode :: string
  giLinkedParentJID :: jid
  giIsDefaultSubGroup :: bool
  giIsJoinApprovalRequired :: bool
  giAddressingMode :: string
  giGroupCreated :: go_time
  giCreatorCountryCode :: string
  giParticipantVersionID :: string
  giParticipants :: "GroupParticipant list"
  giParticipantCount :: int
  giMemberAddMode :: string
  giSuspended :: bool

definition zeroGroupInfo :: GroupInfo where
  "zeroGroupInfo = \<lparr>giJID = EmptyJID, giOwnerJID = EmptyJID, giOwnerPN = EmptyJID, giName = [],
     giNameSetAt = ZeroTime, giNameSetBy = EmptyJID, giNameSetByPN = EmptyJID, giTopic = [],
     giTopicID = [], giTopicSetAt = ZeroTime, giTopicSetBy = EmptyJID, giTopicSetByPN = EmptyJID,
     giIsLocked = False, giIsAnnounce = False, giAnnounceVersionID = [], giIsEphemeral = False,
     giDisappearingTimer = 0, giIsIncognito = False, giIsParent = False,
     giDefaultMembershipApprovalMode = [], giLinkedParentJID = EmptyJID, giIsDefaultSubGroup = False,
     giIsJoinApprovalRequired = False, giAddressingMode = [], giGroupCreated = ZeroTime,
     giCreatorCountryCode = [], giParticipantVersionID = [], giParticipants = [],
     giParticipantCount = 0, giMemberAddMode = [], giSuspended = False\<rparr>"

section \<open>Parsing\<close>

text \<open>Short names for the readers without the flag.\<close>

abbreviation opt_string :: "string \<Rightarrow> AttrUtility \<Rightarrow> string \<times> AttrUtility" where
  "opt_string key \<equiv> without_ok (GetString key False)"
abbreviation req_string :: "string \<Rightarrow> AttrUtility \<Rightarrow> string \<times> AttrUtility" where
  "req_string key \<equiv> without_ok (GetString key True)"
abbreviation opt_int :: "string \<Rightarrow> AttrUtility \<Rightarrow> int \<times> AttrUtility" where
  "opt_int key \<equiv> without_ok (GetInt64 key False)"
abbreviation opt_time :: "string \<Rightarrow> AttrUtility \<Rightarrow> go_time \<times> AttrUtility" where
  "opt_time key \<equiv> without_ok (GetUnixTime key False)"
abbreviation req_time :: "string \<Rightarrow> AttrUtility \<Rightarrow> go_time \<times> AttrUtility" where
  "req_time key \<equiv> without_ok (GetUnixTime key True)"
abbreviation req_uint :: "string \<Rightarrow> AttrUtility \<Rightarrow> nat \<times> AttrUtility" where
  "req_uint key \<equiv> without_ok (GetUint64 key True)"

text \<open>\<open>b, _ := n.Content.([]byte); string(b)\<close>, and the type assertions on attributes.\<close>

definition content_bytes :: "node \<Rightarrow> string" where
  "content_bytes n = (case Content n of VBytes b \<Rightarrow> b | _ \<Rightarrow> [])"

definition attr_jid :: "node \<Rightarrow> string \<Rightarrow> jid option" where
  "attr_jid n key = (case map_of (Attrs n) key of Some (VJid j) \<Rightarrow> Some j | _ \<Rightarrow> None)"

definition attr_string :: "node \<Rightarrow> string \<Rightarrow> string option" where
  "attr_string n key = (case map_of (Attrs n) key of Some (VStr t) \<Rightarrow> Some t | _ \<Rightarrow> None)"

definition parse_add_request :: "node \<Rightarrow> GroupParticipantAddRequest option" where
  "parse_add_request child =
     (let (addRequest, ok) = GetOptionalChildByTag child [''add_request''] in
      if \<not> ok then None
      else let (code, ag) = req_string ''code'' (AttrGetter addRequest);
               (expiration, _) = req_time ''expiration'' ag
           in Some \<lparr>arCode = code, arExpiration = expiration\<rparr>)"

definition parseParticipant :: "AttrUtility \<Rightarrow> node \<Rightarrow> GroupParticipant \<times> AttrUtility" where
  "parseParticipant ag child =
     (let (pcpType, ag) = opt_string ''type'' ag;
          (j, ag) = attr_JID ''jid'' ag;
          (displayName, ag) = opt_string ''display_name'' ag;
          (phone, lid, ag) =
            (if Server j = HiddenUserServer then
               let (pn, ag') = OptionalJIDOrEmpty ''phone_number'' ag in (pn, j, ag')
             else if Server j = DefaultUserServer then
               let (l, ag') = OptionalJIDOrEmpty ''lid'' ag in (j, l, ag')
             else (EmptyJID, EmptyJID, ag));
          (errorCode, ag) = opt_int ''error'' ag
      in (\<lparr>gpJID = j, gpPhoneNumber = phone, gpLID = lid,
           gpIsAdmin = (pcpType = ''admin'' \<or> pcpType = ''superadmin''),
           gpIsSuperAdmin = (pcpType = ''superadmin''), gpDisplayName = displayName,
           gpError = errorCode,
           gpAddRequest = (if errorCode \<noteq> 0 then parse_add_request child else None)\<rparr>, ag))"

definition parse_description :: "GroupInfo \<Rightarrow> node \<Rightarrow> GroupInfo" where
  "parse_description grp child =
     (let (body, bodyOK) = GetOptionalChildByTag child [''body''] in
      if \<not> bodyOK then grp
      else let (topicID, ag) = req_string ''id'' (AttrGetter child);
               (setBy, ag) = OptionalJIDOrEmpty ''participant'' ag;
               (setByPN, ag) = OptionalJIDOrEmpty ''participant_pn'' ag;
               (setAt, ag) = req_time ''t'' ag
           in grp\<lparr>giTopic := content_bytes body, giTopicID := topicID, giTopicSetBy := setBy,
                giTopicSetByPN := setByPN, giTopicSetAt := setAt\<rparr>)"

text \<open>The body of the loop over the children of a group.\<close>

definition parse_group_child :: "GroupInfo \<Rightarrow> node \<Rightarrow> GroupInfo" where
  "parse_group_child grp child =
     (let ag = AttrGetter child in
      if Tag child = ''participant'' then
        grp\<lparr>giParticipants := giParticipants grp @ [fst (parseParticipant ag child)]\<rparr>
      else if Tag child = ''description'' then parse_description grp child
      else if Tag child = ''announcement'' then grp\<lparr>giIsAnnounce := True\<rparr>
      else if Tag child = ''locked'' then grp\<lparr>giIsLocked := True\<rparr>
      else if Tag child = ''ephemeral'' then
        grp\<lparr>giIsEphemeral := True,
          giDisappearingTimer := word_of_nat (fst (req_uint ''expiration'' ag))\<rparr>
      else if Tag child = ''member_add_mode'' then grp\<lparr>giMemberAddMode := content_bytes child\<rparr>
      else if Tag child = ''linked_parent'' then grp\<lparr>giLinkedParentJID := fst (attr_JID ''jid'' ag)\<rparr>
      else if Tag child = ''default_sub_group'' then grp\<lparr>giIsDefaultSubGroup := True\<rparr>
      else if Tag child = ''parent'' then
        grp\<lparr>giIsParent := True,
          giDefaultMembershipApprovalMode := fst (opt_string ''default_membership_approval_mode'' ag)\<rparr>
      else if Tag child = ''incognito'' then grp\<lparr>giIsIncognito := True\<rparr>
      else if Tag child = ''membership_approval_mode'' then grp\<lparr>giIsJoinApprovalRequired := True\<rparr>
      else if Tag child = ''suspended'' then grp\<lparr>giSuspended := True\<rparr>
      else grp)"

definition parseGroupNode :: "node \<Rightarrow> GroupInfo \<times> attr_error list option" where
  "parseGroupNode groupNode =
     (let (key, ag) = req_string ''id'' (AttrGetter groupNode);
          (owner, ag) = OptionalJIDOrEmpty ''creator'' ag;
          (ownerPN, ag) = OptionalJIDOrEmpty ''creator_pn'' ag;
          (name, ag) = opt_string ''subject'' ag;
          (nameSetAt, ag) = opt_time ''s_t'' ag;
          (nameSetBy, ag) = OptionalJIDOrEmpty ''s_o'' ag;
          (nameSetByPN, ag) = OptionalJIDOrEmpty ''s_o_pn'' ag;
          (created, ag) = req_time ''creation'' ag;
          (country, ag) = opt_string ''creator_country_code'' ag;
          (announceVersion, ag) = opt_string ''a_v_id'' ag;
          (participantVersion, ag) = opt_string ''p_v_id'' ag;
          (size, ag) = opt_int ''size'' ag;
          (mode, ag) = opt_string ''addressing_mode'' ag;
          grp = zeroGroupInfo\<lparr>giJID := NewJID key GroupServer, giOwnerJID := owner,
            giOwnerPN := ownerPN, giName := name, giNameSetAt := nameSetAt, giNameSetBy := nameSetBy,
            giNameSetByPN := nameSetByPN, giGroupCreated := created, giCreatorCountryCode := country,
            giAnnounceVersionID := announceVersion, giParticipantVersionID := participantVersion,
            giParticipantCount := size, giAddressingMode := mode\<rparr>
      in (foldl parse_group_child grp (GetChildren groupNode), attr_Error ag))"

section \<open>The cache of groups\<close>

text \<open>\<open>cacheGroupInfo\<close> leaves an empty pair in \<open>lidPairs\<close> for a participant with only one address;
  the store passes over such pairs.\<close>

definition lid_pair :: "GroupParticipant \<Rightarrow> jid \<times> jid" where
  "lid_pair part =
     (if \<not> IsEmpty (gpPhoneNumber part) \<and> \<not> IsEmpty (gpLID part) then (gpLID part, gpPhoneNumber part)
      else (EmptyJID, EmptyJID))"

definition redacted_phones :: "GroupInfo \<Rightarrow> (jid \<times> string) list" where
  "redacted_phones info =
     map (\<lambda>part. (gpLID part, gpDisplayName part))
       (filter (\<lambda>part. gpDisplayName part \<noteq> [] \<and> \<not> IsEmpty (gpLID part)) (giParticipants info))"

definition meta_of :: "GroupInfo \<Rightarrow> group_meta" where
  "meta_of info = \<lparr>gmAddressingMode = giAddressingMode info,
     gmAnnouncementGroup = (giIsAnnounce info \<and> giIsDefaultSubGroup info),
     gmMembers = map gpJID (giParticipants info)\<rparr>"

definition cacheGroupInfo :: "client \<Rightarrow> GroupInfo \<Rightarrow> (api_state, (jid \<times> jid) list \<times> (jid \<times> string) list) go" where
  "cacheGroupInfo h info =
     bindg (change_client h (\<lambda>c. c\<lparr>csGroups := (csGroups c)(giJID info \<mapsto> meta_of info)\<rparr>)) (\<lambda>_.
       ret (map lid_pair (giParticipants info), redacted_phones info))"

section \<open>Requests\<close>

definition InviteLinkPrefix :: string where "InviteLinkPrefix = ''https://chat.whatsapp.com/''"

definition iqSet :: string where "iqSet = ''set''"
definition iqGet :: string where "iqGet = ''get''"

text \<open>An element without attributes or content.\<close>

definition empty_node :: "string \<Rightarrow> node" where
  "empty_node tag = Node tag [] VNil"

definition jid_node :: "string \<Rightarrow> string \<Rightarrow> jid \<Rightarrow> node" where
  "jid_node tag key j = Node tag [(key, VJid j)] VNil"

definition sendGroupIQ :: "lib_env \<Rightarrow> client \<Rightarrow> string \<Rightarrow> jid \<Rightarrow> node \<Rightarrow> node lib" where
  "sendGroupIQ env h t j content = sendIQ env h (query ''w:g2'' t j (VNodes [content]))"

text \<open>\<open>_, err := cli.sendGroupIQ(...); return err\<close>.\<close>

definition group_command :: "lib_env \<Rightarrow> client \<Rightarrow> jid \<Rightarrow> node \<Rightarrow> unit lib" where
  "group_command env h j content = bindr (sendGroupIQ env h iqSet j content) (\<lambda>_. gives ())"

text \<open>An error that is one of the listed common errors gets the text beside it.\<close>

fun wrap_known :: "((int \<times> string) \<times> string) list \<Rightarrow> lib_error \<Rightarrow> lib_error" where
  "wrap_known [] e = e"
| "wrap_known ((code, human) # rest) e = (if is_iq_error e code then Wrapped human e else wrap_known rest e)"

definition on_error :: "(lib_error \<Rightarrow> lib_error) \<Rightarrow> 'a lib \<Rightarrow> 'a lib" where
  "on_error f m = bindg m (\<lambda>r. ret (case r of Inl e \<Rightarrow> Inl (f e) | Inr x \<Rightarrow> Inr x))"

text \<open>\<open>resp.GetOptionalChildByTag(tag)\<close> or an \<open>ElementMissingError\<close>.\<close>

definition child_of :: "node \<Rightarrow> string list \<Rightarrow> string \<Rightarrow> string \<Rightarrow> node lib" where
  "child_of resp tags missing loc =
     (let (c, ok) = GetOptionalChildByTag resp tags in
      if ok then gives c else fails (ElementMissing missing loc))"

definition parsed_group :: "node \<Rightarrow> GroupInfo lib" where
  "parsed_group n =
     (case parseGroupNode n of (info, None) \<Rightarrow> gives info | (_, Some es) \<Rightarrow> fails (AttrErrors es))"

record ReqCreateGroup =
  rcName :: string
  rcParticipants :: "jid list"
  rcCreateKey :: string
  rcIsEphemeral :: bool
  rcDisappearingTimer :: "32 word"
  rcIsAnnounce :: bool
  rcIsLocked :: bool
  rcIsJoinApprovalRequired :: bool
  rcIsParent :: bool
  rcDefaultMembershipApprovalMode :: string
  rcLinkedParentJID :: jid

definition create_request :: "string \<Rightarrow> jid list \<Rightarrow> bool \<Rightarrow> ReqCreateGroup" where
  "create_request name participants isParent =
     \<lparr>rcName = name, rcParticipants = participants, rcCreateKey = [], rcIsEphemeral = False,
      rcDisappearingTimer = 0, rcIsAnnounce = False, rcIsLocked = False,
      rcIsJoinApprovalRequired = False, rcIsParent = isParent,
      rcDefaultMembershipApprovalMode = [], rcLinkedParentJID = EmptyJID\<rparr>"

text \<open>The loop over the participants, each with its privacy token if there is one.\<close>

fun participant_nodes :: "lib_env \<Rightarrow> client \<Rightarrow> jid list \<Rightarrow> node list lib" where
  "participant_nodes env h [] = gives []"
| "participant_nodes env h (participant # rest) =
     bindr (if leHasTokens env h then
              bindg (asks (\<lambda>t. lePrivacyToken env t h participant)) (\<lambda>r.
                case r of
                  Inl e \<Rightarrow> fails (Plain (''failed to get privacy token for participant ''
                             @ JID_String participant @ '': '' @ e))
                | Inr pt \<Rightarrow> gives pt)
            else gives None) (\<lambda>pt.
     bindr (participant_nodes env h rest) (\<lambda>nodes.
       gives (Node ''participant'' [(''jid'', VJid participant)]
                (case pt of None \<Rightarrow> VNil | Some token \<Rightarrow> VNodes [Node ''privacy'' [] (VBytes token)])
              # nodes)))"

definition create_options :: "ReqCreateGroup \<Rightarrow> node list" where
  "create_options req =
     (if rcIsParent req then
        [Node ''parent'' [(''default_membership_approval_mode'',
           VStr (if rcDefaultMembershipApprovalMode req = [] then ''request_required''
                 else rcDefaultMembershipApprovalMode req))] VNil]
      else if \<not> IsEmpty (rcLinkedParentJID req) then [jid_node ''linked_parent'' ''jid'' (rcLinkedParentJID req)]
      else [])
     @ (if rcIsLocked req then [empty_node ''locked''] else [])
     @ (if rcIsAnnounce req then [empty_node ''announcement''] else [])
     @ (if rcIsEphemeral req then
          [Node ''ephemeral'' [(''expiration'', VInt TUint32 (uint (rcDisappearingTimer req))),
             (''trigger'', VStr ''1'')] VNil]
        else [])
     @ (if rcIsJoinApprovalRequired req then
          [Node ''membership_approval_mode'' []
             (VNodes [Node ''group_join'' [(''state'', VStr ''on'')] VNil])]
        else [])"

definition trim_prefix :: "string \<Rightarrow> string \<Rightarrow> string" where
  "trim_prefix p s = (if has_prefix s p then drop (length p) s else s)"

definition lib_CreateGroup :: "lib_env \<Rightarrow> client \<Rightarrow> ReqCreateGroup \<Rightarrow> GroupInfo lib" where
  "lib_CreateGroup env h req =
     bindr (participant_nodes env h (rcParticipants req)) (\<lambda>nodes.
     bindg (if rcCreateKey req = [] then asks (\<lambda>t. leMessageID env t h) else ret (rcCreateKey req)) (\<lambda>key.
     bindr (sendGroupIQ env h iqSet GroupServerJID
              (Node ''create'' [(''subject'', VStr (rcName req)), (''key'', VStr (trim_prefix ''3EB0'' key))]
                 (VNodes (nodes @ create_options req)))) (\<lambda>resp.
     bindr (child_of resp [''group''] ''group'' ''response to create group query'') parsed_group)))"

definition lib_UnlinkGroup :: "lib_env \<Rightarrow> client \<Rightarrow> jid \<Rightarrow> jid \<Rightarrow> unit lib" where
  "lib_UnlinkGroup env h parent child =
     group_command env h parent (Node ''unlink'' [(''unlink_type'', VStr ''sub_group'')]
       (VNodes [jid_node ''group'' ''jid'' child]))"

definition lib_LinkGroup :: "lib_env \<Rightarrow> client \<Rightarrow> jid \<Rightarrow> jid \<Rightarrow> unit lib" where
  "lib_LinkGroup env h parent child =
     group_command env h parent (Node ''links'' []
       (VNodes [Node ''link'' [(''link_type'', VStr ''sub_group'')] (VNodes [jid_node ''group'' ''jid'' child])]))"

definition lib_LeaveGroup :: "lib_env \<Rightarrow> client \<Rightarrow> jid \<Rightarrow> unit lib" where
  "lib_LeaveGroup env h j =
     group_command env h GroupServerJID (Node ''leave'' [] (VNodes [jid_node ''group'' ''id'' j]))"

text \<open>Only a participant known by its hidden address, when it is added, has its phone number looked up.\<close>

fun change_nodes :: "lib_env \<Rightarrow> client \<Rightarrow> string \<Rightarrow> jid list \<Rightarrow> node list lib" where
  "change_nodes env h action [] = gives []"
| "change_nodes env h action (participant # rest) =
     bindr (if Server participant = HiddenUserServer \<and> action = ''add'' then
              if \<not> leHasLIDs env h then crash
              else bindg (asks (\<lambda>t. lePNForLID env t h participant)) (\<lambda>r.
                case r of
                  Inl e \<Rightarrow> fails (Plain (''failed to get phone number for LID '' @ JID_String participant
                             @ '': '' @ e))
                | Inr pn \<Rightarrow> gives (if IsEmpty pn then [] else [(''phone_number'', VJid pn)]))
            else gives []) (\<lambda>extra.
     bindr (change_nodes env h action rest) (\<lambda>nodes.
       gives (Node ''participant'' ((''jid'', VJid participant) # extra) VNil # nodes)))"

definition parsed_participants :: "node \<Rightarrow> GroupParticipant list" where
  "parsed_participants n =
     map (\<lambda>child. fst (parseParticipant (AttrGetter child) child)) (GetChildrenByTag n ''participant'')"

definition UpdateGroupParticipants :: "lib_env \<Rightarrow> client \<Rightarrow> jid \<Rightarrow> jid list \<Rightarrow> string \<Rightarrow> GroupParticipant list lib" where
  "UpdateGroupParticipants env h j participantChanges action =
     bindr (change_nodes env h action participantChanges) (\<lambda>content.
     bindr (sendGroupIQ env h iqSet j (Node action [] (VNodes content))) (\<lambda>resp.
     bindr (child_of resp [action] action ''response to group participants update'') (\<lambda>requestAction.
       gives (parsed_participants requestAction))))"

definition GetGroupRequestParticipants :: "lib_env \<Rightarrow> client \<Rightarrow> jid \<Rightarrow> (jid \<times> go_time) list lib" where
  "GetGroupRequestParticipants env h j =
     bindr (sendGroupIQ env h iqGet j (empty_node ''membership_approval_requests'')) (\<lambda>resp.
     bindr (child_of resp [''membership_approval_requests''] ''membership_approval_requests''
              ''response to group request participants query'') (\<lambda>request.
       gives (map (\<lambda>req. (fst (attr_JID ''jid'' (AttrGetter req)), fst (req_time ''request_time'' (AttrGetter req))))
                (GetChildrenByTag request ''membership_approval_request''))))"

definition UpdateGroupRequestParticipants :: "lib_env \<Rightarrow> client \<Rightarrow> jid \<Rightarrow> jid list \<Rightarrow> string \<Rightarrow> GroupParticipant list lib" where
  "UpdateGroupRequestParticipants env h j participantChanges action =
     bindr (sendGroupIQ env h iqSet j
              (Node ''membership_requests_action'' []
                 (VNodes [Node action [] (VNodes (map (jid_node ''participant'' ''jid'') participantChanges))]))) (\<lambda>resp.
     bindr (child_of resp [''membership_requests_action''] ''membership_requests_action''
              ''response to group request participants update'') (\<lambda>request.
     bindr (child_of request [action] action ''response to group request participants update'') (\<lambda>requestAction.
       gives (parsed_participants requestAction))))"

text \<open>\<open>avatar\<close> is \<^const>\<open>None\<close> for a nil slice, which removes the photo.\<close>

definition lib_SetGroupPhoto :: "lib_env \<Rightarrow> client \<Rightarrow> jid \<Rightarrow> string option \<Rightarrow> string lib" where
  "lib_SetGroupPhoto env h j avatar =
     bindr (on_error (wrap_known [(ErrIQNotAcceptable, ''the given data is not a valid image'')])
       (sendIQ env h ((query ''w:profile:picture'' iqSet ServerJID
          (case avatar of
             None \<Rightarrow> VNil
           | Some bytes \<Rightarrow> VNodes [Node ''picture'' [(''type'', VStr ''image'')] (VBytes bytes)]))
          \<lparr>iqTarget := j\<rparr>))) (\<lambda>resp.
       if avatar = None then gives ''remove''
       else case attr_string (GetChildByTag resp [''picture'']) ''id'' of
           None \<Rightarrow> fails (Plain ''didn't find picture ID in response'')
         | Some pictureID \<Rightarrow> gives pictureID)"

definition lib_SetGroupName :: "lib_env \<Rightarrow> client \<Rightarrow> jid \<Rightarrow> string \<Rightarrow> unit lib" where
  "lib_SetGroupName env h j name = group_command env h j (Node ''subject'' [] (VBytes name))"

definition getGroupInfo :: "lib_env \<Rightarrow> client \<Rightarrow> jid \<Rightarrow> GroupInfo lib" where
  "getGroupInfo env h j =
     bindr (on_error (wrap_known [(ErrIQNotFound, ''that group does not exist''),
                                  (ErrIQForbidden, ''you're not participating in that group'')])
              (sendGroupIQ env h iqGet j (Node ''query'' [(''request'', VStr ''interactive'')] VNil))) (\<lambda>res.
     bindr (child_of res [''group''] ''groups'' ''response to group info query'') (\<lambda>groupNode.
     bindr (parsed_group groupNode) (\<lambda>groupInfo.
     bindg (cacheGroupInfo h groupInfo) (\<lambda>(lidPairs, redactedPhones).
     bindg (PutManyLIDMappings env h lidPairs) (\<lambda>_.
     bindg (PutManyRedactedPhones env h redactedPhones) (\<lambda>_. gives groupInfo))))))"

definition lib_GetGroupInfo :: "lib_env \<Rightarrow> client \<Rightarrow> jid \<Rightarrow> GroupInfo lib" where
  "lib_GetGroupInfo env h j = getGroupInfo env h j"

definition getCachedGroupData :: "lib_env \<Rightarrow> client \<Rightarrow> jid \<Rightarrow> group_meta option lib" where
  "getCachedGroupData env h j =
     bindg (memory h) (\<lambda>c.
       case csGroups c j of
         Some val \<Rightarrow> gives (Some val)
       | None \<Rightarrow> bindr (getGroupInfo env h j) (\<lambda>_. bindg (memory h) (\<lambda>c. gives (csGroups c j))))"

definition SetGroupTopic :: "lib_env \<Rightarrow> client \<Rightarrow> jid \<Rightarrow> string \<Rightarrow> string \<Rightarrow> string \<Rightarrow> unit lib" where
  "SetGroupTopic env h j previousID newID topic =
     bindr (if previousID = [] then
              bindg (lib_GetGroupInfo env h j) (\<lambda>r.
                case r of
                  Inl e \<Rightarrow> fails (Plain (''failed to get old group info to update topic: ''
                             @ error_text (leXML env) (leAttrErrors env) e))
                | Inr oldInfo \<Rightarrow> gives (giTopicID oldInfo))
            else gives previousID) (\<lambda>previousID.
     bindg (if newID = [] then asks (\<lambda>t. leMessageID env t h) else ret newID) (\<lambda>newID.
       group_command env h j
         (Node ''description''
            ([(''id'', VStr newID)]
             @ (if previousID \<noteq> [] then [(''prev'', VStr previousID)] else [])
             @ (if length topic = 0 then [(''delete'', VStr ''true'')] else []))
            (VNodes (if length topic = 0 then [] else [Node ''body'' [] (VBytes topic)])))))"

definition SetGroupLocked :: "lib_env \<Rightarrow> client \<Rightarrow> jid \<Rightarrow> bool \<Rightarrow> unit lib" where
  "SetGroupLocked env h j locked =
     group_command env h j (empty_node (if locked then ''locked'' else ''unlocked''))"

definition SetGroupAnnounce :: "lib_env \<Rightarrow> client \<Rightarrow> jid \<Rightarrow> bool \<Rightarrow> unit lib" where
  "SetGroupAnnounce env h j announce =
     group_command env h j (empty_node (if announce then ''announcement'' else ''not_announcement''))"

definition lib_GetGroupInviteLink :: "lib_env \<Rightarrow> client \<Rightarrow> jid \<Rightarrow> bool \<Rightarrow> string lib" where
  "lib_GetGroupInviteLink env h j reset =
     bindr (on_error (wrap_known
              [(ErrIQNotAuthorized, ''you don't have the permission to get the group's invite link''),
               (ErrIQNotFound, ''that group does not exist''),
               (ErrIQForbidden, ''you're not participating in that group'')])
              (sendGroupIQ env h (if reset then iqSet else iqGet) j (empty_node ''invite''))) (\<lambda>resp.
       case attr_string (GetChildByTag resp [''invite'']) ''code'' of
         None \<Rightarrow> fails (Plain ''didn't find invite code in response'')
       | Some code \<Rightarrow> gives (InviteLinkPrefix @ code))"

definition invite_errors :: "lib_error \<Rightarrow> lib_error" where
  "invite_errors = wrap_known [(ErrIQGone, ''that group invite link has been revoked''),
     (ErrIQNotAcceptable, ''that group invite link is not valid'')]"

definition GetGroupInfoFromInvite :: "lib_env \<Rightarrow> client \<Rightarrow> jid \<Rightarrow> jid \<Rightarrow> string \<Rightarrow> int \<Rightarrow> GroupInfo lib" where
  "GetGroupInfoFromInvite env h j inviter code expiration =
     bindr (sendGroupIQ env h iqGet j
              (Node ''query'' [] (VNodes [Node ''add_request''
                 [(''code'', VStr code), (''expiration'', VInt TInt64 expiration), (''admin'', VJid inviter)] VNil]))) (\<lambda>resp.
     bindr (child_of resp [''group''] ''group'' ''response to invite group info query'') parsed_group)"

definition JoinGroupWithInvite :: "lib_env \<Rightarrow> client \<Rightarrow> jid \<Rightarrow> jid \<Rightarrow> string \<Rightarrow> int \<Rightarrow> unit lib" where
  "JoinGroupWithInvite env h j inviter code expiration =
     group_command env h j
       (Node ''accept'' [(''code'', VStr code), (''expiration'', VInt TInt64 expiration), (''admin'', VJid inviter)] VNil)"

definition GetGroupInfoFromLink :: "lib_env \<Rightarrow> client \<Rightarrow> string \<Rightarrow> GroupInfo lib" where
  "GetGroupInfoFromLink env h link =
     (let code = trim_prefix InviteLinkPrefix link in
      bindr (on_error invite_errors
               (sendGroupIQ env h iqGet GroupServerJID (Node ''invite'' [(''code'', VStr code)] VNil))) (\<lambda>resp.
      bindr (child_of resp [''group''] ''group'' ''response to group link info query'') parsed_group))"

definition lib_JoinGroupWithLink :: "lib_env \<Rightarrow> client \<Rightarrow> string \<Rightarrow> jid lib" where
  "lib_JoinGroupWithLink env h link =
     (let code = trim_prefix InviteLinkPrefix link in
      bindr (on_error invite_errors
               (sendGroupIQ env h iqSet GroupServerJID (Node ''invite'' [(''code'', VStr code)] VNil))) (\<lambda>resp.
        case GetOptionalChildByTag resp [''membership_approval_request''] of
          (approval, True) \<Rightarrow> gives (fst (attr_JID ''jid'' (AttrGetter approval)))
        | _ \<Rightarrow>
            bindr (child_of resp [''group''] ''group'' ''response to group link join query'') (\<lambda>groupNode.
              gives (fst (attr_JID ''jid'' (AttrGetter groupNode))))))"

text \<open>The loop over the listed groups; what the attributes of a group lack is only logged.\<close>

fun joined_loop :: "client \<Rightarrow> node list \<Rightarrow> (jid \<times> jid) list \<Rightarrow> (jid \<times> string) list \<Rightarrow> GroupInfo list \<Rightarrow>
    (api_state, (jid \<times> jid) list \<times> (jid \<times> string) list \<times> GroupInfo list) go" where
  "joined_loop h [] lidPairs phones infos = ret (lidPairs, phones, infos)"
| "joined_loop h (child # rest) lidPairs phones infos =
     (if Tag child \<noteq> ''group'' then joined_loop h rest lidPairs phones infos
      else
        let parsed = fst (parseGroupNode child) in
        bindg (cacheGroupInfo h parsed) (\<lambda>(pairs, redacted).
          joined_loop h rest (lidPairs @ pairs) (phones @ redacted) (infos @ [parsed])))"

definition lib_GetJoinedGroups :: "lib_env \<Rightarrow> client \<Rightarrow> GroupInfo list lib" where
  "lib_GetJoinedGroups env h =
     bindr (sendGroupIQ env h iqGet GroupServerJID
              (Node ''participating'' [] (VNodes [empty_node ''participants'', empty_node ''description'']))) (\<lambda>resp.
     bindr (child_of resp [''groups''] ''groups'' ''response to group list query'') (\<lambda>groups.
     bindg (joined_loop h (GetChildren groups) [] [] []) (\<lambda>(lidPairs, phones, infos).
     bindg (PutManyLIDMappings env h lidPairs) (\<lambda>_.
     bindg (PutManyRedactedPhones env h phones) (\<lambda>_. gives infos)))))"

record GroupLinkTarget =
  glJID :: jid
  glName :: string
  glNameSetAt :: go_time
  glIsDefaultSubGroup :: bool

definition parseGroupLinkTargetNode :: "node \<Rightarrow> GroupLinkTarget \<times> attr_error list option" where
  "parseGroupLinkTargetNode groupNode =
     (let (jidKey, ag) = OptionalJIDOrEmpty ''jid'' (AttrGetter groupNode);
          (jidKey, ag) = (if IsEmpty jidKey then let (key, ag') = req_string ''id'' ag in (NewJID key GroupServer, ag')
                          else (jidKey, ag));
          (name, ag) = opt_string ''subject'' ag;
          (setAt, ag) = opt_time ''s_t'' ag
      in (\<lparr>glJID = jidKey, glName = name, glNameSetAt = setAt,
           glIsDefaultSubGroup = (Tag (GetChildByTag groupNode [''default_sub_group'']) = ''default_sub_group'')\<rparr>,
          attr_Error ag))"

fun sub_groups :: "node list \<Rightarrow> lib_error + GroupLinkTarget list" where
  "sub_groups [] = Inr []"
| "sub_groups (child # rest) =
     (if Tag child \<noteq> ''group'' then sub_groups rest
      else case parseGroupLinkTargetNode child of
          (_, Some es) \<Rightarrow> Inl (Prefixed ''failed to parse group in subgroups list: '' (AttrErrors es))
        | (target, None) \<Rightarrow> map_sum id (\<lambda>ts. target # ts) (sub_groups rest))"

definition GetSubGroups :: "lib_env \<Rightarrow> client \<Rightarrow> jid \<Rightarrow> GroupLinkTarget list lib" where
  "GetSubGroups env h community =
     bindr (sendGroupIQ env h iqGet community (empty_node ''sub_groups'')) (\<lambda>res.
     bindr (child_of res [''sub_groups''] ''sub_groups'' ''response to subgroups query'') (\<lambda>groups.
       ret (sub_groups (GetChildren groups))))"

text \<open>Members and the pairs of hidden address and phone number among them.\<close>

definition listed_member :: "node \<Rightarrow> jid option" where
  "listed_member child = (if Tag child = ''participant'' then attr_jid child ''jid'' else None)"

definition listed_pair :: "node \<Rightarrow> (jid \<times> jid) list" where
  "listed_pair child =
     (case listed_member child of
        None \<Rightarrow> []
      | Some j \<Rightarrow>
          if Server j = HiddenUserServer then
            (case attr_jid child ''phone_number'' of
               Some pn \<Rightarrow> if \<not> IsEmpty pn then [(j, pn)] else []
             | None \<Rightarrow> [])
          else if Server j = DefaultUserServer then
            (case attr_jid child ''lid'' of
               Some lid \<Rightarrow> if \<not> IsEmpty lid then [(lid, j)] else []
             | None \<Rightarrow> [])
          else [])"

definition parseParticipantList :: "node \<Rightarrow> jid list \<times> (jid \<times> jid) list" where
  "parseParticipantList n = (List.map_filter listed_member (GetChildren n), concat (map listed_pair (GetChildren n)))"

definition GetLinkedGroupsParticipants :: "lib_env \<Rightarrow> client \<Rightarrow> jid \<Rightarrow> jid list lib" where
  "GetLinkedGroupsParticipants env h community =
     bindr (sendGroupIQ env h iqGet community (empty_node ''linked_groups_participants'')) (\<lambda>res.
     bindr (child_of res [''linked_groups_participants''] ''linked_groups_participants''
              ''response to community participants query'') (\<lambda>participants.
       let (members, lidPairs) = parseParticipantList participants in
       bindg (if length lidPairs > 0 then PutManyLIDMappings env h lidPairs else ret ()) (\<lambda>_. gives members)))"

definition SetGroupJoinApprovalMode :: "lib_env \<Rightarrow> client \<Rightarrow> jid \<Rightarrow> bool \<Rightarrow> unit lib" where
  "SetGroupJoinApprovalMode env h j mode =
     group_command env h j (Node ''membership_approval_mode'' []
       (VNodes [Node ''group_join'' [(''state'', VStr (if mode then ''on'' else ''off''))] VNil]))"

definition SetGroupMemberAddMode :: "lib_env \<Rightarrow> client \<Rightarrow> jid \<Rightarrow> string \<Rightarrow> unit lib" where
  "SetGroupMemberAddMode env h j mode =
     (if mode \<noteq> ''admin_add'' \<and> mode \<noteq> ''all_member_add''
      then fails (Plain (''invalid mode, must be 'admin_add' or 'all_member_add'' @ [CHR 0x27]))
      else group_command env h j (Node ''member_add_mode'' [] (VBytes mode)))"

definition lib_SetGroupDescription :: "lib_env \<Rightarrow> client \<Rightarrow> jid \<Rightarrow> string \<Rightarrow> unit lib" where
  "lib_SetGroupDescription env h j description =
     group_command env h j (Node ''description'' [] (VNodes [Node ''body'' [] (VBytes description)]))"

section \<open>Notifications\<close>

text \<open>\<open>events.GroupInfo\<close>, the changes of a group.\<close>

record group_topic =
  gtTopic :: string
  gtTopicID :: string
  gtTopicSetAt :: go_time
  gtTopicSetBy :: jid
  gtTopicDeleted :: bool

record link_change =
  lkType :: string
  lkUnlinkReason :: string
  lkGroup :: GroupLinkTarget

record group_change =
  geJID :: jid
  geNotify :: string
  geSender :: "jid option"
  geSenderPN :: "jid option"
  geTimestamp :: go_time
  geName :: "(string \<times> go_time \<times> jid \<times> jid) option"
  geTopic :: "group_topic option"
  geLocked :: "bool option"
  geAnnounce :: "(bool \<times> string) option"
  geEphemeral :: "(bool \<times> 32 word) option"
  geApprovalMode :: "bool option"
  geDelete :: "string option"
  geLink :: "link_change option"
  geUnlink :: "link_change option"
  geNewInviteLink :: "string option"
  gePrevParticipantVersionID :: string
  geParticipantVersionID :: string
  geJoinReason :: string
  geJoin :: "jid list"
  geLeave :: "jid list"
  gePromote :: "jid list"
  geDemote :: "jid list"
  geSuspended :: bool
  geUnsuspended :: bool
  geUnknownChanges :: "node list"

record joined_group =
  jgReason :: string
  jgType :: string
  jgCreateKey :: string
  jgSender :: "jid option"
  jgSenderPN :: "jid option"
  jgNotify :: string
  jgGroupInfo :: GroupInfo

datatype group_event = JoinedGroup joined_group | GroupChanged group_change

definition parseGroupCreate :: "client \<Rightarrow> node \<Rightarrow> node \<Rightarrow>
    (joined_group \<times> (jid \<times> jid) list \<times> (jid \<times> string) list) lib" where
  "parseGroupCreate h parentNode n =
     (case GetOptionalChildByTag n [''group''] of
        (_, False) \<Rightarrow> fails (Plain ''group create notification didn't contain group info'')
      | (groupNode, True) \<Rightarrow>
          let (reason, ag) = opt_string ''reason'' (AttrGetter n);
              (key, ag) = opt_string ''key'' ag;
              (t, ag) = opt_string ''type'' ag;
              (sender, pag) = OptionalJID ''participant'' (AttrGetter parentNode);
              (senderPN, pag) = OptionalJID ''participant_pn'' pag;
              (notify, pag) = opt_string ''notify'' pag
          in case parseGroupNode groupNode of
               (_, Some es) \<Rightarrow> fails (Prefixed ''failed to parse group info in create notification: '' (AttrErrors es))
             | (info, None) \<Rightarrow>
                 bindg (cacheGroupInfo h info) (\<lambda>(lidPairs, phones).
                   gives (\<lparr>jgReason = reason, jgType = t, jgCreateKey = key, jgSender = sender,
                     jgSenderPN = senderPN, jgNotify = notify, jgGroupInfo = info\<rparr>, lidPairs, phones)))"

text \<open>One child of a change: the event and the pairs after it, and the reader with its errors.\<close>

type_synonym change_step = "lib_error + group_change \<times> (jid \<times> jid) list \<times> AttrUtility"

definition version_change :: "node \<Rightarrow> group_change \<Rightarrow> AttrUtility \<Rightarrow> group_change \<times> AttrUtility" where
  "version_change child evt cag =
     (if Tag child \<in> {''add'', ''remove'', ''promote'', ''demote''} then
        let (prev, cag) = opt_string ''prev_v_id'' cag; (v, cag) = opt_string ''v_id'' cag
        in (evt\<lparr>gePrevParticipantVersionID := prev, geParticipantVersionID := v\<rparr>, cag)
      else (evt, cag))"

definition description_change :: "(node \<Rightarrow> string) \<Rightarrow> node \<Rightarrow> group_change \<Rightarrow> AttrUtility \<Rightarrow>
    lib_error + group_change \<times> AttrUtility" where
  "description_change xml child evt cag =
     (let isDelete = snd (GetOptionalChildByTag child [''delete'']);
          topicChild = GetChildByTag child [''body'']
      in case (isDelete, Content topicChild) of
           (False, VBytes b) \<Rightarrow>
             (let (key, cag) = req_string ''id'' cag in
              Inr (evt\<lparr>geTopic := Some \<lparr>gtTopic = b, gtTopicID = key, gtTopicSetAt = geTimestamp evt,
                     gtTopicSetBy = (case geSender evt of None \<Rightarrow> EmptyJID | Some j \<Rightarrow> j),
                     gtTopicDeleted = False\<rparr>\<rparr>, cag))
         | (True, _) \<Rightarrow>
             (let (key, cag) = req_string ''id'' cag in
              Inr (evt\<lparr>geTopic := Some \<lparr>gtTopic = [], gtTopicID = key, gtTopicSetAt = geTimestamp evt,
                     gtTopicSetBy = (case geSender evt of None \<Rightarrow> EmptyJID | Some j \<Rightarrow> j),
                     gtTopicDeleted = True\<rparr>\<rparr>, cag))
         | _ \<Rightarrow> Inl (Plain (''group change description has unexpected body: '' @ xml topicChild)))"

definition link_target :: "string \<Rightarrow> string \<Rightarrow> node \<Rightarrow> lib_error + GroupLinkTarget" where
  "link_target missing failed child =
     (case GetOptionalChildByTag child [''group''] of
        (_, False) \<Rightarrow> Inl (ElementMissing ''group'' missing)
      | (groupNode, True) \<Rightarrow>
          (case parseGroupLinkTargetNode groupNode of
             (_, Some es) \<Rightarrow> Inl (Prefixed failed (AttrErrors es))
           | (target, None) \<Rightarrow> Inr target))"

definition change_child :: "(node \<Rightarrow> string) \<Rightarrow> node \<Rightarrow> group_change \<Rightarrow> (jid \<times> jid) list \<Rightarrow> change_step" where
  "change_child xml child evt lidPairs =
     (let (evt, cag) = version_change child evt (AttrGetter child);
          (members, pairs) = parseParticipantList child;
          tag = Tag child
      in
      if tag = ''add'' then
        let (reason, cag) = opt_string ''reason'' cag in Inr (evt\<lparr>geJoinReason := reason, geJoin := members\<rparr>, pairs, cag)
      else if tag = ''remove'' then Inr (evt\<lparr>geLeave := members\<rparr>, pairs, cag)
      else if tag = ''promote'' then Inr (evt\<lparr>gePromote := members\<rparr>, pairs, cag)
      else if tag = ''demote'' then Inr (evt\<lparr>geDemote := members\<rparr>, pairs, cag)
      else if tag = ''locked'' then Inr (evt\<lparr>geLocked := Some True\<rparr>, lidPairs, cag)
      else if tag = ''unlocked'' then Inr (evt\<lparr>geLocked := Some False\<rparr>, lidPairs, cag)
      else if tag = ''delete'' then
        let (reason, cag) = req_string ''reason'' cag in Inr (evt\<lparr>geDelete := Some reason\<rparr>, lidPairs, cag)
      else if tag = ''subject'' then
        let (name, cag) = req_string ''subject'' cag; (setAt, cag) = req_time ''s_t'' cag;
            (setBy, cag) = OptionalJIDOrEmpty ''s_o'' cag; (setByPN, cag) = OptionalJIDOrEmpty ''s_o_pn'' cag
        in Inr (evt\<lparr>geName := Some (name, setAt, setBy, setByPN)\<rparr>, lidPairs, cag)
      else if tag = ''description'' then
        map_sum id (\<lambda>(evt, cag). (evt, lidPairs, cag)) (description_change xml child evt cag)
      else if tag = ''announcement'' then
        let (v, cag) = req_string ''v_id'' cag in Inr (evt\<lparr>geAnnounce := Some (True, v)\<rparr>, lidPairs, cag)
      else if tag = ''not_announcement'' then
        let (v, cag) = req_string ''v_id'' cag in Inr (evt\<lparr>geAnnounce := Some (False, v)\<rparr>, lidPairs, cag)
      else if tag = ''invite'' then
        let (code, cag) = req_string ''code'' cag
        in Inr (evt\<lparr>geNewInviteLink := Some (InviteLinkPrefix @ code)\<rparr>, lidPairs, cag)
      else if tag = ''ephemeral'' then
        let (n, cag) = req_uint ''expiration'' cag
        in Inr (evt\<lparr>geEphemeral := Some (True, word_of_nat n)\<rparr>, lidPairs, cag)
      else if tag = ''not_ephemeral'' then Inr (evt\<lparr>geEphemeral := Some (False, 0)\<rparr>, lidPairs, cag)
      else if tag = ''link'' then
        let (t, cag) = req_string ''link_type'' cag in
        map_sum id (\<lambda>g. (evt\<lparr>geLink := Some \<lparr>lkType = t, lkUnlinkReason = [], lkGroup = g\<rparr>\<rparr>, lidPairs, cag))
          (link_target ''group link'' ''failed to parse group link node in group change: '' child)
      else if tag = ''unlink'' then
        let (t, cag) = req_string ''unlink_type'' cag; (reason, cag) = req_string ''unlink_reason'' cag in
        map_sum id (\<lambda>g. (evt\<lparr>geUnlink := Some \<lparr>lkType = t, lkUnlinkReason = reason, lkGroup = g\<rparr>\<rparr>, lidPairs, cag))
          (link_target ''group unlink'' ''failed to parse group unlink node in group change: '' child)
      else if tag = ''membership_approval_mode'' then Inr (evt\<lparr>geApprovalMode := Some True\<rparr>, lidPairs, cag)
      else if tag = ''suspended'' then Inr (evt\<lparr>geSuspended := True\<rparr>, lidPairs, cag)
      else if tag = ''unsuspended'' then Inr (evt\<lparr>geUnsuspended := True\<rparr>, lidPairs, cag)
      else Inr (evt\<lparr>geUnknownChanges := geUnknownChanges evt @ [child]\<rparr>, lidPairs, cag))"

fun change_loop :: "(node \<Rightarrow> string) \<Rightarrow> node list \<Rightarrow> group_change \<Rightarrow> (jid \<times> jid) list \<Rightarrow>
    lib_error + group_change \<times> (jid \<times> jid) list" where
  "change_loop xml [] evt lidPairs = Inr (evt, lidPairs)"
| "change_loop xml (child # rest) evt lidPairs =
     (case change_child xml child evt lidPairs of
        Inl e \<Rightarrow> Inl e
      | Inr (evt', lidPairs', cag) \<Rightarrow>
          if \<not> attr_OK cag then
            Inl (Prefixed (''group change '' @ Tag child @ '' element doesn't contain required attributes: '')
                   (AttrErrors (auErrors cag)))
          else change_loop xml rest evt' lidPairs')"

definition emptyChange :: group_change where
  "emptyChange = \<lparr>geJID = EmptyJID, geNotify = [], geSender = None, geSenderPN = None,
     geTimestamp = ZeroTime, geName = None, geTopic = None, geLocked = None, geAnnounce = None,
     geEphemeral = None, geApprovalMode = None, geDelete = None, geLink = None, geUnlink = None,
     geNewInviteLink = None, gePrevParticipantVersionID = [], geParticipantVersionID = [],
     geJoinReason = [], geJoin = [], geLeave = [], gePromote = [], geDemote = [], geSuspended = False,
     geUnsuspended = False, geUnknownChanges = []\<rparr>"

definition parseGroupChange :: "(node \<Rightarrow> string) \<Rightarrow> node \<Rightarrow> lib_error + group_change \<times> (jid \<times> jid) list" where
  "parseGroupChange xml n =
     (let (j, ag) = attr_JID ''from'' (AttrGetter n);
          (notify, ag) = opt_string ''notify'' ag;
          (sender, ag) = OptionalJID ''participant'' ag;
          (senderPN, ag) = OptionalJID ''participant_pn'' ag;
          (t, ag) = req_time ''t'' ag
      in if \<not> attr_OK ag then
           Inl (Prefixed ''group change doesn't contain required attributes: '' (AttrErrors (auErrors ag)))
         else change_loop xml (GetChildren n)
           (emptyChange\<lparr>geJID := j, geNotify := notify, geSender := sender, geSenderPN := senderPN,
              geTimestamp := t\<rparr>) [])"

text \<open>The member that leaves is replaced by the last one.\<close>

definition swap_remove :: "'a \<Rightarrow> 'a list \<Rightarrow> 'a list" where
  "swap_remove x xs =
     (if x \<in> set xs then butlast (xs[length (takeWhile (\<lambda>y. y \<noteq> x) xs) := last xs]) else xs)"

definition updated_members :: "group_change \<Rightarrow> jid list \<Rightarrow> jid list" where
  "updated_members evt members =
     fold swap_remove (geLeave evt) (foldl add_new members (geJoin evt))"

definition updateGroupParticipantCache :: "client \<Rightarrow> group_change \<Rightarrow> (api_state, unit) go" where
  "updateGroupParticipantCache h evt =
     (if length (geJoin evt) = 0 \<and> length (geLeave evt) = 0 then ret ()
      else bindg (memory h) (\<lambda>c.
        case csGroups c (geJID evt) of
          None \<Rightarrow> ret ()
        | Some cached \<Rightarrow>
            change_client h (\<lambda>c. c\<lparr>csGroups := (csGroups c)
              (geJID evt \<mapsto> cached\<lparr>gmMembers := updated_members evt (gmMembers cached)\<rparr>)\<rparr>)))"

definition parse_change_event :: "lib_env \<Rightarrow> client \<Rightarrow> node \<Rightarrow>
    (group_event \<times> (jid \<times> jid) list \<times> (jid \<times> string) list) lib" where
  "parse_change_event env h n =
     (case parseGroupChange (leXML env) n of
        Inl e \<Rightarrow> fails e
      | Inr (evt, lidPairs) \<Rightarrow>
          bindg (updateGroupParticipantCache h evt) (\<lambda>_. gives (GroupChanged evt, lidPairs, [])))"

definition parseGroupNotification :: "lib_env \<Rightarrow> client \<Rightarrow> node \<Rightarrow>
    (group_event \<times> (jid \<times> jid) list \<times> (jid \<times> string) list) lib" where
  "parseGroupNotification env h n =
     (case GetChildren n of
        [c] \<Rightarrow> if Tag c = ''create''
               then bindr (parseGroupCreate h n c) (\<lambda>(evt, lidPairs, phones). gives (JoinedGroup evt, lidPairs, phones))
               else parse_change_event env h n
      | _ \<Rightarrow> parse_change_event env h n)"

section \<open>Lemmas\<close>

text \<open>Every operation is made of the steps of \<open>client_rely\<close>.\<close>

context client_rely
begin

lemma keeps_group_parts: "keeps R (cacheGroupInfo h info)" "keeps R (sendGroupIQ env h t j n)"
  "keeps R (child_of resp tags missing loc)" "keeps R (parsed_group n)"
  unfolding cacheGroupInfo_def sendGroupIQ_def child_of_def parsed_group_def
  by (auto intro!: request_intros split: prod.splits option.splits)

lemma keeps_on_error: "keeps R m \<Longrightarrow> keeps R (on_error f m)"
  unfolding on_error_def by (intro lib_intros)

lemma keeps_group_command: "keeps R (group_command env h j n)"
  unfolding group_command_def by (intro request_intros keeps_group_parts)

lemmas group_intros = request_intros keeps_group_parts keeps_on_error keeps_group_command

lemma keeps_participant_nodes: "keeps R (participant_nodes env h js)"
  by (induction js) (auto intro!: group_intros)

lemma keeps_change_nodes: "keeps R (change_nodes env h a js)"
  by (induction js) (auto intro!: group_intros)

lemma keeps_joined_loop: "keeps R (joined_loop h ns ps rs infos)"
  by (induction ns arbitrary: ps rs infos) (auto simp: Let_def intro!: group_intros)

lemma keeps_group_commands: "keeps R (lib_UnlinkGroup env h a b)" "keeps R (lib_LinkGroup env h a b)"
  "keeps R (lib_LeaveGroup env h a)" "keeps R (lib_SetGroupName env h a t)"
  "keeps R (lib_SetGroupDescription env h a t)" "keeps R (SetGroupLocked env h a x)"
  "keeps R (SetGroupAnnounce env h a x)" "keeps R (JoinGroupWithInvite env h a b t e)"
  "keeps R (SetGroupJoinApprovalMode env h a x)" "keeps R (SetGroupMemberAddMode env h a t)"
  unfolding lib_UnlinkGroup_def lib_LinkGroup_def lib_LeaveGroup_def lib_SetGroupName_def
    lib_SetGroupDescription_def SetGroupLocked_def SetGroupAnnounce_def JoinGroupWithInvite_def
    SetGroupJoinApprovalMode_def SetGroupMemberAddMode_def
  by (intro group_intros)+

lemma keeps_getGroupInfo: "keeps R (getGroupInfo env h j)" "keeps R (lib_GetGroupInfo env h j)"
  unfolding lib_GetGroupInfo_def getGroupInfo_def by (intro group_intros)+

lemma keeps_group_queries: "keeps R (lib_CreateGroup env h req)"
  "keeps R (UpdateGroupParticipants env h j js a)" "keeps R (GetGroupRequestParticipants env h j)"
  "keeps R (UpdateGroupRequestParticipants env h j js a)" "keeps R (lib_SetGroupPhoto env h j avatar)"
  "keeps R (lib_GetGroupInviteLink env h j x)" "keeps R (GetGroupInfoFromInvite env h j j' t e)"
  "keeps R (GetGroupInfoFromLink env h t)" "keeps R (lib_JoinGroupWithLink env h t)"
  "keeps R (lib_GetJoinedGroups env h)" "keeps R (GetSubGroups env h j)"
  "keeps R (GetLinkedGroupsParticipants env h j)" "keeps R (getCachedGroupData env h j)"
  "keeps R (SetGroupTopic env h j a b c)"
  unfolding lib_CreateGroup_def UpdateGroupParticipants_def GetGroupRequestParticipants_def
    UpdateGroupRequestParticipants_def lib_SetGroupPhoto_def lib_GetGroupInviteLink_def
    GetGroupInfoFromInvite_def GetGroupInfoFromLink_def lib_JoinGroupWithLink_def lib_GetJoinedGroups_def
    GetSubGroups_def GetLinkedGroupsParticipants_def getCachedGroupData_def SetGroupTopic_def Let_def
  by (auto intro!: group_intros keeps_participant_nodes keeps_change_nodes keeps_joined_loop keeps_getGroupInfo
      split: option.split prod.split bool.split)

lemma keeps_notification: "keeps R (parseGroupNotification env h n)"
  unfolding parseGroupNotification_def parse_change_event_def parseGroupCreate_def
    updateGroupParticipantCache_def Let_def
  by (auto intro!: group_intros split: list.split sum.split prod.split bool.split option.split)

end

text \<open>The cached members as a set: everyone listed as joining is in, everyone listed as leaving out.\<close>

lemma swap_remove_set:
  assumes "distinct xs"
  shows "set (swap_remove x xs) = set xs - {x} \<and> distinct (swap_remove x xs)"
proof (cases "x \<in> set xs")
  case True
  then obtain ys zs where xs: "xs = ys @ x # zs" and ys: "x \<notin> set ys" by (auto dest: split_list_first)
  have "takeWhile (\<lambda>y. y \<noteq> x) xs = ys" unfolding xs using ys by (subst takeWhile_append2) auto
  then have eq: "swap_remove x xs = butlast ((ys @ x # zs)[length ys := last (ys @ x # zs)])"
    using True by (simp add: swap_remove_def xs)
  show ?thesis
  proof (cases zs rule: rev_cases)
    case Nil
    with eq assms xs show ?thesis by auto
  next
    case (snoc ws z)
    with eq have "swap_remove x xs = ys @ z # ws" by (simp add: butlast_append)
    with assms xs snoc show ?thesis by auto
  qed
next
  case False
  with assms show ?thesis by (simp add: swap_remove_def)
qed

lemma fold_swap_remove:
  "distinct xs \<Longrightarrow> set (fold swap_remove ys xs) = set xs - set ys \<and> distinct (fold swap_remove ys xs)"
proof (induction ys arbitrary: xs)
  case (Cons y ys)
  with swap_remove_set [OF Cons.prems, of y] show ?case by auto
qed simp

lemma foldl_add_new:
  "set (foldl add_new xs ys) = set xs \<union> set ys" "distinct xs \<Longrightarrow> distinct (foldl add_new xs ys)"
  by (induction ys arbitrary: xs) auto

lemma updated_members_set:
  assumes "distinct members"
  shows "set (updated_members evt members) = (set members \<union> set (geJoin evt)) - set (geLeave evt)
    \<and> distinct (updated_members evt members)"
  using fold_swap_remove [OF foldl_add_new(2) [OF assms]] by (simp add: updated_members_def foldl_add_new)

end
