(* ===== verification/LibStanzas.thy ===== *)
theory LibStanzas
  imports LibGroups
begin

text \<open>
  Received elements: who sent a message to whom (\<open>parseMessageSource\<close>, \<open>parseMessageInfo\<close> of
  \<open>whatsmeow-lib/message.go\<close>), receipts and acknowledgements (\<open>receipt.go\<close>), presence
  (\<open>presence.go\<close>), calls (\<open>call.go\<close>), and the padding of messages. The handlers are functions from
  the element to the events they dispatch; what they log is left out. The own addresses are arguments.
\<close>

section \<open>The source of a message\<close>

record message_source =
  srcChat :: jid
  srcSender :: jid
  srcIsFromMe :: bool
  srcIsGroup :: bool
  srcAddressingMode :: string
  srcSenderAlt :: jid
  srcRecipientAlt :: jid
  srcBroadcastListOwner :: jid
  srcBroadcastRecipients :: "(jid \<times> jid) list"

definition zeroSource :: message_source where
  "zeroSource = \<lparr>srcChat = EmptyJID, srcSender = EmptyJID, srcIsFromMe = False, srcIsGroup = False,
     srcAddressingMode = [], srcSenderAlt = EmptyJID, srcRecipientAlt = EmptyJID,
     srcBroadcastListOwner = EmptyJID, srcBroadcastRecipients = []\<rparr>"

text \<open>A recipient of a broadcast: its hidden address and its phone number.\<close>

definition broadcast_recipient :: "node \<Rightarrow> jid \<times> jid" where
  "broadcast_recipient child =
     (let (mainJID, cag) = attr_JID ''jid'' (AttrGetter child) in
      if Server mainJID = HiddenUserServer
      then (mainJID, fst (OptionalJIDOrEmpty ''peer_recipient_pn'' cag))
      else (fst (OptionalJIDOrEmpty ''peer_recipient_lid'' cag), mainJID))"

definition group_source :: "jid \<Rightarrow> jid \<Rightarrow> node \<Rightarrow> bool \<Rightarrow> jid \<Rightarrow> message_source \<Rightarrow> AttrUtility \<Rightarrow>
    message_source \<times> AttrUtility" where
  "group_source clientID clientLID n requireParticipant fromJID source ag =
     (let (sender, ag) = (if requireParticipant then attr_JID ''participant'' ag
                          else OptionalJIDOrEmpty ''participant'' ag);
          (senderAlt, ag) = (if srcAddressingMode source = ''lid'' then OptionalJIDOrEmpty ''participant_pn'' ag
                             else OptionalJIDOrEmpty ''participant_lid'' ag);
          fromMe = (User sender = User clientID \<or> User sender = User clientLID);
          source = source\<lparr>srcIsGroup := True, srcChat := fromJID, srcSender := sender,
                     srcSenderAlt := senderAlt, srcIsFromMe := fromMe\<rparr>
      in if Server fromJID = BroadcastServer then
           let (owner, ag) = OptionalJIDOrEmpty ''recipient'' ag;
               (participants, ok) = GetOptionalChildByTag n [''participants'']
           in (source\<lparr>srcBroadcastListOwner := owner,
                 srcBroadcastRecipients :=
                   (if ok \<and> fromMe then map broadcast_recipient (filter (\<lambda>c. Tag c = ''to'') (GetChildren participants))
                    else [])\<rparr>, ag)
         else (source, ag))"

text \<open>Addresses of hosted companions count as those of the servers they stand for.\<close>

definition unhosted :: "jid \<Rightarrow> jid" where
  "unhosted j =
     (if Server j = HostedServer then j\<lparr>Server := DefaultUserServer\<rparr>
      else if Server j = HostedLIDServer then j\<lparr>Server := HiddenUserServer\<rparr>
      else j)"

definition own_source :: "jid \<Rightarrow> message_source \<Rightarrow> AttrUtility \<Rightarrow> message_source \<times> AttrUtility" where
  "own_source fromJID source ag =
     (let fromJID = unhosted fromJID;
          (recipient, ag) = OptionalJID ''recipient'' ag;
          chat = (case recipient of Some j \<Rightarrow> j | None \<Rightarrow> ToNonAD fromJID);
          (alt, ag) = (if Server chat = HiddenUserServer \<or> Server chat = HostedLIDServer
                       then OptionalJIDOrEmpty ''peer_recipient_pn'' ag
                       else OptionalJIDOrEmpty ''peer_recipient_lid'' ag)
      in (source\<lparr>srcIsFromMe := True, srcSender := fromJID, srcChat := chat, srcRecipientAlt := alt\<rparr>, ag))"

text \<open>For a bot the reader is replaced by the one of the \<open>meta\<close> element, and with it its errors.\<close>

definition bot_source :: "node \<Rightarrow> jid \<Rightarrow> message_source \<Rightarrow> message_source \<times> AttrUtility" where
  "bot_source n fromJID source =
     (let (target, ag) = OptionalJID ''target_chat_jid'' (AttrGetter (GetChildByTag n [''meta''])) in
      (source\<lparr>srcSender := fromJID,
         srcChat := (case target of Some j \<Rightarrow> ToNonAD j | None \<Rightarrow> fromJID)\<rparr>, ag))"

definition other_source :: "jid \<Rightarrow> message_source \<Rightarrow> AttrUtility \<Rightarrow> message_source \<times> AttrUtility" where
  "other_source fromJID source ag =
     (let fromJID = unhosted fromJID;
          chat = ToNonAD fromJID;
          (alt, ag) = (if Server fromJID = HiddenUserServer \<or> Server chat = HostedLIDServer
                       then OptionalJIDOrEmpty ''sender_pn'' ag
                       else OptionalJIDOrEmpty ''sender_lid'' ag)
      in (source\<lparr>srcChat := chat, srcSender := fromJID, srcSenderAlt := alt\<rparr>, ag))"

definition parseMessageSource :: "jid \<Rightarrow> jid \<Rightarrow> node \<Rightarrow> bool \<Rightarrow> lib_error + message_source" where
  "parseMessageSource clientID clientLID n requireParticipant =
     (if IsEmpty clientID then Inl ErrNotLoggedIn
      else
        let (fromJID, ag) = attr_JID ''from'' (AttrGetter n);
            (mode, ag) = opt_string ''addressing_mode'' ag;
            source = zeroSource\<lparr>srcAddressingMode := mode\<rparr>;
            (source, ag) =
              (if Server fromJID = GroupServer \<or> Server fromJID = BroadcastServer then
                 group_source clientID clientLID n requireParticipant fromJID source ag
               else if Server fromJID = NewsletterServer then
                 (source\<lparr>srcChat := fromJID, srcSender := fromJID\<rparr>, ag)
               else if User fromJID = User clientID \<or> User fromJID = User clientLID then
                 own_source fromJID source ag
               else if IsBot fromJID then bot_source n fromJID source
               else other_source fromJID source ag);
            alt = srcSenderAlt source;
            source = (if \<not> IsEmpty alt \<and> Device alt = 0
                      then source\<lparr>srcSenderAlt := alt\<lparr>Device := Device (srcSender source)\<rparr>\<rparr> else source)
        in case attr_Error ag of Some es \<Rightarrow> Inl (AttrErrors es) | None \<Rightarrow> Inr source)"

section \<open>The information of a message\<close>

record MsgBotInfo =
  biEditType :: string
  biEditTargetID :: string
  biEditSenderTimestampMS :: go_time

record MsgMetaInfo =
  meTargetID :: string
  meTargetSender :: jid
  meTargetChat :: jid
  meDeprecatedLIDSession :: "bool option"
  meThreadMessageID :: string
  meThreadMessageSenderJID :: jid

definition zeroBotInfo :: MsgBotInfo where
  "zeroBotInfo = \<lparr>biEditType = [], biEditTargetID = [], biEditSenderTimestampMS = ZeroTime\<rparr>"

definition zeroMetaInfo :: MsgMetaInfo where
  "zeroMetaInfo = \<lparr>meTargetID = [], meTargetSender = EmptyJID, meTargetChat = EmptyJID,
     meDeprecatedLIDSession = None, meThreadMessageID = [], meThreadMessageSenderJID = EmptyJID\<rparr>"

record received_info =
  riSource :: message_source
  riID :: string
  riServerID :: int
  riType :: string
  riPushName :: string
  riTimestamp :: go_time
  riCategory :: string
  riMulticast :: bool
  riMediaType :: string
  riEdit :: string
  riBotInfo :: MsgBotInfo
  riMetaInfo :: MsgMetaInfo
  riVerifiedName :: "string option"

definition parseMsgBotInfo :: "node \<Rightarrow> MsgBotInfo" where
  "parseMsgBotInfo n =
     (let (edit, ag) = req_string ''edit'' (AttrGetter (GetChildByTag n [''bot''])) in
      if edit = ''inner'' \<or> edit = ''last'' then
        let (target, ag) = req_string ''edit_target_id'' ag;
            (t, _) = without_ok (GetUnixMilli ''sender_timestamp_ms'' True) ag
        in \<lparr>biEditType = edit, biEditTargetID = target, biEditSenderTimestampMS = t\<rparr>
      else zeroBotInfo\<lparr>biEditType := edit\<rparr>)"

definition parseMsgMetaInfo :: "node \<Rightarrow> MsgMetaInfo" where
  "parseMsgMetaInfo n =
     (let (target, ag) = opt_string ''target_id'' (AttrGetter (GetChildByTag n [''meta'']));
          (sender, ag) = OptionalJIDOrEmpty ''target_sender_jid'' ag;
          (chat, ag) = OptionalJIDOrEmpty ''target_chat_jid'' ag;
          ((deprecated, ok), ag) = GetBool ''deprecated_lid_session'' False ag;
          (thread, ag) = opt_string ''thread_msg_id'' ag;
          (threadSender, _) = OptionalJIDOrEmpty ''thread_msg_sender_jid'' ag
      in \<lparr>meTargetID = target, meTargetSender = sender, meTargetChat = chat,
          meDeprecatedLIDSession = (if ok then Some deprecated else None),
          meThreadMessageID = thread, meThreadMessageSenderJID = threadSender\<rparr>)"

text \<open>The name of a verified business is inside two protocol buffers; \<open>verified\<close> reads it.\<close>

definition parseVerifiedNameContent :: "(string \<Rightarrow> string result) \<Rightarrow> node \<Rightarrow> (string option) result" where
  "parseVerifiedNameContent verified n =
     (case Content n of
        VBytes rawCert \<Rightarrow> (case verified rawCert of Inl e \<Rightarrow> Err e | Inr name \<Rightarrow> Ok (Some name))
      | _ \<Rightarrow> Ok None)"

definition parse_info_child :: "(string \<Rightarrow> string result) \<Rightarrow> received_info \<Rightarrow> node \<Rightarrow> received_info" where
  "parse_info_child verified info child =
     (if Tag child = ''multicast'' then info\<lparr>riMulticast := True\<rparr>
      else if Tag child = ''verified_name'' then
        info\<lparr>riVerifiedName := (case parseVerifiedNameContent verified child of Inl _ \<Rightarrow> None | Inr v \<Rightarrow> v)\<rparr>
      else if Tag child = ''bot'' then info\<lparr>riBotInfo := parseMsgBotInfo child\<rparr>
      else if Tag child = ''meta'' then info\<lparr>riMetaInfo := parseMsgMetaInfo child\<rparr>
      else if Tag child = ''franking'' \<or> Tag child = ''trace'' then info
      else case GetString ''mediatype'' False (AttrGetter child) of
          ((mediaType, True), _) \<Rightarrow> info\<lparr>riMediaType := mediaType\<rparr>
        | _ \<Rightarrow> info)"

definition parseMessageInfo :: "(string \<Rightarrow> string result) \<Rightarrow> jid \<Rightarrow> jid \<Rightarrow> node \<Rightarrow> lib_error + received_info" where
  "parseMessageInfo verified clientID clientLID n =
     (case parseMessageSource clientID clientLID n True of
        Inl e \<Rightarrow> Inl e
      | Inr source \<Rightarrow>
          let (key, ag) = req_string ''id'' (AttrGetter n);
              (serverID, ag) = opt_int ''server_id'' ag;
              (t, ag) = req_time ''t'' ag;
              (notify, ag) = opt_string ''notify'' ag;
              (category, ag) = opt_string ''category'' ag;
              (kind, ag) = opt_string ''type'' ag;
              (edit, ag) = opt_string ''edit'' ag;
              info = \<lparr>riSource = source, riID = key, riServerID = serverID, riType = kind, riPushName = notify,
                riTimestamp = t, riCategory = category, riMulticast = False, riMediaType = [], riEdit = edit,
                riBotInfo = zeroBotInfo, riMetaInfo = zeroMetaInfo, riVerifiedName = None\<rparr>
          in case attr_Error ag of
               Some es \<Rightarrow> Inl (AttrErrors es)
             | None \<Rightarrow> Inr (foldl (parse_info_child verified) info (GetChildren n)))"

section \<open>Receipts\<close>

record receipt =
  rcpSource :: message_source
  rcpMessageIDs :: "string list"
  rcpTimestamp :: go_time
  rcpType :: string
  rcpMessageSender :: jid

text \<open>The receipts of a group, one for each user of the element whose attributes can be read.\<close>

definition grouped_receipt :: "receipt \<Rightarrow> string \<Rightarrow> node \<Rightarrow> receipt list" where
  "grouped_receipt partial key child =
     (if Tag child \<noteq> ''user'' then []
      else let (t, ag) = req_time ''t'' (AttrGetter child);
               (sender, ag) = attr_JID ''jid'' ag
           in if attr_OK ag
              then [partial\<lparr>rcpMessageIDs := [key], rcpTimestamp := t,
                      rcpSource := (rcpSource partial)\<lparr>srcSender := sender\<rparr>\<rparr>]
              else [])"

definition handleGroupedReceipt :: "receipt \<Rightarrow> node \<Rightarrow> receipt list" where
  "handleGroupedReceipt partial participants =
     concat (map (grouped_receipt partial (fst (req_string ''key'' (AttrGetter participants))))
       (GetChildren participants))"

definition listed_ids :: "string \<Rightarrow> node list \<Rightarrow> string list" where
  "listed_ids mainMessageID children =
     (case children of
        [c] \<Rightarrow>
          if Tag c = ''list''
          then mainMessageID # List.map_filter (\<lambda>i. if Tag i = ''item'' then attr_string i ''id'' else None) (GetChildren c)
          else [mainMessageID]
      | _ \<Rightarrow> [mainMessageID])"

text \<open>The events that a receipt dispatches: those of \<open>handleGroupedReceipt\<close>, or the receipt itself.\<close>

definition parseReceipt :: "jid \<Rightarrow> jid \<Rightarrow> node \<Rightarrow> lib_error + receipt list" where
  "parseReceipt clientID clientLID n =
     (case parseMessageSource clientID clientLID n False of
        Inl e \<Rightarrow> Inl e
      | Inr source \<Rightarrow>
          let (t, ag) = req_time ''t'' (AttrGetter n);
              (kind, ag) = opt_string ''type'' ag;
              (sender, ag) = OptionalJIDOrEmpty ''recipient'' ag;
              r = \<lparr>rcpSource = source, rcpMessageIDs = [], rcpTimestamp = t, rcpType = kind, rcpMessageSender = sender\<rparr>
          in if srcIsGroup source \<and> IsEmpty (srcSender source) then
               (case GetChildrenByTag n ''participants'' of
                  [] \<Rightarrow> Inl (ElementMissing ''participants'' ''grouped receipt'')
                | pcps \<Rightarrow> Inr (concat (map (handleGroupedReceipt r) pcps)))
             else
               let (mainMessageID, ag) = req_string ''id'' ag in
               if \<not> attr_OK ag then Inl (Prefixed ''failed to parse read receipt attrs: '' (AttrErrors (auErrors ag)))
               else Inr [r\<lparr>rcpMessageIDs := listed_ids mainMessageID (GetChildren n)\<rparr>])"

text \<open>The acknowledgement of an element; \<open>bots\<close> is \<open>types.BotJIDMap\<close>. A missing attribute is nil.\<close>

definition attr_value :: "node \<Rightarrow> string \<Rightarrow> bvalue" where
  "attr_value n key = (case map_of (Attrs n) key of Some v \<Rightarrow> v | None \<Rightarrow> VNil)"

definition copied :: "node \<Rightarrow> string \<Rightarrow> (string \<times> bvalue) list" where
  "copied n key = (case map_of (Attrs n) key of Some v \<Rightarrow> [(key, v)] | None \<Rightarrow> [])"

definition ack_recipient :: "(jid \<Rightarrow> jid option) \<Rightarrow> node \<Rightarrow> (string \<times> bvalue) list" where
  "ack_recipient bots n =
     (case map_of (Attrs n) ''recipient'' of
        None \<Rightarrow> []
      | Some (VJid j) \<Rightarrow>
          (case (if Server j = BotServer \<and> Tag n = ''message'' then bots j else None) of
             Some alt \<Rightarrow> [(''recipient'', VJid alt)]
           | None \<Rightarrow> [(''recipient'', VJid j)])
      | Some v \<Rightarrow> [(''recipient'', v)])"

definition ack_node :: "(jid \<Rightarrow> jid option) \<Rightarrow> node \<Rightarrow> int \<Rightarrow> node" where
  "ack_node bots n errorCode =
     Node ''ack''
       ([(''class'', VStr (Tag n)), (''id'', attr_value n ''id''), (''to'', attr_value n ''from'')]
        @ copied n ''participant'' @ ack_recipient bots n
        @ (if Tag n \<noteq> ''message'' then copied n ''type'' else [])
        @ (if errorCode \<noteq> 0 then [(''error'', VInt TInt errorCode)] else []))
       VNil"

definition sendAck :: "lib_env \<Rightarrow> (jid \<Rightarrow> jid option) \<Rightarrow> client \<Rightarrow> node \<Rightarrow> int \<Rightarrow> (api_state, unit) go" where
  "sendAck env bots h n errorCode = bindg (sendNode env h (ack_node bots n errorCode)) (\<lambda>_. ret ())"

definition buildBaseReceipt :: "string \<Rightarrow> node \<Rightarrow> (string \<times> bvalue) list" where
  "buildBaseReceipt key n =
     [(''id'', VStr key), (''to'', attr_value n ''from'')] @ copied n ''recipient'' @ copied n ''participant''"

text \<open>\<open>active\<close> is \<open>sendActiveReceipts\<close>.\<close>

definition sendMessageReceipt :: "lib_env \<Rightarrow> nat \<Rightarrow> client \<Rightarrow> received_info \<Rightarrow> node \<Rightarrow> (api_state, unit) go" where
  "sendMessageReceipt env active h info n =
     (let t = (if srcIsFromMe (riSource info)
               then [(''type'', VStr (if riType info = ''peer_msg'' then ''peer_msg'' else ''sender''))]
               else if active = 0 then [(''type'', VStr ''inactive'')] else [])
      in bindg (sendNode env h (Node ''receipt'' (buildBaseReceipt (riID info) n @ t) VNil)) (\<lambda>_. ret ()))"

section \<open>Presence and calls\<close>

record presence_event =
  peFrom :: jid
  peUnavailable :: bool
  peLastSeen :: go_time

definition handlePresence :: "node \<Rightarrow> presence_event option" where
  "handlePresence n =
     (let (fromJID, ag) = attr_JID ''from'' (AttrGetter n);
          (kind, ag) = opt_string ''type'' ag;
          (seen, ag) = opt_string ''last'' ag;
          (lastSeen, ag) = (if seen \<noteq> [] \<and> seen \<noteq> ''deny'' then req_time ''last'' ag else (ZeroTime, ag))
      in if attr_OK ag
         then Some \<lparr>peFrom = fromJID, peUnavailable = (kind = ''unavailable''), peLastSeen = lastSeen\<rparr>
         else None)"

text \<open>The source, the state and the medium of a typing notification.\<close>

definition handleChatState :: "jid \<Rightarrow> jid \<Rightarrow> node \<Rightarrow> (message_source \<times> string \<times> string) option" where
  "handleChatState clientID clientLID n =
     (case parseMessageSource clientID clientLID n True of
        Inl _ \<Rightarrow> None
      | Inr source \<Rightarrow>
          (case GetChildren n of
             [child] \<Rightarrow> Some (source, Tag child, fst (opt_string ''media'' (AttrGetter child)))
           | _ \<Rightarrow> None))"

record call_meta =
  cmFrom :: jid
  cmTimestamp :: go_time
  cmCallCreator :: jid
  cmCallCreatorAlt :: jid
  cmCallID :: string
  cmGroupJID :: jid

datatype call_event =
    CallOffer call_meta string string node
  | CallOfferNotice call_meta string string node
  | CallRelayLatency call_meta node
  | CallAccept call_meta string string node
  | CallPreAccept call_meta string string node
  | CallTransport call_meta string string node
  | CallTerminate call_meta string node
  | CallReject call_meta node
  | UnknownCallEvent node

definition read_call_meta :: "node \<Rightarrow> node \<Rightarrow> call_meta \<times> AttrUtility \<times> AttrUtility" where
  "read_call_meta n child =
     (let (fromJID, ag) = attr_JID ''from'' (AttrGetter n);
          (t, ag) = req_time ''t'' ag;
          (creator, cag) = attr_JID ''call-creator'' (AttrGetter child);
          (callID, cag) = req_string ''call-id'' cag;
          (groupJID, cag) = OptionalJIDOrEmpty ''group-jid'' cag;
          (alt, cag) = (if Server creator = HiddenUserServer then OptionalJIDOrEmpty ''caller_pn'' cag
                        else OptionalJIDOrEmpty ''caller_lid'' cag)
      in (\<lparr>cmFrom = fromJID, cmTimestamp = t, cmCallCreator = creator, cmCallCreatorAlt = alt,
           cmCallID = callID, cmGroupJID = groupJID\<rparr>, ag, cag))"

text \<open>The attributes of a call are taken as they come: a missing one is the zero value.\<close>

definition handleCallEvent :: "node \<Rightarrow> call_event" where
  "handleCallEvent n =
     (case GetChildren n of
        [child] \<Rightarrow>
          (let (meta, ag, cag) = read_call_meta n child;
               platform = fst (req_string ''platform'' ag);
               version = fst (req_string ''version'' ag);
               tag = Tag child
           in if tag = ''offer'' then CallOffer meta platform version child
              else if tag = ''offer_notice'' then
                CallOfferNotice meta (fst (req_string ''media'' cag)) (fst (req_string ''type'' cag)) child
              else if tag = ''relaylatency'' then CallRelayLatency meta child
              else if tag = ''accept'' then CallAccept meta platform version child
              else if tag = ''preaccept'' then CallPreAccept meta platform version child
              else if tag = ''transport'' then CallTransport meta platform version child
              else if tag = ''terminate'' then CallTerminate meta (fst (req_string ''reason'' cag)) child
              else if tag = ''reject'' then CallReject meta child
              else UnknownCallEvent n)
      | _ \<Rightarrow> UnknownCallEvent n)"

section \<open>The padding of messages\<close>

definition isValidPadding :: "string \<Rightarrow> bool" where
  "isValidPadding plaintext =
     (let lastByte = last plaintext in has_suffix plaintext (replicate (byte_val lastByte) lastByte))"

definition unpadMessage :: "string \<Rightarrow> int \<Rightarrow> string result" where
  "unpadMessage plaintext version =
     (if version = 3 then Ok plaintext
      else if length plaintext = 0 then Err ''plaintext is empty''
      else if \<not> isValidPadding plaintext then Err ''plaintext doesn't have expected padding''
      else Ok (take (length plaintext - byte_val (last plaintext)) plaintext))"

text \<open>\<open>r\<close> is the random byte.\<close>

definition padMessage :: "nat \<Rightarrow> string \<Rightarrow> string" where
  "padMessage r plaintext =
     (let pad = (if r mod 16 = 0 then 15 else r mod 16) in plaintext @ replicate pad (byte pad))"

section \<open>Lemmas\<close>

text \<open>What was padded is unpadded again, for every random byte.\<close>

lemma unpad_pad:
  assumes "version \<noteq> 3"
  shows "unpadMessage (padMessage r plaintext) version = Ok plaintext"
proof -
  define pad where "pad = (if r mod 16 = 0 then 15 else r mod 16)"
  have "0 < pad" by (simp add: pad_def)
  have "pad < 256" unfolding pad_def using mod_less_divisor [of 16 r] by (simp only: split: if_splits) linarith
  have padded: "padMessage r plaintext = plaintext @ replicate pad (byte pad)"
    by (simp add: padMessage_def pad_def Let_def)
  have last: "last (plaintext @ replicate pad (byte pad)) = byte pad" using \<open>0 < pad\<close> by simp
  have "has_suffix (plaintext @ replicate pad (byte pad)) (replicate pad (byte pad))" by simp
  then have "isValidPadding (plaintext @ replicate pad (byte pad))"
    using \<open>pad < 256\<close> by (simp add: isValidPadding_def last byte_val_byte)
  with assms \<open>0 < pad\<close> \<open>pad < 256\<close> show ?thesis
    by (simp add: unpadMessage_def padded last byte_val_byte)
qed

context client_rely
begin

lemma keeps_receipts: "keeps R (sendAck env bots h n e)" "keeps R (sendMessageReceipt env active h info n)"
  unfolding sendAck_def sendMessageReceipt_def Let_def by (intro group_intros)+

end

end
