(* ===== verification/LibUser.thy ===== *)
theory LibUser
  imports LibStanzas
begin

text \<open>
  Users, privacy, presence and receipts that are sent: \<open>whatsmeow-lib/user.go\<close>,
  \<open>privacysettings.go\<close>, \<open>presence.go\<close>, \<open>MarkRead\<close> of \<open>receipt.go\<close>, \<open>RejectCall\<close> of \<open>call.go\<close> and the queries
  of channels that are plain elements (\<open>newsletter.go\<close>). The clients have no \<open>MessengerConfig\<close>, which
  only Messenger accounts have.
\<close>

section \<open>Privacy settings\<close>

text \<open>\<open>types.PrivacySettings\<close> by the name of the setting; other names change nothing.\<close>

definition set_privacy :: "string \<Rightarrow> string \<Rightarrow> privacy_settings \<Rightarrow> privacy_settings" where
  "set_privacy name v s =
     (if name = ''groupadd'' then s\<lparr>psGroupAdd := v\<rparr>
      else if name = ''last'' then s\<lparr>psLastSeen := v\<rparr>
      else if name = ''status'' then s\<lparr>psStatus := v\<rparr>
      else if name = ''profile'' then s\<lparr>psProfile := v\<rparr>
      else if name = ''readreceipts'' then s\<lparr>psReadReceipts := v\<rparr>
      else if name = ''online'' then s\<lparr>psOnline := v\<rparr>
      else if name = ''calladd'' then s\<lparr>psCallAdd := v\<rparr>
      else s)"

definition privacy_names :: "string list" where
  "privacy_names = [''groupadd'', ''last'', ''status'', ''profile'', ''readreceipts'', ''online'', ''calladd'']"

text \<open>The settings after the element, and the names of the changed ones (the flags of the event).\<close>

definition parse_category :: "privacy_settings \<times> string list \<Rightarrow> node \<Rightarrow> privacy_settings \<times> string list" where
  "parse_category acc child =
     (let (settings, changed) = acc in
      if Tag child \<noteq> ''category'' then (settings, changed)
      else let (name, ag) = req_string ''name'' (AttrGetter child);
               (v, _) = req_string ''value'' ag
           in (set_privacy name v settings, if name \<in> set privacy_names then add_new changed name else changed))"

definition parsePrivacySettings :: "node \<Rightarrow> privacy_settings \<Rightarrow> privacy_settings \<times> string list" where
  "parsePrivacySettings privacyNode settings = foldl parse_category (settings, []) (GetChildren privacyNode)"

definition store_privacy :: "client \<Rightarrow> privacy_settings \<Rightarrow> (api_state, unit) go" where
  "store_privacy h settings = change_client h (\<lambda>c. c\<lparr>csPrivacy := Some settings\<rparr>)"

definition TryFetchPrivacySettings :: "lib_env \<Rightarrow> client \<Rightarrow> bool \<Rightarrow> privacy_settings lib" where
  "TryFetchPrivacySettings env h ignoreCache =
     bindg (memory h) (\<lambda>c.
       case (csPrivacy c, ignoreCache) of
         (Some val, False) \<Rightarrow> gives val
       | _ \<Rightarrow>
           bindr (sendIQ env h (query ''privacy'' iqGet ServerJID (VNodes [empty_node ''privacy'']))) (\<lambda>resp.
           bindr (child_of resp [''privacy''] ''privacy'' ''response to privacy settings query'') (\<lambda>privacyNode.
             let settings = fst (parsePrivacySettings privacyNode zeroPrivacy) in
             bindg (store_privacy h settings) (\<lambda>_. gives settings))))"

text \<open>An error while fetching is logged, and the settings are the empty ones.\<close>

definition lib_GetPrivacySettings :: "lib_env \<Rightarrow> client \<Rightarrow> (api_state, privacy_settings) go" where
  "lib_GetPrivacySettings env h =
     bindg (TryFetchPrivacySettings env h False) (\<lambda>r. ret (case r of Inl _ \<Rightarrow> zeroPrivacy | Inr s \<Rightarrow> s))"

definition lib_SetPrivacySetting :: "lib_env \<Rightarrow> client \<Rightarrow> string \<Rightarrow> string \<Rightarrow> privacy_settings lib" where
  "lib_SetPrivacySetting env h name v =
     bindr (TryFetchPrivacySettings env h False) (\<lambda>settings.
     bindr (sendIQ env h (query ''privacy'' iqSet ServerJID
              (VNodes [Node ''privacy'' [] (VNodes [Node ''category''
                 [(''name'', VStr name), (''value'', VStr v)] VNil])]))) (\<lambda>_.
       let settings = set_privacy name v settings in
       bindg (store_privacy h settings) (\<lambda>_. gives settings)))"

definition handlePrivacySettingsNotification :: "lib_env \<Rightarrow> client \<Rightarrow> node \<Rightarrow> (api_state, string list option) go" where
  "handlePrivacySettingsNotification env h privacyNode =
     bindg (TryFetchPrivacySettings env h False) (\<lambda>r.
       case r of
         Inl _ \<Rightarrow> ret None
       | Inr settings \<Rightarrow>
           let (settings', changed) = parsePrivacySettings privacyNode settings in
           bindg (store_privacy h settings') (\<lambda>_. ret (Some changed)))"

definition SetDefaultDisappearingTimer :: "lib_env \<Rightarrow> client \<Rightarrow> int \<Rightarrow> unit lib" where
  "SetDefaultDisappearingTimer env h seconds =
     bindr (sendIQ env h (query ''disappearing_mode'' iqSet ServerJID
              (VNodes [Node ''disappearing_mode'' [(''duration'', VStr (show_int seconds))] VNil]))) (\<lambda>_. gives ())"

section \<open>Presence, receipts, calls\<close>

definition lib_SendChatPresence :: "lib_env \<Rightarrow> client \<Rightarrow> jid \<Rightarrow> string \<Rightarrow> string \<Rightarrow> unit lib" where
  "lib_SendChatPresence env h j state media =
     bindg (getOwnID env h) (\<lambda>ownID.
       if IsEmpty ownID then fails ErrNotLoggedIn
       else sendNode env h
         (Node ''chatstate'' [(''from'', VJid ownID), (''to'', VJid j)]
            (VNodes [Node state
               (if state = ''composing'' \<and> length media > 0 then [(''media'', VStr media)] else []) VNil])))"

definition SubscribePresence :: "lib_env \<Rightarrow> client \<Rightarrow> bool \<Rightarrow> jid \<Rightarrow> unit lib" where
  "SubscribePresence env h errorWithoutToken j =
     (if \<not> leHasTokens env h then
        (if errorWithoutToken then fails (Plain ''privacy token store not initialized'') else gives ())
      else
        bindg (asks (\<lambda>t. lePrivacyToken env t h j)) (\<lambda>r.
          case r of
            Inl e \<Rightarrow> fails (Plain (''failed to get privacy token: '' @ e))
          | Inr token \<Rightarrow>
              if token = None \<and> errorWithoutToken
              then fails (Plain (''no privacy token stored for '' @ JID_String (ToNonAD j)))
              else sendNode env h (Node ''presence'' [(''type'', VStr ''subscribe''), (''to'', VJid j)]
                (case token of None \<Rightarrow> VNil | Some b \<Rightarrow> VNodes [Node ''tctoken'' [] (VBytes b)]))))"

text \<open>\<open>MarkRead\<close> with the type of receipt; \<open>timestamp\<close> in seconds.\<close>

definition receipt_node :: "string list \<Rightarrow> int \<Rightarrow> jid \<Rightarrow> jid \<Rightarrow> string \<Rightarrow> node" where
  "receipt_node ids timestamp chat sender receiptType =
     Node ''receipt''
       ([(''id'', VStr (hd ids)), (''type'', VStr receiptType), (''to'', VJid chat), (''t'', VInt TInt64 timestamp)]
        @ (if \<not> IsEmpty sender \<and> Server chat \<noteq> DefaultUserServer \<and> Server chat \<noteq> HiddenUserServer
              \<and> Server chat \<noteq> MessengerServer
           then [(''participant'', VJid (ToNonAD sender))] else []))
       (if length ids > 1
        then VNodes [Node ''list'' [] (VNodes (map (\<lambda>i. Node ''item'' [(''id'', VStr i)] VNil) (tl ids)))]
        else VNil)"

definition lib_MarkRead :: "lib_env \<Rightarrow> client \<Rightarrow> string list \<Rightarrow> int \<Rightarrow> jid \<Rightarrow> jid \<Rightarrow> string \<Rightarrow> unit lib" where
  "lib_MarkRead env h ids timestamp chat sender receiptType =
     (if length ids = 0 then fails (Plain ''no message IDs specified'')
      else
        bindg (if Server chat = NewsletterServer then ret True
               else bindg (lib_GetPrivacySettings env h) (\<lambda>s. ret (psReadReceipts s = ''none''))) (\<lambda>self.
          sendNode env h (receipt_node ids timestamp chat sender
            (if self \<and> receiptType = ''read'' then ''read-self'' else receiptType))))"

definition lib_RejectCall :: "lib_env \<Rightarrow> client \<Rightarrow> jid \<Rightarrow> string \<Rightarrow> unit lib" where
  "lib_RejectCall env h callFrom callID =
     bindg (getOwnID env h) (\<lambda>ownID.
       if IsEmpty ownID then fails ErrNotLoggedIn
       else
         bindg (asks (\<lambda>t. leMessageID env t h)) (\<lambda>key.
           sendNode env h
             (Node ''call'' [(''id'', VStr key), (''from'', VJid (ToNonAD ownID)), (''to'', VJid (ToNonAD callFrom))]
                (VNodes [Node ''reject''
                   [(''call-id'', VStr callID), (''call-creator'', VJid (ToNonAD callFrom)), (''count'', VStr ''0'')]
                   VNil]))))"

section \<open>Users\<close>

definition SetStatusMessage :: "lib_env \<Rightarrow> client \<Rightarrow> string \<Rightarrow> unit lib" where
  "SetStatusMessage env h msg =
     bindr (sendIQ env h (query ''status'' iqSet ServerJID (VNodes [Node ''status'' [] (VStr msg)]))) (\<lambda>_. gives ())"

text \<open>The users of a synchronisation: \<open>personas\<close> are the bots of \<open>UsyncQueryExtras\<close>, of which the last
  with the name counts.\<close>

definition persona_of :: "(jid \<times> string) list \<Rightarrow> jid \<Rightarrow> string" where
  "persona_of personas j = foldl (\<lambda>p (bot, key). if User bot = User j then key else p) [] personas"

definition usync_user :: "(jid \<times> string) list \<Rightarrow> jid \<Rightarrow> lib_error + node" where
  "usync_user personas j0 =
     (let j = ToNonAD j0 in
      if Server j = LegacyUserServer then
        Inr (Node ''user'' [] (VNodes [Node ''contact'' [] (VStr (JID_String j))]))
      else if Server j = DefaultUserServer \<or> Server j = HiddenUserServer then
        Inr (Node ''user'' [(''jid'', VJid j)]
          (if IsBot j
           then VNodes [Node ''bot'' [] (VNodes [Node ''profile'' [(''persona_id'', VStr (persona_of personas j))] VNil])]
           else VNil))
      else Inl (Plain (''unknown user server '' @ [CHR 0x27] @ Server j @ [CHR 0x27])))"

fun usync_users :: "(jid \<times> string) list \<Rightarrow> jid list \<Rightarrow> lib_error + node list" where
  "usync_users personas [] = Inr []"
| "usync_users personas (j # js) =
     (case usync_user personas j of
        Inl e \<Rightarrow> Inl e
      | Inr n \<Rightarrow> map_sum id (\<lambda>ns. n # ns) (usync_users personas js))"

definition usync :: "lib_env \<Rightarrow> client \<Rightarrow> jid list \<Rightarrow> string \<Rightarrow> string \<Rightarrow> node list \<Rightarrow> (jid \<times> string) list \<Rightarrow> node lib" where
  "usync env h jids mode context q personas =
     (case usync_users personas jids of
        Inl e \<Rightarrow> fails e
      | Inr userList \<Rightarrow>
          bindg (generateRequestID env h) (\<lambda>sid.
          bindr (on_error (Prefixed ''failed to send usync query: '')
            (sendIQ env h (query ''usync'' ''get'' ServerJID
               (VNodes [Node ''usync''
                  [(''sid'', VStr sid), (''mode'', VStr mode), (''last'', VStr ''true''), (''index'', VStr ''0''),
                   (''context'', VStr context)]
                  (VNodes [Node ''query'' [] (VNodes q), Node ''list'' [] (VNodes userList)])])))) (\<lambda>resp.
            child_of resp [''usync'', ''list''] ''list'' ''response to usync query'')))"

definition parseVerifiedName :: "(string \<Rightarrow> string result) \<Rightarrow> node \<Rightarrow> (string option) result" where
  "parseVerifiedName verified businessNode =
     (if Tag businessNode \<noteq> ''business'' then Ok None
      else case GetOptionalChildByTag businessNode [''verified_name''] of
          (_, False) \<Rightarrow> Ok None
        | (verifiedNameNode, True) \<Rightarrow> parseVerifiedNameContent verified verifiedNameNode)"

definition parsed_name :: "(string \<Rightarrow> string result) \<Rightarrow> node \<Rightarrow> string option" where
  "parsed_name verified child =
     (case parseVerifiedName verified (GetChildByTag child [''business'']) of Inl _ \<Rightarrow> None | Inr v \<Rightarrow> v)"

text \<open>The hidden address that is stored for a number, if the store is there and knows one.\<close>

definition stored_lid :: "lib_env \<Rightarrow> client \<Rightarrow> jid \<Rightarrow> (api_state, jid option) go" where
  "stored_lid env h j =
     (if leHasLIDs env h then
        bindg (asks (\<lambda>t. leLIDForPN env t h j)) (\<lambda>r.
          ret (case r of Inl _ \<Rightarrow> None | Inr lid \<Rightarrow> if IsEmpty lid then None else Some lid))
      else ret None)"

text \<open>\<open>types.IsOnWhatsAppResponse\<close>, \<open>types.UserInfo\<close>, \<open>types.ProfilePictureInfo\<close>, \<open>types.Blocklist\<close>.\<close>

record IsOnWhatsAppResponse =
  iwQuery :: string
  iwJID :: jid
  iwLID :: "jid option"
  iwIsIn :: bool
  iwVerifiedName :: "string option"

record user_details =
  uiVerifiedName :: "string option"
  uiStatus :: string
  uiPictureID :: string
  uiDevices :: "jid list"
  uiLID :: jid

record ProfilePictureInfo =
  ppURL :: string
  ppID :: string
  ppType :: string
  ppDirectPath :: string
  ppHash :: string

record Blocklist =
  blDHash :: string
  blJIDs :: "jid list"

definition trim_suffix :: "string \<Rightarrow> string \<Rightarrow> string" where
  "trim_suffix suff s = (if has_suffix s suff then take (length s - length suff) s else s)"

definition listed_user :: "node \<Rightarrow> jid option" where
  "listed_user child = (if Tag child = ''user'' then attr_jid child ''jid'' else None)"

fun on_whatsapp_loop :: "lib_env \<Rightarrow> client \<Rightarrow> node list \<Rightarrow> (api_state, IsOnWhatsAppResponse list) go" where
  "on_whatsapp_loop env h [] = ret []"
| "on_whatsapp_loop env h (child # rest) =
     (case listed_user child of
        None \<Rightarrow> on_whatsapp_loop env h rest
      | Some j \<Rightarrow>
          bindg (stored_lid env h j) (\<lambda>lid.
          bindg (on_whatsapp_loop env h rest) (\<lambda>others.
            let contactNode = GetChildByTag child [''contact''] in
            ret (\<lparr>iwQuery = trim_suffix (''@'' @ LegacyUserServer) (content_bytes contactNode), iwJID = j,
                  iwLID = lid, iwIsIn = (fst (req_string ''type'' (AttrGetter contactNode)) = ''in''),
                  iwVerifiedName = parsed_name (leVerifiedName env) child\<rparr> # others))))"

definition verified_query :: node where
  "verified_query = Node ''business'' [] (VNodes [empty_node ''verified_name''])"

definition lib_IsOnWhatsApp :: "lib_env \<Rightarrow> client \<Rightarrow> string list \<Rightarrow> IsOnWhatsAppResponse list lib" where
  "lib_IsOnWhatsApp env h phones =
     bindr (usync env h (map (\<lambda>p. NewJID p LegacyUserServer) phones) ''query'' ''interactive''
              [verified_query, empty_node ''contact''] []) (\<lambda>lst.
     bindg (on_whatsapp_loop env h (GetChildren lst)) gives)"

text \<open>The devices of a user; the numbers of hosted devices are addresses of the hosting server.\<close>

definition hosted :: "jid \<Rightarrow> jid" where
  "hosted j = (if Server j = HiddenUserServer then j\<lparr>Server := HostedLIDServer\<rparr> else j\<lparr>Server := HostedServer\<rparr>)"

definition listed_device :: "jid \<Rightarrow> node \<Rightarrow> jid option" where
  "listed_device user device =
     (let ((deviceID, ok), _) = GetInt64 ''id'' True (AttrGetter device);
          (isHosted, _) = without_ok (GetBool ''is_hosted'' True) (AttrGetter device);
          j = user\<lparr>Device := word_of_int deviceID\<rparr>
      in if Tag device \<noteq> ''device'' \<or> \<not> ok then None else Some (if isHosted then hosted j else j))"

definition parseDeviceList :: "jid \<Rightarrow> node \<Rightarrow> jid list" where
  "parseDeviceList user deviceNode =
     (let deviceList = GetChildByTag deviceNode [''device-list''] in
      if Tag deviceNode \<noteq> ''devices'' \<or> Tag deviceList \<noteq> ''device-list'' then []
      else List.map_filter (listed_device user) (GetChildren deviceList))"

text \<open>The business name of a user under both addresses, and the event of its change.\<close>

definition updateBusinessName :: "lib_env \<Rightarrow> client \<Rightarrow> jid \<Rightarrow> jid \<Rightarrow> string \<Rightarrow> (api_state, unit) go" where
  "updateBusinessName env h user userAlt name =
     (if \<not> leHasContacts env h then ret ()
      else
        bindg (perform h (OpStoreBusinessName user name)) (\<lambda>_.
        bindg (asks (\<lambda>t. lePutBusinessName env t h user name)) (\<lambda>r.
          case r of
            Inr (Some previousName) \<Rightarrow>
              bindg (if IsEmpty (ToNonAD userAlt) then asks (\<lambda>t. leAltJID env t h user)
                     else ret (ToNonAD userAlt)) (\<lambda>alt.
              bindg (if IsEmpty alt then ret ()
                     else bindg (perform h (OpStoreBusinessName alt name)) (\<lambda>_.
                          bindg (asks (\<lambda>t. lePutBusinessName env t h alt name)) (\<lambda>_. ret ()))) (\<lambda>_.
                perform h (OpBusinessNameEvent user previousName name)))
          | _ \<Rightarrow> ret ())))"

text \<open>One user of the answer: the stored address is asked for, and replaced by the one in the answer.\<close>

definition parse_user :: "lib_env \<Rightarrow> client \<Rightarrow> jid \<Rightarrow> node \<Rightarrow> (api_state, user_details) go" where
  "parse_user env h j child =
     bindg (stored_lid env h j) (\<lambda>_.
       let verifiedName = parsed_name (leVerifiedName env) child;
           lid = fst (OptionalJIDOrEmpty ''val'' (AttrGetter (GetChildByTag child [''lid''])));
           info = \<lparr>uiVerifiedName = None, uiStatus = content_bytes (GetChildByTag child [''status'']),
             uiPictureID = str_of (attr_string (GetChildByTag child [''picture'']) ''id''),
             uiDevices = parseDeviceList j (GetChildByTag child [''devices'']), uiLID = lid\<rparr>
       in bindg (case verifiedName of None \<Rightarrow> ret () | Some name \<Rightarrow> updateBusinessName env h j lid name) (\<lambda>_. ret info))"

fun user_info_loop :: "lib_env \<Rightarrow> client \<Rightarrow> node list \<Rightarrow> (jid \<times> jid) list \<Rightarrow> (jid \<times> user_details) list \<Rightarrow>
    (api_state, (jid \<times> jid) list \<times> (jid \<times> user_details) list) go" where
  "user_info_loop env h [] mappings respData = ret (mappings, respData)"
| "user_info_loop env h (child # rest) mappings respData =
     (case listed_user child of
        None \<Rightarrow> user_info_loop env h rest mappings respData
      | Some j \<Rightarrow>
          bindg (parse_user env h j child) (\<lambda>info.
            user_info_loop env h rest
              (if IsEmpty (uiLID info) then mappings else mappings @ [(uiLID info, j)])
              (AList.update j info respData)))"

definition lib_GetUserInfo :: "lib_env \<Rightarrow> client \<Rightarrow> jid list \<Rightarrow> (jid \<times> user_details) list lib" where
  "lib_GetUserInfo env h jids =
     bindr (usync env h jids ''full'' ''background''
              [verified_query, empty_node ''status'', empty_node ''picture'',
               Node ''devices'' [(''version'', VStr ''2'')] VNil, empty_node ''lid''] []) (\<lambda>lst.
     bindg (user_info_loop env h (GetChildren lst) [] []) (\<lambda>(mappings, respData).
     bindg (PutManyLIDMappings env h mappings) (\<lambda>_. gives respData)))"

record GetProfilePictureParams =
  gpPreview :: bool
  gpExistingID :: string
  gpIsCommunity :: bool
  gpCommonGID :: jid
  gpInviteCode :: string
  gpPersonaID :: string

definition picture_params :: "bool \<Rightarrow> GetProfilePictureParams" where
  "picture_params preview = \<lparr>gpPreview = preview, gpExistingID = [], gpIsCommunity = False, gpCommonGID = EmptyJID,
     gpInviteCode = [], gpPersonaID = []\<rparr>"

definition picture_attrs :: "GetProfilePictureParams \<Rightarrow> jid \<Rightarrow> (string \<times> bvalue) list" where
  "picture_attrs params j =
     [(''query'', VStr ''url''), (''type'', VStr (if gpPreview params then ''preview'' else ''image''))]
     @ (if gpExistingID params \<noteq> [] then [(''id'', VStr (gpExistingID params))] else [])
     @ (if gpInviteCode params \<noteq> [] then [(''invite'', VStr (gpInviteCode params))] else [])
     @ (if gpIsCommunity params then [(''parent_group_jid'', VJid j)]
        else (if \<not> IsEmpty (gpCommonGID params) then [(''common_gid'', VJid (gpCommonGID params))] else [])
           @ (if gpPersonaID params \<noteq> [] then [(''persona_id'', VStr (gpPersonaID params))] else []))"

definition picture_query :: "lib_env \<Rightarrow> client \<Rightarrow> jid \<Rightarrow> GetProfilePictureParams \<Rightarrow> (api_state, info_query) go" where
  "picture_query env h j params =
     (if gpIsCommunity params then
        ret (query ''w:g2'' ''get'' j
          (VNodes [Node ''pictures'' [] (VNodes [Node ''picture'' (picture_attrs params j) VNil])]))
      else
        bindg (if leHasTokens env h
               then bindg (asks (\<lambda>t. lePrivacyToken env t h j)) (\<lambda>r.
                      ret (case r of Inr (Some b) \<Rightarrow> [Node ''tctoken'' [] (VBytes b)] | _ \<Rightarrow> []))
               else ret []) (\<lambda>tokens.
          ret ((query ''w:profile:picture'' ''get'' ServerJID
             (VNodes [Node ''picture'' (picture_attrs params j) (VNodes tokens)]))\<lparr>iqTarget := j\<rparr>)))"

definition parse_picture :: "(string \<Rightarrow> string) \<Rightarrow> node \<Rightarrow> lib_error + ProfilePictureInfo option" where
  "parse_picture base64 picture =
     (let ag = AttrGetter picture;
          (status, ag) = opt_int ''status'' ag in
      if status = 304 then Inr None
      else
        let (status2, ag) = opt_int ''status'' ag in
        if status2 = 204 then Inl (Plain ''that user or group does not have a profile picture'')
        else
          let (key, ag) = req_string ''id'' ag; (url, ag) = req_string ''url'' ag;
              (kind, ag) = req_string ''type'' ag; (path, ag) = req_string ''direct_path'' ag;
              (hash, ag) = opt_string ''hash'' ag
          in case attr_Error ag of
               Some es \<Rightarrow> Inl (AttrErrors es)
             | None \<Rightarrow> Inr (Some \<lparr>ppURL = url, ppID = key, ppType = kind, ppDirectPath = path, ppHash = base64 hash\<rparr>))"

definition lib_GetProfilePictureInfo :: "lib_env \<Rightarrow> client \<Rightarrow> jid \<Rightarrow> GetProfilePictureParams \<Rightarrow> ProfilePictureInfo option lib" where
  "lib_GetProfilePictureInfo env h j params =
     bindg (picture_query env h j params) (\<lambda>q.
     bindr (on_error (wrap_known [(ErrIQNotAuthorized, ''the user has hidden their profile picture from you''),
                                  (ErrIQNotFound, ''that user or group does not have a profile picture'')])
              (sendIQ env h q)) (\<lambda>resp.
     bindr (if gpIsCommunity params
            then child_of resp [''pictures''] ''pictures'' ''response to profile picture query'' else gives resp) (\<lambda>resp.
       case GetOptionalChildByTag resp [''picture''] of
         (_, False) \<Rightarrow>
           if gpExistingID params \<noteq> [] then gives None
           else fails (ElementMissing ''picture'' ''response to profile picture query'')
       | (picture, True) \<Rightarrow> ret (parse_picture (leBase64 env) picture))))"

definition parseBlocklist :: "node \<Rightarrow> Blocklist" where
  "parseBlocklist n =
     \<lparr>blDHash = fst (req_string ''dhash'' (AttrGetter n)),
      blJIDs = List.map_filter (\<lambda>child.
        let (j, ag) = attr_JID ''jid'' (AttrGetter child) in if attr_OK ag then Some j else None) (GetChildren n)\<rparr>"

definition lib_GetBlocklist :: "lib_env \<Rightarrow> client \<Rightarrow> Blocklist lib" where
  "lib_GetBlocklist env h =
     bindr (sendIQ env h (query ''blocklist'' iqGet ServerJID VNil)) (\<lambda>resp.
     bindr (child_of resp [''list''] ''list'' ''response to blocklist query'') (\<lambda>lst. gives (parseBlocklist lst)))"

definition UpdateBlocklist :: "lib_env \<Rightarrow> client \<Rightarrow> jid \<Rightarrow> string \<Rightarrow> Blocklist lib" where
  "UpdateBlocklist env h j action =
     bindr (sendIQ env h (query ''blocklist'' iqSet ServerJID
              (VNodes [Node ''item'' [(''jid'', VJid j), (''action'', VStr action)] VNil]))) (\<lambda>resp.
     bindr (child_of resp [''list''] ''list'' ''response to blocklist update'') (\<lambda>lst. gives (parseBlocklist lst)))"

section \<open>Links and bots\<close>

record BusinessMessageLinkTarget =
  btJID :: jid
  btPushName :: string
  btMessage :: string
  btIsSigned :: bool
  btVerifiedName :: string
  btVerifiedLevel :: string

definition link_query :: "lib_env \<Rightarrow> client \<Rightarrow> string \<Rightarrow> (string \<times> bvalue) list \<Rightarrow> node lib" where
  "link_query env h t attrs = sendIQ env h (query ''w:qr'' t EmptyJID (VNodes [Node ''qr'' attrs VNil]))"

definition ResolveBusinessMessageLink :: "lib_env \<Rightarrow> client \<Rightarrow> string \<Rightarrow> BusinessMessageLinkTarget lib" where
  "ResolveBusinessMessageLink env h link =
     (let code = trim_prefix ''https://api.whatsapp.com/message/'' (trim_prefix ''https://wa.me/message/'' link) in
      bindr (on_error (wrap_known [(ErrIQNotFound, ''that business message link does not exist or has been revoked'')])
               (link_query env h iqGet [(''code'', VStr code)])) (\<lambda>resp.
      bindr (child_of resp [''qr''] ''qr'' ''response to business message link query'') (\<lambda>qrChild.
        let (j, ag) = attr_JID ''jid'' (AttrGetter qrChild);
            (name, ag) = req_string ''notify'' ag;
            message = (case GetOptionalChildByTag qrChild [''message''] of
                         (m, True) \<Rightarrow> content_bytes m | _ \<Rightarrow> []);
            (signed, vname, vlevel) =
              (case GetOptionalChildByTag qrChild [''business''] of
                 (b, True) \<Rightarrow>
                   (let (x, bag) = without_ok (GetBool ''is_signed'' False) (AttrGetter b);
                        (y, bag) = opt_string ''verified_name'' bag;
                        (z, _) = opt_string ''verified_level'' bag in (x, y, z))
               | _ \<Rightarrow> (False, [], []))
        in case attr_Error ag of
             Some es \<Rightarrow> fails (AttrErrors es)
           | None \<Rightarrow> gives \<lparr>btJID = j, btPushName = name, btMessage = message, btIsSigned = signed,
                       btVerifiedName = vname, btVerifiedLevel = vlevel\<rparr>)))"

text \<open>The address, name and type of a contact.\<close>

definition ResolveContactQRLink :: "lib_env \<Rightarrow> client \<Rightarrow> string \<Rightarrow> (jid \<times> string \<times> string) lib" where
  "ResolveContactQRLink env h link =
     (let code = trim_prefix ''https://api.whatsapp.com/qr/'' (trim_prefix ''https://wa.me/qr/'' link) in
      bindr (on_error (wrap_known [(ErrIQNotFound, ''that contact QR link does not exist or has been revoked'')])
               (link_query env h iqGet [(''code'', VStr code)])) (\<lambda>resp.
      bindr (child_of resp [''qr''] ''qr'' ''response to contact link query'') (\<lambda>qrChild.
        let (j, ag) = attr_JID ''jid'' (AttrGetter qrChild);
            (name, ag) = opt_string ''notify'' ag;
            (kind, ag) = req_string ''type'' ag
        in case attr_Error ag of Some es \<Rightarrow> fails (AttrErrors es) | None \<Rightarrow> gives (j, name, kind))))"

definition GetContactQRLink :: "lib_env \<Rightarrow> client \<Rightarrow> bool \<Rightarrow> string lib" where
  "GetContactQRLink env h revoke =
     bindr (link_query env h iqSet [(''type'', VStr ''contact''), (''action'', VStr (if revoke then ''revoke'' else ''get''))]) (\<lambda>resp.
     bindr (child_of resp [''qr''] ''qr'' ''response to own contact link fetch'') (\<lambda>qrChild.
       let (code, ag) = req_string ''code'' (AttrGetter qrChild) in
       case attr_Error ag of Some es \<Rightarrow> fails (AttrErrors es) | None \<Rightarrow> gives code))"

text \<open>The bots with their personas.\<close>

definition GetBotListV2 :: "lib_env \<Rightarrow> client \<Rightarrow> (jid \<times> string) list lib" where
  "GetBotListV2 env h =
     bindr (sendIQ env h (query ''bot'' iqGet ServerJID (VNodes [Node ''bot'' [(''v'', VStr ''2'')] VNil]))) (\<lambda>resp.
     bindr (child_of resp [''bot''] ''bot'' ''response to bot list query'') (\<lambda>botNode.
       gives (concat (map (\<lambda>section.
         if fst (req_string ''type'' (AttrGetter section)) = ''all'' then
           map (\<lambda>bot. let (persona, ag) = req_string ''persona_id'' (AttrGetter bot) in
                      (fst (attr_JID ''jid'' ag), persona)) (GetChildrenByTag section ''bot'')
         else []) (GetChildrenByTag botNode ''section'')))))"

section \<open>Channels\<close>

text \<open>The duration in seconds.\<close>

definition NewsletterSubscribeLiveUpdates :: "lib_env \<Rightarrow> client \<Rightarrow> jid \<Rightarrow> int lib" where
  "NewsletterSubscribeLiveUpdates env h j =
     bindr (sendIQ env h (query ''newsletter'' iqSet j (VNodes [empty_node ''live_updates'']))) (\<lambda>resp.
       gives (fst (without_ok (GetInt64 ''duration'' True) (AttrGetter (GetChildByTag resp [''live_updates''])))))"

text \<open>A message of a channel; its protocol buffer is kept as its bytes, when they can be read.\<close>

record NewsletterMessage =
  nmServerID :: int
  nmMessageID :: string
  nmType :: string
  nmTimestamp :: go_time
  nmViewsCount :: int
  nmReactionCounts :: "(string \<times> int) list"
  nmMessage :: "string option"

definition parse_newsletter_child :: "(string \<Rightarrow> bool) \<Rightarrow> NewsletterMessage \<Rightarrow> node \<Rightarrow> NewsletterMessage" where
  "parse_newsletter_child unmarshals msg sub =
     (if Tag sub = ''plaintext'' then
        (case Content sub of
           VBytes b \<Rightarrow> msg\<lparr>nmMessage := (if unmarshals b then Some b else None)\<rparr>
         | _ \<Rightarrow> msg)
      else if Tag sub = ''views_count'' then
        msg\<lparr>nmViewsCount := fst (without_ok (GetInt64 ''count'' True) (AttrGetter sub))\<rparr>
      else if Tag sub = ''reactions'' then
        msg\<lparr>nmReactionCounts := foldl (\<lambda>counts reaction.
          let (code, rag) = req_string ''code'' (AttrGetter reaction) in
          AList.update code (fst (without_ok (GetInt64 ''count'' True) rag)) counts) [] (GetChildren sub)\<rparr>
      else msg)"

definition parse_newsletter_message :: "(string \<Rightarrow> bool) \<Rightarrow> node \<Rightarrow> NewsletterMessage" where
  "parse_newsletter_message unmarshals child =
     (let (serverID, ag) = without_ok (GetInt64 ''server_id'' True) (AttrGetter child);
          (key, ag) = req_string ''id'' ag;
          (kind, ag) = req_string ''type'' ag;
          (t, _) = req_time ''t'' ag
      in foldl (parse_newsletter_child unmarshals)
           \<lparr>nmServerID = serverID, nmMessageID = key, nmType = kind, nmTimestamp = t, nmViewsCount = 0,
            nmReactionCounts = [], nmMessage = None\<rparr> (GetChildren child))"

definition parseNewsletterMessages :: "(string \<Rightarrow> bool) \<Rightarrow> node \<Rightarrow> NewsletterMessage list" where
  "parseNewsletterMessages unmarshals n =
     map (parse_newsletter_message unmarshals) (filter (\<lambda>c. Tag c = ''message'') (GetChildren n))"

definition lib_GetNewsletterMessages :: "lib_env \<Rightarrow> client \<Rightarrow> jid \<Rightarrow> int \<Rightarrow> int \<Rightarrow> NewsletterMessage list lib" where
  "lib_GetNewsletterMessages env h j cnt before =
     bindr (sendIQ env h (query ''newsletter'' iqGet ServerJID
              (VNodes [Node ''messages''
                 ([(''type'', VStr ''jid''), (''jid'', VJid j)]
                  @ (if cnt \<noteq> 0 then [(''count'', VInt TInt cnt)] else [])
                  @ (if before \<noteq> 0 then [(''before'', VInt TInt before)] else [])) VNil]))) (\<lambda>resp.
     bindr (child_of resp [''messages''] ''messages'' ''newsletter messages response'') (\<lambda>messages.
       gives (parseNewsletterMessages (leUnmarshals env) messages)))"

text \<open>The queries that go through GraphQL.\<close>

definition newsletter_query :: "lib_env \<Rightarrow> client \<Rightarrow> string \<Rightarrow> (string \<times> json) list \<Rightarrow> json lib" where
  "newsletter_query env h name vars =
     bindg (perform h (OpNewsletter name vars)) (\<lambda>_.
     bindg (asks (\<lambda>t. leNewsletter env t h (OpNewsletter name vars))) of_plain)"

section \<open>Messages built for others\<close>

definition BuildMessageKey :: "jid \<Rightarrow> jid \<Rightarrow> jid \<Rightarrow> jid \<Rightarrow> string \<Rightarrow> sent_key" where
  "BuildMessageKey ownID ownLID chat sender key =
     (if \<not> IsEmpty sender \<and> User sender \<noteq> User ownID \<and> User sender \<noteq> User ownLID then
        \<lparr>mkRemoteJID = JID_String chat, mkFromMe = False, mkID = key,
         mkParticipant =
           (if Server chat \<noteq> DefaultUserServer \<and> Server chat \<noteq> HiddenUserServer \<and> Server chat \<noteq> MessengerServer
            then Some (JID_String (ToNonAD sender)) else None)\<rparr>
      else \<lparr>mkRemoteJID = JID_String chat, mkFromMe = True, mkID = key, mkParticipant = None\<rparr>)"

definition BuildRevoke :: "jid \<Rightarrow> jid \<Rightarrow> jid \<Rightarrow> jid \<Rightarrow> string \<Rightarrow> api_message" where
  "BuildRevoke ownID ownLID chat sender key = Revoke (BuildMessageKey ownID ownLID chat sender key)"

definition BuildReaction :: "jid \<Rightarrow> jid \<Rightarrow> int \<Rightarrow> jid \<Rightarrow> jid \<Rightarrow> string \<Rightarrow> string \<Rightarrow> api_message" where
  "BuildReaction ownID ownLID now chat sender key reaction =
     Reaction (BuildMessageKey ownID ownLID chat sender key) reaction now"

definition BuildUnavailableMessageRequest :: "jid \<Rightarrow> jid \<Rightarrow> jid \<Rightarrow> jid \<Rightarrow> string \<Rightarrow> api_message" where
  "BuildUnavailableMessageRequest ownID ownLID chat sender key =
     PeerRequest (PlaceholderResend (BuildMessageKey ownID ownLID chat sender key))"

text \<open>\<open>count\<close> is cut to 32 bits; the time stamp is in milliseconds.\<close>

definition BuildHistorySyncRequest :: "jid \<Rightarrow> string \<Rightarrow> bool \<Rightarrow> int \<Rightarrow> int \<Rightarrow> api_message" where
  "BuildHistorySyncRequest chat key fromMe timestamp cnt =
     PeerRequest (HistorySyncOnDemand (JID_String chat) key fromMe (word_of_int cnt) timestamp)"

definition BuildEdit :: "int \<Rightarrow> jid \<Rightarrow> string \<Rightarrow> api_message \<Rightarrow> api_message" where
  "BuildEdit now chat key newContent =
     Edited \<lparr>mkRemoteJID = JID_String chat, mkFromMe = True, mkID = key, mkParticipant = None\<rparr> newContent now"

text \<open>Sending: the last two arguments are \<open>SendRequestExtra\<close>'s id and the flag of peer messages.\<close>

definition lib_SendMessage :: "lib_env \<Rightarrow> client \<Rightarrow> jid \<Rightarrow> api_message \<Rightarrow> string \<Rightarrow> bool \<Rightarrow> send_response lib" where
  "lib_SendMessage env h recipient msg key peer =
     (let c = OpMessage recipient msg key peer in
      bindg (perform h c) (\<lambda>_. bindg (asks (\<lambda>t. leSendMessage env t h c)) of_plain))"

definition lib_SendAppState :: "lib_env \<Rightarrow> client \<Rightarrow> PatchInfo \<Rightarrow> unit lib" where
  "lib_SendAppState env h patch =
     bindg (perform h (OpAppState patch)) (\<lambda>_. bindg (asks (\<lambda>t. leAppState env t h patch)) plain_error)"

definition lib_Download :: "lib_env \<Rightarrow> client \<Rightarrow> media_file \<Rightarrow> string lib" where
  "lib_Download env h m =
     bindg (perform h (OpDownload m)) (\<lambda>_. bindg (asks (\<lambda>t. leDownload env t h m)) of_plain)"

section \<open>Lemmas\<close>

context client_rely
begin

lemma keeps_privacy: "keeps R (TryFetchPrivacySettings env h i)" "keeps R (lib_GetPrivacySettings env h)"
  "keeps R (store_privacy h s)"
proof -
  show store: "keeps R (store_privacy h s)" for s unfolding store_privacy_def by (intro group_intros)
  show fetch: "keeps R (TryFetchPrivacySettings env h i)" for i
    unfolding TryFetchPrivacySettings_def Let_def
    by (auto intro!: group_intros store split: option.split bool.split)
  show "keeps R (lib_GetPrivacySettings env h)"
    unfolding lib_GetPrivacySettings_def by (intro group_intros fetch)
qed

lemma keeps_privacy_changes: "keeps R (lib_SetPrivacySetting env h a b)"
  "keeps R (handlePrivacySettingsNotification env h n)" "keeps R (SetDefaultDisappearingTimer env h x)"
  unfolding lib_SetPrivacySetting_def handlePrivacySettingsNotification_def SetDefaultDisappearingTimer_def Let_def
  by (intro group_intros keeps_privacy)+

lemma keeps_signals: "keeps R (lib_SendChatPresence env h j a b)" "keeps R (SubscribePresence env h e j)"
  "keeps R (lib_MarkRead env h ids t j j' k)" "keeps R (lib_RejectCall env h j a)"
  "keeps R (SetStatusMessage env h a)"
  unfolding lib_SendChatPresence_def SubscribePresence_def lib_MarkRead_def lib_RejectCall_def SetStatusMessage_def
  by (intro group_intros keeps_privacy)+

lemma keeps_usync: "keeps R (usync env h js a b q ps)"
  unfolding usync_def by (auto intro!: group_intros keeps_waiters split: sum.split)

lemma keeps_stored_lid: "keeps R (stored_lid env h j)"
  unfolding stored_lid_def by (intro group_intros)

lemma keeps_on_whatsapp_loop: "keeps R (on_whatsapp_loop env h ns)"
  by (induction ns) (auto simp: Let_def intro!: group_intros keeps_stored_lid split: option.split)

lemma keeps_business: "keeps R (updateBusinessName env h j j' a)"
  unfolding updateBusinessName_def by (auto intro!: group_intros split: sum.split option.split)

lemma keeps_parse_user: "keeps R (parse_user env h j n)"
  unfolding parse_user_def Let_def by (intro group_intros keeps_stored_lid keeps_business)

lemma keeps_user_loop: "keeps R (user_info_loop env h ns ms rs)"
  by (induction ns arbitrary: ms rs) (auto intro!: group_intros keeps_parse_user split: option.split)

lemma keeps_users: "keeps R (lib_IsOnWhatsApp env h ps)" "keeps R (lib_GetUserInfo env h js)"
  "keeps R (lib_GetProfilePictureInfo env h j params)" "keeps R (lib_GetBlocklist env h)"
  "keeps R (UpdateBlocklist env h j a)"
  unfolding lib_IsOnWhatsApp_def lib_GetUserInfo_def lib_GetProfilePictureInfo_def lib_GetBlocklist_def
    UpdateBlocklist_def picture_query_def
  by (auto intro!: group_intros keeps_usync keeps_on_whatsapp_loop keeps_user_loop
      split: prod.split bool.split)

lemma keeps_links: "keeps R (ResolveBusinessMessageLink env h a)" "keeps R (ResolveContactQRLink env h a)"
  "keeps R (GetContactQRLink env h x)" "keeps R (GetBotListV2 env h)"
  unfolding ResolveBusinessMessageLink_def ResolveContactQRLink_def GetContactQRLink_def GetBotListV2_def
    link_query_def Let_def
  by (auto intro!: group_intros split: prod.split bool.split option.split)

lemma keeps_channels: "keeps R (NewsletterSubscribeLiveUpdates env h j)"
  "keeps R (lib_GetNewsletterMessages env h j a b)" "keeps R (newsletter_query env h t vs)"
  unfolding NewsletterSubscribeLiveUpdates_def lib_GetNewsletterMessages_def newsletter_query_def
  by (intro group_intros)+

lemma keeps_sending: "keeps R (lib_SendMessage env h j m a x)" "keeps R (lib_SendAppState env h p)"
  "keeps R (lib_Download env h f)"
  unfolding lib_SendMessage_def lib_SendAppState_def lib_Download_def Let_def by (intro group_intros)+

lemmas library_intros = group_intros keeps_group_commands keeps_getGroupInfo keeps_group_queries
  keeps_privacy keeps_privacy_changes keeps_signals keeps_users keeps_channels keeps_sending keeps_stored_lid

end

end
