(* ===== verification/MessageService.thy ===== *)
theory MessageService
  imports LibUser
begin

text \<open>
  The message service, \<open>pkg/message/service/message_service.go\<close>, and what all services over a client
  share: every operation first gets the client of the instance with \<open>ensureClientConnected\<close> (the same
  function in each service), then reads its arguments and calls the client library. The times a
  service returns are the text of a zero time.
\<close>

section \<open>The common parts\<close>

record api_env =
  aeEnv :: env
  aeDb :: db_env
  aeLib :: lib_env
  aeNotExist :: "nat \<Rightarrow> string \<Rightarrow> bool"
  aeMkdir :: "nat \<Rightarrow> string \<Rightarrow> go_error"
  aeDecodeDataURL :: "string \<Rightarrow> string result"
  aeNewDataURL :: "string \<Rightarrow> string \<Rightarrow> string option"

definition with_client :: "api_env \<Rightarrow> string \<Rightarrow> (client \<Rightarrow> (api_state, 'a) go) \<Rightarrow> (api_state, 'a) go" where
  "with_client env instanceId k = bindg (on_world (ensureClientConnected (aeEnv env) instanceId)) k"

definition text_of :: "api_env \<Rightarrow> lib_error \<Rightarrow> string" where
  "text_of env e = error_text (leXML (aeLib env)) (leAttrErrors (aeLib env)) e"

text \<open>\<open>x, err := client.F(...); if err != nil { return err }\<close>.\<close>

definition lib_call :: "api_env \<Rightarrow> 'a lib \<Rightarrow> (api_state, 'a) go" where
  "lib_call env m = bindg m (\<lambda>r. case r of Inl e \<Rightarrow> raise (text_of env e) | Inr x \<Rightarrow> ret x)"

text \<open>\<open>jid, ok := utils.ParseJID(s); if !ok { return errors.New(...) }\<close>.\<close>

definition with_jid :: "string \<Rightarrow> string \<Rightarrow> (jid \<Rightarrow> (api_state, 'a) go) \<Rightarrow> (api_state, 'a) go" where
  "with_jid invalid s k = (case utils_ParseJID s of (j, True) \<Rightarrow> k j | (_, False) \<Rightarrow> raise invalid)"

definition invalid_phone :: string where "invalid_phone = ''invalid phone number''"

text \<open>A loop over numbers stops at the first that is none.\<close>

fun parse_numbers :: "string list \<Rightarrow> (jid list) result" where
  "parse_numbers [] = Ok []"
| "parse_numbers (n # ns) =
     (case utils_ParseJID n of
        (j, True) \<Rightarrow> map_sum id (\<lambda>js. j # js) (parse_numbers ns)
      | (_, False) \<Rightarrow> Err invalid_phone)"

text \<open>The body behind a URL, with the two errors of fetching and reading it.\<close>

definition fetch_image :: "api_env \<Rightarrow> string \<Rightarrow> (api_state, string) go" where
  "fetch_image env url =
     bindg (asks (\<lambda>t. envHttpGet (aeEnv env) t url)) (\<lambda>r.
       case r of
         Inl e \<Rightarrow> raise (''failed to fetch image from URL: '' @ e)
       | Inr (bytes, Some e) \<Rightarrow> raise (''failed to read image data: '' @ e)
       | Inr (bytes, None) \<Rightarrow> ret bytes)"

definition zero_time :: string where "zero_time = ''0001-01-01 00:00:00 +0000 UTC''"

section \<open>Requests\<close>

record ReactStruct =
  raNumber :: string
  raReaction :: string
  raId :: string
  raFromMe :: bool
  raParticipant :: string

record ChatPresenceStruct =
  cpNumber :: string
  cpState :: string
  cpIsAudio :: bool

record MarkReadStruct =
  mrId :: "string list"
  mrNumber :: string

text \<open>The downloadable parts of a message, each with its mime type.\<close>

record DownloadMediaStruct =
  dmImage :: "(media_file \<times> string) option"
  dmAudio :: "(media_file \<times> string) option"
  dmDocument :: "(media_file \<times> string) option"
  dmVideo :: "(media_file \<times> string) option"
  dmSticker :: "(media_file \<times> string) option"

record MessageStruct =
  mtChat :: string
  mtMessageID :: string

record EditMessageStruct =
  edChat :: string
  edMessage :: string
  edMessageID :: string

record reaction_sent =
  rsInfo :: message_info
  rsMessage :: api_message

section \<open>The operations\<close>

definition reaction_key :: "ReactStruct \<Rightarrow> jid \<Rightarrow> sent_key" where
  "reaction_key data recipient =
     \<lparr>mkRemoteJID = JID_String recipient, mkFromMe = raFromMe data, mkID = raId data,
      mkParticipant =
        (if raParticipant data = [] then None
         else case utils_ParseJID (raParticipant data) of
             (j, True) \<Rightarrow> Some (JID_String j)
           | (_, False) \<Rightarrow> None)\<rparr>"

definition React :: "api_env \<Rightarrow> string \<Rightarrow> ReactStruct \<Rightarrow> (api_state, reaction_sent) go" where
  "React env instanceId data =
     with_client env instanceId (\<lambda>h.
     with_jid invalid_phone (raNumber data) (\<lambda>recipient.
       if raId data = [] then raise ''missing id in payload''
       else
         bindg (asks (\<lambda>t. leNow (aeLib env) t)) (\<lambda>now.
         let msg = Reaction (reaction_key data recipient)
                     (if raReaction data = ''remove'' then [] else raReaction data) now in
         bindg (lib_call env (lib_SendMessage (aeLib env) h recipient msg (raId data) False)) (\<lambda>response.
         bindg (asks (\<lambda>t. leOwnID (aeLib env) t h)) (\<lambda>own.
           case own of
             None \<Rightarrow> crash
           | Some sender \<Rightarrow>
               ret \<lparr>rsInfo = \<lparr>miChat = recipient, miSender = sender, miIsFromMe = True,
                      miIsGroup = str_contains (raNumber data) ''@g.us'', miID = raId data,
                      miServerID = srServerID response, miType = ''ReactionMessage''\<rparr>,
                    rsMessage = msg\<rparr>)))))"

definition ChatPresence :: "api_env \<Rightarrow> string \<Rightarrow> ChatPresenceStruct \<Rightarrow> (api_state, string) go" where
  "ChatPresence env instanceId data =
     with_client env instanceId (\<lambda>h.
     with_jid invalid_phone (cpNumber data) (\<lambda>recipient.
     bindg (lib_call env (lib_SendChatPresence (aeLib env) h recipient (cpState data)
              (if cpIsAudio data then ''audio'' else []))) (\<lambda>_. ret zero_time)))"

text \<open>The chat is handed over as the sender of the messages too.\<close>

definition MarkRead :: "api_env \<Rightarrow> string \<Rightarrow> MarkReadStruct \<Rightarrow> (api_state, string) go" where
  "MarkRead env instanceId data =
     with_client env instanceId (\<lambda>h.
     with_jid invalid_phone (mrNumber data) (\<lambda>j.
     bindg (asks (\<lambda>t. leNow (aeLib env) t)) (\<lambda>now.
     attempt (lib_call env (lib_MarkRead (aeLib env) h (mrId data) (now div 1000) j j ''read'')) (\<lambda>r.
       case r of Inl _ \<Rightarrow> raise ''error marking message as read'' | Inr _ \<Rightarrow> ret zero_time))))"

text \<open>Every part that is there is downloaded; the last one counts.\<close>

fun download_parts :: "api_env \<Rightarrow> client \<Rightarrow> (string \<times> (media_file \<times> string) option) list \<Rightarrow> string \<times> string \<Rightarrow>
    (api_state, string \<times> string) go" where
  "download_parts env h [] got = ret got"
| "download_parts env h ((kind, None) # rest) got = download_parts env h rest got"
| "download_parts env h ((kind, Some (f, mimetype)) # rest) got =
     attempt (lib_call env (lib_Download (aeLib env) h f)) (\<lambda>r.
       case r of
         Inl e \<Rightarrow> raise (''Failed to download '' @ kind @ '' '' @ e)
       | Inr bytes \<Rightarrow> download_parts env h rest (bytes, mimetype))"

definition media_parts :: "DownloadMediaStruct \<Rightarrow> (string \<times> (media_file \<times> string) option) list" where
  "media_parts data = [(''image'', dmImage data), (''audio'', dmAudio data), (''document'', dmDocument data),
     (''video'', dmVideo data), (''sticker'', dmSticker data)]"

text \<open>The directory of the user is made when it is missing. \<^const>\<open>None\<close> for the request is a nil
  pointer; \<open>dataurl.New\<close> panics on a text that is no mime type (\<^const>\<open>None\<close>).\<close>

definition user_directory :: "api_env \<Rightarrow> string \<Rightarrow> (api_state, unit) go" where
  "user_directory env instanceId =
     (let dir = ''files/user_'' @ instanceId in
      bindg (asks (\<lambda>t. aeNotExist env t dir)) (\<lambda>missing.
        if missing then bindg (asks (\<lambda>t. aeMkdir env t dir)) of_error else ret ()))"

definition DownloadMedia :: "api_env \<Rightarrow> string \<Rightarrow> DownloadMediaStruct option \<Rightarrow> (api_state, string \<times> string) go" where
  "DownloadMedia env instanceId request =
     with_client env instanceId (\<lambda>h.
       case request of
         None \<Rightarrow> crash
       | Some data \<Rightarrow>
           if \<forall>(kind, part) \<in> set (media_parts data). part = None then raise ''invalid media type''
           else
             bindg (user_directory env instanceId) (\<lambda>_.
             bindg (download_parts env h (media_parts data) ([], [])) (\<lambda>(bytes, mimetype).
               case aeNewDataURL env bytes mimetype of
                 None \<Rightarrow> crash
               | Some url \<Rightarrow> ret (url, zero_time))))"

definition GetMessageStatus :: "api_env \<Rightarrow> string \<Rightarrow> string \<Rightarrow> (api_state, Message option \<times> string) go" where
  "GetMessageStatus env instanceId key =
     with_client env instanceId (\<lambda>_.
     bindg (GetMessageByID (aeDb env) key) (\<lambda>result. ret (result, zero_time)))"

definition DeleteMessageEveryone :: "api_env \<Rightarrow> string \<Rightarrow> MessageStruct \<Rightarrow> (api_state, string \<times> string) go" where
  "DeleteMessageEveryone env instanceId data =
     with_client env instanceId (\<lambda>h.
     with_jid invalid_phone (mtChat data) (\<lambda>recipient.
     bindg (getOwnID (aeLib env) h) (\<lambda>ownID.
     bindg (getOwnLID (aeLib env) h) (\<lambda>ownLID.
     bindg (lib_call env (lib_SendMessage (aeLib env) h recipient
              (BuildRevoke ownID ownLID recipient EmptyJID (mtMessageID data)) [] False)) (\<lambda>resp.
       ret (srID resp, zero_time))))))"

definition EditMessage :: "api_env \<Rightarrow> string \<Rightarrow> EditMessageStruct \<Rightarrow> (api_state, string \<times> string) go" where
  "EditMessage env instanceId data =
     with_client env instanceId (\<lambda>h.
     with_jid invalid_phone (edChat data) (\<lambda>recipient.
     bindg (asks (\<lambda>t. leNow (aeLib env) t)) (\<lambda>now.
     bindg (lib_call env (lib_SendMessage (aeLib env) h recipient
              (BuildEdit now recipient (edMessageID data) (Conversation (edMessage data))) [] False)) (\<lambda>resp.
       ret (srID resp, zero_time)))))"

end
