(* ===== verification/ChatLabelService.thy ===== *)
theory ChatLabelService
  imports MessageService
begin

text \<open>
  Chats and labels: \<open>pkg/chat/service/chat_service.go\<close> and \<open>pkg/label/service/label_service.go\<close>. Their
  changes are patches of the application state, built by the functions of \<open>AppState\<close>.
\<close>

section \<open>Chats\<close>

record HistorySyncMessage =
  hsChat :: jid
  hsIsFromMe :: bool
  hsIsGroup :: bool
  hsID :: string
  hsTimestamp :: int

record HistorySyncRequestStruct =
  hrMessageInfo :: "HistorySyncMessage option"
  hrCount :: int

text \<open>The common shape: a patch for the chat that is named in the body.\<close>

definition chat_patch :: "api_env \<Rightarrow> string \<Rightarrow> string \<Rightarrow> (int \<Rightarrow> jid \<Rightarrow> PatchInfo) \<Rightarrow> (api_state, string) go" where
  "chat_patch env instanceId chat build =
     with_client env instanceId (\<lambda>h.
     with_jid invalid_phone chat (\<lambda>recipient.
     bindg (asks (\<lambda>t. leNow (aeLib env) t)) (\<lambda>now.
     bindg (lib_call env (lib_SendAppState (aeLib env) h (build now recipient))) (\<lambda>_. ret zero_time))))"

definition ChatPin :: "api_env \<Rightarrow> string \<Rightarrow> string \<Rightarrow> (api_state, string) go" where
  "ChatPin env instanceId chat = chat_patch env instanceId chat (\<lambda>now j. BuildPin j True)"

definition ChatUnpin :: "api_env \<Rightarrow> string \<Rightarrow> string \<Rightarrow> (api_state, string) go" where
  "ChatUnpin env instanceId chat = chat_patch env instanceId chat (\<lambda>now j. BuildPin j False)"

definition ChatArchive :: "api_env \<Rightarrow> string \<Rightarrow> string \<Rightarrow> (api_state, string) go" where
  "ChatArchive env instanceId chat = chat_patch env instanceId chat (\<lambda>now j. BuildArchive now j True None None)"

definition ChatUnarchive :: "api_env \<Rightarrow> string \<Rightarrow> string \<Rightarrow> (api_state, string) go" where
  "ChatUnarchive env instanceId chat = chat_patch env instanceId chat (\<lambda>now j. BuildArchive now j False None None)"

text \<open>An hour in milliseconds.\<close>

definition ChatMute :: "api_env \<Rightarrow> string \<Rightarrow> string \<Rightarrow> (api_state, string) go" where
  "ChatMute env instanceId chat = chat_patch env instanceId chat (\<lambda>now j. BuildMute now j True (60 * 60 * 1000))"

definition ChatUnmute :: "api_env \<Rightarrow> string \<Rightarrow> string \<Rightarrow> (api_state, string) go" where
  "ChatUnmute env instanceId chat = chat_patch env instanceId chat (\<lambda>now j. BuildMute now j False 0)"

text \<open>Nil pointers for the request or its message information are dereferenced.\<close>

definition HistorySyncRequest :: "api_env \<Rightarrow> string \<Rightarrow> HistorySyncRequestStruct option \<Rightarrow> (api_state, send_response) go" where
  "HistorySyncRequest env instanceId request =
     with_client env instanceId (\<lambda>h.
       case request of
         None \<Rightarrow> crash
       | Some data \<Rightarrow>
           (case hrMessageInfo data of
              None \<Rightarrow> crash
            | Some info \<Rightarrow>
                lib_call env (lib_SendMessage (aeLib env) h (hsChat info)
                  (BuildHistorySyncRequest (hsChat info) (hsID info) (hsIsFromMe info) (hsTimestamp info) (hrCount data))
                  [] True)))"

section \<open>Labels\<close>

record ChatLabelStruct =
  clJID :: string
  clLabelID :: string

record MessageLabelStruct =
  mlJID :: string
  mlLabelID :: string
  mlMessageID :: string

record EditLabelStruct =
  elLabelID :: string
  elName :: string
  elColor :: int
  elDeleted :: bool

definition invalid_label_jid :: string where "invalid_label_jid = ''error parse community jid''"

definition label_patch :: "api_env \<Rightarrow> client \<Rightarrow> PatchInfo \<Rightarrow> (api_state, unit) go" where
  "label_patch env h patch = lib_call env (lib_SendAppState (aeLib env) h patch)"

definition ChatLabel :: "api_env \<Rightarrow> string \<Rightarrow> ChatLabelStruct \<Rightarrow> (api_state, unit) go" where
  "ChatLabel env instanceId data =
     with_client env instanceId (\<lambda>h.
     with_jid invalid_label_jid (clJID data) (\<lambda>j.
       label_patch env h (BuildLabelChat j (clLabelID data) True)))"

definition ChatUnlabel :: "api_env \<Rightarrow> string \<Rightarrow> ChatLabelStruct \<Rightarrow> (api_state, unit) go" where
  "ChatUnlabel env instanceId data =
     with_client env instanceId (\<lambda>h.
     with_jid invalid_label_jid (clJID data) (\<lambda>j.
       label_patch env h (BuildLabelChat j (clLabelID data) False)))"

definition MessageLabel :: "api_env \<Rightarrow> string \<Rightarrow> MessageLabelStruct \<Rightarrow> (api_state, unit) go" where
  "MessageLabel env instanceId data =
     with_client env instanceId (\<lambda>h.
     with_jid invalid_label_jid (mlJID data) (\<lambda>j.
       label_patch env h (BuildLabelMessage j (mlLabelID data) (mlMessageID data) True)))"

definition MessageUnlabel :: "api_env \<Rightarrow> string \<Rightarrow> MessageLabelStruct \<Rightarrow> (api_state, unit) go" where
  "MessageUnlabel env instanceId data =
     with_client env instanceId (\<lambda>h.
     with_jid invalid_label_jid (mlJID data) (\<lambda>j.
       label_patch env h (BuildLabelMessage j (mlLabelID data) (mlMessageID data) False)))"

text \<open>The colour is cut to 32 bits.\<close>

definition EditLabel :: "api_env \<Rightarrow> string \<Rightarrow> EditLabelStruct \<Rightarrow> (api_state, unit) go" where
  "EditLabel env instanceId data =
     with_client env instanceId (\<lambda>h.
       label_patch env h (BuildLabelEdit (elLabelID data) (elName data)
         (sint (word_of_int (elColor data) :: 32 word)) (elDeleted data)))"

definition GetLabels :: "api_env \<Rightarrow> string \<Rightarrow> (api_state, Label list) go" where
  "GetLabels env instanceId =
     with_client env instanceId (\<lambda>_. GetAllLabelsByInstanceID (aeDb env) instanceId)"

end
