(* ===== verification/GroupService.thy ===== *)
theory GroupService
  imports ChatLabelService
begin

text \<open>
  Groups, communities, channels and calls: \<open>pkg/group/service/group_service.go\<close>,
  \<open>pkg/community/service/community_service.go\<close>, \<open>pkg/newsletter/service/newsletter_service.go\<close> and
  \<open>pkg/call/service/call_service.go\<close>.
\<close>

section \<open>Groups\<close>

record SetGroupPhotoStruct =
  spGroupJID :: string
  spImage :: string

record CreateGroupStruct =
  cgGroupName :: string
  cgParticipants :: "string list"

record AddParticipantStruct =
  apGroupJID :: jid
  apParticipants :: "string list"
  apAction :: string

definition invalid_group :: string where "invalid_group = ''invalid group jid''"

definition ListGroups :: "api_env \<Rightarrow> string \<Rightarrow> (api_state, GroupInfo list) go" where
  "ListGroups env instanceId =
     with_client env instanceId (\<lambda>h. lib_call env (lib_GetJoinedGroups (aeLib env) h))"

definition GetGroupInfo :: "api_env \<Rightarrow> string \<Rightarrow> string \<Rightarrow> (api_state, GroupInfo) go" where
  "GetGroupInfo env instanceId groupJID =
     with_client env instanceId (\<lambda>h.
     with_jid invalid_group groupJID (\<lambda>recipient.
       lib_call env (lib_GetGroupInfo (aeLib env) h recipient)))"

definition GetGroupInviteLink :: "api_env \<Rightarrow> string \<Rightarrow> string \<Rightarrow> bool \<Rightarrow> (api_state, string) go" where
  "GetGroupInviteLink env instanceId groupJID reset =
     with_client env instanceId (\<lambda>h.
     with_jid invalid_group groupJID (\<lambda>recipient.
       lib_call env (lib_GetGroupInviteLink (aeLib env) h recipient reset)))"

definition photo_bytes :: "api_env \<Rightarrow> string \<Rightarrow> (api_state, string) go" where
  "photo_bytes env img =
     (if has_prefix img ''http://'' \<or> has_prefix img ''https://'' then fetch_image env img
      else if has_prefix img ''data:image/jpeg;base64,'' \<or> has_prefix img ''data:image/png;base64,''
      then of_result (aeDecodeDataURL env img)
      else raise (''image data should be a valid URL or start with '' @ [CHR 0x22]
                  @ ''data:image/jpeg;base64,'' @ [CHR 0x22]))"

definition SetGroupPhoto :: "api_env \<Rightarrow> string \<Rightarrow> SetGroupPhotoStruct \<Rightarrow> (api_state, string) go" where
  "SetGroupPhoto env instanceId data =
     with_client env instanceId (\<lambda>h.
     with_jid invalid_group (spGroupJID data) (\<lambda>recipient.
     bindg (photo_bytes env (spImage data)) (\<lambda>bytes.
       lib_call env (lib_SetGroupPhoto (aeLib env) h recipient (Some bytes)))))"

definition SetGroupName :: "api_env \<Rightarrow> string \<Rightarrow> string \<Rightarrow> string \<Rightarrow> (api_state, unit) go" where
  "SetGroupName env instanceId groupJID name =
     with_client env instanceId (\<lambda>h.
     with_jid invalid_group groupJID (\<lambda>recipient.
       lib_call env (lib_SetGroupName (aeLib env) h recipient name)))"

definition SetGroupDescription :: "api_env \<Rightarrow> string \<Rightarrow> string \<Rightarrow> string \<Rightarrow> (api_state, unit) go" where
  "SetGroupDescription env instanceId groupJID description =
     with_client env instanceId (\<lambda>h.
     with_jid invalid_group groupJID (\<lambda>recipient.
       lib_call env (lib_SetGroupDescription (aeLib env) h recipient description)))"

record group_created =
  gcJID :: jid
  gcName :: string
  gcOwner :: jid
  gcAdded :: "jid list"
  gcFailed :: "jid list"

definition CreateGroup :: "api_env \<Rightarrow> string \<Rightarrow> CreateGroupStruct \<Rightarrow> (api_state, group_created) go" where
  "CreateGroup env instanceId data =
     with_client env instanceId (\<lambda>h.
     bindg (of_result (parse_numbers (cgParticipants data))) (\<lambda>participants.
     bindg (lib_call env (lib_CreateGroup (aeLib env) h
              (create_request (cgGroupName data) participants False))) (\<lambda>resp.
     bindg (lib_call env (lib_GetGroupInfo (aeLib env) h (giJID resp))) (\<lambda>infoResp.
       ret \<lparr>gcJID = giJID resp, gcName = giName resp, gcOwner = giOwnerJID resp,
            gcAdded = map gpJID (giParticipants infoResp),
            gcFailed = map gpJID (filter (\<lambda>p. gpError p \<noteq> 0) (giParticipants resp))\<rparr>))))"

definition UpdateParticipant :: "api_env \<Rightarrow> string \<Rightarrow> AddParticipantStruct \<Rightarrow> (api_state, unit) go" where
  "UpdateParticipant env instanceId data =
     with_client env instanceId (\<lambda>h.
     bindg (of_result (parse_numbers (apParticipants data))) (\<lambda>participants.
     bindg (lib_call env (UpdateGroupParticipants (aeLib env) h (apGroupJID data) participants (apAction data)))
       (\<lambda>_. ret ())))"

definition GetMyGroups :: "api_env \<Rightarrow> string \<Rightarrow> (api_state, GroupInfo list) go" where
  "GetMyGroups env instanceId =
     with_client env instanceId (\<lambda>h.
     bindg (lib_call env (lib_GetJoinedGroups (aeLib env) h)) (\<lambda>resp.
     bindg (asks (\<lambda>t. leOwnID (aeLib env) t h)) (\<lambda>own.
       case own of
         None \<Rightarrow> crash
       | Some me \<Rightarrow>
           with_jid invalid_phone (hd (split_char CHR ''.'' (JID_String me))) (\<lambda>jidOfAdmin.
             ret (filter (\<lambda>g. giOwnerJID g = jidOfAdmin) resp)))))"

definition JoinGroupLink :: "api_env \<Rightarrow> string \<Rightarrow> string \<Rightarrow> (api_state, unit) go" where
  "JoinGroupLink env instanceId code =
     with_client env instanceId (\<lambda>h.
     bindg (lib_call env (lib_JoinGroupWithLink (aeLib env) h code)) (\<lambda>_. ret ()))"

definition LeaveGroup :: "api_env \<Rightarrow> string \<Rightarrow> jid \<Rightarrow> (api_state, unit) go" where
  "LeaveGroup env instanceId groupJID =
     with_client env instanceId (\<lambda>h. lib_call env (lib_LeaveGroup (aeLib env) h groupJID))"

section \<open>Communities\<close>

record CommunityStruct =
  cmCommunityJID :: string
  cmGroupJID :: "string list"

definition CreateCommunity :: "api_env \<Rightarrow> string \<Rightarrow> string \<Rightarrow> (api_state, GroupInfo) go" where
  "CreateCommunity env instanceId name =
     with_client env instanceId (\<lambda>h.
       lib_call env (lib_CreateGroup (aeLib env) h (create_request name [] True)))"

text \<open>The loop over the groups. The list of successes is the list of failures with the group appended,
  as the code has it.\<close>

fun community_loop :: "(jid \<Rightarrow> unit lib) \<Rightarrow> string list \<Rightarrow> string list \<Rightarrow> string list \<Rightarrow>
    (api_state, string list \<times> string list) go" where
  "community_loop link [] successList failedList = ret (successList, failedList)"
| "community_loop link (participant # rest) successList failedList =
     (let groupJID = fst (utils_ParseJID participant) in
      bindg (link groupJID) (\<lambda>r.
        let failedList = (case r of Inl _ \<Rightarrow> failedList @ [JID_String groupJID] | Inr _ \<Rightarrow> failedList);
            successList = failedList @ [JID_String groupJID]
        in community_loop link rest successList failedList))"

definition community_change :: "(lib_env \<Rightarrow> client \<Rightarrow> jid \<Rightarrow> jid \<Rightarrow> unit lib) \<Rightarrow> api_env \<Rightarrow> string \<Rightarrow> CommunityStruct \<Rightarrow>
    (api_state, string list \<times> string list) go" where
  "community_change link env instanceId data =
     with_client env instanceId (\<lambda>h.
     with_jid ''error parse community jid'' (cmCommunityJID data) (\<lambda>communityJID.
       community_loop (link (aeLib env) h communityJID) (cmGroupJID data) [] []))"

definition CommunityAdd :: "api_env \<Rightarrow> string \<Rightarrow> CommunityStruct \<Rightarrow> (api_state, string list \<times> string list) go" where
  "CommunityAdd env instanceId data = community_change lib_LinkGroup env instanceId data"

definition CommunityRemove :: "api_env \<Rightarrow> string \<Rightarrow> CommunityStruct \<Rightarrow> (api_state, string list \<times> string list) go" where
  "CommunityRemove env instanceId data = community_change lib_UnlinkGroup env instanceId data"

section \<open>Channels and calls\<close>

record NewsletterMessagesStruct =
  nlJID :: jid
  nlCount :: int
  nlBeforeID :: int

definition CreateNewsletter :: "api_env \<Rightarrow> string \<Rightarrow> string \<Rightarrow> string \<Rightarrow> (api_state, json) go" where
  "CreateNewsletter env instanceId name description =
     with_client env instanceId (\<lambda>h. lib_call env (newsletter_query (aeLib env) h ''CreateNewsletter''
       [(''name'', JStr name), (''description'', JStr description)]))"

definition ListNewsletter :: "api_env \<Rightarrow> string \<Rightarrow> (api_state, json) go" where
  "ListNewsletter env instanceId =
     with_client env instanceId (\<lambda>h. lib_call env (newsletter_query (aeLib env) h ''GetSubscribedNewsletters'' []))"

definition GetNewsletter :: "api_env \<Rightarrow> string \<Rightarrow> jid \<Rightarrow> (api_state, json) go" where
  "GetNewsletter env instanceId j =
     with_client env instanceId (\<lambda>h. lib_call env (newsletter_query (aeLib env) h ''GetNewsletterInfo''
       [(''jid'', JStr (JID_String j))]))"

definition GetNewsletterInvite :: "api_env \<Rightarrow> string \<Rightarrow> string \<Rightarrow> (api_state, json) go" where
  "GetNewsletterInvite env instanceId key =
     with_client env instanceId (\<lambda>h. lib_call env (newsletter_query (aeLib env) h ''GetNewsletterInfoWithInvite''
       [(''key'', JStr key)]))"

definition SubscribeNewsletter :: "api_env \<Rightarrow> string \<Rightarrow> jid \<Rightarrow> (api_state, unit) go" where
  "SubscribeNewsletter env instanceId j =
     with_client env instanceId (\<lambda>h.
     bindg (lib_call env (NewsletterSubscribeLiveUpdates (aeLib env) h j)) (\<lambda>_. ret ()))"

definition GetNewsletterMessages :: "api_env \<Rightarrow> string \<Rightarrow> NewsletterMessagesStruct \<Rightarrow> (api_state, NewsletterMessage list) go" where
  "GetNewsletterMessages env instanceId data =
     with_client env instanceId (\<lambda>h.
       lib_call env (lib_GetNewsletterMessages (aeLib env) h (nlJID data) (nlCount data) (nlBeforeID data)))"

text \<open>The caller and the id of a call; a nil request is dereferenced.\<close>

definition RejectCall :: "api_env \<Rightarrow> string \<Rightarrow> (jid \<times> string) option \<Rightarrow> (api_state, unit) go" where
  "RejectCall env instanceId request =
     with_client env instanceId (\<lambda>h.
       case request of
         None \<Rightarrow> crash
       | Some (callCreator, callID) \<Rightarrow> lib_call env (lib_RejectCall (aeLib env) h callCreator callID))"

end
