(* ===== verification/UserService.thy ===== *)
theory UserService
  imports MessageService
begin

text \<open>
  The user service, \<open>pkg/user/service/user_service.go\<close>. A map that is ranged over is the association
  list of its entries in the order of the iteration. The client library is that of \<open>LibUser\<close> and
  \<open>LibGroups\<close>; the picture and the name of the own account are set by the group requests with the
  empty address.
\<close>

section \<open>Users of WhatsApp\<close>

text \<open>\<open>UserInfo\<close> with the hidden address that is stored for the user as its text.\<close>

record user_entry =
  ueVerifiedName :: "string option"
  ueStatus :: string
  uePictureID :: string
  ueDevices :: "jid list"
  ueLID :: "string option"

fun user_entries :: "lib_env \<Rightarrow> client \<Rightarrow> (jid \<times> user_details) list \<Rightarrow> (api_state, (jid \<times> user_entry) list) go" where
  "user_entries env h [] = ret []"
| "user_entries env h ((j, info) # rest) =
     bindg (stored_lid env h j) (\<lambda>lid.
     bindg (user_entries env h rest) (\<lambda>others.
       ret ((j, \<lparr>ueVerifiedName = uiVerifiedName info, ueStatus = uiStatus info,
                 uePictureID = uiPictureID info, ueDevices = uiDevices info,
                 ueLID = map_option JID_String lid\<rparr>) # others)))"

definition GetUser :: "api_env \<Rightarrow> string \<Rightarrow> string list \<Rightarrow> (api_state, (jid \<times> user_entry) list) go" where
  "GetUser env instanceId numbers =
     with_client env instanceId (\<lambda>h.
     bindg (of_result (parse_numbers numbers)) (\<lambda>jids.
     bindg (lib_call env (lib_GetUserInfo (aeLib env) h jids)) (\<lambda>resp.
       user_entries (aeLib env) h resp)))"

text \<open>\<open>User\<close>: the answer for one number.\<close>

record checked_user =
  cuQuery :: string
  cuIsInWhatsapp :: bool
  cuJID :: string
  cuRemoteJID :: string
  cuLID :: "string option"
  cuVerifiedName :: string

definition check_answer :: "IsOnWhatsAppResponse \<Rightarrow> jid option \<Rightarrow> checked_user" where
  "check_answer item lid =
     \<lparr>cuQuery = iwQuery item, cuIsInWhatsapp = iwIsIn item, cuJID = JID_String (iwJID item),
      cuRemoteJID = (if iwIsIn item then JID_String (iwJID item) else iwQuery item),
      cuLID = map_option JID_String lid,
      cuVerifiedName = (case iwVerifiedName item of None \<Rightarrow> [] | Some name \<Rightarrow> name)\<rparr>"

text \<open>The answers, and whether one of them asks for another attempt.\<close>

fun checked_users :: "lib_env \<Rightarrow> client \<Rightarrow> bool \<Rightarrow> IsOnWhatsAppResponse list \<Rightarrow> (api_state, checked_user list \<times> bool) go" where
  "checked_users env h formatJid [] = ret ([], False)"
| "checked_users env h formatJid (item # rest) =
     bindg (stored_lid env h (iwJID item)) (\<lambda>lid.
     bindg (checked_users env h formatJid rest) (\<lambda>(users, again).
       ret (check_answer item lid # users, (\<not> iwIsIn item \<and> formatJid) \<or> again)))"

text \<open>An error of the query is only logged: there is no collection then (\<^const>\<open>None\<close>) and no second
  attempt.\<close>

definition performCheckUser :: "api_env \<Rightarrow> client \<Rightarrow> string list \<Rightarrow> bool \<Rightarrow> (api_state, checked_user list option \<times> bool) go" where
  "performCheckUser env h numbers formatJid =
     bindg (lib_IsOnWhatsApp (aeLib env) h (PrepareNumbersForWhatsAppCheck numbers (Some formatJid))) (\<lambda>r.
       case r of
         Inl _ \<Rightarrow> ret (None, False)
       | Inr resp \<Rightarrow>
           bindg (checked_users (aeLib env) h formatJid resp) (\<lambda>(users, again). ret (Some users, again)))"

definition retry_map :: "checked_user list \<Rightarrow> string \<Rightarrow> checked_user option" where
  "retry_map users = foldl (\<lambda>m u. m(cuQuery u \<mapsto> u)) Map.empty users"

definition merge_user :: "(string \<Rightarrow> checked_user option) \<Rightarrow> checked_user \<Rightarrow> checked_user" where
  "merge_user m u =
     (case m (cuQuery u) of
        Some u' \<Rightarrow> if cuIsInWhatsapp u' \<and> \<not> cuIsInWhatsapp u then u' else u
      | None \<Rightarrow> u)"

definition mergeCheckUserResults :: "checked_user list \<Rightarrow> checked_user list option \<Rightarrow> checked_user list" where
  "mergeCheckUserResults original retry =
     (case retry of None \<Rightarrow> original | Some users \<Rightarrow> map (merge_user (retry_map users)) original)"

text \<open>The collection is there whenever another attempt is asked for.\<close>

definition CheckUser :: "api_env \<Rightarrow> string \<Rightarrow> string list \<Rightarrow> bool option \<Rightarrow> (api_state, checked_user list option) go" where
  "CheckUser env instanceId numbers format =
     with_client env instanceId (\<lambda>h.
     let formatJid = (case format of None \<Rightarrow> False | Some b \<Rightarrow> b) in
     bindg (performCheckUser env h numbers formatJid) (\<lambda>(uc, shouldRetry).
       if \<not> shouldRetry then ret uc
       else if formatJid then
         bindg (performCheckUser env h numbers False) (\<lambda>(ucRetry, _).
           case (uc, ucRetry) of
             (_, None) \<Rightarrow> ret uc
           | (None, Some _) \<Rightarrow> crash
           | (Some original, Some _) \<Rightarrow> ret (Some (mergeCheckUserResults original ucRetry)))
       else ret uc))"

definition GetAvatar :: "api_env \<Rightarrow> string \<Rightarrow> string \<Rightarrow> bool \<Rightarrow> (api_state, ProfilePictureInfo) go" where
  "GetAvatar env instanceId number preview =
     with_client env instanceId (\<lambda>h.
     with_jid invalid_phone number (\<lambda>j.
     bindg (lib_call env (lib_GetProfilePictureInfo (aeLib env) h j (picture_params preview))) (\<lambda>pic.
       case pic of None \<Rightarrow> raise ''no profile picture found'' | Some p \<Rightarrow> ret p)))"

text \<open>The contacts with their addresses as text.\<close>

definition GetContacts :: "api_env \<Rightarrow> string \<Rightarrow> (api_state, (string \<times> contact) list) go" where
  "GetContacts env instanceId =
     with_client env instanceId (\<lambda>h.
       if \<not> leHasContacts (aeLib env) h then crash
       else
         bindg (asks (\<lambda>t. leContacts (aeLib env) t h)) (\<lambda>r.
         bindg (of_result r) (\<lambda>contacts. ret (map (\<lambda>(j, c). (JID_String j, c)) contacts))))"

section \<open>Privacy\<close>

definition GetPrivacy :: "api_env \<Rightarrow> string \<Rightarrow> (api_state, privacy_settings) go" where
  "GetPrivacy env instanceId =
     with_client env instanceId (\<lambda>h. lib_GetPrivacySettings (aeLib env) h)"

text \<open>The changes of a request in the order of the code.\<close>

definition privacy_changes :: "privacy_settings \<Rightarrow> (string \<times> string) list" where
  "privacy_changes data =
     [(''groupadd'', psGroupAdd data), (''last'', psLastSeen data), (''status'', psStatus data),
      (''profile'', psProfile data), (''readreceipts'', psReadReceipts data), (''calladd'', psCallAdd data),
      (''online'', psOnline data)]"

fun set_all_privacy :: "api_env \<Rightarrow> client \<Rightarrow> (string \<times> string) list \<Rightarrow> (api_state, unit) go" where
  "set_all_privacy env h [] = ret ()"
| "set_all_privacy env h ((name, v) # rest) =
     bindg (lib_call env (lib_SetPrivacySetting (aeLib env) h name v)) (\<lambda>_. set_all_privacy env h rest)"

definition SetPrivacy :: "api_env \<Rightarrow> string \<Rightarrow> privacy_settings \<Rightarrow> (api_state, privacy_settings) go" where
  "SetPrivacy env instanceId data =
     with_client env instanceId (\<lambda>h.
     bindg (set_all_privacy env h (privacy_changes data)) (\<lambda>_. lib_GetPrivacySettings (aeLib env) h))"

section \<open>Blocked contacts\<close>

definition BlockContact :: "api_env \<Rightarrow> string \<Rightarrow> string \<Rightarrow> (api_state, Blocklist) go" where
  "BlockContact env instanceId number =
     with_client env instanceId (\<lambda>h.
     with_jid invalid_phone number (\<lambda>j. lib_call env (UpdateBlocklist (aeLib env) h j ''block'')))"

definition UnlockContact :: "api_env \<Rightarrow> string \<Rightarrow> string \<Rightarrow> (api_state, Blocklist) go" where
  "UnlockContact env instanceId number =
     with_client env instanceId (\<lambda>h.
     with_jid invalid_phone number (\<lambda>j. lib_call env (UpdateBlocklist (aeLib env) h j ''unblock'')))"

definition GetBlockList :: "api_env \<Rightarrow> string \<Rightarrow> (api_state, Blocklist) go" where
  "GetBlockList env instanceId =
     with_client env instanceId (\<lambda>h. lib_call env (lib_GetBlocklist (aeLib env) h))"

section \<open>The own profile\<close>

text \<open>The picture is fetched from its URL whatever its scheme.\<close>

definition SetProfilePicture :: "api_env \<Rightarrow> string \<Rightarrow> string \<Rightarrow> (api_state, bool) go" where
  "SetProfilePicture env instanceId url =
     with_client env instanceId (\<lambda>h.
     bindg (fetch_image env url) (\<lambda>filedata.
     bindg (lib_call env (lib_SetGroupPhoto (aeLib env) h EmptyJID (Some filedata))) (\<lambda>_. ret True)))"

definition SetProfileName :: "api_env \<Rightarrow> string \<Rightarrow> string \<Rightarrow> (api_state, bool) go" where
  "SetProfileName env instanceId name =
     with_client env instanceId (\<lambda>h.
     bindg (lib_call env (lib_SetGroupName (aeLib env) h EmptyJID name)) (\<lambda>_. ret True))"

definition SetProfileStatus :: "api_env \<Rightarrow> string \<Rightarrow> string \<Rightarrow> (api_state, bool) go" where
  "SetProfileStatus env instanceId status =
     with_client env instanceId (\<lambda>h.
     bindg (lib_call env (SetStatusMessage (aeLib env) h status)) (\<lambda>_. ret True))"

end
