(* ===== verification/ApiHandlers.thy ===== *)
theory ApiHandlers
  imports InstanceHandler GroupService UserService
begin

text \<open>
  The HTTP handlers over the services: \<open>pkg/message/handler/message_handler.go\<close> and those of labels,
  chats, calls, communities, groups, channels and users. Every handler binds the body, checks its
  fields in order (each missing one with its own text and status 400), calls the service and answers
  500 with the text of an error or 200 with the data. A body is what binding it yields, as for the
  handlers of instances; \<open>serve\<close> is the table of \<open>pkg/routes/routes.go\<close> behind the authentication and
  the validation of numbers. The instance that \<open>Auth\<close> found is given by its id.
\<close>

text \<open>\<open>if missing { ctx.JSON(400, text); return }\<close>, one after the other.\<close>

fun required :: "(bool \<times> string) list \<Rightarrow> ('s, 'a reply) go \<Rightarrow> ('s, 'a reply) go" where
  "required [] m = m"
| "required ((missing, message) # checks) m = (if missing then ret (BadRequest message) else required checks m)"

text \<open>Handlers without a check hand the pointer on, nil or not.\<close>

definition with_pointer :: "'b body \<Rightarrow> ('b option \<Rightarrow> ('s, 'a reply) go) \<Rightarrow> ('s, 'a reply) go" where
  "with_pointer body k = (case body of Inl e \<Rightarrow> ret (BadRequest e) | Inr request \<Rightarrow> k request)"

text \<open>The changes of the profile answer with what was asked for, or with one text for all three when
  the service denies.\<close>

definition confirmed :: "string \<Rightarrow> ('s, bool) go \<Rightarrow> ('s, string) go" where
  "confirmed data m = bindg m (\<lambda>resp. if resp then ret data else raise ''failed to set profile picture'')"

section \<open>Messages\<close>

definition handle_React :: "api_env \<Rightarrow> string \<Rightarrow> ReactStruct body \<Rightarrow> (api_state, reaction_sent reply) go" where
  "handle_React env instanceId body =
     with_body body (\<lambda>data.
       required
         [(raNumber data = [], ''phone number is required''),
          (raReaction data = [], ''message reaction is required'')]
         (reply_server (React env instanceId data)))"

definition handle_ChatPresence :: "api_env \<Rightarrow> string \<Rightarrow> ChatPresenceStruct body \<Rightarrow> (api_state, string reply) go" where
  "handle_ChatPresence env instanceId body =
     with_body body (\<lambda>data.
       required
         [(cpNumber data = [], ''phone number is required''),
          (cpState data = [], ''state is required'')]
         (reply_server (ChatPresence env instanceId data)))"

definition handle_MarkRead :: "api_env \<Rightarrow> string \<Rightarrow> MarkReadStruct body \<Rightarrow> (api_state, string reply) go" where
  "handle_MarkRead env instanceId body =
     with_body body (\<lambda>data.
       required
         [(mrNumber data = [], ''phone number is required''),
          (length (mrId data) < 1, ''id is required'')]
         (reply_server (MarkRead env instanceId data)))"

definition handle_DownloadMedia :: "api_env \<Rightarrow> string \<Rightarrow> DownloadMediaStruct body \<Rightarrow> (api_state, (string \<times> string) reply) go" where
  "handle_DownloadMedia env instanceId body =
     with_pointer body (\<lambda>request. reply_server (DownloadMedia env instanceId request))"

definition handle_GetMessageStatus :: "api_env \<Rightarrow> string \<Rightarrow> string body \<Rightarrow> (api_state, (Message option \<times> string) reply) go" where
  "handle_GetMessageStatus env instanceId body =
     with_body body (\<lambda>data.
       required
         [(data = [], ''id is required'')]
         (reply_server (GetMessageStatus env instanceId data)))"

definition handle_DeleteMessageEveryone :: "api_env \<Rightarrow> string \<Rightarrow> MessageStruct body \<Rightarrow> (api_state, (string \<times> string) reply) go" where
  "handle_DeleteMessageEveryone env instanceId body =
     with_body body (\<lambda>data.
       required
         [(mtChat data = [], ''chat is required''),
          (mtMessageID data = [], ''messageId is required'')]
         (reply_server (DeleteMessageEveryone env instanceId data)))"

definition handle_EditMessage :: "api_env \<Rightarrow> string \<Rightarrow> EditMessageStruct body \<Rightarrow> (api_state, (string \<times> string) reply) go" where
  "handle_EditMessage env instanceId body =
     with_body body (\<lambda>data.
       required
         [(edChat data = [], ''chat is required''),
          (edMessage data = [], ''message is required''),
          (edMessageID data = [], ''messageId is required'')]
         (reply_server (EditMessage env instanceId data)))"

section \<open>Labels\<close>

definition handle_ChatLabel :: "api_env \<Rightarrow> string \<Rightarrow> ChatLabelStruct body \<Rightarrow> (api_state, unit reply) go" where
  "handle_ChatLabel env instanceId body =
     with_body body (\<lambda>data.
       required
         [(clJID data = [], ''jid is required''),
          (clLabelID data = [], ''label id is required'')]
         (reply_server (ChatLabel env instanceId data)))"

definition handle_MessageLabel :: "api_env \<Rightarrow> string \<Rightarrow> MessageLabelStruct body \<Rightarrow> (api_state, unit reply) go" where
  "handle_MessageLabel env instanceId body =
     with_body body (\<lambda>data.
       required
         [(mlJID data = [], ''jid is required''),
          (mlLabelID data = [], ''label id is required''),
          (mlMessageID data = [], ''message id is required'')]
         (reply_server (MessageLabel env instanceId data)))"

definition handle_EditLabel :: "api_env \<Rightarrow> string \<Rightarrow> EditLabelStruct body \<Rightarrow> (api_state, unit reply) go" where
  "handle_EditLabel env instanceId body =
     with_body body (\<lambda>data.
       required
         [(elLabelID data = [], ''label id is required''),
          (elName data = [], ''name is required'')]
         (reply_server (EditLabel env instanceId data)))"

definition handle_ChatUnlabel :: "api_env \<Rightarrow> string \<Rightarrow> ChatLabelStruct body \<Rightarrow> (api_state, unit reply) go" where
  "handle_ChatUnlabel env instanceId body =
     with_body body (\<lambda>data.
       required
         [(clJID data = [], ''jid is required''),
          (clLabelID data = [], ''label id is required'')]
         (reply_server (ChatUnlabel env instanceId data)))"

definition handle_MessageUnlabel :: "api_env \<Rightarrow> string \<Rightarrow> MessageLabelStruct body \<Rightarrow> (api_state, unit reply) go" where
  "handle_MessageUnlabel env instanceId body =
     with_body body (\<lambda>data.
       required
         [(mlJID data = [], ''jid is required''),
          (mlLabelID data = [], ''label id is required''),
          (mlMessageID data = [], ''message id is required'')]
         (reply_server (MessageUnlabel env instanceId data)))"

definition handle_GetLabels :: "api_env \<Rightarrow> string \<Rightarrow> (api_state, (Label list) reply) go" where
  "handle_GetLabels env instanceId = reply_server (GetLabels env instanceId)"

section \<open>Chats\<close>

definition handle_ChatPin :: "api_env \<Rightarrow> string \<Rightarrow> string body \<Rightarrow> (api_state, string reply) go" where
  "handle_ChatPin env instanceId body =
     with_body body (\<lambda>data.
       required
         [(data = [], ''chat is required'')]
         (reply_server (ChatPin env instanceId data)))"

definition handle_ChatUnpin :: "api_env \<Rightarrow> string \<Rightarrow> string body \<Rightarrow> (api_state, string reply) go" where
  "handle_ChatUnpin env instanceId body =
     with_body body (\<lambda>data.
       required
         [(data = [], ''chat is required'')]
         (reply_server (ChatUnpin env instanceId data)))"

definition handle_ChatArchive :: "api_env \<Rightarrow> string \<Rightarrow> string body \<Rightarrow> (api_state, string reply) go" where
  "handle_ChatArchive env instanceId body =
     with_body body (\<lambda>data.
       required
         [(data = [], ''chat is required'')]
         (reply_server (ChatArchive env instanceId data)))"

definition handle_ChatUnarchive :: "api_env \<Rightarrow> string \<Rightarrow> string body \<Rightarrow> (api_state, string reply) go" where
  "handle_ChatUnarchive env instanceId body =
     with_body body (\<lambda>data.
       required
         [(data = [], ''chat is required'')]
         (reply_server (ChatUnarchive env instanceId data)))"

definition handle_ChatMute :: "api_env \<Rightarrow> string \<Rightarrow> string body \<Rightarrow> (api_state, string reply) go" where
  "handle_ChatMute env instanceId body =
     with_body body (\<lambda>data.
       required
         [(data = [], ''chat is required'')]
         (reply_server (ChatMute env instanceId data)))"

definition handle_ChatUnmute :: "api_env \<Rightarrow> string \<Rightarrow> string body \<Rightarrow> (api_state, string reply) go" where
  "handle_ChatUnmute env instanceId body =
     with_body body (\<lambda>data.
       required
         [(data = [], ''chat is required'')]
         (reply_server (ChatUnmute env instanceId data)))"

definition handle_HistorySyncRequest :: "api_env \<Rightarrow> string \<Rightarrow> HistorySyncRequestStruct body \<Rightarrow> (api_state, send_response reply) go" where
  "handle_HistorySyncRequest env instanceId body =
     with_pointer body (\<lambda>request. reply_server (HistorySyncRequest env instanceId request))"

section \<open>Calls\<close>

definition handle_RejectCall :: "api_env \<Rightarrow> string \<Rightarrow> (jid \<times> string) body \<Rightarrow> (api_state, unit reply) go" where
  "handle_RejectCall env instanceId body =
     with_pointer body (\<lambda>request. reply_server (RejectCall env instanceId request))"

section \<open>Communities\<close>

definition handle_CreateCommunity :: "api_env \<Rightarrow> string \<Rightarrow> string body \<Rightarrow> (api_state, GroupInfo reply) go" where
  "handle_CreateCommunity env instanceId body =
     with_body body (\<lambda>data.
       required
         [(data = [], ''community name is required'')]
         (reply_server (CreateCommunity env instanceId data)))"

definition handle_CommunityAdd :: "api_env \<Rightarrow> string \<Rightarrow> CommunityStruct body \<Rightarrow> (api_state, (string list \<times> string list) reply) go" where
  "handle_CommunityAdd env instanceId body =
     with_body body (\<lambda>data.
       required
         [(cmCommunityJID data = [], ''community jid is required''),
          (length (cmGroupJID data) = 0, ''group jid is required'')]
         (reply_server (CommunityAdd env instanceId data)))"

definition handle_CommunityRemove :: "api_env \<Rightarrow> string \<Rightarrow> CommunityStruct body \<Rightarrow> (api_state, (string list \<times> string list) reply) go" where
  "handle_CommunityRemove env instanceId body =
     with_body body (\<lambda>data.
       required
         [(cmCommunityJID data = [], ''community jid is required''),
          (length (cmGroupJID data) = 0, ''group jid is required'')]
         (reply_server (CommunityRemove env instanceId data)))"

section \<open>Groups\<close>

definition handle_ListGroups :: "api_env \<Rightarrow> string \<Rightarrow> (api_state, (GroupInfo list) reply) go" where
  "handle_ListGroups env instanceId = reply_server (ListGroups env instanceId)"

definition handle_GetGroupInfo :: "api_env \<Rightarrow> string \<Rightarrow> string body \<Rightarrow> (api_state, GroupInfo reply) go" where
  "handle_GetGroupInfo env instanceId body =
     with_body body (\<lambda>data.
       required
         [(data = [], ''groupJID is required'')]
         (reply_server (GetGroupInfo env instanceId data)))"

definition handle_GetGroupInviteLink :: "api_env \<Rightarrow> string \<Rightarrow> (string \<times> bool) body \<Rightarrow> (api_state, string reply) go" where
  "handle_GetGroupInviteLink env instanceId body =
     with_body body (\<lambda>data.
       required
         [(fst data = [], ''groupJID is required'')]
         (reply_server (GetGroupInviteLink env instanceId (fst data) (snd data))))"

definition handle_SetGroupPhoto :: "api_env \<Rightarrow> string \<Rightarrow> SetGroupPhotoStruct body \<Rightarrow> (api_state, string reply) go" where
  "handle_SetGroupPhoto env instanceId body =
     with_body body (\<lambda>data.
       required
         [(spGroupJID data = [], ''groupJID is required''),
          (spImage data = [], ''image is required'')]
         (reply_server (SetGroupPhoto env instanceId data)))"

definition handle_SetGroupName :: "api_env \<Rightarrow> string \<Rightarrow> (string \<times> string) body \<Rightarrow> (api_state, unit reply) go" where
  "handle_SetGroupName env instanceId body =
     with_body body (\<lambda>data.
       required
         [(fst data = [], ''groupJID is required''),
          (snd data = [], ''name is required'')]
         (reply_server (SetGroupName env instanceId (fst data) (snd data))))"

definition handle_SetGroupDescription :: "api_env \<Rightarrow> string \<Rightarrow> (string \<times> string) body \<Rightarrow> (api_state, unit reply) go" where
  "handle_SetGroupDescription env instanceId body =
     with_body body (\<lambda>data.
       required
         [(fst data = [], ''groupJID is required''),
          (snd data = [], ''name is required'')]
         (reply_server (SetGroupDescription env instanceId (fst data) (snd data))))"

definition handle_CreateGroup :: "api_env \<Rightarrow> string \<Rightarrow> CreateGroupStruct body \<Rightarrow> (api_state, group_created reply) go" where
  "handle_CreateGroup env instanceId body =
     with_body body (\<lambda>data.
       required
         [(cgGroupName data = [], ''groupName is required''),
          (length (cgParticipants data) < 1, ''participants are required'')]
         (reply_server (CreateGroup env instanceId data)))"

definition handle_UpdateParticipant :: "api_env \<Rightarrow> string \<Rightarrow> AddParticipantStruct body \<Rightarrow> (api_state, unit reply) go" where
  "handle_UpdateParticipant env instanceId body =
     with_body body (\<lambda>data.
       required
         [(JID_String (apGroupJID data) = [], ''groupJid is required''),
          (apAction data = [], ''action is required''),
          (length (apParticipants data) < 1, ''participants are required'')]
         (reply_server (UpdateParticipant env instanceId data)))"

definition handle_GetMyGroups :: "api_env \<Rightarrow> string \<Rightarrow> (api_state, (GroupInfo list) reply) go" where
  "handle_GetMyGroups env instanceId = reply_server (GetMyGroups env instanceId)"

definition handle_JoinGroupLink :: "api_env \<Rightarrow> string \<Rightarrow> string body \<Rightarrow> (api_state, unit reply) go" where
  "handle_JoinGroupLink env instanceId body =
     with_body body (\<lambda>data.
       required
         [(data = [], ''code is required'')]
         (reply_server (JoinGroupLink env instanceId data)))"

definition handle_LeaveGroup :: "api_env \<Rightarrow> string \<Rightarrow> jid body \<Rightarrow> (api_state, unit reply) go" where
  "handle_LeaveGroup env instanceId body =
     with_body body (\<lambda>data.
       required
         [(JID_String data = [], ''groupJid is required'')]
         (reply_server (LeaveGroup env instanceId data)))"

section \<open>Channels\<close>

definition handle_CreateNewsletter :: "api_env \<Rightarrow> string \<Rightarrow> (string \<times> string) body \<Rightarrow> (api_state, json reply) go" where
  "handle_CreateNewsletter env instanceId body =
     with_body body (\<lambda>data.
       required
         [(fst data = [], ''name is required'')]
         (reply_server (CreateNewsletter env instanceId (fst data) (snd data))))"

definition handle_ListNewsletter :: "api_env \<Rightarrow> string \<Rightarrow> (api_state, json reply) go" where
  "handle_ListNewsletter env instanceId = reply_server (ListNewsletter env instanceId)"

definition handle_GetNewsletter :: "api_env \<Rightarrow> string \<Rightarrow> jid body \<Rightarrow> (api_state, json reply) go" where
  "handle_GetNewsletter env instanceId body =
     with_body body (\<lambda>data.
       required
         [(JID_String data = [], ''jid is required'')]
         (reply_server (GetNewsletter env instanceId data)))"

definition handle_GetNewsletterInvite :: "api_env \<Rightarrow> string \<Rightarrow> string body \<Rightarrow> (api_state, json reply) go" where
  "handle_GetNewsletterInvite env instanceId body =
     with_body body (\<lambda>data.
       required
         [(data = [], ''key is required'')]
         (reply_server (GetNewsletterInvite env instanceId data)))"

definition handle_SubscribeNewsletter :: "api_env \<Rightarrow> string \<Rightarrow> jid body \<Rightarrow> (api_state, unit reply) go" where
  "handle_SubscribeNewsletter env instanceId body =
     with_body body (\<lambda>data.
       required
         [(JID_String data = [], ''jid is required'')]
         (reply_server (SubscribeNewsletter env instanceId data)))"

definition handle_GetNewsletterMessages :: "api_env \<Rightarrow> string \<Rightarrow> NewsletterMessagesStruct body \<Rightarrow> (api_state, (NewsletterMessage list) reply) go" where
  "handle_GetNewsletterMessages env instanceId body =
     with_body body (\<lambda>data.
       required
         [(JID_String (nlJID data) = [], ''jid is required'')]
         (reply_server (GetNewsletterMessages env instanceId data)))"

section \<open>Users\<close>

definition handle_GetUser :: "api_env \<Rightarrow> string \<Rightarrow> (string list \<times> bool option) body \<Rightarrow> (api_state, ((jid \<times> user_entry) list) reply) go" where
  "handle_GetUser env instanceId body =
     with_body body (\<lambda>data.
       required
         [(length (fst data) < 1, ''phone number is required'')]
         (reply_server (GetUser env instanceId (fst data))))"

definition handle_CheckUser :: "api_env \<Rightarrow> string \<Rightarrow> (string list \<times> bool option) body \<Rightarrow> (api_state, (checked_user list option) reply) go" where
  "handle_CheckUser env instanceId body =
     with_body body (\<lambda>data.
       required
         [(length (fst data) < 1, ''phone number is required'')]
         (reply_server (CheckUser env instanceId (fst data) (snd data))))"

definition handle_GetAvatar :: "api_env \<Rightarrow> string \<Rightarrow> (string \<times> bool) body \<Rightarrow> (api_state, ProfilePictureInfo reply) go" where
  "handle_GetAvatar env instanceId body =
     with_body body (\<lambda>data.
       required
         [(length (fst data) < 1, ''phone number is required''),
          (fst data = [], ''phone number is required'')]
         (reply_server (GetAvatar env instanceId (fst data) (snd data))))"

definition handle_GetContacts :: "api_env \<Rightarrow> string \<Rightarrow> (api_state, ((string \<times> contact) list) reply) go" where
  "handle_GetContacts env instanceId = reply_server (GetContacts env instanceId)"

definition handle_GetPrivacy :: "api_env \<Rightarrow> string \<Rightarrow> (api_state, privacy_settings reply) go" where
  "handle_GetPrivacy env instanceId = reply_server (GetPrivacy env instanceId)"

definition handle_SetPrivacy :: "api_env \<Rightarrow> string \<Rightarrow> privacy_settings body \<Rightarrow> (api_state, privacy_settings reply) go" where
  "handle_SetPrivacy env instanceId body =
     with_body body (\<lambda>data.
       required
         [(psCallAdd data = [], ''call add is required''),
          (psGroupAdd data = [], ''group add is required''),
          (psLastSeen data = [], ''last seen is required''),
          (psOnline data = [], ''online is required''),
          (psProfile data = [], ''profile is required''),
          (psReadReceipts data = [], ''read receipts is required''),
          (psStatus data = [], ''status is required'')]
         (reply_server (SetPrivacy env instanceId data)))"

definition handle_BlockContact :: "api_env \<Rightarrow> string \<Rightarrow> string body \<Rightarrow> (api_state, Blocklist reply) go" where
  "handle_BlockContact env instanceId body =
     with_body body (\<lambda>data.
       required
         [(length data < 1, ''phone number is required''),
          (data = [], ''phone number is required'')]
         (reply_server (BlockContact env instanceId data)))"

definition handle_UnblockContact :: "api_env \<Rightarrow> string \<Rightarrow> string body \<Rightarrow> (api_state, Blocklist reply) go" where
  "handle_UnblockContact env instanceId body =
     with_body body (\<lambda>data.
       required
         [(length data < 1, ''phone number is required''),
          (data = [], ''phone number is required'')]
         (reply_server (UnlockContact env instanceId data)))"

definition handle_GetBlockList :: "api_env \<Rightarrow> string \<Rightarrow> (api_state, Blocklist reply) go" where
  "handle_GetBlockList env instanceId = reply_server (GetBlockList env instanceId)"

definition handle_SetProfilePicture :: "api_env \<Rightarrow> string \<Rightarrow> string body \<Rightarrow> (api_state, string reply) go" where
  "handle_SetProfilePicture env instanceId body =
     with_body body (\<lambda>data.
       required
         [(data = [], ''image is required'')]
         (reply_server (confirmed data (SetProfilePicture env instanceId data))))"

definition handle_SetProfileName :: "api_env \<Rightarrow> string \<Rightarrow> string body \<Rightarrow> (api_state, string reply) go" where
  "handle_SetProfileName env instanceId body =
     with_body body (\<lambda>data.
       required
         [(data = [], ''name is required'')]
         (reply_server (confirmed data (SetProfileName env instanceId data))))"

definition handle_SetProfileStatus :: "api_env \<Rightarrow> string \<Rightarrow> string body \<Rightarrow> (api_state, string reply) go" where
  "handle_SetProfileStatus env instanceId body =
     with_body body (\<lambda>data.
       required
         [(data = [], ''name is required'')]
         (reply_server (confirmed data (SetProfileStatus env instanceId data))))"

section \<open>The table of requests\<close>

datatype api_request =
    ApiReact "ReactStruct body"
  | ApiChatPresence "ChatPresenceStruct body"
  | ApiMarkRead "MarkReadStruct body"
  | ApiDownloadMedia "DownloadMediaStruct body"
  | ApiGetMessageStatus "string body"
  | ApiDeleteMessageEveryone "MessageStruct body"
  | ApiEditMessage "EditMessageStruct body"
  | ApiChatLabel "ChatLabelStruct body"
  | ApiMessageLabel "MessageLabelStruct body"
  | ApiEditLabel "EditLabelStruct body"
  | ApiChatUnlabel "ChatLabelStruct body"
  | ApiMessageUnlabel "MessageLabelStruct body"
  | ApiGetLabels
  | ApiChatPin "string body"
  | ApiChatUnpin "string body"
  | ApiChatArchive "string body"
  | ApiChatUnarchive "string body"
  | ApiChatMute "string body"
  | ApiChatUnmute "string body"
  | ApiHistorySyncRequest "HistorySyncRequestStruct body"
  | ApiRejectCall "(jid \<times> string) body"
  | ApiCreateCommunity "string body"
  | ApiCommunityAdd "CommunityStruct body"
  | ApiCommunityRemove "CommunityStruct body"
  | ApiListGroups
  | ApiGetGroupInfo "string body"
  | ApiGetGroupInviteLink "(string \<times> bool) body"
  | ApiSetGroupPhoto "SetGroupPhotoStruct body"
  | ApiSetGroupName "(string \<times> string) body"
  | ApiSetGroupDescription "(string \<times> string) body"
  | ApiCreateGroup "CreateGroupStruct body"
  | ApiUpdateParticipant "AddParticipantStruct body"
  | ApiGetMyGroups
  | ApiJoinGroupLink "string body"
  | ApiLeaveGroup "jid body"
  | ApiCreateNewsletter "(string \<times> string) body"
  | ApiListNewsletter
  | ApiGetNewsletter "jid body"
  | ApiGetNewsletterInvite "string body"
  | ApiSubscribeNewsletter "jid body"
  | ApiGetNewsletterMessages "NewsletterMessagesStruct body"
  | ApiGetUser "(string list \<times> bool option) body"
  | ApiCheckUser "(string list \<times> bool option) body"
  | ApiGetAvatar "(string \<times> bool) body"
  | ApiGetContacts
  | ApiGetPrivacy
  | ApiSetPrivacy "privacy_settings body"
  | ApiBlockContact "string body"
  | ApiUnblockContact "string body"
  | ApiGetBlockList
  | ApiSetProfilePicture "string body"
  | ApiSetProfileName "string body"
  | ApiSetProfileStatus "string body"

text \<open>The status of the answer without its data.\<close>

definition answer :: "(api_state, 'a reply) go \<Rightarrow> (api_state, unit reply) go" where
  "answer m = bindg m (\<lambda>r. ret (map_reply (\<lambda>_. ()) r))"

fun serve :: "api_env \<Rightarrow> string \<Rightarrow> api_request \<Rightarrow> (api_state, unit reply) go" where
  "serve env i (ApiReact b) = answer (handle_React env i b)"
| "serve env i (ApiChatPresence b) = answer (handle_ChatPresence env i b)"
| "serve env i (ApiMarkRead b) = answer (handle_MarkRead env i b)"
| "serve env i (ApiDownloadMedia b) = answer (handle_DownloadMedia env i b)"
| "serve env i (ApiGetMessageStatus b) = answer (handle_GetMessageStatus env i b)"
| "serve env i (ApiDeleteMessageEveryone b) = answer (handle_DeleteMessageEveryone env i b)"
| "serve env i (ApiEditMessage b) = answer (handle_EditMessage env i b)"
| "serve env i (ApiChatLabel b) = answer (handle_ChatLabel env i b)"
| "serve env i (ApiMessageLabel b) = answer (handle_MessageLabel env i b)"
| "serve env i (ApiEditLabel b) = answer (handle_EditLabel env i b)"
| "serve env i (ApiChatUnlabel b) = answer (handle_ChatUnlabel env i b)"
| "serve env i (ApiMessageUnlabel b) = answer (handle_MessageUnlabel env i b)"
| "serve env i ApiGetLabels = answer (handle_GetLabels env i)"
| "serve env i (ApiChatPin b) = answer (handle_ChatPin env i b)"
| "serve env i (ApiChatUnpin b) = answer (handle_ChatUnpin env i b)"
| "serve env i (ApiChatArchive b) = answer (handle_ChatArchive env i b)"
| "serve env i (ApiChatUnarchive b) = answer (handle_ChatUnarchive env i b)"
| "serve env i (ApiChatMute b) = answer (handle_ChatMute env i b)"
| "serve env i (ApiChatUnmute b) = answer (handle_ChatUnmute env i b)"
| "serve env i (ApiHistorySyncRequest b) = answer (handle_HistorySyncRequest env i b)"
| "serve env i (ApiRejectCall b) = answer (handle_RejectCall env i b)"
| "serve env i (ApiCreateCommunity b) = answer (handle_CreateCommunity env i b)"
| "serve env i (ApiCommunityAdd b) = answer (handle_CommunityAdd env i b)"
| "serve env i (ApiCommunityRemove b) = answer (handle_CommunityRemove env i b)"
| "serve env i ApiListGroups = answer (handle_ListGroups env i)"
| "serve env i (ApiGetGroupInfo b) = answer (handle_GetGroupInfo env i b)"
| "serve env i (ApiGetGroupInviteLink b) = answer (handle_GetGroupInviteLink env i b)"
| "serve env i (ApiSetGroupPhoto b) = answer (handle_SetGroupPhoto env i b)"
| "serve env i (ApiSetGroupName b) = answer (handle_SetGroupName env i b)"
| "serve env i (ApiSetGroupDescription b) = answer (handle_SetGroupDescription env i b)"
| "serve env i (ApiCreateGroup b) = answer (handle_CreateGroup env i b)"
| "serve env i (ApiUpdateParticipant b) = answer (handle_UpdateParticipant env i b)"
| "serve env i ApiGetMyGroups = answer (handle_GetMyGroups env i)"
| "serve env i (ApiJoinGroupLink b) = answer (handle_JoinGroupLink env i b)"
| "serve env i (ApiLeaveGroup b) = answer (handle_LeaveGroup env i b)"
| "serve env i (ApiCreateNewsletter b) = answer (handle_CreateNewsletter env i b)"
| "serve env i ApiListNewsletter = answer (handle_ListNewsletter env i)"
| "serve env i (ApiGetNewsletter b) = answer (handle_GetNewsletter env i b)"
| "serve env i (ApiGetNewsletterInvite b) = answer (handle_GetNewsletterInvite env i b)"
| "serve env i (ApiSubscribeNewsletter b) = answer (handle_SubscribeNewsletter env i b)"
| "serve env i (ApiGetNewsletterMessages b) = answer (handle_GetNewsletterMessages env i b)"
| "serve env i (ApiGetUser b) = answer (handle_GetUser env i b)"
| "serve env i (ApiCheckUser b) = answer (handle_CheckUser env i b)"
| "serve env i (ApiGetAvatar b) = answer (handle_GetAvatar env i b)"
| "serve env i ApiGetContacts = answer (handle_GetContacts env i)"
| "serve env i ApiGetPrivacy = answer (handle_GetPrivacy env i)"
| "serve env i (ApiSetPrivacy b) = answer (handle_SetPrivacy env i b)"
| "serve env i (ApiBlockContact b) = answer (handle_BlockContact env i b)"
| "serve env i (ApiUnblockContact b) = answer (handle_UnblockContact env i b)"
| "serve env i ApiGetBlockList = answer (handle_GetBlockList env i)"
| "serve env i (ApiSetProfilePicture b) = answer (handle_SetProfilePicture env i b)"
| "serve env i (ApiSetProfileName b) = answer (handle_SetProfileName env i b)"
| "serve env i (ApiSetProfileStatus b) = answer (handle_SetProfileStatus env i b)"

end
