(* ===== verification/ApiFrames.thy ===== *)
theory ApiFrames
  imports ApiHandlers
begin

text \<open>
  What a request may touch: every operation of a service acts through one client, which it has just
  seen connected, and a request that is refused touches nothing. The lemmas follow the structure of
  the services; \<open>serves\<close> is the relation between the states before and after a request.
\<close>

section \<open>Operations on a client\<close>

lemma keeps_reads: "keeps (acts_through h) (GetMessageByID db k :: (api_state, Message option) go)"
  "keeps (acts_through h) (GetAllLabelsByInstanceID db i :: (api_state, Label list) go)"
  by (auto simp: keeps_def GetMessageByID_def GetAllLabelsByInstanceID_def bindg_def run_statement run_read_uuid
      run_basic acts_through_def api_tables_def split: option.splits)

context client_rely
begin

lemma keeps_lib_call: "keeps R m \<Longrightarrow> keeps R (lib_call env m)"
  unfolding lib_call_def by (intro lib_intros)

lemma keeps_with_jid: "(\<And>j. keeps R (k j)) \<Longrightarrow> keeps R (with_jid invalid t k)"
  unfolding with_jid_def by (auto intro: keeps_pure split: prod.split bool.split)

lemmas service_intros = keeps_lib_call keeps_with_jid library_intros

lemma keeps_images: "keeps R (fetch_image env url)" "keeps R (photo_bytes env img)"
  unfolding photo_bytes_def fetch_image_def by (auto intro!: lib_intros split: sum.split prod.split option.split)

lemma keeps_downloads: "keeps R (download_parts env h parts got)" "keeps R (user_directory env i)"
proof -
  show "keeps R (download_parts env h parts got)"
  proof (induction parts arbitrary: got)
    case (Cons part parts)
    then show ?case by (cases "(env, h, part # parts, got)" rule: download_parts.cases)
        (auto intro!: service_intros split: sum.split)
  qed (simp add: keeps_pure)
  show "keeps R (user_directory env i)"
    unfolding user_directory_def Let_def by (intro lib_intros)
qed

lemma keeps_community_loop: "(\<And>j. keeps R (link j)) \<Longrightarrow> keeps R (community_loop link gs ss fs)"
  by (induction gs arbitrary: ss fs) (auto simp: Let_def intro!: lib_intros)

lemma keeps_checks: "keeps R (user_entries env' h infos)" "keeps R (checked_users env' h b items)"
  "keeps R (performCheckUser env h ns b)" "keeps R (set_all_privacy env h changes)"
proof -
  show "keeps R (user_entries env' h infos)"
    by (induction infos) (auto intro!: service_intros)
  show users: "keeps R (checked_users env' h b items)" for env' b items
    by (induction items) (auto intro!: service_intros split: prod.split)
  show "keeps R (performCheckUser env h ns b)"
    unfolding performCheckUser_def by (auto intro!: service_intros users split: sum.split prod.split)
  show "keeps R (set_all_privacy env h changes)"
    by (induction changes) (auto intro!: service_intros)
qed

lemmas body_intros = service_intros keeps_images keeps_downloads keeps_community_loop keeps_checks

end

section \<open>Requests\<close>

definition serves :: "api_env \<Rightarrow> api_state \<Rightarrow> api_state \<Rightarrow> bool" where
  "serves env s s' =
     (\<exists>ops h. apOps s' = apOps s @ ops \<and> fst ` set ops \<subseteq> {h} \<and>
        (ops = [] \<or> seen_connected (aeEnv env) h (wTick (apWorld s)) (wTick (apWorld s'))) \<and>
        api_tables s' = api_tables s \<and> outbox (apWorld s') = outbox (apWorld s) \<and>
        (\<forall>g. g \<noteq> h \<longrightarrow> apClients s' g = apClients s g))"

definition served :: "api_env \<Rightarrow> (api_state, 'a) go \<Rightarrow> bool" where
  "served env m = (\<forall>s. serves env s (snd (m s)))"

lemma servedI: "(\<And>s r s'. m s = (r, s') \<Longrightarrow> serves env s s') \<Longrightarrow> served env m"
  by (simp add: served_def prod_eq_iff)

lemma serves_same: "serves env s s"
  by (simp add: serves_def)

lemma served_client:
  assumes "\<And>h. keeps (acts_through h) (k h)"
  shows "served env (with_client env i k)"
proof (rule servedI)
  fix s r s'
  assume "with_client env i k s = (r, s')"
  then show "serves env s s'" unfolding with_client_def
  proof (cases rule: bindE)
    case (go_on h s1)
    then obtain w where w: "ensureClientConnected (aeEnv env) i (apWorld s) = (Return h, w)"
      and s1: "s1 = s\<lparr>apWorld := w\<rparr>" by (auto simp: on_world_def split: prod.splits)
    from ensure_cases [OF w] have seen: "seen_connected (aeEnv env) h (wTick (apWorld s)) (wTick w)"
      and "wTick (apWorld s) \<le> wTick w" by simp_all
    from keepsD [OF ensure_quiet w] have "outbox w = outbox (apWorld s)" by (simp add: same_def)
    moreover from keepsD [OF assms go_on(2)] have "acts_through h s1 s'" .
    ultimately show ?thesis unfolding serves_def acts_through_def s1
      by (auto simp: api_tables_def intro: seen_connected_mono [OF seen])
  next
    case (error e)
    then obtain w where w: "ensureClientConnected (aeEnv env) i (apWorld s) = (Raise e, w)"
      and s': "s' = s\<lparr>apWorld := w\<rparr>" by (auto simp: on_world_def split: prod.splits)
    from keepsD [OF ensure_quiet w] show ?thesis
      by (auto simp: serves_def s' api_tables_def same_def)
  next
    case panic
    then obtain w where "ensureClientConnected (aeEnv env) i (apWorld s) = (Crash, w)"
      by (auto simp: on_world_def split: prod.splits)
    from ensure_cases [OF this] show ?thesis by simp
  qed
qed

text \<open>The frames around a service change no state of their own.\<close>

lemma snd_frames: "snd (reply_server m s) = snd (m s)" "snd (confirmed d m' s) = snd (m' s)"
  "snd (answer m'' s) = snd (m'' s)"
  by (auto simp: reply_server_def confirmed_def answer_def attempt_def bindg_def run_basic
      split: prod.split outcome.split)

lemma served_frames: "served env m \<Longrightarrow> served env (reply_server m)" "served env m' \<Longrightarrow> served env (confirmed d m')"
  "served env m'' \<Longrightarrow> served env (answer m'')"
  by (simp_all add: served_def snd_frames)

lemma served_pure: "served env (ret x)" "served env crash"
  by (simp_all add: served_def run_basic serves_same)

lemma served_required: "served env m \<Longrightarrow> served env (required checks m)"
  by (induction checks m rule: required.induct) (auto intro: served_pure)

lemma served_bodies: "(\<And>d. served env (k d)) \<Longrightarrow> served env (with_body b k)"
  "(\<And>r. served env (q r)) \<Longrightarrow> served env (with_pointer c q)"
  unfolding with_body_def with_pointer_def by (auto intro: served_pure split: sum.split option.split)

lemmas served_intros = served_frames served_required served_bodies

lemma served_messages: "served env (React env i d1)" "served env (ChatPresence env i d2)" "served env (MarkRead env i d3)"
  "served env (DownloadMedia env i d4)" "served env (GetMessageStatus env i k)"
  "served env (DeleteMessageEveryone env i d5)" "served env (EditMessage env i d6)"
  unfolding React_def ChatPresence_def MarkRead_def DownloadMedia_def GetMessageStatus_def
    DeleteMessageEveryone_def EditMessage_def Let_def
  by (intro served_client own.body_intros keeps_reads)+

lemma served_chats: "served env (ChatPin env i t)" "served env (ChatUnpin env i t)" "served env (ChatArchive env i t)"
  "served env (ChatUnarchive env i t)" "served env (ChatMute env i t)" "served env (ChatUnmute env i t)"
  "served env (HistorySyncRequest env i d)"
  unfolding ChatPin_def ChatUnpin_def ChatArchive_def ChatUnarchive_def ChatMute_def ChatUnmute_def
    HistorySyncRequest_def chat_patch_def
  by (intro served_client own.body_intros)+

lemma served_labels: "served env (ChatLabel env i d1)" "served env (ChatUnlabel env i d1)"
  "served env (MessageLabel env i d2)" "served env (MessageUnlabel env i d2)" "served env (EditLabel env i d3)"
  "served env (GetLabels env i)"
  unfolding ChatLabel_def ChatUnlabel_def MessageLabel_def MessageUnlabel_def EditLabel_def GetLabels_def label_patch_def
  by (intro served_client own.body_intros keeps_reads)+

lemma served_groups: "served env (ListGroups env i)" "served env (GetGroupInfo env i t)"
  "served env (GetGroupInviteLink env i t b)" "served env (SetGroupPhoto env i d1)" "served env (SetGroupName env i t u)"
  "served env (SetGroupDescription env i t u)" "served env (CreateGroup env i d2)" "served env (UpdateParticipant env i d3)"
  "served env (GetMyGroups env i)" "served env (JoinGroupLink env i t)" "served env (LeaveGroup env i j)"
  unfolding ListGroups_def GetGroupInfo_def GetGroupInviteLink_def SetGroupPhoto_def SetGroupName_def
    SetGroupDescription_def CreateGroup_def UpdateParticipant_def GetMyGroups_def JoinGroupLink_def LeaveGroup_def
  by (intro served_client own.body_intros)+

lemma served_communities: "served env (CreateCommunity env i t)" "served env (CommunityAdd env i d)"
  "served env (CommunityRemove env i d)"
  unfolding CreateCommunity_def CommunityAdd_def CommunityRemove_def community_change_def
  by (intro served_client own.body_intros)+

lemma served_channels: "served env (CreateNewsletter env i t u)" "served env (ListNewsletter env i)"
  "served env (GetNewsletter env i j)" "served env (GetNewsletterInvite env i t)" "served env (SubscribeNewsletter env i j)"
  "served env (GetNewsletterMessages env i d)" "served env (RejectCall env i c)"
  unfolding CreateNewsletter_def ListNewsletter_def GetNewsletter_def GetNewsletterInvite_def SubscribeNewsletter_def
    GetNewsletterMessages_def RejectCall_def
  by (intro served_client own.body_intros)+

lemma served_check: "served env (CheckUser env i ns f)"
  unfolding CheckUser_def Let_def
  by (intro served_client) (auto intro!: own.body_intros split: prod.split option.split)

lemma served_users: "served env (GetUser env i ns)" "served env (GetAvatar env i t b)"
  "served env (GetContacts env i)" "served env (GetPrivacy env i)" "served env (SetPrivacy env i d)"
  "served env (BlockContact env i t)" "served env (UnlockContact env i t)" "served env (GetBlockList env i)"
  "served env (SetProfilePicture env i t)" "served env (SetProfileName env i t)" "served env (SetProfileStatus env i t)"
  unfolding GetUser_def GetAvatar_def GetContacts_def GetPrivacy_def SetPrivacy_def BlockContact_def
    UnlockContact_def GetBlockList_def SetProfilePicture_def SetProfileName_def SetProfileStatus_def
  by (intro served_client own.body_intros)+

lemmas served_services = served_messages served_chats served_labels served_groups served_communities
  served_channels served_check served_users

lemmas handler_defs = handle_React_def handle_ChatPresence_def handle_MarkRead_def handle_DownloadMedia_def
  handle_GetMessageStatus_def handle_DeleteMessageEveryone_def handle_EditMessage_def handle_ChatLabel_def
  handle_MessageLabel_def handle_EditLabel_def handle_ChatUnlabel_def handle_MessageUnlabel_def
  handle_GetLabels_def handle_ChatPin_def handle_ChatUnpin_def handle_ChatArchive_def
  handle_ChatUnarchive_def handle_ChatMute_def handle_ChatUnmute_def handle_HistorySyncRequest_def
  handle_RejectCall_def handle_CreateCommunity_def handle_CommunityAdd_def handle_CommunityRemove_def
  handle_ListGroups_def handle_GetGroupInfo_def handle_GetGroupInviteLink_def handle_SetGroupPhoto_def
  handle_SetGroupName_def handle_SetGroupDescription_def handle_CreateGroup_def
  handle_UpdateParticipant_def handle_GetMyGroups_def handle_JoinGroupLink_def handle_LeaveGroup_def
  handle_CreateNewsletter_def handle_ListNewsletter_def handle_GetNewsletter_def
  handle_GetNewsletterInvite_def handle_SubscribeNewsletter_def handle_GetNewsletterMessages_def
  handle_GetUser_def handle_CheckUser_def handle_GetAvatar_def handle_GetContacts_def
  handle_GetPrivacy_def handle_SetPrivacy_def handle_BlockContact_def handle_UnblockContact_def
  handle_GetBlockList_def handle_SetProfilePicture_def handle_SetProfileName_def handle_SetProfileStatus_def

lemma served_request: "served env (serve env i request)"
  by (cases request; simp only: serve.simps handler_defs; intro served_intros served_services)

section \<open>Refused requests\<close>

text \<open>What is answered with status 400 has changed nothing.\<close>

definition refuses_early :: "(api_state, 'a reply) go \<Rightarrow> bool" where
  "refuses_early m = (\<forall>s e s'. m s = (Return (BadRequest e), s') \<longrightarrow> s' = s)"

lemma early_pure: "refuses_early (ret x)" "refuses_early crash"
  by (simp_all add: refuses_early_def run_basic)

lemma early_reply: "refuses_early (reply_server m)"
  by (auto simp: refuses_early_def reply_server_def run_basic elim!: attemptE split: sum.splits)

lemma early_answer: "refuses_early m \<Longrightarrow> refuses_early (answer m)"
  unfolding refuses_early_def answer_def
proof (intro allI impI)
  fix s e s'
  assume m: "\<forall>s e s'. m s = (Return (BadRequest e), s') \<longrightarrow> s' = s"
    and "bindg m (\<lambda>r. ret (map_reply (\<lambda>_. ()) r)) s = (Return (BadRequest e), s')"
  then obtain r where "m s = (Return r, s')" "map_reply (\<lambda>_. ()) r = BadRequest e"
    by (auto simp: run_basic elim!: bindE)
  with m show "s' = s" by (cases r) auto
qed

lemma early_required: "refuses_early m \<Longrightarrow> refuses_early (required checks m)"
  by (induction checks m rule: required.induct) (auto intro: early_pure)

lemma early_bodies: "(\<And>d. refuses_early (k d)) \<Longrightarrow> refuses_early (with_body b k)"
  "(\<And>r. refuses_early (q r)) \<Longrightarrow> refuses_early (with_pointer c q)"
  unfolding with_body_def with_pointer_def by (auto intro: early_pure split: sum.split option.split)

lemma early_request: "refuses_early (serve env i request)"
  by (cases request; simp only: serve.simps handler_defs; intro early_answer early_bodies early_required early_reply)

end
