(* ===== verification/ApiProperties.thy ===== *)
theory ApiProperties
  imports ApiFrames BinaryProperties InstanceProperties SendProperties
begin

text \<open>
  The theorems about the services over a client and the part of the client library below them.
\<close>

section \<open>A sample world\<close>

text \<open>Every question is answered: the client is there, sending works, and a query gets the answer \<open>w\<close>.\<close>

definition sample_lib :: "(nat \<Rightarrow> iq_wait) \<Rightarrow> lib_env" where
  "sample_lib w = \<lparr>leUniqueID = (\<lambda>h. ''7.''), leSend = (\<lambda>_ _ _. None), leWait = (\<lambda>t _ _. w t),
     leReconnected = (\<lambda>_ _. True), leSocket = (\<lambda>_ _. True), leResend = (\<lambda>_ _ _. None), leXML = (\<lambda>_. []),
     leAttrErrors = (\<lambda>_. []), leNow = (\<lambda>t. 1000), leOwnID = (\<lambda>_ _. Some (NewADJID ''5511999990000'' 0 3)),
     leOwnLID = (\<lambda>_ _. EmptyJID), leMessageID = (\<lambda>_ _. ''3EB0''), leHasTokens = (\<lambda>_. False),
     lePrivacyToken = (\<lambda>_ _ _. Ok None), leHasLIDs = (\<lambda>_. True), leHasContacts = (\<lambda>_. True),
     lePutBusinessName = (\<lambda>_ _ _ _. Ok None), leAltJID = (\<lambda>_ _ j. EmptyJID), leLIDForPN = (\<lambda>_ _ _. Ok EmptyJID),
     lePNForLID = (\<lambda>_ _ _. Ok EmptyJID), leContacts = (\<lambda>_ _. Ok []), leVerifiedName = (\<lambda>_. Err ''none''),
     leUnmarshals = (\<lambda>_. True), leBase64 = (\<lambda>b. b), leSendMessage = (\<lambda>_ _ _. Ok \<lparr>srID = ''3EB1'', srServerID = 0\<rparr>),
     leAppState = (\<lambda>_ _ _. None), leDownload = (\<lambda>_ _ _. Ok ''bytes''), leNewsletter = (\<lambda>_ _ _. Ok JNull)\<rparr>"

definition sample_api :: "(nat \<Rightarrow> iq_wait) \<Rightarrow> api_env" where
  "sample_api w = \<lparr>aeEnv = sample_env, aeDb = sample_db, aeLib = sample_lib w, aeNotExist = (\<lambda>_ _. False),
     aeMkdir = (\<lambda>_ _. None), aeDecodeDataURL = (\<lambda>t. Ok t), aeNewDataURL = (\<lambda>b m. Some b)\<rparr>"

definition empty_api :: api_state where
  "empty_api = \<lparr>dbInstances = [], dbLabels = [], dbMessages = [], stTick = 0, apWorld = newWorld,
     apClients = (\<lambda>_. newClient), apOps = []\<rparr>"

definition result_iq :: "node list \<Rightarrow> nat \<Rightarrow> iq_wait" where
  "result_iq ns t = IQResponse (Node ''iq'' [(''type'', VStr ''result'')] (VNodes ns))"

lemma sample_client: "ensureClientConnected sample_env i w = (Return 1, w\<lparr>wTick := wTick w + 2\<rparr>)"
  by (simp add: ensureClientConnected_def clientPointer_def isConnected_def bindg_def run_ask run_basic sample_env_def)

lemma sample_with_client:
  "with_client (sample_api a) i k s = k 1 (s\<lparr>apWorld := (apWorld s)\<lparr>wTick := wTick (apWorld s) + 2\<rparr>\<rparr>)"
  by (simp add: with_client_def bindg_def on_world_def sample_api_def sample_client)

definition connected_api :: api_state where
  "connected_api = empty_api\<lparr>apWorld := newWorld\<lparr>wTick := Suc (Suc 0)\<rparr>\<rparr>"

lemma sample_connected: "with_client (sample_api a) i k empty_api = k (Suc 0) connected_api"
  by (simp add: sample_with_client empty_api_def connected_api_def newWorld_def)

lemma sample_parts: "aeLib (sample_api w) = sample_lib w" "aeEnv (sample_api w) = sample_env"
  "wTick (apWorld empty_api) = 0" "apOps empty_api = []" "apOps connected_api = []"
  by (simp_all add: sample_api_def connected_api_def empty_api_def newWorld_def)

lemma run_bindr: "m s = (Return (Inr x), s') \<Longrightarrow> bindr m k s = k x s'"
  by (simp add: bindr_def bindg_def)

lemma run_bindr_error: "m s = (Return (Inl e), s') \<Longrightarrow> bindr m k s = (Return (Inl e), s')"
  by (simp add: bindr_def bindg_def run_basic)

lemma run_bindg: "m s = (Return x, s') \<Longrightarrow> bindg m k s = k x s'"
  by (simp add: bindg_def)

lemma run_lib_call: "m s = (Return (Inr x), s') \<Longrightarrow> lib_call env m s = (Return x, s')"
  by (simp add: lib_call_def bindg_def run_basic)

lemma sample_query: "\<exists>n s'. sendIQ (sample_lib (result_iq ns)) h q s
    = (Return (Inr (Node ''iq'' [(''type'', VStr ''result'')] (VNodes ns))), s') \<and> apOps s' = apOps s @ [(h, OpNode n)]"
  by (simp add: sendIQ_def sendIQAsyncAndGetData_def sendNode_def await_def generateRequestID_def waitResponse_def
      dropWaiter_def bindr_def bindg_def run_asks run_perform run_memory run_change_client run_basic
      gives_def sample_lib_def result_iq_def isDisconnect_def iq_result_def)

section \<open>Requests\<close>





section \<open>Queries\<close>

lemma bindrE:
  assumes "bindr m k s = (Return (Inr y), s')"
  obtains x s1 where "m s = (Return (Inr x), s1)" "k x s1 = (Return (Inr y), s')"
  using assms by (auto simp: bindr_def run_basic elim!: bindE split: sum.splits)

lemma with_clientE:
  assumes "with_client env i k s = (Return x, s')"
  obtains h s0 where "k h s0 = (Return x, s')"
  using assms by (auto simp: with_client_def elim: bindE)

section \<open>Privacy settings\<close>

text \<open>The settings a client knows are the last ones it fetched or set.\<close>

lemma fetch_privacy:
  assumes "TryFetchPrivacySettings env h False s = (Return (Inr p), s')"
  shows "csPrivacy (apClients s' h) = Some p" "csPrivacy (apClients s h) = Some q \<Longrightarrow> s' = s \<and> p = q"
proof -
  show "csPrivacy (apClients s' h) = Some p"
  proof (cases "csPrivacy (apClients s h)")
    case None
    with assms have "bindr (sendIQ env h (query ''privacy'' iqGet ServerJID (VNodes [empty_node ''privacy''])))
        (\<lambda>resp. bindr (child_of resp [''privacy''] ''privacy'' ''response to privacy settings query'') (\<lambda>privacyNode.
          bindg (store_privacy h (fst (parsePrivacySettings privacyNode zeroPrivacy)))
            (\<lambda>_. gives (fst (parsePrivacySettings privacyNode zeroPrivacy))))) s = (Return (Inr p), s')"
      by (simp add: TryFetchPrivacySettings_def bindg_def run_memory Let_def)
    then show ?thesis
      by (elim bindrE) (auto simp: store_privacy_def bindg_def run_change_client gives_def run_basic)
  qed (use assms in \<open>auto simp: TryFetchPrivacySettings_def bindg_def run_memory gives_def run_basic\<close>)
  show "csPrivacy (apClients s h) = Some q \<Longrightarrow> s' = s \<and> p = q"
    using assms by (auto simp: TryFetchPrivacySettings_def bindg_def run_memory gives_def run_basic)
qed

lemma set_one_privacy:
  assumes "lib_SetPrivacySetting env h name v s = (Return (Inr p), s')"
  shows "\<exists>old. csPrivacy (apClients s' h) = Some (set_privacy name v old) \<and>
    (\<forall>q. csPrivacy (apClients s h) = Some q \<longrightarrow> old = q)"
proof -
  from assms show ?thesis unfolding lib_SetPrivacySetting_def Let_def
  proof (elim bindrE)
    fix old s1 x s2
    assume "TryFetchPrivacySettings env h False s = (Return (Inr old), s1)"
      and "bindg (store_privacy h (set_privacy name v old)) (\<lambda>_. gives (set_privacy name v old)) s2
        = (Return (Inr p), s')"
    then show ?thesis using fetch_privacy(2) [of env h s old s1]
      by (intro exI [of _ old]) (auto simp: store_privacy_def bindg_def run_change_client gives_def run_basic)
  qed
qed

lemma lib_callE:
  assumes "lib_call env m s = (Return x, s')"
  shows "m s = (Return (Inr x), s')"
  using assms by (auto simp: lib_call_def run_basic elim!: bindE split: sum.splits)

lemma set_all_known:
  assumes "set_all_privacy env h changes s = (Return (), s')" and "csPrivacy (apClients s h) = Some p"
  shows "csPrivacy (apClients s' h) = Some (fold (\<lambda>(name, v). set_privacy name v) changes p)"
  using assms
proof (induction changes arbitrary: s p)
  case (Cons change changes)
  obtain name v where change: "change = (name, v)" by (cases change)
  from Cons.prems(1) obtain q s1 where
    "lib_call env (lib_SetPrivacySetting (aeLib env) h name v) s = (Return q, s1)"
    and rest: "set_all_privacy env h changes s1 = (Return (), s')"
    by (auto simp: change elim: bindE)
  from set_one_privacy [OF lib_callE [OF this(1)]] Cons.prems(2)
  have "csPrivacy (apClients s1 h) = Some (set_privacy name v p)" by auto
  from Cons.IH [OF rest this] show ?case by (simp add: change)
qed (simp add: run_basic)

lemma all_changed: "fold (\<lambda>(name, v). set_privacy name v) (privacy_changes data) p = data"
  by (cases data, cases p) (simp add: privacy_changes_def set_privacy_def)

lemma privacy_fetched:
  assumes "set_all_privacy env h (privacy_changes data) s = (Return (), s')"
  shows "csPrivacy (apClients s' h) = Some data"
proof -
  obtain name v rest where changes: "privacy_changes data = (name, v) # rest"
    by (simp add: privacy_changes_def)
  with assms obtain q s1 where
    "lib_call env (lib_SetPrivacySetting (aeLib env) h name v) s = (Return q, s1)"
    and rest: "set_all_privacy env h rest s1 = (Return (), s')"
    by (auto elim: bindE)
  from set_one_privacy [OF lib_callE [OF this(1)]] obtain old
    where "csPrivacy (apClients s1 h) = Some (set_privacy name v old)" by auto
  from set_all_known [OF rest this] all_changed [of data old] show ?thesis by (simp add: changes)
qed

text \<open>C13: When setting the privacy succeeds, the settings that are returned are the ones of the request,
  all seven of them, whatever the client had cached before and whatever the server answered.\<close>

theorem privacy_is_as_requested:
  assumes "SetPrivacy env i data s = (Return p, s')"
  shows "p = data"
proof -
  from assms obtain h s0 where "bindg (set_all_privacy env h (privacy_changes data))
      (\<lambda>_. lib_GetPrivacySettings (aeLib env) h) s0 = (Return p, s')"
    unfolding SetPrivacy_def by (rule with_clientE)
  then obtain s1 where "set_all_privacy env h (privacy_changes data) s0 = (Return (), s1)"
    and got: "lib_GetPrivacySettings (aeLib env) h s1 = (Return p, s')" by (auto elim: bindE)
  from privacy_fetched [OF this(1)] have "csPrivacy (apClients s1 h) = Some data" .
  with got show ?thesis
    by (simp add: lib_GetPrivacySettings_def TryFetchPrivacySettings_def bindg_def run_memory gives_def run_basic)
qed

lemma fetched_from_server: "\<exists>s'. lib_SetPrivacySetting (sample_lib (result_iq [empty_node ''privacy''])) h name v s
    = (Return (Inr (set_privacy name v (case csPrivacy (apClients s h) of None \<Rightarrow> zeroPrivacy | Some p \<Rightarrow> p))), s')"
proof -
  let ?w = "sample_lib (result_iq [empty_node ''privacy''])"
  let ?old = "case csPrivacy (apClients s h) of None \<Rightarrow> zeroPrivacy | Some p \<Rightarrow> p"
  have "\<exists>s1. TryFetchPrivacySettings ?w h False s = (Return (Inr ?old), s1)"
  proof (cases "csPrivacy (apClients s h)")
    case None
    from sample_query [of "[empty_node ''privacy'']" h "query ''privacy'' iqGet ServerJID (VNodes [empty_node ''privacy''])" s]
    obtain s1 where run: "sendIQ ?w h (query ''privacy'' iqGet ServerJID (VNodes [empty_node ''privacy''])) s =
      (Return (Inr (Node ''iq'' [(''type'', VStr ''result'')] (VNodes [empty_node ''privacy'']))), s1)" by blast
    then show ?thesis using None
      by (simp add: TryFetchPrivacySettings_def bindg_def run_memory run_bindr child_of_def GetChildren_def empty_node_def
          parsePrivacySettings_def store_privacy_def run_change_client run_basic) (simp add: gives_def run_basic)
  qed (auto simp: TryFetchPrivacySettings_def bindg_def run_memory gives_def run_basic)
  then obtain s1 where fetch: "TryFetchPrivacySettings ?w h False s = (Return (Inr ?old), s1)" by blast
  let ?q = "query ''privacy'' iqSet ServerJID
    (VNodes [Node ''privacy'' [] (VNodes [Node ''category'' [(''name'', VStr name), (''value'', VStr v)] VNil])])"
  from sample_query [of "[empty_node ''privacy'']" h ?q s1]
  obtain s2 where "sendIQ ?w h ?q s1 = (Return (Inr (Node ''iq'' [(''type'', VStr ''result'')] (VNodes [empty_node ''privacy'']))), s2)" by blast
  with fetch show ?thesis
    by (simp add: lib_SetPrivacySetting_def run_bindr Let_def) (simp add: bindg_def store_privacy_def run_change_client gives_def run_basic)
qed

lemma all_set: "\<exists>s'. set_all_privacy (sample_api (result_iq [empty_node ''privacy''])) h changes s = (Return (), s')"
proof (induction changes arbitrary: s)
  case (Cons change changes)
  obtain name v where change: "change = (name, v)" by (cases change)
  from fetched_from_server [of h name v s] obtain p s1 where
    "lib_SetPrivacySetting (sample_lib (result_iq [empty_node ''privacy''])) h name v s = (Return (Inr p), s1)" by blast
  then show ?case using Cons.IH [of s1]
    by (simp add: change sample_parts bindg_def run_lib_call)
qed (simp add: run_basic)

lemma privacy_is_as_requested_witness:
  "\<exists>s'. SetPrivacy (sample_api (result_iq [empty_node ''privacy''])) ''i1'' (zeroPrivacy\<lparr>psLastSeen := ''none''\<rparr>) empty_api
    = (Return (zeroPrivacy\<lparr>psLastSeen := ''none''\<rparr>), s')"
proof -
  let ?data = "zeroPrivacy\<lparr>psLastSeen := ''none''\<rparr>"
  from all_set obtain s1 where set: "set_all_privacy (sample_api (result_iq [empty_node ''privacy''])) (Suc 0)
    (privacy_changes ?data) connected_api = (Return (), s1)" by blast
  from privacy_fetched [OF set] have "csPrivacy (apClients s1 (Suc 0)) = Some ?data" .
  then have "\<exists>p s'. SetPrivacy (sample_api (result_iq [empty_node ''privacy''])) ''i1'' ?data empty_api = (Return p, s')"
    by (simp add: SetPrivacy_def sample_connected bindg_def set lib_GetPrivacySettings_def
        TryFetchPrivacySettings_def run_memory) (simp add: gives_def run_basic)
  then show ?thesis using privacy_is_as_requested [of "sample_api (result_iq [empty_node ''privacy''])" "''i1''" ?data empty_api]
    by blast
qed

section \<open>The members of groups\<close>

primrec note_changes :: "client \<Rightarrow> group_change list \<Rightarrow> (api_state, unit) go" where
  "note_changes h [] = ret ()"
| "note_changes h (evt # evts) = bindg (updateGroupParticipantCache h evt) (\<lambda>_. note_changes h evts)"

definition known_members :: "client \<Rightarrow> api_state \<Rightarrow> jid \<Rightarrow> jid set option" where
  "known_members h s g = map_option (\<lambda>m. set (gmMembers m)) (csGroups (apClients s h) g)"

definition member_sets :: "group_change \<Rightarrow> (jid \<Rightarrow> jid set option) \<Rightarrow> jid \<Rightarrow> jid set option" where
  "member_sets evt M =
     M(geJID evt := map_option (\<lambda>A. (A \<union> set (geJoin evt)) - set (geLeave evt)) (M (geJID evt)))"

definition members_distinct :: "client \<Rightarrow> api_state \<Rightarrow> bool" where
  "members_distinct h s = (\<forall>g m. csGroups (apClients s h) g = Some m \<longrightarrow> distinct (gmMembers m))"

lemma note_one_change:
  assumes "updateGroupParticipantCache h evt s = (r, s')" and "members_distinct h s"
  shows "r = Return () \<and> known_members h s' = member_sets evt (known_members h s) \<and> members_distinct h s'"
proof (cases "geJoin evt = [] \<and> geLeave evt = []")
  case True
  with assms show ?thesis
    by (auto simp: updateGroupParticipantCache_def run_basic member_sets_def option.map_id [unfolded id_def])
next
  case False
  show ?thesis
  proof (cases "csGroups (apClients s h) (geJID evt)")
    case None
    with False assms show ?thesis
      by (auto simp: updateGroupParticipantCache_def bindg_def run_memory run_basic member_sets_def known_members_def
          fun_eq_iff)
  next
    case (Some cached)
    with assms(2) have "distinct (gmMembers cached)" by (auto simp: members_distinct_def)
    note updated_members_set [OF this, of evt]
    with False Some assms show ?thesis
      by (auto simp: updateGroupParticipantCache_def bindg_def run_memory run_change_client run_basic member_sets_def
          known_members_def members_distinct_def fun_eq_iff split: if_splits)
  qed
qed


definition sample_group :: jid where "sample_group = NewJID ''120363000000000001'' GroupServer"
definition phone_jid :: "string \<Rightarrow> jid" where "phone_jid u = NewJID u DefaultUserServer"


section \<open>Changes of a group\<close>

text \<open>The pairs of addresses that a change of a group teaches are those of the last element that
  lists members, when it is the last of the notification: the pairs of the elements before it are
  lost, although the members they list are reported.\<close>

theorem pairs_of_last_element:
  assumes "parseGroupChange xml n = Inr (evt, pairs)" and "GetChildren n = children @ [child]"
    and "Tag child \<in> {''add'', ''remove'', ''promote'', ''demote''}"
  shows "pairs = snd (parseParticipantList child)"
proof -
  have "change_loop xml (cs @ [child]) e ps = Inr (evt, pairs) \<Longrightarrow> ?thesis" for cs e ps
  proof (induction cs arbitrary: e ps)
    case Nil
    with assms(3) show ?case
      by (auto simp: change_child_def Let_def split: prod.splits if_splits)
  next
    case (Cons c cs)
    then show ?case by (auto split: sum.splits prod.splits if_splits)
  qed
  with assms(1,2) show ?thesis by (auto simp: parseGroupChange_def Let_def split: prod.splits if_splits)
qed

lemmas reader_defs = AttrGetter_def without_ok_def GetString_def GetJID_def GetInt64_def GetUnixTime_def
  attr_JID_def OptionalJID_def OptionalJIDOrEmpty_def

lemma sample_time: "atoi ''1700000000'' = Some 1700000000" "atoi ''1700000001'' = Some 1700000001"
  by (simp_all add: atoi_def digits_val_def is_digit_def digit_val_def)

lemma pairs_of_last_element_witness:
  "\<exists>evt. parseGroupChange (\<lambda>_. [])
     (Node ''notification'' [(''from'', VJid sample_group), (''t'', VStr ''1700000000'')]
        (VNodes [Node ''add'' [] (VNodes [Node ''participant''
                   [(''jid'', VJid (NewJID ''77'' HiddenUserServer)), (''phone_number'', VJid (phone_jid ''5511''))] VNil]),
                 Node ''remove'' [] (VNodes [Node ''participant'' [(''jid'', VJid (phone_jid ''22''))] VNil])]))
     = Inr (evt, []) \<and> geJoin evt = [NewJID ''77'' HiddenUserServer]"
proof -
  let ?last = "Node ''remove'' [] (VNodes [Node ''participant'' [(''jid'', VJid (phone_jid ''22''))] VNil])"
  let ?first = "Node ''add'' [] (VNodes [Node ''participant''
                   [(''jid'', VJid (NewJID ''77'' HiddenUserServer)), (''phone_number'', VJid (phone_jid ''5511''))] VNil])"
  let ?n = "Node ''notification'' [(''from'', VJid sample_group), (''t'', VStr ''1700000000'')] (VNodes [?first, ?last])"
  have "case parseGroupChange (\<lambda>_. []) ?n of Inl _ \<Rightarrow> False
    | Inr (evt, _) \<Rightarrow> geJoin evt = [NewJID ''77'' HiddenUserServer]"
    by (simp add: parseGroupChange_def reader_defs GetChildren_def change_child_def version_change_def
        parseParticipantList_def listed_member_def attr_jid_def attr_OK_def sample_time List.map_filter_simps
        emptyChange_def)
  then obtain evt pairs where run: "parseGroupChange (\<lambda>_. []) ?n = Inr (evt, pairs)"
    "geJoin evt = [NewJID ''77'' HiddenUserServer]" by (auto split: sum.splits)
  from pairs_of_last_element [OF run(1), of "[?first]" ?last]
  have "pairs = snd (parseParticipantList ?last)" by (simp add: GetChildren_def)
  also have "\<dots> = []" by code_simp
  finally show ?thesis using run by blast
qed

section \<open>Communities\<close>

lemma community_lists:
  assumes "community_loop link (gs @ [g]) ss fs s = (Return (successes, failures), s')"
  shows "successes = failures @ [JID_String (fst (utils_ParseJID g))]"
  using assms
proof (induction gs arbitrary: ss fs s)
  case Nil
  then show ?case by (auto simp: Let_def run_basic elim: bindE)
next
  case (Cons a gs)
  then show ?case by (auto simp: Let_def elim!: bindE)
qed

text \<open>C36: Whatever the server answers when groups are linked to a community, the list of successes in
  the reply is the list of failures with the last group of the request behind it; so a group that was
  linked is reported only when it is the last one, and groups that failed are reported as linked.\<close>

theorem reported_successes:
  assumes "CommunityAdd env i data s = (Return (successes, failures), s')" and "cmGroupJID data \<noteq> []"
  shows "successes = failures @ [JID_String (fst (utils_ParseJID (last (cmGroupJID data))))]"
proof -
  let ?gs = "butlast (cmGroupJID data) @ [last (cmGroupJID data)]"
  from assms(1) obtain h s0 where "with_jid ''error parse community jid'' (cmCommunityJID data)
      (\<lambda>j. community_loop (lib_LinkGroup (aeLib env) h j) (cmGroupJID data) [] []) s0 = (Return (successes, failures), s')"
    unfolding CommunityAdd_def community_change_def by (rule with_clientE)
  moreover obtain j ok where "utils_ParseJID (cmCommunityJID data) = (j, ok)"
    by (cases "utils_ParseJID (cmCommunityJID data)")
  ultimately have "community_loop (lib_LinkGroup (aeLib env) h j) (cmGroupJID data) [] [] s0
      = (Return (successes, failures), s')" by (cases ok) (simp_all add: with_jid_def run_basic)
  with assms(2) have "community_loop (lib_LinkGroup (aeLib env) h j) ?gs [] [] s0 = (Return (successes, failures), s')" by simp
  from community_lists [OF this] show ?thesis .
qed

lemma community_runs:
  "\<exists>ss' fs' s'. community_loop (lib_LinkGroup (sample_lib (result_iq ns)) h j) gs ss fs s = (Return (ss', fs'), s')"
proof (induction gs arbitrary: ss fs s)
  case (Cons g gs)
  let ?link = "lib_LinkGroup (sample_lib (result_iq ns)) h j (fst (utils_ParseJID g))"
  have "\<exists>s1. ?link s = (Return (Inr ()), s1)"
    unfolding lib_LinkGroup_def group_command_def sendGroupIQ_def
  proof -
    let ?q = "query ''w:g2'' iqSet j (VNodes [Node ''links'' [] (VNodes [Node ''link'' [(''link_type'', VStr ''sub_group'')]
      (VNodes [jid_node ''group'' ''jid'' (fst (utils_ParseJID g))])])])"
    from sample_query [of ns h ?q s] obtain s1 where "sendIQ (sample_lib (result_iq ns)) h ?q s =
      (Return (Inr (Node ''iq'' [(''type'', VStr ''result'')] (VNodes ns))), s1)" by blast
    then show "\<exists>s1. bindr (sendIQ (sample_lib (result_iq ns)) h ?q) (\<lambda>_. gives ()) s = (Return (Inr ()), s1)"
      by (simp add: run_bindr) (simp add: gives_def run_basic)
  qed
  then obtain s1 where "?link s = (Return (Inr ()), s1)" by blast
  with Cons.IH show ?case by (simp add: Let_def run_bindg)
qed (simp add: run_basic)

lemma reported_successes_witness:
  "\<exists>successes failures s'. CommunityAdd (sample_api (result_iq [])) ''i1'' \<lparr>cmCommunityJID = ''120363000000000001@g.us'',
      cmGroupJID = [''120363000000000002@g.us'', ''120363000000000003@g.us'']\<rparr> empty_api = (Return (successes, failures), s')
    \<and> successes = failures @ [''120363000000000003@g.us'']"
proof -
  let ?data = "\<lparr>cmCommunityJID = ''120363000000000001@g.us'',
      cmGroupJID = [''120363000000000002@g.us'', ''120363000000000003@g.us'']\<rparr>"
  have group: "utils_ParseJID ''120363000000000001@g.us'' = (NewJID ''120363000000000001'' GroupServer, True)"
    and shown: "JID_String (fst (utils_ParseJID ''120363000000000003@g.us'')) = ''120363000000000003@g.us''"
    by code_simp+
  from community_runs [of "[]" "Suc 0" "NewJID ''120363000000000001'' GroupServer" "cmGroupJID ?data" "[]" "[]" connected_api]
  obtain successes failures s' where "CommunityAdd (sample_api (result_iq [])) ''i1'' ?data empty_api = (Return (successes, failures), s')"
    by (auto simp: CommunityAdd_def community_change_def sample_connected with_jid_def group sample_parts)
  with reported_successes [OF this] shown show ?thesis by auto
qed

section \<open>The groups of an account\<close>

lemma own_number:
  assumes "list_all is_digit ds" "ds \<noteq> []" "length ds < 18" "d > 0"
  shows "utils_ParseJID (hd (split_char CHR ''.'' (JID_String (NewADJID ds 0 d))))
    = (NewJID (''+'' @ national_format ds) DefaultUserServer, True)"
proof -
  let ?n = "ds @ '':'' @ show_nat (unat d) @ ''@s''"
  have digits: "c \<in> set ds \<Longrightarrow> is_digit c" for c using assms(1) by (simp add: list_all_iff)
  have number: "c \<in> set (show_nat k) \<Longrightarrow> is_digit c" for c k
    using show_nat_digits [of k] by (simp add: list_all_iff)
  have free: "CHR ''.'' \<notin> set ?n" "CHR ''l'' \<notin> set ?n" "CHR ''b'' \<notin> set ?n"
    using digits [of "CHR ''.''"] digits [of "CHR ''l''"] digits [of "CHR ''b''"]
      number [of "CHR ''.''"] number [of "CHR ''l''"] number [of "CHR ''b''"] by (auto simp: is_digit_def)
  have "unat (ucast d :: 16 word) = unat d" using unsigned_less [of d, where ?'a = nat]
    by (simp add: unsigned_ucast_eq take_bit_nat_eq_self)
  moreover from this have "(ucast d :: 16 word) \<noteq> 0" using assms(4) by (metis unat_eq_zero word_gt_0)
  ultimately have "JID_String (NewADJID ds 0 d) = ?n @ CHR ''.'' # ''whatsapp.net''"
    by (simp add: JID_String_def NewADJID_def server_defs word_gt_0
        WhatsAppDomain_def LIDDomain_def HostedDomain_def HostedLIDDomain_def)
  with split_char_append [OF free(1), of "''whatsapp.net''"]
  have spelling: "hd (split_char CHR ''.'' (JID_String (NewADJID ds 0 d))) = ?n" by simp
  from free have plain: "\<not> jid_marker ?n" unfolding jid_marker_def by (auto dest!: str_contains_set)
  have "remove_char c ?n = ?n" if "c \<in> {CHR '')'', CHR ''('', CHR ''+'', CHR '' ''}" for c
    using that digits [of c] number [of c] by (intro remove_char_id) (auto simp: is_digit_def)
  moreover have "CHR '':'' \<notin> set ds" using digits [of "CHR '':''"] by (auto simp: is_digit_def)
  ultimately have "clean_number ?n = ds" by (simp add: clean_number_def split_char_append)
  with utils_ParseJID_phone [of ?n] plain assms show ?thesis unfolding spelling by (simp add: digit_chars_id)
qed

text \<open>C35: The groups an account owns are looked for by the address that \<open>utils.ParseJID\<close> makes of the
  account's own: its user starts with a plus sign, and only groups whose owner has that user are
  returned. A group whose owner is the account itself, in the form the server sends, is never among
  them.\<close>

theorem own_groups_missed:
  assumes "GetMyGroups env i s = (Return groups, s')"
    and "\<forall>t h. leOwnID (aeLib env) t h = Some (NewADJID ds 0 d)"
    and "list_all is_digit ds" "ds \<noteq> []" "length ds < 18" "d > 0"
  shows "\<forall>g \<in> set groups. User (giOwnerJID g) = ''+'' @ national_format ds \<and>
    giOwnerJID g \<noteq> ToNonAD (NewADJID ds 0 d)"
proof -
  from assms(1) obtain h s0 where "bindg (lib_call env (lib_GetJoinedGroups (aeLib env) h)) (\<lambda>resp.
      bindg (asks (\<lambda>t. leOwnID (aeLib env) t h)) (\<lambda>own. case own of None \<Rightarrow> crash | Some me \<Rightarrow>
        with_jid invalid_phone (hd (split_char CHR ''.'' (JID_String me))) (\<lambda>jidOfAdmin.
          ret (filter (\<lambda>g. giOwnerJID g = jidOfAdmin) resp)))) s0 = (Return groups, s')"
    unfolding GetMyGroups_def by (rule with_clientE)
  then have "giOwnerJID g = NewJID (''+'' @ national_format ds) DefaultUserServer" if "g \<in> set groups" for g
    using that assms(2) own_number [OF assms(3-6)]
    by (elim bindE) (auto simp: bindg_def run_asks with_jid_def run_basic)
  moreover have "ds \<noteq> ''+'' @ national_format ds" using assms(3) by (cases ds) (auto simp: is_digit_def)
  ultimately show ?thesis by (auto simp: NewJID_def ToNonAD_def NewADJID_def server_defs)
qed

definition own_group :: node where
  "own_group = Node ''group'' [(''id'', VStr ''120363000000000001''), (''creation'', VStr ''1700000000''),
     (''creator'', VJid (NewJID ''5511999990000'' DefaultUserServer))] VNil"

lemma joined_runs: "\<exists>x s'. joined_loop h ns ps rs infos s = (Return x, s')"
  by (induction ns arbitrary: ps rs infos s)
    (auto simp: Let_def bindg_def cacheGroupInfo_def run_change_client run_basic)

lemma own_groups_missed_witness:
  "\<exists>groups s'. GetMyGroups (sample_api (result_iq [Node ''groups'' [] (VNodes [own_group])])) ''i1'' empty_api
     = (Return groups, s') \<and> (\<forall>g \<in> set groups. User (giOwnerJID g) = ''+5511999990000'')"
proof -
  let ?w = "sample_lib (result_iq [Node ''groups'' [] (VNodes [own_group])])"
  let ?content = "Node ''participating'' [] (VNodes [empty_node ''participants'', empty_node ''description''])"
  from sample_query [of "[Node ''groups'' [] (VNodes [own_group])]" "Suc 0" "query ''w:g2'' iqGet GroupServerJID (VNodes [?content])" connected_api]
  obtain s1 where run: "sendGroupIQ ?w (Suc 0) iqGet GroupServerJID ?content connected_api = (Return (Inr
      (Node ''iq'' [(''type'', VStr ''result'')] (VNodes [Node ''groups'' [] (VNodes [own_group])]))), s1)"
    unfolding sendGroupIQ_def by blast
  from joined_runs [of "Suc 0" "[own_group]" "[]" "[]" "[]" s1] obtain pairs phones infos s2 where
    "joined_loop (Suc 0) [own_group] [] [] [] s1 = (Return (pairs, phones, infos), s2)" by auto
  then have "\<exists>s3. lib_GetJoinedGroups ?w (Suc 0) connected_api = (Return (Inr infos), s3)"
    by (simp add: lib_GetJoinedGroups_def run_bindr run child_of_def GetChildren_def run_bindg)
      (simp add: PutManyLIDMappings_def PutManyRedactedPhones_def sample_lib_def bindg_def run_perform gives_def run_basic)
  then obtain s3 where joined: "lib_GetJoinedGroups ?w (Suc 0) connected_api = (Return (Inr infos), s3)" by blast
  have digits: "list_all is_digit ''5511999990000''" by code_simp
  have own: "leOwnID ?w t h = Some (NewADJID ''5511999990000'' 0 3)" for t h by (simp add: sample_lib_def)
  have "\<exists>groups s'. GetMyGroups (sample_api (result_iq [Node ''groups'' [] (VNodes [own_group])])) ''i1'' empty_api
     = (Return groups, s')"
    using own_number [OF digits, of 3]
    by (simp add: GetMyGroups_def sample_connected sample_parts run_bindg run_lib_call joined run_asks own
        with_jid_def run_basic)
  then obtain groups s' where my: "GetMyGroups (sample_api (result_iq [Node ''groups'' [] (VNodes [own_group])])) ''i1'' empty_api
     = (Return groups, s')" by blast
  have "national_format ''5511999990000'' = ''5511999990000''" by code_simp
  with own_groups_missed [OF my _ digits, of 3] my own show ?thesis by (auto simp: sample_parts)
qed

section \<open>Receipts\<close>

text \<open>C37: When the messages of a group are marked as read, the last thing the client sends is a
  receipt that names the group itself as the sender of the messages.\<close>

theorem group_receipt_names_group:
  assumes "MarkRead env i data s = (Return r, s')" and "utils_ParseJID (mrNumber data) = (g, True)"
    and "Server g = GroupServer"
  shows "\<exists>h n. last (apOps s') = (h, OpNode n) \<and> apOps s' \<noteq> [] \<and> Tag n = ''receipt'' \<and>
    map_of (Attrs n) ''to'' = Some (VJid g) \<and> map_of (Attrs n) ''participant'' = Some (VJid (ToNonAD g))"
proof -
  from assms(1) obtain h s0 where "with_jid invalid_phone (mrNumber data) (\<lambda>j.
     bindg (asks (\<lambda>t. leNow (aeLib env) t)) (\<lambda>now.
     attempt (lib_call env (lib_MarkRead (aeLib env) h (mrId data) (now div 1000) j j ''read'')) (\<lambda>r.
       case r of Inl _ \<Rightarrow> raise ''error marking message as read'' | Inr _ \<Rightarrow> ret zero_time))) s0 = (Return r, s')"
    unfolding MarkRead_def by (rule with_clientE)
  with assms(2) obtain now s1 where
    "attempt (lib_call env (lib_MarkRead (aeLib env) h (mrId data) (now div 1000) g g ''read'')) (\<lambda>r.
       case r of Inl _ \<Rightarrow> raise ''error marking message as read'' | Inr _ \<Rightarrow> ret zero_time) s1 = (Return r, s')"
    by (auto simp: with_jid_def elim: bindE)
  then have "lib_call env (lib_MarkRead (aeLib env) h (mrId data) (now div 1000) g g ''read'') s1 = (Return (), s')"
    by (rule attemptE) (auto simp: run_basic)
  from lib_callE [OF this] obtain kind s2 where
    "sendNode (aeLib env) h (receipt_node (mrId data) (now div 1000) g g kind) s2 = (Return (Inr ()), s')"
    unfolding lib_MarkRead_def by (auto simp: fails_def run_basic split: if_splits elim!: bindE)
  then have "apOps s' = apOps s2 @ [(h, OpNode (receipt_node (mrId data) (now div 1000) g g kind))]"
    by (auto simp: sendNode_def bindg_def run_asks run_perform gives_def fails_def run_basic split: option.splits)
  with assms(3) show ?thesis by (auto simp: receipt_node_def IsEmpty_def server_defs MessengerServer_def)
qed

lemma group_receipt_names_group_witness:
  "\<exists>s' h n. MarkRead (sample_api (result_iq [])) ''i1'' \<lparr>mrId = [''A''], mrNumber = ''120363000000000001@g.us''\<rparr> empty_api
     = (Return zero_time, s') \<and> last (apOps s') = (h, OpNode n) \<and> Tag n = ''receipt'' \<and>
     map_of (Attrs n) ''participant'' = Some (VJid (NewJID ''120363000000000001'' GroupServer))"
proof -
  let ?w = "sample_lib (result_iq [])" and ?g = "NewJID ''120363000000000001'' GroupServer"
  let ?data = "\<lparr>mrId = [''A''], mrNumber = ''120363000000000001@g.us''\<rparr>"
  have group: "utils_ParseJID (mrNumber ?data) = (?g, True)" by code_simp
  have sent: "\<exists>s'. sendNode ?w h n s = (Return (Inr ()), s')" for h n s
    by (simp add: sendNode_def bindg_def run_asks run_perform gives_def run_basic sample_lib_def)
  have privacy: "\<exists>p s'. lib_GetPrivacySettings ?w h s = (Return p, s')" for h s
  proof -
    from sample_query [of "[]" h "query ''privacy'' iqGet ServerJID (VNodes [empty_node ''privacy''])" s]
    obtain s1 where run: "sendIQ ?w h (query ''privacy'' iqGet ServerJID (VNodes [empty_node ''privacy''])) s =
      (Return (Inr (Node ''iq'' [(''type'', VStr ''result'')] (VNodes []))), s1)" by blast
    show ?thesis
      by (simp add: lib_GetPrivacySettings_def TryFetchPrivacySettings_def bindg_def run_memory run_bindr run child_of_def
          GetChildren_def gives_def fails_def bindr_def run_basic split: option.split)
  qed
  have "\<exists>s'. lib_MarkRead ?w h [''A''] t ?g ?g k s = (Return (Inr ()), s')" for h t k s
  proof -
    from privacy [of h s] obtain p s1 where "lib_GetPrivacySettings ?w h s = (Return p, s1)" by blast
    then show ?thesis using sent [of h _ s1]
      by (simp add: lib_MarkRead_def NewsletterServer_def server_defs NewJID_def bindg_def run_basic)
  qed
  then obtain s1 where "lib_MarkRead ?w (Suc 0) [''A''] 1 ?g ?g ''read'' (next_tick connected_api) = (Return (Inr ()), s1)"
    by blast
  then have call: "lib_call (sample_api (result_iq [])) (lib_MarkRead ?w (Suc 0) [''A''] 1 ?g ?g ''read'') (next_tick connected_api)
    = (Return (), s1)" by (simp add: run_lib_call)
  have now: "leNow ?w t = 1000" for t by (simp add: sample_lib_def)
  have "\<exists>s'. MarkRead (sample_api (result_iq [])) ''i1'' ?data empty_api = (Return zero_time, s')"
    using group call
    by (simp add: MarkRead_def sample_connected with_jid_def run_bindg run_asks sample_parts now attempt_def run_basic)
  then obtain s' where run: "MarkRead (sample_api (result_iq [])) ''i1'' ?data empty_api = (Return zero_time, s')" by blast
  have "Server ?g = GroupServer" "ToNonAD ?g = ?g" by (simp_all add: NewJID_def ToNonAD_def)
  with group_receipt_names_group [OF run group] run show ?thesis by auto
qed

lemma delivered_items:
  assumes "[] \<notin> set ids"
  shows "List.map_filter (\<lambda>i. if Tag i = ''item'' then attr_string i ''id'' else None)
    (delivered_nodes (map (\<lambda>i. Node ''item'' [(''id'', VStr i)] VNil) ids)) = ids"
  using assms by (induction ids) (auto simp: attr_string_def skipped_attr_def text_form_def List.map_filter_simps)

text \<open>C15: The identifiers of the messages that a receipt confirms survive the binary format: what the
  reader of receipts finds in the unmarshalled element are the identifiers that were sent, in their
  order, the first of them in the attribute of the element and the others in its list.\<close>

theorem receipt_ids_round_trip:
  assumes "encodable_node (receipt_node ids t chat sender kind)" and "ids \<noteq> []" and "[] \<notin> set ids"
  shows "\<exists>data body n. Marshal (receipt_node ids t chat sender kind) = Return data \<and>
    Unpack inflate data = Return body \<and> Unmarshal body = Return n \<and>
    listed_ids (fst (req_string ''id'' (AttrGetter n))) (GetChildren n) = ids"
proof -
  let ?n = "receipt_node ids t chat sender kind"
  obtain i rest where ids: "ids = i # rest" using assms(2) by (cases ids) auto
  from marshal_body [OF assms(1)] obtain body where body: "Marshal ?n = Return (byte 0 # body)"
    "\<And>f. length body \<le> f \<Longrightarrow> reads (readNode (read f)) body (delivered_node ?n)" by blast
  from unmarshal_body [OF body(2)] have "Unmarshal body = Return (delivered_node ?n)" .
  moreover have "Unpack inflate (byte 0 # body) = Return body" by (simp add: Unpack_def)
  moreover have "fst (req_string ''id'' (AttrGetter (delivered_node ?n))) = i"
    using assms(3) by (auto simp: ids receipt_node_def AttrGetter_def without_ok_def GetString_def skipped_attr_def
        text_form_def)
  moreover have "listed_ids i (GetChildren (delivered_node ?n)) = ids"
  proof (cases rest)
    case (Cons j js)
    with assms(3) delivered_items [of rest] show ?thesis
      by (simp add: ids receipt_node_def GetChildren_def listed_ids_def skipped_attr_def)
  qed (simp add: ids receipt_node_def GetChildren_def listed_ids_def)
  ultimately show ?thesis using body(1) by auto
qed

lemma opt_string_attrs: "auAttrs (snd (opt_string key au)) = auAttrs au"
  by (simp add: without_ok_def GetString_def add_error_def split: option.split bvalue.split)

lemma unlisted_group_source:
  assumes "map_of (Attrs n) ''participant'' = None" "map_of (Attrs n) ''from'' = Some (VJid g)" "Server g = GroupServer"
    and "parseMessageSource clientID EmptyJID n False = Inr source"
  shows "srcIsFromMe source \<and> srcChat source = g \<and> srcIsGroup source \<and> IsEmpty (srcSender source)"
proof -
  obtain mode a1 where mode: "opt_string ''addressing_mode'' (AttrGetter n) = (mode, a1)"
    by (cases "opt_string ''addressing_mode'' (AttrGetter n)")
  with opt_string_attrs [of "''addressing_mode''" "AttrGetter n"] have attrs: "auAttrs a1 = Attrs n"
    by (simp add: AttrGetter_def)
  have sender: "OptionalJIDOrEmpty ''participant'' a1 = (EmptyJID, a1)"
    using assms(1) by (simp add: OptionalJIDOrEmpty_def GetJID_def attrs)
  have chat: "attr_JID ''from'' (AttrGetter n) = (g, AttrGetter n)"
    using assms(2) by (simp add: attr_JID_def GetJID_def AttrGetter_def)
  let ?key = "if mode = ''lid'' then ''participant_pn'' else ''participant_lid''"
  obtain alt a2 where "OptionalJIDOrEmpty ?key a1 = (alt, a2)" by (cases "OptionalJIDOrEmpty ?key a1")
  then have "group_source clientID EmptyJID n False g (zeroSource\<lparr>srcAddressingMode := mode\<rparr>) a1 =
    (zeroSource\<lparr>srcAddressingMode := mode, srcIsGroup := True, srcChat := g, srcSender := EmptyJID,
       srcSenderAlt := alt, srcIsFromMe := True\<rparr>, a2)"
    using assms(3) by (auto simp: group_source_def sender EmptyJID_def server_defs)
  with assms(3,4) show ?thesis
    by (auto simp: parseMessageSource_def mode chat Let_def IsEmpty_def EmptyJID_def split: if_splits option.splits)
qed

lemma grouped_source:
  assumes "r \<in> set (handleGroupedReceipt p participants)"
  shows "srcIsFromMe (rcpSource r) = srcIsFromMe (rcpSource p)" "srcChat (rcpSource r) = srcChat (rcpSource p)"
  using assms by (auto simp: handleGroupedReceipt_def grouped_receipt_def Let_def split: prod.splits if_splits)

lemma receipt_ids_round_trip_witness:
  "\<exists>data body n. Marshal (receipt_node [''A1'', ''B2'', ''C3''] 1700000000 sample_group sample_group ''read'') = Return data \<and>
    Unpack (\<lambda>_. Err []) data = Return body \<and> Unmarshal body = Return n \<and>
    listed_ids (fst (req_string ''id'' (AttrGetter n))) (GetChildren n) = [''A1'', ''B2'', ''C3'']"
proof (rule receipt_ids_round_trip)
  show "encodable_node (receipt_node [''A1'', ''B2'', ''C3''] 1700000000 sample_group sample_group ''read'')"
    by (simp add: receipt_node_def sample_group_def NewJID_def ToNonAD_def short_def MaxInt32_def countAttributes_def
        skipped_attr_def server_defs)
qed simp_all

text \<open>C38: While the account has no hidden address stored, every receipt of a group that lists the users
  who got the message counts as a receipt of the account itself: the users without a sender are
  compared with the empty user of the missing address.\<close>

theorem grouped_receipt_from_me:
  assumes "parseReceipt clientID EmptyJID n = Inr receipts" and "map_of (Attrs n) ''participant'' = None"
    and "map_of (Attrs n) ''from'' = Some (VJid g)" and "Server g = GroupServer"
  shows "\<forall>r \<in> set receipts. srcIsFromMe (rcpSource r) \<and> srcChat (rcpSource r) = g"
proof -
  from assms(1) obtain source where source: "parseMessageSource clientID EmptyJID n False = Inr source"
    by (auto simp: parseReceipt_def split: sum.splits)
  from unlisted_group_source [OF assms(2-4) source] have facts: "srcIsFromMe source" "srcChat source = g"
    "srcIsGroup source" "IsEmpty (srcSender source)" by simp_all
  show ?thesis
  proof
    fix r
    assume r: "r \<in> set receipts"
    obtain p where p: "rcpSource p = source"
      and cases: "(case GetChildrenByTag n ''participants'' of [] \<Rightarrow> Inl (ElementMissing ''participants'' ''grouped receipt'')
        | pcps \<Rightarrow> Inr (concat (map (handleGroupedReceipt p) pcps))) = Inr receipts"
    proof -
      obtain t a1 where 1: "req_time ''t'' (AttrGetter n) = (t, a1)" by (cases "req_time ''t'' (AttrGetter n)")
      obtain k a2 where 2: "opt_string ''type'' a1 = (k, a2)" by (cases "opt_string ''type'' a1")
      obtain j a3 where 3: "OptionalJIDOrEmpty ''recipient'' a2 = (j, a3)" by (cases "OptionalJIDOrEmpty ''recipient'' a2")
      show thesis using assms(1) facts
        by (intro that [of "\<lparr>rcpSource = source, rcpMessageIDs = [], rcpTimestamp = t, rcpType = k, rcpMessageSender = j\<rparr>"])
          (simp_all add: parseReceipt_def source 1 2 3)
    qed
    from cases r obtain pcp where "r \<in> set (handleGroupedReceipt p pcp)" by (auto split: list.splits)
    from grouped_source [OF this] p facts show "srcIsFromMe (rcpSource r) \<and> srcChat (rcpSource r) = g" by simp
  qed
qed

lemma grouped_receipt_from_me_witness:
  "\<exists>r. parseReceipt (phone_jid ''5511'') EmptyJID
     (Node ''receipt'' [(''from'', VJid sample_group), (''id'', VStr ''A''), (''t'', VStr ''1700000000'')]
        (VNodes [Node ''participants'' [(''key'', VStr ''A'')]
           (VNodes [Node ''user'' [(''jid'', VJid (phone_jid ''22'')), (''t'', VStr ''1700000001'')] VNil])])) = Inr [r]
     \<and> srcSender (rcpSource r) = phone_jid ''22'' \<and> srcIsFromMe (rcpSource r)"
proof -
  let ?n = "Node ''receipt'' [(''from'', VJid sample_group), (''id'', VStr ''A''), (''t'', VStr ''1700000000'')]
        (VNodes [Node ''participants'' [(''key'', VStr ''A'')]
           (VNodes [Node ''user'' [(''jid'', VJid (phone_jid ''22'')), (''t'', VStr ''1700000001'')] VNil])])"
  have "case parseReceipt (phone_jid ''5511'') EmptyJID ?n of Inr [r] \<Rightarrow> srcSender (rcpSource r) = phone_jid ''22''
    | _ \<Rightarrow> False"
    by (simp add: parseReceipt_def parseMessageSource_def group_source_def reader_defs GetChildren_def attr_Error_def
        attr_OK_def sample_time handleGroupedReceipt_def grouped_receipt_def GetChildrenByTag_def IsEmpty_def
        EmptyJID_def phone_jid_def sample_group_def NewJID_def server_defs zeroSource_def Let_def)
  then obtain r where run: "parseReceipt (phone_jid ''5511'') EmptyJID ?n = Inr [r]" "srcSender (rcpSource r) = phone_jid ''22''"
    by (auto split: sum.splits list.splits)
  have "Server sample_group = GroupServer" by (simp add: sample_group_def NewJID_def)
  with grouped_receipt_from_me [OF run(1), of sample_group] run show ?thesis by auto
qed

section \<open>Waiting for answers\<close>

definition always_answered :: "lib_env \<Rightarrow> client \<Rightarrow> bool" where
  "always_answered env h = (\<forall>t i. leWait env t h i = IQStreamEnd \<or> (\<exists>n. leWait env t h i = IQResponse n))"

definition waiting :: "client \<Rightarrow> api_state \<Rightarrow> string set" where
  "waiting h s = set (csWaiters (apClients s h))"

lemma waiting_steps [simp]:
  "waiting h (next_tick s) = waiting h s" "waiting h (s\<lparr>apOps := os\<rparr>) = waiting h s"
  by (simp_all add: waiting_def)

lemma run_waiters:
  "\<exists>s1. waitResponse h i s = (Return (), s1) \<and> waiting h s1 = insert i (waiting h s)"
  "\<exists>s1. dropWaiter h i s = (Return (), s1) \<and> waiting h s1 = waiting h s - {i}"
  "\<exists>s1. clearResponseWaiters h s = (Return (), s1) \<and> waiting h s1 = {}"
  by (auto simp: waitResponse_def dropWaiter_def clearResponseWaiters_def run_change_client waiting_def)

text \<open>An answer takes the waiter it belongs to from the table, the end of the stream all of them.\<close>

lemma await_answered:
  assumes "always_answered env h"
  shows "\<exists>a s'. await env h i s = (Return a, s') \<and> waiting h s' \<subseteq> waiting h s - {i} \<and>
    (isDisconnect a \<or> (\<exists>n. a = IQResponse n))"
proof -
  let ?a = "leWait env (wTick (apWorld s)) h i"
  from assms have "?a = IQStreamEnd \<or> (\<exists>n. ?a = IQResponse n)" by (simp add: always_answered_def)
  then have "isDisconnect ?a \<or> \<not> isDisconnect ?a \<and> (\<exists>n. ?a = IQResponse n)"
    by (auto simp: isDisconnect_def)
  then consider "isDisconnect ?a" | n where "\<not> isDisconnect ?a" "?a = IQResponse n" by blast
  then show ?thesis
  proof cases
    case 1
    from run_waiters(3) [of h "next_tick s"] obtain s1 where
      "clearResponseWaiters h (next_tick s) = (Return (), s1)" "waiting h s1 = {}" by blast
    with 1 show ?thesis by (intro exI [of _ ?a] exI [of _ s1]) (simp add: await_def bindg_def run_asks run_basic)
  next
    case 2
    from run_waiters(2) [of h i "next_tick s"] obtain s1 where
      "dropWaiter h i (next_tick s) = (Return (), s1)" "waiting h s1 = waiting h s - {i}" by auto
    with 2 show ?thesis by (intro exI [of _ ?a] exI [of _ s1]) (simp add: await_def bindg_def run_asks run_basic)
  qed
qed

lemma send_waiting:
  "\<exists>r s'. sendNode env h n s = (Return r, s') \<and> waiting h s' = waiting h s"
  by (auto simp: sendNode_def bindg_def run_asks run_perform gives_def fails_def run_basic split: option.split)

lemma request_id_waiting: "\<exists>i s'. generateRequestID env h s = (Return i, s') \<and> waiting h s' = waiting h s"
  by (simp add: generateRequestID_def bindg_def run_change_client run_memory run_basic waiting_def)

lemma iq_result_same: "\<exists>r. iq_result n s = (Return r, s)"
  by (simp add: iq_result_def Let_def fails_def gives_def run_basic)

lemma async_waiting:
  obtains (sent) i n s' where "sendIQAsyncAndGetData env h q s = (Return (Inr (i, n)), s')"
      "waiting h s' \<subseteq> insert i (waiting h s)"
    | (not_sent) e s' where "sendIQAsyncAndGetData env h q s = (Return (Inl e), s')" "waiting h s' \<subseteq> waiting h s"
proof -
  obtain i s1 where i: "(if iqID q = [] then generateRequestID env h else ret (iqID q)) s = (Return i, s1)"
    "waiting h s1 = waiting h s"
    using request_id_waiting [of env h s] by (cases "iqID q = []") (auto simp: run_basic)
  from run_waiters(1) [of h i s1] obtain s2 where w: "waitResponse h i s1 = (Return (), s2)"
    "waiting h s2 = insert i (waiting h s1)" by blast
  from send_waiting [of env h "iq_node q i" s2] obtain r s3 where
    n: "sendNode env h (iq_node q i) s2 = (Return r, s3)" "waiting h s3 = waiting h s2" by blast
  show thesis
  proof (cases r)
    case (Inl e)
    from run_waiters(2) [of h i s3] obtain s4 where "dropWaiter h i s3 = (Return (), s4)"
      "waiting h s4 = waiting h s3 - {i}" by blast
    with i w n Inl show thesis
      by (intro not_sent [of e s4]) (auto simp: sendIQAsyncAndGetData_def bindg_def fails_def run_basic)
  next
    case (Inr u)
    with i w n show thesis
      by (intro sent [of i "iq_node q i" s3]) (auto simp: sendIQAsyncAndGetData_def bindg_def gives_def run_basic)
  qed
qed

lemma retry_waiting:
  assumes "always_answered env h"
  shows "\<exists>r s'. retryFrame env h k i n a s = (Return r, s') \<and> waiting h s' \<subseteq> waiting h s"
proof -
  let ?s = "next_tick (next_tick s)"
  from run_waiters(1) [of h i ?s] obtain s1 where w: "waitResponse h i ?s = (Return (), s1)"
    "waiting h s1 = insert i (waiting h s)" by auto
  from run_waiters(2) [of h i "next_tick s1"] obtain s2 where d: "dropWaiter h i (next_tick s1) = (Return (), s2)"
    "waiting h s2 \<subseteq> waiting h s" using w by auto
  let ?t = "(next_tick s1)\<lparr>apOps := apOps s1 @ [(h, OpNode n)]\<rparr>"
  from await_answered [OF assms, of i ?t] w obtain b s3 where b: "await env h i ?t = (Return b, s3)"
    "waiting h s3 \<subseteq> waiting h s" "isDisconnect b \<or> (\<exists>m. b = IQResponse m)" by auto
  show ?thesis
    using w d b by (auto simp: retryFrame_def bindg_def run_asks run_perform run_basic fails_def gives_def
        split: option.split)
qed

text \<open>C14: A query of the client library that is answered, by a response or by the end of the stream,
  leaves no identifier in the table of waiting queries that was not there before: on a response, after
  a failed sending, after a disconnection and after the second attempt.\<close>

theorem answered_queries_do_not_wait:
  assumes "always_answered env h" and "sendIQ env h q s = (r, s')"
  shows "waiting h s' \<subseteq> waiting h s"
proof (cases rule: async_waiting [of env h q s])
  case (not_sent e s1)
  with assms(2) show ?thesis by (simp add: sendIQ_def run_bindr_error)
next
  case (sent i n s1)
  from await_answered [OF assms(1), of i s1] sent(2) obtain a s2 where a: "await env h i s1 = (Return a, s2)"
    "waiting h s2 \<subseteq> waiting h s" "isDisconnect a \<or> (\<exists>m. a = IQResponse m)" by blast
  from retry_waiting [OF assms(1), of "''info query''" i n a s2] obtain x s3 where
    x: "retryFrame env h ''info query'' i n a s2 = (Return x, s3)" "waiting h s3 \<subseteq> waiting h s2" by blast
  have next_step: "sendIQ env h q s = (if isDisconnect a then
      (if iqNoRetry q then fails (Disconnected ''info query'')
       else bindr (retryFrame env h ''info query'' i n a) iq_result)
     else case a of IQResponse res \<Rightarrow> iq_result res | IQCancelled e \<Rightarrow> fails (Plain e) | _ \<Rightarrow> fails ErrIQTimedOut) s2"
    unfolding sendIQ_def by (simp add: run_bindr sent(1) run_bindg a(1))
  have retried: "\<exists>y. bindr (retryFrame env h ''info query'' i n a) iq_result s2 = (Return y, s3)"
    using x(1) iq_result_same [of _ s3] by (cases x) (simp_all add: run_bindr run_bindr_error)
  have "s' = s2 \<or> s' = s3"
  proof (cases "isDisconnect a")
    case True
    with assms(2) retried show ?thesis by (auto simp: next_step fails_def run_basic split: if_splits)
  next
    case False
    with a(3) obtain m where "a = IQResponse m" by blast
    with False assms(2) iq_result_same [of m s2] show ?thesis by (auto simp: next_step)
  qed
  with a(2) x(2) show ?thesis by auto
qed

lemma answered_queries_do_not_wait_witness:
  "\<exists>n s'. sendIQ (sample_lib (result_iq [])) 1 (query ''privacy'' iqGet ServerJID VNil) empty_api = (Return (Inr n), s') \<and>
    waiting 1 s' = {}"
proof -
  have "always_answered (sample_lib (result_iq [])) 1" by (simp add: always_answered_def sample_lib_def result_iq_def)
  moreover from sample_query [of "[]" 1 "query ''privacy'' iqGet ServerJID VNil" empty_api] obtain n s' where
    run: "sendIQ (sample_lib (result_iq [])) 1 (query ''privacy'' iqGet ServerJID VNil) empty_api = (Return (Inr n), s')" by blast
  ultimately have "waiting 1 s' \<subseteq> waiting 1 empty_api" by (rule answered_queries_do_not_wait)
  with run show ?thesis by (auto simp: waiting_def empty_api_def newClient_def)
qed

end
