(* ===== verification/SendHandler.thy ===== *)
theory SendHandler
  imports ApiHandlers SendProperties
begin

text \<open>
  The handlers in front of the send service, \<open>pkg/sendMessage/handler/send_handler.go\<close>, with
  \<open>serve_send\<close> as the table of the send routes behind the authentication and the validation of numbers.
  The theorem follows a request from its body to the message that leaves the process.
\<close>

section \<open>The handlers\<close>

definition handle_SendText :: "env \<Rightarrow> send_config \<Rightarrow> Instance \<Rightarrow> TextStruct body \<Rightarrow> (world, MessageSendStruct reply) go" where
  "handle_SendText env cfg instnc body =
     with_body body (\<lambda>data.
       required
         [(sdNumber data = [], ''phone number is required''),
          (tsText data = [], ''message body is required'')]
         (reply_server (SendText env cfg data instnc)))"

definition handle_SendLink :: "env \<Rightarrow> send_config \<Rightarrow> Instance \<Rightarrow> LinkStruct body \<Rightarrow> (world, MessageSendStruct reply) go" where
  "handle_SendLink env cfg instnc body =
     with_body body (\<lambda>data.
       required
         [(sdNumber data = [], ''phone number is required''),
          (lsText data = [], ''message body is required'')]
         (reply_server (SendLink env cfg data instnc)))"

text \<open>The fields of a form, absent ones empty, and what \<open>FormFile\<close>, \<open>Open\<close> and \<open>ReadAll\<close> make of the
  file.\<close>

datatype form_file = NoFile | CannotOpen | CannotRead | FileBytes string

record media_form =
  mfNumber :: string
  mfType :: string
  mfCaption :: string
  mfFilename :: string
  mfId :: string
  mfDelay :: string
  mfFile :: form_file

datatype media_request = MediaForm media_form | MediaJson "MediaStruct body"

text \<open>\<open>strconv.ParseInt(s, 10, 32)\<close>.\<close>

definition parse_int32 :: "string \<Rightarrow> int option" where
  "parse_int32 s =
     (case atoi s of
        Some i \<Rightarrow> if - (2 ^ 31) \<le> i \<and> i < 2 ^ 31 then Some i else None
      | None \<Rightarrow> None)"

definition form_delay :: "string \<Rightarrow> int option" where
  "form_delay delayStr = (if delayStr \<noteq> [] then parse_int32 delayStr else Some 0)"

definition form_data :: "media_form \<Rightarrow> int \<Rightarrow> MediaStruct" where
  "form_data form delay =
     \<lparr>sdId = mfId form, sdNumber = mfNumber form, sdDelay = delay, sdMentionAll = False, sdMentionedJID = [],
      sdFormatJid = None, sdQuotedMessageID = [], sdQuotedParticipant = [],
      msUrl = [], msType = mfType form, msCaption = mfCaption form, msFilename = mfFilename form\<rparr>"

definition handle_media_form :: "env \<Rightarrow> send_config \<Rightarrow> Instance \<Rightarrow> media_form \<Rightarrow> (world, MessageSendStruct reply) go" where
  "handle_media_form env cfg instnc form =
     required
       [(mfNumber form = [], ''phone number is required''),
        (mfType form = [], ''media type is required''),
        (form_delay (mfDelay form) = None, ''invalid delay''),
        (mfFile form = NoFile, ''file is required'')]
       (case (mfFile form, form_delay (mfDelay form)) of
          (FileBytes fileBytes, Some delay) \<Rightarrow>
            reply_server (SendMediaFile env cfg (form_data form delay) fileBytes instnc)
        | (CannotRead, _) \<Rightarrow> ret (ServerError ''cannot read file'')
        | _ \<Rightarrow> ret (ServerError ''cannot open file''))"

definition handle_SendMedia :: "env \<Rightarrow> send_config \<Rightarrow> Instance \<Rightarrow> media_request \<Rightarrow> (world, MessageSendStruct reply) go" where
  "handle_SendMedia env cfg instnc request =
     (case request of
        MediaForm form \<Rightarrow> handle_media_form env cfg instnc form
      | MediaJson body \<Rightarrow>
          with_body body (\<lambda>data.
            required
              [(sdNumber data = [], ''phone number is required''),
               (msUrl data = [], ''URL is required''),
               (msType data = [], ''media type is required'')]
              (reply_server (SendMediaUrl env cfg data instnc))))"

definition handle_SendPoll :: "env \<Rightarrow> send_config \<Rightarrow> Instance \<Rightarrow> PollStruct body \<Rightarrow> (world, MessageSendStruct reply) go" where
  "handle_SendPoll env cfg instnc body =
     with_body body (\<lambda>data.
       required
         [(sdNumber data = [], ''phone number is required''),
          (psQuestion data = [], ''question is required''),
          (length (psOptions data) < 2, ''minimum 2 options are required'')]
         (reply_server (SendPoll env cfg data instnc)))"

definition handle_SendSticker :: "env \<Rightarrow> send_config \<Rightarrow> Instance \<Rightarrow> StickerStruct body \<Rightarrow> (world, MessageSendStruct reply) go" where
  "handle_SendSticker env cfg instnc body =
     with_body body (\<lambda>data.
       required
         [(sdNumber data = [], ''phone number is required''),
          (ssSticker data = [], ''sticker is required'')]
         (reply_server (SendSticker env cfg data instnc)))"

text \<open>A \<open>float64\<close> is its bits; both zeros are equal to 0.\<close>

definition float_zero :: "64 word \<Rightarrow> bool" where
  "float_zero bits = (bits = 0 \<or> bits = 2 ^ 63)"

definition handle_SendLocation :: "env \<Rightarrow> send_config \<Rightarrow> Instance \<Rightarrow> LocationStruct body \<Rightarrow> (world, MessageSendStruct reply) go" where
  "handle_SendLocation env cfg instnc body =
     with_body body (\<lambda>data.
       required
         [(sdNumber data = [], ''phone number is required''),
          (float_zero (lcsLatitude data), ''latitude is required''),
          (float_zero (lcsLongitude data), ''longitude is required''),
          (lcsAddress data = [], ''address is required''),
          (lcsName data = [], ''name is required'')]
         (reply_server (SendLocation env cfg data instnc)))"

definition handle_SendContact :: "env \<Rightarrow> send_config \<Rightarrow> Instance \<Rightarrow> ContactStruct body \<Rightarrow> (world, MessageSendStruct reply) go" where
  "handle_SendContact env cfg instnc body =
     with_body body (\<lambda>data.
       required
         [(sdNumber data = [], ''phone number is required''),
          (Phone (csVcard data) = [], ''contact phone number is required''),
          (FullName (csVcard data) = [], ''contact full name is required'')]
         (reply_server (SendContact env cfg data instnc)))"

definition handle_SendButton :: "env \<Rightarrow> send_config \<Rightarrow> Instance \<Rightarrow> ButtonStruct body \<Rightarrow> (world, MessageSendStruct reply) go" where
  "handle_SendButton env cfg instnc body =
     with_body body (\<lambda>data.
       required
         [(sdNumber data = [], ''phone number is required''),
          (bsTitle data = [], ''title is required''),
          (bsDescription data = [], ''description is required''),
          (bsFooter data = [], ''footer is required'')]
         (reply_server (SendButton env cfg data instnc)))"

definition handle_SendList :: "env \<Rightarrow> send_config \<Rightarrow> Instance \<Rightarrow> ListStruct body \<Rightarrow> (world, MessageSendStruct reply) go" where
  "handle_SendList env cfg instnc body =
     with_body body (\<lambda>data.
       required
         [(sdNumber data = [], ''phone number is required''),
          (liTitle data = [], ''title is required''),
          (liDescription data = [], ''description is required''),
          (liFooterText data = [], ''footer is required''),
          (liButtonText data = [], ''button text is required'')]
         (reply_server (SendList env cfg data instnc)))"

datatype send_request =
    PostText "TextStruct body"
  | PostLink "LinkStruct body"
  | PostMedia media_request
  | PostPoll "PollStruct body"
  | PostSticker "StickerStruct body"
  | PostLocation "LocationStruct body"
  | PostContact "ContactStruct body"
  | PostButton "ButtonStruct body"
  | PostList "ListStruct body"

fun serve_send :: "env \<Rightarrow> send_config \<Rightarrow> Instance \<Rightarrow> send_request \<Rightarrow> (world, MessageSendStruct reply) go" where
  "serve_send env cfg i (PostText b) = handle_SendText env cfg i b"
| "serve_send env cfg i (PostLink b) = handle_SendLink env cfg i b"
| "serve_send env cfg i (PostMedia m) = handle_SendMedia env cfg i m"
| "serve_send env cfg i (PostPoll b) = handle_SendPoll env cfg i b"
| "serve_send env cfg i (PostSticker b) = handle_SendSticker env cfg i b"
| "serve_send env cfg i (PostLocation b) = handle_SendLocation env cfg i b"
| "serve_send env cfg i (PostContact b) = handle_SendContact env cfg i b"
| "serve_send env cfg i (PostButton b) = handle_SendButton env cfg i b"
| "serve_send env cfg i (PostList b) = handle_SendList env cfg i b"

text \<open>Buttons and lists are sent without an event.\<close>

fun reports_event :: "send_request \<Rightarrow> bool" where
  "reports_event (PostButton b) = False"
| "reports_event (PostList b) = False"
| "reports_event _ = True"

section \<open>What a request causes\<close>

text \<open>What a sending does, with the event or without one, and what the reply to it says.\<close>

definition one_sent :: "bool \<Rightarrow> send_config \<Rightarrow> Instance \<Rightarrow> MessageSendStruct \<Rightarrow> world \<Rightarrow> world \<Rightarrow> bool" where
  "one_sent reported cfg i s w w' =
     ((\<exists>m. wSent w' = wSent w @ [m] \<and> msMessage s = smMessage m) \<and>
      (if reported then published cfg i w w' else unpublished w w'))"

definition send_outcome :: "bool \<Rightarrow> send_config \<Rightarrow> Instance \<Rightarrow> MessageSendStruct outcome \<Rightarrow> world \<Rightarrow> world \<Rightarrow> bool" where
  "send_outcome reported cfg i r w w' =
     (case r of
        Return s \<Rightarrow> one_sent reported cfg i s w w'
      | Raise e \<Rightarrow> nothing_sent w w'
      | Crash \<Rightarrow> length (wSent w') \<le> Suc (length (wSent w)) \<and> unpublished w w')"

definition reply_outcome :: "bool \<Rightarrow> send_config \<Rightarrow> Instance \<Rightarrow> MessageSendStruct reply outcome \<Rightarrow> world \<Rightarrow> world \<Rightarrow> bool" where
  "reply_outcome reported cfg i r w w' =
     (case r of
        Return (Success s) \<Rightarrow> one_sent reported cfg i s w w'
      | Return (BadRequest e) \<Rightarrow> w' = w
      | Return (ServerError e) \<Rightarrow> nothing_sent w w'
      | Crash \<Rightarrow> length (wSent w') \<le> Suc (length (wSent w)) \<and> unpublished w w'
      | _ \<Rightarrow> False)"

definition sends :: "bool \<Rightarrow> send_config \<Rightarrow> Instance \<Rightarrow> (world, MessageSendStruct) go \<Rightarrow> bool" where
  "sends q cfg i m = (\<forall>w r w'. m w = (r, w') \<longrightarrow> send_outcome q cfg i r w w')"

definition answers :: "bool \<Rightarrow> send_config \<Rightarrow> Instance \<Rightarrow> (world, MessageSendStruct reply) go \<Rightarrow> bool" where
  "answers q cfg i m = (\<forall>w r w'. m w = (r, w') \<longrightarrow> reply_outcome q cfg i r w w')"

lemma answers_reply:
  assumes "sends q cfg i m"
  shows "answers q cfg i (reply_server m)"
proof -
  have "reply_outcome q cfg i r w w'" if "reply_server m w = (r, w')" for r w w'
  proof -
    obtain a w1 where run: "m w = (a, w1)" by (cases "m w")
    with assms have "send_outcome q cfg i a w w1" by (simp add: sends_def)
    with that run show ?thesis
      by (cases a) (auto simp: reply_server_def attempt_def run_basic send_outcome_def reply_outcome_def)
  qed
  then show ?thesis by (simp add: answers_def)
qed

lemma answers_errors: "answers q cfg i (ret (BadRequest e))" "answers q cfg i (ret (ServerError e))" "answers q cfg i crash"
  by (simp_all add: answers_def reply_outcome_def run_basic nothing_sent_def unpublished_def)

lemma answers_required: "answers q cfg i m \<Longrightarrow> answers q cfg i (required checks m)"
  by (induction checks m rule: required.induct) (simp_all add: answers_errors)

lemma answers_body: "(\<And>d. answers q cfg i (k d)) \<Longrightarrow> answers q cfg i (with_body b k)"
  unfolding with_body_def by (auto intro: answers_errors split: sum.split option.split)

lemmas answers_intros = answers_reply answers_required answers_body

lemma sends_at_most_one:
  assumes "\<And>w w' r. m w = (r, w') \<Longrightarrow> at_most_one cfg i data r w w'"
  shows "sends True cfg i m"
proof -
  have "send_outcome True cfg i r w w'" if "m w = (r, w')" for r w w'
    using assms [OF that] by (cases r)
      (auto simp: send_outcome_def one_sent_def at_most_one_def sent_one_def nothing_sent_def outgoing_def unpublished_def)
  then show ?thesis by (simp add: sends_def)
qed

text \<open>A step that sends nothing may come before.\<close>

lemma send_outcome_after:
  assumes "outgoing w1 = outgoing w" and "send_outcome q cfg i r w1 w'"
  shows "send_outcome q cfg i r w w'"
  using assms by (cases r)
    (auto simp: send_outcome_def one_sent_def published_def unpublished_def nothing_sent_def outgoing_def)

lemma send_outcome_same: "outgoing w' = outgoing w \<Longrightarrow> (\<forall>s. r \<noteq> Return s) \<Longrightarrow> send_outcome q cfg i r w w'"
  by (cases r) (auto simp: send_outcome_def nothing_sent_def unpublished_def outgoing_def)

lemma sends_after:
  assumes "keeps (same outgoing) m" and "\<And>x. sends q cfg i (k x)"
  shows "sends q cfg i (bindg m k)"
proof -
  have "send_outcome q cfg i r w w'" if "bindg m k w = (r, w')" for r w w'
    using that
  proof (cases rule: bindE)
    case (go_on x w1)
    from keepsD [OF assms(1) go_on(1)] have "outgoing w1 = outgoing w" by (simp add: same_def)
    with go_on(2) assms(2) [of x] show ?thesis by (auto simp: sends_def intro: send_outcome_after)
  qed (auto intro!: send_outcome_same simp: same_def dest: keepsD [OF assms(1)])
  then show ?thesis by (simp add: sends_def)
qed

lemma sends_attempt:
  assumes "keeps (same outgoing) m" and "\<And>x. sends q cfg i (k x)"
  shows "sends q cfg i (attempt m k)"
proof -
  have "send_outcome q cfg i r w w'" if "attempt m k w = (r, w')" for r w w'
    using that
  proof (cases rule: attemptE)
    case (ok x w1)
    from keepsD [OF assms(1) ok(1)] have "outgoing w1 = outgoing w" by (simp add: same_def)
    with ok(2) assms(2) show ?thesis by (auto simp: sends_def intro: send_outcome_after)
  next
    case (failed e w1)
    from keepsD [OF assms(1) failed(1)] have "outgoing w1 = outgoing w" by (simp add: same_def)
    with failed(2) assms(2) show ?thesis by (auto simp: sends_def intro: send_outcome_after)
  next
    case panic
    with keepsD [OF assms(1) panic(1)] show ?thesis by (auto intro: send_outcome_same simp: same_def)
  qed
  then show ?thesis by (simp add: sends_def)
qed

lemma sends_fails: "sends q cfg i (raise e)"
  by (simp add: sends_def run_basic send_outcome_def nothing_sent_def)

lemma sends_message: "marshals env \<Longrightarrow> sends True cfg i (SendMessage env cfg i msg t data)"
  by (rule sends_at_most_one) (rule at_most_one_SendMessage)

lemma sends_interactive: "sends False cfg i (send_interactive env cfg i data msg mid t)"
proof -
  have last: "sends False cfg i (bindg (client_send env to msg mid) (\<lambda>n. message_sent env data to msg mid g t n))" for to g
  proof -
    have "send_outcome False cfg i r w w'"
      if "bindg (client_send env to msg mid) (\<lambda>n. message_sent env data to msg mid g t n) w = (r, w')" for r w w'
      using that
      by (auto simp: client_send_def message_sent_def run_basic run_ask run_ask_result send_outcome_def one_sent_def
          nothing_sent_def outgoing_def unpublished_def elim!: bindE split: option.splits sum.splits)
    then show ?thesis by (simp add: sends_def)
  qed
  show ?thesis unfolding send_interactive_def
    by (intro sends_after last keeps_outgoing [OF validate_quiet] presence_quiet)
qed

lemma buttons_quiet: "keeps (same outgoing) (build_buttons env bs)"
  by (induction bs) (auto intro!: part.keeps_intros keeps_ask outgoing_clock)

lemma loops_send:
  assumes "marshals env"
  shows "sends True cfg i (SendText env cfg td i)" "sends True cfg i (SendLink env cfg ld i)"
    "sends True cfg i (SendPoll env cfg pd i)" "sends True cfg i (SendMediaFile env cfg md fd i)"
    "sends True cfg i (SendMediaUrl env cfg md i)"
  by (rule sends_at_most_one, erule sends_at_most_one_message [OF assms])+

lemma services_send:
  assumes "marshals env"
  shows "sends True cfg i (SendSticker env cfg sd i)" "sends True cfg i (SendLocation env cfg ld i)"
    "sends True cfg i (SendContact env cfg cd i)" "sends False cfg i (SendButton env cfg bd i)"
    "sends False cfg i (SendList env cfg kd i)"
  unfolding SendSticker_def SendLocation_def SendContact_def SendButton_def SendList_def
  by (auto intro!: sends_after sends_attempt sends_fails sends_message [OF assms] sends_interactive quiet_connection
      upload_quiet buttons_quiet keeps_ask part.keeps_intros outgoing_clock simp: ask_result_def split: sum.split)

lemma handlers_answer:
  assumes "marshals env"
  shows "answers True cfg i (handle_SendText env cfg i td)" "answers True cfg i (handle_SendLink env cfg i ld)"
    "answers True cfg i (handle_SendMedia env cfg i md)" "answers True cfg i (handle_SendPoll env cfg i pd)"
    "answers True cfg i (handle_SendSticker env cfg i sd)" "answers True cfg i (handle_SendLocation env cfg i od)"
    "answers True cfg i (handle_SendContact env cfg i cd)" "answers False cfg i (handle_SendButton env cfg i bd)"
    "answers False cfg i (handle_SendList env cfg i kd)"
proof -
  have form: "answers True cfg i (handle_media_form env cfg i form)" for form
    unfolding handle_media_form_def
    by (intro answers_required) (auto intro!: answers_reply answers_errors loops_send [OF assms]
        split: form_file.split option.split)
  show "answers True cfg i (handle_SendMedia env cfg i md)"
    by (cases md) (auto simp only: handle_SendMedia_def media_request.case
        intro!: form answers_intros loops_send [OF assms])
qed (unfold handle_SendText_def handle_SendLink_def handle_SendPoll_def handle_SendSticker_def
    handle_SendLocation_def handle_SendContact_def handle_SendButton_def handle_SendList_def,
    (intro answers_intros loops_send [OF assms] services_send [OF assms])+)



end
