(* ===== verification/Spec2Isabelle.thy ===== *)
theory Spec2Isabelle
  imports Prelude Jid Numbers InstanceModel Middleware EventTypes Producers Routing GoMonad Messages
    MessageType Client SendService SendProperties ProxyJson Storage Sessions InstanceService
    InstanceHandler ServiceInvariants SessionRun EventHandler
    SessionInvariants InstanceProperties SessionProperties HandlerProperties
    BinaryTokens BinaryNode BinaryEncoder BinaryDecoder BinaryRoundTrip BinaryDecoding BinaryProperties
    FrameSocket FrameProperties LtHash AppState AppStatePatch AppStateProperties
    LibClient LibGroups LibStanzas LibUser MessageService ChatLabelService GroupService UserService
    ApiHandlers ApiFrames ApiProperties SendHandler
begin

text \<open>
  Evolution GO: a model of the WhatsApp gateway's core logic.

  The program. HTTP handlers bind JSON requests, after a middleware has normalised the phone numbers
  in them (\<open>pkg/middleware\<close>), and call services (\<open>pkg/sendMessage\<close>, \<open>pkg/instance\<close>, ...).
  A service gets the WhatsApp client of the instance from the shared map \<open>clientPointer\<close>, starting
  the session when there is none, and hands messages to it. Events that come back from WhatsApp, and
  the messages that were sent, go through \<open>CallWebhook\<close> and \<open>SendToGlobalQueues\<close>
  (\<open>pkg/whatsmeow/service/whatsmeow.go\<close>) to the producers the instance has switched on: RabbitMQ,
  NATS, WebSocket and webhook (\<open>pkg/events\<close>). Instances are rows of a database table
  (\<open>pkg/instance\<close>). The repository carries its own copy of the WhatsApp client library
  (\<open>whatsmeow-lib\<close>); below the services the model goes down through that library's requests (queries
  and their waiters, groups, users, receipts) to its wire format: frames of the encrypted connection,
  binary XML, and the encrypted patches of the application state.

  The theories, in the order of their imports:

  \<^item> \<open>Prelude\<close>: Go strings as byte lists and the functions of \<open>strings\<close> and \<open>strconv\<close> the code uses;
    results \<open>(T, error)\<close> as sums.
  \<^item> \<open>Jid\<close>: \<open>whatsmeow-lib/types/jid.go\<close>, with parsing and printing of JIDs as inverse functions.
  \<^item> \<open>Numbers\<close>: \<open>pkg/utils/utils.go\<close>, the normalisation \<open>CreateJID\<close> (national number formats, groups),
    \<open>utils.ParseJID\<close> and the preparation for the registration check. The lemmas show that
    normalisation is idempotent, what it can produce and when it fails.
  \<^item> \<open>InstanceModel\<close>: JSON values and the instance row.
  \<^item> \<open>Middleware\<close>: \<open>pkg/middleware/jid_validation_middleware.go\<close> as functions from a request to a
    response or the request passed on; what passes is normal and passes again unchanged.
  \<^item> \<open>EventTypes\<close>: \<open>pkg/internal/event_types\<close> and the tables from events to groups and queues.
  \<^item> \<open>Producers\<close>: the four producers; the locale \<open>producer\<close> is the interface of
    \<open>pkg/events/interfaces/producer.go\<close> with the law that producing an event delivers only copies of
    it, and is interpreted on each of them.
  \<^item> \<open>Routing\<close>: \<open>CallWebhook\<close>, \<open>sendToQueueOrWebhook\<close>, \<open>SendToGlobalQueues\<close>; the dispatcher of an
    instance is itself an interpretation of the interface.
  \<^item> \<open>GoMonad\<close>: programs that change a state and return a value, an error or panic; the locale
    \<open>frame\<close> carries the proofs that an operation leaves a part of the state alone.
  \<^item> \<open>Messages\<close>, \<open>MessageType\<close>: the messages that are sent, and the classification of received ones.
  \<^item> \<open>Client\<close>: the outside world as a parameter (the answer to the n-th question of a run), what the
    service does to it as a state (\<open>world\<close>), and \<open>ensureClientConnected\<close> with its retries.
  \<^item> \<open>SendService\<close>, \<open>SendProperties\<close>: \<open>pkg/sendMessage/service/send_service.go\<close>: every kind of
    message, validation, the retry loop, \<open>SendMessage\<close>.
  \<^item> \<open>ProxyJson\<close>: the JSON text of a proxy, written and read as \<open>encoding/json\<close> does.
  \<^item> \<open>Storage\<close>: the tables of instances, labels and messages with their unique keys, the queries of
    \<open>pkg/instance/repository\<close>, \<open>pkg/label/repository\<close> and \<open>pkg/message/repository\<close> on them. Whether a
    statement fails is an answer of the driver (\<open>db_env\<close>).
  \<^item> \<open>Sessions\<close>: the shared maps of the process (clients, kill channels, cached user data) with the
    tables as the state \<open>server\<close>, and the operations of \<open>whatsmeow.go\<close> on them; channels without a
    buffer, on which a sending waits for a receiver.
  \<^item> \<open>InstanceService\<close>, \<open>InstanceHandler\<close>: \<open>pkg/instance/service\<close>, \<open>pkg/middleware/auth_middleware.go\<close>,
    \<open>pkg/instance/handler\<close> and the routes of the instances.
  \<^item> \<open>ServiceInvariants\<close>, \<open>InstanceProperties\<close>: the locale \<open>session_rely\<close> carries a relation between
    states through every operation of the service, given that the steps on the maps and tables keep
    it; its interpretations give the invariants of the tables and of the channels.
  \<^item> \<open>SessionRun\<close>: \<open>StartClient\<close> as the goroutine of one session: the client and its connection with
    the fallbacks without a proxy, the QR codes, the wait for the kill signal.
  \<^item> \<open>EventHandler\<close>: \<open>myEventHandler\<close> with every event type it distinguishes, on a heap of the structs
    that the handler shares with the goroutine of the session.
  \<^item> \<open>SessionInvariants\<close>, \<open>SessionProperties\<close>, \<open>HandlerProperties\<close>: what the goroutine and the handler
    leave alone, the limit on QR codes, the end of a session, and what each kind of event causes.
  \<^item> \<open>BinaryTokens\<close>, \<open>BinaryNode\<close>: \<open>whatsmeow-lib/binary/token\<close>, \<open>node.go\<close>, \<open>attrs.go\<close>: the token
    tables as \<open>init\<close> fills them, elements, and the readers of attributes.
  \<^item> \<open>BinaryEncoder\<close>, \<open>BinaryDecoder\<close>, \<open>BinaryRoundTrip\<close>, \<open>BinaryDecoding\<close>, \<open>BinaryProperties\<close>:
    \<open>encoder.go\<close>, \<open>decoder.go\<close>, \<open>unpack.go\<close>. Decoding inverts encoding on the elements that can be
    sent; whatever is decoded from arbitrary bytes is well formed.
  \<^item> \<open>FrameSocket\<close>, \<open>FrameProperties\<close>: \<open>whatsmeow-lib/socket\<close>: framing, reassembly from the chunks of
    the web socket, the counters of the encrypted frames.
  \<^item> \<open>LtHash\<close>: \<open>whatsmeow-lib/appstate/lthash\<close>, a sum of vectors of 64 words of 16 bits, wrapping.
  \<^item> \<open>AppState\<close>, \<open>AppStatePatch\<close>, \<open>AppStateProperties\<close>: \<open>whatsmeow-lib/appstate\<close> without the ciphers:
    the constructors of patches, the cache of keys, encoding, decoding and checking of patches and
    snapshots, the stored versions and MACs.
  \<^item> \<open>LibClient\<close>: \<open>whatsmeow-lib/request.go\<close>, the sending of elements and the errors of queries. The state
    \<open>api_state\<close> holds the tables, the world of the services, what each client keeps in memory and the
    log of what the clients were told to do. The locale \<open>query_rely\<close> carries a relation between states
    through every query, its extension \<open>client_rely\<close> through every operation of a client.
  \<^item> \<open>LibGroups\<close>, \<open>LibUser\<close>, \<open>LibStanzas\<close>: \<open>group.go\<close>; \<open>user.go\<close>, \<open>privacysettings.go\<close>,
    \<open>newsletter.go\<close> and the requests of \<open>presence.go\<close>, \<open>receipt.go\<close> and \<open>call.go\<close>; and the elements
    that are received: \<open>message.go\<close>, receipts, presence, calls.
  \<^item> \<open>MessageService\<close>, \<open>ChatLabelService\<close>, \<open>GroupService\<close>, \<open>UserService\<close>: the services
    \<open>pkg/message\<close>, \<open>pkg/chat\<close>, \<open>pkg/label\<close>, \<open>pkg/group\<close>, \<open>pkg/community\<close>, \<open>pkg/newsletter\<close>, \<open>pkg/call\<close>
    and \<open>pkg/user\<close>. Each operation gets a connected client with \<open>with_client\<close> and acts through it.
  \<^item> \<open>ApiHandlers\<close>: the 53 handlers in front of these services as functions from what binding the
    request yields to a reply; \<open>api_request\<close> has a constructor for each and \<open>serve\<close> runs it.
  \<^item> \<open>ApiFrames\<close>, \<open>ApiProperties\<close>: what a request may touch, as interpretations of \<open>client_rely\<close> carry
    it through every service, and the theorems about the services and the client library.
  \<^item> \<open>SendHandler\<close>: the handlers of \<open>pkg/sendMessage/handler\<close>; \<open>serve_send\<close> composes them with the send
    service, and its theorem follows a request to the message that leaves.

  Correspondence. A struct is a record with the struct's fields (prefixed where names would clash), a
  Go function the definition of the same name, a segment of a long function a definition of its own
  that the function's definition composes; the loops over attempts are recursions on the number of
  attempts left, which is the code's bound (three publications, five deliveries, two or three
  connection attempts), so these operations are total functions. Reading from the network,
  the encrypted transport, the database drivers and the converters are parameters. So are the parts of
  the client library that are listed at the end: in \<open>Client\<close> and the send service the library is a
  parameter, in \<open>LibClient\<close> and above only the answers of the server and of the store of the device
  (\<open>lib_env\<close>) are. \<open>clientPointer\<close> is changed by other goroutines; each look at
  it is a question to the outside, so the theorems hold for every interleaving of those changes with
  the operation.

  Bounds and fuel. The goroutine of a session waits for events without end, so \<open>run_session\<close> takes the
  number of steps to follow, and its theorems hold for every number. The reader of the binary format
  takes the number of bytes that are there; \<open>decoder_terminates\<close> shows that this is enough on every
  input, because each element costs at least one byte. Lengths, versions, timers, hash words and frame
  counters are words of the code's width.

  What the theorems show. Normalisation and validation: idempotence, shape, errors, round trips.
  Dispatch: which events reach which producer for the stored subscriptions, that nothing but the
  event is delivered, that queues used are queues declared. Sending: from
  the body of a request on, one message and one event per success, nothing on an error, bounds on retries, and the rules for recipients and buttons. Instances:
  the repository refines a map from ids to rows while the driver answers, the keys stay unique and no
  two instances share a kill channel in every reachable state, what deletion removes, that a proxy
  is read back as it was stored, who may change settings. Sessions and events: the limit on QR codes,
  which events are reported to whom and how often. Wire format: decoding inverts encoding, the decoder
  ends on every input with a well-formed element or an error, frames sent are the frames received for
  every cutting of the stream. Application state: the stored hash is the sum of the stored MACs, the
  hash does not depend on the order of mutations. Services: a request acts through one client, which was
  seen connected, and changes no table; a request that is refused changes nothing; the cached members
  of groups refine sets; answered queries leave no waiter behind; privacy settings end up as requested;
  the identifiers of a receipt survive the wire. Some theorems pin down behaviour the code does not
  intend (lost publications, a lost WebSocket registration, a query error that makes a key unusable,
  own groups that are not found, a wrong list of successes, receipts with the wrong sender, panics).

  Not modelled. The handler of log files, and the route table outside the instances. Configuration and start-up only wire the parts; logging, telemetry and media
  storage are input and output. Of \<open>whatsmeow-lib\<close>: the encryption and decryption of messages,
  connecting and pairing, the media transfers, the SQL store apart from the application state, the
  GraphQL queries of channels, bot and business profiles; they rest on ciphers, protocol buffers and
  services that are not in the repository's sources. Generated documentation. Structs of which only
  some fields are read have those fields (\<open>contact\<close>, \<open>send_response\<close>, the message information of a
  history request). Time stamps are left out of the message information of the event handler. Case
  conversion is that of ASCII, which event names, queue names and addresses are made of.
\<close>

end
